(* ===== verification/Prelude.thy ===== *)
theory Prelude
  imports Main
begin

text \<open>
  Shared vocabulary of the development.

  The TypeScript of the repository is asynchronous code over a few AWS services; an
  \<open>await\<close> either yields a value or throws. A computation is therefore a function from the
  outside world to a result and the new world, where the result is \<open>Inl\<close> of what was thrown or
  \<open>Inr\<close> of what was returned. A thrown exception does not undo the effects made before it.
  The collections \<open>em_run\<close> (one step of evaluation), \<open>em_ok\<close> and \<open>em_err\<close> (what a returning or
  throwing run must have done) and \<open>keeps_intro\<close> (frame conditions) carry the component proofs.
\<close>

named_theorems em_run "one evaluation step of a computation"
named_theorems em_ok "inversion of a run that returned"
named_theorems em_err "inversion of a run that threw"
named_theorems keeps_intro "frame rules"
named_theorems em_case "a case distinction that starts a run, as a disjunction of its branches"

section \<open>Computations\<close>

type_synonym ('w, 'e, 'a) em = "'w \<Rightarrow> ('e + 'a) \<times> 'w"

definition ret :: "'a \<Rightarrow> ('w, 'e, 'a) em" where
  "ret x = (\<lambda>w. (Inr x, w))"

definition raise :: "'e \<Rightarrow> ('w, 'e, 'a) em" where
  "raise e = (\<lambda>w. (Inl e, w))"

definition bindM :: "('w, 'e, 'a) em \<Rightarrow> ('a \<Rightarrow> ('w, 'e, 'b) em) \<Rightarrow> ('w, 'e, 'b) em" where
  "bindM m f = (\<lambda>w. case m w of (Inl e, w') \<Rightarrow> (Inl e, w') | (Inr x, w') \<Rightarrow> f x w')"

definition thenM :: "('w, 'e, 'a) em \<Rightarrow> ('w, 'e, 'b) em \<Rightarrow> ('w, 'e, 'b) em" where
  "thenM m k = bindM m (\<lambda>_. k)"

text \<open>\<open>try { m } catch (error) { h(error) }\<close>.\<close>

definition catchM :: "('w, 'e, 'a) em \<Rightarrow> ('e \<Rightarrow> ('w, 'e, 'a) em) \<Rightarrow> ('w, 'e, 'a) em" where
  "catchM m h = (\<lambda>w. case m w of (Inl e, w') \<Rightarrow> h e w' | (Inr x, w') \<Rightarrow> (Inr x, w'))"

text \<open>\<open>if (bad) throw e;\<close> and \<open>if (b) await m;\<close>.\<close>

definition throwIf :: "bool \<Rightarrow> 'e \<Rightarrow> ('w, 'e, unit) em" where
  "throwIf bad e = (if bad then raise e else ret ())"

definition whenM :: "bool \<Rightarrow> ('w, 'e, unit) em \<Rightarrow> ('w, 'e, unit) em" where
  "whenM b m = (if b then m else ret ())"

text \<open>\<open>value ?? throw e\<close>: the value of an optional, or the exception.\<close>

definition orRaise :: "'a option \<Rightarrow> 'e \<Rightarrow> ('w, 'e, 'a) em" where
  "orRaise v e = (case v of None \<Rightarrow> raise e | Some x \<Rightarrow> ret x)"

text \<open>
  \<open>mapM\<close> is \<open>for (...) await\<close> and, for the read-only bodies the code gives it, \<open>Promise.all\<close>;
  \<open>forM\<close> is the same loop without a result.
\<close>

fun mapM :: "('a \<Rightarrow> ('w, 'e, 'b) em) \<Rightarrow> 'a list \<Rightarrow> ('w, 'e, 'b list) em" where
  "mapM f [] = ret []"
| "mapM f (x # xs) = bindM (f x) (\<lambda>y. bindM (mapM f xs) (\<lambda>ys. ret (y # ys)))"

fun forM :: "('a \<Rightarrow> ('w, 'e, unit) em) \<Rightarrow> 'a list \<Rightarrow> ('w, 'e, unit) em" where
  "forM f [] = ret ()"
| "forM f (x # xs) = thenM (f x) (forM f xs)"

text \<open>A pure check that may throw, inside a computation.\<close>

definition liftE :: "'e + 'a \<Rightarrow> ('w, 'e, 'a) em" where
  "liftE r = (\<lambda>w. (r, w))"

section \<open>Evaluation and inversion\<close>

lemma ret_run [em_run, simp]: "ret x w = (Inr x, w)"
  by (simp add: ret_def)

lemma raise_run [em_run, simp]: "raise e w = (Inl e, w)"
  by (simp add: raise_def)

lemma liftE_run [em_run, simp]: "liftE r w = (r, w)"
  by (simp add: liftE_def)

lemma throwIf_run [em_run]: "throwIf b e w = (if b then (Inl e, w) else (Inr (), w))"
  by (simp add: throwIf_def)

lemma orRaise_run [em_run]:
  "orRaise v e w = (case v of None \<Rightarrow> (Inl e, w) | Some x \<Rightarrow> (Inr x, w))"
  by (simp add: orRaise_def split: option.split)

lemma whenM_run [em_run]: "whenM b m w = (if b then m w else (Inr (), w))"
  by (simp add: whenM_def)

lemma bindM_run_ok [em_run]: "m w = (Inr x, w') \<Longrightarrow> bindM m f w = f x w'"
  by (simp add: bindM_def)

lemma bindM_run_err [em_run]: "m w = (Inl e, w') \<Longrightarrow> bindM m f w = (Inl e, w')"
  by (simp add: bindM_def)

lemma thenM_run_ok [em_run]: "m w = (Inr x, w') \<Longrightarrow> thenM m k w = k w'"
  by (simp add: thenM_def bindM_def)

lemma thenM_run_err [em_run]: "m w = (Inl e, w') \<Longrightarrow> thenM m k w = (Inl e, w')"
  by (simp add: thenM_def bindM_def)

lemma catchM_run_ok [em_run]: "m w = (Inr x, w') \<Longrightarrow> catchM m h w = (Inr x, w')"
  by (simp add: catchM_def)

lemma catchM_run_err [em_run]: "m w = (Inl e, w') \<Longrightarrow> catchM m h w = h e w'"
  by (simp add: catchM_def)

lemma bindM_ok [em_ok]:
  "bindM m f w = (Inr y, w'') \<longleftrightarrow> (\<exists>x w'. m w = (Inr x, w') \<and> f x w' = (Inr y, w''))"
  by (auto simp: bindM_def split: prod.splits sum.splits)

lemma thenM_ok [em_ok]:
  "thenM m k w = (Inr y, w'') \<longleftrightarrow> (\<exists>x w'. m w = (Inr x, w') \<and> k w' = (Inr y, w''))"
  by (simp add: thenM_def bindM_ok)

lemma catchM_ok [em_ok]:
  "catchM m h w = (Inr y, w'') \<longleftrightarrow>
     m w = (Inr y, w'') \<or> (\<exists>e w'. m w = (Inl e, w') \<and> h e w' = (Inr y, w''))"
  by (auto simp: catchM_def split: prod.splits sum.splits)

lemma throwIf_ok [em_ok]: "throwIf b e w = (Inr u, w') \<longleftrightarrow> \<not> b \<and> w' = w"
  by (auto simp: throwIf_def)

lemma orRaise_ok [em_ok]: "orRaise v e w = (Inr x, w') \<longleftrightarrow> v = Some x \<and> w' = w"
  by (auto simp: orRaise_def split: option.splits)

lemma whenM_ok [em_ok]:
  "whenM b m w = (Inr u, w') \<longleftrightarrow> (if b then m w = (Inr (), w') else w' = w)"
  by (auto simp: whenM_def)

lemma bindM_err [em_err]:
  "bindM m f w = (Inl e, w'') \<longleftrightarrow>
     m w = (Inl e, w'') \<or> (\<exists>x w'. m w = (Inr x, w') \<and> f x w' = (Inl e, w''))"
  by (auto simp: bindM_def split: prod.splits sum.splits)

lemma thenM_err [em_err]:
  "thenM m k w = (Inl e, w'') \<longleftrightarrow>
     m w = (Inl e, w'') \<or> (\<exists>x w'. m w = (Inr x, w') \<and> k w' = (Inl e, w''))"
  by (simp add: thenM_def bindM_err)

lemma catchM_err [em_err]:
  "catchM m h w = (Inl e, w'') \<longleftrightarrow> (\<exists>e' w'. m w = (Inl e', w') \<and> h e' w' = (Inl e, w''))"
  by (auto simp: catchM_def split: prod.splits sum.splits)

lemma throwIf_err [em_err]: "throwIf b e w = (Inl e', w') \<longleftrightarrow> b \<and> e' = e \<and> w' = w"
  by (auto simp: throwIf_def)

lemma orRaise_err [em_err]: "orRaise v e w = (Inl e', w') \<longleftrightarrow> v = None \<and> e' = e \<and> w' = w"
  by (auto simp: orRaise_def split: option.splits)

lemma whenM_err [em_err]: "whenM b m w = (Inl e, w') \<longleftrightarrow> b \<and> m w = (Inl e, w')"
  by (auto simp: whenM_def)

lemma case_option_run [em_case]:
  "(case x of None \<Rightarrow> m | Some v \<Rightarrow> f v) w = r \<longleftrightarrow> x = None \<and> m w = r \<or> (\<exists>v. x = Some v \<and> f v w = r)"
  by (cases x) auto

lemma case_prod_run [em_case]:
  "(case p of (a, b) \<Rightarrow> f a b) w = r \<longleftrightarrow> (\<exists>a b. p = (a, b) \<and> f a b w = r)"
  by (cases p) auto

lemma if_run [em_case]: "(if b then m else k) w = r \<longleftrightarrow> b \<and> m w = r \<or> \<not> b \<and> k w = r"
  by auto

lemma raise_not_ok [em_case]: "raise e w = (Inr x, w') \<longleftrightarrow> False"
  by simp

lemma ret_not_err [em_case]: "ret x w = (Inl e, w') \<longleftrightarrow> False"
  by simp

lemma bindM_assoc: "bindM (bindM m f) g = bindM m (\<lambda>x. bindM (f x) g)"
  by (auto simp: bindM_def fun_eq_iff split: prod.splits sum.splits)

lemma bindM_ret [simp]: "bindM (ret x) f = f x" "bindM m ret = m"
  by (auto simp: bindM_def ret_def fun_eq_iff split: prod.splits sum.splits)

lemma mapM_length: "mapM f xs w = (Inr ys, w') \<Longrightarrow> length ys = length xs"
  by (induction xs arbitrary: ys w) (auto simp: em_ok)

section \<open>Frame conditions\<close>

text \<open>\<open>keeps v m\<close>: whatever \<open>m\<close> does, the part \<open>v\<close> of the world is as before.\<close>

definition keeps :: "('w \<Rightarrow> 'v) \<Rightarrow> ('w, 'e, 'a) em \<Rightarrow> bool" where
  "keeps v m \<longleftrightarrow> (\<forall>w. v (snd (m w)) = v w)"

lemma keepsD: "keeps v m \<Longrightarrow> m w = (r, w') \<Longrightarrow> v w' = v w"
  unfolding keeps_def by (metis snd_conv)

lemma keepsI: "(\<And>w r w'. m w = (r, w') \<Longrightarrow> v w' = v w) \<Longrightarrow> keeps v m"
  unfolding keeps_def by (metis prod.collapse)

lemma keeps_ret [keeps_intro]: "keeps v (ret x)"
  by (simp add: keeps_def)

lemma keeps_raise [keeps_intro]: "keeps v (raise e)"
  by (simp add: keeps_def)

lemma keeps_liftE [keeps_intro]: "keeps v (liftE r)"
  by (simp add: keeps_def)

lemma keeps_throwIf [keeps_intro]: "keeps v (throwIf b e)"
  by (simp add: keeps_def throwIf_def)

lemma keeps_orRaise [keeps_intro]: "keeps v (orRaise x e)"
  by (simp add: keeps_def orRaise_def split: option.split)

lemma keeps_bindM [keeps_intro]: "keeps v m \<Longrightarrow> (\<And>x. keeps v (f x)) \<Longrightarrow> keeps v (bindM m f)"
  unfolding keeps_def bindM_def
  by (auto split: prod.splits sum.splits) (metis snd_conv)+

lemma keeps_thenM [keeps_intro]: "keeps v m \<Longrightarrow> keeps v k \<Longrightarrow> keeps v (thenM m k)"
  unfolding thenM_def by (intro keeps_intro)

lemma keeps_catchM [keeps_intro]:
  "keeps v m \<Longrightarrow> (\<And>e. keeps v (h e)) \<Longrightarrow> keeps v (catchM m h)"
  unfolding keeps_def catchM_def
  by (auto split: prod.splits sum.splits) (metis snd_conv)+

lemma keeps_whenM [keeps_intro]: "(b \<Longrightarrow> keeps v m) \<Longrightarrow> keeps v (whenM b m)"
  by (simp add: whenM_def keeps_ret)

lemma keeps_If [keeps_intro]:
  "(b \<Longrightarrow> keeps v m) \<Longrightarrow> (\<not> b \<Longrightarrow> keeps v k) \<Longrightarrow> keeps v (if b then m else k)"
  by simp

lemma keeps_case_option [keeps_intro]:
  "(x = None \<Longrightarrow> keeps v m) \<Longrightarrow> (\<And>y. x = Some y \<Longrightarrow> keeps v (f y)) \<Longrightarrow>
   keeps v (case x of None \<Rightarrow> m | Some y \<Rightarrow> f y)"
  by (cases x) auto

lemma keeps_mapM [keeps_intro]: "(\<And>x. keeps v (f x)) \<Longrightarrow> keeps v (mapM f xs)"
  by (induction xs) (auto intro!: keeps_intro)

lemma keeps_forM [keeps_intro]: "(\<And>x. keeps v (f x)) \<Longrightarrow> keeps v (forM f xs)"
  by (induction xs) (auto intro!: keeps_intro)

text \<open>Every result of a loop comes from its element, run where the kept part is as at the start.\<close>

lemma mapM_all2:
  assumes "mapM f xs w = (Inr ys, w')" "\<And>x. keeps v (f x)"
  shows "list_all2 (\<lambda>x y. \<exists>w1 w2. f x w1 = (Inr y, w2) \<and> v w1 = v w) xs ys"
  using assms(1)
proof (induction xs arbitrary: w ys)
  case (Cons x xs)
  then obtain y w1 ys' where y: "f x w = (Inr y, w1)" and r: "mapM f xs w1 = (Inr ys', w')"
    and ys: "ys = y # ys'" by (auto simp: em_ok)
  from Cons.IH [OF r] keepsD [OF assms(2) y] y ys show ?case by auto
qed simp

lemma mapM_mem:
  assumes "mapM f xs w = (Inr ys, w')" "\<And>x. keeps v (f x)" "y \<in> set ys"
  shows "\<exists>x \<in> set xs. \<exists>w1 w2. f x w1 = (Inr y, w2) \<and> v w1 = v w"
  using mapM_all2 [OF assms(1,2)] assms(3) by (induction rule: list_all2_induct) auto

text \<open>
  \<open>moves v t T m\<close>: started where \<open>v\<close> is \<open>t\<close>, the computation leaves it at \<open>t\<close> or moves it into \<open>T\<close>,
  whether it returns or throws.
\<close>

definition moves :: "('w \<Rightarrow> 'v) \<Rightarrow> 'v \<Rightarrow> 'v set \<Rightarrow> ('w, 'e, 'a) em \<Rightarrow> bool" where
  "moves v t T m \<longleftrightarrow> (\<forall>w r w'. v w = t \<longrightarrow> m w = (r, w') \<longrightarrow> v w' = t \<or> v w' \<in> T)"

lemma movesI:
  "(\<And>w r w'. v w = t \<Longrightarrow> m w = (r, w') \<Longrightarrow> v w' = t \<or> v w' \<in> T) \<Longrightarrow> moves v t T m"
  by (simp add: moves_def)

lemma movesD: "moves v (v w) T m \<Longrightarrow> m w = (r, w') \<Longrightarrow> v w' = v w \<or> v w' \<in> T"
  by (simp add: moves_def)

lemma moves_keeps: "keeps v m \<Longrightarrow> moves v t T m"
  by (auto simp: moves_def dest: keepsD)

lemma moves_bindM:
  assumes "keeps v m" "\<And>x w w'. v w = t \<Longrightarrow> m w = (Inr x, w') \<Longrightarrow> moves v t T (f x)"
  shows "moves v t T (bindM m f)"
proof (rule movesI)
  fix w r w' assume w: "v w = t" and run: "bindM m f w = (r, w')"
  obtain r1 w1 where m: "m w = (r1, w1)" by fastforce
  have v1: "v w1 = t" using keepsD [OF assms(1) m] w by simp
  show "v w' = t \<or> v w' \<in> T"
  proof (cases r1)
    case (Inl e)
    with m run v1 show ?thesis by (simp add: bindM_def)
  next
    case (Inr x)
    with m run have "f x w1 = (r, w')" by (simp add: bindM_def)
    moreover have "moves v t T (f x)" using assms(2) [OF w m [unfolded Inr]] .
    ultimately show ?thesis using v1 by (auto simp: moves_def)
  qed
qed

lemma moves_thenM:
  "keeps v m \<Longrightarrow> (\<And>w w'. v w = t \<Longrightarrow> m w = (Inr (), w') \<Longrightarrow> moves v t T k) \<Longrightarrow> moves v t T (thenM m k)"
  for m :: "('w, 'e, unit) em"
  unfolding thenM_def by (rule moves_bindM) auto

lemma moves_then_pure:
  assumes "moves v t T m" "\<And>x. keeps v (f x)"
  shows "moves v t T (bindM m f)"
proof (rule movesI)
  fix w r w' assume w: "v w = t" and run: "bindM m f w = (r, w')"
  obtain r1 w1 where m: "m w = (r1, w1)" by fastforce
  have v1: "v w1 = t \<or> v w1 \<in> T" using assms(1) m w by (auto simp: moves_def)
  moreover have "v w' = v w1"
    using run m assms(2) by (cases r1) (auto simp: bindM_def dest: keepsD)
  ultimately show "v w' = t \<or> v w' \<in> T" by simp
qed

lemma moves_catchM:
  assumes "moves v t T m"
    and "\<And>e w w'. v w = t \<Longrightarrow> m w = (Inl e, w') \<Longrightarrow> keeps v (h e) \<or> v w' = t \<and> moves v t T (h e)"
  shows "moves v t T (catchM m h)"
proof (rule movesI)
  fix w r w' assume w: "v w = t" and run: "catchM m h w = (r, w')"
  obtain r1 w1 where m: "m w = (r1, w1)" by fastforce
  have v1: "v w1 = t \<or> v w1 \<in> T" using assms(1) m w by (auto simp: moves_def)
  show "v w' = t \<or> v w' \<in> T"
  proof (cases r1)
    case (Inr x)
    with m run v1 show ?thesis by (simp add: catchM_def)
  next
    case (Inl e)
    with m run have "h e w1 = (r, w')" by (simp add: catchM_def)
    with assms(2) [OF w m [unfolded Inl]] v1 show ?thesis by (auto simp: moves_def dest: keepsD)
  qed
qed

section \<open>Lists and optional values\<close>

text \<open>\<open>xs.some(p)\<close>, \<open>xs.every(p)\<close> and \<open>xs.find(p)\<close> of the source.\<close>

abbreviation some_in :: "('a \<Rightarrow> bool) \<Rightarrow> 'a list \<Rightarrow> bool" where
  "some_in \<equiv> list_ex"

lemma mem_map_filter: "y \<in> set (List.map_filter f xs) \<longleftrightarrow> (\<exists>x \<in> set xs. f x = Some y)"
  by (force simp: List.map_filter_def)

lemma find_Some_iff_mem: "List.find P xs = Some x \<Longrightarrow> x \<in> set xs \<and> P x"
  by (auto simp: find_Some_iff)

text \<open>
  The insertion order of a JavaScript \<open>Map\<close> or \<open>Set\<close> built from a list: the first occurrence of
  a key fixes its place.
\<close>

fun uniq :: "'a list \<Rightarrow> 'a list" where
  "uniq [] = []"
| "uniq (x # xs) = x # uniq (removeAll x xs)"

lemma set_uniq [simp]: "set (uniq xs) = set xs"
  by (induction xs rule: length_induct) (case_tac xs; fastforce simp: le_imp_less_Suc)

lemma length_uniq_le: "length (uniq xs) \<le> length xs"
proof (induction xs rule: uniq.induct)
  case (2 x xs)
  have "length (removeAll x xs) \<le> length xs"
    by (simp add: removeAll_filter_not_eq)
  from le_trans [OF 2 this] show ?case by simp
qed simp

lemma distinct_uniq [simp]: "distinct (uniq xs)"
  by (induction xs rule: uniq.induct) auto

lemma uniq_distinct: "distinct xs \<Longrightarrow> uniq xs = xs"
  by (induction xs) auto

text \<open>\<open>new Map(pairs)\<close>: the last pair of a key gives its value.\<close>

definition js_map :: "('k \<times> 'v) list \<Rightarrow> 'k \<rightharpoonup> 'v" where
  "js_map ps = map_of (rev ps)"

lemma dom_js_map [simp]: "dom (js_map ps) = fst ` set ps"
  by (simp add: js_map_def dom_map_of_conv_image_fst)

lemma js_map_None [simp]: "js_map ps k = None \<longleftrightarrow> k \<notin> fst ` set ps"
  by (simp add: js_map_def map_of_eq_None_iff)

lemma js_map_SomeD: "js_map ps k = Some v \<Longrightarrow> (k, v) \<in> set ps"
  by (auto simp: js_map_def dest: map_of_SomeD)

lemma js_map_distinct:
  "distinct (map fst ps) \<Longrightarrow> (k, v) \<in> set ps \<Longrightarrow> js_map ps k = Some v"
  by (simp add: js_map_def rev_map [symmetric])

end
