(* ===== verification/Text_Ops.thy ===== *)
theory Text_Ops
  imports Prelude "HOL-Library.List_Lexorder" "HOL-Library.Char_ord" "HOL-Library.Sublist"
begin

text \<open>
  What the source uses of JavaScript strings: regular expression classes as character
  predicates, \<open>startsWith\<close>, \<open>split\<close>, \<open>lastIndexOf\<close>, \<open>String(n)\<close> and \<open>padStart\<close>. A string is
  the list of its code units, and code units are ordered as DynamoDB and \<open>Array.sort\<close> order them.
  \<open>localeCompare\<close> is modelled by the same order: the code applies it to identifiers over
  lowercase letters, digits, hyphen and slash and to hexadecimal fingerprints, where the two agree.
\<close>

section \<open>Characters\<close>

definition is_lower :: "char \<Rightarrow> bool" where
  "is_lower c \<longleftrightarrow> CHR ''a'' \<le> c \<and> c \<le> CHR ''z''"

definition is_upper :: "char \<Rightarrow> bool" where
  "is_upper c \<longleftrightarrow> CHR ''A'' \<le> c \<and> c \<le> CHR ''Z''"

definition is_digit :: "char \<Rightarrow> bool" where
  "is_digit c \<longleftrightarrow> CHR ''0'' \<le> c \<and> c \<le> CHR ''9''"

definition is_alnum :: "char \<Rightarrow> bool" where
  "is_alnum c \<longleftrightarrow> is_lower c \<or> is_upper c \<or> is_digit c"

text \<open>\<open>[a-z0-9-]\<close>, the alphabet of identifiers.\<close>

definition is_ident_char :: "char \<Rightarrow> bool" where
  "is_ident_char c \<longleftrightarrow> is_lower c \<or> is_digit c \<or> c = CHR ''-''"

lemmas char_class_defs = is_lower_def is_upper_def is_digit_def is_alnum_def is_ident_char_def

lemma ident_char_not_sep:
  "is_ident_char c \<Longrightarrow> c \<noteq> CHR ''#''" "is_ident_char c \<Longrightarrow> c \<noteq> CHR ''/''"
  "is_ident_char c \<Longrightarrow> c \<noteq> CHR ''_''"
  by (auto simp: char_class_defs less_eq_char_def)

lemma is_lower_ident [simp]: "is_lower c \<Longrightarrow> is_ident_char c"
  by (simp add: is_ident_char_def)

section \<open>Splitting\<close>

text \<open>\<open>s.split(c)\<close> for a one-character separator: never empty.\<close>

fun split_on :: "char \<Rightarrow> string \<Rightarrow> string list" where
  "split_on c [] = [[]]"
| "split_on c (x # xs) =
     (if x = c then [] # split_on c xs
      else (case split_on c xs of [] \<Rightarrow> [[x]] | p # ps \<Rightarrow> (x # p) # ps))"

lemma split_on_not_Nil [simp]: "split_on c s \<noteq> []"
  by (induction s) (auto split: list.split)

text \<open>\<open>ps.join(c)\<close>.\<close>

fun join_with :: "char \<Rightarrow> string list \<Rightarrow> string" where
  "join_with c [] = []"
| "join_with c [p] = p"
| "join_with c (p # q # ps) = p @ c # join_with c (q # ps)"

lemma join_Cons: "ps \<noteq> [] \<Longrightarrow> join_with c (p # ps) = p @ c # join_with c ps"
  by (cases ps) auto

lemma join_split: "join_with c (split_on c s) = s"
proof (induction s)
  case (Cons x xs)
  obtain p ps where sp: "split_on c xs = p # ps" by (cases "split_on c xs") auto
  with Cons show ?case by (cases ps) auto
qed simp

lemma split_on_no_sep: "p \<in> set (split_on c s) \<Longrightarrow> c \<notin> set p"
proof (induction s arbitrary: p)
  case (Cons x xs)
  obtain q qs where sp: "split_on c xs = q # qs" by (cases "split_on c xs") auto
  with Cons show ?case by (auto split: if_splits)
qed simp

lemma split_on_plain: "c \<notin> set p \<Longrightarrow> split_on c p = [p]"
  by (induction p) auto

lemma split_on_append: "c \<notin> set p \<Longrightarrow> split_on c (p @ c # s) = p # split_on c s"
  by (induction p) auto

lemma split_join:
  "ps \<noteq> [] \<Longrightarrow> (\<And>p. p \<in> set ps \<Longrightarrow> c \<notin> set p) \<Longrightarrow> split_on c (join_with c ps) = ps"
proof (induction ps)
  case (Cons p ps)
  then show ?case
    by (cases ps) (auto simp: join_Cons split_on_plain split_on_append)
qed simp

lemma split_on_inject: "split_on c s = split_on c t \<longleftrightarrow> s = t"
  by (metis join_split)

lemma append_sep_inject:
  fixes c :: char
  assumes "c \<notin> set p" "c \<notin> set q"
  shows "p @ c # s = q @ c # t \<longleftrightarrow> p = q \<and> s = t"
proof
  assume "p @ c # s = q @ c # t"
  then have "split_on c (p @ c # s) = split_on c (q @ c # t)" by (rule arg_cong)
  then have "p # split_on c s = q # split_on c t" by (simp only: split_on_append [OF assms(1)] split_on_append [OF assms(2)])
  then show "p = q \<and> s = t" by (simp only: list.inject split_on_inject)
qed simp

section \<open>Numbers as text\<close>

definition digit_char :: "nat \<Rightarrow> char" where
  "digit_char d = char_of (48 + d)"

text \<open>\<open>String(n)\<close> of a non-negative integer.\<close>

fun show_nat :: "nat \<Rightarrow> string" where
  "show_nat n = (if n < 10 then [digit_char n] else show_nat (n div 10) @ [digit_char (n mod 10)])"

declare show_nat.simps [simp del]

text \<open>\<open>s.padStart(w, c)\<close>.\<close>

definition pad_start :: "nat \<Rightarrow> char \<Rightarrow> string \<Rightarrow> string" where
  "pad_start w c s = replicate (w - length s) c @ s"

text \<open>Exactly \<open>w\<close> digits: what \<open>padStart\<close> gives for a number that fits.\<close>

fun fixed_dec :: "nat \<Rightarrow> nat \<Rightarrow> string" where
  "fixed_dec 0 n = []"
| "fixed_dec (Suc w) n = fixed_dec w (n div 10) @ [digit_char (n mod 10)]"

lemma length_fixed_dec [simp]: "length (fixed_dec w n) = w"
  by (induction w arbitrary: n) auto

lemma digit_char_zero [simp]: "digit_char 0 = CHR ''0''"
  by code_simp

lemma fixed_dec_zero: "fixed_dec w 0 = replicate w CHR ''0''"
  by (induction w) (auto simp: replicate_append_same)

lemma show_nat_fixed:
  "n < 10 ^ w \<Longrightarrow> 0 < w \<Longrightarrow>
   length (show_nat n) \<le> w \<and> fixed_dec w n = replicate (w - length (show_nat n)) CHR ''0'' @ show_nat n"
proof (induction w arbitrary: n)
  case (Suc w)
  show ?case
  proof (cases "n < 10")
    case True
    then show ?thesis
      by (simp add: show_nat.simps [of n] fixed_dec_zero)
  next
    case False
    then have w: "0 < w" using Suc.prems by (cases w) auto
    have "n div 10 < 10 ^ w" using Suc.prems by auto
    from Suc.IH [OF this w] False show ?thesis
      by (simp add: show_nat.simps [of n])
  qed
qed simp

lemma pad_start_show_nat: "n < 10 ^ w \<Longrightarrow> 0 < w \<Longrightarrow> pad_start w CHR ''0'' (show_nat n) = fixed_dec w n"
  using show_nat_fixed by (simp add: pad_start_def)

lemma digit_char_less: "a < 10 \<Longrightarrow> b < 10 \<Longrightarrow> digit_char a < digit_char b \<longleftrightarrow> a < b"
  by (simp add: digit_char_def less_char_def)

lemma digit_char_inject: "a < 10 \<Longrightarrow> b < 10 \<Longrightarrow> digit_char a = digit_char b \<longleftrightarrow> a = b"
  by (metis digit_char_less linorder_neq_iff)

lemma lex_append_same_length:
  fixes xs ys :: string
  assumes "length xs = length ys"
  shows "xs @ us < ys @ vs \<longleftrightarrow> xs < ys \<or> (xs = ys \<and> us < vs)"
  using assms by (induction xs ys rule: list_induct2) auto

lemma less_by_digits: "a < 10 \<Longrightarrow> b < 10 \<Longrightarrow> 10 * x + a < 10 * y + b \<longleftrightarrow> x < y \<or> (x = y \<and> a < b)"
  for a b x y :: nat
  by (cases x y rule: linorder_cases) auto

lemma less_div_mod10: "m < n \<longleftrightarrow> m div 10 < n div 10 \<or> (m div 10 = n div 10 \<and> m mod 10 < n mod 10)"
  for m n :: nat
  using less_by_digits [of "m mod 10" "n mod 10" "m div 10" "n div 10"] by simp

lemma eq_div_mod10: "m = n \<longleftrightarrow> m div 10 = n div 10 \<and> m mod 10 = n mod 10"
  for m n :: nat
  by (metis mult_div_mod_eq)

lemma fixed_dec_order:
  "m < 10 ^ w \<Longrightarrow> n < 10 ^ w \<Longrightarrow>
   (fixed_dec w m < fixed_dec w n \<longleftrightarrow> m < n) \<and> (fixed_dec w m = fixed_dec w n \<longleftrightarrow> m = n)"
proof (induction w arbitrary: m n)
  case (Suc w)
  have d: "m div 10 < 10 ^ w" "n div 10 < 10 ^ w" using Suc.prems by auto
  have "fixed_dec (Suc w) m < fixed_dec (Suc w) n \<longleftrightarrow>
      m div 10 < n div 10 \<or> (m div 10 = n div 10 \<and> m mod 10 < n mod 10)"
    using Suc.IH [OF d] by (simp add: lex_append_same_length digit_char_less)
  also have "\<dots> \<longleftrightarrow> m < n" by (rule less_div_mod10 [symmetric])
  finally have less: "fixed_dec (Suc w) m < fixed_dec (Suc w) n \<longleftrightarrow> m < n" .
  have "fixed_dec (Suc w) m = fixed_dec (Suc w) n \<longleftrightarrow> m div 10 = n div 10 \<and> m mod 10 = n mod 10"
    using Suc.IH [OF d] by (simp add: digit_char_inject)
  also have "\<dots> \<longleftrightarrow> m = n" by (rule eq_div_mod10 [symmetric])
  finally show ?case using less by blast
qed auto

lemmas fixed_dec_less = fixed_dec_order [THEN conjunct1]
lemmas fixed_dec_inject = fixed_dec_order [THEN conjunct2]

text \<open>Reading a decimal number back, \<open>Number(s)\<close> on the digits \<open>String(n)\<close> prints.\<close>

definition digit_value :: "char \<Rightarrow> nat option" where
  "digit_value c = (if is_digit c then Some (of_char c - 48) else None)"

fun read_digits :: "nat \<Rightarrow> string \<Rightarrow> nat option" where
  "read_digits acc [] = Some acc"
| "read_digits acc (c # cs) =
     (case digit_value c of None \<Rightarrow> None | Some d \<Rightarrow> read_digits (10 * acc + d) cs)"

definition read_nat :: "string \<Rightarrow> nat option" where
  "read_nat s = (if s = [] then None else read_digits 0 s)"

lemma digit_value_digit_char: "d < 10 \<Longrightarrow> digit_value (digit_char d) = Some d"
  by (simp add: digit_value_def digit_char_def is_digit_def less_eq_char_def)

lemma read_digits_append:
  "read_digits a (s @ t) = (case read_digits a s of None \<Rightarrow> None | Some b \<Rightarrow> read_digits b t)"
  by (induction s arbitrary: a) (auto split: option.split)

lemma read_digits_show_nat: "read_digits 0 (show_nat n) = Some n"
proof (induction n rule: show_nat.induct)
  case (1 n)
  show ?case
  proof (cases "n < 10")
    case True
    then show ?thesis by (simp add: show_nat.simps [of n] digit_value_digit_char)
  next
    case False
    with 1 show ?thesis
      by (simp add: show_nat.simps [of n] read_digits_append digit_value_digit_char)
  qed
qed

lemma show_nat_not_Nil [simp]: "show_nat n \<noteq> []"
  by (simp add: show_nat.simps [of n])

lemma read_show_nat [simp]: "read_nat (show_nat n) = Some n"
  by (simp add: read_nat_def read_digits_show_nat)

lemma show_nat_inject: "show_nat m = show_nat n \<longleftrightarrow> m = n"
  by (metis option.inject read_show_nat)

end
