(* ===== verification/Domain.thy ===== *)
theory Domain
  imports Text_Ops
begin

text \<open>
  The data of the server: src/src/domain/types.ts and src/src/domain/errors.ts. Interfaces are
  records whose optional fields are option values, unions of string literals are datatypes. Field
  names carry a prefix for their interface (h for HeadRecord, c for ControlRevision, and so on).
  The keys pk and sk of a stored interface are not fields: they are the key under which the control
  table holds it (theory Store). A timestamp is the instant, in milliseconds, that the ISO string
  written by toISOString denotes; the code compares these strings for order and reads them back
  with getTime().
\<close>

type_synonym timestamp = int

section \<open>Errors\<close>

text \<open>
  What a computation can throw: the code's own ApiError with its status and code, the two errors of
  the DynamoDB client that the code tells apart by name (a cancelled transaction carries one reason
  per action, None where it has no code), the class TruststoreRejectedError of consumers.ts, and any
  other error by name and message.
\<close>

datatype exn =
    ApiError (statusCode: nat) (errCode: string) (errMessage: string)
  | ConditionalCheckFailed string
  | TransactionCanceled string "string option list"
  | TruststoreRejected
  | OtherError (errName: string) string

definition badRequest :: "string \<Rightarrow> exn" where
  "badRequest message = ApiError 400 ''bad_request'' message"

definition forbidden :: exn where
  "forbidden = ApiError 403 ''forbidden'' ''The caller is not permitted to perform this operation.''"

definition forbiddenMsg :: "string \<Rightarrow> exn" where
  "forbiddenMsg message = ApiError 403 ''forbidden'' message"

definition notFound :: "string \<Rightarrow> exn" where
  "notFound message = ApiError 404 ''not_found'' message"

definition conflict :: "string \<Rightarrow> exn" where
  "conflict message = ApiError 409 ''conflict'' message"

definition enrollmentFailed :: "string \<Rightarrow> exn" where
  "enrollmentFailed message = ApiError 409 ''enrollment_failed'' message"

definition preconditionFailed :: "string \<Rightarrow> exn" where
  "preconditionFailed message = ApiError 412 ''precondition_failed'' message"

definition serviceUnavailable :: "string \<Rightarrow> exn" where
  "serviceUnavailable message = ApiError 503 ''service_unavailable'' message"

lemmas api_error_defs = badRequest_def forbidden_def forbiddenMsg_def notFound_def conflict_def
  enrollmentFailed_def preconditionFailed_def serviceUnavailable_def

type_synonym ('w, 'a) app = "('w, exn, 'a) em"

section \<open>Enumerations\<close>

datatype permission = PRead

datatype capability = CRead | CWrite

datatype agent_grant_status = G_PENDING | G_ACTIVE

datatype secret_state = S_PENDING_VALUE | S_ACTIVE | S_REVOKED | S_ARCHIVED

datatype workflow_state = W_PREPARED | W_READY | W_RETRYABLE | W_FAILED | W_DELETED

datatype identity_status = I_PENDING | I_ACTIVE | I_REVOKED | I_EXPIRED | I_FAILED

datatype consumer_status = C_PENDING | C_ACTIVE | C_FAILED

datatype operation_type = ConsumerEnroll | ApiRotate | ApiRevoke

datatype actor_type = Human | Consumer | System

datatype change_kind = SecretChanged | SecretRevoked

datatype workflow_kind = SecretMutation | ConsumerEnrollment

datatype encoding = Utf8 | Base64

text \<open>The capabilities are sorted as the strings they stand for: read before write.\<close>

instantiation capability :: linorder
begin

definition less_eq_capability :: "capability \<Rightarrow> capability \<Rightarrow> bool" where
  "less_eq_capability a b \<longleftrightarrow> a = CRead \<or> b = CWrite"

definition less_capability :: "capability \<Rightarrow> capability \<Rightarrow> bool" where
  "less_capability a b \<longleftrightarrow> a = CRead \<and> b = CWrite"

instance
  by standard (auto simp: less_eq_capability_def less_capability_def intro: capability.exhaust)

end

section \<open>Interfaces\<close>

record Actor =
  actorType :: actor_type
  actorId :: string
  actorEmail :: "string option"
  actorTenantId :: "string option"
  actorConsumerId :: "string option"
  actorEnvironment :: "string option"

record EnvironmentRecord =
  env_name :: string
  env_createdAt :: timestamp
  env_createdBy :: Actor

record SecretEntry =
  se_encoding :: encoding
  se_value :: string

type_synonym SecretPayload = "(string \<times> SecretEntry) list"

type_synonym Tags = "(string \<times> string) list"

record SecretMetadata =
  md_description :: "string option"
  md_tags :: "Tags option"

record Grant =
  g_consumerId :: string
  g_permissions :: "permission list"

record AgentSecretGrant =
  sg_secretId :: string
  sg_secretUid :: string
  sg_permissions :: "capability list"

record ControlRevision =
  c_schemaVersion :: nat
  c_secretUid :: "string option"
  c_secretId :: string
  c_controlVersionId :: string
  c_payloadVersionId :: "string option"
  c_payloadKeyCount :: "nat option"
  c_environment :: string
  c_state :: secret_state
  c_createdAt :: timestamp
  c_createdBy :: Actor
  c_metadata :: SecretMetadata
  c_acl :: "Grant list"

record EncryptedPayload =
  ep_encryptedDataKey :: string
  ep_iv :: string
  ep_tag :: string
  ep_ciphertext :: string

record PayloadRevision =
  p_schemaVersion :: nat
  p_secretUid :: "string option"
  p_secretId :: string
  p_payloadVersionId :: string
  p_environment :: string
  p_createdAt :: timestamp
  p_createdBy :: Actor
  p_payload :: EncryptedPayload

text \<open>
  HeadRecord also carries workflowState, which prepareMutation and completeMutation write although
  the interface does not declare it.
\<close>

record HeadRecord =
  h_syncSequence :: "nat option"
  h_secretUid :: string
  h_secretId :: string
  h_environment :: string
  h_controlVersionId :: string
  h_controlObjectVersionId :: "string option"
  h_controlObjectKey :: "string option"
  h_payloadVersionId :: "string option"
  h_payloadObjectVersionId :: "string option"
  h_payloadObjectKey :: "string option"
  h_payloadKeyCount :: "nat option"
  h_state :: secret_state
  h_metadata :: "SecretMetadata option"
  h_updatedAt :: "timestamp option"
  h_catalogPk :: "string option"
  h_catalogSk :: "string option"
  h_catalogTags :: "Tags option"
  h_workflowState :: "workflow_state option"
  h_leaseOwner :: "string option"
  h_leaseExpiresAt :: "timestamp option"

record AccessRecord =
  a_consumerId :: string
  a_secretUid :: string
  a_secretId :: string
  a_environment :: string
  a_permissions :: "permission list"
  a_controlVersionId :: string
  a_payloadVersionId :: "string option"
  a_state :: secret_state
  a_changeKind :: change_kind

record ConsumerSecretGrant =
  csg_secretUid :: string
  csg_secretId :: string
  csg_permissions :: "permission list"
  csg_controlVersionId :: string
  csg_state :: secret_state

datatype identity_kind = K_api | K_notify

record IdentityRecord =
  i_fingerprint :: string
  i_consumerId :: string
  i_environment :: string
  i_kind :: identity_kind
  i_status :: identity_status
  i_notBefore :: timestamp
  i_notAfter :: timestamp
  i_certificatePem :: "string option"
  i_identityConsumerPk :: "string option"
  i_identityConsumerSk :: "(timestamp \<times> string) option"

record ConsumerRecord =
  cn_consumerId :: string
  cn_environment :: string
  cn_subjectUri :: string
  cn_status :: consumer_status
  cn_createdAt :: timestamp
  cn_createdBy :: Actor
  cn_pendingEnrollmentOperationId :: "string option"
  cn_consumerDirectoryPk :: "string option"
  cn_consumerDirectorySk :: "string option"

text \<open>A grant written before the UID migration has no secretGrants: the field is optional.\<close>

record AgentGrantRecord =
  ag_grantId :: string
  ag_consumerId :: string
  ag_environment :: string
  ag_capabilities :: "capability list"
  ag_secretGrants :: "AgentSecretGrant list option"
  ag_displayName :: "string option"
  ag_status :: agent_grant_status
  ag_createdAt :: timestamp
  ag_createdBy :: Actor
  ag_activatedAt :: "timestamp option"
  ag_activatedFingerprint :: "string option"

datatype bootstrap_status = B_PENDING | B_CONSUMED

record BootstrapCapabilityRecord =
  b_tokenHash :: string
  b_grantId :: string
  b_expiresAt :: timestamp
  b_ttl :: int
  b_status :: bootstrap_status
  b_createdAt :: timestamp
  b_createdBy :: Actor
  b_consumedAt :: "timestamp option"
  b_consumedFingerprint :: "string option"

datatype notification_status = N_PENDING | N_DELIVERED

record NotificationOutboxRecord =
  n_eventId :: string
  n_consumerIds :: "string list option"
  n_consumerId :: "string option"
  n_secretId :: string
  n_environment :: string
  n_controlVersionId :: string
  n_payloadVersionId :: "string option"
  n_kind :: change_kind
  n_createdAt :: timestamp
  n_status :: notification_status
  n_deliveredAt :: "timestamp option"
  n_ttl :: "int option"

record ObjectReference =
  o_bucket :: string
  o_key :: string
  o_versionId :: string
  o_checksumSha256 :: string

record IssuerKeyEnvelope =
  ik_algorithm :: string
  ik_encryptedDataKey :: string
  ik_iv :: string
  ik_tag :: string
  ik_ciphertext :: string

record IssuerRecord =
  is_rootCertificatePem :: string
  is_encryptedPrivateKey :: IssuerKeyEnvelope
  is_fingerprint :: string
  is_notBefore :: timestamp
  is_notAfter :: timestamp
  is_createdAt :: timestamp

record TruststoreRootRecord =
  tr_fingerprint :: string
  tr_consumerId :: string
  tr_environment :: string
  tr_certificatePem :: string
  tr_notBefore :: timestamp
  tr_notAfter :: timestamp
  tr_status :: identity_status
  tr_operationId :: string
  tr_createdAt :: timestamp

text \<open>
  TruststoreStateRecord with the lease and the pending bundle, which the enrollment operations write
  although the interface does not declare them.
\<close>

record TruststoreStateRecord =
  ts_currentTruststoreKey :: "string option"
  ts_currentTruststoreVersionId :: "string option"
  ts_currentTruststoreChecksumSha256 :: "string option"
  ts_currentRootFingerprints :: "string list option"
  ts_leaseOwner :: "string option"
  ts_leaseExpiresAt :: "timestamp option"
  ts_pendingOperationId :: "string option"
  ts_pendingTruststoreKey :: "string option"
  ts_pendingTruststoreVersionId :: "string option"
  ts_pendingTruststoreChecksumSha256 :: "string option"
  ts_pendingRootFingerprints :: "string list option"

text \<open>The status of a ConsumerProvisioningResult is always ACTIVE.\<close>

record ConsumerProvisioningResult =
  cr_consumerId :: string
  cr_environment :: string
  cr_rootFingerprint :: string
  cr_apiFingerprint :: string
  cr_apiCertificatePem :: string

record AgentSyncState =
  ss_epoch :: string
  ss_sequence :: nat
  ss_ready :: bool

record AgentSyncRecord =
  sr_secretUid :: string
  sr_secretId :: string
  sr_controlVersionId :: string
  sr_payloadVersionId :: "string option"
  sr_state :: secret_state
  sr_metadata :: SecretMetadata
  sr_readConsumerIds :: "string list"

end
