(* ===== verification/Services.thy ===== *)
theory Services
  imports Domain
begin

text \<open>
  The services the server calls, which are not code of the repository: DynamoDB, S3, KMS and the
  AES-GCM cipher of the runtime, the clock and the random generators. They are the fields of one
  record, an argument of every definition that uses them, over an abstract type of worlds. What the
  code relies on is stated in the locales of this theory as documented behaviour of the services.

  The control table maps a key (pk, sk) to a typed item. An item type per kind of record stands for
  the attribute map DynamoDB stores, so that a condition or update expression of the source is the
  predicate or function on items it denotes.
\<close>

section \<open>Items of the control table\<close>

type_synonym dkey = "string \<times> string"

datatype serialized = SerControl ControlRevision | SerPayload PayloadRevision

text \<open>
  StoredWorkflow with the attributes of the three sparse indexes: (workflowDuePk, workflowDueSk),
  (retentionDuePk, retentionDueSk) and (revisionPk, revisionSk); the sort key of a revision is the
  pair its text joins.
\<close>

record WorkflowItem =
  w_workflowState :: workflow_state
  w_workflowKind :: "workflow_kind option"
  w_operationId :: string
  w_objectKey :: string
  w_checksumSha256 :: string
  w_expiresAt :: timestamp
  w_serialized :: "serialized option"
  w_s3VersionId :: "string option"
  w_workflowDue :: "(string \<times> timestamp) option"
  w_retentionDue :: "(string \<times> timestamp) option"
  w_revision :: "(string \<times> (timestamp \<times> string)) option"

record LookupItem =
  l_secretUid :: string
  l_secretId :: string
  l_environment :: string

datatype idempotency_status = ID_PREPARED | ID_READY | ID_SUCCEEDED

text \<open>An idempotency item: which attributes are present depends on the operation that wrote it.\<close>

record IdempotencyItem =
  id_requestDigest :: "string option"
  id_operationId :: "string option"
  id_operationType :: "operation_type option"
  id_consumerId :: "string option"
  id_environment :: "string option"
  id_rootFingerprint :: "string option"
  id_apiFingerprint :: "string option"
  id_status :: "idempotency_status option"
  id_expiresAt :: "timestamp option"
  id_terminalAuditEventId :: "string option"

text \<open>
  A pagination cursor as stored. None stands for an attribute that is missing or has another type,
  which getCursor tests.
\<close>

type_synonym startKey = "(string \<times> string) list"

record CursorItem =
  cu_scope :: "string option"
  cu_lastEvaluatedKey :: "startKey option"
  cu_expiresAt :: "timestamp option"
  cu_ttl :: "int option"

record EnrollmentItem =
  e_operationId :: string
  e_operationType :: operation_type
  e_consumerId :: string
  e_environment :: string
  e_rootFingerprint :: string
  e_apiFingerprint :: string
  e_apiCertificatePem :: string
  e_createdAt :: timestamp
  e_workflowState :: workflow_state
  e_requestDigest :: string
  e_actor :: Actor
  e_idempotencyKey :: string
  e_workflowDue :: "(string \<times> timestamp) option"

datatype item =
    HeadItem HeadRecord
  | WorkflowIt WorkflowItem
  | LookupIt LookupItem
  | AccessIt AccessRecord
  | IdempotencyIt IdempotencyItem
  | NotificationIt NotificationOutboxRecord
  | SyncStateIt AgentSyncState
  | SyncChangeIt AgentSyncRecord "int option"
  | AgentGrantIt AgentGrantRecord
  | GrantMappingIt "string option"
  | BootstrapIt BootstrapCapabilityRecord
  | CursorIt CursorItem
  | IdentityIt IdentityRecord
  | ConsumerIt ConsumerRecord
  | EnvironmentIt EnvironmentRecord
  | EnvironmentCountIt "nat option"
  | EnrollmentIt EnrollmentItem
  | TruststoreRootIt TruststoreRootRecord
  | TruststoreStateIt TruststoreStateRecord
  | IssuerIt IssuerRecord

type_synonym table = "dkey \<rightharpoonup> item"

section \<open>Write requests\<close>

text \<open>
  Put, Update and Delete with their ConditionExpression, read as a predicate on the stored item
  (None when there is none). An Update whose condition names an attribute of the item needs a stored
  item, and maps it to the updated one; where the condition can hold for a missing item, DynamoDB
  creates it, which is the separate case Upsert.
\<close>

datatype action =
    Put dkey item "item option \<Rightarrow> bool"
  | Update dkey "item \<Rightarrow> item" "item \<Rightarrow> bool"
  | Upsert dkey "item option \<Rightarrow> item" "item option \<Rightarrow> bool"
  | Delete dkey "item option \<Rightarrow> bool"

primrec action_key :: "action \<Rightarrow> dkey" where
  "action_key (Put k i c) = k"
| "action_key (Update k u c) = k"
| "action_key (Upsert k u c) = k"
| "action_key (Delete k c) = k"

primrec action_cond :: "action \<Rightarrow> item option \<Rightarrow> bool" where
  "action_cond (Put k i c) old = c old"
| "action_cond (Update k u c) old = (case old of None \<Rightarrow> False | Some x \<Rightarrow> c x)"
| "action_cond (Upsert k u c) old = c old"
| "action_cond (Delete k c) old = c old"

primrec action_result :: "action \<Rightarrow> item option \<Rightarrow> item option" where
  "action_result (Put k i c) old = Some i"
| "action_result (Update k u c) old = map_option u old"
| "action_result (Upsert k u c) old = Some (u old)"
| "action_result (Delete k c) old = None"

definition conds_hold :: "action list \<Rightarrow> table \<Rightarrow> bool" where
  "conds_hold acts t \<longleftrightarrow> (\<forall>a \<in> set acts. action_cond a (t (action_key a)))"

definition apply_actions :: "action list \<Rightarrow> table \<Rightarrow> table" where
  "apply_actions acts t = (\<lambda>k. case List.find (\<lambda>a. action_key a = k) acts of
     None \<Rightarrow> t k | Some a \<Rightarrow> action_result a (t k))"

definition no_condition :: "item option \<Rightarrow> bool" where
  "no_condition i = True"

definition attribute_not_exists_pk :: "item option \<Rightarrow> bool" where
  "attribute_not_exists_pk i \<longleftrightarrow> i = None"

lemma no_condition_True [simp]: "no_condition i"
  by (simp add: no_condition_def)

lemma attribute_not_exists_pk_iff [simp]: "attribute_not_exists_pk i \<longleftrightarrow> i = None"
  by (simp add: attribute_not_exists_pk_def)

lemma apply_actions_other:
  "k \<notin> action_key ` set acts \<Longrightarrow> apply_actions acts t k = t k"
  by (auto simp: apply_actions_def find_None_iff split: option.split dest!: find_Some_iff_mem)

lemma apply_actions_hit:
  assumes "distinct (map action_key acts)" "a \<in> set acts"
  shows "apply_actions acts t (action_key a) = action_result a (t (action_key a))"
proof -
  obtain b where b: "List.find (\<lambda>b. action_key b = action_key a) acts = Some b"
    using assms(2) by (cases "List.find (\<lambda>b. action_key b = action_key a) acts")
      (auto simp: find_None_iff)
  then have "b \<in> set acts" "action_key b = action_key a"
    by (auto dest: find_Some_iff_mem)
  with assms have "b = a" by (auto simp: distinct_map dest: inj_onD)
  with b show ?thesis by (simp add: apply_actions_def)
qed

lemma apply_actions_at:
  assumes "distinct (map action_key acts)" "a \<in> set acts" "action_key a = k"
  shows "apply_actions acts t k = action_result a (t k)"
  using apply_actions_hit [OF assms(1,2)] assms(3) by simp

lemma conds_holdD: "conds_hold acts t \<Longrightarrow> a \<in> set acts \<Longrightarrow> action_cond a (t (action_key a))"
  by (simp add: conds_hold_def)

lemma conds_hold_append: "conds_hold (as @ bs) t \<longleftrightarrow> conds_hold as t \<and> conds_hold bs t"
  by (auto simp: conds_hold_def)

lemma conds_hold_Cons:
  "conds_hold (a # as) t \<longleftrightarrow> action_cond a (t (action_key a)) \<and> conds_hold as t"
  by (auto simp: conds_hold_def)

lemma conds_hold_Nil: "conds_hold [] t"
  by (simp add: conds_hold_def)

text \<open>
  One transaction, committed: its items are distinct and at most a hundred, every condition held, and
  every action took effect.
\<close>

definition committed :: "action list \<Rightarrow> table \<Rightarrow> table \<Rightarrow> bool" where
  "committed acts t t' \<longleftrightarrow> distinct (map action_key acts) \<and> length acts \<le> 100 \<and> conds_hold acts t
     \<and> t' = apply_actions acts t"

lemma committed_at:
  assumes "committed acts t t'" "a \<in> set acts"
  shows "action_cond a (t (action_key a))"
    and "t' (action_key a) = action_result a (t (action_key a))"
  using assms by (auto simp: committed_def apply_actions_hit dest: conds_holdD)

lemma committed_Put:
  assumes "committed acts t t'" "Put k i c \<in> set acts"
  shows "c (t k)" "t' k = Some i"
  using committed_at [OF assms] by simp_all

lemma committed_Update:
  assumes "committed acts t t'" "Update k u c \<in> set acts"
  obtains x where "t k = Some x" "c x" "t' k = Some (u x)"
  using committed_at [OF assms] by (cases "t k") simp_all

lemma committed_Delete:
  assumes "committed acts t t'" "Delete k c \<in> set acts"
  shows "c (t k)" "t' k = None"
  using committed_at [OF assms] by simp_all

lemma committed_other:
  "committed acts t t' \<Longrightarrow> k \<notin> action_key ` set acts \<Longrightarrow> t' k = t k"
  by (simp add: committed_def apply_actions_other)

lemma committed_single:
  "committed [a] t t' \<longleftrightarrow> action_cond a (t (action_key a)) \<and> t' = apply_actions [a] t"
  by (simp add: committed_def conds_hold_def)

text \<open>Updates and conditions of one kind of item.\<close>

definition on_head :: "(HeadRecord \<Rightarrow> HeadRecord) \<Rightarrow> item \<Rightarrow> item" where
  "on_head f i = (case i of HeadItem h \<Rightarrow> HeadItem (f h) | _ \<Rightarrow> i)"

definition head_sat :: "(HeadRecord \<Rightarrow> bool) \<Rightarrow> item \<Rightarrow> bool" where
  "head_sat P i = (case i of HeadItem h \<Rightarrow> P h | _ \<Rightarrow> False)"

definition on_workflow :: "(WorkflowItem \<Rightarrow> WorkflowItem) \<Rightarrow> item \<Rightarrow> item" where
  "on_workflow f i = (case i of WorkflowIt x \<Rightarrow> WorkflowIt (f x) | _ \<Rightarrow> i)"

definition workflow_sat :: "(WorkflowItem \<Rightarrow> bool) \<Rightarrow> item \<Rightarrow> bool" where
  "workflow_sat P i = (case i of WorkflowIt x \<Rightarrow> P x | _ \<Rightarrow> False)"

definition on_sync_state :: "(AgentSyncState \<Rightarrow> AgentSyncState) \<Rightarrow> item \<Rightarrow> item" where
  "on_sync_state f i = (case i of SyncStateIt x \<Rightarrow> SyncStateIt (f x) | _ \<Rightarrow> i)"

definition sync_state_sat :: "(AgentSyncState \<Rightarrow> bool) \<Rightarrow> item \<Rightarrow> bool" where
  "sync_state_sat P i = (case i of SyncStateIt x \<Rightarrow> P x | _ \<Rightarrow> False)"

lemma head_satE [elim!]:
  assumes "head_sat P i" obtains h where "i = HeadItem h" "P h"
  using assms by (cases i) (auto simp: head_sat_def)

lemma workflow_satE [elim!]:
  assumes "workflow_sat P i" obtains x where "i = WorkflowIt x" "P x"
  using assms by (cases i) (auto simp: workflow_sat_def)

lemma sync_state_satE [elim!]:
  assumes "sync_state_sat P i" obtains x where "i = SyncStateIt x" "P x"
  using assms by (cases i) (auto simp: sync_state_sat_def)

lemma on_item_simps [simp]:
  "on_head f (HeadItem h) = HeadItem (f h)" "head_sat P (HeadItem h) \<longleftrightarrow> P h"
  "on_workflow g (WorkflowIt x) = WorkflowIt (g x)" "workflow_sat Q (WorkflowIt x) \<longleftrightarrow> Q x"
  "on_sync_state j (SyncStateIt y) = SyncStateIt (j y)" "sync_state_sat R (SyncStateIt y) \<longleftrightarrow> R y"
  by (simp_all add: on_head_def head_sat_def on_workflow_def workflow_sat_def on_sync_state_def
      sync_state_sat_def)

section \<open>Queries\<close>

datatype table_index =
  MainTable | WorkflowDueIndex | RetentionDueIndex | CatalogPathIndex | ConsumerDirectoryIndex
  | ConsumerIdentityIndex | SecretRevisionIndex

text \<open>
  KeyConditionExpression and FilterExpression as predicates; ScanIndexForward, Limit and
  ExclusiveStartKey as given.
\<close>

record query =
  q_index :: table_index
  q_keyCondition :: "dkey \<Rightarrow> item \<Rightarrow> bool"
  q_filter :: "dkey \<Rightarrow> item \<Rightarrow> bool"
  q_forward :: bool
  q_limit :: "nat option"
  q_exclusiveStartKey :: "startKey option"

record queryPage =
  qp_items :: "(dkey \<times> item) list"
  qp_lastEvaluatedKey :: "startKey option"

section \<open>Objects, keys and the service record\<close>

datatype audit_outcome = Attempted | Authorized | Succeeded | Failed

record AuditEvent =
  ev_eventId :: string
  ev_at :: timestamp
  ev_correlationId :: string
  ev_outcome :: audit_outcome
  ev_actor :: Actor
  ev_operation :: string
  ev_target :: "(string \<times> string) list option"
  ev_permission :: "permission option"
  ev_sourceIp :: "string option"
  ev_reasonCode :: "string option"

text \<open>
  The body of an object is the document whose stableJson text (or PEM text) the bytes are;
  JSON.parse gives the document back.
\<close>

datatype document =
    ControlDoc ControlRevision
  | PayloadDoc PayloadRevision
  | AuditDoc AuditEvent
  | PemDoc string
  | RequestDoc ControlRevision bool
  | GrantDoc string "capability list" "(string \<times> string \<times> capability list) list"
  | EnrollmentDoc operation_type string "string option" string string
  | RevocationDoc string string

type_synonym kmsContext = "(string \<times> string) list"

record s3Object =
  so_versionId :: "string option"
  so_body :: "document option"
  so_checksumSha256 :: "string option"

record 'w services =
  sv_get :: "dkey \<Rightarrow> ('w, item option) app"
  sv_transactGet :: "dkey list \<Rightarrow> ('w, item option list) app"
  sv_write :: "action \<Rightarrow> ('w, unit) app"
  sv_transactWrite :: "action list \<Rightarrow> ('w, unit) app"
  sv_query :: "query \<Rightarrow> ('w, queryPage) app"
  sv_putObject :: "string \<Rightarrow> string \<Rightarrow> document \<Rightarrow> ('w, string option) app"
  sv_getObject :: "string \<Rightarrow> string \<Rightarrow> string option \<Rightarrow> ('w, s3Object) app"
  sv_headObject :: "string \<Rightarrow> string \<Rightarrow> string \<Rightarrow> ('w, string option) app"
  sv_putRetention :: "string \<Rightarrow> string \<Rightarrow> string \<Rightarrow> timestamp \<Rightarrow> ('w, unit) app"
  sv_getRetention :: "string \<Rightarrow> string \<Rightarrow> string \<Rightarrow> ('w, timestamp option) app"
  sv_deleteObject :: "string \<Rightarrow> string \<Rightarrow> string \<Rightarrow> ('w, unit) app"
  sv_generateDataKey :: "kmsContext \<Rightarrow> ('w, string option \<times> string option) app"
  sv_kmsDecrypt :: "string \<Rightarrow> kmsContext \<Rightarrow> ('w, string option) app"
  sv_randomIv :: "('w, string) app"
  sv_gcmSeal :: "string \<Rightarrow> string \<Rightarrow> kmsContext \<Rightarrow> SecretPayload \<Rightarrow> string \<times> string"
  sv_gcmOpen :: "string \<Rightarrow> string \<Rightarrow> kmsContext \<Rightarrow> string \<times> string \<Rightarrow> SecretPayload option"
  sv_now :: "('w, timestamp) app"
  sv_newId :: "('w, string) app"
  sv_randomToken :: "('w, string) app"
  sv_sha256Hex :: "string \<Rightarrow> string"
  sv_sha256Doc :: "document \<Rightarrow> string"
  sv_sha256HexDoc :: "document \<Rightarrow> string"

end
