(* ===== verification/Contracts.thy ===== *)
theory Contracts
  imports Services "HOL-Library.Product_Lexorder"
begin

text \<open>
  What the server relies on from its services, as locales over the service record. A request that
  was answered took effect; a request that was rejected by its condition had no effect; any other
  error (a timeout, a lost response) leaves open whether the request took effect. A page of a query
  over one partition holds the matching items after its start key and up to its last evaluated key, in
  the order of the sort key. Time, random values, S3 and KMS do not touch the control table.
\<close>

section \<open>DynamoDB\<close>

locale dynamo =
  fixes S :: "'w services" and table :: "'w \<Rightarrow> table"
  assumes get_keeps: "keeps table (sv_get S k)"
    and get_item: "sv_get S k w = (Inr i, w') \<Longrightarrow> i = table w k"
    and transactGet_keeps: "keeps table (sv_transactGet S ks)"
    and transactGet_items: "sv_transactGet S ks w = (Inr is, w') \<Longrightarrow> is = map (table w) ks"
    and write_done: "sv_write S a w = (Inr u, w') \<Longrightarrow>
      committed [a] (table w) (table w')"
    and write_rejected: "sv_write S a w = (Inl (ConditionalCheckFailed m), w') \<Longrightarrow>
      \<not> action_cond a (table w (action_key a)) \<and> table w' = table w"
    and write_error: "sv_write S a w = (Inl e, w') \<Longrightarrow>
      table w' = table w \<or> committed [a] (table w) (table w')"
    and transact_done: "sv_transactWrite S acts w = (Inr u, w') \<Longrightarrow>
      committed acts (table w) (table w')"
    and transact_cancelled: "sv_transactWrite S acts w = (Inl (TransactionCanceled m rs), w') \<Longrightarrow>
      table w' = table w \<and>
      (\<forall>i < length rs. rs ! i = Some ''ConditionalCheckFailed'' \<longrightarrow>
         i < length acts \<and> \<not> action_cond (acts ! i) (table w (action_key (acts ! i))))"
    and transact_error_kind: "sv_transactWrite S acts w = (Inl e, w') \<Longrightarrow>
      \<not> (\<exists>m. e = ConditionalCheckFailed m)"
    and transact_error: "sv_transactWrite S acts w = (Inl e, w') \<Longrightarrow>
      table w' = table w \<or> committed acts (table w) (table w')"
    and query_keeps: "keeps table (sv_query S q)"
    and query_selects: "sv_query S q w = (Inr p, w') \<Longrightarrow> (k, it) \<in> set (qp_items p) \<Longrightarrow>
      q_keyCondition q k it \<and> q_filter q k it"
    and query_consistent: "sv_query S q w = (Inr p, w') \<Longrightarrow> q_index q = MainTable \<Longrightarrow>
      (k, it) \<in> set (qp_items p) \<Longrightarrow> table w k = Some it"
    and query_complete: "sv_query S q w = (Inr p, w') \<Longrightarrow> q_index q = MainTable \<Longrightarrow>
      q_exclusiveStartKey q = None \<Longrightarrow> qp_lastEvaluatedKey p = None \<Longrightarrow> table w k = Some it \<Longrightarrow>
      q_keyCondition q k it \<Longrightarrow> q_filter q k it \<Longrightarrow> (k, it) \<in> set (qp_items p)"
    and query_limit: "sv_query S q w = (Inr p, w') \<Longrightarrow> q_limit q = Some n \<Longrightarrow>
      length (qp_items p) \<le> n"
    and now_keeps: "keeps table (sv_now S)"
    and newId_keeps: "keeps table (sv_newId S)"
    and randomToken_keeps: "keeps table (sv_randomToken S)"
    and randomIv_keeps: "keeps table (sv_randomIv S)"
    and putObject_keeps: "keeps table (sv_putObject S b key d)"
    and getObject_keeps: "keeps table (sv_getObject S b key v)"
    and headObject_keeps: "keeps table (sv_headObject S b key vid)"
    and putRetention_keeps: "keeps table (sv_putRetention S b key vid until)"
    and getRetention_keeps: "keeps table (sv_getRetention S b key vid)"
    and deleteObject_keeps: "keeps table (sv_deleteObject S b key vid)"
    and generateDataKey_keeps: "keeps table (sv_generateDataKey S ctx)"
    and kmsDecrypt_keeps: "keeps table (sv_kmsDecrypt S blob ctx)"
    and query_last_key: "sv_query S q w = (Inr p, w') \<Longrightarrow> q_index q = MainTable \<Longrightarrow> q_limit q \<noteq> Some 0 \<Longrightarrow>
      qp_lastEvaluatedKey p = Some stop \<Longrightarrow> map_of stop ''sk'' \<noteq> None"
    and query_page_complete: "sv_query S q w = (Inr p, w') \<Longrightarrow> q_index q = MainTable \<Longrightarrow> q_forward q \<Longrightarrow>
      (\<And>k it. q_keyCondition q k it \<Longrightarrow> fst k = pk) \<Longrightarrow>
      table w k = Some it \<Longrightarrow> q_keyCondition q k it \<Longrightarrow> q_filter q k it \<Longrightarrow>
      (case q_exclusiveStartKey q of None \<Rightarrow> True | Some start \<Rightarrow>
         (\<exists>sk. map_of start ''sk'' = Some sk \<and> sk < snd k)) \<Longrightarrow>
      (case qp_lastEvaluatedKey p of None \<Rightarrow> True | Some stop \<Rightarrow>
         (\<exists>sk. map_of stop ''sk'' = Some sk \<and> snd k \<le> sk)) \<Longrightarrow> (k, it) \<in> set (qp_items p)"
    and query_page_bounds: "sv_query S q w = (Inr p, w') \<Longrightarrow> q_index q = MainTable \<Longrightarrow> q_forward q \<Longrightarrow>
      (\<And>k it. q_keyCondition q k it \<Longrightarrow> fst k = pk) \<Longrightarrow> (k, it) \<in> set (qp_items p) \<Longrightarrow>
      (\<forall>start sk. q_exclusiveStartKey q = Some start \<longrightarrow> map_of start ''sk'' = Some sk \<longrightarrow> sk < snd k)
      \<and> (\<forall>stop sk. qp_lastEvaluatedKey p = Some stop \<longrightarrow> map_of stop ''sk'' = Some sk \<longrightarrow> snd k \<le> sk)"
    and query_last_stored: "sv_query S q w = (Inr p, w') \<Longrightarrow> q_index q = MainTable \<Longrightarrow> q_forward q \<Longrightarrow>
      q_limit q \<noteq> Some 0 \<Longrightarrow> (\<And>k it. q_keyCondition q k it \<Longrightarrow> fst k = pk) \<Longrightarrow>
      qp_lastEvaluatedKey p = Some stop \<Longrightarrow>
      \<exists>sk. map_of stop ''sk'' = Some sk \<and> table w (pk, sk) \<noteq> None
        \<and> (\<forall>start s0. q_exclusiveStartKey q = Some start \<longrightarrow> map_of start ''sk'' = Some s0 \<longrightarrow> s0 < sk)"
begin

lemmas service_keeps = get_keeps transactGet_keeps query_keeps now_keeps newId_keeps
  randomToken_keeps randomIv_keeps putObject_keeps getObject_keeps headObject_keeps putRetention_keeps
  getRetention_keeps deleteObject_keeps generateDataKey_keeps kmsDecrypt_keeps

lemma get_run: "sv_get S k w = (r, w') \<Longrightarrow> table w' = table w"
  using get_keeps by (rule keepsD)

lemma now_run: "sv_now S w = (r, w') \<Longrightarrow> table w' = table w"
  using now_keeps by (rule keepsD)

lemma newId_run: "sv_newId S w = (r, w') \<Longrightarrow> table w' = table w"
  using newId_keeps by (rule keepsD)

text \<open>A single write, whatever was thrown, either took effect under its condition or did not.\<close>

lemma write_cases:
  assumes "sv_write S a w = (r, w')"
  obtains "table w' = table w" | "committed [a] (table w) (table w')"
  using assms write_done write_error by (cases r) blast+

lemma transact_cases:
  assumes "sv_transactWrite S acts w = (r, w')"
  obtains "table w' = table w" | "committed acts (table w) (table w')"
  using assms transact_done transact_error by (cases r) blast+

end

section \<open>S3\<close>

text \<open>
  The object versions a bucket holds. A put under \<open>IfNoneMatch: *\<close> that answers with a version has
  stored the body under a version not used before; a get of a version returns its body.
\<close>

locale object_service =
  fixes S :: "'w services" and objects :: "'w \<Rightarrow> (string \<times> string \<times> string) \<rightharpoonup> document"
  assumes put_done: "sv_putObject S b k d w = (Inr (Some v), w') \<Longrightarrow>
      objects w (b, k, v) = None \<and> objects w' = (objects w)((b, k, v) \<mapsto> d)"
    and get_body: "sv_getObject S b k (Some v) w = (Inr ob, w') \<Longrightarrow> so_body ob = Some d \<Longrightarrow>
      objects w (b, k, v) = Some d"
    and getObject_keeps_objects: "keeps objects (sv_getObject S b k ov)"
    and get_keeps_objects: "keeps objects (sv_get S dk)"
    and write_keeps_objects: "keeps objects (sv_write S a)"
    and transact_keeps_objects: "keeps objects (sv_transactWrite S acts)"
    and now_keeps_objects: "keeps objects (sv_now S)"
    and newId_keeps_objects: "keeps objects (sv_newId S)"
    and transactGet_keeps_objects: "keeps objects (sv_transactGet S ks)"
    and query_keeps_objects: "keeps objects (sv_query S q)"
    and randomIv_keeps_objects: "keeps objects (sv_randomIv S)"
    and generateDataKey_keeps_objects: "keeps objects (sv_generateDataKey S ctx)"
    and kmsDecrypt_keeps_objects: "keeps objects (sv_kmsDecrypt S blob ctx)"
    and putRetention_keeps_objects: "keeps objects (sv_putRetention S b k vid until)"
begin

lemmas object_keeps = getObject_keeps_objects get_keeps_objects write_keeps_objects
  transact_keeps_objects now_keeps_objects newId_keeps_objects transactGet_keeps_objects
  query_keeps_objects randomIv_keeps_objects generateDataKey_keeps_objects kmsDecrypt_keeps_objects
  putRetention_keeps_objects

lemma object_survives_put:
  assumes "sv_putObject S b k d w = (Inr (Some v), w')" "objects w key = Some d'"
  shows "objects w' key = Some d'"
  using put_done [OF assms(1)] assms(2) by auto

end

section \<open>KMS and AES-GCM\<close>

text \<open>
  A data key is unwrapped only under the encryption context it was generated for, and a sealed
  payload opens only under its key, IV and associated data, to what was sealed.
\<close>

locale envelope_service =
  fixes S :: "'w services" and wraps :: "'w \<Rightarrow> string \<Rightarrow> kmsContext \<Rightarrow> string \<Rightarrow> bool"
  assumes generated: "sv_generateDataKey S ctx w = (Inr (Some pk, Some blob), w') \<Longrightarrow>
      wraps w' blob ctx pk"
    and unwrapped: "sv_kmsDecrypt S blob ctx w = (Inr (Some pk), w') \<Longrightarrow> wraps w blob ctx pk"
    and wraps_unique: "wraps w blob ctx pk \<Longrightarrow> wraps w blob ctx' pk' \<Longrightarrow> ctx' = ctx \<and> pk' = pk"
    and open_seal: "sv_gcmOpen S k iv aad (sv_gcmSeal S k iv aad p) = Some p"
    and open_authentic: "sv_gcmOpen S k iv aad (sv_gcmSeal S k iv' aad' p) = Some q \<Longrightarrow>
      iv' = iv \<and> aad' = aad"
    and iv_keeps_wraps: "sv_randomIv S w = (r, w') \<Longrightarrow> wraps w' = wraps w"

end
