(* ===== verification/Keys.thy ===== *)
theory Keys
  imports Contracts
begin

text \<open>
  The key builders of src/src/repositories/dynamo.ts and src/src/repositories/agent-sync.ts, and
  the facts that make one table safe for all of them: distinct entities have distinct keys, and the
  keys of a secret's revisions, its head, its name and its access rows never collide.
\<close>

section \<open>Partition and sort keys\<close>

definition secretPk :: "string \<Rightarrow> string" where
  "secretPk secretUid = ''SECRET#'' @ secretUid"

definition secretNamePk :: "string \<Rightarrow> string \<Rightarrow> string" where
  "secretNamePk environment secretId = ''SECRET_NAME#'' @ environment @ ''#'' @ secretId"

definition accessSkPrefix :: "string \<Rightarrow> string" where
  "accessSkPrefix environment = ''SECRET#'' @ environment @ ''#''"

definition accessSk :: "string \<Rightarrow> string \<Rightarrow> string" where
  "accessSk environment secretUid = accessSkPrefix environment @ secretUid"

definition secretIdentityFromPk :: "string \<Rightarrow> string option" where
  "secretIdentityFromPk pk =
     (if \<not> prefix ''SECRET#'' pk then None
      else (let secretUid = drop (length ''SECRET#'') pk
            in if length secretUid = 0 then None else Some secretUid))"

definition agentGrantPk :: "string \<Rightarrow> string" where
  "agentGrantPk grantId = ''AGENT_GRANT#'' @ grantId"

definition bootstrapPk :: "string \<Rightarrow> string" where
  "bootstrapPk tokenHash = ''BOOTSTRAP#'' @ tokenHash"

definition cursorPk :: "string \<Rightarrow> string" where
  "cursorPk token = ''CURSOR#'' @ token"

definition environmentsPk :: string where
  "environmentsPk = ''SYSTEM#ENVIRONMENTS''"

definition environmentSk :: "string \<Rightarrow> string" where
  "environmentSk name = ''ENVIRONMENT#'' @ name"

definition actorTypeText :: "actor_type \<Rightarrow> string" where
  "actorTypeText t = (case t of Human \<Rightarrow> ''human'' | Consumer \<Rightarrow> ''consumer'' | System \<Rightarrow> ''system'')"

definition idempotencyPk :: "Actor \<Rightarrow> string" where
  "idempotencyPk actor = ''IDEMPOTENCY#'' @ actorTypeText (actorType actor) @ ''#'' @ actorId actor"

definition requestSk :: "string \<Rightarrow> string" where
  "requestSk idempotencyKey = ''REQUEST#'' @ idempotencyKey"

definition consumerPk :: "string \<Rightarrow> string" where
  "consumerPk consumerId = ''CONSUMER#'' @ consumerId"

definition identityPk :: "string \<Rightarrow> string" where
  "identityPk fingerprint = ''IDENTITY#'' @ fingerprint"

definition enrollmentPk :: "string \<Rightarrow> string" where
  "enrollmentPk operationId = ''ENROLLMENT#'' @ operationId"

definition controlSk :: "string \<Rightarrow> string" where
  "controlSk controlVersionId = ''CONTROL#'' @ controlVersionId"

definition payloadSk :: "string \<Rightarrow> string" where
  "payloadSk payloadVersionId = ''PAYLOAD#'' @ payloadVersionId"

definition catalogPk :: "string \<Rightarrow> string" where
  "catalogPk environment = ''CATALOG#'' @ environment"

definition archivedCatalogPk :: "string \<Rightarrow> string" where
  "archivedCatalogPk environment = ''ARCHIVED_CATALOG#'' @ environment"

definition catalogPkFor :: "string \<Rightarrow> bool \<Rightarrow> string" where
  "catalogPkFor environment archived =
     (if archived then archivedCatalogPk environment else catalogPk environment)"

definition consumerDirectoryPk :: "string \<Rightarrow> string" where
  "consumerDirectoryPk environment = ''CONSUMERS#'' @ environment"

definition identityConsumerPk :: "string \<Rightarrow> string" where
  "identityConsumerPk consumerId = ''CONSUMER#'' @ consumerId"

definition notificationPk :: "string \<Rightarrow> string" where
  "notificationPk eventId = ''NOTIFICATION#'' @ eventId"

definition syncPk :: "string \<Rightarrow> string" where
  "syncPk environment = ''AGENT_SYNC#'' @ environment"

definition syncSk :: "nat \<Rightarrow> string \<Rightarrow> string" where
  "syncSk sequence secretUid =
     ''CHANGE#'' @ pad_start 16 CHR ''0'' (show_nat sequence) @ ''#'' @ secretUid"

text \<open>The text before the last slash: \<open>lastIndexOf\<close> and \<open>slice\<close>.\<close>

definition secretFolderPath :: "string \<Rightarrow> string option" where
  "secretFolderPath secretId =
     (if CHR ''/'' \<in> set secretId
      then Some (rev (tl (dropWhile (\<lambda>c. c \<noteq> CHR ''/'') (rev secretId)))) else None)"

definition catalogSk :: "string \<Rightarrow> string" where
  "catalogSk secretId =
     ''PATH#'' @ (case secretFolderPath secretId of None \<Rightarrow> ''_'' | Some p \<Rightarrow> p)
       @ ''/SECRET#'' @ secretId"

definition catalogPathPrefix :: "string option \<Rightarrow> string" where
  "catalogPathPrefix path = (case path of None \<Rightarrow> ''PATH#'' | Some p \<Rightarrow> ''PATH#'' @ p @ ''/'')"

lemmas key_defs = secretPk_def secretNamePk_def accessSk_def accessSkPrefix_def agentGrantPk_def
  bootstrapPk_def cursorPk_def environmentsPk_def environmentSk_def idempotencyPk_def
  requestSk_def consumerPk_def identityPk_def enrollmentPk_def controlSk_def payloadSk_def
  notificationPk_def syncPk_def syncSk_def

section \<open>Injectivity\<close>

lemma secretPk_inject [simp]: "secretPk u = secretPk v \<longleftrightarrow> u = v"
  by (simp add: secretPk_def)

lemma controlSk_inject [simp]: "controlSk u = controlSk v \<longleftrightarrow> u = v"
  by (simp add: controlSk_def)

lemma payloadSk_inject [simp]: "payloadSk u = payloadSk v \<longleftrightarrow> u = v"
  by (simp add: payloadSk_def)

lemma consumerPk_inject [simp]: "consumerPk u = consumerPk v \<longleftrightarrow> u = v"
  by (simp add: consumerPk_def)

lemma notificationPk_inject [simp]: "notificationPk u = notificationPk v \<longleftrightarrow> u = v"
  by (simp add: notificationPk_def)

lemma syncPk_inject [simp]: "syncPk u = syncPk v \<longleftrightarrow> u = v"
  by (simp add: syncPk_def)

lemma cursorPk_inject [simp]: "cursorPk u = cursorPk v \<longleftrightarrow> u = v"
  by (simp add: cursorPk_def)

lemma agentGrantPk_inject [simp]: "agentGrantPk u = agentGrantPk v \<longleftrightarrow> u = v"
  by (simp add: agentGrantPk_def)

lemma bootstrapPk_inject [simp]: "bootstrapPk u = bootstrapPk v \<longleftrightarrow> u = v"
  by (simp add: bootstrapPk_def)

lemma accessSk_inject [simp]: "accessSk e u = accessSk e v \<longleftrightarrow> u = v"
  by (simp add: accessSk_def accessSkPrefix_def)

lemma accessSk_inject_env:
  assumes "CHR ''#'' \<notin> set e" "CHR ''#'' \<notin> set e'"
  shows "accessSk e u = accessSk e' u' \<longleftrightarrow> e = e' \<and> u = u'"
  using append_sep_inject [OF assms, of u u'] by (simp add: accessSk_def accessSkPrefix_def)

lemma secretNamePk_inject:
  assumes "CHR ''#'' \<notin> set e" "CHR ''#'' \<notin> set e'"
  shows "secretNamePk e i = secretNamePk e' i' \<longleftrightarrow> e = e' \<and> i = i'"
  using append_sep_inject [OF assms, of i i'] by (simp add: secretNamePk_def)

lemma idempotencyPk_inject:
  assumes "idempotencyPk a = idempotencyPk b"
  shows "actorType a = actorType b \<and> actorId a = actorId b"
proof -
  have no: "CHR ''#'' \<notin> set (actorTypeText t)" for t
    by (cases t) (auto simp: actorTypeText_def)
  have "actorTypeText (actorType a) = actorTypeText (actorType b) \<and> actorId a = actorId b"
    using assms append_sep_inject [OF no no] by (simp add: idempotencyPk_def)
  moreover have "actorTypeText s = actorTypeText t \<Longrightarrow> s = t" for s t
    by (cases s; cases t) (auto simp: actorTypeText_def)
  ultimately show ?thesis by blast
qed

lemma secretIdentity_secretPk: "u \<noteq> [] \<Longrightarrow> secretIdentityFromPk (secretPk u) = Some u"
  by (simp add: secretIdentityFromPk_def secretPk_def)

lemma secretIdentityFromPk_Some: "secretIdentityFromPk pk = Some u \<Longrightarrow> pk = secretPk u \<and> u \<noteq> []"
  by (auto simp: secretIdentityFromPk_def secretPk_def prefix_def Let_def split: if_splits)

section \<open>Kinds of keys are disjoint\<close>

text \<open>The first characters of a key tell its kind.\<close>

lemma pk_disjoint [simp]:
  "secretPk u \<noteq> secretNamePk e i" "secretNamePk e i \<noteq> secretPk u"
  "secretPk u \<noteq> consumerPk c" "consumerPk c \<noteq> secretPk u"
  "secretPk u \<noteq> notificationPk n" "notificationPk n \<noteq> secretPk u"
  "secretPk u \<noteq> syncPk s" "syncPk s \<noteq> secretPk u"
  "secretPk u \<noteq> idempotencyPk a" "idempotencyPk a \<noteq> secretPk u"
  "secretNamePk e i \<noteq> consumerPk c" "consumerPk c \<noteq> secretNamePk e i"
  "secretNamePk e i \<noteq> notificationPk n" "notificationPk n \<noteq> secretNamePk e i"
  "secretNamePk e i \<noteq> syncPk s" "syncPk s \<noteq> secretNamePk e i"
  "secretNamePk e i \<noteq> idempotencyPk a" "idempotencyPk a \<noteq> secretNamePk e i"
  "consumerPk c \<noteq> notificationPk n" "notificationPk n \<noteq> consumerPk c"
  "consumerPk c \<noteq> syncPk s" "syncPk s \<noteq> consumerPk c"
  "consumerPk c \<noteq> idempotencyPk a" "idempotencyPk a \<noteq> consumerPk c"
  "notificationPk n \<noteq> syncPk s" "syncPk s \<noteq> notificationPk n"
  "notificationPk n \<noteq> idempotencyPk a" "idempotencyPk a \<noteq> notificationPk n"
  "syncPk s \<noteq> idempotencyPk a" "idempotencyPk a \<noteq> syncPk s"
  by (simp_all add: key_defs)

lemma sk_disjoint [simp]:
  "controlSk v \<noteq> ''HEAD''" "''HEAD'' \<noteq> controlSk v"
  "payloadSk v \<noteq> ''HEAD''" "''HEAD'' \<noteq> payloadSk v"
  "controlSk v \<noteq> payloadSk v'" "payloadSk v' \<noteq> controlSk v"
  "syncSk n u \<noteq> ''STATE''" "''STATE'' \<noteq> syncSk n u"
  "accessSk e u \<noteq> ''PROFILE''" "''PROFILE'' \<noteq> accessSk e u"
  "accessSk e u \<noteq> ''AGENT_GRANT''" "''AGENT_GRANT'' \<noteq> accessSk e u"
  by (simp_all add: key_defs)

section \<open>The order of the synchronisation index\<close>

text \<open>
  A safe integer has at most sixteen digits, so padding makes the order of the sort keys the order
  of the sequence numbers.
\<close>

lemma syncSk_fixed: "n < 10 ^ 16 \<Longrightarrow> syncSk n u = ''CHANGE#'' @ fixed_dec 16 n @ ''#'' @ u"
  unfolding syncSk_def by (subst pad_start_show_nat) simp_all

lemma syncSk_less:
  assumes "m < 10 ^ 16" "n < 10 ^ 16"
  shows "syncSk m u < syncSk n v \<longleftrightarrow> m < n \<or> (m = n \<and> u < v)"
  using assms fixed_dec_less [OF assms] fixed_dec_inject [OF assms]
  by (simp add: syncSk_fixed lex_append_same_length)

lemma syncSk_inject:
  assumes "m < 10 ^ 16" "n < 10 ^ 16"
  shows "syncSk m u = syncSk n v \<longleftrightarrow> m = n \<and> u = v"
  using fixed_dec_inject [OF assms] assms by (auto simp: syncSk_fixed)

end
