(* ===== verification/Reference.thy ===== *)
theory Reference
  imports Keys "HOL-Library.AList"
begin

text \<open>
  Concrete services kept in memory: an association list of items, an association list of object
  versions, a clock and a counter for fresh values. They satisfy every contract of theory
  Contracts, and the examples of the development run on them.
\<close>

section \<open>The world and its operations\<close>

record ref_world =
  rw_items :: "(dkey \<times> item) list"
  rw_objects :: "((string \<times> string \<times> string) \<times> document) list"
  rw_clock :: timestamp
  rw_counter :: nat

definition ref_table :: "ref_world \<Rightarrow> table" where
  "ref_table w = map_of (rw_items w)"

definition ref_objects :: "ref_world \<Rightarrow> (string \<times> string \<times> string) \<rightharpoonup> document" where
  "ref_objects w = map_of (rw_objects w)"

definition ref_apply :: "action list \<Rightarrow> (dkey \<times> item) list \<Rightarrow> (dkey \<times> item) list" where
  "ref_apply acts items =
     List.map_filter (\<lambda>a. map_option (Pair (action_key a))
       (action_result a (map_of items (action_key a)))) acts
     @ filter (\<lambda>p. fst p \<notin> set (map action_key acts)) items"

definition ref_conds :: "action list \<Rightarrow> (dkey \<times> item) list \<Rightarrow> bool" where
  "ref_conds acts items = list_all (\<lambda>a. action_cond a (map_of items (action_key a))) acts"

definition ref_get :: "dkey \<Rightarrow> (ref_world, item option) app" where
  "ref_get k = (\<lambda>w. (Inr (ref_table w k), w))"

definition ref_transactGet :: "dkey list \<Rightarrow> (ref_world, item option list) app" where
  "ref_transactGet ks = (\<lambda>w. (Inr (map (ref_table w) ks), w))"

definition ref_write :: "action \<Rightarrow> (ref_world, unit) app" where
  "ref_write a = (\<lambda>w. if ref_conds [a] (rw_items w)
     then (Inr (), w\<lparr>rw_items := ref_apply [a] (rw_items w)\<rparr>)
     else (Inl (ConditionalCheckFailed ''The conditional request failed''), w))"

definition ref_transactWrite :: "action list \<Rightarrow> (ref_world, unit) app" where
  "ref_transactWrite acts = (\<lambda>w.
     if \<not> (distinct (map action_key acts) \<and> length acts \<le> 100)
     then (Inl (OtherError ''ValidationException'' ''Invalid transaction''), w)
     else if ref_conds acts (rw_items w)
     then (Inr (), w\<lparr>rw_items := ref_apply acts (rw_items w)\<rparr>)
     else (Inl (TransactionCanceled ''Transaction cancelled''
            (map (\<lambda>a. if action_cond a (map_of (rw_items w) (action_key a)) then Some ''None''
                      else Some ''ConditionalCheckFailed'') acts)), w))"

definition key_attributes :: "dkey \<Rightarrow> startKey" where
  "key_attributes k = [(''pk'', fst k), (''sk'', snd k)]"

definition ref_query :: "query \<Rightarrow> (ref_world, queryPage) app" where
  "ref_query q = (\<lambda>w.
     let matches = filter (\<lambda>(k, it). q_keyCondition q k it \<and>
           (case q_exclusiveStartKey q of None \<Rightarrow> True
            | Some s \<Rightarrow> (case map_of s ''sk'' of None \<Rightarrow> True | Some sk \<Rightarrow> sk < snd k)))
           (sort_key fst (AList.clearjunk (rw_items w)));
         ordered = (if q_forward q then matches else rev matches);
         page = (case q_limit q of None \<Rightarrow> ordered | Some n \<Rightarrow> take n ordered)
     in (Inr \<lparr>qp_items = filter (\<lambda>(k, it). q_filter q k it) page,
              qp_lastEvaluatedKey = (if length page < length ordered
                then Some (if page = [] then [] else key_attributes (fst (last page)))
                else None)\<rparr>, w))"

definition ref_tick :: "ref_world \<Rightarrow> ref_world" where
  "ref_tick w = w\<lparr>rw_counter := Suc (rw_counter w)\<rparr>"

definition ref_fresh :: "string \<Rightarrow> (ref_world, string) app" where
  "ref_fresh label = (\<lambda>w. (Inr (label @ show_nat (rw_counter w)), ref_tick w))"

definition ref_putObject :: "string \<Rightarrow> string \<Rightarrow> document \<Rightarrow> (ref_world, string option) app" where
  "ref_putObject b k d = (\<lambda>w.
     if list_ex (\<lambda>(b', k', v). b' = b \<and> k' = k) (map fst (rw_objects w))
     then (Inl (OtherError ''PreconditionFailed'' ''At least one precondition failed''), w)
     else (let v = ''v'' @ show_nat (rw_counter w)
           in (Inr (Some v), (ref_tick w)\<lparr>rw_objects := ((b, k, v), d) # rw_objects w\<rparr>)))"

definition ref_getObject :: "string \<Rightarrow> string \<Rightarrow> string option \<Rightarrow> (ref_world, s3Object) app" where
  "ref_getObject b k ov = (\<lambda>w.
     let found = (case ov of
           Some v \<Rightarrow> map_option (Pair v) (ref_objects w (b, k, v))
         | None \<Rightarrow> map_option (\<lambda>((b', k', v), d). (v, d))
             (List.find (\<lambda>((b', k', v), d). b' = b \<and> k' = k) (rw_objects w)))
     in (Inr \<lparr>so_versionId = map_option fst found, so_body = map_option snd found,
              so_checksumSha256 = None\<rparr>, w))"

section \<open>A reference cipher\<close>

text \<open>A list of strings as one string: every character is escaped, a full stop ends a string.\<close>

definition enc_strs :: "string list \<Rightarrow> string" where
  "enc_strs ss = concat (map (\<lambda>s. concat (map (\<lambda>c. [CHR ''x'', c]) s) @ ''.'') ss)"

fun dec_strs :: "string \<Rightarrow> string list option" where
  "dec_strs [] = Some []"
| "dec_strs [c] = (if c = CHR ''.'' then Some [[]] else None)"
| "dec_strs (c # d # r) =
     (if c = CHR ''.'' then map_option (\<lambda>ss. [] # ss) (dec_strs (d # r))
      else if c = CHR ''x'' then (case dec_strs r of Some (s # ss) \<Rightarrow> Some ((d # s) # ss) | _ \<Rightarrow> None)
      else None)"

lemma dec_strs_dot: "dec_strs (CHR ''.'' # r) = map_option (\<lambda>ss. [] # ss) (dec_strs r)"
  by (cases r) auto

lemma dec_strs_one:
  "dec_strs r = Some ss \<Longrightarrow> dec_strs (concat (map (\<lambda>c. [CHR ''x'', c]) s) @ CHR ''.'' # r) = Some (s # ss)"
  by (induction s) (auto simp: dec_strs_dot)

lemma dec_enc_strs [simp]: "dec_strs (enc_strs ss) = Some ss"
  by (induction ss) (auto simp: enc_strs_def dec_strs_one)

lemma enc_strs_inject: "enc_strs ss = enc_strs ts \<longleftrightarrow> ss = ts"
  by (metis dec_enc_strs option.inject)

definition flat_context :: "kmsContext \<Rightarrow> string list" where
  "flat_context ctx = concat (map (\<lambda>(a, b). [a, b]) ctx)"

lemma flat_context_inject: "flat_context c = flat_context d \<longleftrightarrow> c = d"
proof (induction c arbitrary: d)
  case Nil
  then show ?case by (cases d) (auto simp: flat_context_def)
next
  case (Cons a c)
  then show ?case by (cases d) (auto simp: flat_context_def split: prod.splits)
qed

definition flat_payload :: "SecretPayload \<Rightarrow> string list" where
  "flat_payload p = concat (map (\<lambda>(k, e).
     [k, (case se_encoding e of Utf8 \<Rightarrow> ''u'' | Base64 \<Rightarrow> ''b''), se_value e]) p)"

fun unflat_payload :: "string list \<Rightarrow> SecretPayload option" where
  "unflat_payload [] = Some []"
| "unflat_payload (k # t # v # r) = map_option
     (\<lambda>p. (k, \<lparr>se_encoding = (if t = ''u'' then Utf8 else Base64), se_value = v\<rparr>) # p)
     (unflat_payload r)"
| "unflat_payload _ = None"

lemma unflat_flat [simp]: "unflat_payload (flat_payload p) = Some p"
  by (induction p) (auto simp: flat_payload_def split: encoding.splits)

definition ref_gcmSeal :: "string \<Rightarrow> string \<Rightarrow> kmsContext \<Rightarrow> SecretPayload \<Rightarrow> string \<times> string" where
  "ref_gcmSeal key iv aad p = (enc_strs (flat_payload p), enc_strs (key # iv # flat_context aad))"

definition ref_gcmOpen ::
  "string \<Rightarrow> string \<Rightarrow> kmsContext \<Rightarrow> string \<times> string \<Rightarrow> SecretPayload option" where
  "ref_gcmOpen key iv aad ct =
     (if snd ct = enc_strs (key # iv # flat_context aad)
      then Option.bind (dec_strs (fst ct)) unflat_payload else None)"

definition ref_generateDataKey :: "kmsContext \<Rightarrow> (ref_world, string option \<times> string option) app" where
  "ref_generateDataKey ctx = (\<lambda>w.
     let pk = ''key'' @ show_nat (rw_counter w)
     in (Inr (Some pk, Some (enc_strs (pk # flat_context ctx))), ref_tick w))"

definition ref_kmsDecrypt :: "string \<Rightarrow> kmsContext \<Rightarrow> (ref_world, string option) app" where
  "ref_kmsDecrypt blob ctx = (\<lambda>w.
     (case dec_strs blob of
        Some (pk # rest) \<Rightarrow>
          if rest = flat_context ctx then (Inr (Some pk), w)
          else (Inl (OtherError ''InvalidCiphertextException'' ''''), w)
      | _ \<Rightarrow> (Inl (OtherError ''InvalidCiphertextException'' ''''), w)))"

definition ref_wraps :: "ref_world \<Rightarrow> string \<Rightarrow> kmsContext \<Rightarrow> string \<Rightarrow> bool" where
  "ref_wraps w blob ctx pk \<longleftrightarrow> dec_strs blob = Some (pk # flat_context ctx)"

definition ref_services :: "ref_world services" where
  "ref_services = \<lparr>
     sv_get = ref_get, sv_transactGet = ref_transactGet, sv_write = ref_write,
     sv_transactWrite = ref_transactWrite, sv_query = ref_query,
     sv_putObject = ref_putObject, sv_getObject = ref_getObject,
     sv_headObject = (\<lambda>b k v w. (Inr (map_option (\<lambda>d. ''sum'') (ref_objects w (b, k, v))), w)),
     sv_putRetention = (\<lambda>b k v t. ret ()), sv_getRetention = (\<lambda>b k v. ret None),
     sv_deleteObject = (\<lambda>b k v w. (Inr (),
        w\<lparr>rw_objects := filter (\<lambda>p. fst p \<noteq> (b, k, v)) (rw_objects w)\<rparr>)),
     sv_generateDataKey = ref_generateDataKey, sv_kmsDecrypt = ref_kmsDecrypt,
     sv_randomIv = ref_fresh ''iv'', sv_gcmSeal = ref_gcmSeal, sv_gcmOpen = ref_gcmOpen,
     sv_now = (\<lambda>w. (Inr (rw_clock w), w)), sv_newId = ref_fresh ''id'',
     sv_randomToken = ref_fresh (replicate 42 CHR ''A''),
     sv_sha256Hex = (\<lambda>s. ''sha-'' @ s), sv_sha256Doc = (\<lambda>d. ''sum''),
     sv_sha256HexDoc = (\<lambda>d. ''digest'') \<rparr>"

lemmas ref_defs = ref_services_def ref_get_def ref_transactGet_def ref_write_def
  ref_transactWrite_def ref_fresh_def ref_tick_def ref_table_def ref_conds_def ref_apply_def
  ref_putObject_def ref_getObject_def ref_objects_def ref_generateDataKey_def ref_kmsDecrypt_def

section \<open>The contracts hold\<close>

lemma map_of_results:
  "distinct (map action_key acts) \<Longrightarrow>
   map_of (List.map_filter (\<lambda>a. map_option (Pair (action_key a)) (f a)) acts) k =
     (case List.find (\<lambda>a. action_key a = k) acts of None \<Rightarrow> None | Some a \<Rightarrow> f a)"
proof (induction acts)
  case Nil
  then show ?case by (simp add: List.map_filter_def)
next
  case (Cons a acts)
  have no: "action_key a \<notin> action_key ` set acts" using Cons.prems by auto
  then have "List.find (\<lambda>b. action_key b = action_key a) acts = None"
    by (auto simp: find_None_iff image_iff)
  with Cons show ?case by (cases "f a") (auto simp: List.map_filter_def)
qed

lemma map_of_filter_keys: "k \<notin> K \<Longrightarrow> map_of (filter (\<lambda>p. fst p \<notin> K) items) k = map_of items k"
  by (induction items) auto

lemma map_of_filter_keys_None: "k \<in> K \<Longrightarrow> map_of (filter (\<lambda>p. fst p \<notin> K) items) k = None"
  by (induction items) auto

lemma ref_apply_table:
  assumes "distinct (map action_key acts)"
  shows "map_of (ref_apply acts items) = apply_actions acts (map_of items)"
proof
  fix k
  show "map_of (ref_apply acts items) k = apply_actions acts (map_of items) k"
  proof (cases "k \<in> set (map action_key acts)")
    case True
    then obtain a where a: "a \<in> set acts" "action_key a = k" by auto
    then have f: "List.find (\<lambda>a. action_key a = k) acts = Some a"
      using assms by (metis (mono_tags, lifting) find_None_iff find_Some_iff_mem
          option.exhaust distinct_map inj_onD)
    have n: "map_of (filter (\<lambda>p. fst p \<notin> set (map action_key acts)) items) k = None"
      by (rule map_of_filter_keys_None [OF True])
    show ?thesis
      using f n [unfolded set_map] by (simp add: ref_apply_def map_add_def a(2)
          map_of_results [OF assms] apply_actions_def split: option.split)
  next
    case False
    then have f: "List.find (\<lambda>a. action_key a = k) acts = None" by (auto simp: find_None_iff)
    have n: "map_of (filter (\<lambda>p. fst p \<notin> set (map action_key acts)) items) k = map_of items k"
      by (rule map_of_filter_keys [OF False])
    show ?thesis
      using f n [unfolded set_map] by (simp add: ref_apply_def map_add_def map_of_results [OF assms]
          apply_actions_def split: option.split)
  qed
qed

lemma ref_conds_iff: "ref_conds acts items \<longleftrightarrow> conds_hold acts (map_of items)"
  by (simp add: ref_conds_def conds_hold_def list_all_iff)

lemma ref_query_same: "ref_query q w = (r, w') \<Longrightarrow> w' = w"
  by (simp add: ref_query_def Let_def)

lemma ref_query_selects:
  assumes "ref_query q w = (Inr p, w')" "(k, it) \<in> set (qp_items p)"
  shows "q_keyCondition q k it \<and> q_filter q k it \<and> ref_table w k = Some it"
proof -
  have "(k, it) \<in> set (AList.clearjunk (rw_items w)) \<and> q_keyCondition q k it \<and> q_filter q k it"
    using assms
    by (cases "q_limit q"; cases "q_forward q")
      (auto simp: ref_query_def Let_def dest!: in_set_takeD)
  then show ?thesis
    by (metis distinct_clearjunk map_of_clearjunk map_of_is_SomeI ref_table_def)
qed

lemma ref_query_complete:
  assumes "ref_query q w = (Inr p, w')" "q_exclusiveStartKey q = None"
    "qp_lastEvaluatedKey p = None" "ref_table w k = Some it"
    "q_keyCondition q k it" "q_filter q k it"
  shows "(k, it) \<in> set (qp_items p)"
proof -
  have "(k, it) \<in> set (AList.clearjunk (rw_items w))"
    using assms(4) by (metis map_of_SomeD map_of_clearjunk ref_table_def)
  then show ?thesis
    using assms(1-3,5,6)
    by (cases "q_limit q"; cases "q_forward q")
      (auto simp: ref_query_def Let_def split: if_splits)
qed

lemma ref_query_limit:
  assumes "ref_query q w = (Inr p, w')" "q_limit q = Some n"
  shows "length (qp_items p) \<le> n"
  using assms by (auto simp: ref_query_def Let_def intro!: order_trans [OF length_filter_le])

text \<open>The pages of a query over one partition, cut from its matches in the order of the sort key.\<close>

definition ref_matches :: "query \<Rightarrow> ref_world \<Rightarrow> (dkey \<times> item) list" where
  "ref_matches q w = filter (\<lambda>(k, it). q_keyCondition q k it \<and>
     (case q_exclusiveStartKey q of None \<Rightarrow> True
      | Some s \<Rightarrow> (case map_of s ''sk'' of None \<Rightarrow> True | Some sk \<Rightarrow> sk < snd k)))
     (sort_key fst (AList.clearjunk (rw_items w)))"

lemma ref_query_page:
  assumes "ref_query q w = (Inr p, w')" "q_forward q"
  obtains n where "qp_items p = filter (\<lambda>(k, it). q_filter q k it) (take n (ref_matches q w))"
    "qp_lastEvaluatedKey p = (if n < length (ref_matches q w)
       then Some (if n = 0 then [] else key_attributes (fst (ref_matches q w ! (n - 1)))) else None)"
    "n = 0 \<Longrightarrow> q_limit q = Some 0 \<or> ref_matches q w = []"
proof (cases "q_limit q")
  case None
  with assms show ?thesis by (intro that [of "length (ref_matches q w)"]) (auto simp: ref_query_def ref_matches_def Let_def)
next
  case (Some n)
  have "last (take n xs) = xs ! (n - 1)" if "n < length xs" "n \<noteq> 0" for xs :: "(dkey \<times> item) list"
  proof -
    have "take n xs \<noteq> []" using that by auto
    with that show ?thesis by (simp add: last_conv_nth)
  qed
  with assms Some show ?thesis
    by (intro that [of n]) (auto simp: ref_query_def ref_matches_def Let_def split: if_splits)
qed

lemma ref_matches_mem:
  "(k, it) \<in> set (ref_matches q w) \<longleftrightarrow> ref_table w k = Some it \<and> q_keyCondition q k it
     \<and> (\<forall>s sk. q_exclusiveStartKey q = Some s \<longrightarrow> map_of s ''sk'' = Some sk \<longrightarrow> sk < snd k)"
proof -
  have "(k, it) \<in> set (AList.clearjunk (rw_items w)) \<longleftrightarrow> ref_table w k = Some it"
    by (metis distinct_clearjunk map_of_clearjunk map_of_is_SomeI map_of_SomeD ref_table_def)
  then show ?thesis by (auto simp: ref_matches_def split: option.splits)
qed

lemma ref_matches_sorted:
  assumes "\<And>k it. q_keyCondition q k it \<Longrightarrow> fst k = pk" "i < j" "j < length (ref_matches q w)"
  shows "snd (fst (ref_matches q w ! i)) < snd (fst (ref_matches q w ! j))"
proof -
  let ?m = "ref_matches q w"
  have s: "sorted (map fst ?m)"
    unfolding ref_matches_def by (intro sorted_filter) simp
  have d: "distinct (map fst ?m)"
    unfolding ref_matches_def using distinct_clearjunk [of "rw_items w"]
    by (intro distinct_map_filter) (simp add: distinct_map)
  have pk: "fst (fst (?m ! l)) = pk" if "l < length ?m" for l
    using nth_mem [OF that] assms(1) [of "fst (?m ! l)" "snd (?m ! l)"]
      ref_matches_mem [of "fst (?m ! l)" "snd (?m ! l)" q w] by simp
  have "fst (?m ! i) \<le> fst (?m ! j)" using sorted_nth_mono [OF s, of i j] assms(2,3) by simp
  moreover have "fst (?m ! i) \<noteq> fst (?m ! j)"
    using d assms(2,3) nth_eq_iff_index_eq [OF d, of i j] by simp
  ultimately show ?thesis using pk [of i] pk [of j] assms(2,3)
    by (cases "fst (?m ! i)"; cases "fst (?m ! j)") auto
qed

lemma ref_query_last_key:
  assumes "ref_query q w = (Inr p, w')" "q_limit q \<noteq> Some 0" "qp_lastEvaluatedKey p = Some key"
  shows "map_of key ''sk'' \<noteq> None"
  using assms by (cases "q_limit q") (auto simp: ref_query_def Let_def key_attributes_def split: if_splits)

lemma ref_query_page_complete:
  assumes "ref_query q w = (Inr p, w')" "q_forward q" "\<And>k it. q_keyCondition q k it \<Longrightarrow> fst k = pk"
    "ref_table w k = Some it" "q_keyCondition q k it" "q_filter q k it"
    "case q_exclusiveStartKey q of None \<Rightarrow> True | Some key \<Rightarrow> (\<exists>sk. map_of key ''sk'' = Some sk \<and> sk < snd k)"
    "case qp_lastEvaluatedKey p of None \<Rightarrow> True | Some key \<Rightarrow> (\<exists>sk. map_of key ''sk'' = Some sk \<and> snd k \<le> sk)"
  shows "(k, it) \<in> set (qp_items p)"
proof -
  let ?m = "ref_matches q w"
  obtain n where n: "qp_items p = filter (\<lambda>(k, it). q_filter q k it) (take n ?m)"
    "qp_lastEvaluatedKey p = (if n < length ?m
       then Some (if n = 0 then [] else key_attributes (fst (?m ! (n - 1)))) else None)"
    by (rule ref_query_page [OF assms(1,2)])
  have "(k, it) \<in> set ?m" using assms(4,5,7) by (auto simp: ref_matches_mem split: option.splits)
  then obtain i where i: "i < length ?m" "?m ! i = (k, it)" by (auto simp: in_set_conv_nth)
  have "i < n"
  proof (rule ccontr)
    assume "\<not> i < n"
    with i n(2) assms(8) have "0 < n" "snd k \<le> snd (fst (?m ! (n - 1)))"
      by (auto simp: key_attributes_def split: if_splits)
    with ref_matches_sorted [OF assms(3), where i = "n - 1" and j = i and w = w] i \<open>\<not> i < n\<close> show False by fastforce
  qed
  then have "(k, it) \<in> set (take n ?m)" using i by (auto simp: in_set_conv_nth intro!: exI [of _ i])
  with n(1) assms(6) show ?thesis by simp
qed

lemma ref_query_page_bounds:
  assumes "ref_query q w = (Inr p, w')" "q_forward q" "\<And>k it. q_keyCondition q k it \<Longrightarrow> fst k = pk"
    "(k, it) \<in> set (qp_items p)"
  shows "(\<forall>key sk. q_exclusiveStartKey q = Some key \<longrightarrow> map_of key ''sk'' = Some sk \<longrightarrow> sk < snd k)
    \<and> (\<forall>key sk. qp_lastEvaluatedKey p = Some key \<longrightarrow> map_of key ''sk'' = Some sk \<longrightarrow> snd k \<le> sk)"
proof -
  let ?m = "ref_matches q w"
  obtain n where n: "qp_items p = filter (\<lambda>(k, it). q_filter q k it) (take n ?m)"
    "qp_lastEvaluatedKey p = (if n < length ?m
       then Some (if n = 0 then [] else key_attributes (fst (?m ! (n - 1)))) else None)"
    by (rule ref_query_page [OF assms(1,2)])
  have t: "(k, it) \<in> set (take n ?m)" using assms(4) n(1) by simp
  then obtain i where i: "i < n" "i < length ?m" "?m ! i = (k, it)" by (auto simp: in_set_conv_nth)
  have "snd k \<le> snd (fst (?m ! (n - 1)))" if "n < length ?m"
    using ref_matches_sorted [OF assms(3), where i = i and j = "n - 1" and w = w] i that by (cases "i = n - 1") fastforce+
  with n(2) i(1) have "\<forall>key sk. qp_lastEvaluatedKey p = Some key \<longrightarrow> map_of key ''sk'' = Some sk \<longrightarrow> snd k \<le> sk"
    by (auto simp: key_attributes_def split: if_splits)
  moreover have "(k, it) \<in> set ?m" using t by (rule in_set_takeD)
  ultimately show ?thesis using ref_matches_mem by blast
qed

lemma ref_query_last_stored:
  assumes "ref_query q w = (Inr p, w')" "q_forward q" "q_limit q \<noteq> Some 0"
    "\<And>k it. q_keyCondition q k it \<Longrightarrow> fst k = pk" "qp_lastEvaluatedKey p = Some stop"
  shows "\<exists>sk. map_of stop ''sk'' = Some sk \<and> ref_table w (pk, sk) \<noteq> None
    \<and> (\<forall>start s0. q_exclusiveStartKey q = Some start \<longrightarrow> map_of start ''sk'' = Some s0 \<longrightarrow> s0 < sk)"
proof -
  let ?m = "ref_matches q w"
  obtain n where "qp_items p = filter (\<lambda>(k, it). q_filter q k it) (take n ?m)"
    and n: "qp_lastEvaluatedKey p = (if n < length ?m
       then Some (if n = 0 then [] else key_attributes (fst (?m ! (n - 1)))) else None)"
    "n = 0 \<Longrightarrow> q_limit q = Some 0 \<or> ?m = []"
    by (rule ref_query_page [OF assms(1,2)]) (rule that, assumption, assumption, blast)
  with assms(3,5) have "n < length ?m" "n \<noteq> 0" "stop = key_attributes (fst (?m ! (n - 1)))"
    by (auto split: if_splits)
  moreover obtain k it where k: "?m ! (n - 1) = (k, it)" by fastforce
  ultimately have m: "(k, it) \<in> set ?m" "stop = key_attributes k" by (auto simp: in_set_conv_nth intro!: exI [of _ "n - 1"])
  then have "ref_table w k = Some it" "fst k = pk" using ref_matches_mem assms(4) by blast+
  moreover have "(pk, snd k) = k" using \<open>fst k = pk\<close> by (cases k) simp
  ultimately show ?thesis using m ref_matches_mem by (intro exI [of _ "snd k"]) (auto simp: key_attributes_def)
qed

lemma ref_write_outcome:
  "ref_write a w = (r, w') \<Longrightarrow>
     (if action_cond a (ref_table w (action_key a))
      then r = Inr () \<and> ref_table w' = apply_actions [a] (ref_table w)
      else (\<exists>m. r = Inl (ConditionalCheckFailed m)) \<and> w' = w)"
  by (auto simp: ref_write_def ref_conds_iff conds_hold_def ref_table_def ref_apply_table
      split: if_splits)

lemma ref_transact_ok:
  "ref_transactWrite acts w = (Inr u, w') \<Longrightarrow>
     committed acts (ref_table w) (ref_table w')"
  by (auto simp: committed_def ref_transactWrite_def ref_conds_iff ref_table_def ref_apply_table
      split: if_splits)

lemma ref_transact_err:
  "ref_transactWrite acts w = (Inl e, w') \<Longrightarrow> w' = w \<and> (\<forall>m. e \<noteq> ConditionalCheckFailed m)"
  by (auto simp: ref_transactWrite_def split: if_splits)

lemma ref_transact_reasons:
  "ref_transactWrite acts w = (Inl (TransactionCanceled m rs), w') \<Longrightarrow> i < length rs \<Longrightarrow>
   rs ! i = Some ''ConditionalCheckFailed'' \<Longrightarrow>
   i < length acts \<and> \<not> action_cond (acts ! i) (ref_table w (action_key (acts ! i)))"
  by (auto simp: ref_transactWrite_def ref_table_def split: if_splits)

lemma ref_services_sel [simp]:
  "sv_get ref_services = ref_get" "sv_transactGet ref_services = ref_transactGet"
  "sv_write ref_services = ref_write" "sv_transactWrite ref_services = ref_transactWrite"
  "sv_query ref_services = ref_query" "sv_putObject ref_services = ref_putObject"
  "sv_getObject ref_services = ref_getObject"
  "sv_generateDataKey ref_services = ref_generateDataKey"
  "sv_kmsDecrypt ref_services = ref_kmsDecrypt" "sv_gcmSeal ref_services = ref_gcmSeal"
  "sv_gcmOpen ref_services = ref_gcmOpen" "sv_newId ref_services = ref_fresh ''id''"
  "sv_randomIv ref_services = ref_fresh ''iv''" "sv_randomToken ref_services = ref_fresh (replicate 42 CHR ''A'')"
  "sv_now ref_services = (\<lambda>w. (Inr (rw_clock w), w))"
  "sv_headObject ref_services = (\<lambda>b k v w. (Inr (map_option (\<lambda>d. ''sum'') (ref_objects w (b, k, v))), w))"
  "sv_putRetention ref_services = (\<lambda>b k v t. ret ())" "sv_getRetention ref_services = (\<lambda>b k v. ret None)"
  "sv_sha256Hex ref_services = (\<lambda>s. ''sha-'' @ s)" "sv_sha256Doc ref_services = (\<lambda>d. ''sum'')"
  "sv_sha256HexDoc ref_services = (\<lambda>d. ''digest'')"
  by (simp_all add: ref_services_def)

interpretation ref_dynamo: dynamo ref_services ref_table
proof (unfold_locales, goal_cases)
  case (5 a w u w')
  then show ?case using ref_write_outcome [of a w] by (auto simp: committed_single split: if_splits)
next
  case (6 a w m w')
  then show ?case using ref_write_outcome [of a w] by (auto split: if_splits)
next
  case (7 a w e w')
  then show ?case using ref_write_outcome [of a w] by (auto split: if_splits)
next
  case (8 acts w u w')
  then show ?case using ref_transact_ok [of acts w] by simp
next
  case (9 acts w m rs w')
  then show ?case using ref_transact_err [of acts w] ref_transact_reasons [of acts w m rs] by auto
next
  case (10 acts w e w')
  then show ?case using ref_transact_err [of acts w] by auto
next
  case (11 acts w e w')
  then show ?case using ref_transact_err [of acts w] by auto
next
  case (13 q w p w' k it)
  then show ?case using ref_query_selects by simp
next
  case (14 q w p w' k it)
  then show ?case using ref_query_selects by simp
next
  case (15 q w p w' k it)
  then show ?case using ref_query_complete by simp
next
  case (16 q w p w' n)
  then show ?case using ref_query_limit by simp
next
  case (29 q w p w' key)
  then show ?case using ref_query_last_key by simp
next
  case (30 q w p w' pk k it)
  from ref_query_page_complete [where pk = pk, OF 30(1) [unfolded ref_services_sel] 30(3,4,5,6,7,8,9)]
  show ?case .
next
  case (31 q w p w' pk k it)
  from ref_query_page_bounds [where pk = pk, OF 31(1) [unfolded ref_services_sel] 31(3,4,5)] show ?case .
next
  case (32 q w p w' pk stop)
  from ref_query_last_stored [where pk = pk, OF 32(1) [unfolded ref_services_sel] 32(3,4,5,6)] show ?case .
qed (auto simp: ref_get_def ref_transactGet_def ref_fresh_def ref_tick_def ref_query_def
    ref_table_def ref_putObject_def ref_getObject_def ref_generateDataKey_def ref_kmsDecrypt_def
    ref_services_def keeps_def Let_def split: if_splits option.splits list.splits)

interpretation ref_objects: object_service ref_services ref_objects
proof (unfold_locales, goal_cases)
  case (1 b k d w v w')
  then have "(b, k, v') \<notin> fst ` set (rw_objects w)" for v'
    by (auto simp: ref_putObject_def Let_def list_ex_iff split: if_splits)
  with 1 show ?case
    by (auto simp: ref_putObject_def Let_def ref_objects_def ref_tick_def map_of_eq_None_iff
        split: if_splits)
qed (auto simp: ref_getObject_def ref_get_def ref_write_def ref_transactWrite_def ref_fresh_def
    ref_tick_def ref_objects_def ref_transactGet_def ref_query_def ref_generateDataKey_def
    ref_kmsDecrypt_def keeps_def Let_def split: if_splits option.splits list.splits)

interpretation ref_envelope: envelope_service ref_services ref_wraps
proof (unfold_locales, goal_cases)
  case (5 k iv aad iv' aad' p q)
  then show ?case
    by (auto simp: ref_gcmOpen_def ref_gcmSeal_def enc_strs_inject flat_context_inject
        split: if_splits)
qed (auto simp: ref_generateDataKey_def ref_kmsDecrypt_def ref_wraps_def Let_def ref_gcmOpen_def
    ref_gcmSeal_def flat_context_inject ref_fresh_def ref_tick_def fun_eq_iff split: option.splits list.splits if_splits)

end
