(* ===== verification/Sync_Index.thy ===== *)
theory Sync_Index
  imports Reference
begin

text \<open>
  The synchronisation index, src/src/repositories/agent-sync.ts: a counter item per environment and
  one change item per secret, under a sort key that orders by the publication's sequence number. A
  publication commits the counter, the caller's actions, the new change item and the removal of the
  secret's previous one in a single transaction.
\<close>

section \<open>Records and requests\<close>

definition syncRecord :: "string \<Rightarrow> ControlRevision \<Rightarrow> AgentSyncRecord" where
  "syncRecord secretUid control = \<lparr>
     sr_secretUid = secretUid,
     sr_secretId = c_secretId control,
     sr_controlVersionId = c_controlVersionId control,
     sr_payloadVersionId = c_payloadVersionId control,
     sr_state = c_state control,
     sr_metadata = c_metadata control,
     sr_readConsumerIds = map g_consumerId
       (filter (\<lambda>grant. PRead \<in> set (g_permissions grant)) (c_acl control)) \<rparr>"

definition emptyState :: "string \<Rightarrow> string \<Rightarrow> action" where
  "emptyState environment epoch = Put (syncPk environment, ''STATE'')
     (SyncStateIt \<lparr>ss_epoch = epoch, ss_sequence = 0, ss_ready = True\<rparr>) attribute_not_exists_pk"

definition as_sync_state :: "item option \<Rightarrow> AgentSyncState option" where
  "as_sync_state i = (case i of Some (SyncStateIt st) \<Rightarrow> Some st | _ \<Rightarrow> None)"

definition sync_state :: "'w services \<Rightarrow> string \<Rightarrow> ('w, AgentSyncState option) app" where
  "sync_state S environment =
     bindM (sv_get S (syncPk environment, ''STATE'')) (\<lambda>i. ret (as_sync_state i))"

text \<open>The last code unit of a range bound, U+FFFF in UTF-8.\<close>

definition syncUpperSk :: "nat \<Rightarrow> string" where
  "syncUpperSk through = ''CHANGE#'' @ pad_start 16 CHR ''0'' (show_nat through) @ ''#''
     @ [CHR 0xEF, CHR 0xBF, CHR 0xBF]"

definition page_query :: "string \<Rightarrow> nat \<Rightarrow> nat \<Rightarrow> string option \<Rightarrow> query" where
  "page_query environment after through lastSk = \<lparr>
     q_index = MainTable,
     q_keyCondition = (\<lambda>k it. fst k = syncPk environment \<and>
        syncSk (after + 1) '''' \<le> snd k \<and> snd k \<le> syncUpperSk through),
     q_filter = (\<lambda>k it. True),
     q_forward = True,
     q_limit = Some 100,
     q_exclusiveStartKey = map_option
       (\<lambda>sk. [(''pk'', syncPk environment), (''sk'', sk)]) lastSk \<rparr>"

definition as_sync_record :: "dkey \<times> item \<Rightarrow> AgentSyncRecord option" where
  "as_sync_record p = (case snd p of SyncChangeIt r ttl \<Rightarrow> Some r | _ \<Rightarrow> None)"

definition sync_page ::
  "'w services \<Rightarrow> string \<Rightarrow> nat \<Rightarrow> nat \<Rightarrow> string option
     \<Rightarrow> ('w, AgentSyncRecord list \<times> string option) app" where
  "sync_page S environment after through lastSk =
     (if after = through then ret ([], None)
      else bindM (sv_query S (page_query environment after through lastSk)) (\<lambda>response.
        ret (List.map_filter as_sync_record (qp_items response),
             Option.bind (qp_lastEvaluatedKey response) (\<lambda>key. map_of key ''sk''))))"

section \<open>Publication\<close>

definition maxSafeInteger :: nat where
  "maxSafeInteger = 9007199254740991"

definition archiveLifetime :: int where
  "archiveLifetime = 8 * 24 * 60 * 60"

definition ceil_seconds :: "timestamp \<Rightarrow> int" where
  "ceil_seconds t = (t + 999) div 1000"

definition sync_counter :: "string \<Rightarrow> AgentSyncState option \<Rightarrow> string \<Rightarrow> nat \<Rightarrow> action" where
  "sync_counter environment state epoch sequence =
     (case state of
        None \<Rightarrow> Put (syncPk environment, ''STATE'')
          (SyncStateIt \<lparr>ss_epoch = epoch, ss_sequence = sequence, ss_ready = False\<rparr>)
          attribute_not_exists_pk
      | Some st \<Rightarrow> Update (syncPk environment, ''STATE'')
          (on_sync_state (\<lambda>s. s\<lparr>ss_sequence := sequence\<rparr>))
          (sync_state_sat (\<lambda>s. ss_sequence s = ss_sequence st \<and> ss_epoch s = ss_epoch st)))"

definition next_sequence :: "AgentSyncState option \<Rightarrow> nat" where
  "next_sequence state = (case state of None \<Rightarrow> 0 | Some st \<Rightarrow> ss_sequence st) + 1"

definition sync_items ::
  "string \<Rightarrow> AgentSyncState option \<Rightarrow> string \<Rightarrow> nat option \<Rightarrow> AgentSyncRecord \<Rightarrow> int option
     \<Rightarrow> (nat \<Rightarrow> action list) \<Rightarrow> action list" where
  "sync_items environment state epoch previousSequence r ttl build =
     (let sequence = next_sequence state
      in sync_counter environment state epoch sequence # build sequence
         @ [Put (syncPk environment, syncSk sequence (sr_secretUid r)) (SyncChangeIt r ttl)
              attribute_not_exists_pk]
         @ (case previousSequence of None \<Rightarrow> []
            | Some prev \<Rightarrow> [Delete (syncPk environment, syncSk prev (sr_secretUid r)) no_condition]))"

definition head_sequence :: "item option \<Rightarrow> nat option" where
  "head_sequence i = (case i of Some (HeadItem h) \<Rightarrow> h_syncSequence h | _ \<Rightarrow> None)"

text \<open>A counter conflict may be retried; any other failed condition of the transaction may not.\<close>

definition counterContention :: "exn \<Rightarrow> bool" where
  "counterContention error = (case error of
     TransactionCanceled message reasons \<Rightarrow>
       list_ex (\<lambda>code. code = Some ''ConditionalCheckFailed'' \<or> code = Some ''TransactionConflict'')
         reasons
       \<and> list_all (\<lambda>(index, code). code = None \<or> code = Some ''None''
              \<or> code = Some ''TransactionConflict''
              \<or> (index = 0 \<and> code = Some ''ConditionalCheckFailed'')) (enumerate 0 reasons)
   | _ \<Rightarrow> False)"

definition sync_ttl :: "'w services \<Rightarrow> AgentSyncRecord \<Rightarrow> ('w, int option) app" where
  "sync_ttl S r = (if sr_state r = S_ARCHIVED
     then bindM (sv_now S) (\<lambda>now. ret (Some (ceil_seconds now + archiveLifetime)))
     else ret None)"

definition sync_epoch :: "'w services \<Rightarrow> AgentSyncState option \<Rightarrow> ('w, string) app" where
  "sync_epoch S state = (case state of None \<Rightarrow> sv_newId S | Some st \<Rightarrow> ret (ss_epoch st))"

text \<open>
  The loop of publish with the number of attempts left; the pause between attempts has no effect
  on the model's state.
\<close>

fun publish_attempts ::
  "nat \<Rightarrow> 'w services \<Rightarrow> string \<Rightarrow> AgentSyncRecord \<Rightarrow> (nat \<Rightarrow> action list) \<Rightarrow> ('w, unit) app" where
  "publish_attempts 0 S environment r build = ret ()"
| "publish_attempts (Suc n) S environment r build =
     bindM (sync_state S environment) (\<lambda>state.
     bindM (sv_get S (secretPk (sr_secretUid r), ''HEAD'')) (\<lambda>headItem.
     thenM (throwIf (next_sequence state > maxSafeInteger)
              (serviceUnavailable ''The sync index sequence is exhausted.''))
     (bindM (sync_epoch S state) (\<lambda>epoch.
      bindM (sync_ttl S r) (\<lambda>ttl.
        (let items = sync_items environment state epoch (head_sequence headItem) r ttl build
         in thenM (throwIf (length items > 100)
              (serviceUnavailable ''Mutation exceeds the DynamoDB transaction limit.''))
            (catchM (sv_transactWrite S items) (\<lambda>error.
               if \<not> counterContention error then raise error
               else if n = 0 then
                 raise (serviceUnavailable ''The sync index is busy; retry the mutation.'')
               else publish_attempts n S environment r build))))))))"

definition publish ::
  "'w services \<Rightarrow> string \<Rightarrow> AgentSyncRecord \<Rightarrow> (nat \<Rightarrow> action list) \<Rightarrow> ('w, unit) app" where
  "publish S = publish_attempts 8 S"

section \<open>Backfill\<close>

definition backfill_control :: "item option \<Rightarrow> ControlRevision option" where
  "backfill_control i = (case i of Some (WorkflowIt x) \<Rightarrow>
     (case w_serialized x of Some (SerControl c) \<Rightarrow> Some c | _ \<Rightarrow> None) | _ \<Rightarrow> None)"

definition backfill_action :: "string \<Rightarrow> HeadRecord \<Rightarrow> nat \<Rightarrow> action" where
  "backfill_action headPk head sequence = Update (headPk, ''HEAD'')
     (on_head (\<lambda>h. h\<lparr>h_syncSequence := Some sequence\<rparr>))
     (head_sat (\<lambda>h. h_controlVersionId h = h_controlVersionId head
        \<and> h_workflowState h = Some W_READY))"

definition backfillHead :: "'w services \<Rightarrow> string \<Rightarrow> HeadRecord \<Rightarrow> ('w, unit) app" where
  "backfillHead S headPk head =
     bindM (sv_get S (headPk, controlSk (h_controlVersionId head))) (\<lambda>i.
       (case backfill_control i of
          None \<Rightarrow> raise (ApiError 503 ''sync_backfill_incomplete''
            ''The current control revision is unavailable for sync backfill.'')
        | Some control \<Rightarrow>
            if c_controlVersionId control \<noteq> h_controlVersionId head
             \<or> c_environment control \<noteq> h_environment head
             \<or> c_secretId control \<noteq> h_secretId head
             \<or> (c_secretUid control \<noteq> None \<and> c_secretUid control \<noteq> Some (h_secretUid head))
            then raise (ApiError 503 ''sync_backfill_incomplete''
              ''The current control revision is unavailable for sync backfill.'')
            else publish S (h_environment head) (syncRecord (h_secretUid head) control)
              (\<lambda>sequence. [backfill_action headPk head sequence])))"

definition mark_ready_update :: "string \<Rightarrow> action" where
  "mark_ready_update environment = Update (syncPk environment, ''STATE'')
     (on_sync_state (\<lambda>s. s\<lparr>ss_ready := True\<rparr>)) (sync_state_sat (\<lambda>s. True))"

definition markReady :: "'w services \<Rightarrow> string \<Rightarrow> ('w, unit) app" where
  "markReady S environment =
     bindM (sync_state S environment) (\<lambda>state.
       (case state of
          None \<Rightarrow> bindM (sv_newId S) (\<lambda>epoch.
            catchM (sv_transactWrite S [emptyState environment epoch])
              (\<lambda>error. if \<not> counterContention error then raise error
                       else sv_write S (mark_ready_update environment)))
        | Some st \<Rightarrow> sv_write S (mark_ready_update environment)))"

section \<open>Facts\<close>

lemma as_sync_state_Some [simp]: "as_sync_state i = Some st \<longleftrightarrow> i = Some (SyncStateIt st)"
  by (auto simp: as_sync_state_def split: option.splits item.splits)

lemma head_sequence_Some:
  "head_sequence i = Some n \<longleftrightarrow> (\<exists>h. i = Some (HeadItem h) \<and> h_syncSequence h = Some n)"
  by (auto simp: head_sequence_def split: option.splits item.splits)

text \<open>
  What the code means by contention: the counter's own condition failed or the transaction clashed,
  and no other action of it was refused.
\<close>

lemma counterContention_TransactionCanceled:
  "counterContention (TransactionCanceled m rs) \<longleftrightarrow>
     (\<exists>i < length rs. rs ! i = Some ''ConditionalCheckFailed'' \<or> rs ! i = Some ''TransactionConflict'')
     \<and> (\<forall>i < length rs. rs ! i \<in> {None, Some ''None'', Some ''TransactionConflict''}
          \<or> (i = 0 \<and> rs ! i = Some ''ConditionalCheckFailed''))"
  by (auto simp: counterContention_def list_ex_length list_all_length nth_enumerate_eq)

lemma counterContention_other:
  "\<not> counterContention (ApiError s c m)" "\<not> counterContention (ConditionalCheckFailed m)"
  "\<not> counterContention (OtherError n m)" "\<not> counterContention TruststoreRejected"
  by (simp_all add: counterContention_def)

text \<open>
  A publication: one committed transaction whose counter condition and previous sequence number are
  those of the table it started from.
\<close>

definition publication ::
  "string \<Rightarrow> AgentSyncRecord \<Rightarrow> (nat \<Rightarrow> action list) \<Rightarrow> table \<Rightarrow> table \<Rightarrow> bool" where
  "publication env r build t t' \<longleftrightarrow>
     next_sequence (as_sync_state (t (syncPk env, ''STATE''))) \<le> maxSafeInteger \<and>
     (\<exists>epoch ttl. (ttl = None \<longleftrightarrow> sr_state r \<noteq> S_ARCHIVED) \<and> committed
        (sync_items env (as_sync_state (t (syncPk env, ''STATE''))) epoch
           (head_sequence (t (secretPk (sr_secretUid r), ''HEAD''))) r ttl build) t t')"

context dynamo
begin

lemma sync_state_run: "sync_state S env w = (r, w') \<Longrightarrow> table w' = table w"
  by (auto simp: sync_state_def bindM_def split: prod.splits sum.splits dest: get_run)

lemma sync_state_value:
  "sync_state S env w = (Inr st, w') \<Longrightarrow> st = as_sync_state (table w (syncPk env, ''STATE''))"
  by (auto simp: sync_state_def em_ok dest: get_item)

lemma sync_epoch_keeps: "keeps table (sync_epoch S st)"
  unfolding sync_epoch_def by (intro keeps_intro newId_keeps)

lemma sync_ttl_keeps: "keeps table (sync_ttl S r)"
  unfolding sync_ttl_def by (intro keeps_intro now_keeps)

lemma sync_ttl_value: "sync_ttl S r w = (Inr ttl, w') \<Longrightarrow> ttl = None \<longleftrightarrow> sr_state r \<noteq> S_ARCHIVED"
  by (auto simp: sync_ttl_def em_ok split: if_splits)

lemma contention_unchanged:
  "sv_transactWrite S acts w = (Inl e, w') \<Longrightarrow> counterContention e \<Longrightarrow> table w' = table w"
  using transact_cancelled by (cases e) (auto simp: counterContention_other)

text \<open>
  A publication that returns has committed exactly one transaction, built from the counter and the
  head as they stood; one that throws has committed at most that.
\<close>

lemma publish_attempts_commits:
  assumes "publish_attempts n S env r build w = (Inr (), w')" "0 < n"
  shows "publication env r build (table w) (table w')"
  using assms
proof (induction n arbitrary: w)
  case (Suc n)
  obtain st w1 hd w2 epoch w3 ttl w4 where
    st: "sync_state S env w = (Inr st, w1)" and
    hd: "sv_get S (secretPk (sr_secretUid r), ''HEAD'') w1 = (Inr hd, w2)" and
    lim: "next_sequence st \<le> maxSafeInteger" and
    ep: "sync_epoch S st w2 = (Inr epoch, w3)" and ttl: "sync_ttl S r w3 = (Inr ttl, w4)" and
    tx: "catchM (sv_transactWrite S (sync_items env st epoch (head_sequence hd) r ttl build))
      (\<lambda>error. if \<not> counterContention error then raise error
               else if n = 0 then
                 raise (serviceUnavailable ''The sync index is busy; retry the mutation.'')
               else publish_attempts n S env r build) w4 = (Inr (), w')"
    using Suc.prems(1) by (auto simp: em_ok Let_def)
  have t: "table w4 = table w"
    using sync_state_run [OF st] get_run [OF hd] keepsD [OF sync_epoch_keeps ep]
      keepsD [OF sync_ttl_keeps ttl] by simp
  have v: "st = as_sync_state (table w (syncPk env, ''STATE''))"
    "hd = table w (secretPk (sr_secretUid r), ''HEAD'')"
    using sync_state_value [OF st] get_item [OF hd] sync_state_run [OF st] by simp_all
  show ?case
  proof (cases "sv_transactWrite S (sync_items env st epoch (head_sequence hd) r ttl build) w4")
    case (Pair res w5)
    show ?thesis
    proof (cases res)
      case (Inr u)
      with Pair tx have w5: "w5 = w'" by (simp add: catchM_def)
      from transact_done [OF Pair [unfolded Inr]] lim sync_ttl_value [OF ttl] show ?thesis
        unfolding w5 t v publication_def by blast
    next
      case (Inl e)
      with Pair tx have c: "counterContention e" "n \<noteq> 0"
        and rest: "publish_attempts n S env r build w5 = (Inr (), w')"
        by (auto simp: catchM_def split: if_splits)
      have "table w5 = table w"
        using contention_unchanged [OF Pair [unfolded Inl] c(1)] t by simp
      with Suc.IH [OF rest] c(2) show ?thesis by simp
    qed
  qed
qed simp

lemma publish_attempts_moves:
  "moves table t {t'. publication env r build t t'} (publish_attempts n S env r build)"
proof (induction n)
  case 0
  show ?case unfolding publish_attempts.simps by (rule moves_keeps [OF keeps_ret])
next
  case (Suc n)
  show ?case
    unfolding publish_attempts.simps
  proof (rule moves_bindM [OF keepsI [OF sync_state_run]], assumption,
      rule moves_bindM [OF get_keeps], rule moves_thenM [OF keeps_throwIf],
      rule moves_bindM [OF sync_epoch_keeps], rule moves_bindM [OF sync_ttl_keeps],
      unfold Let_def, rule moves_thenM [OF keeps_throwIf], rule moves_catchM, goal_cases)
    case (1 st w1 w2 hd w3 w4 w5 w6 epoch w7 w8 ttl w9 w10 w11 w12)
    have v: "st = as_sync_state (t (syncPk env, ''STATE''))"
      "hd = t (secretPk (sr_secretUid r), ''HEAD'')"
      using sync_state_value [OF 1(2)] get_item [OF 1(4)] 1(1,3) by simp_all
    have l: "next_sequence st \<le> maxSafeInteger" using 1(6) by (auto simp: em_ok)
    show ?case
    proof (rule movesI)
      fix w x w' assume w: "table w = t" and run:
        "sv_transactWrite S (sync_items env st epoch (head_sequence hd) r ttl build) w = (x, w')"
      from transact_cases [OF run] l sync_ttl_value [OF 1(10)]
      show "table w' = t \<or> table w' \<in> {t'. publication env r build t t'}"
        unfolding w v publication_def by blast
    qed
  next
    case (2 st w1 w2 hd w3 w4 w5 w6 epoch w7 w8 ttl w9 w10 w11 w12 e w13 w14)
    show ?case
    proof (cases "counterContention e \<and> n \<noteq> 0")
      case True
      with contention_unchanged [OF 2(14)] 2(13) Suc.IH show ?thesis by simp
    qed (auto intro: keeps_raise)
  qed
qed

lemmas publish_commits = publish_attempts_commits [where n = 8, folded publish_def]
lemmas publish_moves = publish_attempts_moves [where n = 8, folded publish_def]

end

end
