(* ===== verification/Repository.thy ===== *)
theory Repository
  imports Sync_Index
begin

text \<open>
  The reads of class DynamoRepository (src/src/repositories/dynamo.ts) and the small conditional
  updates of its workflows. Reading an item as a record is a cast in the source: a key determines
  the kind of its item, and an item of another kind reads as absent.
\<close>

section \<open>Items as records\<close>

definition as_head :: "item option \<Rightarrow> HeadRecord option" where
  "as_head i = (case i of Some (HeadItem h) \<Rightarrow> Some h | _ \<Rightarrow> None)"

definition as_lookup :: "item option \<Rightarrow> string option" where
  "as_lookup i = (case i of Some (LookupIt l) \<Rightarrow> Some (l_secretUid l) | _ \<Rightarrow> None)"

definition as_access :: "item option \<Rightarrow> AccessRecord option" where
  "as_access i = (case i of Some (AccessIt a) \<Rightarrow> Some a | _ \<Rightarrow> None)"

definition as_consumer :: "item option \<Rightarrow> ConsumerRecord option" where
  "as_consumer i = (case i of Some (ConsumerIt c) \<Rightarrow> Some c | _ \<Rightarrow> None)"

definition as_identity :: "item option \<Rightarrow> IdentityRecord option" where
  "as_identity i = (case i of Some (IdentityIt x) \<Rightarrow> Some x | _ \<Rightarrow> None)"

definition as_agent_grant :: "item option \<Rightarrow> AgentGrantRecord option" where
  "as_agent_grant i = (case i of Some (AgentGrantIt g) \<Rightarrow> Some g | _ \<Rightarrow> None)"

definition as_grant_mapping :: "item option \<Rightarrow> string option" where
  "as_grant_mapping i = (case i of Some (GrantMappingIt g) \<Rightarrow> g | _ \<Rightarrow> None)"

definition as_bootstrap :: "item option \<Rightarrow> BootstrapCapabilityRecord option" where
  "as_bootstrap i = (case i of Some (BootstrapIt b) \<Rightarrow> Some b | _ \<Rightarrow> None)"

definition as_environment :: "item option \<Rightarrow> EnvironmentRecord option" where
  "as_environment i = (case i of Some (EnvironmentIt e) \<Rightarrow> Some e | _ \<Rightarrow> None)"

definition as_idempotency :: "item option \<Rightarrow> IdempotencyItem option" where
  "as_idempotency i = (case i of Some (IdempotencyIt x) \<Rightarrow> Some x | _ \<Rightarrow> None)"

lemma as_record_Some [simp]:
  "as_head i = Some h \<longleftrightarrow> i = Some (HeadItem h)"
  "as_lookup i = Some u \<longleftrightarrow> (\<exists>l. i = Some (LookupIt l) \<and> l_secretUid l = u)"
  "as_access i = Some a \<longleftrightarrow> i = Some (AccessIt a)"
  "as_consumer i = Some c \<longleftrightarrow> i = Some (ConsumerIt c)"
  "as_identity i = Some x \<longleftrightarrow> i = Some (IdentityIt x)"
  "as_agent_grant i = Some g \<longleftrightarrow> i = Some (AgentGrantIt g)"
  "as_grant_mapping i = Some s \<longleftrightarrow> i = Some (GrantMappingIt (Some s))"
  "as_bootstrap i = Some b \<longleftrightarrow> i = Some (BootstrapIt b)"
  "as_environment i = Some e \<longleftrightarrow> i = Some (EnvironmentIt e)"
  "as_idempotency i = Some y \<longleftrightarrow> i = Some (IdempotencyIt y)"
  by (auto simp: as_head_def as_lookup_def as_access_def as_consumer_def as_identity_def
      as_agent_grant_def as_grant_mapping_def as_bootstrap_def as_environment_def
      as_idempotency_def split: option.splits item.splits)

lemma as_record_eval [simp]:
  "as_head (Some (HeadItem h)) = Some h" "as_lookup (Some (LookupIt l)) = Some (l_secretUid l)"
  "as_access (Some (AccessIt a)) = Some a" "as_consumer (Some (ConsumerIt c)) = Some c"
  "as_identity (Some (IdentityIt x)) = Some x" "as_agent_grant (Some (AgentGrantIt g)) = Some g"
  "as_grant_mapping (Some (GrantMappingIt m)) = m" "as_bootstrap (Some (BootstrapIt b)) = Some b"
  "as_environment (Some (EnvironmentIt e)) = Some e"
  "as_idempotency (Some (IdempotencyIt y)) = Some y"
  "as_head None = None" "as_lookup None = None" "as_access None = None" "as_consumer None = None"
  "as_identity None = None" "as_agent_grant None = None" "as_grant_mapping None = None"
  "as_bootstrap None = None" "as_environment None = None" "as_idempotency None = None"
  by (simp_all add: as_head_def as_lookup_def as_access_def as_consumer_def as_identity_def
      as_agent_grant_def as_grant_mapping_def as_bootstrap_def as_environment_def
      as_idempotency_def)

section \<open>Reads\<close>

definition getSecretUid :: "'w services \<Rightarrow> string \<Rightarrow> string \<Rightarrow> ('w, string option) app" where
  "getSecretUid S environment secretId =
     bindM (sv_get S (secretNamePk environment secretId, ''LOOKUP'')) (\<lambda>i. ret (as_lookup i))"

definition getHeadBySecretUid :: "'w services \<Rightarrow> string \<Rightarrow> ('w, HeadRecord option) app" where
  "getHeadBySecretUid S secretUid =
     bindM (sv_get S (secretPk secretUid, ''HEAD'')) (\<lambda>i. ret (as_head i))"

definition getHead :: "'w services \<Rightarrow> string \<Rightarrow> string \<Rightarrow> ('w, HeadRecord option) app" where
  "getHead S environment secretId =
     bindM (getSecretUid S environment secretId) (\<lambda>secretUid.
       case secretUid of None \<Rightarrow> ret None | Some u \<Rightarrow> getHeadBySecretUid S u)"

definition requireHead :: "'w services \<Rightarrow> string \<Rightarrow> string \<Rightarrow> ('w, HeadRecord) app" where
  "requireHead S environment secretId =
     bindM (getHead S environment secretId) (\<lambda>head.
       orRaise head (notFound ''The requested secret was not found.''))"

definition requireHeadBySecretUid :: "'w services \<Rightarrow> string \<Rightarrow> ('w, HeadRecord) app" where
  "requireHeadBySecretUid S secretUid =
     bindM (getHeadBySecretUid S secretUid) (\<lambda>head.
       orRaise head (notFound ''The requested secret was not found.''))"

definition requireEnvironment :: "'w services \<Rightarrow> string \<Rightarrow> ('w, EnvironmentRecord) app" where
  "requireEnvironment S name =
     bindM (sv_get S (environmentsPk, environmentSk name)) (\<lambda>i.
       orRaise (as_environment i) (notFound ''The requested environment is not configured.''))"

definition getIdentity :: "'w services \<Rightarrow> string \<Rightarrow> ('w, IdentityRecord option) app" where
  "getIdentity S fingerprint =
     bindM (sv_get S (identityPk fingerprint, ''PROFILE'')) (\<lambda>i. ret (as_identity i))"

definition getConsumer :: "'w services \<Rightarrow> string \<Rightarrow> ('w, ConsumerRecord option) app" where
  "getConsumer S consumerId =
     bindM (sv_get S (consumerPk consumerId, ''PROFILE'')) (\<lambda>i. ret (as_consumer i))"

definition getAgentGrant :: "'w services \<Rightarrow> string \<Rightarrow> ('w, AgentGrantRecord option) app" where
  "getAgentGrant S grantId =
     bindM (sv_get S (agentGrantPk grantId, ''PROFILE'')) (\<lambda>i. ret (as_agent_grant i))"

definition getAgentGrantForConsumer ::
  "'w services \<Rightarrow> string \<Rightarrow> ('w, AgentGrantRecord option) app" where
  "getAgentGrantForConsumer S consumerId =
     bindM (sv_get S (consumerPk consumerId, ''AGENT_GRANT'')) (\<lambda>mapping.
       case as_grant_mapping mapping of None \<Rightarrow> ret None | Some grantId \<Rightarrow> getAgentGrant S grantId)"

definition getBootstrapCapability ::
  "'w services \<Rightarrow> string \<Rightarrow> ('w, BootstrapCapabilityRecord option) app" where
  "getBootstrapCapability S tokenHash =
     bindM (sv_get S (bootstrapPk tokenHash, ''STATE'')) (\<lambda>i. ret (as_bootstrap i))"

definition getAccessBySecretUid ::
  "'w services \<Rightarrow> string \<Rightarrow> string \<Rightarrow> string \<Rightarrow> ('w, AccessRecord option) app" where
  "getAccessBySecretUid S consumerId environment secretUid =
     bindM (sv_get S (consumerPk consumerId, accessSk environment secretUid))
       (\<lambda>i. ret (as_access i))"

definition getAccess ::
  "'w services \<Rightarrow> string \<Rightarrow> string \<Rightarrow> string \<Rightarrow> ('w, AccessRecord option) app" where
  "getAccess S consumerId environment secretId =
     bindM (getSecretUid S environment secretId) (\<lambda>secretUid.
       case secretUid of None \<Rightarrow> ret None
       | Some u \<Rightarrow> getAccessBySecretUid S consumerId environment u)"

record AccessAndHead =
  ah_access :: "AccessRecord option"
  ah_head :: "HeadRecord option"

definition getAccessAndHead ::
  "'w services \<Rightarrow> string \<Rightarrow> string \<Rightarrow> string \<Rightarrow> ('w, AccessAndHead) app" where
  "getAccessAndHead S consumerId environment secretId =
     bindM (getSecretUid S environment secretId) (\<lambda>secretUid.
       case secretUid of
         None \<Rightarrow> ret \<lparr>ah_access = None, ah_head = None\<rparr>
       | Some u \<Rightarrow>
           bindM (sv_transactGet S [(consumerPk consumerId, accessSk environment u),
                                    (secretPk u, ''HEAD'')]) (\<lambda>responses.
             case responses of
               i # j # _ \<Rightarrow> ret \<lparr>ah_access = as_access i, ah_head = as_head j\<rparr>
             | [i] \<Rightarrow> ret \<lparr>ah_access = as_access i, ah_head = None\<rparr>
             | [] \<Rightarrow> ret \<lparr>ah_access = None, ah_head = None\<rparr>))"

definition getIdempotency ::
  "'w services \<Rightarrow> Actor \<Rightarrow> string \<Rightarrow> ('w, IdempotencyItem option) app" where
  "getIdempotency S actor idempotencyKey =
     bindM (sv_get S (idempotencyPk actor, requestSk idempotencyKey)) (\<lambda>i. ret (as_idempotency i))"

lemmas read_defs = getSecretUid_def getHeadBySecretUid_def getHead_def requireHead_def
  requireHeadBySecretUid_def requireEnvironment_def getIdentity_def getConsumer_def
  getAgentGrant_def getAgentGrantForConsumer_def getBootstrapCapability_def
  getAccessBySecretUid_def getAccess_def getAccessAndHead_def getIdempotency_def

section \<open>What a read returns\<close>

text \<open>The lookup of a name, and the head it leads to, as functions of the table.\<close>

definition uid_of :: "table \<Rightarrow> string \<Rightarrow> string \<Rightarrow> string option" where
  "uid_of t environment secretId = as_lookup (t (secretNamePk environment secretId, ''LOOKUP''))"

definition head_of :: "table \<Rightarrow> string \<Rightarrow> HeadRecord option" where
  "head_of t secretUid = as_head (t (secretPk secretUid, ''HEAD''))"

definition access_of :: "table \<Rightarrow> string \<Rightarrow> string \<Rightarrow> string \<Rightarrow> AccessRecord option" where
  "access_of t consumerId environment secretUid =
     as_access (t (consumerPk consumerId, accessSk environment secretUid))"

definition consumer_of :: "table \<Rightarrow> string \<Rightarrow> ConsumerRecord option" where
  "consumer_of t consumerId = as_consumer (t (consumerPk consumerId, ''PROFILE''))"

definition agent_grant_of :: "table \<Rightarrow> string \<Rightarrow> AgentGrantRecord option" where
  "agent_grant_of t consumerId =
     Option.bind (as_grant_mapping (t (consumerPk consumerId, ''AGENT_GRANT'')))
       (\<lambda>g. as_agent_grant (t (agentGrantPk g, ''PROFILE'')))"

context dynamo
begin

lemma reads_keep_table [keeps_intro]:
  "keeps table (getSecretUid S e i)" "keeps table (getHeadBySecretUid S u)"
  "keeps table (getHead S e i)" "keeps table (requireHead S e i)"
  "keeps table (requireHeadBySecretUid S u)" "keeps table (requireEnvironment S e)"
  "keeps table (getIdentity S f)" "keeps table (getConsumer S c)"
  "keeps table (getAgentGrant S g)" "keeps table (getAgentGrantForConsumer S c)"
  "keeps table (getBootstrapCapability S h)" "keeps table (getAccessBySecretUid S c e u)"
  "keeps table (getAccess S c e i)" "keeps table (getIdempotency S a k)"
  unfolding read_defs by (intro keeps_intro service_keeps)+

lemma getAccessAndHead_keeps [keeps_intro]: "keeps table (getAccessAndHead S c e i)"
  unfolding getAccessAndHead_def
  by (intro keeps_intro service_keeps reads_keep_table) (auto split: list.split intro!: keeps_intro)

lemma getSecretUid_value: "getSecretUid S e i w = (Inr u, w') \<Longrightarrow> u = uid_of (table w) e i"
  by (auto simp: getSecretUid_def em_ok uid_of_def dest: get_item)

lemma getHeadBySecretUid_value:
  "getHeadBySecretUid S u w = (Inr h, w') \<Longrightarrow> h = head_of (table w) u"
  by (auto simp: getHeadBySecretUid_def em_ok head_of_def dest: get_item)

lemma getHead_value:
  assumes "getHead S e i w = (Inr h, w')"
  shows "h = Option.bind (uid_of (table w) e i) (head_of (table w))"
proof -
  obtain u w1 where u: "getSecretUid S e i w = (Inr u, w1)"
    and r: "(case u of None \<Rightarrow> ret None | Some u \<Rightarrow> getHeadBySecretUid S u) w1 = (Inr h, w')"
    using assms by (auto simp: getHead_def em_ok)
  have v: "uid_of (table w) e i = u" "table w1 = table w"
    using getSecretUid_value [OF u] keepsD [OF reads_keep_table(1) u] by simp_all
  show ?thesis
  proof (cases u)
    case (Some x)
    with r have "getHeadBySecretUid S x w1 = (Inr h, w')" by simp
    from getHeadBySecretUid_value [OF this] show ?thesis by (simp add: v Some)
  qed (use r in \<open>simp add: v\<close>)
qed

lemma requireHead_value:
  assumes "requireHead S e i w = (Inr h, w')"
  shows "Option.bind (uid_of (table w) e i) (head_of (table w)) = Some h"
  using assms by (auto simp: requireHead_def em_ok dest: getHead_value)

lemma requireHeadBySecretUid_value:
  "requireHeadBySecretUid S u w = (Inr h, w') \<Longrightarrow> head_of (table w) u = Some h"
  by (auto simp: requireHeadBySecretUid_def em_ok dest: getHeadBySecretUid_value)

lemma getConsumer_value: "getConsumer S c w = (Inr r, w') \<Longrightarrow> r = consumer_of (table w) c"
  by (auto simp: getConsumer_def em_ok consumer_of_def dest: get_item)

lemma getIdentity_value:
  "getIdentity S f w = (Inr r, w') \<Longrightarrow> r = as_identity (table w (identityPk f, ''PROFILE''))"
  by (auto simp: getIdentity_def em_ok dest: get_item)

lemma getAgentGrant_value:
  "getAgentGrant S g w = (Inr r, w') \<Longrightarrow> r = as_agent_grant (table w (agentGrantPk g, ''PROFILE''))"
  by (auto simp: getAgentGrant_def em_ok dest: get_item)

lemma getAgentGrantForConsumer_value:
  assumes "getAgentGrantForConsumer S c w = (Inr r, w')"
  shows "r = agent_grant_of (table w) c"
proof -
  obtain m w1 where m: "sv_get S (consumerPk c, ''AGENT_GRANT'') w = (Inr m, w1)"
    and r: "(case as_grant_mapping m of None \<Rightarrow> ret None | Some g \<Rightarrow> getAgentGrant S g) w1 = (Inr r, w')"
    using assms by (auto simp: getAgentGrantForConsumer_def em_ok)
  have v: "table w (consumerPk c, ''AGENT_GRANT'') = m" "table w1 = table w"
    using get_item [OF m] get_run [OF m] by simp_all
  show ?thesis
  proof (cases "as_grant_mapping m")
    case (Some g)
    with r have "getAgentGrant S g w1 = (Inr r, w')" by simp
    from getAgentGrant_value [OF this] show ?thesis unfolding agent_grant_of_def v Some by simp
  next
    case None
    with r show ?thesis unfolding agent_grant_of_def v None by simp
  qed
qed

lemma getAccessBySecretUid_value:
  "getAccessBySecretUid S c e u w = (Inr r, w') \<Longrightarrow> r = access_of (table w) c e u"
  by (auto simp: getAccessBySecretUid_def em_ok access_of_def dest: get_item)

lemma getAccess_value:
  assumes "getAccess S c e i w = (Inr r, w')"
  shows "r = Option.bind (uid_of (table w) e i) (access_of (table w) c e)"
proof -
  obtain u w1 where u: "getSecretUid S e i w = (Inr u, w1)"
    and r: "(case u of None \<Rightarrow> ret None | Some u \<Rightarrow> getAccessBySecretUid S c e u) w1 = (Inr r, w')"
    using assms by (auto simp: getAccess_def em_ok)
  have v: "uid_of (table w) e i = u" "table w1 = table w"
    using getSecretUid_value [OF u] keepsD [OF reads_keep_table(1) u] by simp_all
  show ?thesis
  proof (cases u)
    case (Some x)
    with r have "getAccessBySecretUid S c e x w1 = (Inr r, w')" by simp
    from getAccessBySecretUid_value [OF this] show ?thesis by (simp add: v Some)
  qed (use r in \<open>simp add: v\<close>)
qed

lemma getAccessAndHead_value:
  assumes "getAccessAndHead S c e i w = (Inr r, w')"
  shows "ah_access r = Option.bind (uid_of (table w) e i) (access_of (table w) c e)"
    and "ah_head r = Option.bind (uid_of (table w) e i) (head_of (table w))"
proof -
  obtain u w1 where u: "getSecretUid S e i w = (Inr u, w1)"
    and r: "(case u of None \<Rightarrow> ret \<lparr>ah_access = None, ah_head = None\<rparr>
       | Some u \<Rightarrow>
           bindM (sv_transactGet S [(consumerPk c, accessSk e u), (secretPk u, ''HEAD'')])
             (\<lambda>responses. case responses of
               i # j # _ \<Rightarrow> ret \<lparr>ah_access = as_access i, ah_head = as_head j\<rparr>
             | [i] \<Rightarrow> ret \<lparr>ah_access = as_access i, ah_head = None\<rparr>
             | [] \<Rightarrow> ret \<lparr>ah_access = None, ah_head = None\<rparr>)) w1 = (Inr r, w')"
    using assms by (auto simp: getAccessAndHead_def em_ok)
  have v: "uid_of (table w) e i = u" "table w1 = table w"
    using getSecretUid_value [OF u] keepsD [OF reads_keep_table(1) u] by simp_all
  have "ah_access r = Option.bind u (access_of (table w) c e)
      \<and> ah_head r = Option.bind u (head_of (table w))"
  proof (cases u)
    case (Some x)
    from r [unfolded Some option.case bindM_ok] obtain rs w2 where "sv_transactGet S [(consumerPk c, accessSk e x), (secretPk x, ''HEAD'')] w1
        = (Inr rs, w2)" and k: "(case rs of
               i # j # _ \<Rightarrow> ret \<lparr>ah_access = as_access i, ah_head = as_head j\<rparr>
             | [i] \<Rightarrow> ret \<lparr>ah_access = as_access i, ah_head = None\<rparr>
             | [] \<Rightarrow> ret \<lparr>ah_access = None, ah_head = None\<rparr>) w2 = ((Inr r, w') :: (exn + AccessAndHead) \<times> _)"
      by blast
    from transactGet_items [OF this(1)] k show ?thesis
      by (auto simp: v Some access_of_def head_of_def)
  qed (use r in auto)
  then show "ah_access r = Option.bind (uid_of (table w) e i) (access_of (table w) c e)"
    and "ah_head r = Option.bind (uid_of (table w) e i) (head_of (table w))"
    by (simp_all add: v)
qed

lemma getIdempotency_value:
  "getIdempotency S a k w = (Inr r, w') \<Longrightarrow>
     r = as_idempotency (table w (idempotencyPk a, requestSk k))"
  by (auto simp: getIdempotency_def em_ok dest: get_item)

end

end
