(* ===== verification/Mutation.thy ===== *)
theory Mutation
  imports Repository
begin

text \<open>
  The two transactions of a secret mutation, DynamoRepository.prepareMutation and completeMutation
  (src/src/repositories/dynamo.ts), and the helpers they are built from. Preparing records the
  request, stores the new revisions as prepared workflow items and takes the head's lease (or
  creates head and name). Completing moves the head to the new revisions, rewrites the consumers'
  access rows, queues notifications and publishes the secret in the synchronisation index, in one
  transaction.
\<close>

section \<open>Prepared and completed mutations\<close>

record PreparedPayload =
  pp_revision :: PayloadRevision
  pp_key :: string
  pp_checksumSha256 :: string
  pp_bytes :: document

record PreparedMutation =
  pm_operationId :: string
  pm_idempotencyKey :: string
  pm_actor :: Actor
  pm_requestDigest :: string
  pm_secretId :: string
  pm_secretUid :: string
  pm_environment :: string
  pm_expectedControlVersionId :: "string option"
  pm_archive :: bool
  pm_control :: ControlRevision
  pm_controlKey :: string
  pm_controlChecksumSha256 :: string
  pm_controlBytes :: document
  pm_payload :: "PreparedPayload option"
  pm_expiresAt :: timestamp

record CompletedMutation =
  cm_prepared :: PreparedMutation
  cm_controlObject :: ObjectReference
  cm_payloadObject :: "ObjectReference option"
  cm_priorHead :: "HeadRecord option"
  cm_priorAccess :: "AccessRecord list"

section \<open>Workflow items\<close>

definition workflowItem ::
  "string \<Rightarrow> string \<Rightarrow> string \<Rightarrow> string \<Rightarrow> timestamp \<Rightarrow> serialized
     \<Rightarrow> (timestamp \<times> string) option \<Rightarrow> WorkflowItem" where
  "workflowItem secretUid operationId objectKey checksumSha256 expiresAt serial revisionIndex = \<lparr>
     w_workflowState = W_PREPARED,
     w_workflowKind = Some SecretMutation,
     w_operationId = operationId,
     w_objectKey = objectKey,
     w_checksumSha256 = checksumSha256,
     w_expiresAt = expiresAt,
     w_serialized = Some serial,
     w_s3VersionId = None,
     w_workflowDue = Some (''WORKFLOW#DUE'', expiresAt),
     w_retentionDue = None,
     w_revision = map_option (Pair (secretPk secretUid)) revisionIndex \<rparr>"

definition workflowReadyUpdate :: "string \<Rightarrow> string \<Rightarrow> ObjectReference \<Rightarrow> action" where
  "workflowReadyUpdate secretUid sk object = Update (secretPk secretUid, sk)
     (on_workflow (\<lambda>x. x\<lparr>w_workflowState := W_READY, w_s3VersionId := Some (o_versionId object),
        w_objectKey := o_key object, w_checksumSha256 := o_checksumSha256 object,
        w_workflowDue := None\<rparr>))
     (workflow_sat (\<lambda>x. w_workflowState x = W_PREPARED))"

definition retentionCandidateUpdate :: "string \<Rightarrow> string \<Rightarrow> timestamp \<Rightarrow> action" where
  "retentionCandidateUpdate secretUid sk retentionDueAt = Update (secretPk secretUid, sk)
     (on_workflow (\<lambda>x. x\<lparr>w_retentionDue := Some (''RETENTION#DUE'', retentionDueAt)\<rparr>))
     (workflow_sat (\<lambda>x. w_workflowState x = W_READY))"

section \<open>Access rows and notifications\<close>

definition hasRead :: "Grant \<Rightarrow> bool" where
  "hasRead grant \<longleftrightarrow> PRead \<in> set (g_permissions grant)"

definition acl_map :: "ControlRevision \<Rightarrow> string \<rightharpoonup> Grant" where
  "acl_map control = js_map (map (\<lambda>grant. (g_consumerId grant, grant)) (c_acl control))"

definition accessItem :: "string \<Rightarrow> ControlRevision \<Rightarrow> string \<Rightarrow> AccessRecord" where
  "accessItem secretUid control consumerId =
     (let canRead = (case acl_map control consumerId of None \<Rightarrow> False | Some grant \<Rightarrow> hasRead grant)
      in \<lparr>a_consumerId = consumerId,
          a_secretUid = secretUid,
          a_secretId = c_secretId control,
          a_environment = c_environment control,
          a_permissions = (if canRead then [PRead] else []),
          a_controlVersionId = c_controlVersionId control,
          a_payloadVersionId = c_payloadVersionId control,
          a_state = (if canRead then c_state control else S_REVOKED),
          a_changeKind = (if canRead then SecretChanged else SecretRevoked)\<rparr>)"

definition accessItemsFor ::
  "string \<Rightarrow> ControlRevision \<Rightarrow> AccessRecord list \<Rightarrow> AccessRecord list" where
  "accessItemsFor secretUid control prior =
     map (accessItem secretUid control)
       (uniq (uniq (map a_consumerId prior) @ uniq (map g_consumerId (c_acl control))))"

definition activeRead :: "AccessRecord \<Rightarrow> bool" where
  "activeRead access \<longleftrightarrow> PRead \<in> set (a_permissions access) \<and> a_state access \<noteq> S_REVOKED"

definition accessProjectionChanged :: "ControlRevision \<Rightarrow> AccessRecord list \<Rightarrow> bool" where
  "accessProjectionChanged control prior =
     (let grants = uniq (map g_consumerId (filter hasRead (c_acl control)));
          activePrior = uniq (map a_consumerId (filter activeRead prior))
      in if length grants \<noteq> length activePrior then True
         else some_in (\<lambda>consumerId. consumerId \<notin> set activePrior) grants)"

definition notificationOutboxRecord ::
  "'w services \<Rightarrow> ControlRevision \<Rightarrow> change_kind \<Rightarrow> string list
     \<Rightarrow> ('w, NotificationOutboxRecord option) app" where
  "notificationOutboxRecord S control kind consumerIds =
     (if length consumerIds = 0 then ret None
      else bindM (sv_newId S) (\<lambda>eventId. ret (Some \<lparr>
        n_eventId = eventId,
        n_consumerIds = Some consumerIds,
        n_consumerId = None,
        n_secretId = c_secretId control,
        n_environment = c_environment control,
        n_controlVersionId = c_controlVersionId control,
        n_payloadVersionId = (if kind = SecretRevoked then None else c_payloadVersionId control),
        n_kind = kind,
        n_createdAt = c_createdAt control,
        n_status = N_PENDING,
        n_deliveredAt = None,
        n_ttl = None\<rparr>)))"

definition currentRecipients :: "ControlRevision \<Rightarrow> AccessRecord list \<Rightarrow> bool \<Rightarrow> string list" where
  "currentRecipients control accessItems accessChanged =
     (if accessChanged then map a_consumerId (filter activeRead accessItems)
      else map g_consumerId (filter hasRead (c_acl control)))"

definition revokedRecipients :: "AccessRecord list \<Rightarrow> bool \<Rightarrow> string list" where
  "revokedRecipients accessItems accessChanged =
     (if accessChanged then map a_consumerId (filter (\<lambda>access. \<not> activeRead access) accessItems)
      else [])"

definition notificationItemsFor ::
  "'w services \<Rightarrow> ControlRevision \<Rightarrow> AccessRecord list \<Rightarrow> bool
     \<Rightarrow> ('w, NotificationOutboxRecord list) app" where
  "notificationItemsFor S control accessItems accessChanged =
     bindM (notificationOutboxRecord S control SecretChanged
       (currentRecipients control accessItems accessChanged)) (\<lambda>changed.
     bindM (notificationOutboxRecord S control SecretRevoked
       (revokedRecipients accessItems accessChanged)) (\<lambda>revoked.
     ret (List.map_filter id [changed, revoked])))"

section \<open>Preparing\<close>

definition errorMessage :: "exn \<Rightarrow> string" where
  "errorMessage error = (case error of ApiError s c m \<Rightarrow> m | ConditionalCheckFailed m \<Rightarrow> m
     | TransactionCanceled m rs \<Rightarrow> m
     | TruststoreRejected \<Rightarrow> ''API Gateway rejected the truststore certificate bundle.''
     | OtherError n m \<Rightarrow> m)"

definition isConditionalCheckFailure :: "exn \<Rightarrow> bool" where
  "isConditionalCheckFailure error = (case error of ConditionalCheckFailed m \<Rightarrow> True | _ \<Rightarrow> False)"

definition lease_free :: "timestamp \<Rightarrow> HeadRecord \<Rightarrow> bool" where
  "lease_free now h = (case h_leaseExpiresAt h of None \<Rightarrow> True | Some e \<Rightarrow> e < now)"

definition new_head :: "PreparedMutation \<Rightarrow> HeadRecord" where
  "new_head m = \<lparr>
     h_syncSequence = None,
     h_secretUid = pm_secretUid m,
     h_secretId = pm_secretId m,
     h_environment = pm_environment m,
     h_controlVersionId = c_controlVersionId (pm_control m),
     h_controlObjectVersionId = None,
     h_controlObjectKey = None,
     h_payloadVersionId = c_payloadVersionId (pm_control m),
     h_payloadObjectVersionId = None,
     h_payloadObjectKey = None,
     h_payloadKeyCount = c_payloadKeyCount (pm_control m),
     h_state = c_state (pm_control m),
     h_metadata = Some (c_metadata (pm_control m)),
     h_updatedAt = Some (c_createdAt (pm_control m)),
     h_catalogPk = Some (catalogPk (pm_environment m)),
     h_catalogSk = Some (catalogSk (pm_secretId m)),
     h_catalogTags = Some (case md_tags (c_metadata (pm_control m)) of None \<Rightarrow> [] | Some t \<Rightarrow> t),
     h_workflowState = Some W_PREPARED,
     h_leaseOwner = Some (pm_operationId m),
     h_leaseExpiresAt = Some (pm_expiresAt m) \<rparr>"

definition prepared_request :: "PreparedMutation \<Rightarrow> IdempotencyItem" where
  "prepared_request m = \<lparr>
     id_requestDigest = Some (pm_requestDigest m),
     id_operationId = Some (pm_operationId m),
     id_operationType = None, id_consumerId = None, id_environment = None,
     id_rootFingerprint = None, id_apiFingerprint = None,
     id_status = Some ID_PREPARED,
     id_expiresAt = Some (pm_expiresAt m),
     id_terminalAuditEventId = None \<rparr>"

definition prepared_control :: "PreparedMutation \<Rightarrow> WorkflowItem" where
  "prepared_control m = workflowItem (pm_secretUid m) (pm_operationId m) (pm_controlKey m)
     (pm_controlChecksumSha256 m) (pm_expiresAt m) (SerControl (pm_control m))
     (Some (c_createdAt (pm_control m), c_controlVersionId (pm_control m)))"

definition prepared_payload :: "PreparedMutation \<Rightarrow> PreparedPayload \<Rightarrow> WorkflowItem" where
  "prepared_payload m p = workflowItem (pm_secretUid m) (pm_operationId m) (pp_key p)
     (pp_checksumSha256 p) (pm_expiresAt m) (SerPayload (pp_revision p)) None"

definition prepare_head_actions :: "PreparedMutation \<Rightarrow> timestamp \<Rightarrow> action list" where
  "prepare_head_actions m now =
     (case pm_expectedControlVersionId m of
        None \<Rightarrow>
          [Put (secretPk (pm_secretUid m), ''HEAD'') (HeadItem (new_head m)) attribute_not_exists_pk,
           Put (secretNamePk (pm_environment m) (pm_secretId m), ''LOOKUP'')
             (LookupIt \<lparr>l_secretUid = pm_secretUid m, l_secretId = pm_secretId m,
                        l_environment = pm_environment m\<rparr>) attribute_not_exists_pk]
      | Some expected \<Rightarrow>
          [Update (secretPk (pm_secretUid m), ''HEAD'')
             (on_head (\<lambda>h. h\<lparr>h_leaseOwner := Some (pm_operationId m),
                             h_leaseExpiresAt := Some (pm_expiresAt m)\<rparr>))
             (head_sat (\<lambda>h. h_controlVersionId h = expected \<and> lease_free now h))])"

definition prepare_actions :: "PreparedMutation \<Rightarrow> timestamp \<Rightarrow> action list" where
  "prepare_actions m now =
     [Put (idempotencyPk (pm_actor m), requestSk (pm_idempotencyKey m))
        (IdempotencyIt (prepared_request m)) attribute_not_exists_pk,
      Put (secretPk (pm_secretUid m), controlSk (c_controlVersionId (pm_control m)))
        (WorkflowIt (prepared_control m)) attribute_not_exists_pk]
     @ (case pm_payload m of None \<Rightarrow> []
        | Some p \<Rightarrow> [Put (secretPk (pm_secretUid m), payloadSk (p_payloadVersionId (pp_revision p)))
            (WorkflowIt (prepared_payload m p)) attribute_not_exists_pk])
     @ prepare_head_actions m now"

text \<open>The clock is read only for the lease condition of an update.\<close>

definition prepareMutation :: "'w services \<Rightarrow> PreparedMutation \<Rightarrow> ('w, unit) app" where
  "prepareMutation S m =
     bindM (case pm_expectedControlVersionId m of None \<Rightarrow> ret 0 | Some e \<Rightarrow> sv_now S) (\<lambda>now.
       catchM (sv_transactWrite S (prepare_actions m now))
         (\<lambda>error. raise (conflict
            (''Could not acquire the secret revision lease: '' @ errorMessage error))))"

section \<open>Completing\<close>

definition orElse :: "'a option \<Rightarrow> 'a option \<Rightarrow> 'a option" where
  "orElse a b = (case a of None \<Rightarrow> b | Some x \<Rightarrow> Some x)"

definition next_payload_triple :: "CompletedMutation \<Rightarrow> (string \<times> string \<times> string) option" where
  "next_payload_triple completed =
     (let payloadVersionId = (case pm_payload (cm_prepared completed) of
            None \<Rightarrow> Option.bind (cm_priorHead completed) h_payloadVersionId
          | Some p \<Rightarrow> Some (p_payloadVersionId (pp_revision p)));
          payloadObjectVersionId = (case cm_payloadObject completed of
            None \<Rightarrow> Option.bind (cm_priorHead completed) h_payloadObjectVersionId
          | Some ob \<Rightarrow> Some (o_versionId ob));
          payloadObjectKey = (case cm_payloadObject completed of
            None \<Rightarrow> Option.bind (cm_priorHead completed) h_payloadObjectKey
          | Some ob \<Rightarrow> Some (o_key ob))
      in case (payloadVersionId, payloadObjectVersionId, payloadObjectKey) of
           (Some v, Some ov, Some k) \<Rightarrow> Some (v, ov, k) | _ \<Rightarrow> None)"

definition complete_head :: "CompletedMutation \<Rightarrow> nat \<Rightarrow> HeadRecord \<Rightarrow> HeadRecord" where
  "complete_head completed sequence h =
     (let m = cm_prepared completed; control = pm_control m; triple = next_payload_triple completed
      in h\<lparr>h_controlVersionId := c_controlVersionId control,
           h_controlObjectVersionId := Some (o_versionId (cm_controlObject completed)),
           h_controlObjectKey := Some (o_key (cm_controlObject completed)),
           h_state := c_state control,
           h_workflowState := Some W_READY,
           h_metadata := Some (c_metadata control),
           h_updatedAt := Some (c_createdAt control),
           h_catalogPk := Some (catalogPkFor (c_environment control) (pm_archive m)),
           h_catalogSk := Some (catalogSk (pm_secretId m)),
           h_catalogTags := Some (case md_tags (c_metadata control) of None \<Rightarrow> [] | Some t \<Rightarrow> t),
           h_payloadVersionId := map_option fst triple,
           h_payloadObjectVersionId := map_option (fst \<circ> snd) triple,
           h_payloadObjectKey := map_option (snd \<circ> snd) triple,
           h_payloadKeyCount := c_payloadKeyCount control,
           h_syncSequence := Some sequence,
           h_leaseOwner := None,
           h_leaseExpiresAt := None\<rparr>)"

definition complete_head_action :: "CompletedMutation \<Rightarrow> nat \<Rightarrow> action" where
  "complete_head_action completed sequence =
     Update (secretPk (pm_secretUid (cm_prepared completed)), ''HEAD'')
       (on_head (complete_head completed sequence))
       (head_sat (\<lambda>h. h_leaseOwner h = Some (pm_operationId (cm_prepared completed))))"

definition ready_actions :: "CompletedMutation \<Rightarrow> action list" where
  "ready_actions completed =
     (let m = cm_prepared completed
      in workflowReadyUpdate (pm_secretUid m) (controlSk (c_controlVersionId (pm_control m)))
           (cm_controlObject completed)
         # (case (pm_payload m, cm_payloadObject completed) of
              (Some p, Some ob) \<Rightarrow>
                [workflowReadyUpdate (pm_secretUid m)
                   (payloadSk (p_payloadVersionId (pp_revision p))) ob]
            | _ \<Rightarrow> []))"

definition retention_actions :: "CompletedMutation \<Rightarrow> timestamp \<Rightarrow> action list" where
  "retention_actions completed retentionDueAt =
     (let uid = pm_secretUid (cm_prepared completed)
      in case cm_priorHead completed of
           None \<Rightarrow> []
         | Some prior \<Rightarrow>
             retentionCandidateUpdate uid (controlSk (h_controlVersionId prior)) retentionDueAt
             # (case h_payloadVersionId prior of None \<Rightarrow> []
                | Some v \<Rightarrow> [retentionCandidateUpdate uid (payloadSk v) retentionDueAt]))"

definition archive_actions :: "PreparedMutation \<Rightarrow> action list" where
  "archive_actions m = (if pm_archive m
     then [Delete (secretNamePk (pm_environment m) (pm_secretId m), ''LOOKUP'')
             (\<lambda>i. as_lookup i = Some (pm_secretUid m))]
     else [])"

definition access_actions :: "AccessRecord list \<Rightarrow> action list" where
  "access_actions items = map (\<lambda>a. Put (consumerPk (a_consumerId a),
     accessSk (a_environment a) (a_secretUid a)) (AccessIt a) no_condition) items"

definition notification_actions :: "NotificationOutboxRecord list \<Rightarrow> action list" where
  "notification_actions ns = map (\<lambda>n. Put (notificationPk (n_eventId n), ''EVENT'')
     (NotificationIt n) attribute_not_exists_pk) ns"

text \<open>The transaction after its first action, which updates the head.\<close>

definition complete_rest ::
  "CompletedMutation \<Rightarrow> timestamp \<Rightarrow> NotificationOutboxRecord list \<Rightarrow> action list" where
  "complete_rest completed retentionDueAt notifications =
     (let m = cm_prepared completed
      in ready_actions completed @ retention_actions completed retentionDueAt @ archive_actions m
         @ (if accessProjectionChanged (pm_control m) (cm_priorAccess completed)
            then access_actions
              (accessItemsFor (pm_secretUid m) (pm_control m) (cm_priorAccess completed))
            else [])
         @ notification_actions notifications)"

definition retentionPeriod :: int where
  "retentionPeriod = 91 * 24 * 60 * 60 * 1000"

definition completeMutation :: "'w services \<Rightarrow> CompletedMutation \<Rightarrow> ('w, unit) app" where
  "completeMutation S completed =
     (let m = cm_prepared completed; control = pm_control m;
          accessItems = accessItemsFor (pm_secretUid m) control (cm_priorAccess completed);
          replaceAccess = accessProjectionChanged control (cm_priorAccess completed)
      in bindM (notificationItemsFor S control accessItems replaceAccess) (\<lambda>notificationItems.
         bindM (case cm_priorHead completed of
                  None \<Rightarrow> ret 0
                | Some prior \<Rightarrow> bindM (sv_now S) (\<lambda>now. ret (now + retentionPeriod))) (\<lambda>retentionDueAt.
         (let rest = complete_rest completed retentionDueAt notificationItems
          in thenM (throwIf (length rest + 1 > 100)
               (serviceUnavailable ''Mutation exceeds the DynamoDB transaction limit.''))
             (publish S (pm_environment m) (syncRecord (pm_secretUid m) control)
               (\<lambda>sequence. complete_head_action completed sequence # rest))))))"

section \<open>Workflow state changes\<close>

definition markAuditSucceeded :: "'w services \<Rightarrow> Actor \<Rightarrow> string \<Rightarrow> string \<Rightarrow> ('w, unit) app" where
  "markAuditSucceeded S actor idempotencyKey eventId =
     sv_write S (Upsert (idempotencyPk actor, requestSk idempotencyKey)
       (\<lambda>i. (case i of
          Some (IdempotencyIt x) \<Rightarrow>
            IdempotencyIt (x\<lparr>id_status := Some ID_SUCCEEDED, id_terminalAuditEventId := Some eventId\<rparr>)
        | Some other \<Rightarrow> other
        | None \<Rightarrow> IdempotencyIt \<lparr>id_requestDigest = None, id_operationId = None,
            id_operationType = None, id_consumerId = None, id_environment = None,
            id_rootFingerprint = None, id_apiFingerprint = None,
            id_status = Some ID_SUCCEEDED, id_expiresAt = None,
            id_terminalAuditEventId = Some eventId\<rparr>)) no_condition)"

text \<open>A write whose refused condition is the answer false.\<close>

definition unless_refused :: "('w, unit) app \<Rightarrow> ('w, bool) app" where
  "unless_refused m = catchM (thenM m (ret True))
     (\<lambda>error. if isConditionalCheckFailure error then ret False else raise error)"

definition markRetryable :: "'w services \<Rightarrow> dkey \<Rightarrow> ('w, bool) app" where
  "markRetryable S key = unless_refused (sv_write S (Update key
     (on_workflow (\<lambda>x. x\<lparr>w_workflowState := W_RETRYABLE, w_workflowDue := None\<rparr>))
     (workflow_sat (\<lambda>x. w_workflowState x = W_PREPARED))))"

definition release_action :: "string \<Rightarrow> string \<Rightarrow> action" where
  "release_action secretUid operationId = Update (secretPk secretUid, ''HEAD'')
     (on_head (\<lambda>h. h\<lparr>h_leaseOwner := None, h_leaseExpiresAt := None\<rparr>))
     (head_sat (\<lambda>h. h_leaseOwner h = Some operationId))"

definition releaseLease :: "'w services \<Rightarrow> string \<Rightarrow> string \<Rightarrow> ('w, bool) app" where
  "releaseLease S secretUid operationId =
     unless_refused (sv_write S (release_action secretUid operationId))"

definition abort_actions :: "string \<Rightarrow> string \<Rightarrow> string \<Rightarrow> string \<Rightarrow> action list" where
  "abort_actions environment secretId secretUid operationId =
     [Delete (secretPk secretUid, ''HEAD'')
        (\<lambda>i. case i of Some (HeadItem h) \<Rightarrow>
           h_leaseOwner h = Some operationId \<and> h_workflowState h = Some W_PREPARED | _ \<Rightarrow> False),
      Delete (secretNamePk environment secretId, ''LOOKUP'')
        (\<lambda>i. as_lookup i = Some secretUid)]"

definition abortPreparedCreate ::
  "'w services \<Rightarrow> string \<Rightarrow> string \<Rightarrow> string \<Rightarrow> string \<Rightarrow> ('w, bool) app" where
  "abortPreparedCreate S environment secretId secretUid operationId =
     unless_refused
       (sv_transactWrite S (abort_actions environment secretId secretUid operationId))"

definition markRetentionDeleted :: "'w services \<Rightarrow> dkey \<Rightarrow> ('w, unit) app" where
  "markRetentionDeleted S key = sv_write S (Update key
     (on_workflow (\<lambda>x. x\<lparr>w_workflowState := W_DELETED, w_retentionDue := None\<rparr>))
     (workflow_sat (\<lambda>x. w_workflowState x = W_READY)))"

type_synonym StoredWorkflow = "dkey \<times> WorkflowItem"

text \<open>
  The attributes of an enrollment operation that a workflow also has; those it does not have, which the
  recovery does not read of it, are empty.
\<close>

definition enrollment_workflow :: "EnrollmentItem \<Rightarrow> WorkflowItem" where
  "enrollment_workflow e = \<lparr>w_workflowState = e_workflowState e, w_workflowKind = Some ConsumerEnrollment,
     w_operationId = e_operationId e, w_objectKey = [], w_checksumSha256 = [], w_expiresAt = 0,
     w_serialized = None, w_s3VersionId = None, w_workflowDue = e_workflowDue e, w_retentionDue = None,
     w_revision = None\<rparr>"

definition as_workflow :: "dkey \<times> item \<Rightarrow> StoredWorkflow option" where
  "as_workflow p = (case snd p of WorkflowIt x \<Rightarrow> Some (fst p, x)
     | EnrollmentIt e \<Rightarrow> Some (fst p, enrollment_workflow e) | _ \<Rightarrow> None)"

definition workflow_due :: "item \<Rightarrow> (string \<times> timestamp) option" where
  "workflow_due it = (case it of WorkflowIt x \<Rightarrow> w_workflowDue x | EnrollmentIt e \<Rightarrow> e_workflowDue e | _ \<Rightarrow> None)"

definition expired_query :: "timestamp \<Rightarrow> startKey option \<Rightarrow> query" where
  "expired_query now start = \<lparr>
     q_index = WorkflowDueIndex,
     q_keyCondition = (\<lambda>k it. (case workflow_due it of None \<Rightarrow> False
       | Some (pk, due) \<Rightarrow> pk = ''WORKFLOW#DUE'' \<and> due < now)),
     q_filter = (\<lambda>k it. True), q_forward = True, q_limit = None, q_exclusiveStartKey = start \<rparr>"

text \<open>The page loop with a bound on the pages; None when the bound is reached first.\<close>

fun listExpiredPrepared ::
  "nat \<Rightarrow> 'w services \<Rightarrow> timestamp \<Rightarrow> startKey option \<Rightarrow> ('w, StoredWorkflow list option) app" where
  "listExpiredPrepared 0 S now start = ret None"
| "listExpiredPrepared (Suc n) S now start =
     bindM (sv_query S (expired_query now start)) (\<lambda>response.
       let workflows = List.map_filter as_workflow (qp_items response)
       in case qp_lastEvaluatedKey response of
            None \<Rightarrow> ret (Some workflows)
          | Some key \<Rightarrow> bindM (listExpiredPrepared n S now (Some key)) (\<lambda>more.
              ret (map_option (\<lambda>ws. workflows @ ws) more)))"

definition ready_query :: "timestamp \<Rightarrow> query" where
  "ready_query now = \<lparr>
     q_index = RetentionDueIndex,
     q_keyCondition = (\<lambda>k it. workflow_sat (\<lambda>x. case w_retentionDue x of None \<Rightarrow> False
       | Some (pk, due) \<Rightarrow> pk = ''RETENTION#DUE'' \<and> due \<le> now) it),
     q_filter = (\<lambda>k it. True), q_forward = True, q_limit = None, q_exclusiveStartKey = None \<rparr>"

definition listReadyWorkflows :: "'w services \<Rightarrow> ('w, StoredWorkflow list) app" where
  "listReadyWorkflows S = bindM (sv_now S) (\<lambda>now.
     bindM (sv_query S (ready_query now)) (\<lambda>response.
       ret (List.map_filter as_workflow (qp_items response))))"

end
