(* ===== verification/Mutation_Laws.thy ===== *)
theory Mutation_Laws
  imports Mutation
begin

text \<open>
  What the two transactions of a mutation do: the access rows and notifications they compute, the
  table they leave, and what stands when one is refused or its outcome is lost.
\<close>

section \<open>Access rows\<close>

definition acl_readers :: "ControlRevision \<Rightarrow> string set" where
  "acl_readers control = g_consumerId ` {grant \<in> set (c_acl control). hasRead grant}"

definition active_consumers :: "AccessRecord list \<Rightarrow> string set" where
  "active_consumers prior = a_consumerId ` {access \<in> set prior. activeRead access}"

definition wf_acl :: "Grant list \<Rightarrow> bool" where
  "wf_acl acl \<longleftrightarrow> distinct (map g_consumerId acl)"

lemma accessItem_sel [simp]:
  "a_consumerId (accessItem u c i) = i" "a_secretUid (accessItem u c i) = u"
  "a_environment (accessItem u c i) = c_environment c" "a_secretId (accessItem u c i) = c_secretId c"
  "a_controlVersionId (accessItem u c i) = c_controlVersionId c"
  "a_payloadVersionId (accessItem u c i) = c_payloadVersionId c"
  by (simp_all add: accessItem_def Let_def)

lemma acl_map_Some:
  "wf_acl (c_acl c) \<Longrightarrow> acl_map c i = Some g \<longleftrightarrow> g \<in> set (c_acl c) \<and> g_consumerId g = i"
  unfolding acl_map_def wf_acl_def
  by (auto simp: comp_def intro!: js_map_distinct dest!: js_map_SomeD)

lemma accessItem_active:
  assumes "wf_acl (c_acl c)"
  shows "activeRead (accessItem u c i) \<longleftrightarrow> i \<in> acl_readers c \<and> c_state c \<noteq> S_REVOKED"
proof (cases "acl_map c i")
  case None
  then have "i \<notin> g_consumerId ` set (c_acl c)"
    by (simp add: acl_map_def image_image)
  with None show ?thesis by (auto simp: accessItem_def activeRead_def acl_readers_def)
next
  case (Some g)
  then have g: "g \<in> set (c_acl c)" "g_consumerId g = i" using acl_map_Some [OF assms] by auto
  have "i \<in> acl_readers c \<longleftrightarrow> hasRead g"
  proof
    assume "i \<in> acl_readers c"
    then obtain x where x: "x \<in> set (c_acl c)" "hasRead x" "g_consumerId x = i"
      by (auto simp: acl_readers_def)
    then have "acl_map c i = Some x" using acl_map_Some [OF assms] by simp
    with Some x show "hasRead g" by simp
  qed (use g in \<open>auto simp: acl_readers_def\<close>)
  with Some show ?thesis by (simp add: accessItem_def activeRead_def Let_def)
qed

lemma accessItems_consumers:
  "map a_consumerId (accessItemsFor u c prior)
     = uniq (uniq (map a_consumerId prior) @ uniq (map g_consumerId (c_acl c)))"
  by (simp add: accessItemsFor_def comp_def)

lemma accessItems_mem:
  "a \<in> set (accessItemsFor u c prior) \<longleftrightarrow> a = accessItem u c (a_consumerId a)
     \<and> a_consumerId a \<in> a_consumerId ` set prior \<union> g_consumerId ` set (c_acl c)"
  by (auto simp: accessItemsFor_def)

lemma accessItems_length:
  "length (accessItemsFor u c prior) \<le> length prior + length (c_acl c)"
proof -
  have "length (accessItemsFor u c prior)
      \<le> length (uniq (map a_consumerId prior) @ uniq (map g_consumerId (c_acl c)))"
    by (simp only: accessItemsFor_def length_map length_uniq_le)
  also have "\<dots> \<le> length (map a_consumerId prior) + length (map g_consumerId (c_acl c))"
    unfolding length_append by (intro add_mono length_uniq_le)
  finally show ?thesis by simp
qed

text \<open>The comparison of two Map sizes and one direction of membership decides set equality.\<close>

lemma uniq_differ_iff:
  "(length (uniq xs) \<noteq> length (uniq ys) \<or> (\<exists>x \<in> set xs. x \<notin> set ys)) \<longleftrightarrow> set xs \<noteq> set ys"
proof -
  have c: "length (uniq zs) = card (set zs)" for zs :: "'a list"
    by (metis distinct_card distinct_uniq set_uniq)
  have "set xs \<subseteq> set ys \<Longrightarrow> card (set xs) = card (set ys) \<Longrightarrow> set xs = set ys"
    by (rule card_subset_eq) simp_all
  then show ?thesis by (auto simp: c)
qed

lemma accessProjectionChanged_iff:
  "accessProjectionChanged c prior \<longleftrightarrow> acl_readers c \<noteq> active_consumers prior"
proof -
  have "accessProjectionChanged c prior \<longleftrightarrow>
      set (map g_consumerId (filter hasRead (c_acl c))) \<noteq> set (map a_consumerId (filter activeRead prior))"
    unfolding accessProjectionChanged_def Let_def uniq_differ_iff [symmetric]
    by (auto simp: list_ex_iff)
  then show ?thesis by (simp add: acl_readers_def active_consumers_def)
qed

section \<open>Notifications\<close>

definition notification_for :: "ControlRevision \<Rightarrow> change_kind \<Rightarrow> string list \<Rightarrow> NotificationOutboxRecord \<Rightarrow> bool" where
  "notification_for c kind ids n \<longleftrightarrow> ids \<noteq> [] \<and> n_kind n = kind \<and> n_consumerIds n = Some ids
     \<and> n_secretId n = c_secretId c \<and> n_environment n = c_environment c
     \<and> n_controlVersionId n = c_controlVersionId c \<and> n_createdAt n = c_createdAt c
     \<and> n_payloadVersionId n = (if kind = SecretRevoked then None else c_payloadVersionId c)
     \<and> n_status n = N_PENDING \<and> n_consumerId n = None"

lemma notificationOutboxRecord_value:
  "notificationOutboxRecord S c kind ids w = (Inr r, w') \<Longrightarrow>
     (case r of None \<Rightarrow> ids = [] | Some n \<Rightarrow> notification_for c kind ids n)"
  by (auto simp: notificationOutboxRecord_def notification_for_def em_ok split: if_splits)

lemma notificationItems_value:
  assumes "notificationItemsFor S c items ch w = (Inr ns, w')"
  shows "n \<in> set ns \<Longrightarrow> notification_for c SecretChanged (currentRecipients c items ch) n
      \<or> notification_for c SecretRevoked (revokedRecipients items ch) n"
    and "currentRecipients c items ch \<noteq> [] \<Longrightarrow>
      \<exists>n \<in> set ns. notification_for c SecretChanged (currentRecipients c items ch) n"
    and "revokedRecipients items ch \<noteq> [] \<Longrightarrow>
      \<exists>n \<in> set ns. notification_for c SecretRevoked (revokedRecipients items ch) n"
    and "length ns \<le> 2"
proof -
  obtain a w1 b w2 where a: "notificationOutboxRecord S c SecretChanged
      (currentRecipients c items ch) w = (Inr a, w1)"
    and b: "notificationOutboxRecord S c SecretRevoked (revokedRecipients items ch) w1 = (Inr b, w2)"
    and ns: "ns = List.map_filter id [a, b]"
    using assms by (auto simp: notificationItemsFor_def em_ok)
  note v = notificationOutboxRecord_value [OF a] notificationOutboxRecord_value [OF b]
  show "n \<in> set ns \<Longrightarrow> notification_for c SecretChanged (currentRecipients c items ch) n
      \<or> notification_for c SecretRevoked (revokedRecipients items ch) n"
    using v by (cases a; cases b) (auto simp: ns List.map_filter_def)
  show "currentRecipients c items ch \<noteq> [] \<Longrightarrow>
      \<exists>n \<in> set ns. notification_for c SecretChanged (currentRecipients c items ch) n"
    using v by (cases a; cases b) (auto simp: ns List.map_filter_def)
  show "revokedRecipients items ch \<noteq> [] \<Longrightarrow>
      \<exists>n \<in> set ns. notification_for c SecretRevoked (revokedRecipients items ch) n"
    using v by (cases a; cases b) (auto simp: ns List.map_filter_def)
  show "length ns \<le> 2" by (cases a; cases b) (simp_all add: ns List.map_filter_def)
qed

lemma recipients_changed:
  assumes "wf_acl (c_acl c)" "c_state c \<noteq> S_REVOKED"
  shows "set (currentRecipients c (accessItemsFor u c prior) True) = acl_readers c"
    and "set (revokedRecipients (accessItemsFor u c prior) True) =
      (a_consumerId ` set prior \<union> g_consumerId ` set (c_acl c)) - acl_readers c"
proof -
  have sub: "acl_readers c \<subseteq> g_consumerId ` set (c_acl c)" by (auto simp: acl_readers_def)
  note d = currentRecipients_def revokedRecipients_def accessItemsFor_def filter_map comp_def
    accessItem_active [OF assms(1)] assms(2)
  show "set (currentRecipients c (accessItemsFor u c prior) True) = acl_readers c"
    using sub by (auto simp: d)
  show "set (revokedRecipients (accessItemsFor u c prior) True) =
      (a_consumerId ` set prior \<union> g_consumerId ` set (c_acl c)) - acl_readers c"
    by (auto simp: d)
qed

lemma recipients_unchanged:
  "set (currentRecipients c items False) = acl_readers c" "revokedRecipients items False = []"
  by (auto simp: currentRecipients_def revokedRecipients_def acl_readers_def)

section \<open>Runs\<close>

definition prepared_at :: "PreparedMutation \<Rightarrow> table \<Rightarrow> table \<Rightarrow> bool" where
  "prepared_at m t t' \<longleftrightarrow> (\<exists>now. committed (prepare_actions m now) t t')"

definition completion :: "CompletedMutation \<Rightarrow> table \<Rightarrow> table \<Rightarrow> bool" where
  "completion c t t' \<longleftrightarrow> (\<exists>due ns. publication (pm_environment (cm_prepared c))
     (syncRecord (pm_secretUid (cm_prepared c)) (pm_control (cm_prepared c)))
     (\<lambda>sequence. complete_head_action c sequence # complete_rest c due ns) t t')"

context dynamo
begin

lemma notificationOutboxRecord_keeps: "keeps table (notificationOutboxRecord S c k ids)"
  unfolding notificationOutboxRecord_def by (intro keeps_intro newId_keeps)

lemma notificationItemsFor_keeps: "keeps table (notificationItemsFor S c items ch)"
  unfolding notificationItemsFor_def by (intro keeps_intro notificationOutboxRecord_keeps)

lemma prepareMutation_commits:
  assumes "prepareMutation S m w = (Inr u, w')"
  shows "\<exists>now. (pm_expectedControlVersionId m \<noteq> None \<longrightarrow> (\<exists>w1. sv_now S w = (Inr now, w1)))
    \<and> committed (prepare_actions m now) (table w) (table w')"
proof -
  obtain now w1 where n: "(case pm_expectedControlVersionId m of None \<Rightarrow> ret 0 | Some e \<Rightarrow> sv_now S) w
      = (Inr now, w1)"
    and tx: "sv_transactWrite S (prepare_actions m now) w1 = (Inr u, w')"
    using assms by (auto simp: prepareMutation_def em_ok)
  have "table w1 = table w"
    using n now_run by (cases "pm_expectedControlVersionId m") auto
  moreover have "pm_expectedControlVersionId m \<noteq> None \<longrightarrow> (\<exists>w1. sv_now S w = (Inr now, w1))"
    using n by auto
  ultimately show ?thesis using transact_done [OF tx] by auto
qed

lemma prepareMutation_moves: "moves table t {t'. prepared_at m t t'} (prepareMutation S m)"
  unfolding prepareMutation_def
proof (rule moves_bindM, goal_cases)
  case 1
  show ?case by (auto intro!: keeps_intro now_keeps split: option.split)
next
  case (2 now w w')
  show ?case
  proof (rule moves_catchM)
    show "moves table t {t'. prepared_at m t t'} (sv_transactWrite S (prepare_actions m now))"
      by (rule movesI) (auto simp: prepared_at_def elim: transact_cases)
  qed (auto intro: keeps_raise)
qed

lemma completeMutation_commits:
  assumes "completeMutation S c w = (Inr u, w')"
  shows "\<exists>due ns w1 w2. notificationItemsFor S (pm_control (cm_prepared c))
        (accessItemsFor (pm_secretUid (cm_prepared c)) (pm_control (cm_prepared c)) (cm_priorAccess c))
        (accessProjectionChanged (pm_control (cm_prepared c)) (cm_priorAccess c)) w1 = (Inr ns, w2)
    \<and> publication (pm_environment (cm_prepared c))
        (syncRecord (pm_secretUid (cm_prepared c)) (pm_control (cm_prepared c)))
        (\<lambda>sequence. complete_head_action c sequence # complete_rest c due ns) (table w) (table w')"
proof -
  obtain ns w1 due w2 where
    ns: "notificationItemsFor S (pm_control (cm_prepared c))
        (accessItemsFor (pm_secretUid (cm_prepared c)) (pm_control (cm_prepared c)) (cm_priorAccess c))
        (accessProjectionChanged (pm_control (cm_prepared c)) (cm_priorAccess c)) w = (Inr ns, w1)" and
    due: "(case cm_priorHead c of None \<Rightarrow> ret 0
        | Some prior \<Rightarrow> bindM (sv_now S) (\<lambda>now. ret (now + retentionPeriod))) w1 = (Inr due, w2)" and
    p: "publish S (pm_environment (cm_prepared c))
        (syncRecord (pm_secretUid (cm_prepared c)) (pm_control (cm_prepared c)))
        (\<lambda>sequence. complete_head_action c sequence # complete_rest c due ns) w2 = (Inr (), w')"
    using assms by (auto simp: completeMutation_def em_ok Let_def)
  have "table w2 = table w"
    using keepsD [OF notificationItemsFor_keeps ns] due
    by (cases "cm_priorHead c") (auto simp: em_ok dest: now_run)
  with publish_commits [OF p] ns show ?thesis by auto
qed

lemma completeMutation_moves: "moves table t {t'. completion c t t'} (completeMutation S c)"
  unfolding completeMutation_def Let_def
proof (rule moves_bindM [OF notificationItemsFor_keeps], rule moves_bindM, goal_cases)
  case (1 ns w w')
  show ?case by (auto intro!: keeps_intro now_keeps split: option.split)
next
  case (2 ns w1 w2 due w3 w4)
  show ?case
  proof (rule moves_thenM [OF keeps_throwIf])
    show "moves table t {t'. completion c t t'} (publish S (pm_environment (cm_prepared c))
        (syncRecord (pm_secretUid (cm_prepared c)) (pm_control (cm_prepared c)))
        (\<lambda>sequence. complete_head_action c sequence # complete_rest c due ns))"
      by (rule movesI) (auto simp: completion_def dest!: movesD [OF publish_moves])
  qed
qed

lemma unless_refused_keeps_refusal:
  assumes "\<And>e w1. m w = (Inl e, w1) \<Longrightarrow> isConditionalCheckFailure e \<Longrightarrow> table w1 = table w"
    and "unless_refused m w = (Inr b, w')"
  shows "if b then m w = (Inr (), w') else table w' = table w \<and> (\<exists>e. m w = (Inl e, w'))"
  using assms by (auto simp: unless_refused_def em_ok em_err split: if_splits)

lemma releaseLease_outcome:
  assumes "releaseLease S u op w = (Inr b, w')"
  shows "if b then committed [release_action u op] (table w) (table w')
    else table w' = table w \<and> (\<forall>h. head_of (table w) u = Some h \<longrightarrow> h_leaseOwner h \<noteq> Some op)"
proof (cases b)
  case True
  have "sv_write S (release_action u op) w = (Inr (), w')"
    using assms True by (auto simp: releaseLease_def unless_refused_def em_ok split: if_splits)
  with True show ?thesis by (auto dest: write_done)
next
  case False
  then obtain m w1 where "sv_write S (release_action u op) w = (Inl (ConditionalCheckFailed m), w')"
    using assms by (auto simp: releaseLease_def unless_refused_def em_ok em_err
        isConditionalCheckFailure_def split: if_splits exn.splits)
  from write_rejected [OF this] False show ?thesis
    by (auto simp: release_action_def head_of_def)
qed

lemma releaseLease_moves:
  "moves table t {t'. committed [release_action u op] t t'} (releaseLease S u op)"
  unfolding releaseLease_def unless_refused_def thenM_def
proof (rule moves_catchM [OF moves_then_pure])
  show "moves table t {t'. committed [release_action u op] t t'} (sv_write S (release_action u op))"
    by (rule movesI) (auto elim: write_cases)
qed (auto intro!: keeps_intro)

text \<open>
  A refused transaction is reported by TransactionCanceledException, which the code does not take
  for a refused condition: an abort that returns has removed the head.
\<close>

lemma abortPreparedCreate_true:
  assumes "abortPreparedCreate S env i u op w = (Inr b, w')"
  shows "b \<and> committed (abort_actions env i u op) (table w) (table w')"
proof -
  let ?tx = "sv_transactWrite S (abort_actions env i u op)"
  have "\<not> isConditionalCheckFailure e" if "?tx w = (Inl e, w1)" for e w1
    using transact_error_kind [OF that] by (auto simp: isConditionalCheckFailure_def split: exn.splits)
  then have "b \<and> ?tx w = (Inr (), w')"
    using assms by (auto simp: abortPreparedCreate_def unless_refused_def em_ok em_err split: if_splits)
  with transact_done show ?thesis by blast
qed

lemma abortPreparedCreate_moves:
  "moves table t {t'. committed (abort_actions env i u op) t t'} (abortPreparedCreate S env i u op)"
  unfolding abortPreparedCreate_def unless_refused_def thenM_def
proof (rule moves_catchM [OF moves_then_pure])
  show "moves table t {t'. committed (abort_actions env i u op) t t'}
      (sv_transactWrite S (abort_actions env i u op))"
    by (rule movesI) (auto elim: transact_cases)
qed (auto intro!: keeps_intro)

end

end
