(* ===== verification/Protocol.thy ===== *)
theory Protocol
  imports Mutation_Laws
begin

text \<open>
  Everything that runs at the same time: mutations, publications, recovery, retention and index
  backfill of any number of server processes, interleaved at every request to the table. A process
  may stop anywhere and its lease may expire; the reads a publication made may be stale by the time
  its transaction is decided. The state is the table, the mutations prepared and completed so far
  and what the running publications have read. The invariants give that no update is lost and that
  the synchronisation index holds at most one row per secret, the current one.
\<close>

section \<open>The step relation\<close>

definition counter_of :: "table \<Rightarrow> string \<Rightarrow> AgentSyncState option" where
  "counter_of t env = as_sync_state (t (syncPk env, ''STATE''))"

definition control_at :: "table \<Rightarrow> string \<Rightarrow> string \<Rightarrow> ControlRevision option" where
  "control_at t secretUid v = backfill_control (t (secretPk secretUid, controlSk v))"

abbreviation pm_version :: "PreparedMutation \<Rightarrow> string" where
  "pm_version m \<equiv> c_controlVersionId (pm_control m)"

record cluster =
  cl_table :: table
  cl_prepared :: "PreparedMutation list"
  cl_completed :: "PreparedMutation list"
  cl_reading :: "(string \<times> string \<times> AgentSyncState option) list"
  cl_publishing :: "(string \<times> string \<times> AgentSyncState option \<times> nat option) list"

text \<open>
  Requests that touch no head, no control revision's contents and no row of the index: writes
  outside the partitions of secrets and of the index, and workflow updates.
\<close>

definition foreign :: "action \<Rightarrow> bool" where
  "foreign a \<longleftrightarrow> (\<forall>u. fst (action_key a) \<noteq> secretPk u) \<and> (\<forall>e. fst (action_key a) \<noteq> syncPk e)"

definition workflow_action :: "action \<Rightarrow> bool" where
  "workflow_action a \<longleftrightarrow> (\<exists>u sk f c. a = Update (secretPk u, sk) (on_workflow f) c
     \<and> (\<forall>x. w_serialized (f x) = w_serialized x))"

definition initial_cluster :: "cluster \<Rightarrow> bool" where
  "initial_cluster s \<longleftrightarrow> (\<forall>u sk. cl_table s (secretPk u, sk) = None)
     \<and> (\<forall>e sk. cl_table s (syncPk e, sk) = None)
     \<and> cl_prepared s = [] \<and> cl_completed s = [] \<and> cl_reading s = [] \<and> cl_publishing s = []"

inductive server_step :: "cluster \<Rightarrow> cluster \<Rightarrow> bool" where
  step_prepare: "pm_operationId m \<notin> pm_operationId ` set (cl_prepared s) \<Longrightarrow>
    (\<forall>v h. pm_expectedControlVersionId m = Some v \<longrightarrow> head_of (cl_table s) (pm_secretUid m) = Some h
       \<longrightarrow> h_environment h = pm_environment m) \<Longrightarrow>
    committed (prepare_actions m now) (cl_table s) t' \<Longrightarrow>
    server_step s (s\<lparr>cl_table := t', cl_prepared := m # cl_prepared s\<rparr>)"
| step_read_counter:
    "server_step s (s\<lparr>cl_reading := (env, u, counter_of (cl_table s) env) # cl_reading s\<rparr>)"
| step_read_head: "(env, u, st) \<in> set (cl_reading s) \<Longrightarrow>
    server_step s (s\<lparr>cl_publishing :=
      (env, u, st, head_sequence (cl_table s (secretPk u, ''HEAD''))) # cl_publishing s\<rparr>)"
| step_complete: "cm_prepared c = m \<Longrightarrow> m \<in> set (cl_prepared s) \<Longrightarrow>
    (pm_environment m, pm_secretUid m, st, prev) \<in> set (cl_publishing s) \<Longrightarrow>
    next_sequence st \<le> maxSafeInteger \<Longrightarrow>
    (ttl = None \<longleftrightarrow> c_state (pm_control m) \<noteq> S_ARCHIVED) \<Longrightarrow>
    committed (sync_items (pm_environment m) st epoch prev (syncRecord (pm_secretUid m) (pm_control m))
       ttl (\<lambda>sequence. complete_head_action c sequence # complete_rest c due ns)) (cl_table s) t' \<Longrightarrow>
    server_step s (s\<lparr>cl_table := t', cl_completed := m # cl_completed s\<rparr>)"
| step_backfill: "head_of (cl_table s) (h_secretUid hr) = Some cur \<Longrightarrow>
    h_environment cur = h_environment hr \<Longrightarrow>
    control_at (cl_table s) (h_secretUid hr) (h_controlVersionId hr) = Some control \<Longrightarrow>
    c_controlVersionId control = h_controlVersionId hr \<Longrightarrow>
    (h_environment hr, h_secretUid hr, st, prev) \<in> set (cl_publishing s) \<Longrightarrow>
    next_sequence st \<le> maxSafeInteger \<Longrightarrow>
    (ttl = None \<longleftrightarrow> c_state control \<noteq> S_ARCHIVED) \<Longrightarrow>
    committed (sync_items (h_environment hr) st epoch prev (syncRecord (h_secretUid hr) control)
       ttl (\<lambda>sequence. [backfill_action (secretPk (h_secretUid hr)) hr sequence])) (cl_table s) t' \<Longrightarrow>
    server_step s (s\<lparr>cl_table := t'\<rparr>)"
| step_release: "committed [release_action u op] (cl_table s) t' \<Longrightarrow>
    server_step s (s\<lparr>cl_table := t'\<rparr>)"
| step_abort: "committed (abort_actions env i u op) (cl_table s) t' \<Longrightarrow>
    server_step s (s\<lparr>cl_table := t'\<rparr>)"
| step_sync_state: "a = emptyState env epoch \<or> a = mark_ready_update env \<Longrightarrow>
    (\<forall>b \<in> set (before @ after). foreign b) \<Longrightarrow> committed (before @ a # after) (cl_table s) t' \<Longrightarrow>
    server_step s (s\<lparr>cl_table := t'\<rparr>)"
| step_expire: "cl_table s (syncPk e, sk) = Some (SyncChangeIt r (Some ttl)) \<Longrightarrow>
    server_step s (s\<lparr>cl_table := (cl_table s)((syncPk e, sk) := None)\<rparr>)"
| step_quiet: "(\<forall>a \<in> set acts. foreign a \<or> workflow_action a) \<Longrightarrow>
    committed acts (cl_table s) t' \<Longrightarrow> server_step s (s\<lparr>cl_table := t'\<rparr>)"

inductive reachable :: "cluster \<Rightarrow> bool" where
  reachable_initial: "initial_cluster s \<Longrightarrow> reachable s"
| reachable_step: "reachable s \<Longrightarrow> server_step s s' \<Longrightarrow> reachable s'"

section \<open>What a step shows of the table\<close>

lemma foreign_keys:
  "foreign a \<Longrightarrow> action_key a \<noteq> (secretPk u, sk)" "foreign a \<Longrightarrow> action_key a \<noteq> (syncPk e, sk)"
  by (auto simp: foreign_def)

lemma workflow_keys: "workflow_action a \<Longrightarrow> action_key a \<noteq> (syncPk e, sk)"
  by (auto simp: workflow_action_def)

lemma backfill_control_workflow:
  "(\<And>x. w_serialized (f x) = w_serialized x) \<Longrightarrow>
     backfill_control (map_option (on_workflow f) i) = backfill_control i"
  by (cases i) (auto simp: backfill_control_def on_workflow_def split: item.split)

lemma as_head_workflow: "as_head (map_option (on_workflow f) i) = as_head i"
  by (cases i) (auto simp: as_head_def on_workflow_def split: item.split)

lemma quiet_at:
  assumes "committed acts t t'" "\<And>a. a \<in> set acts \<Longrightarrow> action_key a = k \<Longrightarrow> workflow_action a"
  shows "as_head (t' k) = as_head (t k)" "backfill_control (t' k) = backfill_control (t k)"
proof -
  have "as_head (t' k) = as_head (t k) \<and> backfill_control (t' k) = backfill_control (t k)"
  proof (cases "k \<in> action_key ` set acts")
    case False
    with committed_other [OF assms(1)] show ?thesis by simp
  next
    case True
    then obtain a where a: "a \<in> set acts" "action_key a = k" by auto
    from assms(2) [OF a] obtain u sk f c where f: "a = Update (secretPk u, sk) (on_workflow f) c"
      "\<And>x. w_serialized (f x) = w_serialized x" unfolding workflow_action_def by blast
    have "t' k = map_option (on_workflow f) (t k)"
      using committed_at(2) [OF assms(1) a(1)] a(2) f(1) by simp
    with f(2) show ?thesis by (simp add: as_head_workflow backfill_control_workflow)
  qed
  then show "as_head (t' k) = as_head (t k)" "backfill_control (t' k) = backfill_control (t k)"
    by simp_all
qed

lemma quiet_head:
  "committed acts t t' \<Longrightarrow>
     (\<And>a. a \<in> set acts \<Longrightarrow> action_key a = (secretPk u, ''HEAD'') \<Longrightarrow> workflow_action a) \<Longrightarrow>
     head_of t' u = head_of t u"
  unfolding head_of_def by (rule quiet_at(1))

lemma quiet_control:
  "committed acts t t' \<Longrightarrow>
     (\<And>a. a \<in> set acts \<Longrightarrow> action_key a = (secretPk u, controlSk v) \<Longrightarrow> workflow_action a) \<Longrightarrow>
     control_at t' u v = control_at t u v"
  unfolding control_at_def by (rule quiet_at(2))

lemma head_update:
  assumes "committed acts t t'" "Update (secretPk u, ''HEAD'') (on_head f) (head_sat P) \<in> set acts"
  shows "\<exists>h. head_of t u = Some h \<and> P h \<and> head_of t' u = Some (f h)"
proof -
  obtain x where x: "t (secretPk u, ''HEAD'') = Some x" "head_sat P x"
    "t' (secretPk u, ''HEAD'') = Some (on_head f x)"
    by (rule committed_Update [OF assms])
  from x(2) obtain h where "x = HeadItem h" "P h" by auto
  with x show ?thesis by (simp add: head_of_def)
qed

text \<open>The actions of a completion after the head's.\<close>

lemma workflow_updates [simp]:
  "workflow_action (workflowReadyUpdate u sk ob)" "workflow_action (retentionCandidateUpdate u sk due)"
  by (auto simp: workflow_action_def workflowReadyUpdate_def retentionCandidateUpdate_def)

lemma complete_rest_quiet: "a \<in> set (complete_rest c due ns) \<Longrightarrow> foreign a \<or> workflow_action a"
  by (auto simp: complete_rest_def Let_def ready_actions_def retention_actions_def archive_actions_def
      access_actions_def notification_actions_def foreign_def split: option.splits if_splits)

section \<open>The invariants\<close>

definition inv_control :: "cluster \<Rightarrow> bool" where
  "inv_control s \<longleftrightarrow> distinct (map pm_operationId (cl_prepared s))
     \<and> distinct (map (\<lambda>m. (pm_secretUid m, pm_version m)) (cl_prepared s))
     \<and> (\<forall>m \<in> set (cl_prepared s).
          control_at (cl_table s) (pm_secretUid m) (pm_version m) = Some (pm_control m))"

definition lease_ok :: "cluster \<Rightarrow> string \<Rightarrow> HeadRecord \<Rightarrow> bool" where
  "lease_ok s u h \<longleftrightarrow> (\<forall>op. h_leaseOwner h = Some op \<longrightarrow>
     (\<exists>m \<in> set (cl_prepared s) - set (cl_completed s). pm_operationId m = op \<and> pm_secretUid m = u
        \<and> pm_environment m = h_environment h
        \<and> (\<forall>v. pm_expectedControlVersionId m = Some v \<longrightarrow> h_controlVersionId h = v)
        \<and> (pm_expectedControlVersionId m = None \<longrightarrow>
             pm_version m = h_controlVersionId h \<and> h_workflowState h = Some W_PREPARED)))"

definition version_ok :: "cluster \<Rightarrow> string \<Rightarrow> HeadRecord \<Rightarrow> bool" where
  "version_ok s u h \<longleftrightarrow>
     (h_workflowState h = Some W_PREPARED \<and> h_syncSequence h = None
        \<and> (\<exists>m \<in> set (cl_prepared s). pm_secretUid m = u \<and> pm_version m = h_controlVersionId h
             \<and> pm_expectedControlVersionId m = None))
   \<or> (h_workflowState h = Some W_READY
        \<and> (\<exists>m \<in> set (cl_completed s). pm_secretUid m = u \<and> pm_version m = h_controlVersionId h
             \<and> c_state (pm_control m) = h_state h))"

lemma lease_ok_step:
  assumes "lease_ok s u h"
    and "\<And>x. x \<in> set (cl_prepared s) - set (cl_completed s) \<Longrightarrow> pm_secretUid x = u \<Longrightarrow>
      x \<in> set (cl_prepared s') - set (cl_completed s')"
  shows "lease_ok s' u h"
  unfolding lease_ok_def
proof (intro allI impI)
  fix op assume op: "h_leaseOwner h = Some op"
  note assms(1) [unfolded lease_ok_def, rule_format, OF op]
  then show "\<exists>m \<in> set (cl_prepared s') - set (cl_completed s'). pm_operationId m = op
      \<and> pm_secretUid m = u \<and> pm_environment m = h_environment h
      \<and> (\<forall>v. pm_expectedControlVersionId m = Some v \<longrightarrow> h_controlVersionId h = v)
      \<and> (pm_expectedControlVersionId m = None \<longrightarrow>
           pm_version m = h_controlVersionId h \<and> h_workflowState h = Some W_PREPARED)"
    by (rule bexE) (rule bexI, assumption, rule assms(2), assumption, elim conjE, assumption)
qed

lemma lease_ok_mono:
  "lease_ok s u h \<Longrightarrow> set (cl_prepared s) \<subseteq> set (cl_prepared s') \<Longrightarrow>
     cl_completed s' = cl_completed s \<Longrightarrow> lease_ok s' u h"
  by (rule lease_ok_step) auto

lemma version_ok_mono:
  assumes "version_ok s u h" "set (cl_prepared s) \<subseteq> set (cl_prepared s')"
    "set (cl_completed s) \<subseteq> set (cl_completed s')"
  shows "version_ok s' u h"
proof -
  have "Bex (set (cl_prepared s)) P \<Longrightarrow> Bex (set (cl_prepared s')) P"
    and "Bex (set (cl_completed s)) P \<Longrightarrow> Bex (set (cl_completed s')) P" for P
    using assms(2,3) by auto
  note mono = this
  from assms(1) show ?thesis
    unfolding version_ok_def by (elim disjE conjE) (drule mono, simp)+
qed

definition inv_head :: "cluster \<Rightarrow> bool" where
  "inv_head s \<longleftrightarrow> (\<forall>u h. head_of (cl_table s) u = Some h \<longrightarrow> lease_ok s u h \<and> version_ok s u h)"

definition inv_done :: "cluster \<Rightarrow> bool" where
  "inv_done s \<longleftrightarrow> set (cl_completed s) \<subseteq> set (cl_prepared s) \<and> distinct (cl_completed s)
     \<and> (\<forall>m \<in> set (cl_completed s). \<exists>h. head_of (cl_table s) (pm_secretUid m) = Some h
          \<and> h_workflowState h = Some W_READY
          \<and> (\<forall>v. pm_expectedControlVersionId m = Some v \<longrightarrow> h_controlVersionId h \<noteq> v
               \<and> (\<exists>m' \<in> set (cl_prepared s). pm_secretUid m' = pm_secretUid m \<and> pm_version m' = v
                    \<and> (m' \<in> set (cl_completed s) \<or> pm_expectedControlVersionId m' = None))))
     \<and> (\<forall>m \<in> set (cl_completed s). \<forall>m' \<in> set (cl_completed s).
          pm_secretUid m = pm_secretUid m' \<longrightarrow> pm_expectedControlVersionId m \<noteq> None \<longrightarrow>
          pm_expectedControlVersionId m = pm_expectedControlVersionId m' \<longrightarrow> m = m')"

definition inv_counter :: "cluster \<Rightarrow> bool" where
  "inv_counter s \<longleftrightarrow> (\<forall>e st. counter_of (cl_table s) e = Some st \<longrightarrow> ss_sequence st \<le> maxSafeInteger)
     \<and> (\<forall>u h n. head_of (cl_table s) u = Some h \<longrightarrow> h_syncSequence h = Some n \<longrightarrow>
          (\<exists>st. counter_of (cl_table s) (h_environment h) = Some st \<and> n \<le> ss_sequence st))"

definition row_ok :: "cluster \<Rightarrow> string \<Rightarrow> string \<Rightarrow> item \<Rightarrow> bool" where
  "row_ok s e sk it \<longleftrightarrow> (\<exists>n u r ttl h. sk = syncSk n u \<and> it = SyncChangeIt r ttl \<and> sr_secretUid r = u
     \<and> head_of (cl_table s) u = Some h \<and> h_environment h = e \<and> h_syncSequence h = Some n
     \<and> sr_controlVersionId r = h_controlVersionId h \<and> sr_state r = h_state h
     \<and> (ttl = None \<longleftrightarrow> sr_state r \<noteq> S_ARCHIVED))"

lemma row_okI:
  "sk = syncSk n u \<Longrightarrow> it = SyncChangeIt r ttl \<Longrightarrow> sr_secretUid r = u \<Longrightarrow>
   head_of (cl_table s) u = Some h \<Longrightarrow> h_environment h = e \<Longrightarrow> h_syncSequence h = Some n \<Longrightarrow>
   sr_controlVersionId r = h_controlVersionId h \<Longrightarrow> sr_state r = h_state h \<Longrightarrow>
   (ttl = None \<longleftrightarrow> sr_state r \<noteq> S_ARCHIVED) \<Longrightarrow> row_ok s e sk it"
  unfolding row_ok_def by blast

lemma row_okE:
  assumes "row_ok s e sk it"
  obtains n r ttl h where "sk = syncSk n (sr_secretUid r)" "it = SyncChangeIt r ttl"
    "head_of (cl_table s) (sr_secretUid r) = Some h" "h_environment h = e" "h_syncSequence h = Some n"
    "sr_controlVersionId r = h_controlVersionId h" "sr_state r = h_state h"
    "ttl = None \<longleftrightarrow> sr_state r \<noteq> S_ARCHIVED"
  using assms unfolding row_ok_def by blast

definition inv_rows :: "cluster \<Rightarrow> bool" where
  "inv_rows s \<longleftrightarrow> (\<forall>e sk it. sk \<noteq> ''STATE'' \<longrightarrow> cl_table s (syncPk e, sk) = Some it \<longrightarrow> row_ok s e sk it)
     \<and> (\<forall>u h n. head_of (cl_table s) u = Some h \<longrightarrow> h_syncSequence h = Some n \<longrightarrow>
          h_state h \<noteq> S_ARCHIVED \<longrightarrow> cl_table s (syncPk (h_environment h), syncSk n u) \<noteq> None)"

definition counter_le :: "AgentSyncState option \<Rightarrow> AgentSyncState option \<Rightarrow> bool" where
  "counter_le st cur \<longleftrightarrow> (\<forall>a. st = Some a \<longrightarrow> (\<exists>b. cur = Some b \<and> ss_sequence a \<le> ss_sequence b))"

definition counter_same :: "AgentSyncState option \<Rightarrow> AgentSyncState option \<Rightarrow> bool" where
  "counter_same st cur \<longleftrightarrow> map_option ss_sequence st = map_option ss_sequence cur"

definition publisher_ok ::
  "table \<Rightarrow> string \<Rightarrow> string \<Rightarrow> AgentSyncState option \<Rightarrow> nat option \<Rightarrow> bool" where
  "publisher_ok t e u st prev \<longleftrightarrow> counter_le st (counter_of t e)
     \<and> (counter_same st (counter_of t e) \<longrightarrow> (\<forall>h n. head_of t u = Some h \<longrightarrow> h_environment h = e \<longrightarrow>
          h_syncSequence h = Some n \<longrightarrow> prev = Some n))
     \<and> (prev \<noteq> None \<longrightarrow> (\<exists>h n. head_of t u = Some h \<and> h_syncSequence h = Some n))"

definition reading_ok :: "cluster \<Rightarrow> bool" where
  "reading_ok s \<longleftrightarrow>
     (\<forall>(e, u, st) \<in> set (cl_reading s). counter_le st (counter_of (cl_table s) e))
   \<and> (\<forall>(e, u, st, prev) \<in> set (cl_publishing s). publisher_ok (cl_table s) e u st prev)"

definition cluster_inv :: "cluster \<Rightarrow> bool" where
  "cluster_inv s \<longleftrightarrow> inv_control s \<and> inv_head s \<and> inv_done s \<and> inv_counter s \<and> inv_rows s
     \<and> reading_ok s"

lemmas inv_defs = inv_control_def inv_head_def inv_done_def inv_counter_def inv_rows_def
  reading_ok_def publisher_ok_def lease_ok_def version_ok_def row_ok_def

lemma initial_inv: "initial_cluster s \<Longrightarrow> cluster_inv s"
  by (auto simp: initial_cluster_def cluster_inv_def inv_defs head_of_def counter_of_def)

section \<open>Steps that move no version\<close>

text \<open>
  A step keeps the heads when every head stays with its version, state and place in the index, and a
  new head has no place in the index yet; it keeps the counters when it at most creates one at zero,
  and the rows when it at most drops expired ones.
\<close>

definition head_kept :: "HeadRecord \<Rightarrow> HeadRecord \<Rightarrow> bool" where
  "head_kept h h' \<longleftrightarrow> h_environment h' = h_environment h \<and> h_controlVersionId h' = h_controlVersionId h
     \<and> h_state h' = h_state h \<and> h_workflowState h' = h_workflowState h
     \<and> h_syncSequence h' = h_syncSequence h"

definition lease_kept :: "HeadRecord \<Rightarrow> HeadRecord \<Rightarrow> bool" where
  "lease_kept h h' \<longleftrightarrow> h_leaseOwner h' = None \<or> h_leaseOwner h' = h_leaseOwner h"

definition head_view_kept :: "HeadRecord option \<Rightarrow> HeadRecord option \<Rightarrow> bool" where
  "head_view_kept i i' \<longleftrightarrow> (case i of
     None \<Rightarrow> (case i' of None \<Rightarrow> True | Some h' \<Rightarrow> h_syncSequence h' = None)
   | Some h \<Rightarrow> (case i' of None \<Rightarrow> False | Some h' \<Rightarrow> head_kept h h'))"

definition counter_kept :: "AgentSyncState option \<Rightarrow> AgentSyncState option \<Rightarrow> bool" where
  "counter_kept c c' \<longleftrightarrow> map_option ss_sequence c' = map_option ss_sequence c
     \<or> (c = None \<and> map_option ss_sequence c' = Some 0)"

definition row_kept :: "item option \<Rightarrow> item option \<Rightarrow> bool" where
  "row_kept i i' \<longleftrightarrow> i' = i \<or> (i' = None \<and> (\<exists>r ttl. i = Some (SyncChangeIt r (Some ttl))))"

definition kept_table :: "table \<Rightarrow> table \<Rightarrow> bool" where
  "kept_table t t' \<longleftrightarrow> (\<forall>u. head_view_kept (head_of t u) (head_of t' u))
     \<and> (\<forall>e. counter_kept (counter_of t e) (counter_of t' e))
     \<and> (\<forall>e sk. sk \<noteq> ''STATE'' \<longrightarrow> row_kept (t (syncPk e, sk)) (t' (syncPk e, sk)))"

lemma head_kept_refl [simp]: "head_kept h h" "lease_kept h h"
  by (simp_all add: head_kept_def lease_kept_def)

lemma head_view_kept_same [simp]: "head_view_kept i i"
  by (cases i) (auto simp: head_view_kept_def)

lemma counter_kept_same [simp]: "counter_kept c c"
  by (simp add: counter_kept_def)

lemma row_kept_same [simp]: "row_kept i i"
  by (simp add: row_kept_def)

lemma kept_tableI:
  assumes "\<And>u. head_view_kept (head_of t u) (head_of t' u)"
    and "\<And>e. counter_kept (counter_of t e) (counter_of t' e)"
    and "\<And>e sk. sk \<noteq> ''STATE'' \<Longrightarrow> row_kept (t (syncPk e, sk)) (t' (syncPk e, sk))"
  shows "kept_table t t'"
  using assms by (simp add: kept_table_def)

lemma kept_head_forth:
  "kept_table t t' \<Longrightarrow> head_of t u = Some h \<Longrightarrow> \<exists>h'. head_of t' u = Some h' \<and> head_kept h h'"
  unfolding kept_table_def by (drule conjunct1, drule spec [of _ u])
    (auto simp: head_view_kept_def split: option.splits)

lemma kept_head_back:
  "kept_table t t' \<Longrightarrow> head_of t' u = Some h' \<Longrightarrow> h_syncSequence h' = Some n \<Longrightarrow>
     \<exists>h. head_of t u = Some h \<and> head_kept h h'"
  unfolding kept_table_def by (drule conjunct1, drule spec [of _ u])
    (auto simp: head_view_kept_def split: option.splits)

lemma kept_counter: "kept_table t t' \<Longrightarrow> counter_kept (counter_of t e) (counter_of t' e)"
  by (simp add: kept_table_def)

lemma kept_counter_forth:
  "kept_table t t' \<Longrightarrow> counter_of t e = Some st \<Longrightarrow>
     \<exists>st'. counter_of t' e = Some st' \<and> ss_sequence st' = ss_sequence st"
  using kept_counter [of t t' e] by (auto simp: counter_kept_def)

lemma kept_counter_back:
  "kept_table t t' \<Longrightarrow> counter_of t' e = Some st' \<Longrightarrow> ss_sequence st' = 0
     \<or> (\<exists>st. counter_of t e = Some st \<and> ss_sequence st' = ss_sequence st)"
  using kept_counter [of t t' e] by (cases "counter_of t e") (auto simp: counter_kept_def)

lemma kept_counter_le:
  "kept_table t t' \<Longrightarrow> counter_le st (counter_of t e) \<Longrightarrow> counter_le st (counter_of t' e)"
  using kept_counter_forth [of t t' e] by (fastforce simp: counter_le_def)

lemma kept_counter_same:
  assumes "kept_table t t'" "counter_same st (counter_of t' e)" "counter_le st (counter_of t e)"
  shows "counter_same st (counter_of t e)"
  using kept_counter [OF assms(1), of e] assms(2,3)
  by (cases st) (auto simp: counter_kept_def counter_same_def counter_le_def)

lemma kept_row_back:
  "kept_table t t' \<Longrightarrow> sk \<noteq> ''STATE'' \<Longrightarrow> t' (syncPk e, sk) = Some it \<Longrightarrow> t (syncPk e, sk) = Some it"
  unfolding kept_table_def row_kept_def by (metis option.distinct(1))

lemma kept_row_forth:
  "kept_table t t' \<Longrightarrow> sk \<noteq> ''STATE'' \<Longrightarrow> t (syncPk e, sk) = Some it \<Longrightarrow>
     (\<nexists>r ttl. it = SyncChangeIt r (Some ttl)) \<Longrightarrow> t' (syncPk e, sk) = Some it"
  unfolding kept_table_def row_kept_def by (metis option.inject)

lemma inv_done_map:
  assumes heads: "\<And>u h. head_of (cl_table s) u = Some h \<Longrightarrow> \<exists>h'. head_of (cl_table s') u = Some h'
      \<and> h_workflowState h' = h_workflowState h \<and> h_controlVersionId h' = h_controlVersionId h"
    and "inv_done s"
    and "cl_completed s' = cl_completed s" "set (cl_prepared s) \<subseteq> set (cl_prepared s')"
  shows "inv_done s'"
proof -
  have "\<exists>h'. head_of (cl_table s') u = Some h' \<and> h_workflowState h' = Some W_READY
      \<and> (\<forall>v. e = Some v \<longrightarrow> h_controlVersionId h' \<noteq> v
           \<and> (\<exists>m' \<in> set (cl_prepared s'). Q m' v))"
    if "\<exists>h. head_of (cl_table s) u = Some h \<and> h_workflowState h = Some W_READY
      \<and> (\<forall>v. e = Some v \<longrightarrow> h_controlVersionId h \<noteq> v
           \<and> (\<exists>m' \<in> set (cl_prepared s). Q m' v))" for u e Q
    using that heads assms(4) by (metis subset_code(1))
  with assms(2-4) show ?thesis unfolding inv_done_def by auto
qed

lemma kept_inv_done:
  assumes "kept_table (cl_table s) (cl_table s')" "inv_done s"
    and "cl_completed s' = cl_completed s" "set (cl_prepared s) \<subseteq> set (cl_prepared s')"
  shows "inv_done s'"
  using kept_head_forth [OF assms(1)] unfolding head_kept_def
  by (intro inv_done_map [OF _ assms(2-4)]) metis

lemma kept_inv_counter:
  assumes "kept_table (cl_table s) (cl_table s')" "inv_counter s"
  shows "inv_counter s'"
proof -
  have "ss_sequence st \<le> maxSafeInteger" if "counter_of (cl_table s') e = Some st" for e st
    using kept_counter_back [OF assms(1) that] assms(2) by (auto simp: inv_counter_def)
  moreover have "\<exists>st. counter_of (cl_table s') (h_environment h') = Some st \<and> n \<le> ss_sequence st"
    if h': "head_of (cl_table s') u = Some h'" "h_syncSequence h' = Some n" for u h' n
  proof -
    obtain h where h: "head_of (cl_table s) u = Some h" "head_kept h h'"
      using kept_head_back [OF assms(1) h'] by auto
    then have eq: "h_environment h' = h_environment h" "h_syncSequence h = Some n"
      using h'(2) by (auto simp: head_kept_def)
    then obtain st where "counter_of (cl_table s) (h_environment h) = Some st" "n \<le> ss_sequence st"
      using assms(2) h(1) unfolding inv_counter_def by blast
    then show ?thesis using kept_counter_forth [OF assms(1)] eq by metis
  qed
  ultimately show ?thesis by (simp add: inv_counter_def)
qed

lemma maxSafe_digits: "n \<le> maxSafeInteger \<Longrightarrow> n < 10 ^ 16"
  by (simp add: maxSafeInteger_def)

lemma sequence_bound:
  assumes "inv_counter s" "head_of (cl_table s) u = Some h" "h_syncSequence h = Some n"
  shows "n < 10 ^ 16"
proof -
  obtain st where "counter_of (cl_table s) (h_environment h) = Some st" "n \<le> ss_sequence st"
    using assms unfolding inv_counter_def by blast
  moreover have "ss_sequence st \<le> maxSafeInteger"
    using assms(1) calculation(1) unfolding inv_counter_def by blast
  ultimately show ?thesis using maxSafe_digits le_trans by blast
qed

text \<open>The row a head's sequence number leads to.\<close>

lemma row_of_head:
  assumes "inv_counter s" "inv_rows s" "head_of (cl_table s) u = Some h" "h_syncSequence h = Some n"
    "cl_table s (syncPk (h_environment h), syncSk n u) = Some it"
  obtains r ttl where "it = SyncChangeIt r ttl" "sr_secretUid r = u"
    "sr_controlVersionId r = h_controlVersionId h" "sr_state r = h_state h"
    "ttl = None \<longleftrightarrow> sr_state r \<noteq> S_ARCHIVED"
proof -
  have "row_ok s (h_environment h) (syncSk n u) it" using assms(2,5) by (simp add: inv_rows_def)
  then obtain m v r ttl hx where r: "syncSk n u = syncSk m v" "it = SyncChangeIt r ttl"
    "sr_secretUid r = v" "head_of (cl_table s) v = Some hx" "h_syncSequence hx = Some m"
    "sr_controlVersionId r = h_controlVersionId hx" "sr_state r = h_state hx"
    "ttl = None \<longleftrightarrow> sr_state r \<noteq> S_ARCHIVED" unfolding row_ok_def by blast
  have "n = m \<and> u = v"
    using r(1) syncSk_inject [OF sequence_bound [OF assms(1,3,4)] sequence_bound [OF assms(1) r(4,5)]]
    by simp
  with r assms(3) that [of r ttl] show thesis by auto
qed

lemma kept_inv_rows:
  assumes "kept_table (cl_table s) (cl_table s')" "inv_rows s" "inv_counter s"
  shows "inv_rows s'"
  unfolding inv_rows_def
proof (intro conjI allI impI, goal_cases)
  case (1 e sk it)
  then have "row_ok s e sk it"
    using kept_row_back [OF assms(1)] assms(2) by (simp add: inv_rows_def)
  then show ?case
  proof (rule row_okE)
    fix n r ttl h
    assume r: "sk = syncSk n (sr_secretUid r)" "it = SyncChangeIt r ttl"
      "head_of (cl_table s) (sr_secretUid r) = Some h" "h_environment h = e" "h_syncSequence h = Some n"
      "sr_controlVersionId r = h_controlVersionId h" "sr_state r = h_state h"
      "ttl = None \<longleftrightarrow> sr_state r \<noteq> S_ARCHIVED"
    obtain h' where h': "head_of (cl_table s') (sr_secretUid r) = Some h'" "head_kept h h'"
      using kept_head_forth [OF assms(1) r(3)] by auto
    show ?thesis
      by (rule row_okI [OF r(1,2) refl, of _ h']) (use r h' in \<open>auto simp: head_kept_def\<close>)
  qed
next
  case (2 u h' n)
  obtain h where h: "head_of (cl_table s) u = Some h" "head_kept h h'"
    using kept_head_back [OF assms(1) 2(1,2)] by blast
  with 2 have "cl_table s (syncPk (h_environment h), syncSk n u) \<noteq> None" "h_state h \<noteq> S_ARCHIVED"
    "h_syncSequence h = Some n"
    using assms(2) by (auto simp: inv_rows_def head_kept_def)
  then obtain it where it: "cl_table s (syncPk (h_environment h), syncSk n u) = Some it" by auto
  obtain r ttl where "it = SyncChangeIt r ttl" "sr_state r = h_state h"
    "ttl = None \<longleftrightarrow> sr_state r \<noteq> S_ARCHIVED"
    using row_of_head [OF assms(3,2) h(1) _ it] \<open>h_syncSequence h = Some n\<close> by metis
  then have "cl_table s' (syncPk (h_environment h), syncSk n u) = Some it"
    using \<open>h_state h \<noteq> S_ARCHIVED\<close> by (intro kept_row_forth [OF assms(1) _ it]) auto
  with h(2) show ?case by (simp add: head_kept_def)
qed

lemma reading_ok_map:
  assumes "reading_ok s" "cl_reading s' = cl_reading s" "cl_publishing s' = cl_publishing s"
    and "\<And>e st. counter_le st (counter_of (cl_table s) e) \<Longrightarrow> counter_le st (counter_of (cl_table s') e)"
    and "\<And>e u st prev. (e, u, st, prev) \<in> set (cl_publishing s) \<Longrightarrow>
      publisher_ok (cl_table s) e u st prev \<Longrightarrow> publisher_ok (cl_table s') e u st prev"
  shows "reading_ok s'"
  using assms unfolding reading_ok_def by (auto split: prod.splits)

lemma kept_publisher:
  assumes k: "kept_table t t'" and p: "publisher_ok t e u st prev"
  shows "publisher_ok t' e u st prev"
  unfolding publisher_ok_def
proof (intro conjI impI allI)
  have le: "counter_le st (counter_of t e)"
    and same: "counter_same st (counter_of t e) \<Longrightarrow> head_of t u = Some h \<Longrightarrow>
      h_environment h = e \<Longrightarrow> h_syncSequence h = Some n \<Longrightarrow> prev = Some n"
    and some: "prev \<noteq> None \<Longrightarrow> \<exists>h n. head_of t u = Some h \<and> h_syncSequence h = Some n"
    for h n using p unfolding publisher_ok_def by blast+
  show "counter_le st (counter_of t' e)" by (rule kept_counter_le [OF k le])
  show "prev = Some n" if "counter_same st (counter_of t' e)" "head_of t' u = Some h'"
    "h_environment h' = e" "h_syncSequence h' = Some n" for h' n
    using kept_head_back [OF k that(2,4)] same [OF kept_counter_same [OF k that(1) le]]
      that(3,4) unfolding head_kept_def by metis
  show "\<exists>h' n. head_of t' u = Some h' \<and> h_syncSequence h' = Some n" if "prev \<noteq> None"
    using some [OF that] kept_head_forth [OF k] unfolding head_kept_def by metis
qed

lemma kept_reading_ok:
  "kept_table (cl_table s) (cl_table s') \<Longrightarrow> reading_ok s \<Longrightarrow>
   cl_reading s' = cl_reading s \<Longrightarrow> cl_publishing s' = cl_publishing s \<Longrightarrow> reading_ok s'"
  by (rule reading_ok_map [of s]) (auto simp: kept_counter_le kept_publisher)

lemmas kept_invs = kept_inv_done kept_inv_counter kept_inv_rows kept_reading_ok

text \<open>A step that creates no head and takes no lease.\<close>

definition heads_kept :: "table \<Rightarrow> table \<Rightarrow> bool" where
  "heads_kept t t' \<longleftrightarrow> (\<forall>u h'. head_of t' u = Some h' \<longrightarrow>
     (\<exists>h. head_of t u = Some h \<and> head_kept h h' \<and> lease_kept h h'))
   \<and> (\<forall>u v. control_at t' u v = control_at t u v)"

lemma kept_inv_head:
  assumes "heads_kept (cl_table s) t'" "inv_head s"
  shows "inv_head (s\<lparr>cl_table := t'\<rparr>)"
  unfolding inv_head_def
proof (intro allI impI)
  fix u h' assume "head_of (cl_table (s\<lparr>cl_table := t'\<rparr>)) u = Some h'"
  then have "head_of t' u = Some h'" by simp
  then obtain h where h: "head_of (cl_table s) u = Some h" "head_kept h h'" "lease_kept h h'"
    using assms(1) unfolding heads_kept_def by blast
  then have "lease_ok s u h" "version_ok s u h" using assms(2) by (auto simp: inv_head_def)
  with h(2,3) show "lease_ok (s\<lparr>cl_table := t'\<rparr>) u h' \<and> version_ok (s\<lparr>cl_table := t'\<rparr>) u h'"
    by (cases "h_leaseOwner h' = None")
      (simp_all add: lease_ok_def version_ok_def head_kept_def lease_kept_def)
qed

lemma kept_inv:
  assumes "kept_table (cl_table s) t'" "heads_kept (cl_table s) t'" "cluster_inv s"
  shows "cluster_inv (s\<lparr>cl_table := t'\<rparr>)"
proof -
  have i: "inv_control s" "inv_head s" "inv_done s" "inv_counter s" "inv_rows s" "reading_ok s"
    using assms(3) by (simp_all add: cluster_inv_def)
  have "inv_control (s\<lparr>cl_table := t'\<rparr>)"
    using i(1) assms(2) by (simp add: inv_control_def heads_kept_def)
  moreover have "inv_head (s\<lparr>cl_table := t'\<rparr>)" by (rule kept_inv_head [OF assms(2) i(2)])
  moreover have "kept_table (cl_table s) (cl_table (s\<lparr>cl_table := t'\<rparr>))" using assms(1) by simp
  note k = this
  have "inv_done (s\<lparr>cl_table := t'\<rparr>)" by (rule kept_inv_done [OF k i(3)]) simp_all
  moreover have "inv_counter (s\<lparr>cl_table := t'\<rparr>)" by (rule kept_inv_counter [OF k i(4)])
  moreover have "inv_rows (s\<lparr>cl_table := t'\<rparr>)" by (rule kept_inv_rows [OF k i(5,4)])
  moreover have "reading_ok (s\<lparr>cl_table := t'\<rparr>)" by (rule kept_reading_ok [OF k i(6)]) simp_all
  ultimately show ?thesis by (simp add: cluster_inv_def)
qed

lemma kept_quiet:
  assumes q: "\<And>a. a \<in> set acts \<Longrightarrow> foreign a \<or> workflow_action a" and c: "committed acts t t'"
  shows "kept_table t t' \<and> heads_kept t t'"
proof -
  have sync: "t' (syncPk e, sk) = t (syncPk e, sk)" for e sk
    by (rule committed_other [OF c]) (use q foreign_keys(2) workflow_keys in \<open>metis imageE\<close>)
  have head: "head_of t' u = head_of t u" for u
    using quiet_head [OF c] q foreign_keys(1) by metis
  have "control_at t' u v = control_at t u v" for u v
    using quiet_control [OF c] q foreign_keys(1) by metis
  then show ?thesis
    by (auto simp: heads_kept_def head counter_of_def sync intro!: kept_tableI)
qed

lemma kept_release:
  assumes "committed [release_action u op] t t'"
  shows "kept_table t t' \<and> heads_kept t t'"
proof -
  obtain h where h: "head_of t u = Some h"
    "head_of t' u = Some (h\<lparr>h_leaseOwner := None, h_leaseExpiresAt := None\<rparr>)"
    using head_update [OF assms, of u] by (auto simp: release_action_def)
  have other: "t' k = t k" if "k \<noteq> (secretPk u, ''HEAD'')" for k
    using committed_other [OF assms] that by (simp add: release_action_def)
  have heads: "head_of t' x = (if x = u then Some (h\<lparr>h_leaseOwner := None, h_leaseExpiresAt := None\<rparr>)
      else head_of t x)" for x
    using h(2) other by (cases "x = u") (simp_all add: head_of_def)
  show ?thesis
    using h(1) by (auto simp: heads_kept_def heads control_at_def counter_of_def other head_kept_def
        lease_kept_def head_view_kept_def split: option.split intro!: kept_tableI)
qed

lemma kept_sync_state:
  assumes a: "a = emptyState env epoch \<or> a = mark_ready_update env"
    and f: "\<And>b. b \<in> set (before @ after) \<Longrightarrow> foreign b" and c: "committed (before @ a # after) t t'"
  shows "kept_table t t' \<and> heads_kept t t'"
proof -
  have f': "foreign b" if "b \<in> set before \<or> b \<in> set after" for b
    using f that by simp
  have other: "t' k = t k" if "k \<noteq> (syncPk env, ''STATE'')"
    "\<And>b. b \<in> set before \<or> b \<in> set after \<Longrightarrow> action_key b \<noteq> k" for k
    using that a by (intro committed_other [OF c]) (auto simp: emptyState_def mark_ready_update_def)
  have hc: "t' (secretPk u, sk) = t (secretPk u, sk)" for u sk
    by (rule other) (use foreign_keys(1) f' in \<open>auto\<close>)
  have head: "head_of t' u = head_of t u" "control_at t' u v = control_at t u v" for u v
    by (simp_all add: head_of_def control_at_def hc)
  have row: "t' (syncPk e, sk) = t (syncPk e, sk)" if "sk \<noteq> ''STATE'' \<or> e \<noteq> env" for e sk
    by (rule other) (use foreign_keys(2) f' that in \<open>auto\<close>)
  have "counter_kept (counter_of t env) (counter_of t' env)"
    using a
  proof
    assume "a = emptyState env epoch"
    then show ?thesis
      using committed_at [OF c, of a]
      by (simp add: emptyState_def counter_of_def counter_kept_def as_sync_state_def)
  next
    assume "a = mark_ready_update env"
    then have "mark_ready_update env \<in> set (before @ a # after)" by simp
    from committed_Update [OF c this [unfolded mark_ready_update_def]] obtain x where
      "t (syncPk env, ''STATE'') = Some x" "sync_state_sat (\<lambda>s. True) x"
      "t' (syncPk env, ''STATE'') = Some (on_sync_state (\<lambda>s. s\<lparr>ss_ready := True\<rparr>) x)" by blast
    then show ?thesis by (auto simp: counter_of_def counter_kept_def as_sync_state_def)
  qed
  then have "counter_kept (counter_of t e) (counter_of t' e)" for e
    using row [of "''STATE''" e] by (cases "e = env") (simp_all add: counter_of_def)
  then show ?thesis using row by (auto simp: heads_kept_def head intro!: kept_tableI)
qed

lemma kept_expire:
  assumes "t (syncPk e, sk) = Some (SyncChangeIt r (Some ttl))"
  shows "kept_table t (t((syncPk e, sk) := None)) \<and> heads_kept t (t((syncPk e, sk) := None))"
proof -
  have "counter_kept (counter_of t x) (counter_of (t((syncPk e, sk) := None)) x)" for x
    using assms by (auto simp: counter_of_def as_sync_state_def counter_kept_def)
  moreover have "row_kept (t (syncPk x, y)) ((t((syncPk e, sk) := None)) (syncPk x, y))" for x y
    using assms by (auto simp: row_kept_def)
  ultimately show ?thesis
    by (auto simp: heads_kept_def head_of_def control_at_def intro!: kept_tableI)
qed

section \<open>Aborting a creation\<close>

lemma abort_inv:
  assumes inv: "cluster_inv s" and c: "committed (abort_actions env i u op) (cl_table s) t'"
  shows "cluster_inv (s\<lparr>cl_table := t'\<rparr>)"
proof -
  let ?t = "cl_table s" and ?s = "s\<lparr>cl_table := t'\<rparr>"
  obtain h where h: "head_of ?t u = Some h" "h_leaseOwner h = Some op" "h_workflowState h = Some W_PREPARED"
    using committed_Delete(1) [OF c, of "(secretPk u, ''HEAD'')"]
    by (auto simp: abort_actions_def head_of_def split: option.splits item.splits)
  have gone: "head_of t' u = None"
    using committed_Delete(2) [OF c, of "(secretPk u, ''HEAD'')"]
    by (auto simp: abort_actions_def head_of_def)
  have other: "t' k = ?t k" if "k \<noteq> (secretPk u, ''HEAD'')" "k \<noteq> (secretNamePk env i, ''LOOKUP'')" for k
    using committed_other [OF c] that by (auto simp: abort_actions_def)
  have heads: "head_of t' x = (if x = u then None else head_of ?t x)" for x
    using gone other by (simp add: head_of_def)
  have cont: "control_at t' x v = control_at ?t x v" for x v
    by (simp add: control_at_def other)
  have sync: "t' (syncPk e, sk) = ?t (syncPk e, sk)" for e sk by (simp add: other)
  have count: "counter_of t' e = counter_of ?t e" for e by (simp add: counter_of_def sync)
  have none: "h_syncSequence h = None" "\<And>m. m \<in> set (cl_completed s) \<Longrightarrow> pm_secretUid m \<noteq> u"
    using inv h unfolding cluster_inv_def inv_head_def version_ok_def inv_done_def by fastforce+
  have "inv_control ?s" using inv by (simp add: cluster_inv_def inv_control_def cont)
  moreover have "inv_head ?s"
    using inv by (simp add: cluster_inv_def inv_head_def heads lease_ok_def version_ok_def)
  moreover have "inv_done ?s" using inv none(2) by (auto simp: cluster_inv_def inv_done_def heads)
  moreover have "inv_counter ?s"
    using inv by (simp add: cluster_inv_def inv_counter_def heads count)
  moreover have "row_ok ?s e sk it" if "row_ok s e sk it" for e sk it
    using that
  proof (rule row_okE)
    fix n r ttl hx
    assume r: "sk = syncSk n (sr_secretUid r)" "it = SyncChangeIt r ttl"
      "head_of ?t (sr_secretUid r) = Some hx" "h_environment hx = e" "h_syncSequence hx = Some n"
      "sr_controlVersionId r = h_controlVersionId hx" "sr_state r = h_state hx"
      "ttl = None \<longleftrightarrow> sr_state r \<noteq> S_ARCHIVED"
    then have "sr_secretUid r \<noteq> u" using none(1) h(1) by auto
    with r(3-8) show ?thesis by (intro row_okI [OF r(1,2) refl, of _ hx]) (auto simp: heads)
  qed
  then have "inv_rows ?s"
    using inv by (auto simp: cluster_inv_def inv_rows_def heads sync)
  moreover have pub: "publisher_ok t' e x st prev" if "publisher_ok ?t e x st prev" for e x st prev
    using that none(1) h(1) unfolding publisher_ok_def count heads by auto
  have "reading_ok s" using inv by (simp add: cluster_inv_def)
  then have "reading_ok ?s"
  proof (rule reading_ok_map)
    show "publisher_ok (cl_table ?s) e x st prev" if "publisher_ok ?t e x st prev" for e x st prev
      using pub [OF that] by simp
  qed (simp_all add: count)
  ultimately show ?thesis by (simp add: cluster_inv_def)
qed

section \<open>Preparing\<close>

lemma prepare_other:
  assumes "committed (prepare_actions m now) t t'"
  shows "t' (syncPk e, sk) = t (syncPk e, sk)"
    and "u \<noteq> pm_secretUid m \<Longrightarrow> head_of t' u = head_of t u"
    and "u \<noteq> pm_secretUid m \<or> v \<noteq> pm_version m \<Longrightarrow> control_at t' u v = control_at t u v"
proof -
  have "action_key ` set (prepare_actions m now) \<subseteq>
      {(idempotencyPk (pm_actor m), requestSk (pm_idempotencyKey m)),
       (secretPk (pm_secretUid m), controlSk (pm_version m)),
       (secretPk (pm_secretUid m), ''HEAD''), (secretNamePk (pm_environment m) (pm_secretId m), ''LOOKUP'')}
      \<union> (\<lambda>p. (secretPk (pm_secretUid m), payloadSk p)) ` UNIV"
    by (auto simp: prepare_actions_def prepare_head_actions_def split: option.splits)
  then have k: "k \<notin> {(idempotencyPk (pm_actor m), requestSk (pm_idempotencyKey m)),
       (secretPk (pm_secretUid m), controlSk (pm_version m)),
       (secretPk (pm_secretUid m), ''HEAD''), (secretNamePk (pm_environment m) (pm_secretId m), ''LOOKUP'')}
      \<union> (\<lambda>p. (secretPk (pm_secretUid m), payloadSk p)) ` UNIV \<Longrightarrow> t' k = t k" for k
    by (meson committed_other [OF assms] subset_iff)
  show "t' (syncPk e, sk) = t (syncPk e, sk)"
    and "u \<noteq> pm_secretUid m \<Longrightarrow> head_of t' u = head_of t u"
    and "u \<noteq> pm_secretUid m \<or> v \<noteq> pm_version m \<Longrightarrow> control_at t' u v = control_at t u v"
    using k [of "(syncPk e, sk)"] k [of "(secretPk u, ''HEAD'')"] k [of "(secretPk u, controlSk v)"]
    by (auto simp: head_of_def control_at_def image_iff)
qed

lemma prepare_control:
  assumes "committed (prepare_actions m now) t t'"
  shows "control_at t (pm_secretUid m) (pm_version m) = None"
    and "control_at t' (pm_secretUid m) (pm_version m) = Some (pm_control m)"
proof -
  have "Put (secretPk (pm_secretUid m), controlSk (pm_version m)) (WorkflowIt (prepared_control m))
      attribute_not_exists_pk \<in> set (prepare_actions m now)" by (simp add: prepare_actions_def)
  from committed_Put [OF assms this] show
    "control_at t (pm_secretUid m) (pm_version m) = None"
    "control_at t' (pm_secretUid m) (pm_version m) = Some (pm_control m)"
    by (simp_all add: control_at_def backfill_control_def prepared_control_def workflowItem_def)
qed

lemma prepare_head:
  assumes "committed (prepare_actions m now) t t'"
  shows "case pm_expectedControlVersionId m of
      None \<Rightarrow> head_of t (pm_secretUid m) = None \<and> head_of t' (pm_secretUid m) = Some (new_head m)
    | Some v \<Rightarrow> (\<exists>h. head_of t (pm_secretUid m) = Some h \<and> h_controlVersionId h = v \<and> lease_free now h
        \<and> head_of t' (pm_secretUid m) = Some (h\<lparr>h_leaseOwner := Some (pm_operationId m),
              h_leaseExpiresAt := Some (pm_expiresAt m)\<rparr>))"
proof (cases "pm_expectedControlVersionId m")
  case None
  then have "Put (secretPk (pm_secretUid m), ''HEAD'') (HeadItem (new_head m)) attribute_not_exists_pk
      \<in> set (prepare_actions m now)" by (simp add: prepare_actions_def prepare_head_actions_def)
  from committed_Put [OF assms this] None show ?thesis by (simp add: head_of_def)
next
  case (Some v)
  then have "Update (secretPk (pm_secretUid m), ''HEAD'')
      (on_head (\<lambda>h. h\<lparr>h_leaseOwner := Some (pm_operationId m), h_leaseExpiresAt := Some (pm_expiresAt m)\<rparr>))
      (head_sat (\<lambda>h. h_controlVersionId h = v \<and> lease_free now h)) \<in> set (prepare_actions m now)"
    by (simp add: prepare_actions_def prepare_head_actions_def)
  from head_update [OF assms this] Some show ?thesis by auto
qed

lemma kept_prepare:
  assumes "committed (prepare_actions m now) t t'"
  shows "kept_table t t'"
proof (rule kept_tableI)
  show "head_view_kept (head_of t u) (head_of t' u)" for u
    using prepare_head [OF assms] prepare_other(2) [OF assms]
    by (cases "u = pm_secretUid m"; cases "pm_expectedControlVersionId m")
      (auto simp: head_view_kept_def new_head_def head_kept_def split: option.split)
qed (simp_all add: counter_of_def prepare_other [OF assms])

lemma prepare_inv:
  assumes inv: "cluster_inv s" and fresh: "pm_operationId m \<notin> pm_operationId ` set (cl_prepared s)"
    and env: "\<And>v h. pm_expectedControlVersionId m = Some v \<Longrightarrow>
      head_of (cl_table s) (pm_secretUid m) = Some h \<Longrightarrow> h_environment h = pm_environment m"
    and c: "committed (prepare_actions m now) (cl_table s) t'"
  shows "cluster_inv (s\<lparr>cl_table := t', cl_prepared := m # cl_prepared s\<rparr>)"
proof -
  let ?s = "s\<lparr>cl_table := t', cl_prepared := m # cl_prepared s\<rparr>"
  have i: "inv_control s" "inv_head s" "inv_done s" "inv_counter s" "inv_rows s" "reading_ok s"
    using inv by (simp_all add: cluster_inv_def)
  have k: "kept_table (cl_table s) (cl_table ?s)" using kept_prepare [OF c] by simp
  have new: "pm_secretUid x \<noteq> pm_secretUid m \<or> pm_version x \<noteq> pm_version m"
    if "x \<in> set (cl_prepared s)" for x
    using that i(1) prepare_control(1) [OF c] by (auto simp: inv_control_def)
  then have "inv_control ?s"
    using i(1) fresh prepare_control(2) [OF c] prepare_other(3) [OF c]
    unfolding inv_control_def by fastforce
  moreover have notdone: "m \<notin> set (cl_completed s)"
    using fresh i(3) by (auto simp: inv_done_def)
  have "lease_ok ?s u h' \<and> version_ok ?s u h'" if h': "head_of t' u = Some h'" for u h'
  proof (cases "u = pm_secretUid m")
    case False
    with h' have "head_of (cl_table s) u = Some h'" using prepare_other(2) [OF c] by simp
    with i(2) have "lease_ok s u h'" "version_ok s u h'" by (auto simp: inv_head_def)
    then show ?thesis by (auto elim!: lease_ok_mono version_ok_mono)
  next
    case True
    show ?thesis
    proof (cases "pm_expectedControlVersionId m")
      case None
      with True h' prepare_head [OF c] have "h' = new_head m" by simp
      with None True notdone show ?thesis
        by (auto simp: lease_ok_def version_ok_def new_head_def)
    next
      case (Some v)
      with True h' prepare_head [OF c] obtain h where
        h: "head_of (cl_table s) u = Some h" "h_controlVersionId h = v"
        "h' = h\<lparr>h_leaseOwner := Some (pm_operationId m), h_leaseExpiresAt := Some (pm_expiresAt m)\<rparr>"
        by auto
      with i(2) have "version_ok s u h" by (auto simp: inv_head_def)
      then have "version_ok ?s u h" by (rule version_ok_mono) auto
      with h(3) have "version_ok ?s u h'" by (simp add: version_ok_def)
      moreover have "lease_ok ?s u h'"
        using h(2,3) Some True notdone env [OF Some] h(1) by (auto simp: lease_ok_def)
      ultimately show ?thesis by simp
    qed
  qed
  then have "inv_head ?s" by (simp add: inv_head_def)
  moreover have "inv_done ?s" by (rule kept_inv_done [OF k i(3)]) auto
  moreover have "inv_counter ?s" by (rule kept_inv_counter [OF k i(4)])
  moreover have "inv_rows ?s" by (rule kept_inv_rows [OF k i(5,4)])
  moreover have "reading_ok ?s" by (rule kept_reading_ok [OF k i(6)]) simp_all
  ultimately show ?thesis by (simp add: cluster_inv_def)
qed

section \<open>Publishing\<close>

lemma sync_items_build: "set (build (next_sequence st)) \<subseteq> set (sync_items env st epoch prev r ttl build)"
  by (auto simp: sync_items_def Let_def)

lemma sync_items_keys:
  "action_key ` set (sync_items env st epoch prev r ttl build) \<subseteq>
     {(syncPk env, ''STATE''), (syncPk env, syncSk (next_sequence st) (sr_secretUid r))}
     \<union> {(syncPk env, syncSk p (sr_secretUid r)) | p. prev = Some p}
     \<union> action_key ` set (build (next_sequence st))"
  by (auto simp: sync_items_def Let_def sync_counter_def split: option.splits)

lemma publication_counter:
  assumes "committed (sync_items env st epoch prev r ttl build) t t'"
  shows "counter_same st (counter_of t env)"
    and "map_option ss_sequence (counter_of t' env) = Some (next_sequence st)"
proof -
  have m: "sync_counter env st epoch (next_sequence st) \<in> set (sync_items env st epoch prev r ttl build)"
    by (simp add: sync_items_def Let_def)
  have "counter_same st (counter_of t env)
      \<and> map_option ss_sequence (counter_of t' env) = Some (next_sequence st)"
  proof (cases st)
    case None
    with committed_at [OF assms m] show ?thesis
      by (simp add: sync_counter_def counter_of_def counter_same_def as_sync_state_def)
  next
    case (Some a)
    from m have m': "Update (syncPk env, ''STATE'')
        (on_sync_state (\<lambda>s. s\<lparr>ss_sequence := next_sequence (Some a)\<rparr>))
        (sync_state_sat (\<lambda>s. ss_sequence s = ss_sequence a \<and> ss_epoch s = ss_epoch a))
        \<in> set (sync_items env st epoch prev r ttl build)" by (simp add: sync_counter_def Some)
    obtain x where
      x: "t (syncPk env, ''STATE'') = Some x"
      "sync_state_sat (\<lambda>s. ss_sequence s = ss_sequence a \<and> ss_epoch s = ss_epoch a) x"
      "t' (syncPk env, ''STATE'') = Some (on_sync_state (\<lambda>s. s\<lparr>ss_sequence := next_sequence (Some a)\<rparr>) x)"
      by (rule committed_Update [OF assms m'])
    from x(2) obtain b where "x = SyncStateIt b" "ss_sequence b = ss_sequence a" by auto
    with x Some show ?thesis by (simp add: counter_of_def counter_same_def as_sync_state_def)
  qed
  then show "counter_same st (counter_of t env)"
    "map_option ss_sequence (counter_of t' env) = Some (next_sequence st)" by simp_all
qed

lemma publication_row:
  assumes "committed (sync_items env st epoch prev r ttl build) t t'"
  shows "t' (syncPk env, syncSk (next_sequence st) (sr_secretUid r)) = Some (SyncChangeIt r ttl)"
    and "prev = Some p \<Longrightarrow> t' (syncPk env, syncSk p (sr_secretUid r)) = None"
proof -
  have "Put (syncPk env, syncSk (next_sequence st) (sr_secretUid r)) (SyncChangeIt r ttl)
      attribute_not_exists_pk \<in> set (sync_items env st epoch prev r ttl build)"
    by (simp add: sync_items_def Let_def)
  from committed_Put(2) [OF assms this]
  show "t' (syncPk env, syncSk (next_sequence st) (sr_secretUid r)) = Some (SyncChangeIt r ttl)" .
  show "t' (syncPk env, syncSk p (sr_secretUid r)) = None" if "prev = Some p"
  proof -
    have "Delete (syncPk env, syncSk p (sr_secretUid r)) no_condition
        \<in> set (sync_items env st epoch prev r ttl build)"
      using that by (simp add: sync_items_def Let_def)
    from committed_Delete(2) [OF assms this] show ?thesis .
  qed
qed

text \<open>What a publication with a build function that stays in the partitions of secrets leaves alone.\<close>

definition stays_out :: "action list \<Rightarrow> bool" where
  "stays_out acts \<longleftrightarrow> (\<forall>a \<in> set acts. \<forall>e. fst (action_key a) \<noteq> syncPk e)"

lemma publication_others:
  assumes "committed (sync_items env st epoch prev r ttl build) t t'"
    and "stays_out (build (next_sequence st))"
  shows "e \<noteq> env \<or> (sk \<noteq> ''STATE'' \<and> sk \<noteq> syncSk (next_sequence st) (sr_secretUid r)
      \<and> (\<forall>p. prev = Some p \<longrightarrow> sk \<noteq> syncSk p (sr_secretUid r))) \<Longrightarrow>
    t' (syncPk e, sk) = t (syncPk e, sk)"
proof -
  assume sk: "e \<noteq> env \<or> (sk \<noteq> ''STATE'' \<and> sk \<noteq> syncSk (next_sequence st) (sr_secretUid r)
      \<and> (\<forall>p. prev = Some p \<longrightarrow> sk \<noteq> syncSk p (sr_secretUid r)))"
  have "(syncPk e, sk) \<notin> action_key ` set (build (next_sequence st))"
    using assms(2) unfolding stays_out_def by (metis fst_conv imageE)
  with sk have "(syncPk e, sk) \<notin> action_key ` set (sync_items env st epoch prev r ttl build)"
    using sync_items_keys [of env st epoch prev r ttl build] by auto
  then show ?thesis by (rule committed_other [OF assms(1)])
qed

lemma publish_invs:
  assumes i: "inv_counter s" "inv_rows s" "reading_ok s"
    and pub: "(env, sr_secretUid r, st, prev) \<in> set (cl_publishing s)"
    and lim: "next_sequence st \<le> maxSafeInteger" and ttl: "ttl = None \<longleftrightarrow> sr_state r \<noteq> S_ARCHIVED"
    and c: "committed (sync_items env st epoch prev r ttl build) (cl_table s) (cl_table s')"
    and out: "stays_out (build (next_sequence st))"
    and h: "head_of (cl_table s) (sr_secretUid r) = Some h" "h_environment h = env"
    and h': "head_of (cl_table s') (sr_secretUid r) = Some h'" "h_environment h' = env"
      "h_syncSequence h' = Some (next_sequence st)" "h_controlVersionId h' = sr_controlVersionId r"
      "h_state h' = sr_state r"
    and others: "\<And>u. u \<noteq> sr_secretUid r \<Longrightarrow> head_of (cl_table s') u = head_of (cl_table s) u"
    and fields: "cl_reading s' = cl_reading s" "cl_publishing s' = cl_publishing s"
  shows "inv_counter s' \<and> inv_rows s' \<and> reading_ok s'"
proof -
  let ?t = "cl_table s" and ?t' = "cl_table s'" and ?u = "sr_secretUid r" and ?n = "next_sequence st"
  note same = publication_counter(1) [OF c] and new = publication_counter(2) [OF c]
  have count: "counter_of ?t' e = counter_of ?t e" if "e \<noteq> env" for e
    using publication_others [OF c out] that by (simp add: counter_of_def)
  have below: "Suc (ss_sequence b) = ?n" if "counter_of ?t env = Some b" for b
    using same that by (auto simp: counter_same_def next_sequence_def)
  obtain b' where b': "counter_of ?t' env = Some b'" "ss_sequence b' = ?n" using new by auto
  have pok: "publisher_ok ?t env ?u st prev" using i(3) pub by (auto simp: reading_ok_def)
  have prev: "prev = Some m" if "h_syncSequence h = Some m" for m
    using pok same h that by (simp add: publisher_ok_def)
  have grow: "counter_le x (counter_of ?t' e)" if "counter_le x (counter_of ?t e)" for x e
  proof (cases "e = env")
    case True
    show ?thesis unfolding counter_le_def
    proof (intro allI impI)
      fix a assume "x = Some a"
      with that True obtain b where "counter_of ?t env = Some b" "ss_sequence a \<le> ss_sequence b"
        by (auto simp: counter_le_def)
      with below b' True show "\<exists>b. counter_of ?t' e = Some b \<and> ss_sequence a \<le> ss_sequence b"
        by (intro exI [of _ b']) auto
    qed
  qed (use that count in simp)
  have C: "inv_counter s'"
    unfolding inv_counter_def
  proof (intro conjI allI impI, goal_cases)
    case (1 e x)
    then show ?case using i(1) b' lim count by (cases "e = env") (auto simp: inv_counter_def)
  next
    case (2 u hx m)
    show ?case
    proof (cases "u = ?u")
      case True
      with 2 h' b' show ?thesis by auto
    next
      case False
      with 2 others have "head_of ?t u = Some hx" by simp
      with 2 i(1) obtain x where "counter_of ?t (h_environment hx) = Some x" "m \<le> ss_sequence x"
        unfolding inv_counter_def by blast
      moreover from this have "counter_le (Some x) (counter_of ?t' (h_environment hx))"
        by (intro grow) (simp add: counter_le_def)
      ultimately show ?thesis by (fastforce simp: counter_le_def)
    qed
  qed
  have R: "reading_ok s'"
  proof (rule reading_ok_map [OF i(3) fields])
    show "counter_le x (counter_of ?t' e)" if "counter_le x (counter_of ?t e)" for e x
      by (rule grow [OF that])
    show "publisher_ok ?t' e u x pv" if p: "publisher_ok ?t e u x pv" for e u x pv
      unfolding publisher_ok_def
    proof (intro conjI impI allI)
      show "counter_le x (counter_of ?t' e)" using p by (intro grow) (simp add: publisher_ok_def)
      show "pv = Some m" if q: "counter_same x (counter_of ?t' e)" "head_of ?t' u = Some hx"
        "h_environment hx = e" "h_syncSequence hx = Some m" for hx m
      proof (cases "e = env")
        case True
        then obtain a where a: "x = Some a" "ss_sequence a = ?n"
          using q(1) b' by (auto simp: counter_same_def)
        then obtain b where "counter_of ?t env = Some b" "ss_sequence a \<le> ss_sequence b"
          using p True by (auto simp: publisher_ok_def counter_le_def)
        with below [of b] a show ?thesis by simp
      next
        case False
        then have "u \<noteq> ?u" using q(2,3) h' by auto
        then show ?thesis using p q count [OF False] others by (auto simp: publisher_ok_def)
      qed
      show "\<exists>hx m. head_of ?t' u = Some hx \<and> h_syncSequence hx = Some m" if "pv \<noteq> None"
        using p that h' others by (cases "u = ?u") (auto simp: publisher_ok_def)
    qed
  qed
  have W: "inv_rows s'"
    unfolding inv_rows_def
  proof (intro conjI allI impI, goal_cases)
    case (1 e sk it)
    show ?case
    proof (cases "e = env \<and> sk = syncSk ?n ?u")
      case True
      with 1 have "it = SyncChangeIt r ttl" using publication_row(1) [OF c] by simp
      with True h' ttl show ?thesis by (intro row_okI [of sk ?n ?u it r ttl s' h']) auto
    next
      case False
      have kept: "?t (syncPk e, sk) = Some it"
        using 1 False publication_row(2) [OF c] publication_others [OF c out, of e sk] by fastforce
      then have "row_ok s e sk it" using i(2) 1 by (simp add: inv_rows_def)
      then show ?thesis
      proof (rule row_okE)
        fix m q qt hx
        assume q: "sk = syncSk m (sr_secretUid q)" "it = SyncChangeIt q qt"
          "head_of ?t (sr_secretUid q) = Some hx" "h_environment hx = e" "h_syncSequence hx = Some m"
          "sr_controlVersionId q = h_controlVersionId hx" "sr_state q = h_state hx"
          "qt = None \<longleftrightarrow> sr_state q \<noteq> S_ARCHIVED"
        have "sr_secretUid q \<noteq> ?u"
        proof
          assume eq: "sr_secretUid q = ?u"
          with q(3) h(1) have "hx = h" by simp
          with q(4,5) h(2) prev have "e = env" "prev = Some m" by auto
          with publication_row(2) [OF c] 1 q(1) eq show False by simp
        qed
        with q(3) others have "head_of ?t' (sr_secretUid q) = Some hx" by simp
        then show ?thesis by (rule row_okI [OF q(1,2) refl _ q(4-8)])
      qed
    qed
  next
    case (2 u hx m)
    show ?case
    proof (cases "u = ?u")
      case True
      with 2 h' publication_row(1) [OF c] show ?thesis by auto
    next
      case False
      with 2 others have hx: "head_of ?t u = Some hx" by simp
      have m: "m < 10 ^ 16" by (rule sequence_bound [OF i(1) hx 2(2)])
      have "syncSk m u \<noteq> syncSk ?n ?u"
        using False syncSk_inject [OF m maxSafe_digits [OF lim]] by simp
      moreover have "syncSk m u \<noteq> syncSk p ?u" if p: "prev = Some p" for p
      proof -
        have "prev \<noteq> None" using p by simp
        then obtain h0 k where "head_of ?t ?u = Some h0" "h_syncSequence h0 = Some k"
          using pok unfolding publisher_ok_def by blast
        with h prev p have "h_syncSequence h = Some p" by auto
        from sequence_bound [OF i(1) h(1) this] show ?thesis using False syncSk_inject [OF m] by simp
      qed
      ultimately have "?t' (syncPk (h_environment hx), syncSk m u) = ?t (syncPk (h_environment hx), syncSk m u)"
        by (intro publication_others [OF c out]) auto
      with i(2) hx 2 show ?thesis by (simp add: inv_rows_def)
    qed
  qed
  from C W R show ?thesis by simp
qed

lemma syncRecord_sel [simp]:
  "sr_secretUid (syncRecord u c) = u" "sr_controlVersionId (syncRecord u c) = c_controlVersionId c"
  "sr_state (syncRecord u c) = c_state c" "sr_secretId (syncRecord u c) = c_secretId c"
  "sr_payloadVersionId (syncRecord u c) = c_payloadVersionId c"
  by (simp_all add: syncRecord_def)

section \<open>Completing\<close>

lemma complete_head_sel [simp]:
  "h_environment (complete_head c n h) = h_environment h" "h_leaseOwner (complete_head c n h) = None"
  "h_syncSequence (complete_head c n h) = Some n" "h_workflowState (complete_head c n h) = Some W_READY"
  "h_controlVersionId (complete_head c n h) = pm_version (cm_prepared c)"
  "h_state (complete_head c n h) = c_state (pm_control (cm_prepared c))"
  "h_secretUid (complete_head c n h) = h_secretUid h" "h_secretId (complete_head c n h) = h_secretId h"
  "h_leaseExpiresAt (complete_head c n h) = None"
  by (simp_all add: complete_head_def Let_def)

lemma completion_action_keys:
  assumes "a \<in> set (complete_head_action c n # complete_rest c due ns)"
  shows "action_key a = (secretPk (pm_secretUid (cm_prepared c)), ''HEAD'') \<or> foreign a \<or> workflow_action a"
  using assms complete_rest_quiet by (auto simp: complete_head_action_def)

lemma completion_stays_out: "stays_out (complete_head_action c n # complete_rest c due ns)"
  unfolding stays_out_def
proof (intro ballI allI)
  fix a e assume "a \<in> set (complete_head_action c n # complete_rest c due ns)"
  from completion_action_keys [OF this] show "fst (action_key a) \<noteq> syncPk e"
    by (auto simp: foreign_def workflow_action_def)
qed

lemma completion_views:
  assumes c: "committed (sync_items env st epoch prev r ttl
      (\<lambda>sequence. complete_head_action c sequence # complete_rest c due ns)) t t'"
  shows "\<exists>h. head_of t (pm_secretUid (cm_prepared c)) = Some h
      \<and> h_leaseOwner h = Some (pm_operationId (cm_prepared c))
      \<and> head_of t' (pm_secretUid (cm_prepared c)) = Some (complete_head c (next_sequence st) h)"
    and "u \<noteq> pm_secretUid (cm_prepared c) \<Longrightarrow> head_of t' u = head_of t u"
    and "control_at t' u v = control_at t u v"
proof -
  let ?build = "\<lambda>sequence. complete_head_action c sequence # complete_rest c due ns"
  let ?acts = "sync_items env st epoch prev r ttl ?build"
  have "complete_head_action c (next_sequence st) \<in> set ?acts"
    using sync_items_build [of ?build] by auto
  then have "Update (secretPk (pm_secretUid (cm_prepared c)), ''HEAD'')
      (on_head (complete_head c (next_sequence st)))
      (head_sat (\<lambda>h. h_leaseOwner h = Some (pm_operationId (cm_prepared c)))) \<in> set ?acts"
    by (simp only: complete_head_action_def)
  from head_update [OF c this] show "\<exists>h. head_of t (pm_secretUid (cm_prepared c)) = Some h
      \<and> h_leaseOwner h = Some (pm_operationId (cm_prepared c))
      \<and> head_of t' (pm_secretUid (cm_prepared c)) = Some (complete_head c (next_sequence st) h)" .
  have key: "(\<exists>sk. action_key a = (syncPk env, sk))
      \<or> action_key a = (secretPk (pm_secretUid (cm_prepared c)), ''HEAD'') \<or> foreign a \<or> workflow_action a"
    if "a \<in> set ?acts" for a
  proof (cases "a \<in> set (?build (next_sequence st))")
    case True
    from completion_action_keys [OF this] show ?thesis by blast
  next
    case False
    with that show ?thesis
      by (auto simp: sync_items_def Let_def sync_counter_def split: option.splits)
  qed
  show "head_of t' u = head_of t u" if "u \<noteq> pm_secretUid (cm_prepared c)"
  proof (rule quiet_head [OF c])
    fix a assume "a \<in> set ?acts" "action_key a = (secretPk u, ''HEAD'')"
    with key [of a] that foreign_keys(1) show "workflow_action a" by auto
  qed
  show "control_at t' u v = control_at t u v"
  proof (rule quiet_control [OF c])
    fix a assume "a \<in> set ?acts" "action_key a = (secretPk u, controlSk v)"
    with key [of a] foreign_keys(1) show "workflow_action a" by auto
  qed
qed

text \<open>Within one secret a version, and within all a request, belongs to one prepared mutation.\<close>

lemma prepared_unique:
  assumes "inv_control s" "m \<in> set (cl_prepared s)" "m' \<in> set (cl_prepared s)"
  shows "pm_operationId m = pm_operationId m' \<Longrightarrow> m = m'"
    and "pm_secretUid m = pm_secretUid m' \<Longrightarrow> pm_version m = pm_version m' \<Longrightarrow> m = m'"
  using assms by (auto simp: inv_control_def distinct_map dest: inj_onD)

lemma inv_doneD:
  assumes "inv_done s" "d \<in> set (cl_completed s)"
  shows "d \<in> set (cl_prepared s)"
    and "\<exists>h. head_of (cl_table s) (pm_secretUid d) = Some h \<and> h_workflowState h = Some W_READY"
    and "head_of (cl_table s) (pm_secretUid d) = Some h \<Longrightarrow> pm_expectedControlVersionId d = Some v \<Longrightarrow>
      h_controlVersionId h \<noteq> v \<and> (\<exists>m' \<in> set (cl_prepared s). pm_secretUid m' = pm_secretUid d
        \<and> pm_version m' = v \<and> (m' \<in> set (cl_completed s) \<or> pm_expectedControlVersionId m' = None))"
  using assms unfolding inv_done_def by auto

lemma inv_done_once:
  assumes "inv_done s" "m \<in> set (cl_completed s)" "m' \<in> set (cl_completed s)"
    "pm_secretUid m = pm_secretUid m'" "pm_expectedControlVersionId m = Some v"
    "pm_expectedControlVersionId m' = Some v"
  shows "m = m'"
proof -
  have "\<forall>m \<in> set (cl_completed s). \<forall>m' \<in> set (cl_completed s).
      pm_secretUid m = pm_secretUid m' \<longrightarrow> pm_expectedControlVersionId m \<noteq> None \<longrightarrow>
      pm_expectedControlVersionId m = pm_expectedControlVersionId m' \<longrightarrow> m = m'"
    using assms(1) unfolding inv_done_def by (elim conjE)
  from this [rule_format, OF assms(2-4)] assms(5,6) show ?thesis by simp
qed

lemma complete_inv_done:
  assumes c: "inv_control s" and d: "inv_done s" and m: "m \<in> set (cl_prepared s)" "m \<notin> set (cl_completed s)"
    and h: "head_of (cl_table s) (pm_secretUid m) = Some h" "version_ok s (pm_secretUid m) h"
    and upd: "\<And>v. pm_expectedControlVersionId m = Some v \<Longrightarrow> h_controlVersionId h = v"
    and cre: "pm_expectedControlVersionId m = None \<Longrightarrow>
      pm_version m = h_controlVersionId h \<and> h_workflowState h = Some W_PREPARED"
    and h': "head_of (cl_table s') (pm_secretUid m) = Some h'" "h_workflowState h' = Some W_READY"
      "h_controlVersionId h' = pm_version m"
    and others: "\<And>u. u \<noteq> pm_secretUid m \<Longrightarrow> head_of (cl_table s') u = head_of (cl_table s) u"
    and s': "cl_completed s' = m # cl_completed s" "cl_prepared s' = cl_prepared s"
  shows "inv_done s'"
proof -
  let ?u = "pm_secretUid m" and ?P = "set (cl_prepared s)" and ?D = "set (cl_completed s)"
  note uniq = prepared_unique(2) [OF c]
  have old: "h_controlVersionId h \<noteq> v \<and> (\<exists>m' \<in> ?P. pm_secretUid m' = ?u \<and> pm_version m' = v
      \<and> (m' \<in> ?D \<or> pm_expectedControlVersionId m' = None))"
    if "x \<in> ?D" "pm_secretUid x = ?u" "pm_expectedControlVersionId x = Some v" for x v
    using inv_doneD(3) [OF d that(1)] h(1) that by auto
  have from_version: "\<exists>m' \<in> ?P. pm_secretUid m' = ?u \<and> pm_version m' = v \<and> m' \<noteq> m
      \<and> (m' \<in> ?D \<or> pm_expectedControlVersionId m' = None)"
    if v: "pm_expectedControlVersionId m = Some v" for v
    using h(2) unfolding version_ok_def
  proof (elim disjE conjE bexE)
    fix m0 assume "m0 \<in> ?P" "pm_secretUid m0 = ?u" "pm_version m0 = h_controlVersionId h"
      "pm_expectedControlVersionId m0 = None"
    with upd [OF v] v show ?thesis by (intro bexI [of _ m0]) auto
  next
    fix m0 assume "m0 \<in> ?D" "pm_secretUid m0 = ?u" "pm_version m0 = h_controlVersionId h"
    with upd [OF v] m(2) inv_doneD(1) [OF d] show ?thesis by (intro bexI [of _ m0]) auto
  qed
  have fresh: "pm_version m \<noteq> v"
    if x: "x \<in> ?D" "pm_secretUid x = ?u" "pm_expectedControlVersionId x = Some v" for x v
  proof
    assume eq: "pm_version m = v"
    obtain m' where "m' \<in> ?P" "pm_secretUid m' = ?u" "pm_version m' = v"
      "m' \<in> ?D \<or> pm_expectedControlVersionId m' = None" "h_controlVersionId h \<noteq> v"
      using old [OF x] by blast
    moreover from this have "m' = m" using uniq [of m' m] m eq by simp
    ultimately show False using m(2) cre eq by auto
  qed
  have completed: "\<exists>h. head_of (cl_table s') (pm_secretUid x) = Some h \<and> h_workflowState h = Some W_READY
      \<and> (\<forall>v. pm_expectedControlVersionId x = Some v \<longrightarrow> h_controlVersionId h \<noteq> v
           \<and> (\<exists>m' \<in> ?P. pm_secretUid m' = pm_secretUid x \<and> pm_version m' = v
                \<and> (m' \<in> insert m ?D \<or> pm_expectedControlVersionId m' = None)))"
    if x: "x \<in> insert m ?D" for x
  proof (cases "pm_secretUid x = ?u")
    case True
    have "pm_version m \<noteq> v \<and> (\<exists>m' \<in> ?P. pm_secretUid m' = ?u \<and> pm_version m' = v
        \<and> (m' \<in> insert m ?D \<or> pm_expectedControlVersionId m' = None))"
      if v: "pm_expectedControlVersionId x = Some v" for v
    proof (cases "x = m")
      case True
      from from_version [OF v [unfolded True]] show ?thesis using uniq m(1) by blast
    next
      case False
      with x have "x \<in> ?D" by simp
      from old [OF this \<open>pm_secretUid x = ?u\<close> v] fresh [OF this \<open>pm_secretUid x = ?u\<close> v]
      show ?thesis by blast
    qed
    with True h' show ?thesis by (intro exI [of _ h']) simp
  next
    case False
    with x have xd: "x \<in> ?D" by auto
    obtain hx where hx: "head_of (cl_table s) (pm_secretUid x) = Some hx"
      "h_workflowState hx = Some W_READY" using inv_doneD(2) [OF d xd] by blast
    have "head_of (cl_table s') (pm_secretUid x) = Some hx" using others [OF False] hx by simp
    with hx inv_doneD(3) [OF d xd hx(1)] show ?thesis by (intro exI [of _ hx]) blast
  qed
  have once: "x = y" if "x \<in> insert m ?D" "y \<in> insert m ?D" "pm_secretUid x = pm_secretUid y"
    "pm_expectedControlVersionId x = Some v" "pm_expectedControlVersionId y = Some v" for x y v
  proof -
    have "z \<notin> ?D" if "pm_secretUid z = ?u" "pm_expectedControlVersionId z = Some v"
      "pm_expectedControlVersionId m = Some v" for z
      using old that upd by blast
    moreover have "x = y" if "x \<in> ?D" "y \<in> ?D"
      by (rule inv_done_once [OF d that]) fact+
    ultimately show ?thesis using that by auto
  qed
  show ?thesis
    unfolding inv_done_def s'
    using d m completed once by (auto simp: inv_done_def)
qed

lemma complete_inv:
  assumes inv: "cluster_inv s" and m: "cm_prepared c = m" "m \<in> set (cl_prepared s)"
    and pub: "(pm_environment m, pm_secretUid m, st, prev) \<in> set (cl_publishing s)"
    and lim: "next_sequence st \<le> maxSafeInteger"
    and ttl: "ttl = None \<longleftrightarrow> c_state (pm_control m) \<noteq> S_ARCHIVED"
    and com: "committed (sync_items (pm_environment m) st epoch prev
       (syncRecord (pm_secretUid m) (pm_control m)) ttl
       (\<lambda>sequence. complete_head_action c sequence # complete_rest c due ns)) (cl_table s) t'"
  shows "cluster_inv (s\<lparr>cl_table := t', cl_completed := m # cl_completed s\<rparr>)"
    and "\<exists>h. head_of (cl_table s) (pm_secretUid m) = Some h
      \<and> (\<forall>v. pm_expectedControlVersionId m = Some v \<longrightarrow> h_controlVersionId h = v)
      \<and> (pm_expectedControlVersionId m = None \<longrightarrow> h_workflowState h = Some W_PREPARED)
      \<and> head_of t' (pm_secretUid m) = Some (complete_head c (next_sequence st) h)"
proof -
  let ?s = "s\<lparr>cl_table := t', cl_completed := m # cl_completed s\<rparr>" and ?u = "pm_secretUid m"
  have i: "inv_control s" "inv_head s" "inv_done s" "inv_counter s" "inv_rows s" "reading_ok s"
    using inv by (simp_all add: cluster_inv_def)
  note views = completion_views [OF com, unfolded m(1)]
  obtain h where h: "head_of (cl_table s) ?u = Some h" "h_leaseOwner h = Some (pm_operationId m)"
    "head_of t' ?u = Some (complete_head c (next_sequence st) h)" using views(1) by blast
  have hv: "lease_ok s ?u h" "version_ok s ?u h" using i(2) h(1) by (auto simp: inv_head_def)
  obtain m' where m': "m' \<in> set (cl_prepared s) - set (cl_completed s)"
    "pm_operationId m' = pm_operationId m" and rest: "pm_environment m' = h_environment h
        \<and> (\<forall>v. pm_expectedControlVersionId m' = Some v \<longrightarrow> h_controlVersionId h = v)
        \<and> (pm_expectedControlVersionId m' = None \<longrightarrow>
             pm_version m' = h_controlVersionId h \<and> h_workflowState h = Some W_PREPARED)"
    using hv(1) [unfolded lease_ok_def, rule_format, OF h(2)] by (elim bexE conjE) (rule that; simp)
  have "m' = m" using m' by (intro prepared_unique(1) [OF i(1) _ m(2)]) auto
  with m'(1) rest have l: "m \<notin> set (cl_completed s)" "pm_environment m = h_environment h"
    "\<And>v. pm_expectedControlVersionId m = Some v \<Longrightarrow> h_controlVersionId h = v"
    "pm_expectedControlVersionId m = None \<Longrightarrow>
       pm_version m = h_controlVersionId h \<and> h_workflowState h = Some W_PREPARED" by auto
  show "\<exists>h. head_of (cl_table s) ?u = Some h
      \<and> (\<forall>v. pm_expectedControlVersionId m = Some v \<longrightarrow> h_controlVersionId h = v)
      \<and> (pm_expectedControlVersionId m = None \<longrightarrow> h_workflowState h = Some W_PREPARED)
      \<and> head_of t' ?u = Some (complete_head c (next_sequence st) h)"
    using h l by (intro exI [of _ h]) simp
  have "inv_control ?s" using i(1) views(3) by (simp add: inv_control_def)
  moreover have "inv_head ?s"
    unfolding inv_head_def
  proof (intro allI impI)
    fix u hx assume "head_of (cl_table ?s) u = Some hx"
    then have hx: "head_of t' u = Some hx" by simp
    show "lease_ok ?s u hx \<and> version_ok ?s u hx"
    proof (cases "u = ?u")
      case True
      with hx h(3) have "hx = complete_head c (next_sequence st) h" by simp
      then show ?thesis using True m(1) by (simp add: lease_ok_def version_ok_def)
    next
      case False
      with hx views(2) have old: "head_of (cl_table s) u = Some hx" by simp
      then have "version_ok s u hx" "lease_ok s u hx" using i(2) by (auto simp: inv_head_def)
      then show ?thesis
        using False by (intro conjI, elim lease_ok_step) (auto elim: version_ok_mono)
    qed
  qed
  moreover have "inv_done ?s"
    by (rule complete_inv_done [OF i(1,3) m(2) l(1) h(1) hv(2) l(3,4), of _
          "complete_head c (next_sequence st) h"]) (use h(3) m(1) views(2) in simp_all)
  moreover have "inv_counter ?s \<and> inv_rows ?s \<and> reading_ok ?s"
  proof (rule publish_invs [OF i(4-6) _ lim, where h = h and
        h' = "complete_head c (next_sequence st) h"])
    show "(pm_environment m, sr_secretUid (syncRecord ?u (pm_control m)), st, prev)
        \<in> set (cl_publishing s)" using pub by simp
    show "ttl = None \<longleftrightarrow> sr_state (syncRecord ?u (pm_control m)) \<noteq> S_ARCHIVED" using ttl by simp
    show "committed (sync_items (pm_environment m) st epoch prev (syncRecord ?u (pm_control m)) ttl
       (\<lambda>sequence. complete_head_action c sequence # complete_rest c due ns)) (cl_table s) (cl_table ?s)"
      using com by simp
    show "stays_out (complete_head_action c (next_sequence st) # complete_rest c due ns)"
      by (rule completion_stays_out)
  qed (use h l m views(2) in simp_all)
  ultimately show "cluster_inv ?s" by (simp add: cluster_inv_def)
qed

section \<open>Backfilling\<close>

lemma backfill_inv:
  assumes inv: "cluster_inv s" and cur: "head_of (cl_table s) (h_secretUid hr) = Some cur"
      "h_environment cur = h_environment hr"
    and ctl: "control_at (cl_table s) (h_secretUid hr) (h_controlVersionId hr) = Some control"
      "c_controlVersionId control = h_controlVersionId hr"
    and pub: "(h_environment hr, h_secretUid hr, st, prev) \<in> set (cl_publishing s)"
    and lim: "next_sequence st \<le> maxSafeInteger"
    and ttl: "ttl = None \<longleftrightarrow> c_state control \<noteq> S_ARCHIVED"
    and com: "committed (sync_items (h_environment hr) st epoch prev (syncRecord (h_secretUid hr) control)
       ttl (\<lambda>sequence. [backfill_action (secretPk (h_secretUid hr)) hr sequence])) (cl_table s) t'"
  shows "cluster_inv (s\<lparr>cl_table := t'\<rparr>)"
proof -
  let ?s = "s\<lparr>cl_table := t'\<rparr>" and ?u = "h_secretUid hr"
  let ?build = "\<lambda>sequence. [backfill_action (secretPk ?u) hr sequence]"
  let ?acts = "sync_items (h_environment hr) st epoch prev (syncRecord ?u control) ttl ?build"
  have i: "inv_control s" "inv_head s" "inv_done s" "inv_counter s" "inv_rows s" "reading_ok s"
    using inv by (simp_all add: cluster_inv_def)
  have "backfill_action (secretPk ?u) hr (next_sequence st) \<in> set ?acts"
    using sync_items_build [of ?build] by auto
  then have "Update (secretPk ?u, ''HEAD'') (on_head (\<lambda>h. h\<lparr>h_syncSequence := Some (next_sequence st)\<rparr>))
     (head_sat (\<lambda>h. h_controlVersionId h = h_controlVersionId hr \<and> h_workflowState h = Some W_READY))
     \<in> set ?acts" by (simp only: backfill_action_def)
  from head_update [OF com this] cur(1) have
    h: "h_controlVersionId cur = h_controlVersionId hr" "h_workflowState cur = Some W_READY"
      "head_of t' ?u = Some (cur\<lparr>h_syncSequence := Some (next_sequence st)\<rparr>)" by auto
  have key: "(\<exists>sk. action_key a = (syncPk (h_environment hr), sk)) \<or> action_key a = (secretPk ?u, ''HEAD'')"
    if "a \<in> set ?acts" for a
    using that by (auto simp: sync_items_def Let_def sync_counter_def backfill_action_def split: option.splits)
  have others: "head_of t' u = head_of (cl_table s) u" if "u \<noteq> ?u" for u
    using key that by (intro quiet_head [OF com]) fastforce
  have ctls: "control_at t' u v = control_at (cl_table s) u v" for u v
    using key by (intro quiet_control [OF com]) fastforce
  have ok: "lease_ok s ?u cur" "version_ok s ?u cur" using i(2) cur(1) by (auto simp: inv_head_def)
  have "c_state control = h_state cur"
    using ok(2) h(2) unfolding version_ok_def
  proof (elim disjE conjE bexE)
    fix m assume m: "m \<in> set (cl_completed s)" "pm_secretUid m = ?u"
      "pm_version m = h_controlVersionId cur" "c_state (pm_control m) = h_state cur"
    have "control_at (cl_table s) (pm_secretUid m) (pm_version m) = Some (pm_control m)"
      using i(1) inv_doneD(1) [OF i(3) m(1)] by (simp add: inv_control_def)
    with m h(1) ctl(1) show ?thesis by simp
  qed simp
  note state = this
  have "inv_control ?s" using i(1) by (simp add: inv_control_def ctls)
  moreover have "lease_ok ?s u hx \<and> version_ok ?s u hx" if hx: "head_of t' u = Some hx" for u hx
  proof (cases "u = ?u")
    case True
    with hx h(3) have e: "hx = cur\<lparr>h_syncSequence := Some (next_sequence st)\<rparr>" by simp
    from ok h(2) True show ?thesis by (simp add: e lease_ok_def version_ok_def)
  next
    case False
    with hx others i(2) have "lease_ok s u hx" "version_ok s u hx" by (auto simp: inv_head_def)
    then show ?thesis by (auto elim!: lease_ok_mono version_ok_mono)
  qed
  then have "inv_head ?s" by (simp add: inv_head_def)
  moreover have "inv_done ?s"
  proof (rule inv_done_map [OF _ i(3)])
    show "\<exists>h'. head_of (cl_table ?s) u = Some h' \<and> h_workflowState h' = h_workflowState hx
        \<and> h_controlVersionId h' = h_controlVersionId hx" if "head_of (cl_table s) u = Some hx" for u hx
      using that others cur(1) h(3) by (cases "u = ?u") auto
  qed simp_all
  moreover have "inv_counter ?s \<and> inv_rows ?s \<and> reading_ok ?s"
  proof (rule publish_invs [OF i(4-6) _ lim, where h = cur and
        h' = "cur\<lparr>h_syncSequence := Some (next_sequence st)\<rparr>"])
    show "(h_environment hr, sr_secretUid (syncRecord ?u control), st, prev) \<in> set (cl_publishing s)"
      using pub by simp
    show "committed ?acts (cl_table s) (cl_table ?s)" using com by simp
  qed (use cur h ctl ttl state others in \<open>simp_all add: stays_out_def backfill_action_def\<close>)
  ultimately show ?thesis by (simp add: cluster_inv_def)
qed

section \<open>Every reachable state\<close>

lemma same_state_inv:
  assumes "cluster_inv s" "cl_table s' = cl_table s" "cl_prepared s' = cl_prepared s"
    "cl_completed s' = cl_completed s" "reading_ok s'"
  shows "cluster_inv s'"
proof -
  have "lease_ok s' = lease_ok s" "version_ok s' = version_ok s" "row_ok s' = row_ok s"
    by (simp_all add: lease_ok_def version_ok_def row_ok_def fun_eq_iff assms(2-4))
  then have "inv_control s' = inv_control s" "inv_head s' = inv_head s" "inv_done s' = inv_done s"
    "inv_counter s' = inv_counter s" "inv_rows s' = inv_rows s"
    by (simp_all only: inv_control_def inv_head_def inv_done_def inv_counter_def inv_rows_def assms(2-4))
  with assms(1,5) show ?thesis by (simp add: cluster_inv_def)
qed

lemma read_counter_inv:
  assumes "cluster_inv s"
  shows "cluster_inv (s\<lparr>cl_reading := (env, u, counter_of (cl_table s) env) # cl_reading s\<rparr>)"
  using assms
  by (rule same_state_inv) (use assms in \<open>simp_all add: cluster_inv_def reading_ok_def counter_le_def\<close>)

lemma read_head_inv:
  assumes inv: "cluster_inv s" and r: "(env, u, st) \<in> set (cl_reading s)"
  shows "cluster_inv (s\<lparr>cl_publishing :=
    (env, u, st, head_sequence (cl_table s (secretPk u, ''HEAD''))) # cl_publishing s\<rparr>)"
proof (rule same_state_inv [OF inv])
  have "counter_le st (counter_of (cl_table s) env)"
    using inv r by (auto simp: cluster_inv_def reading_ok_def)
  moreover have "head_sequence (cl_table s (secretPk u, ''HEAD'')) =
      Option.bind (head_of (cl_table s) u) h_syncSequence"
    by (auto simp: head_sequence_def head_of_def as_head_def split: option.splits item.splits)
  ultimately have "publisher_ok (cl_table s) env u st (head_sequence (cl_table s (secretPk u, ''HEAD'')))"
    by (auto simp: publisher_ok_def split: bind_splits)
  with inv show "reading_ok (s\<lparr>cl_publishing :=
    (env, u, st, head_sequence (cl_table s (secretPk u, ''HEAD''))) # cl_publishing s\<rparr>)"
    by (simp add: cluster_inv_def reading_ok_def)
qed simp_all

lemma server_step_inv: "server_step s s' \<Longrightarrow> cluster_inv s \<Longrightarrow> cluster_inv s'"
proof (induction rule: server_step.induct)
  case (step_prepare m s now t')
  then show ?case by (intro prepare_inv) auto
next
  case (step_read_counter s env u)
  then show ?case by (rule read_counter_inv)
next
  case (step_read_head env u st s)
  then show ?case by (intro read_head_inv)
next
  case (step_complete c m s st prev ttl epoch due ns t')
  then show ?case by (intro complete_inv(1))
next
  case (step_backfill s hr cur control st prev ttl epoch t')
  then show ?case by (intro backfill_inv)
next
  case (step_release u op s t')
  then show ?case using kept_release by (blast intro: kept_inv)
next
  case (step_abort env i u op s t')
  then show ?case by (intro abort_inv)
next
  case (step_sync_state a env epoch before after s t')
  then show ?case using kept_sync_state [of a env epoch before after] by (blast intro: kept_inv)
next
  case (step_expire s e sk r ttl)
  then show ?case using kept_expire by (blast intro: kept_inv)
next
  case (step_quiet acts s t')
  then show ?case using kept_quiet by (blast intro: kept_inv)
qed

theorem reachable_inv: "reachable s \<Longrightarrow> cluster_inv s"
  by (induction rule: reachable.induct) (auto intro: initial_inv server_step_inv)

end
