(* ===== verification/Examples.thy ===== *)
theory Examples
  imports Mutation_Laws
begin

text \<open>
  Concrete data for the examples: one secret, created with a grant, updated once, in an empty table
  served by the in-memory services of theory Reference.
\<close>

definition ex_actor :: Actor where
  "ex_actor = \<lparr>actorType = Human, actorId = ''u1'', actorEmail = Some ''a@b'', actorTenantId = None,
     actorConsumerId = None, actorEnvironment = None\<rparr>"

definition ex_control :: "string \<Rightarrow> Grant list \<Rightarrow> ControlRevision" where
  "ex_control v acl = \<lparr>c_schemaVersion = 1, c_secretUid = Some ''s1'', c_secretId = ''db/pw'',
     c_controlVersionId = v, c_payloadVersionId = None, c_payloadKeyCount = None,
     c_environment = ''prod'', c_state = S_PENDING_VALUE, c_createdAt = 1000, c_createdBy = ex_actor,
     c_metadata = \<lparr>md_description = None, md_tags = None\<rparr>, c_acl = acl\<rparr>"

definition ex_mutation :: "string \<Rightarrow> string option \<Rightarrow> string \<Rightarrow> Grant list \<Rightarrow> PreparedMutation" where
  "ex_mutation op expected v acl = \<lparr>
     pm_operationId = op, pm_idempotencyKey = ''key-'' @ op, pm_actor = ex_actor,
     pm_requestDigest = ''digest'', pm_secretId = ''db/pw'', pm_secretUid = ''s1'',
     pm_environment = ''prod'', pm_expectedControlVersionId = expected, pm_archive = False,
     pm_control = ex_control v acl, pm_controlKey = ''k-'' @ v, pm_controlChecksumSha256 = ''sum'',
     pm_controlBytes = ControlDoc (ex_control v acl), pm_payload = None, pm_expiresAt = 5000 \<rparr>"

definition ex_completed :: "PreparedMutation \<Rightarrow> HeadRecord option \<Rightarrow> AccessRecord list \<Rightarrow> CompletedMutation" where
  "ex_completed m prior access = \<lparr>cm_prepared = m,
     cm_controlObject = \<lparr>o_bucket = ''b'', o_key = pm_controlKey m, o_versionId = ''ov'',
        o_checksumSha256 = ''sum''\<rparr>,
     cm_payloadObject = None, cm_priorHead = prior, cm_priorAccess = access\<rparr>"

definition ex_world :: ref_world where
  "ex_world = \<lparr>rw_items = [], rw_objects = [], rw_clock = 1000, rw_counter = 0\<rparr>"

definition ex_create :: PreparedMutation where
  "ex_create = ex_mutation ''op1'' None ''v1'' [\<lparr>g_consumerId = ''c1'', g_permissions = [PRead]\<rparr>]"

definition ex_update :: PreparedMutation where
  "ex_update = ex_mutation ''op2'' (Some ''v1'') ''v2'' [\<lparr>g_consumerId = ''c2'', g_permissions = [PRead]\<rparr>]"

text \<open>The table after each of the four requests that create and update the secret.\<close>

definition ex_control_key :: "string \<Rightarrow> dkey" where
  "ex_control_key v = (secretPk ''s1'', controlSk v)"

definition ex_request_key :: "string \<Rightarrow> dkey" where
  "ex_request_key op = (idempotencyPk ex_actor, requestSk (''key-'' @ op))"

definition ex_head_key :: dkey where
  "ex_head_key = (secretPk ''s1'', ''HEAD'')"

definition ex_lookup :: "dkey \<times> item" where
  "ex_lookup = ((secretNamePk ''prod'' ''db/pw'', ''LOOKUP''),
     LookupIt \<lparr>l_secretUid = ''s1'', l_secretId = ''db/pw'', l_environment = ''prod''\<rparr>)"

definition ex_ready :: "PreparedMutation \<Rightarrow> WorkflowItem" where
  "ex_ready m = (prepared_control m)\<lparr>w_workflowState := W_READY, w_s3VersionId := Some ''ov'',
     w_objectKey := pm_controlKey m, w_checksumSha256 := ''sum'', w_workflowDue := None\<rparr>"

definition ex_items1 :: "(dkey \<times> item) list" where
  "ex_items1 = [(ex_request_key ''op1'', IdempotencyIt (prepared_request ex_create)),
     (ex_control_key ''v1'', WorkflowIt (prepared_control ex_create)),
     (ex_head_key, HeadItem (new_head ex_create)), ex_lookup]"

definition ex_world1 :: ref_world where
  "ex_world1 = ex_world\<lparr>rw_items := ex_items1\<rparr>"

definition ex_create_done :: CompletedMutation where
  "ex_create_done = ex_completed ex_create None []"

lemmas ex_data = ex_create_def ex_update_def ex_mutation_def ex_control_def ex_actor_def ex_world_def
  ex_completed_def ex_create_done_def ex_world1_def

lemmas ex_keys = ex_control_key_def ex_request_key_def ex_head_key_def ex_lookup_def key_defs
  actorTypeText_def

lemmas ref_run = bindM_def thenM_def catchM_def throwIf_def ref_transactWrite_def ref_conds_def
  ref_apply_def ref_get_def ref_table_def ref_fresh_def ref_tick_def

lemma ex_create_prepared: "prepareMutation ref_services ex_create ex_world = (Inr (), ex_world1)"
  by (simp add: ex_data ex_keys ex_items1_def ref_run prepareMutation_def prepare_actions_def
      prepare_head_actions_def List.map_filter_def)

definition ex_head1 :: HeadRecord where
  "ex_head1 = complete_head ex_create_done 1 (new_head ex_create)"

definition ex_state :: "nat \<Rightarrow> item" where
  "ex_state n = SyncStateIt \<lparr>ss_epoch = ''id1'', ss_sequence = n, ss_ready = False\<rparr>"

definition ex_row :: "PreparedMutation \<Rightarrow> nat \<Rightarrow> dkey \<times> item" where
  "ex_row m n = ((syncPk ''prod'', syncSk n ''s1''),
     SyncChangeIt (syncRecord ''s1'' (pm_control m)) None)"

definition ex_access :: "PreparedMutation \<Rightarrow> string \<Rightarrow> dkey \<times> item" where
  "ex_access m cid = ((consumerPk cid, accessSk ''prod'' ''s1''),
     AccessIt (accessItem ''s1'' (pm_control m) cid))"

definition ex_note :: "PreparedMutation \<Rightarrow> string \<Rightarrow> change_kind \<Rightarrow> string list \<Rightarrow> NotificationOutboxRecord" where
  "ex_note m i kind ids = \<lparr>
     n_eventId = i, n_consumerIds = Some ids, n_consumerId = None, n_secretId = ''db/pw'',
     n_environment = ''prod'', n_controlVersionId = c_controlVersionId (pm_control m),
     n_payloadVersionId = None, n_kind = kind, n_createdAt = 1000, n_status = N_PENDING,
     n_deliveredAt = None, n_ttl = None\<rparr>"

definition ex_notification :: "NotificationOutboxRecord \<Rightarrow> dkey \<times> item" where
  "ex_notification n = ((notificationPk (n_eventId n), ''EVENT''), NotificationIt n)"

definition ex_note0 :: NotificationOutboxRecord where
  "ex_note0 = ex_note ex_create ''id0'' SecretChanged [''c1'']"

lemma publish_first:
  "publish S env r build w = publish_attempts (Suc 7) S env r build w"
  by (simp add: publish_def eval_nat_numeral)

lemmas ex_notify = notificationItemsFor_def notificationOutboxRecord_def currentRecipients_def
  revokedRecipients_def accessItemsFor_def accessProjectionChanged_def hasRead_def activeRead_def
  accessItem_def acl_map_def js_map_def List.map_filter_def

lemmas ex_rest = complete_rest_def ready_actions_def retention_actions_def archive_actions_def
  access_actions_def notification_actions_def accessItemsFor_def accessProjectionChanged_def hasRead_def
  activeRead_def

lemma show_nat_small [simp]: "show_nat 0 = ''0''" "show_nat (Suc 0) = ''1''" "show_nat 1 = ''1''"
  "show_nat 2 = ''2''" "show_nat 3 = ''3''" "show_nat 4 = ''4''"
  by code_simp+

lemma ex_create_notifications:
  "notificationItemsFor ref_services (pm_control ex_create)
     (accessItemsFor ''s1'' (pm_control ex_create) []) (accessProjectionChanged (pm_control ex_create) [])
     ex_world1 = (Inr [ex_note0], ex_world1\<lparr>rw_counter := 1\<rparr>)"
  by (simp add: ex_data ex_notify ref_run ex_note0_def ex_note_def)

lemma ex_create_rest: "complete_rest ex_create_done due [ex_note0] =
  [workflowReadyUpdate ''s1'' (controlSk ''v1'') (cm_controlObject ex_create_done),
   Put (fst (ex_access ex_create ''c1'')) (snd (ex_access ex_create ''c1'')) no_condition,
   Put (fst (ex_notification ex_note0)) (snd (ex_notification ex_note0)) attribute_not_exists_pk]"
  by (simp add: ex_rest ex_data ex_notification_def ex_access_def)

definition ex_items2 :: "(dkey \<times> item) list" where
  "ex_items2 = [((syncPk ''prod'', ''STATE''), ex_state 1), (ex_head_key, HeadItem ex_head1),
     (ex_control_key ''v1'', WorkflowIt (ex_ready ex_create)), ex_access ex_create ''c1'',
     ex_notification ex_note0, ex_row ex_create 1,
     (ex_request_key ''op1'', IdempotencyIt (prepared_request ex_create)), ex_lookup]"

definition ex_world2 :: ref_world where
  "ex_world2 = ex_world\<lparr>rw_items := ex_items2, rw_counter := 2\<rparr>"

lemmas ex_publish = publish_first sync_state_def sync_epoch_def sync_ttl_def as_sync_state_def
  sync_items_def next_sequence_def sync_counter_def maxSafeInteger_def head_sequence_def
  workflowReadyUpdate_def prepared_control_def workflowItem_def new_head_def prepared_request_def
  complete_head_action_def List.map_filter_def ex_access_def ex_notification_def

lemma ref_publish:
  assumes "as_sync_state (ref_table w (syncPk env, ''STATE'')) = st" "next_sequence st \<le> maxSafeInteger"
    "sync_epoch ref_services st w = (Inr epoch, w1)" "sync_ttl ref_services r w1 = (Inr ttl, w2)"
    "sync_items env st epoch (head_sequence (ref_table w (secretPk (sr_secretUid r), ''HEAD''))) r ttl build = acts"
    "distinct (map action_key acts)" "length acts \<le> 100" "ref_conds acts (rw_items w2)"
  shows "publish ref_services env r build w = (Inr (), w2\<lparr>rw_items := ref_apply acts (rw_items w2)\<rparr>)"
  using assms(2-) unfolding publish_first publish_attempts.simps
  by (simp add: sync_state_def bindM_def thenM_def throwIf_def ref_get_def assms(1) catchM_def Let_def
      ref_transactWrite_def)

definition ex_create_acts :: "action list" where
  "ex_create_acts = [sync_counter ''prod'' None ''id1'' 1, complete_head_action ex_create_done 1,
   workflowReadyUpdate ''s1'' (controlSk ''v1'') (cm_controlObject ex_create_done),
   Put (fst (ex_access ex_create ''c1'')) (snd (ex_access ex_create ''c1'')) no_condition,
   Put (fst (ex_notification ex_note0)) (snd (ex_notification ex_note0)) attribute_not_exists_pk,
   Put (fst (ex_row ex_create 1)) (snd (ex_row ex_create 1)) attribute_not_exists_pk]"

lemma ex_create_publish:
  "publish ref_services ''prod'' (syncRecord ''s1'' (pm_control ex_create))
     (\<lambda>sequence. complete_head_action ex_create_done sequence # complete_rest ex_create_done due [ex_note0])
     (ex_world1\<lparr>rw_counter := 1\<rparr>) = (Inr (), ex_world2)"
proof (rule trans [OF ref_publish])
  show "as_sync_state (ref_table (ex_world1\<lparr>rw_counter := 1\<rparr>) (syncPk ''prod'', ''STATE'')) = None"
    by (simp add: ref_table_def ex_data ex_items1_def ex_keys as_sync_state_def)
  show "next_sequence None \<le> maxSafeInteger" by (simp add: next_sequence_def maxSafeInteger_def)
  show "sync_epoch ref_services None (ex_world1\<lparr>rw_counter := 1\<rparr>)
      = (Inr ''id1'', ex_world1\<lparr>rw_counter := 2\<rparr>)"
    by (simp add: sync_epoch_def ref_run ex_data)
  show "sync_ttl ref_services (syncRecord ''s1'' (pm_control ex_create)) (ex_world1\<lparr>rw_counter := 2\<rparr>)
      = (Inr None, ex_world1\<lparr>rw_counter := 2\<rparr>)"
    by (simp add: sync_ttl_def ex_data syncRecord_def)
  show "sync_items ''prod'' None ''id1'' (head_sequence (ref_table (ex_world1\<lparr>rw_counter := 1\<rparr>)
      (secretPk (sr_secretUid (syncRecord ''s1'' (pm_control ex_create))), ''HEAD'')))
      (syncRecord ''s1'' (pm_control ex_create)) None
      (\<lambda>sequence. complete_head_action ex_create_done sequence # complete_rest ex_create_done due [ex_note0])
      = ex_create_acts"
    unfolding ex_create_rest
    by (simp add: sync_items_def next_sequence_def ex_create_rest ex_create_acts_def ex_row_def
        head_sequence_def ref_table_def ex_data ex_items1_def ex_keys new_head_def syncRecord_def)
  show "distinct (map action_key ex_create_acts)"
    by (simp add: ex_create_acts_def sync_counter_def complete_head_action_def workflowReadyUpdate_def
        ex_access_def ex_notification_def ex_row_def ex_data ex_keys ex_note0_def ex_note_def)
  show "length ex_create_acts \<le> 100" by (simp add: ex_create_acts_def)
  show "ref_conds ex_create_acts (rw_items (ex_world1\<lparr>rw_counter := 2\<rparr>))"
    by (simp add: ref_conds_def ex_create_acts_def sync_counter_def complete_head_action_def
        workflowReadyUpdate_def ex_access_def ex_notification_def ex_row_def ex_data ex_keys ex_note0_def
        ex_note_def ex_items1_def prepared_control_def workflowItem_def new_head_def)
  show "(Inr (), (ex_world1\<lparr>rw_counter := 2\<rparr>)\<lparr>rw_items := ref_apply ex_create_acts
      (rw_items (ex_world1\<lparr>rw_counter := 2\<rparr>))\<rparr>) = (Inr (), ex_world2)"
    by (simp add: ref_apply_def List.map_filter_def ex_create_acts_def sync_counter_def
        complete_head_action_def workflowReadyUpdate_def ex_access_def ex_notification_def ex_row_def
        ex_data ex_keys ex_note0_def ex_note_def ex_items1_def ex_items2_def ex_world2_def ex_state_def
        ex_head1_def ex_ready_def)
qed

lemma ex_create_run: "completeMutation ref_services ex_create_done ex_world1 = (Inr (), ex_world2)"
proof -
  have "pm_secretUid ex_create = ''s1''" "pm_environment ex_create = ''prod''"
    "cm_prepared ex_create_done = ex_create" "cm_priorAccess ex_create_done = []"
    "cm_priorHead ex_create_done = None" by (simp_all add: ex_data)
  moreover have "length (complete_rest ex_create_done due [ex_note0]) = 3" for due
    by (simp add: ex_create_rest)
  ultimately show ?thesis
    by (simp add: completeMutation_def Let_def bindM_def ex_create_notifications thenM_def throwIf_def
        ex_create_publish del: One_nat_def)
qed

text \<open>The update: the other consumer's grant replaces the first one's.\<close>

definition ex_head2 :: HeadRecord where
  "ex_head2 = ex_head1\<lparr>h_leaseOwner := Some ''op2'', h_leaseExpiresAt := Some 5000\<rparr>"

definition ex_items3 :: "(dkey \<times> item) list" where
  "ex_items3 = [(ex_request_key ''op2'', IdempotencyIt (prepared_request ex_update)),
     (ex_control_key ''v2'', WorkflowIt (prepared_control ex_update)), (ex_head_key, HeadItem ex_head2),
     ((syncPk ''prod'', ''STATE''), ex_state 1),
     (ex_control_key ''v1'', WorkflowIt (ex_ready ex_create)), ex_access ex_create ''c1'',
     ex_notification ex_note0, ex_row ex_create 1,
     (ex_request_key ''op1'', IdempotencyIt (prepared_request ex_create)), ex_lookup]"

definition ex_world3 :: ref_world where
  "ex_world3 = ex_world2\<lparr>rw_items := ex_items3\<rparr>"

lemma ex_update_prepared: "prepareMutation ref_services ex_update ex_world2 = (Inr (), ex_world3)"
  by (simp add: ex_data ex_keys ex_items2_def ex_items3_def ex_world2_def ex_world3_def ref_run
      prepareMutation_def prepare_actions_def prepare_head_actions_def List.map_filter_def
      ex_head1_def ex_head2_def complete_head_def new_head_def Let_def lease_free_def ex_access_def
      ex_notification_def ex_note0_def ex_note_def ex_row_def ex_state_def)

definition ex_update_done :: CompletedMutation where
  "ex_update_done = ex_completed ex_update (Some ex_head1) [accessItem ''s1'' (pm_control ex_create) ''c1'']"

definition ex_note2 :: NotificationOutboxRecord where
  "ex_note2 = ex_note ex_update ''id2'' SecretChanged [''c2'']"

definition ex_note3 :: NotificationOutboxRecord where
  "ex_note3 = ex_note ex_update ''id3'' SecretRevoked [''c1'']"

lemmas ex_data2 = ex_data ex_update_done_def ex_world2_def ex_world3_def

lemma ex_update_notifications:
  "notificationItemsFor ref_services (pm_control ex_update)
     (accessItemsFor ''s1'' (pm_control ex_update) [accessItem ''s1'' (pm_control ex_create) ''c1''])
     (accessProjectionChanged (pm_control ex_update) [accessItem ''s1'' (pm_control ex_create) ''c1''])
     ex_world3 = (Inr [ex_note2, ex_note3], ex_world3\<lparr>rw_counter := 4\<rparr>)"
  by (simp add: ex_data2 ex_notify ref_run ex_note2_def ex_note3_def ex_note_def)

definition ex_due :: timestamp where
  "ex_due = 1000 + retentionPeriod"

lemma ex_update_rest: "complete_rest ex_update_done due [ex_note2, ex_note3] =
  [workflowReadyUpdate ''s1'' (controlSk ''v2'') (cm_controlObject ex_update_done),
   retentionCandidateUpdate ''s1'' (controlSk ''v1'') due,
   Put (fst (ex_access ex_update ''c1'')) (snd (ex_access ex_update ''c1'')) no_condition,
   Put (fst (ex_access ex_update ''c2'')) (snd (ex_access ex_update ''c2'')) no_condition,
   Put (fst (ex_notification ex_note2)) (snd (ex_notification ex_note2)) attribute_not_exists_pk,
   Put (fst (ex_notification ex_note3)) (snd (ex_notification ex_note3)) attribute_not_exists_pk]"
  by (simp add: ex_rest ex_data2 ex_notification_def ex_access_def ex_head1_def complete_head_def
      next_payload_triple_def accessItem_def acl_map_def js_map_def Let_def)

definition ex_update_acts :: "action list" where
  "ex_update_acts = [sync_counter ''prod'' (Some \<lparr>ss_epoch = ''id1'', ss_sequence = 1, ss_ready = False\<rparr>) ''id1'' 2,
   complete_head_action ex_update_done 2,
   workflowReadyUpdate ''s1'' (controlSk ''v2'') (cm_controlObject ex_update_done),
   retentionCandidateUpdate ''s1'' (controlSk ''v1'') ex_due,
   Put (fst (ex_access ex_update ''c1'')) (snd (ex_access ex_update ''c1'')) no_condition,
   Put (fst (ex_access ex_update ''c2'')) (snd (ex_access ex_update ''c2'')) no_condition,
   Put (fst (ex_notification ex_note2)) (snd (ex_notification ex_note2)) attribute_not_exists_pk,
   Put (fst (ex_notification ex_note3)) (snd (ex_notification ex_note3)) attribute_not_exists_pk,
   Put (fst (ex_row ex_update 2)) (snd (ex_row ex_update 2)) attribute_not_exists_pk,
   Delete (fst (ex_row ex_create 1)) no_condition]"

definition ex_head3 :: HeadRecord where
  "ex_head3 = complete_head ex_update_done 2 ex_head2"

definition ex_items4 :: "(dkey \<times> item) list" where
  "ex_items4 = [((syncPk ''prod'', ''STATE''), ex_state 2), (ex_head_key, HeadItem ex_head3),
     (ex_control_key ''v2'', WorkflowIt (ex_ready ex_update)),
     (ex_control_key ''v1'', WorkflowIt ((ex_ready ex_create)\<lparr>w_retentionDue := Some (''RETENTION#DUE'', ex_due)\<rparr>)),
     ex_access ex_update ''c1'', ex_access ex_update ''c2'', ex_notification ex_note2,
     ex_notification ex_note3, ex_row ex_update 2,
     (ex_request_key ''op2'', IdempotencyIt (prepared_request ex_update)),
     ex_notification ex_note0,
     (ex_request_key ''op1'', IdempotencyIt (prepared_request ex_create)), ex_lookup]"

definition ex_world4 :: ref_world where
  "ex_world4 = ex_world2\<lparr>rw_items := ex_items4, rw_counter := 4\<rparr>"

lemma ex_update_publish:
  "publish ref_services ''prod'' (syncRecord ''s1'' (pm_control ex_update))
     (\<lambda>sequence. complete_head_action ex_update_done sequence # complete_rest ex_update_done ex_due [ex_note2, ex_note3])
     (ex_world3\<lparr>rw_counter := 4\<rparr>) = (Inr (), ex_world4)"
proof (rule trans [OF ref_publish])
  let ?st = "\<lparr>ss_epoch = ''id1'', ss_sequence = 1, ss_ready = False\<rparr>"
  show "as_sync_state (ref_table (ex_world3\<lparr>rw_counter := 4\<rparr>) (syncPk ''prod'', ''STATE'')) = Some ?st"
    by (simp add: ref_table_def ex_data2 ex_items3_def ex_keys as_sync_state_def ex_state_def)
  show "next_sequence (Some ?st) \<le> maxSafeInteger" by (simp add: next_sequence_def maxSafeInteger_def)
  show "sync_epoch ref_services (Some ?st) (ex_world3\<lparr>rw_counter := 4\<rparr>)
      = (Inr ''id1'', ex_world3\<lparr>rw_counter := 4\<rparr>)"
    by (simp add: sync_epoch_def)
  show "sync_ttl ref_services (syncRecord ''s1'' (pm_control ex_update)) (ex_world3\<lparr>rw_counter := 4\<rparr>)
      = (Inr None, ex_world3\<lparr>rw_counter := 4\<rparr>)"
    by (simp add: sync_ttl_def ex_data syncRecord_def)
  show "sync_items ''prod'' (Some ?st) ''id1'' (head_sequence (ref_table (ex_world3\<lparr>rw_counter := 4\<rparr>)
      (secretPk (sr_secretUid (syncRecord ''s1'' (pm_control ex_update))), ''HEAD'')))
      (syncRecord ''s1'' (pm_control ex_update)) None
      (\<lambda>sequence. complete_head_action ex_update_done sequence
        # complete_rest ex_update_done ex_due [ex_note2, ex_note3]) = ex_update_acts"
    unfolding ex_update_rest
    by (simp add: sync_items_def next_sequence_def ex_update_acts_def ex_row_def
        head_sequence_def ref_table_def ex_data2 ex_items3_def ex_keys syncRecord_def ex_head2_def
        ex_head1_def complete_head_def Let_def del: One_nat_def)
  show "distinct (map action_key ex_update_acts)"
    by (simp add: ex_update_acts_def sync_counter_def complete_head_action_def workflowReadyUpdate_def
        retentionCandidateUpdate_def ex_access_def ex_notification_def ex_row_def ex_data2 ex_keys
        ex_note2_def ex_note3_def ex_note_def pad_start_def)
  show "length ex_update_acts \<le> 100" by (simp add: ex_update_acts_def)
  show "ref_conds ex_update_acts (rw_items (ex_world3\<lparr>rw_counter := 4\<rparr>))"
    by (simp add: ref_conds_def ex_update_acts_def sync_counter_def complete_head_action_def
        workflowReadyUpdate_def retentionCandidateUpdate_def ex_access_def ex_notification_def ex_row_def
        ex_data2 ex_keys ex_note0_def ex_note2_def ex_note3_def
        ex_note_def ex_items3_def prepared_control_def workflowItem_def ex_head2_def ex_state_def
        ex_ready_def pad_start_def)
  show "(Inr (), (ex_world3\<lparr>rw_counter := 4\<rparr>)\<lparr>rw_items := ref_apply ex_update_acts
      (rw_items (ex_world3\<lparr>rw_counter := 4\<rparr>))\<rparr>) = (Inr (), ex_world4)"
    by (simp add: ref_apply_def List.map_filter_def ex_update_acts_def sync_counter_def
        complete_head_action_def workflowReadyUpdate_def retentionCandidateUpdate_def ex_access_def
        ex_notification_def ex_row_def
        ex_data2 ex_keys ex_note0_def ex_note2_def ex_note3_def ex_note_def ex_items3_def ex_items4_def
        ex_world4_def ex_state_def ex_head3_def ex_ready_def pad_start_def)
qed

lemma ex_update_run: "completeMutation ref_services ex_update_done ex_world3 = (Inr (), ex_world4)"
proof -
  have "pm_secretUid ex_update = ''s1''" "pm_environment ex_update = ''prod''"
    "cm_prepared ex_update_done = ex_update"
    "cm_priorAccess ex_update_done = [accessItem ''s1'' (pm_control ex_create) ''c1'']"
    "cm_priorHead ex_update_done = Some ex_head1" "rw_clock ex_world3 = 1000" by (simp_all add: ex_data2)
  moreover have "length (complete_rest ex_update_done due [ex_note2, ex_note3]) = 6" for due
    by (simp add: ex_update_rest)
  ultimately show ?thesis
    by (simp add: completeMutation_def Let_def bindM_def ex_update_notifications thenM_def throwIf_def
        ex_update_publish ex_due_def [symmetric] del: One_nat_def)
qed

end
