(* ===== verification/Protocol_Runs.thy ===== *)
theory Protocol_Runs
  imports Protocol Examples
begin

text \<open>
  The runs of the code are paths of the protocol, and what the invariants say of every reachable
  state: no update is lost, and the index shows each secret once, at its current version.
\<close>

section \<open>Runs are paths\<close>

lemma reach_prepare:
  assumes "reachable s" "cl_table s = t" "pm_operationId m \<notin> pm_operationId ` set (cl_prepared s)"
    and "\<And>v h. pm_expectedControlVersionId m = Some v \<Longrightarrow> head_of t (pm_secretUid m) = Some h \<Longrightarrow>
      h_environment h = pm_environment m"
    and "prepared_at m t t'"
  shows "reachable (s\<lparr>cl_table := t', cl_prepared := m # cl_prepared s\<rparr>)"
proof -
  obtain now where "committed (prepare_actions m now) (cl_table s) t'"
    using assms(2,5) by (auto simp: prepared_at_def)
  then show ?thesis
    using assms by (intro reachable_step [OF assms(1)] step_prepare [where now = now]) auto
qed

lemma head_sequence_syncRecord:
  "head_sequence (t (secretPk (sr_secretUid (syncRecord u c)), ''HEAD''))
     = head_sequence (t (secretPk u, ''HEAD''))"
  by simp

lemma reach_complete:
  assumes "reachable s" "cl_table s = t" "cm_prepared c \<in> set (cl_prepared s)" "completion c t t'"
  shows "\<exists>s'. reachable s' \<and> cl_table s' = t' \<and> cl_prepared s' = cl_prepared s
    \<and> cl_completed s' = cm_prepared c # cl_completed s"
proof -
  let ?m = "cm_prepared c"
  let ?env = "pm_environment ?m" and ?u = "pm_secretUid ?m"
  let ?st = "counter_of t ?env" and ?prev = "head_sequence (t (secretPk ?u, ''HEAD''))"
  let ?s1 = "s\<lparr>cl_reading := (?env, ?u, counter_of (cl_table s) ?env) # cl_reading s\<rparr>"
  let ?s2 = "?s1\<lparr>cl_publishing := (?env, ?u, ?st, head_sequence (cl_table ?s1 (secretPk ?u, ''HEAD'')))
    # cl_publishing ?s1\<rparr>"
  obtain due ns epoch ttl where
    lim: "next_sequence ?st \<le> maxSafeInteger" and
    ttl: "ttl = None \<longleftrightarrow> c_state (pm_control ?m) \<noteq> S_ARCHIVED" and
    com: "committed (sync_items ?env ?st epoch ?prev (syncRecord ?u (pm_control ?m)) ttl
       (\<lambda>sequence. complete_head_action c sequence # complete_rest c due ns)) t t'"
    using assms(4) by (auto simp: completion_def publication_def counter_of_def)
  have "reachable ?s1" by (rule reachable_step [OF assms(1) step_read_counter])
  then have "reachable ?s2"
    by (rule reachable_step) (rule step_read_head, use assms(2) in simp)
  then have "reachable (?s2\<lparr>cl_table := t', cl_completed := ?m # cl_completed ?s2\<rparr>)"
    by (rule reachable_step)
      (rule step_complete [where st = ?st and prev = ?prev and c = c],
        use assms(2,3) lim ttl com in simp_all)
  then show ?thesis by - (rule exI, rule conjI, assumption, simp)
qed

context dynamo
begin

lemma prepare_run_reaches:
  assumes "reachable s" "cl_table s = table w" "pm_operationId m \<notin> pm_operationId ` set (cl_prepared s)"
    and "\<And>v h. pm_expectedControlVersionId m = Some v \<Longrightarrow> head_of (table w) (pm_secretUid m) = Some h \<Longrightarrow>
      h_environment h = pm_environment m"
    and run: "prepareMutation S m w = (res, w')"
  shows "(table w' = table w \<and> res \<noteq> Inr ())
    \<or> reachable (s\<lparr>cl_table := table w', cl_prepared := m # cl_prepared s\<rparr>)"
proof -
  have "prepared_at m (table w) (table w')" if "res = Inr ()"
    using prepareMutation_commits [OF run [unfolded that]] by (auto simp: prepared_at_def)
  then have "(table w' = table w \<and> res \<noteq> Inr ()) \<or> prepared_at m (table w) (table w')"
    using movesD [OF prepareMutation_moves run] by auto
  then show ?thesis using reach_prepare [OF assms(1-3)] assms(4) by auto
qed

lemma complete_run_reaches:
  assumes "reachable s" "cl_table s = table w" "cm_prepared c \<in> set (cl_prepared s)"
    and run: "completeMutation S c w = (res, w')"
  shows "(table w' = table w \<and> res \<noteq> Inr ())
    \<or> (\<exists>s'. reachable s' \<and> cl_table s' = table w' \<and> cl_prepared s' = cl_prepared s
         \<and> cl_completed s' = cm_prepared c # cl_completed s)"
proof -
  have "completion c (table w) (table w')" if "res = Inr ()"
    using completeMutation_commits [OF run [unfolded that]] by (auto simp: completion_def)
  then have "(table w' = table w \<and> res \<noteq> Inr ()) \<or> completion c (table w) (table w')"
    using movesD [OF completeMutation_moves run] by auto
  then show ?thesis using reach_complete [OF assms(1-3)] by auto
qed

lemma recovery_run_reaches:
  assumes "reachable s" "cl_table s = table w"
  shows "releaseLease S u op w = (res, w') \<Longrightarrow> reachable (s\<lparr>cl_table := table w'\<rparr>)"
    and "abortPreparedCreate S env i u op w = (res', w') \<Longrightarrow> reachable (s\<lparr>cl_table := table w'\<rparr>)"
proof -
  have same: "reachable (s\<lparr>cl_table := table w'\<rparr>)" if "table w' = table w"
  proof -
    have "s\<lparr>cl_table := cl_table s\<rparr> = s" by simp
    then show ?thesis using assms that by metis
  qed
  show "reachable (s\<lparr>cl_table := table w'\<rparr>)" if "releaseLease S u op w = (res, w')"
    using movesD [OF releaseLease_moves that] same
      reachable_step [OF assms(1) step_release [of u op s "table w'"]] assms(2) by auto
  show "reachable (s\<lparr>cl_table := table w'\<rparr>)" if "abortPreparedCreate S env i u op w = (res', w')"
    using movesD [OF abortPreparedCreate_moves that] same
      reachable_step [OF assms(1) step_abort [of env i u op s "table w'"]] assms(2) by auto
qed

end

section \<open>A concrete history\<close>

lemma ex_initial: "initial_cluster \<lparr>cl_table = ref_table ex_world, cl_prepared = [], cl_completed = [],
    cl_reading = [], cl_publishing = []\<rparr>"
  by (simp add: initial_cluster_def ref_table_def ex_world_def)

lemma ex_history:
  "\<exists>s. reachable s \<and> cl_table s = ref_table ex_world4 \<and> cl_prepared s = [ex_update, ex_create]
     \<and> cl_completed s = [ex_update, ex_create]"
proof -
  let ?s0 = "\<lparr>cl_table = ref_table ex_world, cl_prepared = [], cl_completed = [],
    cl_reading = [], cl_publishing = []\<rparr>"
  have d: "pm_expectedControlVersionId ex_create = None" "pm_operationId ex_create = ''op1''"
    "pm_operationId ex_update = ''op2''" "pm_secretUid ex_update = ''s1''" "pm_environment ex_update = ''prod''"
    "cm_prepared ex_create_done = ex_create" "cm_prepared ex_update_done = ex_update"
    by (simp_all add: ex_data2)
  from ref_dynamo.prepare_run_reaches [OF reachable_initial [OF ex_initial] _ _ _ ex_create_prepared] d
  have "reachable (?s0\<lparr>cl_table := ref_table ex_world1, cl_prepared := [ex_create]\<rparr>)" by simp
  from ref_dynamo.complete_run_reaches [OF this _ _ ex_create_run] d
  obtain s2 where s2: "reachable s2" "cl_table s2 = ref_table ex_world2" "cl_prepared s2 = [ex_create]"
    "cl_completed s2 = [ex_create]" by auto
  have "head_of (ref_table ex_world2) ''s1'' = Some ex_head1"
    by (simp add: head_of_def ref_table_def ex_world2_def ex_items2_def ex_keys)
  then have "h_environment h = ''prod''" if "head_of (ref_table ex_world2) ''s1'' = Some h" for h
    using that by (auto simp: ex_head1_def new_head_def ex_data)
  with ref_dynamo.prepare_run_reaches [OF s2(1,2) _ _ ex_update_prepared] s2 d
  have "reachable (s2\<lparr>cl_table := ref_table ex_world3, cl_prepared := [ex_update, ex_create]\<rparr>)" by simp
  from ref_dynamo.complete_run_reaches [OF this _ _ ex_update_run] d s2
  show ?thesis by auto
qed

lemma last_completion:
  "reachable s \<Longrightarrow> cl_completed s = m # ms \<Longrightarrow>
     \<exists>s0 s1. reachable s0 \<and> server_step s0 s1 \<and> cl_completed s1 = m # cl_completed s0"
proof (induction arbitrary: m ms rule: reachable.induct)
  case (reachable_initial s)
  then show ?case by (simp add: initial_cluster_def)
next
  case (reachable_step s s')
  show ?case
  proof (cases "cl_completed s' = cl_completed s")
    case True
    with reachable_step show ?thesis by simp
  next
    case False
    with reachable_step(2) have "cl_completed s' = m # cl_completed s"
      using reachable_step(4) by (auto elim!: server_step.cases)
    with reachable_step(1,2) show ?thesis by blast
  qed
qed

section \<open>Properties\<close>

text \<open>C1: however the requests of any number of processes interleave, of all mutations that were
  prepared against one version of a secret at most one completes: no update overwrites another.\<close>

theorem no_lost_update:
  assumes "reachable s" "m \<in> set (cl_completed s)" "m' \<in> set (cl_completed s)"
    and "pm_secretUid m = pm_secretUid m'"
    and "pm_expectedControlVersionId m = Some v" "pm_expectedControlVersionId m' = Some v"
  shows "m = m'"
  using reachable_inv [OF assms(1)] assms(2-)
  by (intro inv_done_once [of s m m' v]) (simp_all add: cluster_inv_def)

theorem no_lost_update_witness:
  "\<exists>s. reachable s \<and> ex_update \<in> set (cl_completed s) \<and> pm_expectedControlVersionId ex_update = Some ''v1''
     \<and> (\<forall>m' \<in> set (cl_completed s). pm_secretUid m' = ''s1'' \<and> pm_expectedControlVersionId m' = Some ''v1''
          \<longrightarrow> m' = ex_update)"
proof -
  obtain s where s: "reachable s" "cl_completed s = [ex_update, ex_create]" using ex_history by blast
  have d: "pm_expectedControlVersionId ex_update = Some ''v1''" "pm_secretUid ex_update = ''s1''"
    by (simp_all add: ex_data)
  have "\<forall>m' \<in> set (cl_completed s). pm_secretUid m' = ''s1'' \<and> pm_expectedControlVersionId m' = Some ''v1''
          \<longrightarrow> m' = ex_update"
    using no_lost_update [OF s(1), of _ ex_update "''v1''"] s(2) d by auto
  with s d show ?thesis by auto
qed

text \<open>C2: a mutation that completes replaces exactly the version it was prepared against (or, when
  it creates, a head that no mutation has completed), and leaves the head unleased at its own version,
  even when its lease had expired and others have prepared or recovered the secret in between.\<close>

theorem completion_replaces_expected:
  assumes "reachable s" "server_step s s'" "cl_completed s' = m # cl_completed s"
  shows "\<exists>h h'. head_of (cl_table s) (pm_secretUid m) = Some h
    \<and> head_of (cl_table s') (pm_secretUid m) = Some h'
    \<and> (\<forall>v. pm_expectedControlVersionId m = Some v \<longrightarrow> h_controlVersionId h = v)
    \<and> (pm_expectedControlVersionId m = None \<longrightarrow> h_workflowState h = Some W_PREPARED)
    \<and> h_controlVersionId h' = c_controlVersionId (pm_control m) \<and> h_state h' = c_state (pm_control m)
    \<and> h_workflowState h' = Some W_READY \<and> h_leaseOwner h' = None"
  using assms(2,3)
proof cases
  case (step_complete c m0 st pre ttl epoch due ns t')
  with assms(3) have m: "m0 = m" by simp
  from complete_inv(2) [OF reachable_inv [OF assms(1)] step_complete(2-7)] step_complete(1,2)
  show ?thesis by (auto simp: m)
qed simp_all

theorem completion_replaces_expected_witness:
  "\<exists>s s' h h'. server_step s s' \<and> cl_completed s' = ex_update # cl_completed s
     \<and> head_of (cl_table s) ''s1'' = Some h \<and> h_controlVersionId h = ''v1''
     \<and> head_of (cl_table s') ''s1'' = Some h' \<and> h_controlVersionId h' = ''v2''"
proof -
  obtain s s' where s: "reachable s" "server_step s s'" "cl_completed s' = ex_update # cl_completed s"
    using ex_history last_completion by metis
  have d: "pm_expectedControlVersionId ex_update = Some ''v1''" "pm_secretUid ex_update = ''s1''"
    "c_controlVersionId (pm_control ex_update) = ''v2''" by (simp_all add: ex_data)
  from completion_replaces_expected [OF s] s(2,3) d show ?thesis by auto
qed

text \<open>C3: every row of the synchronisation index is the one its secret's head points to and carries
  the head's version and state, so no secret has two rows, even though publishers read the head before
  the transaction that replaces the row.\<close>

theorem sync_rows_current:
  assumes "reachable s" "sk \<noteq> ''STATE''" "cl_table s (syncPk e, sk) = Some (SyncChangeIt r ttl)"
  shows "\<exists>h n. head_of (cl_table s) (sr_secretUid r) = Some h \<and> h_environment h = e
    \<and> h_syncSequence h = Some n \<and> sk = syncSk n (sr_secretUid r)
    \<and> sr_controlVersionId r = h_controlVersionId h \<and> sr_state r = h_state h"
proof -
  have inv: "inv_rows s" using reachable_inv [OF assms(1)] by (simp add: cluster_inv_def)
  with assms(2,3) have "row_ok s e sk (SyncChangeIt r ttl)" by (simp add: inv_rows_def)
  then show ?thesis by (elim row_okE) auto
qed

theorem sync_rows_current_witness:
  "\<exists>s h. reachable s \<and> head_of (cl_table s) ''s1'' = Some h \<and> h_syncSequence h = Some 2
     \<and> h_controlVersionId h = ''v2''"
proof -
  obtain s where s: "reachable s" "cl_table s = ref_table ex_world4" using ex_history by blast
  have "cl_table s (syncPk ''prod'', syncSk 2 ''s1'') =
      Some (SyncChangeIt (syncRecord ''s1'' (pm_control ex_update)) None)"
    unfolding s(2)
    by (simp add: ref_table_def ex_world4_def ex_items4_def ex_keys ex_row_def ex_access_def
        ex_notification_def)
  from sync_rows_current [OF s(1) _ this] obtain h n where
    h: "head_of (cl_table s) ''s1'' = Some h" "h_syncSequence h = Some n"
    "syncSk 2 ''s1'' = syncSk n ''s1''" "h_controlVersionId h = ''v2''" by (auto simp: ex_data)
  have "n < 10 ^ 16"
    using sequence_bound [OF _ h(1,2)] reachable_inv [OF s(1)] by (simp add: cluster_inv_def)
  with h(3) have "n = 2" using syncSk_inject [of 2 n] by simp
  with s(1) h show ?thesis by auto
qed

text \<open>C4: a completed secret that is not archived is never missing from the index: the row under its
  head's sequence number is there and carries the head's version.\<close>

theorem sync_row_present:
  assumes "reachable s" "head_of (cl_table s) u = Some h" "h_syncSequence h = Some n"
    and "h_state h \<noteq> S_ARCHIVED"
  shows "\<exists>r. cl_table s (syncPk (h_environment h), syncSk n u) = Some (SyncChangeIt r None)
    \<and> sr_secretUid r = u \<and> sr_controlVersionId r = h_controlVersionId h \<and> sr_state r = h_state h"
proof -
  have inv: "inv_counter s" "inv_rows s" using reachable_inv [OF assms(1)] by (simp_all add: cluster_inv_def)
  obtain it where it: "cl_table s (syncPk (h_environment h), syncSk n u) = Some it"
    using inv(2) assms(2-4) unfolding inv_rows_def by blast
  from row_of_head [OF inv assms(2,3) it] it assms(4) show ?thesis by metis
qed

theorem sync_row_present_witness:
  "\<exists>s r. reachable s \<and> cl_table s (syncPk ''prod'', syncSk 2 ''s1'') = Some (SyncChangeIt r None)
     \<and> sr_controlVersionId r = ''v2''"
proof -
  obtain s where s: "reachable s" "cl_table s = ref_table ex_world4" using ex_history by blast
  have "head_of (cl_table s) ''s1'' = Some ex_head3"
    unfolding s(2) by (simp add: head_of_def ref_table_def ex_world4_def ex_items4_def ex_keys)
  moreover have "h_syncSequence ex_head3 = Some 2" "h_state ex_head3 \<noteq> S_ARCHIVED"
    "h_environment ex_head3 = ''prod''" "h_controlVersionId ex_head3 = ''v2''"
    by (simp_all add: ex_head3_def ex_head2_def ex_head1_def new_head_def ex_data2)
  ultimately show ?thesis using sync_row_present [OF s(1), of "''s1''" ex_head3 2] s(1) by auto
qed

text \<open>C5: a run of completeMutation is the protocol's completion and nothing else: if it returns, the
  table is that of a state reached by completing the mutation; if it throws, the table is unchanged or
  (when only the answer was lost) that of such a state.\<close>

theorem completeMutation_refines:
  assumes "dynamo S table" "reachable s" "cl_table s = table w" "cm_prepared c \<in> set (cl_prepared s)"
    and "completeMutation S c w = (res, w')"
  shows "(table w' = table w \<and> res \<noteq> Inr ())
    \<or> (\<exists>s'. reachable s' \<and> cl_table s' = table w' \<and> cl_prepared s' = cl_prepared s
         \<and> cl_completed s' = cm_prepared c # cl_completed s)"
  by (rule dynamo.complete_run_reaches [OF assms])

theorem completeMutation_refines_witness:
  "\<exists>s'. reachable s' \<and> cl_table s' = ref_table ex_world2 \<and> cl_completed s' = [ex_create]"
proof -
  let ?s = "\<lparr>cl_table = ref_table ex_world1, cl_prepared = [ex_create], cl_completed = [],
    cl_reading = [], cl_publishing = []\<rparr>"
  have d: "pm_expectedControlVersionId ex_create = None" "cm_prepared ex_create_done = ex_create"
    by (simp_all add: ex_data)
  have "reachable ?s"
    using ref_dynamo.prepare_run_reaches [OF reachable_initial [OF ex_initial] _ _ _ ex_create_prepared] d
    by simp
  from completeMutation_refines [OF ref_dynamo.dynamo_axioms this _ _ ex_create_run] d
  show ?thesis by auto
qed

end
