(* ===== verification/Mutation_Properties.thy ===== *)
theory Mutation_Properties
  imports Protocol_Runs
begin

text \<open>
  What a single run of prepareMutation, completeMutation and abortPreparedCreate does to the table,
  on services that keep the contract of DynamoDB.
\<close>

section \<open>Preparing\<close>

text \<open>C6: prepareMutation of an update returns only if the head is still at the expected version and no
  unexpired lease is held; it then leaves the head at that version, leased to this operation, and has
  recorded the request under an idempotency key that was not used before.\<close>

theorem prepareMutation_update:
  assumes "dynamo S table" "pm_expectedControlVersionId m = Some v"
    and "prepareMutation S m w = (Inr (), w')"
  shows "\<exists>h now w1. sv_now S w = (Inr now, w1)
    \<and> head_of (table w) (pm_secretUid m) = Some h \<and> h_controlVersionId h = v
    \<and> (\<forall>e. h_leaseExpiresAt h = Some e \<longrightarrow> e < now)
    \<and> head_of (table w') (pm_secretUid m) = Some (h\<lparr>h_leaseOwner := Some (pm_operationId m),
         h_leaseExpiresAt := Some (pm_expiresAt m)\<rparr>)
    \<and> table w (idempotencyPk (pm_actor m), requestSk (pm_idempotencyKey m)) = None
    \<and> table w' (idempotencyPk (pm_actor m), requestSk (pm_idempotencyKey m))
        = Some (IdempotencyIt (prepared_request m))"
proof -
  obtain now w1 where n: "sv_now S w = (Inr now, w1)"
    and c: "committed (prepare_actions m now) (table w) (table w')"
    using dynamo.prepareMutation_commits [OF assms(1,3)] assms(2) by auto
  have "Put (idempotencyPk (pm_actor m), requestSk (pm_idempotencyKey m))
      (IdempotencyIt (prepared_request m)) attribute_not_exists_pk \<in> set (prepare_actions m now)"
    by (simp add: prepare_actions_def)
  from committed_Put [OF c this] prepare_head [OF c] n assms(2) show ?thesis
    by (auto simp: lease_free_def split: option.splits)
qed

theorem prepareMutation_update_witness:
  "\<exists>h. head_of (ref_table ex_world2) ''s1'' = Some h \<and> h_controlVersionId h = ''v1''
     \<and> head_of (ref_table ex_world3) ''s1'' = Some (h\<lparr>h_leaseOwner := Some ''op2'', h_leaseExpiresAt := Some 5000\<rparr>)"
proof -
  have "pm_expectedControlVersionId ex_update = Some ''v1''" "pm_secretUid ex_update = ''s1''"
    "pm_operationId ex_update = ''op2''" "pm_expiresAt ex_update = 5000" by (simp_all add: ex_data)
  with prepareMutation_update [OF ref_dynamo.dynamo_axioms _ ex_update_prepared] show ?thesis by auto
qed

text \<open>PrepareMutation of a creation returns only if neither the name nor the identity was in use; it
  then has claimed the name for this identity and stored the unfinished head, leased to this operation.\<close>

theorem prepareMutation_create:
  assumes "dynamo S table" "pm_expectedControlVersionId m = None"
    and "prepareMutation S m w = (Inr (), w')"
  shows "table w (secretNamePk (pm_environment m) (pm_secretId m), ''LOOKUP'') = None
    \<and> head_of (table w) (pm_secretUid m) = None
    \<and> uid_of (table w') (pm_environment m) (pm_secretId m) = Some (pm_secretUid m)
    \<and> (\<exists>h. head_of (table w') (pm_secretUid m) = Some h \<and> h_workflowState h = Some W_PREPARED
         \<and> h_leaseOwner h = Some (pm_operationId m) \<and> h_leaseExpiresAt h = Some (pm_expiresAt m)
         \<and> h_controlObjectVersionId h = None)"
proof -
  obtain now where c: "committed (prepare_actions m now) (table w) (table w')"
    using dynamo.prepareMutation_commits [OF assms(1,3)] by auto
  have "Put (secretNamePk (pm_environment m) (pm_secretId m), ''LOOKUP'')
      (LookupIt \<lparr>l_secretUid = pm_secretUid m, l_secretId = pm_secretId m, l_environment = pm_environment m\<rparr>)
      attribute_not_exists_pk \<in> set (prepare_actions m now)"
    using assms(2) by (simp add: prepare_actions_def prepare_head_actions_def)
  from committed_Put [OF c this] prepare_head [OF c] assms(2) show ?thesis
    by (auto simp: uid_of_def new_head_def)
qed

theorem prepareMutation_create_witness:
  "uid_of (ref_table ex_world1) ''prod'' ''db/pw'' = Some ''s1''
     \<and> head_of (ref_table ex_world) ''s1'' = None"
proof -
  have "pm_expectedControlVersionId ex_create = None" "pm_secretUid ex_create = ''s1''"
    "pm_environment ex_create = ''prod''" "pm_secretId ex_create = ''db/pw''" by (simp_all add: ex_data)
  with prepareMutation_create [OF ref_dynamo.dynamo_axioms _ ex_create_prepared] show ?thesis by auto
qed

section \<open>Completing\<close>

text \<open>The committed transaction of a completion and what it is built from.\<close>

context dynamo
begin

lemma completion_committed:
  assumes "completeMutation S c w = (Inr u, w')"
  obtains epoch ttl due ns w1 w2 where
    "committed (sync_items (pm_environment (cm_prepared c))
       (counter_of (table w) (pm_environment (cm_prepared c))) epoch
       (head_sequence (table w (secretPk (pm_secretUid (cm_prepared c)), ''HEAD'')))
       (syncRecord (pm_secretUid (cm_prepared c)) (pm_control (cm_prepared c))) ttl
       (\<lambda>sequence. complete_head_action c sequence # complete_rest c due ns)) (table w) (table w')"
    "notificationItemsFor S (pm_control (cm_prepared c))
        (accessItemsFor (pm_secretUid (cm_prepared c)) (pm_control (cm_prepared c)) (cm_priorAccess c))
        (accessProjectionChanged (pm_control (cm_prepared c)) (cm_priorAccess c)) w1 = (Inr ns, w2)"
  using completeMutation_commits [OF assms] that
  by (auto simp: publication_def counter_of_def)

end

text \<open>C7: completeMutation returns only if the operation still holds the head's lease; it then has moved
  the head to the new control revision, its object and its payload, cleared the lease, taken the next
  sequence number of the environment, and replaced the secret's row of the synchronisation index.\<close>

theorem completeMutation_head:
  assumes "dynamo S table" "completeMutation S c w = (Inr (), w')" "cm_prepared c = m"
  shows "\<exists>h n. head_of (table w) (pm_secretUid m) = Some h \<and> h_leaseOwner h = Some (pm_operationId m)
    \<and> n = next_sequence (counter_of (table w) (pm_environment m))
    \<and> head_of (table w') (pm_secretUid m) = Some (complete_head c n h)
    \<and> map_option ss_sequence (counter_of (table w') (pm_environment m)) = Some n
    \<and> (\<exists>ttl. table w' (syncPk (pm_environment m), syncSk n (pm_secretUid m))
         = Some (SyncChangeIt (syncRecord (pm_secretUid m) (pm_control m)) ttl))
    \<and> (\<forall>k. h_syncSequence h = Some k \<longrightarrow>
         table w' (syncPk (pm_environment m), syncSk k (pm_secretUid m)) = None)"
proof -
  obtain epoch ttl due ns w1 w2 where com: "committed (sync_items (pm_environment m)
       (counter_of (table w) (pm_environment m)) epoch
       (head_sequence (table w (secretPk (pm_secretUid m), ''HEAD'')))
       (syncRecord (pm_secretUid m) (pm_control m)) ttl
       (\<lambda>sequence. complete_head_action c sequence # complete_rest c due ns)) (table w) (table w')"
    by (rule dynamo.completion_committed [OF assms(1,2), unfolded assms(3)])
  obtain h where h: "head_of (table w) (pm_secretUid m) = Some h" "h_leaseOwner h = Some (pm_operationId m)"
    "head_of (table w') (pm_secretUid m)
       = Some (complete_head c (next_sequence (counter_of (table w) (pm_environment m))) h)"
    using completion_views(1) [OF com] assms(3) by auto
  have "head_sequence (table w (secretPk (pm_secretUid m), ''HEAD'')) = h_syncSequence h"
    using h(1) by (auto simp: head_of_def head_sequence_def)
  with h publication_counter(2) [OF com] publication_row [OF com] show ?thesis by auto
qed

theorem completeMutation_head_witness:
  "\<exists>h. head_of (ref_table ex_world3) ''s1'' = Some h \<and> h_leaseOwner h = Some ''op2''
     \<and> head_of (ref_table ex_world4) ''s1'' = Some (complete_head ex_update_done 2 h)
     \<and> ref_table ex_world4 (syncPk ''prod'', syncSk 1 ''s1'') = None"
proof -
  have d: "cm_prepared ex_update_done = ex_update" "pm_secretUid ex_update = ''s1''"
    "pm_environment ex_update = ''prod''" "pm_operationId ex_update = ''op2''" by (simp_all add: ex_data2)
  have n: "next_sequence (counter_of (ref_table ex_world3) ''prod'') = 2"
    by (simp add: counter_of_def ref_table_def ex_world3_def ex_items3_def ex_keys ex_state_def
        as_sync_state_def next_sequence_def)
  have h: "head_of (ref_table ex_world3) ''s1'' = Some ex_head2" "h_syncSequence ex_head2 = Some 1"
    by (simp_all add: head_of_def ref_table_def ex_world3_def ex_items3_def ex_keys ex_head2_def ex_head1_def)
  from completeMutation_head [OF ref_dynamo.dynamo_axioms ex_update_run d(1)] d n h show ?thesis by auto
qed

section \<open>The access projection\<close>

text \<open>Of the transaction, only the access actions write access rows.\<close>

lemma completion_access_actions:
  assumes "a \<in> set (sync_items env st epoch prev r ttl
      (\<lambda>sequence. complete_head_action c sequence # complete_rest c due ns))"
    and "action_key a = (consumerPk i, sk)"
  shows "accessProjectionChanged (pm_control (cm_prepared c)) (cm_priorAccess c)
    \<and> a \<in> set (access_actions (accessItemsFor (pm_secretUid (cm_prepared c))
         (pm_control (cm_prepared c)) (cm_priorAccess c)))"
  using assms
  by (auto simp: sync_items_def Let_def sync_counter_def complete_head_action_def complete_rest_def
      ready_actions_def retention_actions_def archive_actions_def notification_actions_def
      workflowReadyUpdate_def retentionCandidateUpdate_def split: option.splits if_splits)

lemma completion_access_row:
  assumes com: "committed (sync_items env st epoch prev r ttl
      (\<lambda>sequence. complete_head_action c sequence # complete_rest c due ns)) t t'"
    and "cm_prepared c = m"
  shows "access_of t' i (c_environment (pm_control m)) (pm_secretUid m) =
    (if accessProjectionChanged (pm_control m) (cm_priorAccess c)
       \<and> i \<in> a_consumerId ` set (cm_priorAccess c) \<union> g_consumerId ` set (c_acl (pm_control m))
     then Some (accessItem (pm_secretUid m) (pm_control m) i)
     else access_of t i (c_environment (pm_control m)) (pm_secretUid m))"
proof -
  let ?k = "(consumerPk i, accessSk (c_environment (pm_control m)) (pm_secretUid m))"
  let ?acts = "sync_items env st epoch prev r ttl
      (\<lambda>sequence. complete_head_action c sequence # complete_rest c due ns)"
  let ?items = "accessItemsFor (pm_secretUid m) (pm_control m) (cm_priorAccess c)"
  show ?thesis
  proof (cases "accessProjectionChanged (pm_control m) (cm_priorAccess c)
       \<and> i \<in> a_consumerId ` set (cm_priorAccess c) \<union> g_consumerId ` set (c_acl (pm_control m))")
    case True
    then have "accessItem (pm_secretUid m) (pm_control m) i \<in> set ?items"
      by (auto simp: accessItems_mem)
    then have "Put ?k (AccessIt (accessItem (pm_secretUid m) (pm_control m) i)) no_condition
        \<in> set (access_actions ?items)" by (force simp: access_actions_def)
    then have "Put ?k (AccessIt (accessItem (pm_secretUid m) (pm_control m) i)) no_condition \<in> set ?acts"
      using True assms(2)
      by (simp add: sync_items_def Let_def complete_rest_def)
    from committed_Put(2) [OF com this] True show ?thesis by (simp add: access_of_def)
  next
    case False
    have "?k \<notin> action_key ` set ?acts"
    proof
      assume "?k \<in> action_key ` set ?acts"
      then obtain a where a: "a \<in> set ?acts" "action_key a = ?k" by auto
      from completion_access_actions [OF a] a(2) False assms(2) show False
        by (auto simp: access_actions_def accessItemsFor_def)
    qed
    from committed_other [OF com this] False show ?thesis by (auto simp: access_of_def)
  qed
qed

text \<open>C8: the access rows stay an exact projection of the ACL: if the prior rows given to
  completeMutation name exactly the consumers that could read, then after it returns exactly the
  consumers with a read grant in the new ACL can, whether or not the code found rows to rewrite.\<close>

theorem access_projection_exact:
  assumes "dynamo S table" "completeMutation S c w = (Inr (), w')" "cm_prepared c = m"
    and "distinct (map g_consumerId (c_acl (pm_control m)))" "c_state (pm_control m) \<noteq> S_REVOKED"
    and "\<And>i. (\<exists>a. access_of (table w) i (c_environment (pm_control m)) (pm_secretUid m) = Some a \<and> activeRead a)
        \<longleftrightarrow> i \<in> active_consumers (cm_priorAccess c)"
  shows "(\<exists>a. access_of (table w') i (c_environment (pm_control m)) (pm_secretUid m) = Some a \<and> activeRead a)
    \<longleftrightarrow> i \<in> acl_readers (pm_control m)"
proof -
  obtain epoch ttl due ns w1 w2 where com: "committed (sync_items (pm_environment m)
       (counter_of (table w) (pm_environment m)) epoch
       (head_sequence (table w (secretPk (pm_secretUid m), ''HEAD'')))
       (syncRecord (pm_secretUid m) (pm_control m)) ttl
       (\<lambda>sequence. complete_head_action c sequence # complete_rest c due ns)) (table w) (table w')"
    by (rule dynamo.completion_committed [OF assms(1,2), unfolded assms(3)])
  note row = completion_access_row [OF com assms(3), of i]
  have wf: "wf_acl (c_acl (pm_control m))" using assms(4) by (simp add: wf_acl_def)
  show ?thesis
  proof (cases "accessProjectionChanged (pm_control m) (cm_priorAccess c)
       \<and> i \<in> a_consumerId ` set (cm_priorAccess c) \<union> g_consumerId ` set (c_acl (pm_control m))")
    case True
    with row accessItem_active [OF wf] assms(5) show ?thesis by simp
  next
    case False
    have "i \<in> active_consumers (cm_priorAccess c) \<longleftrightarrow> i \<in> acl_readers (pm_control m)"
      using False by (auto simp: accessProjectionChanged_iff active_consumers_def acl_readers_def)
    with row False assms(6) [of i] show ?thesis by (simp only: if_False)
  qed
qed

lemma ex_readers [simp]:
  "acl_readers (pm_control ex_create) = {''c1''}" "acl_readers (pm_control ex_update) = {''c2''}"
  by (auto simp: acl_readers_def hasRead_def ex_data)

lemma ex_prior_active [simp]: "activeRead (accessItem ''s1'' (pm_control ex_create) ''c1'')"
proof -
  have "wf_acl (c_acl (pm_control ex_create))" "c_state (pm_control ex_create) \<noteq> S_REVOKED"
    by (simp_all add: wf_acl_def ex_data)
  then show ?thesis by (simp add: accessItem_active)
qed

lemma ex_prior_access:
  "(\<exists>a. access_of (ref_table ex_world3) i ''prod'' ''s1'' = Some a \<and> activeRead a)
     \<longleftrightarrow> i \<in> active_consumers [accessItem ''s1'' (pm_control ex_create) ''c1'']"
  using ex_prior_active
  by (simp add: access_of_def ref_table_def ex_world3_def ex_items3_def ex_keys ex_access_def
      ex_notification_def ex_row_def ex_state_def active_consumers_def image_iff)

theorem access_projection_exact_witness:
  "\<exists>a. access_of (ref_table ex_world4) ''c2'' ''prod'' ''s1'' = Some a \<and> activeRead a"
proof -
  have d: "cm_prepared ex_update_done = ex_update" "pm_secretUid ex_update = ''s1''"
    "c_environment (pm_control ex_update) = ''prod''" "c_state (pm_control ex_update) \<noteq> S_REVOKED"
    "distinct (map g_consumerId (c_acl (pm_control ex_update)))"
    "cm_priorAccess ex_update_done = [accessItem ''s1'' (pm_control ex_create) ''c1'']"
    by (simp_all add: ex_data2)
  from access_projection_exact [OF ref_dynamo.dynamo_axioms ex_update_run d(1,5,4), of "''c2''"]
    ex_prior_access d show ?thesis by simp
qed

text \<open>The code decides whether access rows have to be rewritten by comparing the sizes of two Maps
  and looking one up in the other; that is exactly whether the set of readers changed.\<close>

theorem access_rewrite_decision:
  "accessProjectionChanged control prior \<longleftrightarrow>
     {g_consumerId grant | grant. grant \<in> set (c_acl control) \<and> PRead \<in> set (g_permissions grant)}
     \<noteq> {a_consumerId access | access. access \<in> set prior \<and> PRead \<in> set (a_permissions access)
          \<and> a_state access \<noteq> S_REVOKED}"
proof -
  have "acl_readers control = {g_consumerId grant | grant. grant \<in> set (c_acl control)
      \<and> PRead \<in> set (g_permissions grant)}" by (auto simp: acl_readers_def hasRead_def)
  moreover have "active_consumers prior = {a_consumerId access | access. access \<in> set prior
      \<and> PRead \<in> set (a_permissions access) \<and> a_state access \<noteq> S_REVOKED}"
    by (auto simp: active_consumers_def activeRead_def)
  ultimately show ?thesis using accessProjectionChanged_iff by simp
qed

section \<open>Notifications\<close>




section \<open>Names, size and recovery\<close>

lemma completion_name_actions:
  assumes "a \<in> set (sync_items env st epoch prev r ttl
      (\<lambda>sequence. complete_head_action c sequence # complete_rest c due ns))"
    and "action_key a = (secretNamePk e i, sk)"
  shows "a \<in> set (archive_actions (cm_prepared c))"
  using assms
  by (auto simp: sync_items_def Let_def sync_counter_def complete_head_action_def complete_rest_def
      ready_actions_def retention_actions_def access_actions_def notification_actions_def
      workflowReadyUpdate_def retentionCandidateUpdate_def split: option.splits if_splits)

lemma completion_other_name:
  assumes com: "committed (sync_items env st epoch prev r ttl
      (\<lambda>sequence. complete_head_action c sequence # complete_rest c due ns)) t t'"
    and "\<not> (pm_archive (cm_prepared c)
      \<and> secretNamePk e i = secretNamePk (pm_environment (cm_prepared c)) (pm_secretId (cm_prepared c)))"
  shows "uid_of t' e i = uid_of t e i"
proof -
  let ?acts = "sync_items env st epoch prev r ttl
      (\<lambda>sequence. complete_head_action c sequence # complete_rest c due ns)"
  have "(secretNamePk e i, ''LOOKUP'') \<notin> action_key ` set ?acts"
  proof
    assume "(secretNamePk e i, ''LOOKUP'') \<in> action_key ` set ?acts"
    then obtain a where a: "a \<in> set ?acts" "action_key a = (secretNamePk e i, ''LOOKUP'')" by auto
    from completion_name_actions [OF a] a(2) assms(2) show False
      by (auto simp: archive_actions_def split: if_splits)
  qed
  from committed_other [OF com this] show ?thesis by (simp add: uid_of_def)
qed

text \<open>Completing a mutation changes no name, except that an archival releases the secret's own name,
  and only while that name still leads to the archived identity.\<close>

theorem completion_names:
  assumes "dynamo S table" "completeMutation S c w = (Inr (), w')" "cm_prepared c = m"
  shows "uid_of (table w') e i =
      (if pm_archive m \<and> secretNamePk e i = secretNamePk (pm_environment m) (pm_secretId m) then None
       else uid_of (table w) e i)
    \<and> (pm_archive m \<longrightarrow> uid_of (table w) (pm_environment m) (pm_secretId m) = Some (pm_secretUid m))"
proof -
  obtain epoch ttl due ns w1 w2 where com: "committed (sync_items (pm_environment m)
       (counter_of (table w) (pm_environment m)) epoch
       (head_sequence (table w (secretPk (pm_secretUid m), ''HEAD'')))
       (syncRecord (pm_secretUid m) (pm_control m)) ttl
       (\<lambda>sequence. complete_head_action c sequence # complete_rest c due ns)) (table w) (table w')"
    by (rule dynamo.completion_committed [OF assms(1,2), unfolded assms(3)])
  let ?acts = "sync_items (pm_environment m) (counter_of (table w) (pm_environment m)) epoch
       (head_sequence (table w (secretPk (pm_secretUid m), ''HEAD'')))
       (syncRecord (pm_secretUid m) (pm_control m)) ttl
       (\<lambda>sequence. complete_head_action c sequence # complete_rest c due ns)"
  show ?thesis
  proof (cases "pm_archive m")
    case True
    then have "Delete (secretNamePk (pm_environment m) (pm_secretId m), ''LOOKUP'')
        (\<lambda>i. as_lookup i = Some (pm_secretUid m)) \<in> set (complete_rest c due ns)"
      using assms(3) by (simp add: complete_rest_def Let_def archive_actions_def)
    then have "Delete (secretNamePk (pm_environment m) (pm_secretId m), ''LOOKUP'')
        (\<lambda>i. as_lookup i = Some (pm_secretUid m)) \<in> set ?acts" by (simp add: sync_items_def Let_def)
    from committed_Delete [OF com this]
    have "uid_of (table w) (pm_environment m) (pm_secretId m) = Some (pm_secretUid m)"
      "table w' (secretNamePk (pm_environment m) (pm_secretId m), ''LOOKUP'') = None"
      by (simp_all add: uid_of_def del: as_record_Some)
    with completion_other_name [OF com, of e i] assms(3) True show ?thesis
      by (auto simp: uid_of_def)
  next
    case False
    with completion_other_name [OF com, of e i] assms(3) show ?thesis by simp
  qed
qed

theorem completion_names_witness: "uid_of (ref_table ex_world4) ''prod'' ''db/pw'' = Some ''s1''"
proof -
  have d: "cm_prepared ex_update_done = ex_update" "\<not> pm_archive ex_update" by (simp_all add: ex_data2)
  have "uid_of (ref_table ex_world3) ''prod'' ''db/pw'' = Some ''s1''"
    by (simp add: uid_of_def ref_table_def ex_world3_def ex_items3_def ex_keys ex_access_def
        ex_notification_def ex_row_def ex_note0_def ex_note_def)
  with completion_names [OF ref_dynamo.dynamo_axioms ex_update_run d(1)] d(2) show ?thesis by simp
qed



text \<open>AbortPreparedCreate never answers that it was refused: it returns true, with head and name
  removed, or it throws, because a refused transaction does not carry the error name it tests for.\<close>

theorem abortPreparedCreate_never_false:
  assumes "dynamo S table" "abortPreparedCreate S env i u operationId w = (Inr b, w')"
  shows "b \<and> (\<exists>h. head_of (table w) u = Some h \<and> h_leaseOwner h = Some operationId
      \<and> h_workflowState h = Some W_PREPARED)
    \<and> uid_of (table w) env i = Some u \<and> head_of (table w') u = None \<and> uid_of (table w') env i = None"
proof -
  have b: "b" and c: "committed (abort_actions env i u operationId) (table w) (table w')"
    using dynamo.abortPreparedCreate_true [OF assms] by auto
  have "Delete (secretNamePk env i, ''LOOKUP'') (\<lambda>i. as_lookup i = Some u) \<in> set (abort_actions env i u operationId)"
    by (simp add: abort_actions_def)
  note l = committed_Delete [OF c this]
  have "Delete (secretPk u, ''HEAD'') (\<lambda>i. case i of Some (HeadItem h) \<Rightarrow>
      h_leaseOwner h = Some operationId \<and> h_workflowState h = Some W_PREPARED | _ \<Rightarrow> False)
      \<in> set (abort_actions env i u operationId)" by (simp add: abort_actions_def)
  note h = committed_Delete [OF c this]
  have "\<exists>h. head_of (table w) u = Some h \<and> h_leaseOwner h = Some operationId \<and> h_workflowState h = Some W_PREPARED"
    using h(1) by (auto simp: head_of_def split: option.splits item.splits)
  with b l h(2) show ?thesis by (simp add: uid_of_def head_of_def del: as_record_Some)
qed

theorem abortPreparedCreate_never_false_witness:
  "uid_of (ref_table (snd (abortPreparedCreate ref_services ''prod'' ''db/pw'' ''s1'' ''op1'' ex_world1)))
     ''prod'' ''db/pw'' = None"
proof -
  have "fst (abortPreparedCreate ref_services ''prod'' ''db/pw'' ''s1'' ''op1'' ex_world1) = Inr True"
    by (simp add: abortPreparedCreate_def unless_refused_def abort_actions_def ref_run ex_world1_def
        ex_world_def ex_items1_def ex_keys ex_create_def ex_mutation_def new_head_def)
  then obtain w' where "abortPreparedCreate ref_services ''prod'' ''db/pw'' ''s1'' ''op1'' ex_world1 = (Inr True, w')"
    by (metis prod.collapse)
  from abortPreparedCreate_never_false [OF ref_dynamo.dynamo_axioms this] this show ?thesis by simp
qed

end
