(* ===== verification/Validation.thy ===== *)
theory Validation
  imports Keys
begin

text \<open>
  Request validation, src/src/domain/validation.ts. A value of type unknown is a jsval; JObj lists
  the own properties in the order of Object.entries, and a missing property reads as JUndefined. A
  parser returns what it throws or what it returns. A string is the list of its code units, and a code unit
  is at most U+00FF in this model, so it takes one or two bytes in UTF-8.
\<close>

section \<open>Untyped values\<close>

datatype jsval =
    JUndefined
  | JNull
  | JBool bool
  | JNumber int
  | JString string
  | JArray "jsval list"
  | JObj "(string \<times> jsval) list"

fun isObject :: "jsval \<Rightarrow> bool" where
  "isObject (JObj ps) = True"
| "isObject v = False"

fun entries_of :: "jsval \<Rightarrow> (string \<times> jsval) list" where
  "entries_of (JObj ps) = ps"
| "entries_of v = []"

definition js_prop :: "jsval \<Rightarrow> string \<Rightarrow> jsval" where
  "js_prop v name = (case map_of (entries_of v) name of None \<Rightarrow> JUndefined | Some x \<Rightarrow> x)"

fun as_string :: "jsval \<Rightarrow> string option" where
  "as_string (JString s) = Some s"
| "as_string v = None"

fun as_array :: "jsval \<Rightarrow> jsval list option" where
  "as_array (JArray vs) = Some vs"
| "as_array v = None"

type_synonym 'a parsed = "exn + 'a"

fun bindE :: "'a parsed \<Rightarrow> ('a \<Rightarrow> 'b parsed) \<Rightarrow> 'b parsed" where
  "bindE (Inl e) f = Inl e"
| "bindE (Inr x) f = f x"

text \<open>\<open>xs.map(f)\<close> for an \<open>f\<close> that may throw.\<close>

fun mapE :: "('a \<Rightarrow> 'b parsed) \<Rightarrow> 'a list \<Rightarrow> 'b list parsed" where
  "mapE f [] = Inr []"
| "mapE f (x # xs) = bindE (f x) (\<lambda>y. bindE (mapE f xs) (\<lambda>ys. Inr (y # ys)))"

definition throwE :: "bool \<Rightarrow> exn \<Rightarrow> unit parsed" where
  "throwE bad e = (if bad then Inl e else Inr ())"

lemma bindE_ok [simp]: "bindE m f = Inr y \<longleftrightarrow> (\<exists>x. m = Inr x \<and> f x = Inr y)"
  by (cases m) auto

lemma throwE_ok [simp]: "throwE b e = Inr u \<longleftrightarrow> \<not> b"
  by (simp add: throwE_def)

lemma mapE_ok: "mapE f xs = Inr ys \<longleftrightarrow> list_all2 (\<lambda>x y. f x = Inr y) xs ys"
proof (induction xs arbitrary: ys)
  case (Cons x xs)
  then show ?case by (cases ys) auto
qed auto

lemma mapE_ok_length: "mapE f xs = Inr ys \<Longrightarrow> length ys = length xs"
  by (auto simp: mapE_ok dest: list_all2_lengthD)

lemma mapE_ok_mem: "mapE f xs = Inr ys \<Longrightarrow> y \<in> set ys \<Longrightarrow> \<exists>x \<in> set xs. f x = Inr y"
  unfolding mapE_ok by (induction rule: list_all2_induct) auto

section \<open>Regular expressions\<close>

text \<open>A class for the first character and one for a bounded number of further characters.\<close>

fun head_then :: "(char \<Rightarrow> bool) \<Rightarrow> (char \<Rightarrow> bool) \<Rightarrow> nat \<Rightarrow> nat \<Rightarrow> string \<Rightarrow> bool" where
  "head_then first rest lo hi [] = False"
| "head_then first rest lo hi (c # cs) =
     (first c \<and> list_all rest cs \<and> lo \<le> length cs \<and> length cs \<le> hi)"

definition isIdentifier :: "string \<Rightarrow> bool" where
  "isIdentifier s = head_then is_lower is_ident_char 2 63 s"

definition secretIdentifier :: "string \<Rightarrow> bool" where
  "secretIdentifier s = list_all isIdentifier (split_on CHR ''/'' s)"

definition environmentName :: "string \<Rightarrow> bool" where
  "environmentName s = head_then is_lower is_ident_char 0 63 s"

definition tagKey :: "string \<Rightarrow> bool" where
  "tagKey s = head_then is_lower is_ident_char 0 31 s"

definition tagValue :: "string \<Rightarrow> bool" where
  "tagValue s = head_then is_alnum
     (\<lambda>c. is_alnum c \<or> c \<in> set ''._@+/-'') 0 127 s"

definition secretEntryKey :: "string \<Rightarrow> bool" where
  "secretEntryKey s \<longleftrightarrow> s \<noteq> [] \<and> list_all (\<lambda>c. is_alnum c \<or> c \<in> set ''._-'') s"

definition maximumAclGrants :: nat where
  "maximumAclGrants = 40"

section \<open>Assertions\<close>

definition assertIdentifier :: "string \<Rightarrow> string \<Rightarrow> unit parsed" where
  "assertIdentifier value field = throwE (\<not> isIdentifier value) (badRequest (field @
     '' must be 3-64 lowercase letters, numbers, or hyphens and start with a letter.''))"

definition assertSecretIdentifier :: "string \<Rightarrow> string \<Rightarrow> unit parsed" where
  "assertSecretIdentifier value field =
     throwE (length value > 256 \<or> \<not> secretIdentifier value) (badRequest (field @
     '' must be slash-delimited lowercase identifiers (3-64 characters per segment), with no leading, trailing, or repeated slash.''))"

definition assertEnvironmentName :: "string \<Rightarrow> unit parsed" where
  "assertEnvironmentName value = throwE (\<not> environmentName value) (badRequest
     ''environment must be 1-64 lowercase letters, numbers, or hyphens and start with a letter.'')"

section \<open>Metadata and catalog parameters\<close>

definition parseTag :: "string \<times> jsval \<Rightarrow> (string \<times> string) parsed" where
  "parseTag p = (case as_string (snd p) of
     None \<Rightarrow> Inl (badRequest ''metadata.tags contains an invalid key or value.'')
   | Some tag \<Rightarrow> if tagKey (fst p) \<and> tagValue tag then Inr (fst p, tag)
       else Inl (badRequest ''metadata.tags contains an invalid key or value.''))"

definition parseTags :: "jsval \<Rightarrow> Tags option parsed" where
  "parseTags value =
     (if value = JUndefined then Inr None
      else if \<not> isObject value then
        Inl (badRequest ''metadata.tags must be an object of string values.'')
      else if length (entries_of value) > 20 then
        Inl (badRequest ''metadata.tags must contain at most twenty entries.'')
      else bindE (mapE parseTag (entries_of value)) (\<lambda>tags. Inr (Some (sort_key fst tags))))"

definition parseMetadata :: "jsval \<Rightarrow> SecretMetadata parsed" where
  "parseMetadata value =
     (if \<not> isObject value then Inl (badRequest ''metadata must be an object.'')
      else
        let description = js_prop value ''description'' in
        bindE (throwE (description \<noteq> JUndefined \<and>
            (case as_string description of None \<Rightarrow> True | Some s \<Rightarrow> length s > 1024))
          (badRequest ''metadata.description must be a string of at most 1024 characters.'')) (\<lambda>_.
        bindE (throwE (js_prop value ''path'' \<noteq> JUndefined)
          (badRequest ''metadata.path is not supported; encode the hierarchy in secretId.'')) (\<lambda>_.
        bindE (parseTags (js_prop value ''tags'')) (\<lambda>tags.
        Inr \<lparr>md_description = as_string description, md_tags = tags\<rparr>))))"

definition parseCatalogPathPrefix :: "string option \<Rightarrow> string option parsed" where
  "parseCatalogPathPrefix value = (case value of
     None \<Rightarrow> Inr None
   | Some s \<Rightarrow>
       if length s = 0 \<or> length s > 256 \<or> \<not> secretIdentifier s
       then Inl (badRequest ''pathPrefix must be a slash-delimited secret ID prefix, with 3-64 lowercase identifier characters per segment.'')
       else Inr (Some s))"

definition parseCapability :: "jsval \<Rightarrow> capability parsed" where
  "parseCapability entry =
     (if entry = JString ''read'' then Inr CRead
      else if entry = JString ''write'' then Inr CWrite
      else Inl (badRequest ''capabilities must contain read and/or write.''))"

definition parseAgentCapabilities :: "jsval \<Rightarrow> bool \<Rightarrow> capability list parsed" where
  "parseAgentCapabilities value allowEmpty = (case as_array value of
     None \<Rightarrow> Inl (badRequest ''capabilities must contain read and/or write.'')
   | Some vs \<Rightarrow>
       if (\<not> allowEmpty \<and> length vs = 0) \<or> length vs > 2
       then Inl (badRequest ''capabilities must contain read and/or write.'')
       else bindE (mapE parseCapability vs) (\<lambda>capabilities.
         if length (uniq capabilities) \<noteq> length capabilities
         then Inl (badRequest ''capabilities must not contain duplicates.'')
         else Inr (sort capabilities)))"

text \<open>White space among the code units up to U+00FF, as trim() removes it.\<close>

definition is_space :: "char \<Rightarrow> bool" where
  "is_space c \<longleftrightarrow> (9 \<le> (of_char c :: nat) \<and> (of_char c :: nat) \<le> 13)
     \<or> (of_char c :: nat) = 32 \<or> (of_char c :: nat) = 160"

definition parseCatalogSearchQuery :: "string option \<Rightarrow> string option parsed" where
  "parseCatalogSearchQuery value = (case value of
     None \<Rightarrow> Inr None
   | Some s \<Rightarrow>
       if length s = 0 \<or> length s > 128 \<or> list_all is_space s
       then Inl (badRequest ''q must be 1-128 characters and not only whitespace.'')
       else Inr (Some s))"

text \<open>An entry with exactly one colon, neither first nor last, is what the index tests accept.\<close>

definition parseTagFilter :: "string \<Rightarrow> (string \<times> string) parsed" where
  "parseTagFilter entry = (case split_on CHR '':'' entry of
     [key, tag] \<Rightarrow>
       if key = [] \<or> tag = [] then Inl (badRequest ''tags must be comma-separated key:value pairs.'')
       else if \<not> tagKey key \<or> \<not> tagValue tag then
         Inl (badRequest ''tags contains an invalid key or value.'')
       else Inr (key, tag)
   | _ \<Rightarrow> Inl (badRequest ''tags must be comma-separated key:value pairs.''))"

definition parseCatalogTagFilters :: "string option \<Rightarrow> Tags parsed" where
  "parseCatalogTagFilters value = (case value of
     None \<Rightarrow> Inr []
   | Some s \<Rightarrow>
       if length s = 0 then Inr []
       else bindE (mapE parseTagFilter (split_on CHR '','' s)) (\<lambda>entries.
         if length entries > 20 \<or> length (uniq (map fst entries)) \<noteq> length entries
         then Inl (badRequest ''tags must contain at most twenty unique keys.'')
         else Inr entries))"

section \<open>Grants\<close>

fun parseGrantList :: "string set \<Rightarrow> jsval list \<Rightarrow> Grant list parsed" where
  "parseGrantList seen [] = Inr []"
| "parseGrantList seen (grant # rest) =
     (case (as_string (js_prop grant ''consumerId''), as_array (js_prop grant ''permissions'')) of
        (Some consumerId, Some permissions) \<Rightarrow>
          bindE (assertIdentifier consumerId ''acl.consumerId'') (\<lambda>_.
          bindE (throwE (consumerId \<in> seen) (badRequest ''acl contains a duplicate consumerId.'')) (\<lambda>_.
          bindE (throwE (permissions \<noteq> [JString ''read''])
            (badRequest ''Only the read permission is supported.'')) (\<lambda>_.
          bindE (parseGrantList (insert consumerId seen) rest) (\<lambda>grants.
          Inr (\<lparr>g_consumerId = consumerId, g_permissions = [PRead]\<rparr> # grants)))))
      | _ \<Rightarrow> Inl (badRequest ''Each ACL grant must contain consumerId and permissions.''))"

definition parseGrants :: "jsval \<Rightarrow> Grant list parsed" where
  "parseGrants value = (case as_array value of
     None \<Rightarrow> Inl (badRequest ''acl must contain between zero and 40 grants.'')
   | Some grants \<Rightarrow>
       if length grants > maximumAclGrants
       then Inl (badRequest ''acl must contain between zero and 40 grants.'')
       else parseGrantList {} grants)"

section \<open>Base64\<close>

text \<open>The index of a character in the base64 alphabet, and back.\<close>

definition b64_value :: "char \<Rightarrow> nat option" where
  "b64_value c =
     (if is_upper c then Some (of_char c - 65)
      else if is_lower c then Some (of_char c - 71)
      else if is_digit c then Some (of_char c + 4)
      else if c = CHR ''+'' then Some 62
      else if c = CHR ''/'' then Some 63 else None)"

definition b64_char :: "nat \<Rightarrow> char" where
  "b64_char n =
     (if n < 26 then char_of (n + 65)
      else if n < 52 then char_of (n + 71)
      else if n < 62 then char_of (n - 4)
      else if n = 62 then CHR ''+'' else CHR ''/'')"

text \<open>\<open>toString("base64")\<close> of a buffer, its bytes being numbers below 256.\<close>

fun b64_encode :: "nat list \<Rightarrow> string" where
  "b64_encode [] = []"
| "b64_encode [a] = [b64_char (a div 4), b64_char (a mod 4 * 16), CHR ''='', CHR ''='']"
| "b64_encode [a, b] =
     [b64_char (a div 4), b64_char (a mod 4 * 16 + b div 16), b64_char (b mod 16 * 4), CHR ''='']"
| "b64_encode (a # b # c # rest) =
     b64_char (a div 4) # b64_char (a mod 4 * 16 + b div 16) # b64_char (b mod 16 * 4 + c div 64)
     # b64_char (c mod 64) # b64_encode rest"

text \<open>\<open>Buffer.from(s, "base64")\<close> on digits alone: left-over bits and a single left-over digit are dropped.\<close>

fun b64_bytes :: "nat list \<Rightarrow> nat list" where
  "b64_bytes (w # x # y # z # rest) =
     (w * 4 + x div 16) # (x mod 16 * 16 + y div 4) # (y mod 4 * 64 + z) # b64_bytes rest"
| "b64_bytes [w, x, y] = [w * 4 + x div 16, x mod 16 * 16 + y div 4]"
| "b64_bytes [w, x] = [w * 4 + x div 16]"
| "b64_bytes _ = []"

definition b64_decode :: "string \<Rightarrow> nat list" where
  "b64_decode s = b64_bytes (List.map_filter b64_value (takeWhile (\<lambda>c. c \<noteq> CHR ''='') s))"

definition b64_regex :: "string \<Rightarrow> bool" where
  "b64_regex s \<longleftrightarrow> dropWhile (\<lambda>c. b64_value c \<noteq> None) s \<in> {'''', ''='', ''==''}"

definition isCanonicalBase64 :: "string \<Rightarrow> bool" where
  "isCanonicalBase64 value \<longleftrightarrow>
     (if length value = 0 then True
      else if \<not> b64_regex value \<or> length value mod 4 \<noteq> 0 then False
      else b64_encode (b64_decode value) = value)"

section \<open>Payloads\<close>

text \<open>The bytes JSON.stringify gives a string, quotes included, in UTF-8.\<close>

definition json_char_bytes :: "char \<Rightarrow> nat" where
  "json_char_bytes c =
     (if c = CHR 0x22 \<or> c = CHR 0x5C then 2
      else if (of_char c :: nat) \<in> {8, 9, 10, 12, 13} then 2
      else if (of_char c :: nat) < 32 then 6
      else if (of_char c :: nat) < 128 then 1 else 2)"

definition json_string_bytes :: "string \<Rightarrow> nat" where
  "json_string_bytes s = 2 + sum_list (map json_char_bytes s)"

definition encodingText :: "encoding \<Rightarrow> string" where
  "encodingText e = (case e of Utf8 \<Rightarrow> ''utf8'' | Base64 \<Rightarrow> ''base64'')"

text \<open>Each entry is \<open>key:{"encoding":e,"value":v}\<close>, entries are separated by commas and braced.\<close>

definition json_payload_bytes :: "SecretPayload \<Rightarrow> nat" where
  "json_payload_bytes payload =
     2 + (length payload - 1) + sum_list (map (\<lambda>(key, entry).
        json_string_bytes key + 1
        + (2 + json_string_bytes ''encoding'' + 1 + json_string_bytes (encodingText (se_encoding entry))
           + 1 + json_string_bytes ''value'' + 1 + json_string_bytes (se_value entry))) payload)"

definition parseEntry :: "string \<times> jsval \<Rightarrow> (string \<times> SecretEntry) parsed" where
  "parseEntry p = (case p of (key, entry) \<Rightarrow>
     if \<not> secretEntryKey key then Inl (badRequest (''payload key '' @ key @ '' is invalid.''))
     else
       (case (js_prop entry ''encoding'', as_string (js_prop entry ''value'')) of
          (JString encoding, Some value) \<Rightarrow>
            if encoding = ''utf8'' then Inr (key, \<lparr>se_encoding = Utf8, se_value = value\<rparr>)
            else if encoding = ''base64'' then
              (if isCanonicalBase64 value then Inr (key, \<lparr>se_encoding = Base64, se_value = value\<rparr>)
               else Inl (badRequest (''payload entry '' @ key @ '' is not canonical base64.'')))
            else Inl (badRequest (''payload entry '' @ key
                @ '' must contain encoding=utf8|base64 and string value.''))
        | _ \<Rightarrow> Inl (badRequest (''payload entry '' @ key
                @ '' must contain encoding=utf8|base64 and string value.''))))"

definition parsePayload :: "jsval \<Rightarrow> nat \<Rightarrow> SecretPayload parsed" where
  "parsePayload value maxBytes =
     (if \<not> isObject value then Inl (badRequest ''payload must be an object of Secret entries.'')
      else bindE (mapE parseEntry (entries_of value)) (\<lambda>payload.
        if json_payload_bytes payload > maxBytes
        then Inl (badRequest (''payload exceeds the '' @ show_nat maxBytes @ '' byte limit.''))
        else Inr payload))"

section \<open>Facts\<close>

lemma secretIdentifier_not_empty: "secretIdentifier s \<Longrightarrow> s \<noteq> []"
  by (auto simp: secretIdentifier_def isIdentifier_def)

lemma identifier_chars: "isIdentifier s \<Longrightarrow> c \<in> set s \<Longrightarrow> is_ident_char c"
  by (cases s) (auto simp: isIdentifier_def list_all_iff)

lemma environmentName_chars: "environmentName s \<Longrightarrow> c \<in> set s \<Longrightarrow> is_ident_char c"
  by (cases s) (auto simp: environmentName_def list_all_iff)

lemma environmentName_no_hash: "environmentName s \<Longrightarrow> CHR ''#'' \<notin> set s"
  using environmentName_chars ident_char_not_sep(1) by blast

lemma join_chars: "c \<in> set (join_with d ps) \<Longrightarrow> c = d \<or> (\<exists>p \<in> set ps. c \<in> set p)"
  by (induction d ps rule: join_with.induct) auto

lemma secretIdentifier_chars:
  assumes "secretIdentifier s" "c \<in> set s"
  shows "is_ident_char c \<or> c = CHR ''/''"
proof -
  have "c \<in> set (join_with CHR ''/'' (split_on CHR ''/'' s))" using assms(2) by (simp add: join_split)
  then show ?thesis
    using assms(1) identifier_chars by (auto simp: secretIdentifier_def list_all_iff dest!: join_chars)
qed

lemma secretIdentifier_no_hash: "secretIdentifier s \<Longrightarrow> CHR ''#'' \<notin> set s"
  using secretIdentifier_chars ident_char_not_sep(1) by fastforce

lemma secretIdentifier_join:
  assumes "ps \<noteq> []" "\<And>p. p \<in> set ps \<Longrightarrow> isIdentifier p"
  shows "secretIdentifier (join_with CHR ''/'' ps)"
proof -
  have "CHR ''/'' \<notin> set p" if "p \<in> set ps" for p
    using identifier_chars [OF assms(2) [OF that]] ident_char_not_sep(2) by blast
  then show ?thesis using assms by (simp add: secretIdentifier_def split_join list_all_iff)
qed

text \<open>The value of a digit and the digit of a value are inverse.\<close>

lemma b64_value_char: "n < 64 \<Longrightarrow> b64_value (b64_char n) = Some n"
  by (auto simp: b64_value_def b64_char_def char_class_defs less_eq_char_def)

lemma b64_value_less: "b64_value c = Some n \<Longrightarrow> n < 64 \<and> b64_char n = c"
  by (auto simp: b64_value_def b64_char_def char_class_defs less_eq_char_def split: if_splits)

lemma b64_value_eq [simp]: "b64_value CHR ''='' = None"
  by (simp add: b64_value_def char_class_defs less_eq_char_def)

end
