(* ===== verification/Validation_Properties.thy ===== *)
theory Validation_Properties
  imports Validation
begin

text \<open>What the validators of src/src/domain/validation.ts accept, stated without their code.\<close>

section \<open>Base64\<close>

text \<open>An encoding is digits followed by padding.\<close>

fun b64_digits :: "nat list \<Rightarrow> nat list" where
  "b64_digits [] = []"
| "b64_digits [a] = [a div 4, a mod 4 * 16]"
| "b64_digits [a, b] = [a div 4, a mod 4 * 16 + b div 16, b mod 16 * 4]"
| "b64_digits (a # b # c # rest) =
     a div 4 # (a mod 4 * 16 + b div 16) # (b mod 16 * 4 + c div 64) # c mod 64 # b64_digits rest"

fun b64_pad :: "nat list \<Rightarrow> string" where
  "b64_pad [] = []"
| "b64_pad [a] = ''==''"
| "b64_pad [a, b] = ''=''"
| "b64_pad (a # b # c # rest) = b64_pad rest"

lemma b64_encode_digits: "b64_encode bs = map b64_char (b64_digits bs) @ b64_pad bs"
  by (induction bs rule: b64_encode.induct) auto

lemma b64_digits_less: "\<forall>b \<in> set bs. b < 256 \<Longrightarrow> d \<in> set (b64_digits bs) \<Longrightarrow> d < 64"
  by (induction bs rule: b64_digits.induct) (auto; linarith)+

lemma b64_bytes_digits: "\<forall>b \<in> set bs. b < 256 \<Longrightarrow> b64_bytes (b64_digits bs) = bs"
  by (induction bs rule: b64_digits.induct) auto

lemma b64_pad_cases: "b64_pad bs \<in> {'''', ''='', ''==''}"
  by (induction bs rule: b64_pad.induct) auto

lemma b64_length: "length (b64_encode bs) mod 4 = 0"
  by (induction bs rule: b64_encode.induct) auto

lemma b64_char_not_pad: "n < 64 \<Longrightarrow> b64_char n \<noteq> CHR ''=''"
  using b64_value_char [of n] by auto

lemma map_filter_digits: "\<forall>d \<in> set ds. d < 64 \<Longrightarrow> List.map_filter b64_value (map b64_char ds) = ds"
  by (induction ds) (auto simp: List.map_filter_simps b64_value_char)

lemma takeWhile_digits:
  assumes "\<forall>d \<in> set ds. d < 64" "pad \<in> {'''', ''='', ''==''}"
  shows "takeWhile (\<lambda>c. c \<noteq> CHR ''='') (map b64_char ds @ pad) = map b64_char ds"
    and "dropWhile (\<lambda>c. b64_value c \<noteq> None) (map b64_char ds @ pad) = pad"
  using assms by (induction ds) (auto simp: b64_char_not_pad b64_value_char)

lemma b64_decode_encode:
  assumes "\<forall>b \<in> set bs. b < 256"
  shows "b64_decode (b64_encode bs) = bs" and "b64_regex (b64_encode bs)"
proof -
  have d: "\<forall>d \<in> set (b64_digits bs). d < 64" using b64_digits_less [OF assms] by blast
  show "b64_decode (b64_encode bs) = bs"
    by (simp add: b64_decode_def b64_encode_digits takeWhile_digits(1) [OF d b64_pad_cases]
        map_filter_digits [OF d] b64_bytes_digits [OF assms])
  show "b64_regex (b64_encode bs)"
    unfolding b64_regex_def b64_encode_digits takeWhile_digits(2) [OF d b64_pad_cases]
    by (rule b64_pad_cases)
qed

lemma b64_bytes_less: "\<forall>d \<in> set ds. d < 64 \<Longrightarrow> b \<in> set (b64_bytes ds) \<Longrightarrow> b < 256"
  by (induction ds rule: b64_bytes.induct) (auto; linarith)+

lemma b64_decode_less: "b \<in> set (b64_decode s) \<Longrightarrow> b < 256"
  unfolding b64_decode_def
  by (rule b64_bytes_less) (auto simp: List.map_filter_def dest: b64_value_less)

lemma canonical_is_encoding:
  assumes "isCanonicalBase64 s"
  shows "\<exists>bytes. set bytes \<subseteq> {0..<256} \<and> s = b64_encode bytes"
proof -
  have "s = b64_encode (b64_decode s) \<or> s = b64_encode []"
    using assms by (auto simp: isCanonicalBase64_def split: if_splits)
  moreover have "set (b64_decode s) \<subseteq> {0..<256}" using b64_decode_less [of _ s] by auto
  ultimately show ?thesis by (metis empty_set empty_subsetI)
qed

text \<open>C16: a base64 payload value is accepted exactly if it is the encoding of some bytes, so that decoding
  an accepted value and encoding it again gives the same text.\<close>

theorem canonical_base64:
  "isCanonicalBase64 s \<longleftrightarrow> (\<exists>bytes. set bytes \<subseteq> {0..<256} \<and> s = b64_encode bytes)"
proof
  assume "isCanonicalBase64 s"
  then show "\<exists>bytes. set bytes \<subseteq> {0..<256} \<and> s = b64_encode bytes"
    by (rule canonical_is_encoding)
next
  assume "\<exists>bytes. set bytes \<subseteq> {0..<256} \<and> s = b64_encode bytes"
  then obtain bytes where "\<forall>b \<in> set bytes. b < 256" "s = b64_encode bytes" by force
  then show "isCanonicalBase64 s"
    by (simp add: isCanonicalBase64_def b64_decode_encode b64_length)
qed

section \<open>Access control lists\<close>

definition grant_written :: "jsval \<Rightarrow> Grant \<Rightarrow> bool" where
  "grant_written v g \<longleftrightarrow> js_prop v ''consumerId'' = JString (g_consumerId g)
     \<and> js_prop v ''permissions'' = JArray [JString ''read''] \<and> isIdentifier (g_consumerId g)
     \<and> g_permissions g = [PRead]"

lemma as_string_Some [simp]: "as_string v = Some s \<longleftrightarrow> v = JString s"
  by (cases v) auto

lemma as_array_Some [simp]: "as_array v = Some vs \<longleftrightarrow> v = JArray vs"
  by (cases v) auto

lemma parseGrantList_Cons:
  "parseGrantList seen (v # vs) = Inr gs \<longleftrightarrow>
     (\<exists>g gs'. gs = g # gs' \<and> grant_written v g \<and> g_consumerId g \<notin> seen
        \<and> parseGrantList (insert (g_consumerId g) seen) vs = Inr gs')"
  by (auto simp: grant_written_def assertIdentifier_def split: option.splits)

lemma parseGrantList_iff:
  "parseGrantList seen vs = Inr gs \<longleftrightarrow> list_all2 grant_written vs gs
     \<and> distinct (map g_consumerId gs) \<and> seen \<inter> g_consumerId ` set gs = {}"
proof (induction vs arbitrary: seen gs)
  case (Cons v vs)
  show ?case
    unfolding parseGrantList_Cons Cons.IH by (cases gs) auto
qed auto

text \<open>C15: parseGrants accepts exactly the arrays of at most forty objects that name a valid consumer
  identifier each and the permission read, no consumer twice; the bounds and the distinctness that the
  transaction limit and the access projection rest on are those of every accepted ACL.\<close>

theorem parseGrants_accepts:
  "parseGrants value = Inr acl \<longleftrightarrow> (\<exists>vs. value = JArray vs \<and> length vs \<le> 40
     \<and> list_all2 (\<lambda>v grant. js_prop v ''consumerId'' = JString (g_consumerId grant)
         \<and> js_prop v ''permissions'' = JArray [JString ''read''] \<and> isIdentifier (g_consumerId grant)
         \<and> g_permissions grant = [PRead]) vs acl
     \<and> distinct (map g_consumerId acl))"
proof -
  have "grant_written = (\<lambda>v grant. js_prop v ''consumerId'' = JString (g_consumerId grant)
         \<and> js_prop v ''permissions'' = JArray [JString ''read''] \<and> isIdentifier (g_consumerId grant)
         \<and> g_permissions grant = [PRead])" by (auto simp: fun_eq_iff grant_written_def)
  then show ?thesis
    by (auto simp: parseGrants_def parseGrantList_iff maximumAclGrants_def split: option.splits)
qed

theorem parseGrants_accepts_witness:
  "parseGrants (JArray [JObj [(''consumerId'', JString ''web-app''), (''permissions'', JArray [JString ''read''])]])
     = Inr [\<lparr>g_consumerId = ''web-app'', g_permissions = [PRead]\<rparr>]"
  unfolding parseGrants_accepts
  by (simp add: js_prop_def isIdentifier_def char_class_defs less_eq_char_def)

section \<open>Names\<close>

lemma secretIdentifier_iff:
  "secretIdentifier s \<longleftrightarrow> (\<exists>ps. ps \<noteq> [] \<and> set ps \<subseteq> {p. isIdentifier p} \<and> s = join_with CHR ''/'' ps)"
proof
  assume "secretIdentifier s"
  then have "split_on CHR ''/'' s \<noteq> [] \<and> set (split_on CHR ''/'' s) \<subseteq> {p. isIdentifier p}
      \<and> s = join_with CHR ''/'' (split_on CHR ''/'' s)"
    by (auto simp: secretIdentifier_def list_all_iff join_split)
  then show "\<exists>ps. ps \<noteq> [] \<and> set ps \<subseteq> {p. isIdentifier p} \<and> s = join_with CHR ''/'' ps" by blast
next
  assume "\<exists>ps. ps \<noteq> [] \<and> set ps \<subseteq> {p. isIdentifier p} \<and> s = join_with CHR ''/'' ps"
  then show "secretIdentifier s" by (auto intro!: secretIdentifier_join)
qed

text \<open>Names that pass validation never share a key: two secrets have the same name lookup, and two
  access rows the same key, only if environment and name, or environment and identity, agree.\<close>

theorem validated_names_distinct:
  assumes "assertEnvironmentName e = Inr ()" "assertEnvironmentName e' = Inr ()"
  shows "(secretNamePk e i = secretNamePk e' i' \<longleftrightarrow> e = e' \<and> i = i')
    \<and> (accessSk e u = accessSk e' u' \<longleftrightarrow> e = e' \<and> u = u')"
proof -
  have "CHR ''#'' \<notin> set e" "CHR ''#'' \<notin> set e'"
    using assms environmentName_no_hash by (simp_all add: assertEnvironmentName_def)
  then show ?thesis using secretNamePk_inject accessSk_inject_env by blast
qed

theorem validated_names_distinct_witness:
  "secretNamePk ''prod'' ''db/pw'' \<noteq> secretNamePk ''prod-db'' ''pwd''"
proof -
  have "assertEnvironmentName ''prod'' = Inr ()" "assertEnvironmentName ''prod-db'' = Inr ()"
    by (simp_all add: assertEnvironmentName_def throwE_def environmentName_def char_class_defs less_eq_char_def)
  from validated_names_distinct [OF this] show ?thesis by simp
qed

section \<open>Payloads\<close>

lemma parseEntry_ok:
  assumes "parseEntry p = Inr q"
  shows "fst q = fst p \<and> secretEntryKey (fst q)
    \<and> js_prop (snd p) ''value'' = JString (se_value (snd q))
    \<and> js_prop (snd p) ''encoding'' = JString (encodingText (se_encoding (snd q)))
    \<and> (se_encoding (snd q) = Base64 \<longrightarrow> isCanonicalBase64 (se_value (snd q)))"
  using assms
  by (auto simp: parseEntry_def encodingText_def split: prod.splits if_splits option.splits jsval.splits)

text \<open>C17: an accepted payload has the keys of the request, in their order, each with the value and encoding
  given; it is within the byte limit as JSON, and every base64 entry is the encoding of some bytes.\<close>

theorem parsePayload_accepts:
  assumes "parsePayload value maxBytes = Inr payload"
  shows "json_payload_bytes payload \<le> maxBytes
    \<and> list_all2 (\<lambda>(key, v) (key', entry). key' = key \<and> secretEntryKey key
        \<and> js_prop v ''value'' = JString (se_value entry)
        \<and> js_prop v ''encoding'' = JString (encodingText (se_encoding entry))
        \<and> (se_encoding entry = Base64 \<longrightarrow>
             (\<exists>bytes. set bytes \<subseteq> {0..<256} \<and> se_value entry = b64_encode bytes)))
      (entries_of value) payload"
proof -
  have "json_payload_bytes payload \<le> maxBytes" "mapE parseEntry (entries_of value) = Inr payload"
    using assms by (auto simp: parsePayload_def split: if_splits)
  then show ?thesis
    unfolding mapE_ok by (elim list_all2_mono conjI) (auto dest!: parseEntry_ok canonical_is_encoding)
qed

definition ex_payload_value :: jsval where
  "ex_payload_value = JObj [(''user'', JObj [(''encoding'', JString ''utf8''), (''value'', JString ''ann'')]),
     (''key'', JObj [(''encoding'', JString ''base64''), (''value'', JString ''aGk='')])]"

definition ex_entries :: SecretPayload where
  "ex_entries = [(''user'', \<lparr>se_encoding = Utf8, se_value = ''ann''\<rparr>),
     (''key'', \<lparr>se_encoding = Base64, se_value = ''aGk=''\<rparr>)]"

lemma ex_payload_parsed: "parsePayload ex_payload_value 200 = Inr ex_entries"
  by code_simp

theorem parsePayload_accepts_witness:
  "json_payload_bytes ex_entries \<le> 200 \<and> (\<exists>bytes. ''aGk='' = b64_encode bytes)"
  using parsePayload_accepts [OF ex_payload_parsed] by (auto simp: ex_payload_value_def ex_entries_def)

end
