(* ===== verification/Cursors.thy ===== *)
theory Cursors
  imports Mutation_Laws Validation
begin

text \<open>
  Pagination cursors and the environment registry: src/src/services/cursor.ts and
  src/src/services/environments.ts with the operations of DynamoRepository they use. The interface
  CursorStore of cursor.ts is the locale cursor_store; the repository provides it.
\<close>

section \<open>Cursors\<close>

record CursorPayload =
  cp_scope :: string
  cp_lastEvaluatedKey :: "startKey option"
  cp_expiresAt :: timestamp

record StoredCursor = CursorPayload +
  sc_token :: string
  sc_ttl :: int

definition createCursor :: "'w services \<Rightarrow> StoredCursor \<Rightarrow> ('w, bool) app" where
  "createCursor S cursor = unless_refused (sv_write S (Put (cursorPk (sc_token cursor), ''STATE'')
     (CursorIt \<lparr>cu_scope = Some (cp_scope cursor),
                cu_lastEvaluatedKey = cp_lastEvaluatedKey cursor,
                cu_expiresAt = Some (cp_expiresAt cursor),
                cu_ttl = Some (sc_ttl cursor)\<rparr>) attribute_not_exists_pk))"

definition stored_cursor :: "string \<Rightarrow> item option \<Rightarrow> StoredCursor option" where
  "stored_cursor token i = (case i of
     Some (CursorIt c) \<Rightarrow>
       (case (cu_scope c, cu_expiresAt c, cu_ttl c) of
          (Some scope, Some expiresAt, Some ttl) \<Rightarrow>
            Some \<lparr>cp_scope = scope, cp_lastEvaluatedKey = cu_lastEvaluatedKey c,
                  cp_expiresAt = expiresAt, sc_token = token, sc_ttl = ttl\<rparr>
        | _ \<Rightarrow> None)
   | _ \<Rightarrow> None)"

definition getCursor :: "'w services \<Rightarrow> string \<Rightarrow> ('w, StoredCursor option) app" where
  "getCursor S token =
     bindM (sv_get S (cursorPk token, ''STATE'')) (\<lambda>i. ret (stored_cursor token i))"

definition is_token_char :: "char \<Rightarrow> bool" where
  "is_token_char c \<longleftrightarrow> is_alnum c \<or> c = CHR ''_'' \<or> c = CHR ''-''"

definition tokenPattern :: "string \<Rightarrow> bool" where
  "tokenPattern s \<longleftrightarrow> list_all is_token_char s \<and> length s = 43"

text \<open>The loop of encode with the attempts left.\<close>

fun cursor_attempts ::
  "nat \<Rightarrow> ('w, string) app \<Rightarrow> (StoredCursor \<Rightarrow> ('w, bool) app) \<Rightarrow> CursorPayload \<Rightarrow> ('w, string) app" where
  "cursor_attempts 0 random create payload =
     raise (serviceUnavailable ''Could not allocate pagination state.'')"
| "cursor_attempts (Suc n) random create payload =
     bindM random (\<lambda>token.
     bindM (create (CursorPayload.extend payload
         (StoredCursor.fields token (ceil_seconds (cp_expiresAt payload))))) (\<lambda>created.
       if created then ret token else cursor_attempts n random create payload))"

definition cursor_encode ::
  "('w, string) app \<Rightarrow> (StoredCursor \<Rightarrow> ('w, bool) app) \<Rightarrow> CursorPayload \<Rightarrow> ('w, string) app" where
  "cursor_encode random create payload = cursor_attempts 3 random create payload"

definition cursor_decode ::
  "(string \<Rightarrow> ('w, StoredCursor option) app) \<Rightarrow> string \<Rightarrow> string \<Rightarrow> timestamp \<Rightarrow> ('w, CursorPayload) app" where
  "cursor_decode get cursor scope now =
     thenM (throwIf (\<not> tokenPattern cursor) (badRequest ''cursor is malformed.''))
     (bindM (get cursor) (\<lambda>stored. (case stored of
        None \<Rightarrow> raise (badRequest ''cursor is no longer valid for this scope.'')
      | Some s \<Rightarrow>
          if cp_scope s \<noteq> scope \<or> cp_expiresAt s \<le> now
          then raise (badRequest ''cursor is no longer valid for this scope.'')
          else ret (CursorPayload.truncate s))))"

section \<open>The interface CursorStore\<close>

locale cursor_store =
  fixes create :: "StoredCursor \<Rightarrow> ('w, bool) app"
    and get :: "string \<Rightarrow> ('w, StoredCursor option) app"
    and stored :: "'w \<Rightarrow> string \<Rightarrow> StoredCursor option"
  assumes created: "create c w = (Inr True, w') \<Longrightarrow>
      stored w (sc_token c) = None \<and> stored w' = (stored w)(sc_token c := Some c)"
    and refused: "create c w = (Inr False, w') \<Longrightarrow> stored w' = stored w"
    and get_value: "get token w = (Inr r, w') \<Longrightarrow> r = stored w token \<and> stored w' = stored w"
begin

lemma attempts_stores:
  assumes "cursor_attempts n random create payload w = (Inr token, w')" "keeps stored random"
  shows "stored w token = None \<and> stored w' = (stored w)(token := Some (CursorPayload.extend payload
      (StoredCursor.fields token (ceil_seconds (cp_expiresAt payload)))))"
  using assms(1)
proof (induction n arbitrary: w)
  case (Suc n)
  then obtain t w1 b w2 where t: "random w = (Inr t, w1)"
    and c: "create (CursorPayload.extend payload
      (StoredCursor.fields t (ceil_seconds (cp_expiresAt payload)))) w1 = (Inr b, w2)"
    and r: "(if b then ret t else cursor_attempts n random create payload) w2 = (Inr token, w')"
    by (auto simp: em_ok)
  have w1: "stored w1 = stored w" using keepsD [OF assms(2) t] .
  show ?case
  proof (cases b)
    case True
    then have "token = t" "w' = w2" using r by simp_all
    moreover have "create (CursorPayload.extend payload
      (StoredCursor.fields t (ceil_seconds (cp_expiresAt payload)))) w1 = (Inr True, w2)"
      using c True by simp
    note created [OF this]
    ultimately show ?thesis using w1 by (simp add: CursorPayload.defs StoredCursor.defs)
  next
    case False
    have "create (CursorPayload.extend payload
      (StoredCursor.fields t (ceil_seconds (cp_expiresAt payload)))) w1 = (Inr False, w2)"
      using c False by simp
    from refused [OF this] Suc.IH [of w2] r w1 False show ?thesis by simp
  qed
qed simp

lemma attempts_stored:
  assumes "cursor_attempts n random create payload w = (Inr token, w')" "keeps stored random"
  shows "stored w' token = Some (CursorPayload.extend payload
      (StoredCursor.fields token (ceil_seconds (cp_expiresAt payload))))"
  using attempts_stores [OF assms] by simp

lemma decode_value:
  assumes "cursor_decode get cursor scope now w = (Inr p, w')"
  shows "\<exists>s. stored w cursor = Some s \<and> p = CursorPayload.truncate s \<and> cp_scope s = scope
    \<and> now < cp_expiresAt s \<and> tokenPattern cursor"
proof -
  obtain found w1 where g: "get cursor w = (Inr found, w1)" and t: "tokenPattern cursor"
    and r: "(case found of None \<Rightarrow> raise (badRequest ''cursor is no longer valid for this scope.'')
      | Some s \<Rightarrow> if cp_scope s \<noteq> scope \<or> cp_expiresAt s \<le> now
          then raise (badRequest ''cursor is no longer valid for this scope.'')
          else ret (CursorPayload.truncate s)) w1 = (Inr p, w')"
    using assms unfolding cursor_decode_def thenM_ok bindM_ok throwIf_ok by blast
  show ?thesis
  proof (cases found)
    case (Some s)
    then show ?thesis using r t get_value [OF g] by (auto split: if_splits)
  qed (use r in simp)
qed

text \<open>Decoding what encode stored.\<close>

lemma decode_stored:
  assumes "stored w token = Some (CursorPayload.extend payload (StoredCursor.fields token ttl))"
    and "tokenPattern token" "get token w = (Inr found, w')"
  shows "cursor_decode get token scope now w =
    (if cp_scope payload = scope \<and> now < cp_expiresAt payload then Inr payload
     else Inl (badRequest ''cursor is no longer valid for this scope.''), w')"
proof -
  have "found = Some (CursorPayload.extend payload (StoredCursor.fields token ttl))"
    using get_value [OF assms(3)] assms(1) by simp
  then show ?thesis
    using assms(2,3)
    by (simp add: cursor_decode_def bindM_def thenM_def throwIf_def CursorPayload.defs StoredCursor.defs
        not_less)
qed

end

section \<open>The repository as a cursor store\<close>

lemma stored_cursor_item:
  "stored_cursor token (Some (CursorIt \<lparr>cu_scope = Some (cp_scope c),
     cu_lastEvaluatedKey = cp_lastEvaluatedKey c, cu_expiresAt = Some (cp_expiresAt c),
     cu_ttl = Some (sc_ttl c)\<rparr>)) = Some (c\<lparr>sc_token := token\<rparr>)"
  by (cases c) (simp add: stored_cursor_def)

context dynamo
begin

lemma repository_cursor_store:
  "cursor_store (createCursor S) (getCursor S)
     (\<lambda>w token. stored_cursor token (table w (cursorPk token, ''STATE'')))"
proof (unfold_locales, goal_cases)
  case (1 c w w')
  then have "committed [Put (cursorPk (sc_token c), ''STATE'') (CursorIt \<lparr>cu_scope = Some (cp_scope c),
     cu_lastEvaluatedKey = cp_lastEvaluatedKey c, cu_expiresAt = Some (cp_expiresAt c),
     cu_ttl = Some (sc_ttl c)\<rparr>) attribute_not_exists_pk] (table w) (table w')" (is "committed [?a] _ _")
    by (auto simp: createCursor_def unless_refused_def em_ok split: if_splits dest: write_done)
  note com = this
  have k: "?a \<in> set [?a]" by simp
  have other: "table w' (cursorPk t, ''STATE'') = table w (cursorPk t, ''STATE'')" if "t \<noteq> sc_token c" for t
    by (rule committed_other [OF com]) (use that in \<open>simp add: cursorPk_def\<close>)
  show ?case
    using committed_Put [OF com k] other stored_cursor_item [of "sc_token c" c]
    by (auto simp: stored_cursor_def fun_eq_iff)
next
  case (2 c w w')
  then show ?case
    by (auto simp: createCursor_def unless_refused_def em_ok em_err isConditionalCheckFailure_def
        split: if_splits exn.splits dest: write_rejected)
next
  case (3 token w r w')
  then show ?case by (auto simp: getCursor_def em_ok dest: get_item get_run)
qed

end

interpretation ref_cursors: cursor_store "createCursor ref_services" "getCursor ref_services"
  "\<lambda>w token. stored_cursor token (ref_table w (cursorPk token, ''STATE''))"
  by (rule ref_dynamo.repository_cursor_store)

section \<open>Environments\<close>

definition maximumEnvironments :: nat where
  "maximumEnvironments = 100"

definition environments_query :: query where
  "environments_query = \<lparr>
     q_index = MainTable,
     q_keyCondition = (\<lambda>k it. fst k = environmentsPk \<and> prefix ''ENVIRONMENT#'' (snd k)),
     q_filter = (\<lambda>k it. True), q_forward = True, q_limit = Some (maximumEnvironments + 1),
     q_exclusiveStartKey = None \<rparr>"

definition listEnvironments :: "'w services \<Rightarrow> ('w, EnvironmentRecord list) app" where
  "listEnvironments S =
     bindM (sv_query S environments_query) (\<lambda>response.
       if qp_lastEvaluatedKey response \<noteq> None \<or> length (qp_items response) > maximumEnvironments
       then raise (serviceUnavailable ''The environment registry exceeds its supported size.'')
       else ret (List.map_filter (\<lambda>(k, it). as_environment (Some it)) (qp_items response)))"

definition environment_count :: "item option \<Rightarrow> nat option" where
  "environment_count i = (case i of Some (EnvironmentCountIt n) \<Rightarrow> n | _ \<Rightarrow> None)"

definition environment_actions :: "EnvironmentRecord \<Rightarrow> string \<Rightarrow> action list" where
  "environment_actions environment epoch =
     [emptyState (env_name environment) epoch,
      Put (environmentsPk, environmentSk (env_name environment)) (EnvironmentIt environment)
        attribute_not_exists_pk,
      Upsert (environmentsPk, ''STATE'')
        (\<lambda>i. EnvironmentCountIt (Some ((case environment_count i of None \<Rightarrow> 0 | Some n \<Rightarrow> n) + 1)))
        (\<lambda>i. case environment_count i of None \<Rightarrow> True | Some n \<Rightarrow> n < maximumEnvironments)]"

definition createEnvironment :: "'w services \<Rightarrow> EnvironmentRecord \<Rightarrow> ('w, unit) app" where
  "createEnvironment S environment =
     catchM (bindM (sv_newId S) (\<lambda>epoch. sv_transactWrite S (environment_actions environment epoch)))
       (\<lambda>error. raise (conflict ''The environment already exists or the registry is full.''))"

text \<open>EnvironmentService.\<close>

definition environments_list :: "'w services \<Rightarrow> ('w, EnvironmentRecord list) app" where
  "environments_list S = listEnvironments S"

definition environments_require :: "'w services \<Rightarrow> string \<Rightarrow> ('w, EnvironmentRecord) app" where
  "environments_require S name = thenM (liftE (assertEnvironmentName name)) (requireEnvironment S name)"

definition environments_create :: "'w services \<Rightarrow> string \<Rightarrow> Actor \<Rightarrow> ('w, EnvironmentRecord) app" where
  "environments_create S name actor =
     thenM (liftE (assertEnvironmentName name))
     (bindM (sv_now S) (\<lambda>now.
      let environment = \<lparr>env_name = name, env_createdAt = now, env_createdBy = actor\<rparr>
      in thenM (createEnvironment S environment) (ret environment)))"

end
