(* ===== verification/Cursor_Properties.thy ===== *)
theory Cursor_Properties
  imports Cursors Examples
begin

text \<open>
  What pagination cursors and the environment registry promise, on services that keep the contract
  of DynamoDB.
\<close>

section \<open>Cursors\<close>

text \<open>C18: decoding a cursor that encode returned gives back exactly the payload that was encoded, as long
  as its item is in the table, for the scope it was made for and before it expires; for any other scope,
  and from the expiry on, it is refused.\<close>

theorem cursor_roundtrip:
  assumes "dynamo S table"
    and "cursor_encode (sv_randomToken S) (createCursor S) payload w = (Inr token, w1)" "tokenPattern token"
    and "table w2 (cursorPk token, ''STATE'') = table w1 (cursorPk token, ''STATE'')"
    and "getCursor S token w2 = (Inr found, w3)"
  shows "cursor_decode (getCursor S) token scope now w2 =
    (if cp_scope payload = scope \<and> now < cp_expiresAt payload then Inr payload
     else Inl (badRequest ''cursor is no longer valid for this scope.''), w3)"
proof -
  note store = dynamo.repository_cursor_store [OF assms(1)]
  have "keeps (\<lambda>w token. stored_cursor token (table w (cursorPk token, ''STATE''))) (sv_randomToken S)"
    by (rule keepsI) (simp add: keepsD [OF dynamo.randomToken_keeps [OF assms(1)]])
  from cursor_store.attempts_stored [OF store assms(2) [unfolded cursor_encode_def] this]
  have "stored_cursor token (table w1 (cursorPk token, ''STATE'')) = Some (CursorPayload.extend payload
      (StoredCursor.fields token (ceil_seconds (cp_expiresAt payload))))" .
  then have "stored_cursor token (table w2 (cursorPk token, ''STATE'')) = Some (CursorPayload.extend payload
      (StoredCursor.fields token (ceil_seconds (cp_expiresAt payload))))" by (simp only: assms(4))
  from cursor_store.decode_stored [OF store this assms(3,5)] show ?thesis .
qed

definition ex_cursor :: CursorPayload where
  "ex_cursor = \<lparr>cp_scope = ''web'', cp_lastEvaluatedKey = Some [(''pk'', ''p''), (''sk'', ''k'')],
     cp_expiresAt = 9000\<rparr>"

definition ex_token :: string where
  "ex_token = replicate 42 CHR ''A'' @ ''0''"

definition ex_cursor_world :: ref_world where
  "ex_cursor_world = ex_world\<lparr>rw_counter := 1, rw_items := [((cursorPk ex_token, ''STATE''),
     CursorIt \<lparr>cu_scope = Some ''web'', cu_lastEvaluatedKey = Some [(''pk'', ''p''), (''sk'', ''k'')],
       cu_expiresAt = Some 9000, cu_ttl = Some 9\<rparr>)]\<rparr>"

lemma ex_cursor_stored:
  "cursor_encode (sv_randomToken ref_services) (createCursor ref_services) ex_cursor ex_world
     = (Inr ex_token, ex_cursor_world)"
  by (simp add: cursor_encode_def numeral_3_eq_3 createCursor_def unless_refused_def ref_run ref_write_def
      ex_world_def ex_cursor_def ex_cursor_world_def ex_token_def show_nat.simps CursorPayload.defs
      StoredCursor.defs ceil_seconds_def List.map_filter_simps)

theorem cursor_roundtrip_witness:
  "fst (cursor_decode (getCursor ref_services) ex_token ''web'' 8999 ex_cursor_world) = Inr ex_cursor
   \<and> (\<exists>e. fst (cursor_decode (getCursor ref_services) ex_token ''other'' 8999 ex_cursor_world) = Inl e)
   \<and> (\<exists>e. fst (cursor_decode (getCursor ref_services) ex_token ''web'' 9000 ex_cursor_world) = Inl e)"
proof -
  have t: "tokenPattern ex_token"
    by (simp add: tokenPattern_def ex_token_def is_token_char_def char_class_defs less_eq_char_def list_all_iff)
  obtain found w3 where g: "getCursor ref_services ex_token ex_cursor_world = (Inr found, w3)"
    by (simp add: getCursor_def ref_run)
  note cursor_roundtrip [OF ref_dynamo.dynamo_axioms ex_cursor_stored t refl g]
  then show ?thesis by (simp add: ex_cursor_def)
qed

section \<open>The environment registry\<close>

definition registered :: "table \<Rightarrow> string set" where
  "registered t = {name. as_environment (t (environmentsPk, environmentSk name)) \<noteq> None}"

definition counted :: "table \<Rightarrow> nat" where
  "counted t = (case environment_count (t (environmentsPk, ''STATE'')) of None \<Rightarrow> 0 | Some n \<Rightarrow> n)"

definition registry_ok :: "table \<Rightarrow> bool" where
  "registry_ok t \<longleftrightarrow> finite (registered t) \<and> card (registered t) = counted t \<and> counted t \<le> 100"

lemma environmentSk_inject [simp]: "environmentSk a = environmentSk b \<longleftrightarrow> a = b"
  by (simp add: environmentSk_def)

lemma environment_keys [simp]:
  "environmentSk a \<noteq> ''STATE''" "''STATE'' \<noteq> environmentSk a" "environmentsPk \<noteq> syncPk e"
  by (simp_all add: key_defs)

lemma created_environment:
  assumes c: "committed (environment_actions e epoch) t t'" and ok: "registry_ok t"
  shows "registry_ok t' \<and> env_name e \<notin> registered t \<and> registered t' = insert (env_name e) (registered t)
    \<and> t' (environmentsPk, environmentSk (env_name e)) = Some (EnvironmentIt e)
    \<and> as_sync_state (t' (syncPk (env_name e), ''STATE''))
        = Some \<lparr>ss_epoch = epoch, ss_sequence = 0, ss_ready = True\<rparr>"
proof -
  have at: "emptyState (env_name e) epoch \<in> set (environment_actions e epoch)"
    "Put (environmentsPk, environmentSk (env_name e)) (EnvironmentIt e) attribute_not_exists_pk
       \<in> set (environment_actions e epoch)"
    by (simp_all add: environment_actions_def)
  obtain u q where up: "Upsert (environmentsPk, ''STATE'') u q \<in> set (environment_actions e epoch)"
    "u = (\<lambda>i. EnvironmentCountIt (Some ((case environment_count i of None \<Rightarrow> 0 | Some n \<Rightarrow> n) + 1)))"
    "q = (\<lambda>i. case environment_count i of None \<Rightarrow> True | Some n \<Rightarrow> n < maximumEnvironments)"
    by (simp add: environment_actions_def)
  have new: "t (environmentsPk, environmentSk (env_name e)) = None"
    "t' (environmentsPk, environmentSk (env_name e)) = Some (EnvironmentIt e)"
    using committed_Put [OF c at(2)] by simp_all
  have cnt: "counted t' = Suc (counted t)" "counted t < 100"
    using committed_at [OF c up(1)]
    by (auto simp: up(2,3) counted_def environment_count_def maximumEnvironments_def
        split: option.splits item.splits)
  have "t' (environmentsPk, environmentSk n) = t (environmentsPk, environmentSk n)" if "n \<noteq> env_name e" for n
    by (rule committed_other [OF c]) (use that in \<open>auto simp: environment_actions_def emptyState_def\<close>)
  then have reg: "registered t' = insert (env_name e) (registered t)" "env_name e \<notin> registered t"
    using new by (auto simp: registered_def) (metis (mono_tags))
  have "t' (syncPk (env_name e), ''STATE'')
      = Some (SyncStateIt \<lparr>ss_epoch = epoch, ss_sequence = 0, ss_ready = True\<rparr>)"
    using committed_Put [OF c at(1) [unfolded emptyState_def]] by simp
  with reg cnt new ok show ?thesis by (simp add: registry_ok_def)
qed

text \<open>The environment count stays the number of registered environments and never passes one hundred,
  whether createEnvironment returns or throws; when it returns, the environment is new, can be required,
  and starts with a ready, empty synchronisation index.\<close>

theorem environment_registry_bounded:
  assumes "dynamo S table" "createEnvironment S e w = (r, w')" "registry_ok (table w)"
  shows "registry_ok (table w') \<and> (r = Inr () \<longrightarrow> env_name e \<notin> registered (table w)
    \<and> registered (table w') = insert (env_name e) (registered (table w))
    \<and> table w' (environmentsPk, environmentSk (env_name e)) = Some (EnvironmentIt e)
    \<and> (\<exists>epoch. as_sync_state (table w' (syncPk (env_name e), ''STATE''))
        = Some \<lparr>ss_epoch = epoch, ss_sequence = 0, ss_ready = True\<rparr>))"
proof -
  obtain r0 w0 where id: "sv_newId S w = (r0, w0)" by fastforce
  have t0: "table w0 = table w" using dynamo.newId_run [OF assms(1) id] .
  show ?thesis
  proof (cases r0)
    case (Inl x)
    with assms(2,3) id t0 show ?thesis by (auto simp: createEnvironment_def bindM_def catchM_def)
  next
    case (Inr epoch)
    obtain r1 w1 where tx: "sv_transactWrite S (environment_actions e epoch) w0 = (r1, w1)" by fastforce
    have w': "w' = w1" and rr: "r = Inr () \<longleftrightarrow> r1 = Inr ()"
      using assms(2) id tx Inr by (cases r1; auto simp: createEnvironment_def bindM_def catchM_def)+
    show ?thesis
    proof (cases "r1 = Inr ()")
      case True
      with tx dynamo.transact_done [OF assms(1)] t0
      have "committed (environment_actions e epoch) (table w) (table w')" by (metis w')
      from created_environment [OF this assms(3)] show ?thesis by blast
    next
      case False
      with rr dynamo.transact_cases [OF assms(1) tx] created_environment assms(3) t0 w' show ?thesis
        by metis
    qed
  qed
qed

theorem environment_registry_bounded_witness:
  "registered (ref_table (snd (createEnvironment ref_services
     \<lparr>env_name = ''prod'', env_createdAt = 1, env_createdBy = ex_actor\<rparr> ex_world))) = {''prod''}"
proof -
  let ?e = "\<lparr>env_name = ''prod'', env_createdAt = 1, env_createdBy = ex_actor\<rparr>"
  have none: "registered (ref_table ex_world) = {}" by (simp add: registered_def ref_table_def ex_world_def)
  have ok: "registry_ok (ref_table ex_world)"
    using none by (simp add: registry_ok_def counted_def environment_count_def ref_table_def ex_world_def)
  have "fst (createEnvironment ref_services ?e ex_world) = Inr ()"
    by (simp add: createEnvironment_def environment_actions_def emptyState_def ref_run ex_world_def
        environment_count_def key_defs)
  then obtain w' where r: "createEnvironment ref_services ?e ex_world = (Inr (), w')"
    by (metis prod.collapse)
  from environment_registry_bounded [OF ref_dynamo.dynamo_axioms r ok] none r show ?thesis by simp
qed

end
