(* ===== verification/Envelope.thy ===== *)
theory Envelope
  imports Mutation_Laws
begin

text \<open>
  Objects and envelopes: class ObjectStore (src/src/repositories/object-store.ts) and class
  EnvelopeCrypto (src/src/crypto/envelope.ts). Bytes whose base64 text a record holds are
  represented by themselves; the key buffer that encrypt and decrypt overwrite at the end is local
  to them and not modelled. listKeys, which only the audit browser calls, is not modelled.
\<close>

section \<open>Object store\<close>

definition putImmutable ::
  "'w services \<Rightarrow> string \<Rightarrow> string \<Rightarrow> document \<Rightarrow> ('w, ObjectReference) app" where
  "putImmutable S bucket key body =
     bindM (sv_putObject S bucket key body) (\<lambda>versionId. (case versionId of
        None \<Rightarrow> raise (serviceUnavailable ''S3 did not return an object version ID.'')
      | Some v \<Rightarrow> ret \<lparr>o_bucket = bucket, o_key = key, o_versionId = v,
                       o_checksumSha256 = sv_sha256Doc S body\<rparr>))"

definition putImmutableOrGet ::
  "'w services \<Rightarrow> string \<Rightarrow> string \<Rightarrow> document \<Rightarrow> ('w, ObjectReference) app" where
  "putImmutableOrGet S bucket key body =
     catchM (putImmutable S bucket key body) (\<lambda>error.
       catchM (bindM (sv_getObject S bucket key None) (\<lambda>existing.
           (case (so_versionId existing, so_body existing) of
              (Some v, Some contents) \<Rightarrow>
                if sv_sha256Doc S contents \<noteq> sv_sha256Doc S body then raise error
                else ret \<lparr>o_bucket = bucket, o_key = key, o_versionId = v,
                          o_checksumSha256 = sv_sha256Doc S body\<rparr>
            | _ \<Rightarrow> raise error)))
         (\<lambda>_. raise error))"

definition getJson ::
  "'w services \<Rightarrow> string \<Rightarrow> string \<Rightarrow> string option \<Rightarrow> ('w, document) app" where
  "getJson S bucket key versionId =
     bindM (sv_getObject S bucket key versionId) (\<lambda>response. (case so_body response of
        None \<Rightarrow> raise (serviceUnavailable ''S3 returned an empty object body.'')
      | Some contents \<Rightarrow>
          if so_checksumSha256 response \<noteq> None
             \<and> so_checksumSha256 response \<noteq> Some (sv_sha256Doc S contents)
          then raise (serviceUnavailable ''S3 object checksum verification failed.'')
          else ret contents))"

definition existsWithChecksum :: "'w services \<Rightarrow> ObjectReference \<Rightarrow> ('w, bool) app" where
  "existsWithChecksum S reference =
     catchM (bindM (sv_headObject S (o_bucket reference) (o_key reference) (o_versionId reference))
         (\<lambda>checksum. ret (checksum = Some (o_checksumSha256 reference))))
       (\<lambda>_. ret False)"

definition extendComplianceRetention ::
  "'w services \<Rightarrow> ObjectReference \<Rightarrow> timestamp \<Rightarrow> ('w, unit) app" where
  "extendComplianceRetention S reference retainUntil =
     sv_putRetention S (o_bucket reference) (o_key reference) (o_versionId reference) retainUntil"

text \<open>The default argument now is read when the method is called.\<close>

definition canDeleteVersion :: "'w services \<Rightarrow> ObjectReference \<Rightarrow> ('w, bool) app" where
  "canDeleteVersion S reference =
     bindM (sv_now S) (\<lambda>now.
     bindM (sv_getRetention S (o_bucket reference) (o_key reference) (o_versionId reference))
       (\<lambda>retainUntil. ret (case retainUntil of None \<Rightarrow> True | Some t \<Rightarrow> t \<le> now)))"

definition deleteVersion :: "'w services \<Rightarrow> ObjectReference \<Rightarrow> ('w, unit) app" where
  "deleteVersion S reference =
     sv_deleteObject S (o_bucket reference) (o_key reference) (o_versionId reference)"

section \<open>Envelope encryption\<close>

record PayloadBinding =
  pb_environment :: string
  pb_secretUid :: "string option"
  pb_secretId :: string
  pb_payloadVersionId :: string

definition envelope_context :: "PayloadBinding \<Rightarrow> kmsContext" where
  "envelope_context binding =
     [(''service'', ''hemlig''), (''purpose'', ''secret-payload''),
      (''environment'', pb_environment binding),
      (case pb_secretUid binding of None \<Rightarrow> (''secretId'', pb_secretId binding)
       | Some u \<Rightarrow> (''secretUid'', u)),
      (''payloadVersionId'', pb_payloadVersionId binding)]"

text \<open>The associated data is the stable JSON text of the context, which determines it.\<close>

definition envelope_aad :: "PayloadBinding \<Rightarrow> kmsContext" where
  "envelope_aad binding = envelope_context binding"

definition encrypt ::
  "'w services \<Rightarrow> SecretPayload \<Rightarrow> PayloadBinding \<Rightarrow> Actor \<Rightarrow> timestamp \<Rightarrow> ('w, PayloadRevision) app" where
  "encrypt S payload binding actor createdAt =
     bindM (sv_generateDataKey S (envelope_context binding)) (\<lambda>generated. (case generated of
        (Some key, Some encryptedDataKey) \<Rightarrow>
          bindM (sv_randomIv S) (\<lambda>iv.
            (let sealed = sv_gcmSeal S key iv (envelope_aad binding) payload
             in ret \<lparr>p_schemaVersion = 1,
                     p_secretUid = pb_secretUid binding,
                     p_secretId = pb_secretId binding,
                     p_payloadVersionId = pb_payloadVersionId binding,
                     p_environment = pb_environment binding,
                     p_createdAt = createdAt,
                     p_createdBy = actor,
                     p_payload = \<lparr>ep_encryptedDataKey = encryptedDataKey, ep_iv = iv,
                                  ep_tag = snd sealed, ep_ciphertext = fst sealed\<rparr>\<rparr>))
      | _ \<Rightarrow> raise (serviceUnavailable ''KMS did not return a data key.'')))"

definition revision_binding :: "PayloadRevision \<Rightarrow> PayloadBinding" where
  "revision_binding revision = \<lparr>pb_environment = p_environment revision,
     pb_secretUid = p_secretUid revision, pb_secretId = p_secretId revision,
     pb_payloadVersionId = p_payloadVersionId revision\<rparr>"

definition decrypt :: "'w services \<Rightarrow> PayloadRevision \<Rightarrow> ('w, SecretPayload) app" where
  "decrypt S revision =
     (let binding = revision_binding revision; sealed = p_payload revision
      in bindM (sv_kmsDecrypt S (ep_encryptedDataKey sealed) (envelope_context binding)) (\<lambda>decrypted.
        (case decrypted of
           None \<Rightarrow> raise (serviceUnavailable ''KMS did not return plaintext key material.'')
         | Some key \<Rightarrow>
             orRaise (sv_gcmOpen S key (ep_iv sealed) (envelope_aad binding)
                 (ep_ciphertext sealed, ep_tag sealed))
               (OtherError ''Error'' ''Unsupported state or unable to authenticate data''))))"

section \<open>Frame conditions\<close>

context dynamo
begin

lemma putImmutable_keeps [keeps_intro]: "keeps table (putImmutable S b k d)"
  unfolding putImmutable_def by (intro keeps_intro service_keeps)

lemma getJson_keeps [keeps_intro]: "keeps table (getJson S b k v)"
  unfolding getJson_def by (intro keeps_intro service_keeps)

lemma retention_keeps [keeps_intro]:
  "keeps table (extendComplianceRetention S r t)" "keeps table (canDeleteVersion S r)"
  "keeps table (deleteVersion S r)" "keeps table (existsWithChecksum S r)"
  unfolding extendComplianceRetention_def canDeleteVersion_def deleteVersion_def existsWithChecksum_def
  by (intro keeps_intro service_keeps)+

lemma encrypt_keeps [keeps_intro]: "keeps table (encrypt S p b a t)"
  unfolding encrypt_def Let_def
  by (intro keeps_intro service_keeps) (auto split: prod.split option.split intro!: keeps_intro service_keeps)

lemma decrypt_keeps [keeps_intro]: "keeps table (decrypt S r)"
  unfolding decrypt_def Let_def by (intro keeps_intro service_keeps)

end

section \<open>Binding\<close>

lemma envelope_context_inject:
  "envelope_context b = envelope_context b' \<longleftrightarrow> pb_environment b = pb_environment b'
     \<and> pb_payloadVersionId b = pb_payloadVersionId b' \<and> pb_secretUid b = pb_secretUid b'
     \<and> (pb_secretUid b = None \<longrightarrow> pb_secretId b = pb_secretId b')"
  by (auto simp: envelope_context_def split: option.splits)

lemma revision_binding_sel [simp]:
  "pb_environment (revision_binding r) = p_environment r"
  "pb_secretUid (revision_binding r) = p_secretUid r"
  "pb_secretId (revision_binding r) = p_secretId r"
  "pb_payloadVersionId (revision_binding r) = p_payloadVersionId r"
  by (simp_all add: revision_binding_def)

lemma encrypt_ok:
  assumes "encrypt S payload binding actor createdAt w = (Inr revision, w')"
  obtains key blob w1 iv where
    "sv_generateDataKey S (envelope_context binding) w = (Inr (Some key, Some blob), w1)"
    "sv_randomIv S w1 = (Inr iv, w')" "revision_binding revision = binding"
    "p_payload revision = \<lparr>ep_encryptedDataKey = blob, ep_iv = iv,
       ep_tag = snd (sv_gcmSeal S key iv (envelope_aad binding) payload),
       ep_ciphertext = fst (sv_gcmSeal S key iv (envelope_aad binding) payload)\<rparr>"
    "p_schemaVersion revision = 1" "p_createdAt revision = createdAt" "p_createdBy revision = actor"
  using assms
  by (cases binding) (auto simp: encrypt_def Let_def em_ok em_case revision_binding_def)

lemma decrypt_ok:
  assumes "decrypt S revision w = (Inr payload, w')"
  obtains key where
    "sv_kmsDecrypt S (ep_encryptedDataKey (p_payload revision)) (envelope_context (revision_binding revision)) w
       = (Inr (Some key), w')"
    "sv_gcmOpen S key (ep_iv (p_payload revision)) (envelope_aad (revision_binding revision))
       (ep_ciphertext (p_payload revision), ep_tag (p_payload revision)) = Some payload"
  using assms by (auto simp: decrypt_def Let_def em_ok em_case)

text \<open>C19: a payload that encrypt sealed comes back from decrypt unchanged, whenever KMS still unwraps its
  data key.\<close>

theorem envelope_roundtrip:
  assumes "envelope_service S wraps"
    and "encrypt S payload binding actor createdAt w = (Inr revision, w1)"
    and "\<And>blob ctx key. wraps w1 blob ctx key \<Longrightarrow> wraps w2 blob ctx key"
    and "sv_kmsDecrypt S (ep_encryptedDataKey (p_payload revision))
       (envelope_context (revision_binding revision)) w2 = (Inr (Some key), w3)"
  shows "decrypt S revision w2 = (Inr payload, w3)"
proof -
  obtain k blob w0 iv where g: "sv_generateDataKey S (envelope_context binding) w = (Inr (Some k, Some blob), w0)"
    and iv: "sv_randomIv S w0 = (Inr iv, w1)" and b: "revision_binding revision = binding"
    and p: "p_payload revision = \<lparr>ep_encryptedDataKey = blob, ep_iv = iv,
       ep_tag = snd (sv_gcmSeal S k iv (envelope_aad binding) payload),
       ep_ciphertext = fst (sv_gcmSeal S k iv (envelope_aad binding) payload)\<rparr>"
    using encrypt_ok [OF assms(2)] by metis
  have "wraps w2 blob (envelope_context binding) k"
    using envelope_service.generated [OF assms(1) g] envelope_service.iv_keeps_wraps [OF assms(1) iv] assms(3) by simp
  moreover have "wraps w2 blob (envelope_context binding) key"
    using envelope_service.unwrapped [OF assms(1,4)] b p by simp
  ultimately have "key = k" using envelope_service.wraps_unique [OF assms(1)] by blast
  with assms(4) envelope_service.open_seal [OF assms(1)] b p show ?thesis
    by (simp add: decrypt_def Let_def bindM_def orRaise_def)
qed

definition ex_envelope :: PayloadBinding where
  "ex_envelope = \<lparr>pb_environment = ''prod'', pb_secretUid = Some ''s1'', pb_secretId = ''db/pw'',
     pb_payloadVersionId = ''p1''\<rparr>"

definition ex_secret :: SecretPayload where
  "ex_secret = [(''key'', \<lparr>se_encoding = Utf8, se_value = ''v''\<rparr>)]"

definition ex_envelope_actor :: Actor where
  "ex_envelope_actor = \<lparr>actorType = System, actorId = ''a'', actorEmail = None, actorTenantId = None,
     actorConsumerId = None, actorEnvironment = None\<rparr>"

definition ex_envelope_world :: ref_world where
  "ex_envelope_world = \<lparr>rw_items = [], rw_objects = [], rw_clock = 0, rw_counter = 0\<rparr>"

definition ex_sealed :: PayloadRevision where
  "ex_sealed = \<lparr>p_schemaVersion = 1, p_secretUid = Some ''s1'', p_secretId = ''db/pw'',
     p_payloadVersionId = ''p1'', p_environment = ''prod'', p_createdAt = 5, p_createdBy = ex_envelope_actor,
     p_payload = \<lparr>ep_encryptedDataKey = enc_strs (''key0'' # flat_context (envelope_context ex_envelope)),
       ep_iv = ''iv1'', ep_tag = enc_strs (''key0'' # ''iv1'' # flat_context (envelope_context ex_envelope)),
       ep_ciphertext = enc_strs (flat_payload ex_secret)\<rparr>\<rparr>"

lemma show_small: "show_nat 0 = ''0''" "show_nat (Suc 0) = ''1''"
  by code_simp+

lemma ex_encrypted:
  "encrypt ref_services ex_secret ex_envelope ex_envelope_actor 5 ex_envelope_world
     = (Inr ex_sealed, ex_envelope_world\<lparr>rw_counter := 2\<rparr>)"
  by (simp add: encrypt_def bindM_def ref_generateDataKey_def ref_fresh_def ref_tick_def Let_def ref_gcmSeal_def
      ex_envelope_world_def ex_sealed_def ex_envelope_def envelope_aad_def show_small)

theorem envelope_roundtrip_witness:
  "fst (decrypt ref_services ex_sealed ex_envelope_world) = Inr ex_secret"
proof -
  have b: "revision_binding ex_sealed = ex_envelope"
    by (simp add: revision_binding_def ex_sealed_def ex_envelope_def)
  have k: "sv_kmsDecrypt ref_services (ep_encryptedDataKey (p_payload ex_sealed))
      (envelope_context (revision_binding ex_sealed)) ex_envelope_world = (Inr (Some ''key0''), ex_envelope_world)"
    unfolding b by (simp add: ref_kmsDecrypt_def ex_sealed_def)
  show ?thesis
    using envelope_roundtrip [OF ref_envelope.envelope_service_axioms ex_encrypted _ k]
    by (simp add: ref_wraps_def)
qed

lemma opened_is_sealed:
  assumes "envelope_service S wraps"
    and "encrypt S payload binding actor createdAt w = (Inr revision, w1)"
    and "\<And>blob ctx key. wraps w1 blob ctx key \<Longrightarrow> wraps w2 blob ctx key"
    and "p_payload claimed = p_payload revision" "decrypt S claimed w2 = (Inr opened, w3)"
  shows "opened = payload \<and> envelope_context (revision_binding claimed) = envelope_context binding"
proof -
  obtain k blob w0 iv where g: "sv_generateDataKey S (envelope_context binding) w = (Inr (Some k, Some blob), w0)"
    and iv: "sv_randomIv S w0 = (Inr iv, w1)"
    and p: "p_payload revision = \<lparr>ep_encryptedDataKey = blob, ep_iv = iv,
       ep_tag = snd (sv_gcmSeal S k iv (envelope_aad binding) payload),
       ep_ciphertext = fst (sv_gcmSeal S k iv (envelope_aad binding) payload)\<rparr>"
    using encrypt_ok [OF assms(2)] by metis
  obtain key where d: "sv_kmsDecrypt S blob (envelope_context (revision_binding claimed)) w2 = (Inr (Some key), w3)"
    and o: "sv_gcmOpen S key iv (envelope_aad (revision_binding claimed))
       (sv_gcmSeal S k iv (envelope_aad binding) payload) = Some opened"
    using decrypt_ok [OF assms(5)] assms(4) p by auto
  have "wraps w2 blob (envelope_context binding) k"
    using envelope_service.generated [OF assms(1) g] envelope_service.iv_keeps_wraps [OF assms(1) iv]
      assms(3) by simp
  moreover note envelope_service.unwrapped [OF assms(1) d]
  ultimately have ctx: "envelope_context (revision_binding claimed) = envelope_context binding" "key = k"
    using envelope_service.wraps_unique [OF assms(1)] by blast+
  then show ?thesis using o envelope_service.open_seal [OF assms(1)] by (simp add: envelope_aad_def)
qed

text \<open>C20: the ciphertext of a payload opens only where it belongs: a revision record that carries it under
  another environment, another payload version or another secret identity is never decrypted, and one
  that is decrypted gives the payload that was sealed.\<close>

theorem envelope_binding:
  assumes "envelope_service S wraps"
    and "encrypt S payload binding actor createdAt w = (Inr revision, w1)"
    and "\<And>blob ctx key. wraps w1 blob ctx key \<Longrightarrow> wraps w2 blob ctx key"
    and "p_payload claimed = p_payload revision" "decrypt S claimed w2 = (Inr opened, w3)"
  shows "opened = payload \<and> p_environment claimed = pb_environment binding
    \<and> p_payloadVersionId claimed = pb_payloadVersionId binding \<and> p_secretUid claimed = pb_secretUid binding
    \<and> (pb_secretUid binding = None \<longrightarrow> p_secretId claimed = pb_secretId binding)"
  using opened_is_sealed [OF assms] by (auto simp: envelope_context_inject)

theorem envelope_binding_witness:
  "\<not> (\<exists>q w3. decrypt ref_services (ex_sealed\<lparr>p_environment := ''dev''\<rparr>) ex_envelope_world = (Inr q, w3))"
proof
  assume "\<exists>q w3. decrypt ref_services (ex_sealed\<lparr>p_environment := ''dev''\<rparr>) ex_envelope_world = (Inr q, w3)"
  then obtain q w3 where d: "decrypt ref_services (ex_sealed\<lparr>p_environment := ''dev''\<rparr>) ex_envelope_world
      = (Inr q, w3)" by blast
  have "p_environment (ex_sealed\<lparr>p_environment := ''dev''\<rparr>) = pb_environment ex_envelope"
    using envelope_binding [OF ref_envelope.envelope_service_axioms ex_encrypted _ _ d]
    by (simp add: ref_wraps_def)
  then show False by (simp add: ex_envelope_def)
qed

end
