(* ===== verification/Catalog.thy ===== *)
theory Catalog
  imports Mutation_Laws Validation
begin

text \<open>
  The paged and bounded reads of DynamoRepository (src/src/repositories/dynamo.ts): a consumer's
  change feed and live grants, the secret catalog with its search and folder tree, consumers, their
  identities and a secret's revision history. A cursor the source passes as the JSON text of the
  last key is that key.
\<close>

section \<open>A consumer's feed\<close>

record ChangePage =
  chg_changes :: "AccessRecord list"
  chg_nextCursor :: "startKey option"

definition access_query :: "string \<Rightarrow> string \<Rightarrow> startKey option \<Rightarrow> query" where
  "access_query consumerId environment start = \<lparr>
     q_index = MainTable,
     q_keyCondition = (\<lambda>k it. fst k = consumerPk consumerId
        \<and> prefix (accessSkPrefix environment) (snd k)),
     q_filter = (\<lambda>k it. True), q_forward = True, q_limit = Some 100,
     q_exclusiveStartKey = start \<rparr>"

definition access_items :: "queryPage \<Rightarrow> AccessRecord list" where
  "access_items page = List.map_filter (\<lambda>(k, it). as_access (Some it)) (qp_items page)"

definition revoked_row :: "AccessRecord \<Rightarrow> AccessRecord" where
  "revoked_row access = access\<lparr>a_permissions := [], a_payloadVersionId := None,
     a_state := S_REVOKED, a_changeKind := SecretRevoked\<rparr>"

definition snapshot_row :: "AccessRecord \<Rightarrow> HeadRecord option \<Rightarrow> AccessRecord" where
  "snapshot_row access head = (case head of
     None \<Rightarrow> revoked_row access
   | Some h \<Rightarrow>
       if h_environment h \<noteq> a_environment access \<or> h_state h \<noteq> S_ACTIVE then revoked_row access
       else access\<lparr>a_controlVersionId := h_controlVersionId h,
                   a_payloadVersionId := h_payloadVersionId h,
                   a_state := h_state h, a_changeKind := SecretChanged\<rparr>)"

definition currentAccessSnapshot :: "'w services \<Rightarrow> AccessRecord \<Rightarrow> ('w, AccessRecord) app" where
  "currentAccessSnapshot S access =
     (if PRead \<notin> set (a_permissions access) \<or> a_state access = S_REVOKED then ret access
      else bindM (getHeadBySecretUid S (a_secretUid access)) (\<lambda>head. ret (snapshot_row access head)))"

text \<open>The choice within a group of rows for one name; the group is never empty.\<close>

definition choose_row :: "string option \<Rightarrow> AccessRecord list \<Rightarrow> AccessRecord" where
  "choose_row liveSecretUid rows =
     (case List.find (\<lambda>change. Some (a_secretUid change) = liveSecretUid) rows of
        Some change \<Rightarrow> change
      | None \<Rightarrow>
          (case List.find (\<lambda>change. a_state change = S_REVOKED \<or> PRead \<notin> set (a_permissions change)) rows of
             Some change \<Rightarrow> change
           | None \<Rightarrow> revoked_row (List.hd rows)))"

definition collapse_row ::
  "'w services \<Rightarrow> string \<Rightarrow> AccessRecord list \<Rightarrow> string \<Rightarrow> ('w, AccessRecord) app" where
  "collapse_row S environment changes secretId =
     (let rows = filter (\<lambda>change. a_secretId change = secretId) changes
      in if length rows = 1 then ret (List.hd rows)
         else bindM (getSecretUid S environment secretId) (\<lambda>live. ret (choose_row live rows)))"

definition collapseReusedSecretIds ::
  "'w services \<Rightarrow> string \<Rightarrow> AccessRecord list \<Rightarrow> ('w, AccessRecord list) app" where
  "collapseReusedSecretIds S environment changes =
     mapM (collapse_row S environment changes) (uniq (map a_secretId changes))"

definition listAccess ::
  "'w services \<Rightarrow> string \<Rightarrow> string \<Rightarrow> startKey option \<Rightarrow> ('w, ChangePage) app" where
  "listAccess S consumerId environment start =
     bindM (sv_query S (access_query consumerId environment start)) (\<lambda>response.
     bindM (mapM (currentAccessSnapshot S) (access_items response)) (\<lambda>changes.
     bindM (collapseReusedSecretIds S environment changes) (\<lambda>currentChanges.
       ret \<lparr>chg_changes = currentChanges, chg_nextCursor = qp_lastEvaluatedKey response\<rparr>)))"

record ConsumerSecretGrantPage =
  csp_grants :: "ConsumerSecretGrant list"
  csp_nextCursor :: "startKey option"

definition grant_candidate ::
  "'w services \<Rightarrow> string \<Rightarrow> AccessRecord \<Rightarrow> ('w, ConsumerSecretGrant option) app" where
  "grant_candidate S environment access =
     (if PRead \<notin> set (a_permissions access) \<or> a_state access = S_REVOKED then ret None
      else bindM (getHeadBySecretUid S (a_secretUid access)) (\<lambda>head. ret (case head of
        None \<Rightarrow> None
      | Some h \<Rightarrow>
          if h_environment h \<noteq> environment \<or> h_secretId h \<noteq> a_secretId access
             \<or> h_state h = S_ARCHIVED then None
          else Some \<lparr>csg_secretUid = h_secretUid h, csg_secretId = h_secretId h,
                     csg_permissions = a_permissions access,
                     csg_controlVersionId = h_controlVersionId h, csg_state = h_state h\<rparr>)))"

definition listConsumerSecretGrants ::
  "'w services \<Rightarrow> string \<Rightarrow> string \<Rightarrow> startKey option \<Rightarrow> ('w, ConsumerSecretGrantPage) app" where
  "listConsumerSecretGrants S consumerId environment start =
     bindM (sv_query S (access_query consumerId environment start)) (\<lambda>response.
     bindM (mapM (grant_candidate S environment) (access_items response)) (\<lambda>candidates.
       ret \<lparr>csp_grants = List.map_filter id candidates,
            csp_nextCursor = qp_lastEvaluatedKey response\<rparr>))"

section \<open>The secret catalog\<close>

definition tag_matches :: "HeadRecord \<Rightarrow> string \<times> string \<Rightarrow> bool" where
  "tag_matches h tag = (case h_catalogTags h of None \<Rightarrow> False
     | Some tags \<Rightarrow> map_of tags (fst tag) = Some (snd tag))"

definition catalogFilter :: "Tags \<Rightarrow> item \<Rightarrow> bool" where
  "catalogFilter tags = head_sat (\<lambda>h. h_workflowState h = Some W_READY \<and> list_all (tag_matches h) tags)"

definition in_catalog :: "string \<Rightarrow> string option \<Rightarrow> bool \<Rightarrow> item \<Rightarrow> bool" where
  "in_catalog environment pathPrefix archived = head_sat (\<lambda>h.
     h_catalogPk h = Some (catalogPkFor environment archived)
     \<and> (case h_catalogSk h of None \<Rightarrow> False | Some sk \<Rightarrow> prefix (catalogPathPrefix pathPrefix) sk))"

definition maximumBoundedScan :: nat where
  "maximumBoundedScan = 500"

definition catalog_query ::
  "string \<Rightarrow> string option \<Rightarrow> Tags \<Rightarrow> bool \<Rightarrow> nat \<Rightarrow> startKey option \<Rightarrow> query" where
  "catalog_query environment pathPrefix tags archived limit start = \<lparr>
     q_index = CatalogPathIndex,
     q_keyCondition = (\<lambda>k it. in_catalog environment pathPrefix archived it),
     q_filter = (\<lambda>k it. catalogFilter tags it), q_forward = True, q_limit = Some limit,
     q_exclusiveStartKey = start \<rparr>"

definition head_items :: "queryPage \<Rightarrow> HeadRecord list" where
  "head_items page = List.map_filter (\<lambda>(k, it). as_head (Some it)) (qp_items page)"

definition listSecrets ::
  "'w services \<Rightarrow> string \<Rightarrow> string option \<Rightarrow> Tags \<Rightarrow> startKey option \<Rightarrow> bool
     \<Rightarrow> ('w, HeadRecord list \<times> startKey option) app" where
  "listSecrets S environment pathPrefix tags start archived =
     bindM (sv_query S (catalog_query environment pathPrefix tags archived 100 start)) (\<lambda>response.
       ret (head_items response, qp_lastEvaluatedKey response))"

text \<open>\<open>toLowerCase()\<close> of a code unit up to U+00FF.\<close>

definition to_lower :: "char \<Rightarrow> char" where
  "to_lower c = (let n = of_char c :: nat
     in if (65 \<le> n \<and> n \<le> 90) \<or> (192 \<le> n \<and> n \<le> 222 \<and> n \<noteq> 215) then char_of (n + 32) else c)"

definition search_match :: "string \<Rightarrow> HeadRecord \<Rightarrow> bool" where
  "search_match needle secret \<longleftrightarrow>
     sublist needle (map to_lower (h_secretId secret))
     \<or> sublist needle (map to_lower
         (case Option.bind (h_metadata secret) md_description of None \<Rightarrow> [] | Some d \<Rightarrow> d))"

definition searchSecrets ::
  "'w services \<Rightarrow> string \<Rightarrow> string option \<Rightarrow> Tags \<Rightarrow> string \<Rightarrow> bool
     \<Rightarrow> ('w, HeadRecord list \<times> bool) app" where
  "searchSecrets S environment pathPrefix tags query archived =
     bindM (sv_query S (catalog_query environment pathPrefix tags archived (maximumBoundedScan + 1) None))
       (\<lambda>response.
         let items = head_items response;
             truncated = (length items > maximumBoundedScan \<or> qp_lastEvaluatedKey response \<noteq> None)
         in ret (filter (search_match (map to_lower query)) (take maximumBoundedScan items), truncated))"

section \<open>The folder tree\<close>

definition childSegment :: "string \<Rightarrow> string option \<Rightarrow> string option" where
  "childSegment path pathPrefix = (case pathPrefix of
     None \<Rightarrow> Some (List.hd (split_on CHR ''/'' path))
   | Some p \<Rightarrow>
       if \<not> prefix (p @ ''/'') path then None
       else Some (List.hd (split_on CHR ''/'' (drop (length p + 1) path))))"

record SecretTreeFolder =
  tf_segment :: string
  tf_path :: string
  tf_secretCount :: nat

record SecretTreePage =
  tp_folders :: "SecretTreeFolder list"
  tp_secrets :: "HeadRecord list"
  tp_truncated :: bool

text \<open>The loop: secrets at the path itself, and one segment per secret below it, in order.\<close>

fun tree_loop :: "string option \<Rightarrow> HeadRecord list \<Rightarrow> HeadRecord list \<times> string list" where
  "tree_loop pathPrefix [] = ([], [])"
| "tree_loop pathPrefix (item # rest) =
     (let (secrets, segments) = tree_loop pathPrefix rest; path = secretFolderPath (h_secretId item)
      in if path = pathPrefix then (item # secrets, segments)
         else (case path of
                 None \<Rightarrow> (secrets, segments)
               | Some p \<Rightarrow> (case childSegment p pathPrefix of
                   None \<Rightarrow> (secrets, segments)
                 | Some segment \<Rightarrow> (secrets, segment # segments))))"

text \<open>The Map of counters, sorted by segment: one entry per segment with its number of occurrences.\<close>

definition tree_folders :: "string option \<Rightarrow> string list \<Rightarrow> SecretTreeFolder list" where
  "tree_folders pathPrefix segments = map (\<lambda>segment. \<lparr>
       tf_segment = segment,
       tf_path = (case pathPrefix of None \<Rightarrow> segment | Some p \<Rightarrow> p @ ''/'' @ segment),
       tf_secretCount = count_list segments segment\<rparr>)
     (sort (uniq segments))"

definition listSecretTree ::
  "'w services \<Rightarrow> string \<Rightarrow> string option \<Rightarrow> bool \<Rightarrow> ('w, SecretTreePage) app" where
  "listSecretTree S environment pathPrefix archived =
     bindM (sv_query S (catalog_query environment pathPrefix [] archived (maximumBoundedScan + 1) None))
       (\<lambda>response.
         let items = head_items response;
             (secrets, segments) = tree_loop pathPrefix (take maximumBoundedScan items)
         in ret \<lparr>tp_folders = tree_folders pathPrefix segments,
                 tp_secrets = sort_key h_secretId secrets,
                 tp_truncated = (length items > maximumBoundedScan
                   \<or> qp_lastEvaluatedKey response \<noteq> None)\<rparr>)"

section \<open>Consumers, identities and revisions\<close>

definition consumer_items :: "queryPage \<Rightarrow> ConsumerRecord list" where
  "consumer_items page = List.map_filter (\<lambda>(k, it). as_consumer (Some it)) (qp_items page)"

definition listConsumers ::
  "'w services \<Rightarrow> string \<Rightarrow> startKey option \<Rightarrow> ('w, ConsumerRecord list \<times> startKey option) app" where
  "listConsumers S environment start =
     bindM (sv_query S \<lparr>q_index = ConsumerDirectoryIndex,
         q_keyCondition = (\<lambda>k it. case as_consumer (Some it) of None \<Rightarrow> False
           | Some c \<Rightarrow> cn_consumerDirectoryPk c = Some (consumerDirectoryPk environment)),
         q_filter = (\<lambda>k it. True), q_forward = True, q_limit = Some 100,
         q_exclusiveStartKey = start\<rparr>)
       (\<lambda>response. ret (consumer_items response, qp_lastEvaluatedKey response))"

definition identity_items :: "queryPage \<Rightarrow> IdentityRecord list" where
  "identity_items page = List.map_filter (\<lambda>(k, it). as_identity (Some it)) (qp_items page)"

definition identity_query ::
  "string \<Rightarrow> (IdentityRecord \<Rightarrow> bool) \<Rightarrow> bool \<Rightarrow> nat option \<Rightarrow> startKey option \<Rightarrow> query" where
  "identity_query consumerId P forward limit start = \<lparr>
     q_index = ConsumerIdentityIndex,
     q_keyCondition = (\<lambda>k it. case as_identity (Some it) of None \<Rightarrow> False
       | Some i \<Rightarrow> i_identityConsumerPk i = Some (identityConsumerPk consumerId)),
     q_filter = (\<lambda>k it. case as_identity (Some it) of None \<Rightarrow> False | Some i \<Rightarrow> P i),
     q_forward = forward, q_limit = limit, q_exclusiveStartKey = start\<rparr>"

definition listConsumerApiIdentities ::
  "'w services \<Rightarrow> string \<Rightarrow> startKey option \<Rightarrow> ('w, IdentityRecord list \<times> startKey option) app" where
  "listConsumerApiIdentities S consumerId start =
     bindM (sv_query S (identity_query consumerId (\<lambda>i. i_kind i = K_api) False (Some 100) start))
       (\<lambda>response. ret (identity_items response, qp_lastEvaluatedKey response))"

text \<open>The counting loop with a bound on the pages; None when the bound is reached first.\<close>

fun count_pages ::
  "nat \<Rightarrow> 'w services \<Rightarrow> string \<Rightarrow> timestamp \<Rightarrow> nat \<Rightarrow> startKey option \<Rightarrow> ('w, nat option) app" where
  "count_pages 0 S consumerId now count start = ret None"
| "count_pages (Suc n) S consumerId now count start =
     bindM (sv_query S (identity_query consumerId
         (\<lambda>i. i_status i = I_ACTIVE \<and> i_kind i = K_api \<and> i_notAfter i > now) True None start))
       (\<lambda>response.
         let count' = count + length (qp_items response)
         in case qp_lastEvaluatedKey response of
              None \<Rightarrow> ret (Some count')
            | Some key \<Rightarrow> count_pages n S consumerId now count' (Some key))"

definition countActiveConsumerApiIdentities ::
  "nat \<Rightarrow> 'w services \<Rightarrow> string \<Rightarrow> ('w, nat option) app" where
  "countActiveConsumerApiIdentities pages S consumerId =
     bindM (sv_now S) (\<lambda>now. count_pages pages S consumerId now 0 None)"

definition maximumRevisionHistory :: nat where
  "maximumRevisionHistory = 500"

definition listRecentControlRevisions ::
  "'w services \<Rightarrow> string \<Rightarrow> string \<Rightarrow> ('w, StoredWorkflow list \<times> bool) app" where
  "listRecentControlRevisions S environment secretId =
     bindM (requireHead S environment secretId) (\<lambda>head.
     bindM (sv_query S \<lparr>q_index = SecretRevisionIndex,
         q_keyCondition = (\<lambda>k it. workflow_sat (\<lambda>x. map_option fst (w_revision x)
           = Some (secretPk (h_secretUid head))) it),
         q_filter = (\<lambda>k it. True), q_forward = False, q_limit = Some (maximumRevisionHistory + 1),
         q_exclusiveStartKey = None\<rparr>)
       (\<lambda>response. ret
         (filter (\<lambda>(k, x). w_serialized x \<noteq> None)
            (List.map_filter as_workflow (take maximumRevisionHistory (qp_items response))),
          length (qp_items response) > maximumRevisionHistory
            \<or> qp_lastEvaluatedKey response \<noteq> None)))"

end
