(* ===== verification/Catalog_Properties.thy ===== *)
theory Catalog_Properties
  imports Catalog Examples
begin

text \<open>What the change feed and the folder tree promise.\<close>

section \<open>The change feed\<close>

lemma revoked_row_sel [simp]:
  "a_secretUid (revoked_row a) = a_secretUid a" "a_secretId (revoked_row a) = a_secretId a"
  "\<not> activeRead (revoked_row a)"
  by (simp_all add: revoked_row_def activeRead_def)

text \<open>A row the feed may show: current when it is live, and backed by a stored row of the consumer.\<close>

definition row_current :: "table \<Rightarrow> AccessRecord \<Rightarrow> bool" where
  "row_current t a \<longleftrightarrow> (activeRead a \<longrightarrow> (\<exists>h. head_of t (a_secretUid a) = Some h \<and> h_state h = S_ACTIVE
     \<and> h_environment h = a_environment a \<and> a_controlVersionId a = h_controlVersionId h
     \<and> a_payloadVersionId a = h_payloadVersionId h))"

definition row_stored :: "table \<Rightarrow> string \<Rightarrow> AccessRecord \<Rightarrow> bool" where
  "row_stored t c a \<longleftrightarrow> (\<exists>sk r. t (consumerPk c, sk) = Some (AccessIt r) \<and> a_secretUid r = a_secretUid a
     \<and> a_secretId r = a_secretId a \<and> (activeRead a \<longrightarrow> activeRead r))"

lemma revoked_row_ok [simp]:
  "row_current t (revoked_row a)" "row_stored t c a \<Longrightarrow> row_stored t c (revoked_row a)"
  by (auto simp: row_current_def row_stored_def)

lemma choose_row_cases:
  assumes "rows \<noteq> []"
  shows "choose_row live rows \<in> set rows \<union> revoked_row ` set rows"
  using assms
  by (auto simp: choose_row_def split: option.split dest!: find_Some_iff_mem)

context dynamo
begin

lemma snapshot_keeps [keeps_intro]: "keeps table (currentAccessSnapshot S a)"
  unfolding currentAccessSnapshot_def by (intro keeps_intro)

lemma snapshot_current:
  assumes "currentAccessSnapshot S a w = (Inr b, w')"
  shows "row_current (table w) b \<and> a_secretUid b = a_secretUid a \<and> a_secretId b = a_secretId a
    \<and> (activeRead b \<longrightarrow> activeRead a)"
proof (cases "activeRead a")
  case False
  with assms have "b = a" by (auto simp: currentAccessSnapshot_def activeRead_def)
  with False show ?thesis by (simp add: row_current_def)
next
  case True
  with assms have b: "b = snapshot_row a (head_of (table w) (a_secretUid a))"
    by (auto simp: currentAccessSnapshot_def activeRead_def em_ok dest: getHeadBySecretUid_value)
  show ?thesis
  proof (cases "head_of (table w) (a_secretUid a)")
    case (Some h)
    with True show ?thesis
      by (cases "h_environment h \<noteq> a_environment a \<or> h_state h \<noteq> S_ACTIVE")
        (auto simp: b snapshot_row_def row_current_def)
  qed (simp add: b snapshot_row_def True)
qed

lemma collapse_row_keeps [keeps_intro]: "keeps table (collapse_row S env changes i)"
  unfolding collapse_row_def Let_def by (intro keeps_intro)

lemma collapse_row_from:
  assumes "collapse_row S env changes i w = (Inr row, w')" "i \<in> a_secretId ` set changes"
  shows "a_secretId row = i \<and> row \<in> set changes \<union> revoked_row ` set changes"
proof -
  let ?g = "filter (\<lambda>change. a_secretId change = i) changes"
  have ne: "?g \<noteq> []" using assms(2) by (auto simp: filter_empty_conv)
  have "row = List.hd ?g \<or> (\<exists>live. row = choose_row live ?g)"
    using assms(1) by (auto simp: collapse_row_def Let_def em_ok split: if_splits)
  then have "row \<in> set ?g \<union> revoked_row ` set ?g"
    using choose_row_cases [OF ne] list.set_sel(1) [OF ne] by blast
  then show ?thesis by auto
qed

lemma collapse_rows:
  assumes "collapseReusedSecretIds S env changes w = (Inr rows, w')"
  shows "map a_secretId rows = uniq (map a_secretId changes)
    \<and> set rows \<subseteq> set changes \<union> revoked_row ` set changes"
proof -
  have "list_all2 (\<lambda>i row. \<exists>w1 w2. collapse_row S env changes i w1 = (Inr row, w2) \<and> table w1 = table w)
      (uniq (map a_secretId changes)) rows"
    using assms unfolding collapseReusedSecretIds_def by (rule mapM_all2) (rule collapse_row_keeps)
  then have "list_all2 (\<lambda>i row. i \<in> a_secretId ` set changes \<longrightarrow>
      a_secretId row = i \<and> row \<in> set changes \<union> revoked_row ` set changes) (uniq (map a_secretId changes)) rows"
    by (rule list_all2_mono) (use collapse_row_from in blast)
  then have all: "list_all2 (\<lambda>i row. a_secretId row = i \<and> row \<in> set changes \<union> revoked_row ` set changes)
      (uniq (map a_secretId changes)) rows"
    by (rule list.rel_mono_strong) simp
  have "map a_secretId rows = uniq (map a_secretId changes)"
    using all by (induction rule: list_all2_induct) auto
  moreover have "set rows \<subseteq> set changes \<union> revoked_row ` set changes"
    using all by (induction rule: list_all2_induct) auto
  ultimately show ?thesis by simp
qed

lemma access_items_stored:
  assumes "sv_query S (access_query c env start) w = (Inr page, w')" "a \<in> set (access_items page)"
  shows "row_stored (table w) c a"
proof -
  obtain k it where k: "(k, it) \<in> set (qp_items page)" "it = AccessIt a"
    using assms(2) by (auto simp: access_items_def mem_map_filter)
  have "table w k = Some it"
    by (rule query_consistent [OF assms(1) _ k(1)]) (simp add: access_query_def)
  moreover have "fst k = consumerPk c"
    using query_selects [OF assms(1) k(1)] by (simp add: access_query_def)
  ultimately show ?thesis using k(2) by (cases k) (auto simp: row_stored_def)
qed

lemma feed_rows:
  assumes "listAccess S c env start w = (Inr page, w')"
  shows "distinct (map a_secretId (chg_changes page))
    \<and> (\<forall>a \<in> set (chg_changes page). row_current (table w) a \<and> row_stored (table w) c a)"
proof -
  obtain response w1 changes w2 rows where
    q: "sv_query S (access_query c env start) w = (Inr response, w1)" and
    m: "mapM (currentAccessSnapshot S) (access_items response) w1 = (Inr changes, w2)" and
    r: "collapseReusedSecretIds S env changes w2 = (Inr rows, w')" and p: "chg_changes page = rows"
    using assms by (auto simp: listAccess_def em_ok)
  have t1: "table w1 = table w" using keepsD [OF query_keeps q] .
  have ok: "row_current (table w) b \<and> row_stored (table w) c b" if "b \<in> set changes" for b
  proof -
    obtain a w3 w4 where a: "a \<in> set (access_items response)" "currentAccessSnapshot S a w3 = (Inr b, w4)"
      "table w3 = table w1"
      using mapM_mem [OF m snapshot_keeps \<open>b \<in> set changes\<close>] by blast
    show ?thesis
      using snapshot_current [OF a(2)] access_items_stored [OF q a(1)] a(3) t1
      by (auto simp: row_stored_def)
  qed
  have "distinct (map a_secretId rows)" using collapse_rows [OF r] by simp
  moreover have "row_current (table w) a \<and> row_stored (table w) c a" if "a \<in> set rows" for a
    using collapse_rows [OF r] that ok by fastforce
  ultimately show ?thesis unfolding p by blast
qed

end

text \<open>C21: a page of a consumer's change feed names every secret once, shows only rows the consumer really
  has, and shows one as readable only if the stored row grants it and the secret is active, with the
  versions its head has now: an archived or replaced secret is never offered, nor an old version.\<close>

theorem feed_current:
  assumes "dynamo S table" "listAccess S c env start w = (Inr page, w')" "a \<in> set (chg_changes page)"
  shows "distinct (map a_secretId (chg_changes page))
    \<and> (\<exists>sk r. table w (consumerPk c, sk) = Some (AccessIt r) \<and> a_secretUid r = a_secretUid a
         \<and> a_secretId r = a_secretId a \<and> (activeRead a \<longrightarrow> activeRead r))
    \<and> (activeRead a \<longrightarrow> (\<exists>h. head_of (table w) (a_secretUid a) = Some h \<and> h_state h = S_ACTIVE
         \<and> h_environment h = a_environment a \<and> a_controlVersionId a = h_controlVersionId h
         \<and> a_payloadVersionId a = h_payloadVersionId h))"
  using dynamo.feed_rows [OF assms(1,2)] assms(3) by (simp add: row_current_def row_stored_def)

definition ex_feed_world :: ref_world where
  "ex_feed_world = ex_world\<lparr>rw_items :=
     [((consumerPk ''c1'', accessSk ''prod'' ''s1''),
        AccessIt (accessItem ''s1'' (ex_control ''v0'' [\<lparr>g_consumerId = ''c1'', g_permissions = [PRead]\<rparr>]) ''c1'')),
      (ex_head_key, HeadItem ((new_head ex_create)\<lparr>h_state := S_ACTIVE, h_payloadVersionId := Some ''p1''\<rparr>))]\<rparr>"

definition ex_feed_row :: AccessRecord where
  "ex_feed_row = (accessItem ''s1'' (ex_control ''v0'' [\<lparr>g_consumerId = ''c1'', g_permissions = [PRead]\<rparr>]) ''c1'')
     \<lparr>a_controlVersionId := ''v1'', a_payloadVersionId := Some ''p1'', a_state := S_ACTIVE\<rparr>"

lemma ex_feed:
  "fst (listAccess ref_services ''c1'' ''prod'' None ex_feed_world)
     = Inr \<lparr>chg_changes = [ex_feed_row], chg_nextCursor = None\<rparr>"
  by code_simp

theorem feed_current_witness:
  "\<exists>h. head_of (ref_table ex_feed_world) ''s1'' = Some h \<and> h_controlVersionId h = ''v1''"
proof -
  obtain w' where r: "listAccess ref_services ''c1'' ''prod'' None ex_feed_world
      = (Inr \<lparr>chg_changes = [ex_feed_row], chg_nextCursor = None\<rparr>, w')"
    using ex_feed by (metis prod.collapse)
  have "activeRead ex_feed_row" "a_secretUid ex_feed_row = ''s1''" "a_controlVersionId ex_feed_row = ''v1''"
    by code_simp+
  then show ?thesis
    using feed_current [OF ref_dynamo.dynamo_axioms r, of ex_feed_row] by force
qed

section \<open>The folder tree\<close>

lemma hd_split_on:
  assumes "CHR ''/'' \<notin> set s"
  shows "List.hd (split_on CHR ''/'' x) = s \<longleftrightarrow> x = s \<or> prefix (s @ ''/'') x"
proof
  assume h: "List.hd (split_on CHR ''/'' x) = s"
  obtain ps where sp: "split_on CHR ''/'' x = s # ps"
    using h by (cases "split_on CHR ''/'' x") auto
  then have "x = join_with CHR ''/'' (s # ps)" using join_split [of "CHR ''/''" x] by simp
  then show "x = s \<or> prefix (s @ ''/'') x" by (cases ps) (auto simp: prefix_def)
next
  assume "x = s \<or> prefix (s @ ''/'') x"
  then show "List.hd (split_on CHR ''/'' x) = s"
    using assms by (auto simp: prefix_def split_on_plain split_on_append)
qed

lemma hd_split_on_plain: "CHR ''/'' \<notin> set (List.hd (split_on CHR ''/'' x))"
  using split_on_no_sep [of _ "CHR ''/''" x] by (cases "split_on CHR ''/'' x") auto

definition child_path :: "string option \<Rightarrow> string \<Rightarrow> string" where
  "child_path pathPrefix s = (case pathPrefix of None \<Rightarrow> s | Some p \<Rightarrow> p @ ''/'' @ s)"

lemma childSegment_plain: "childSegment q pathPrefix = Some s \<Longrightarrow> CHR ''/'' \<notin> set s"
  using hd_split_on_plain by (auto simp: childSegment_def split: option.splits if_splits)

lemma childSegment_iff:
  assumes "CHR ''/'' \<notin> set s"
  shows "childSegment q pathPrefix = Some s \<longleftrightarrow> q = child_path pathPrefix s \<or> prefix (child_path pathPrefix s @ ''/'') q"
proof (cases pathPrefix)
  case None
  then show ?thesis using hd_split_on [OF assms] by (simp add: childSegment_def child_path_def)
next
  case (Some p)
  show ?thesis
  proof (cases "prefix (p @ ''/'') q")
    case True
    then obtain x where q: "q = p @ ''/'' @ x" by (auto simp: prefix_def)
    then have "childSegment q pathPrefix = Some (List.hd (split_on CHR ''/'' x))"
      by (simp add: childSegment_def Some)
    with hd_split_on [OF assms, of x] show ?thesis by (simp add: child_path_def Some q prefix_def)
  next
    case False
    then show ?thesis by (auto simp: childSegment_def child_path_def Some prefix_def)
  qed
qed

text \<open>The folder a secret is in lies at or below a path.\<close>

definition below :: "string \<Rightarrow> HeadRecord \<Rightarrow> bool" where
  "below path h \<longleftrightarrow> (case secretFolderPath (h_secretId h) of None \<Rightarrow> False
     | Some q \<Rightarrow> q = path \<or> prefix (path @ ''/'') q)"

lemma tree_loop_counts:
  assumes "tree_loop pathPrefix items = (secrets, segments)"
  shows "secrets = filter (\<lambda>h. secretFolderPath (h_secretId h) = pathPrefix) items
    \<and> (\<forall>s. CHR ''/'' \<notin> set s \<longrightarrow> count_list segments s
         = length (filter (below (child_path pathPrefix s)) items))
    \<and> (\<forall>s \<in> set segments. CHR ''/'' \<notin> set s)"
  using assms
proof (induction items arbitrary: secrets segments)
  case (Cons h items)
  obtain se sg where r: "tree_loop pathPrefix items = (se, sg)" by fastforce
  note IH = Cons.IH [OF r]
  let ?q = "secretFolderPath (h_secretId h)"
  have self: "\<not> below (child_path pathPrefix s) h" if "?q = pathPrefix" for s
    using that by (auto simp: below_def child_path_def prefix_def split: option.splits)
  have seg: "below (child_path pathPrefix s) h \<longleftrightarrow> childSegment q pathPrefix = Some s"
    if "?q = Some q" "CHR ''/'' \<notin> set s" for q s
    using childSegment_iff [OF that(2)] that(1) by (simp add: below_def)
  show ?case
  proof (cases "?q = pathPrefix")
    case True
    with Cons.prems r IH self show ?thesis by auto
  next
    case False
    show ?thesis
    proof (cases ?q)
      case None
      with False Cons.prems r IH show ?thesis by (auto simp: below_def)
    next
      case (Some q)
      show ?thesis
        using False Some Cons.prems r IH seg [OF Some] childSegment_plain
        by (cases "childSegment q pathPrefix") (auto split: if_splits)
    qed
  qed
qed simp

lemma sum_count_list: "distinct xs \<Longrightarrow> set ys \<subseteq> set xs \<Longrightarrow> sum_list (map (count_list ys) xs) = length ys"
  using sum_count_set [of ys "set xs"] by (simp add: sum_list_distinct_conv_sum_set)

lemma tree_total:
  assumes "tree_loop pathPrefix items = (secrets, segments)"
    and "\<And>h. h \<in> set items \<Longrightarrow> secretFolderPath (h_secretId h) = pathPrefix
      \<or> (\<exists>q s. secretFolderPath (h_secretId h) = Some q \<and> childSegment q pathPrefix = Some s)"
  shows "length secrets + length segments = length items"
  using assms
proof (induction items arbitrary: secrets segments)
  case (Cons h items)
  obtain se sg where r: "tree_loop pathPrefix items = (se, sg)" by fastforce
  have "length se + length sg = length items" using Cons.IH [OF r] Cons.prems(2) by simp
  with Cons.prems(2) [of h] Cons.prems(1) r show ?case by (auto simp: Let_def split: if_splits)
qed simp

text \<open>A catalog key under a valid path belongs to a secret in that folder or below it.\<close>

lemma split_on_sep: "split_on c (r @ c # s) = split_on c r @ split_on c s"
proof (induction r)
  case (Cons x r)
  then show ?case by (cases "split_on c r") auto
qed simp

lemma secretIdentifier_last: "secretIdentifier p \<Longrightarrow> p \<noteq> r @ ''/''"
  by (auto simp: secretIdentifier_def split_on_sep isIdentifier_def)

definition folder_text :: "string \<Rightarrow> string" where
  "folder_text secretId = (case secretFolderPath secretId of None \<Rightarrow> ''_'' | Some q \<Rightarrow> q)"

lemma folder_text_below:
  assumes p: "secretIdentifier p" and pre: "prefix (p @ ''/'') (f @ ''/SECRET#'' @ i)"
  shows "f = p \<or> prefix (p @ ''/'') f"
proof (cases "length p" "length f" rule: linorder_cases)
  case less
  then have "prefix (p @ ''/'') f"
    using prefix_length_prefix [OF pre, of f] by simp
  then show ?thesis by simp
next
  case equal
  with pre show ?thesis by (auto simp: prefix_def append_eq_append_conv)
next
  case greater
  have "prefix p (f @ ''/SECRET#'' @ i)" using pre by (auto simp: prefix_def)
  from prefix_length_prefix [OF _ this, of "f @ ''/''"] greater
  obtain r where r: "p = f @ ''/'' @ r" by (auto simp: prefix_def)
  show ?thesis
  proof (cases r)
    case Nil
    with r secretIdentifier_last [OF p, of f] show ?thesis by simp
  next
    case (Cons c r')
    with r pre have "c = CHR ''S''" by (auto simp: prefix_def)
    with r Cons secretIdentifier_chars [OF p, of c] show ?thesis
      by (auto simp: char_class_defs less_eq_char_def)
  qed
qed

lemma catalog_below:
  assumes "case pathPrefix of None \<Rightarrow> True | Some p \<Rightarrow> secretIdentifier p"
    and "prefix (catalogPathPrefix pathPrefix) (catalogSk i)"
  shows "secretFolderPath i = pathPrefix
    \<or> (\<exists>q s. secretFolderPath i = Some q \<and> childSegment q pathPrefix = Some s)"
proof (cases pathPrefix)
  case None
  then show ?thesis by (cases "secretFolderPath i") (auto simp: childSegment_def)
next
  case (Some p)
  have p: "secretIdentifier p" using assms(1) Some by simp
  have "folder_text i = p \<or> prefix (p @ ''/'') (folder_text i)"
    by (rule folder_text_below [OF p, of _ i])
      (use assms(2) in \<open>simp add: Some catalogPathPrefix_def catalogSk_def folder_text_def\<close>)
  moreover have "p \<noteq> ''_''"
    using secretIdentifier_chars [OF p] by (auto simp: char_class_defs less_eq_char_def)
  moreover have "\<not> prefix (p @ ''/'') ''_''"
    using prefix_length_le [of "p @ ''/''" "''_''"] secretIdentifier_not_empty [OF p] by (cases p) auto
  ultimately show ?thesis
    by (cases "secretFolderPath i") (auto simp: folder_text_def childSegment_def Some)
qed

text \<open>C22: when the answer of listSecretTree is not truncated it accounts for every ready secret the index
  returned, in exactly one place: the secrets directly in the folder are listed, sorted, and each child
  folder counts exactly the secrets in it and below it.\<close>

theorem tree_accounts_for_all:
  assumes "dynamo S table" "parseCatalogPathPrefix requested = Inr pathPrefix"
    and "sv_query S (catalog_query env pathPrefix [] archived (maximumBoundedScan + 1) None) w = (Inr response, w1)"
    and "listSecretTree S env pathPrefix archived w = (Inr page, w')" "\<not> tp_truncated page"
    and "\<And>h. h \<in> set (head_items response) \<Longrightarrow> h_catalogSk h = Some (catalogSk (h_secretId h))"
  shows "tp_secrets page = sort_key h_secretId
      (filter (\<lambda>h. secretFolderPath (h_secretId h) = pathPrefix) (head_items response))
    \<and> (\<forall>f \<in> set (tp_folders page). tf_secretCount f = length (filter (\<lambda>h.
         case secretFolderPath (h_secretId h) of None \<Rightarrow> False
         | Some q \<Rightarrow> q = tf_path f \<or> prefix (tf_path f @ ''/'') q) (head_items response)))
    \<and> distinct (map tf_path (tp_folders page)) \<and> sorted (map tf_segment (tp_folders page))
    \<and> length (tp_secrets page) + sum_list (map tf_secretCount (tp_folders page)) = length (head_items response)"
proof -
  obtain secrets segments where loop: "tree_loop pathPrefix (head_items response) = (secrets, segments)"
    by fastforce
  have page: "page = \<lparr>tp_folders = tree_folders pathPrefix segments, tp_secrets = sort_key h_secretId secrets,
      tp_truncated = False\<rparr>"
    using assms(3-5) loop
    by (auto simp: listSecretTree_def bindM_def Let_def split: if_splits prod.splits)
  note counts = tree_loop_counts [OF loop]
  have "secretFolderPath (h_secretId h) = pathPrefix
      \<or> (\<exists>q s. secretFolderPath (h_secretId h) = Some q \<and> childSegment q pathPrefix = Some s)"
    if h: "h \<in> set (head_items response)" for h
  proof (rule catalog_below)
    show "case pathPrefix of None \<Rightarrow> True | Some p \<Rightarrow> secretIdentifier p"
      using assms(2) by (auto simp: parseCatalogPathPrefix_def split: option.splits if_splits)
    obtain k it where k: "(k, it) \<in> set (qp_items response)" "it = HeadItem h"
      using h by (auto simp: head_items_def mem_map_filter)
    show "prefix (catalogPathPrefix pathPrefix) (catalogSk (h_secretId h))"
      using dynamo.query_selects [OF assms(1,3) k(1)] k(2) assms(6) [OF h]
      by (simp add: catalog_query_def in_catalog_def)
  qed
  note total = tree_total [OF loop this]
  have sum: "sum_list (map tf_secretCount (tree_folders pathPrefix segments)) = length segments"
    using sum_count_list [of "sort (uniq segments)" segments]
    by (simp add: tree_folders_def comp_def)
  have paths: "distinct (map tf_path (tree_folders pathPrefix segments))"
    by (auto simp: tree_folders_def comp_def distinct_map inj_on_def split: option.splits)
  have each: "tf_secretCount f = length (filter (below (tf_path f)) (head_items response))"
    if f: "f \<in> set (tree_folders pathPrefix segments)" for f
  proof -
    obtain s where s: "s \<in> set segments" "f = \<lparr>tf_segment = s, tf_path = child_path pathPrefix s,
        tf_secretCount = count_list segments s\<rparr>"
      using f by (auto simp: tree_folders_def child_path_def)
    then show ?thesis using counts by simp
  qed
  have "sorted (map tf_segment (tree_folders pathPrefix segments))"
    by (simp add: tree_folders_def comp_def)
  then show ?thesis
    using counts total sum paths each by (simp add: page below_def [abs_def])
qed

definition ex_tree_head :: "string \<Rightarrow> HeadRecord" where
  "ex_tree_head i = (new_head ex_create)\<lparr>h_secretId := i, h_workflowState := Some W_READY,
     h_catalogPk := Some (catalogPk ''prod''), h_catalogSk := Some (catalogSk i)\<rparr>"

definition ex_tree_world :: ref_world where
  "ex_tree_world = ex_world\<lparr>rw_items :=
     [((secretPk ''s1'', ''HEAD''), HeadItem (ex_tree_head ''pay/key'')),
      ((secretPk ''s2'', ''HEAD''), HeadItem (ex_tree_head ''pay/live/key'')),
      ((secretPk ''s3'', ''HEAD''), HeadItem (ex_tree_head ''pay/live/old/key''))]\<rparr>"

definition ex_tree_page :: SecretTreePage where
  "ex_tree_page = \<lparr>tp_folders = [\<lparr>tf_segment = ''live'', tf_path = ''pay/live'', tf_secretCount = 2\<rparr>],
     tp_secrets = [ex_tree_head ''pay/key''], tp_truncated = False\<rparr>"

lemma ex_tree_run:
  "listSecretTree ref_services ''prod'' (Some ''pay'') False ex_tree_world = (Inr ex_tree_page, ex_tree_world)"
  by code_simp

definition ex_tree_response :: queryPage where
  "ex_tree_response = \<lparr>qp_items =
     [((secretPk ''s1'', ''HEAD''), HeadItem (ex_tree_head ''pay/key'')),
      ((secretPk ''s2'', ''HEAD''), HeadItem (ex_tree_head ''pay/live/key'')),
      ((secretPk ''s3'', ''HEAD''), HeadItem (ex_tree_head ''pay/live/old/key''))],
     qp_lastEvaluatedKey = None\<rparr>"

lemma ex_tree_query:
  "sv_query ref_services (catalog_query ''prod'' (Some ''pay'') [] False (maximumBoundedScan + 1) None) ex_tree_world
     = (Inr ex_tree_response, ex_tree_world)"
  by code_simp

theorem tree_accounts_for_all_witness:
  "length (filter (\<lambda>h. case secretFolderPath (h_secretId h) of None \<Rightarrow> False
     | Some q \<Rightarrow> q = ''pay/live'' \<or> prefix ''pay/live/'' q) (head_items ex_tree_response)) = 2"
proof -
  have valid: "parseCatalogPathPrefix (Some ''pay'') = Inr (Some ''pay'')" by code_simp
  have heads: "head_items ex_tree_response
      = [ex_tree_head ''pay/key'', ex_tree_head ''pay/live/key'', ex_tree_head ''pay/live/old/key'']"
    by (simp add: head_items_def ex_tree_response_def List.map_filter_simps)
  have sk: "h_catalogSk h = Some (catalogSk (h_secretId h))" if "h \<in> set (head_items ex_tree_response)" for h
    using that by (auto simp: heads ex_tree_head_def)
  have full: "\<not> tp_truncated ex_tree_page" by (simp add: ex_tree_page_def)
  have f: "\<lparr>tf_segment = ''live'', tf_path = ''pay/live'', tf_secretCount = 2\<rparr> \<in> set (tp_folders ex_tree_page)"
    by (simp add: ex_tree_page_def)
  from tree_accounts_for_all [OF ref_dynamo.dynamo_axioms valid ex_tree_query ex_tree_run full sk]
  have "\<forall>f \<in> set (tp_folders ex_tree_page). tf_secretCount f = length (filter (\<lambda>h.
         case secretFolderPath (h_secretId h) of None \<Rightarrow> False
         | Some q \<Rightarrow> q = tf_path f \<or> prefix (tf_path f @ ''/'') q) (head_items ex_tree_response))" by blast
  from bspec [OF this f] show ?thesis by (simp cong: option.case_cong)
qed

end
