(* ===== verification/Config.thy ===== *)
theory Config
  imports Validation
begin

text \<open>
  The configuration of the server, src/src/aws/config.ts: interface AppConfig and the reading of it
  from the environment variables, a map from names to values.
\<close>

record AppConfig =
  cf_region :: string
  cf_environmentName :: string
  cf_controlTableName :: string
  cf_workflowDueIndex :: string
  cf_retentionDueIndex :: string
  cf_catalogPathIndex :: string
  cf_consumerDirectoryIndex :: string
  cf_consumerIdentityIndex :: string
  cf_secretRevisionIndex :: string
  cf_revisionBucketName :: string
  cf_truststoreBucketName :: string
  cf_truststoreKeyPrefix :: string
  cf_payloadKmsKeyArn :: string
  cf_auditBucketName :: string
  cf_auditPrefix :: string
  cf_deliveryApiCustomDomainName :: string
  cf_deliveryApiHostname :: string
  cf_iotEndpoint :: string
  cf_iotNotificationPolicyName :: string
  cf_iotNotificationTopicPrefix :: string
  cf_adminJwtIssuer :: string
  cf_adminJwtAudience :: string
  cf_adminActorSubjectClaim :: string
  cf_adminJwtScope :: "string option"
  cf_adminJwtRole :: "string option"
  cf_adminActorTenantClaim :: "string option"
  cf_adminExpectedTenantId :: "string option"
  cf_maxPayloadBytes :: int
  cf_awsEndpointUrl :: "string option"

text \<open>\<open>Number.parseInt(s, 10)\<close>: white space, a sign and the longest run of digits; None is NaN.\<close>

definition digits_value :: "string \<Rightarrow> int" where
  "digits_value ds = foldl (\<lambda>n c. 10 * n + (of_char c - 48)) 0 ds"

definition parseInt10 :: "string \<Rightarrow> int option" where
  "parseInt10 s =
     (let t = dropWhile is_space s;
          negative = (case t of c # _ \<Rightarrow> c = CHR ''-'' | [] \<Rightarrow> False);
          signed = (case t of c # _ \<Rightarrow> c = CHR ''-'' \<or> c = CHR ''+'' | [] \<Rightarrow> False);
          ds = takeWhile is_digit (if signed then tl t else t)
      in if ds = [] then None else Some (if negative then - digits_value ds else digits_value ds))"

text \<open>\<open>value === undefined || value.trim().length === 0\<close>.\<close>

definition blank :: "string option \<Rightarrow> bool" where
  "blank value \<longleftrightarrow> (case value of None \<Rightarrow> True | Some s \<Rightarrow> list_all is_space s)"

definition required :: "(string \<rightharpoonup> string) \<Rightarrow> string \<Rightarrow> string parsed" where
  "required environment name = (case environment name of
     Some value \<Rightarrow> if blank (Some value) then Inl (OtherError ''Error'' (name @ '' is required.'')) else Inr value
   | None \<Rightarrow> Inl (OtherError ''Error'' (name @ '' is required.'')))"

definition optional :: "(string \<rightharpoonup> string) \<Rightarrow> string \<Rightarrow> string option" where
  "optional environment name = (if blank (environment name) then None else environment name)"

text \<open>Number.isSafeInteger is implied by the other two tests on an integer.\<close>

definition loadConfig :: "(string \<rightharpoonup> string) \<Rightarrow> AppConfig parsed" where
  "loadConfig environment =
     (case parseInt10 (case environment ''MAX_PAYLOAD_BYTES'' of None \<Rightarrow> ''768000'' | Some v \<Rightarrow> v) of
        None \<Rightarrow> Inl (badRequest ''MAX_PAYLOAD_BYTES must be an integer between 1 and 768000.'')
      | Some maxPayloadBytes \<Rightarrow>
          if maxPayloadBytes \<le> 0 \<or> maxPayloadBytes > 768000
          then Inl (badRequest ''MAX_PAYLOAD_BYTES must be an integer between 1 and 768000.'')
          else bindE (required environment ''HEMLIG_ENVIRONMENT'') (\<lambda>environmentName.
            bindE (required environment ''CONTROL_TABLE_NAME'') (\<lambda>controlTableName.
            bindE (required environment ''WORKFLOW_DUE_INDEX'') (\<lambda>workflowDueIndex.
            bindE (required environment ''RETENTION_DUE_INDEX'') (\<lambda>retentionDueIndex.
            bindE (required environment ''CATALOG_PATH_INDEX'') (\<lambda>catalogPathIndex.
            bindE (required environment ''CONSUMER_DIRECTORY_INDEX'') (\<lambda>consumerDirectoryIndex.
            bindE (required environment ''CONSUMER_IDENTITY_INDEX'') (\<lambda>consumerIdentityIndex.
            bindE (required environment ''SECRET_REVISION_INDEX'') (\<lambda>secretRevisionIndex.
            bindE (required environment ''REVISION_BUCKET_NAME'') (\<lambda>revisionBucketName.
            bindE (required environment ''TRUSTSTORE_BUCKET_NAME'') (\<lambda>truststoreBucketName.
            bindE (required environment ''TRUSTSTORE_KEY_PREFIX'') (\<lambda>truststoreKeyPrefix.
            bindE (required environment ''PAYLOAD_KMS_KEY_ARN'') (\<lambda>payloadKmsKeyArn.
            bindE (required environment ''AUDIT_BUCKET_NAME'') (\<lambda>auditBucketName.
            bindE (required environment ''AUDIT_PREFIX'') (\<lambda>auditPrefix.
            bindE (required environment ''DELIVERY_API_CUSTOM_DOMAIN_NAME'') (\<lambda>deliveryApiCustomDomainName.
            bindE (required environment ''DELIVERY_API_HOSTNAME'') (\<lambda>deliveryApiHostname.
            bindE (required environment ''IOT_ENDPOINT'') (\<lambda>iotEndpoint.
            bindE (required environment ''IOT_NOTIFICATION_POLICY_NAME'') (\<lambda>iotNotificationPolicyName.
            bindE (required environment ''IOT_NOTIFICATION_TOPIC_PREFIX'') (\<lambda>iotNotificationTopicPrefix.
            bindE (required environment ''ADMIN_JWT_ISSUER'') (\<lambda>adminJwtIssuer.
            bindE (required environment ''ADMIN_JWT_AUDIENCE'') (\<lambda>adminJwtAudience.
            bindE (required environment ''ADMIN_ACTOR_SUBJECT_CLAIM'') (\<lambda>adminActorSubjectClaim.
            Inr \<lparr>cf_region = (case environment ''AWS_REGION'' of None \<Rightarrow> ''us-east-1'' | Some r \<Rightarrow> r),
              cf_environmentName = environmentName, cf_controlTableName = controlTableName,
              cf_workflowDueIndex = workflowDueIndex, cf_retentionDueIndex = retentionDueIndex,
              cf_catalogPathIndex = catalogPathIndex, cf_consumerDirectoryIndex = consumerDirectoryIndex,
              cf_consumerIdentityIndex = consumerIdentityIndex, cf_secretRevisionIndex = secretRevisionIndex,
              cf_revisionBucketName = revisionBucketName, cf_truststoreBucketName = truststoreBucketName,
              cf_truststoreKeyPrefix = truststoreKeyPrefix, cf_payloadKmsKeyArn = payloadKmsKeyArn,
              cf_auditBucketName = auditBucketName, cf_auditPrefix = auditPrefix,
              cf_deliveryApiCustomDomainName = deliveryApiCustomDomainName,
              cf_deliveryApiHostname = deliveryApiHostname, cf_iotEndpoint = iotEndpoint,
              cf_iotNotificationPolicyName = iotNotificationPolicyName,
              cf_iotNotificationTopicPrefix = iotNotificationTopicPrefix,
              cf_adminJwtIssuer = adminJwtIssuer, cf_adminJwtAudience = adminJwtAudience,
              cf_adminActorSubjectClaim = adminActorSubjectClaim,
              cf_adminJwtScope = optional environment ''ADMIN_JWT_SCOPE'',
              cf_adminJwtRole = optional environment ''ADMIN_JWT_ROLE'',
              cf_adminActorTenantClaim = optional environment ''ADMIN_ACTOR_TENANT_CLAIM'',
              cf_adminExpectedTenantId = optional environment ''ADMIN_EXPECTED_TENANT_ID'',
              cf_maxPayloadBytes = maxPayloadBytes,
              cf_awsEndpointUrl = optional environment ''AWS_ENDPOINT_URL''\<rparr>)))))))))))))))))))))))"

end
