(* ===== verification/Secrets.thy ===== *)
theory Secrets
  imports Config Envelope Cursors Catalog
begin

text \<open>
  Class SecretService, src/src/services/secrets.ts: creation, update, archival and reading of
  secrets, and the maintenance of the read access of agents. The reads a method starts together with
  Promise.all change nothing and are modelled in order.
\<close>

section \<open>Inputs and results\<close>

record CreateSecretInput =
  cs_secretId :: string
  cs_environment :: string
  cs_metadata :: SecretMetadata
  cs_acl :: "Grant list"
  cs_actor :: Actor
  cs_idempotencyKey :: string

record UpdateSecretInput =
  us_secretId :: string
  us_environment :: string
  us_expectedControlVersionId :: string
  us_metadata :: "SecretMetadata option"
  us_acl :: "Grant list option"
  us_payload :: "SecretPayload option"
  us_actor :: Actor
  us_idempotencyKey :: string
  us_allowAgentAcl :: bool

record ArchiveSecretInput =
  ar_secretId :: string
  ar_environment :: string
  ar_expectedControlVersionId :: string
  ar_actor :: Actor
  ar_idempotencyKey :: string

record RevokeConsumerSecretGrantInput =
  rv_consumerId :: string
  rv_secretId :: string
  rv_actor :: Actor
  rv_idempotencyKey :: string
  rv_allowAgentAcl :: bool

record ReconcileAgentReadAccessInput =
  rc_consumerId :: string
  rc_environment :: string
  rc_secretGrants :: "AgentSecretGrant list"
  rc_actor :: Actor

record SecretReadResult =
  rr_notModified :: bool
  rr_controlVersionId :: string
  rr_payloadVersionId :: "string option"
  rr_payload :: "SecretPayload option"

record ActiveSecretPayload =
  ap_controlVersionId :: string
  ap_payloadVersionId :: string
  ap_payload :: SecretPayload

record SecretControlSnapshot =
  ssn_head :: HeadRecord
  ssn_control :: ControlRevision

section \<open>Helpers\<close>

definition controlKey :: "string \<Rightarrow> string \<Rightarrow> string" where
  "controlKey secretUid controlVersionId =
     ''secrets/'' @ secretUid @ ''/control/'' @ controlVersionId @ ''.json''"

definition payloadKey :: "string \<Rightarrow> string \<Rightarrow> string" where
  "payloadKey secretUid payloadVersionId =
     ''secrets/'' @ secretUid @ ''/payload/'' @ payloadVersionId @ ''.json''"

definition sameGrant :: "Grant \<Rightarrow> Grant \<Rightarrow> bool" where
  "sameGrant left right \<longleftrightarrow> g_consumerId left = g_consumerId right
     \<and> g_permissions left = g_permissions right"

definition assertExpectedVersion :: "HeadRecord \<Rightarrow> string \<Rightarrow> ('w, unit) app" where
  "assertExpectedVersion head expected =
     throwIf (h_controlVersionId head \<noteq> expected)
       (preconditionFailed ''If-Match does not name the current control revision.'')"

text \<open>
  The cast of getJson: the body of an object of another kind is not read as this kind, and the code
  fails on the missing properties.
\<close>

definition as_control :: "document \<Rightarrow> ('w, ControlRevision) app" where
  "as_control d = (case d of ControlDoc c \<Rightarrow> ret c
     | _ \<Rightarrow> raise (OtherError ''TypeError'' ''not a control revision''))"

definition as_payload :: "document \<Rightarrow> ('w, PayloadRevision) app" where
  "as_payload d = (case d of PayloadDoc p \<Rightarrow> ret p
     | _ \<Rightarrow> raise (OtherError ''TypeError'' ''not a payload revision''))"

definition getControl :: "'w services \<Rightarrow> AppConfig \<Rightarrow> HeadRecord \<Rightarrow> ('w, ControlRevision) app" where
  "getControl S cfg head =
     (case (h_controlObjectVersionId head, h_controlObjectKey head) of
        (Some v, Some key) \<Rightarrow>
          bindM (bindM (getJson S (cf_revisionBucketName cfg) key (Some v)) as_control)
            (\<lambda>control. ret (control\<lparr>c_secretUid := Some (h_secretUid head)\<rparr>))
      | _ \<Rightarrow> raise (serviceUnavailable
          ''The secret control revision does not have an immutable object version.''))"

definition priorAccess ::
  "'w services \<Rightarrow> Grant list \<Rightarrow> string \<Rightarrow> string \<Rightarrow> ('w, AccessRecord list) app" where
  "priorAccess S acl environment secretId =
     bindM (mapM (\<lambda>grant. getAccess S (g_consumerId grant) environment secretId) acl)
       (\<lambda>resolved. ret (List.map_filter id resolved))"

text \<open>The grants of agents among the consumers of both lists, checked one by one.\<close>

definition agent_acl_kept :: "Grant list \<Rightarrow> Grant list \<Rightarrow> string \<times> AgentGrantRecord option \<Rightarrow> bool" where
  "agent_acl_kept acl priorAcl agentGrant = (case snd agentGrant of
     None \<Rightarrow> True
   | Some _ \<Rightarrow>
       (case (List.find (\<lambda>grant. g_consumerId grant = fst agentGrant) acl,
              List.find (\<lambda>grant. g_consumerId grant = fst agentGrant) priorAcl) of
          (Some current, Some prior) \<Rightarrow> sameGrant current prior | _ \<Rightarrow> False))"

definition consumer_in :: "string \<Rightarrow> ConsumerRecord option \<Rightarrow> bool" where
  "consumer_in environment consumer = (case consumer of None \<Rightarrow> False
     | Some c \<Rightarrow> cn_status c = C_ACTIVE \<and> cn_environment c = environment)"

definition assertAclEnvironment ::
  "'w services \<Rightarrow> Grant list \<Rightarrow> string \<Rightarrow> bool \<Rightarrow> Grant list \<Rightarrow> ('w, unit) app" where
  "assertAclEnvironment S acl environment allowAgentAcl priorAcl =
     bindM (mapM (\<lambda>grant. getConsumer S (g_consumerId grant)) acl) (\<lambda>records.
     thenM (throwIf (\<not> list_all (consumer_in environment) records)
       (forbiddenMsg ''Every ACL grant must name an active consumer in the secret environment.''))
     (if allowAgentAcl then ret ()
      else bindM (mapM (\<lambda>consumerId. bindM (getAgentGrantForConsumer S consumerId)
               (\<lambda>grant. ret (consumerId, grant)))
             (uniq (map g_consumerId acl @ map g_consumerId priorAcl))) (\<lambda>agentGrants.
           throwIf (\<not> list_all (agent_acl_kept acl priorAcl) agentGrants)
             (conflict ''Agent consumer access is managed by its AgentGrant, not the secret ACL.''))))"

definition extendPriorRetention :: "'w services \<Rightarrow> AppConfig \<Rightarrow> HeadRecord option \<Rightarrow> ('w, unit) app" where
  "extendPriorRetention S cfg head = (case head of
     None \<Rightarrow> ret ()
   | Some h \<Rightarrow>
       bindM (sv_now S) (\<lambda>now.
       let retainUntil = now + retentionPeriod
       in thenM (case (h_controlObjectVersionId h, h_controlObjectKey h) of
             (Some v, Some key) \<Rightarrow> extendComplianceRetention S
               \<lparr>o_bucket = cf_revisionBucketName cfg, o_key = key, o_versionId = v,
                o_checksumSha256 = ''''\<rparr> retainUntil
           | _ \<Rightarrow> ret ())
         (case (h_payloadVersionId h, h_payloadObjectVersionId h, h_payloadObjectKey h) of
             (Some _, Some v, Some key) \<Rightarrow> extendComplianceRetention S
               \<lparr>o_bucket = cf_revisionBucketName cfg, o_key = key, o_versionId = v,
                o_checksumSha256 = ''''\<rparr> retainUntil
           | _ \<Rightarrow> ret ())))"

section \<open>Persisting a mutation\<close>

text \<open>The mutation prepared from a control revision; the prepared payload carries its own key and checksum.\<close>

definition prepared_mutation ::
  "'w services \<Rightarrow> ControlRevision \<Rightarrow> PayloadRevision option \<Rightarrow> Actor \<Rightarrow> string \<Rightarrow> string option
     \<Rightarrow> bool \<Rightarrow> string \<Rightarrow> string \<Rightarrow> timestamp \<Rightarrow> PreparedMutation" where
  "prepared_mutation S control payload actor idempotencyKey expected arch secretUid operationId expiresAt = \<lparr>
     pm_operationId = operationId,
     pm_idempotencyKey = idempotencyKey,
     pm_actor = actor,
     pm_requestDigest = sv_sha256HexDoc S (RequestDoc control (payload \<noteq> None)),
     pm_secretId = c_secretId control,
     pm_secretUid = secretUid,
     pm_environment = c_environment control,
     pm_expectedControlVersionId = expected,
     pm_archive = arch,
     pm_control = control,
     pm_controlKey = controlKey secretUid (c_controlVersionId control),
     pm_controlChecksumSha256 = sv_sha256Doc S (ControlDoc control),
     pm_controlBytes = ControlDoc control,
     pm_payload = map_option (\<lambda>p. \<lparr>pp_revision = p,
        pp_key = payloadKey secretUid (p_payloadVersionId p),
        pp_checksumSha256 = sv_sha256Doc S (PayloadDoc p),
        pp_bytes = PayloadDoc p\<rparr>) payload,
     pm_expiresAt = expiresAt \<rparr>"

definition persistMutation ::
  "'w services \<Rightarrow> AppConfig \<Rightarrow> ControlRevision \<Rightarrow> PayloadRevision option \<Rightarrow> Actor \<Rightarrow> string
     \<Rightarrow> string option \<Rightarrow> HeadRecord option \<Rightarrow> AccessRecord list \<Rightarrow> bool \<Rightarrow> ('w, unit) app" where
  "persistMutation S cfg control payload actor idempotencyKey expected priorHead prior arch =
     bindM (getIdempotency S actor idempotencyKey) (\<lambda>idempotency.
     thenM (throwIf (idempotency \<noteq> None) (conflict ''This idempotency key has already been used.''))
     (bindM (orRaise (c_secretUid control)
       (serviceUnavailable ''The secret mutation does not have an internal ID.'')) (\<lambda>secretUid.
      bindM (sv_newId S) (\<lambda>operationId.
      bindM (sv_now S) (\<lambda>now.
      let prepared = prepared_mutation S control payload actor idempotencyKey expected arch
            secretUid operationId (now + 10 * 60 * 1000)
      in thenM (prepareMutation S prepared)
        (bindM (putImmutable S (cf_revisionBucketName cfg) (pm_controlKey prepared)
           (pm_controlBytes prepared)) (\<lambda>controlObject.
         bindM (case pm_payload prepared of
             None \<Rightarrow> ret None
           | Some p \<Rightarrow> bindM (putImmutable S (cf_revisionBucketName cfg) (pp_key p) (pp_bytes p))
               (\<lambda>ob. ret (Some ob))) (\<lambda>payloadObject.
         thenM (extendPriorRetention S cfg priorHead)
           (completeMutation S \<lparr>cm_prepared = prepared, cm_controlObject = controlObject,
              cm_payloadObject = payloadObject, cm_priorHead = priorHead,
              cm_priorAccess = prior\<rparr>)))))))))"

section \<open>Writing\<close>

definition create_control ::
  "CreateSecretInput \<Rightarrow> timestamp \<Rightarrow> string \<Rightarrow> string \<Rightarrow> ControlRevision" where
  "create_control input now uidSuffix versionSuffix = \<lparr>
     c_schemaVersion = 1,
     c_secretUid = Some (''sec-'' @ uidSuffix),
     c_secretId = cs_secretId input,
     c_controlVersionId = ''ctl-'' @ versionSuffix,
     c_payloadVersionId = None,
     c_payloadKeyCount = None,
     c_environment = cs_environment input,
     c_state = S_PENDING_VALUE,
     c_createdAt = now,
     c_createdBy = cs_actor input,
     c_metadata = cs_metadata input,
     c_acl = cs_acl input \<rparr>"

definition secrets_create ::
  "'w services \<Rightarrow> AppConfig \<Rightarrow> CreateSecretInput \<Rightarrow> ('w, ControlRevision) app" where
  "secrets_create S cfg input =
     bindM (environments_require S (cs_environment input)) (\<lambda>_.
     thenM (liftE (assertSecretIdentifier (cs_secretId input) ''secretId''))
     (thenM (assertAclEnvironment S (cs_acl input) (cs_environment input) False [])
     (bindM (sv_now S) (\<lambda>now.
      bindM (sv_newId S) (\<lambda>uid.
      bindM (sv_newId S) (\<lambda>version.
      let control = create_control input now uid version
      in thenM (persistMutation S cfg control None (cs_actor input) (cs_idempotencyKey input)
             None None [] False)
           (ret control)))))))"

definition controlSnapshotFromHead ::
  "'w services \<Rightarrow> AppConfig \<Rightarrow> HeadRecord \<Rightarrow> ('w, SecretControlSnapshot) app" where
  "controlSnapshotFromHead S cfg head =
     bindM (getControl S cfg head) (\<lambda>control. ret \<lparr>ssn_head = head, ssn_control = control\<rparr>)"

definition getControlSnapshot ::
  "'w services \<Rightarrow> AppConfig \<Rightarrow> string \<Rightarrow> string \<Rightarrow> ('w, SecretControlSnapshot) app" where
  "getControlSnapshot S cfg environment secretId =
     bindM (requireHead S environment secretId) (controlSnapshotFromHead S cfg)"

definition getControlRevision ::
  "'w services \<Rightarrow> AppConfig \<Rightarrow> string \<Rightarrow> string \<Rightarrow> ('w, ControlRevision) app" where
  "getControlRevision S cfg environment secretId =
     bindM (getControlSnapshot S cfg environment secretId) (\<lambda>snapshot. ret (ssn_control snapshot))"

definition getControlSnapshotBySecretUid ::
  "'w services \<Rightarrow> AppConfig \<Rightarrow> string \<Rightarrow> ('w, SecretControlSnapshot) app" where
  "getControlSnapshotBySecretUid S cfg secretUid =
     bindM (requireHeadBySecretUid S secretUid) (controlSnapshotFromHead S cfg)"

definition update_control ::
  "UpdateSecretInput \<Rightarrow> SecretControlSnapshot \<Rightarrow> timestamp \<Rightarrow> PayloadRevision option \<Rightarrow> string
     \<Rightarrow> ControlRevision" where
  "update_control input snapshot createdAt payload versionSuffix =
     (let head = ssn_head snapshot; current = ssn_control snapshot
      in \<lparr>c_schemaVersion = 1,
          c_secretUid = Some (h_secretUid head),
          c_secretId = us_secretId input,
          c_controlVersionId = ''ctl-'' @ versionSuffix,
          c_payloadVersionId = (case payload of None \<Rightarrow> c_payloadVersionId current
             | Some p \<Rightarrow> Some (p_payloadVersionId p)),
          c_payloadKeyCount = (case us_payload input of None \<Rightarrow> c_payloadKeyCount current
             | Some entries \<Rightarrow> Some (length entries)),
          c_environment = h_environment head,
          c_state = (if us_payload input = None then c_state current else S_ACTIVE),
          c_createdAt = createdAt,
          c_createdBy = us_actor input,
          c_metadata = (case us_metadata input of None \<Rightarrow> c_metadata current | Some m \<Rightarrow> m),
          c_acl = (case us_acl input of None \<Rightarrow> c_acl current | Some acl \<Rightarrow> acl)\<rparr>)"

definition update_payload ::
  "'w services \<Rightarrow> UpdateSecretInput \<Rightarrow> HeadRecord \<Rightarrow> timestamp \<Rightarrow> ('w, PayloadRevision option) app" where
  "update_payload S input head createdAt = (case us_payload input of
     None \<Rightarrow> ret None
   | Some entries \<Rightarrow>
       bindM (sv_newId S) (\<lambda>version.
       bindM (encrypt S entries
           \<lparr>pb_environment = h_environment head, pb_secretUid = Some (h_secretUid head),
            pb_secretId = us_secretId input, pb_payloadVersionId = ''pay-'' @ version\<rparr>
           (us_actor input) createdAt)
         (\<lambda>revision. ret (Some revision))))"

definition updateFromSnapshot ::
  "'w services \<Rightarrow> AppConfig \<Rightarrow> UpdateSecretInput \<Rightarrow> SecretControlSnapshot \<Rightarrow> ('w, ControlRevision) app" where
  "updateFromSnapshot S cfg input snapshot =
     (let head = ssn_head snapshot; current = ssn_control snapshot;
          acl = (case us_acl input of None \<Rightarrow> c_acl current | Some acl \<Rightarrow> acl)
      in thenM (assertExpectedVersion head (us_expectedControlVersionId input))
        (thenM (assertAclEnvironment S acl (h_environment head) (us_allowAgentAcl input) (c_acl current))
        (bindM (sv_now S) (\<lambda>createdAt.
         bindM (update_payload S input head createdAt) (\<lambda>payload.
         bindM (sv_newId S) (\<lambda>version.
         let control = update_control input snapshot createdAt payload version
         in bindM (priorAccess S (c_acl current) (h_environment head) (us_secretId input)) (\<lambda>prior.
            thenM (persistMutation S cfg control payload (us_actor input) (us_idempotencyKey input)
                (Some (us_expectedControlVersionId input)) (Some head) prior False)
              (ret control))))))))"

definition secrets_update ::
  "'w services \<Rightarrow> AppConfig \<Rightarrow> UpdateSecretInput \<Rightarrow> ('w, ControlRevision) app" where
  "secrets_update S cfg input =
     bindM (getControlSnapshot S cfg (us_environment input) (us_secretId input))
       (updateFromSnapshot S cfg input)"

definition secrets_archive ::
  "'w services \<Rightarrow> AppConfig \<Rightarrow> ArchiveSecretInput \<Rightarrow> ('w, ControlRevision) app" where
  "secrets_archive S cfg input =
     bindM (requireHead S (ar_environment input) (ar_secretId input)) (\<lambda>head.
     thenM (assertExpectedVersion head (ar_expectedControlVersionId input))
     (bindM (getControl S cfg head) (\<lambda>current.
      bindM (sv_newId S) (\<lambda>version.
      bindM (sv_now S) (\<lambda>now.
      let control = current\<lparr>c_secretUid := Some (h_secretUid head),
            c_controlVersionId := ''ctl-'' @ version, c_state := S_ARCHIVED, c_createdAt := now,
            c_createdBy := ar_actor input, c_acl := []\<rparr>
      in bindM (priorAccess S (c_acl current) (h_environment head) (ar_secretId input)) (\<lambda>prior.
         thenM (persistMutation S cfg control None (ar_actor input) (ar_idempotencyKey input)
             (Some (ar_expectedControlVersionId input)) (Some head) prior True)
           (ret control)))))))"

definition revokeConsumerSecretGrant ::
  "'w services \<Rightarrow> AppConfig \<Rightarrow> RevokeConsumerSecretGrantInput \<Rightarrow> ('w, ControlRevision) app" where
  "revokeConsumerSecretGrant S cfg input =
     thenM (liftE (assertIdentifier (rv_consumerId input) ''consumerId''))
     (thenM (liftE (assertSecretIdentifier (rv_secretId input) ''secretId''))
     (bindM (bindM (getConsumer S (rv_consumerId input)) (\<lambda>consumer.
         orRaise consumer (notFound ''The requested consumer was not found.''))) (\<lambda>consumer.
      thenM (if rv_allowAgentAcl input then ret ()
             else bindM (getAgentGrantForConsumer S (rv_consumerId input)) (\<lambda>grant.
               throwIf (grant \<noteq> None)
                 (conflict ''Agent consumer access is managed by its AgentGrant, not the secret ACL.'')))
      (bindM (requireHead S (cn_environment consumer) (rv_secretId input)) (\<lambda>head.
       bindM (getControl S cfg head) (\<lambda>current.
       let acl = filter (\<lambda>grant. g_consumerId grant \<noteq> rv_consumerId input) (c_acl current)
       in thenM (throwIf (length acl = length (c_acl current))
            (notFound ''The consumer does not have access to this secret.''))
          (secrets_update S cfg \<lparr>us_secretId = rv_secretId input,
             us_environment = cn_environment consumer,
             us_expectedControlVersionId = c_controlVersionId current,
             us_metadata = None, us_acl = Some acl, us_payload = None,
             us_actor = rv_actor input, us_idempotencyKey = rv_idempotencyKey input,
             us_allowAgentAcl = rv_allowAgentAcl input\<rparr>)))))))"

section \<open>The read access of agents\<close>

definition grantAgentConsumerReadAccess ::
  "'w services \<Rightarrow> AppConfig \<Rightarrow> string \<Rightarrow> string \<Rightarrow> string \<Rightarrow> string \<Rightarrow> Actor \<Rightarrow> ('w, unit) app" where
  "grantAgentConsumerReadAccess S cfg consumerId environment secretId secretUid actor =
     bindM (requireHead S environment secretId) (\<lambda>head.
       if h_secretUid head \<noteq> secretUid then ret ()
       else bindM (getControl S cfg head) (\<lambda>current.
         if some_in (\<lambda>grant. g_consumerId grant = consumerId) (c_acl current) then ret ()
         else bindM (sv_newId S) (\<lambda>key.
           thenM (secrets_update S cfg \<lparr>us_secretId = secretId, us_environment = environment,
               us_expectedControlVersionId = c_controlVersionId current, us_metadata = None,
               us_acl = Some (c_acl current @ [\<lparr>g_consumerId = consumerId, g_permissions = [PRead]\<rparr>]),
               us_payload = None, us_actor = actor,
               us_idempotencyKey = ''agent-acl-grant-'' @ key, us_allowAgentAcl = True\<rparr>)
             (ret ()))))"

text \<open>The page loop with a bound on the pages; None when the bound is reached first.\<close>

fun listAllConsumerSecretGrants ::
  "nat \<Rightarrow> 'w services \<Rightarrow> string \<Rightarrow> string \<Rightarrow> startKey option \<Rightarrow> ('w, ConsumerSecretGrant list option) app" where
  "listAllConsumerSecretGrants 0 S consumerId environment start = ret None"
| "listAllConsumerSecretGrants (Suc n) S consumerId environment start =
     bindM (listConsumerSecretGrants S consumerId environment start) (\<lambda>page.
       (case csp_nextCursor page of
          None \<Rightarrow> ret (Some (csp_grants page))
        | Some key \<Rightarrow> bindM (listAllConsumerSecretGrants n S consumerId environment (Some key))
            (\<lambda>more. ret (map_option (\<lambda>grants. csp_grants page @ grants) more))))"

text \<open>A Map keyed by identity, in the order of the keys' first insertion.\<close>

definition by_uid :: "('a \<Rightarrow> string) \<Rightarrow> 'a list \<Rightarrow> 'a list" where
  "by_uid key grants = List.map_filter (js_map (map (\<lambda>grant. (key grant, grant)) grants))
     (uniq (map key grants))"

definition reconcileAgentReadAccess ::
  "nat \<Rightarrow> 'w services \<Rightarrow> AppConfig \<Rightarrow> ReconcileAgentReadAccessInput \<Rightarrow> ('w, unit option) app" where
  "reconcileAgentReadAccess pages S cfg input =
     (let desired = by_uid sg_secretUid
            (filter (\<lambda>grant. CRead \<in> set (sg_permissions grant)) (rc_secretGrants input))
      in bindM (listAllConsumerSecretGrants pages S (rc_consumerId input) (rc_environment input) None) (\<lambda>found.
        (case found of
           None \<Rightarrow> ret None
         | Some current \<Rightarrow>
             thenM (forM (\<lambda>grant.
                 if csg_secretUid grant \<in> set (map sg_secretUid desired) then ret ()
                 else bindM (sv_newId S) (\<lambda>key.
                   thenM (revokeConsumerSecretGrant S cfg \<lparr>rv_consumerId = rc_consumerId input,
                       rv_secretId = csg_secretId grant, rv_actor = rc_actor input,
                       rv_idempotencyKey = ''agent-acl-revoke-'' @ key, rv_allowAgentAcl = True\<rparr>)
                     (ret ()))) current)
             (thenM (forM (\<lambda>grant.
                 if sg_secretUid grant \<in> set (map csg_secretUid current) then ret ()
                 else grantAgentConsumerReadAccess S cfg (rc_consumerId input) (rc_environment input)
                   (sg_secretId grant) (sg_secretUid grant) (rc_actor input)) desired)
               (ret (Some ()))))))"

section \<open>Reading\<close>

definition getArchivedControlRevision ::
  "'w services \<Rightarrow> AppConfig \<Rightarrow> string \<Rightarrow> string \<Rightarrow> ('w, ControlRevision) app" where
  "getArchivedControlRevision S cfg environment secretUid =
     bindM (requireHeadBySecretUid S secretUid) (\<lambda>head.
     thenM (throwIf (h_environment head \<noteq> environment \<or> h_state head \<noteq> S_ARCHIVED)
       (notFound ''The requested archived secret was not found.''))
     (getControl S cfg head))"

definition control_agrees :: "ControlRevision \<Rightarrow> string \<Rightarrow> HeadRecord \<Rightarrow> bool" where
  "control_agrees control secretId head \<longleftrightarrow>
     c_schemaVersion control = 1
     \<and> (c_secretUid control = None \<or> c_secretUid control = Some (h_secretUid head))
     \<and> c_secretId control = secretId
     \<and> c_environment control = h_environment head
     \<and> c_controlVersionId control = h_controlVersionId head
     \<and> c_payloadVersionId control = h_payloadVersionId head
     \<and> c_state control = h_state head"

definition payload_agrees :: "PayloadRevision \<Rightarrow> string \<Rightarrow> HeadRecord \<Rightarrow> bool" where
  "payload_agrees payload secretId head \<longleftrightarrow>
     p_schemaVersion payload = 1
     \<and> (p_secretUid payload = None \<or> p_secretUid payload = Some (h_secretUid head))
     \<and> p_secretId payload = secretId
     \<and> p_environment payload = h_environment head
     \<and> Some (p_payloadVersionId payload) = h_payloadVersionId head"

definition readActivePayload ::
  "'w services \<Rightarrow> AppConfig \<Rightarrow> string \<Rightarrow> string \<Rightarrow> HeadRecord \<Rightarrow> ('w, ActiveSecretPayload) app" where
  "readActivePayload S cfg environment secretId head =
     bindM (orRaise (h_payloadVersionId head) (notFound ''The secret has no active payload.'')) (\<lambda>version.
     bindM (getControl S cfg head) (\<lambda>control.
     thenM (throwIf (\<not> control_agrees control secretId head)
       (serviceUnavailable ''The secret head and control revision do not agree.''))
     (case (h_payloadObjectVersionId head, h_payloadObjectKey head) of
        (Some objectVersion, Some key) \<Rightarrow>
          bindM (bindM (getJson S (cf_revisionBucketName cfg) key (Some objectVersion)) as_payload) (\<lambda>payload.
          thenM (throwIf (\<not> payload_agrees payload secretId head)
            (serviceUnavailable ''The secret payload revision does not match the authorized head.''))
          (bindM (decrypt S payload) (\<lambda>plaintext.
            ret \<lparr>ap_controlVersionId = h_controlVersionId head, ap_payloadVersionId = version,
                 ap_payload = plaintext\<rparr>)))
      | _ \<Rightarrow> raise (serviceUnavailable
          ''The secret payload does not have an immutable object version.''))))"

text \<open>What read and the paths that follow it demand of the access row and the head.\<close>

definition access_authorizes :: "string \<Rightarrow> string \<Rightarrow> AccessRecord \<Rightarrow> bool" where
  "access_authorizes environment secretId access \<longleftrightarrow> a_environment access = environment
     \<and> a_secretId access = secretId \<and> PRead \<in> set (a_permissions access) \<and> a_state access \<noteq> S_REVOKED"

definition head_authorizes :: "string \<Rightarrow> AccessRecord \<Rightarrow> HeadRecord \<Rightarrow> bool" where
  "head_authorizes secretId access head \<longleftrightarrow> h_environment head = a_environment access
     \<and> h_secretId head = secretId \<and> h_secretUid head = a_secretUid access \<and> h_state head = S_ACTIVE"

definition secrets_read ::
  "'w services \<Rightarrow> AppConfig \<Rightarrow> string \<Rightarrow> string \<Rightarrow> string \<Rightarrow> string option \<Rightarrow> ('w, unit) app option
     \<Rightarrow> ('w, SecretReadResult) app" where
  "secrets_read S cfg consumerId environment secretId ifNoneMatch onAuthorized =
     bindM (getAccessAndHead S consumerId environment secretId) (\<lambda>authorization.
       (case ah_access authorization of
          None \<Rightarrow> raise forbidden
        | Some access \<Rightarrow>
            if \<not> access_authorizes environment secretId access then raise forbidden
            else (case ah_head authorization of
              None \<Rightarrow> raise forbidden
            | Some head \<Rightarrow>
                if \<not> head_authorizes secretId access head then raise forbidden
                else thenM (case onAuthorized of None \<Rightarrow> ret () | Some notify \<Rightarrow> notify)
                  (if ifNoneMatch = Some (h_controlVersionId head)
                   then ret \<lparr>rr_notModified = True, rr_controlVersionId = h_controlVersionId head,
                             rr_payloadVersionId = h_payloadVersionId head, rr_payload = None\<rparr>
                   else bindM (readActivePayload S cfg environment secretId head) (\<lambda>active.
                     ret \<lparr>rr_notModified = False, rr_controlVersionId = ap_controlVersionId active,
                          rr_payloadVersionId = Some (ap_payloadVersionId active),
                          rr_payload = Some (ap_payload active)\<rparr>)))))"

definition readAdminPayload ::
  "'w services \<Rightarrow> AppConfig \<Rightarrow> string \<Rightarrow> string \<Rightarrow> ('w, ActiveSecretPayload) app" where
  "readAdminPayload S cfg environment secretId =
     bindM (requireHead S environment secretId) (\<lambda>head.
     thenM (throwIf (h_state head \<noteq> S_ACTIVE) (notFound ''The secret has no active payload.''))
     (readActivePayload S cfg environment secretId head))"

end
