(* ===== verification/Secrets_Laws.thy ===== *)
theory Secrets_Laws
  imports Secrets Mutation_Properties
begin

text \<open>
  The runs of the secret service: what a returning mutation did, step by step, and which steps leave
  the control table or the object versions alone.
\<close>

section \<open>Object versions are left alone by table and key requests\<close>

lemma notificationItems_runs:
  "(\<And>k i. keeps v (notificationOutboxRecord S c k i)) \<Longrightarrow> keeps v (notificationItemsFor S c items b)"
  unfolding notificationItemsFor_def Let_def
  by (intro keeps_intro) (auto split: if_splits intro!: keeps_intro)

context object_service
begin

lemma table_reads_keep_objects [keeps_intro]:
  "keeps objects (getSecretUid S e i)" "keeps objects (getHeadBySecretUid S u)"
  "keeps objects (getHead S e i)" "keeps objects (requireHead S e i)"
  "keeps objects (requireHeadBySecretUid S u)" "keeps objects (getConsumer S c)"
  "keeps objects (getAgentGrant S g)" "keeps objects (getAgentGrantForConsumer S c)"
  "keeps objects (getAccessBySecretUid S c e u)" "keeps objects (getAccess S c e i)"
  "keeps objects (getIdempotency S a k)"
  unfolding read_defs by (intro keeps_intro object_keeps)+

lemma getJson_keeps_objects [keeps_intro]: "keeps objects (getJson S b k v)"
  unfolding getJson_def by (intro keeps_intro object_keeps)

lemma getControl_keeps_objects [keeps_intro]: "keeps objects (getControl S cfg h)"
  unfolding getControl_def as_control_def
  by (auto split: option.split document.split intro!: keeps_intro)

lemma encrypt_keeps_objects [keeps_intro]: "keeps objects (encrypt S p b a t)"
  unfolding encrypt_def Let_def
  by (auto split: prod.split option.split intro!: keeps_intro object_keeps)

lemma prepareMutation_keeps_objects [keeps_intro]: "keeps objects (prepareMutation S m)"
  unfolding prepareMutation_def by (intro keeps_intro object_keeps)

lemma outbox_keeps_objects [keeps_intro]: "keeps objects (notificationOutboxRecord S c k i)"
  unfolding notificationOutboxRecord_def by (intro keeps_intro object_keeps)

lemma publish_attempts_keeps_objects: "keeps objects (publish_attempts n S e r build)"
proof (induction n)
  case (Suc n)
  then show ?case
    unfolding publish_attempts.simps Let_def sync_state_def sync_epoch_def sync_ttl_def
    by (intro keeps_intro object_keeps) auto
qed (auto simp: keeps_def)

lemma completeMutation_keeps_objects [keeps_intro]: "keeps objects (completeMutation S c)"
  unfolding completeMutation_def Let_def publish_def
  by (intro keeps_intro object_keeps notificationItems_runs publish_attempts_keeps_objects)

lemma extendPriorRetention_keeps_objects [keeps_intro]: "keeps objects (extendPriorRetention S cfg h)"
  unfolding extendPriorRetention_def Let_def extendComplianceRetention_def
  by (auto split: option.split intro!: keeps_intro object_keeps)

lemma putImmutable_stores:
  assumes "putImmutable S b k d w = (Inr ob, w')"
  shows "objects w' = (objects w)((b, k, o_versionId ob) \<mapsto> d) \<and> objects w (b, k, o_versionId ob) = None
    \<and> o_key ob = k \<and> o_bucket ob = b"
  using assms by (auto simp: putImmutable_def em_ok em_case dest: put_done)

end

section \<open>The control table is left alone by the reads of the service\<close>

context dynamo
begin

lemma service_reads_keep [keeps_intro]:
  "keeps table (getControl S cfg h)" "keeps table (assertExpectedVersion h v)"
  "keeps table (priorAccess S acl e i)" "keeps table (extendPriorRetention S cfg oh)"
  unfolding getControl_def as_control_def assertExpectedVersion_def priorAccess_def
    extendPriorRetention_def Let_def
  by (auto split: option.split document.split intro!: keeps_intro service_keeps)

lemma assertAclEnvironment_keeps [keeps_intro]: "keeps table (assertAclEnvironment S acl e b p)"
  unfolding assertAclEnvironment_def by (intro keeps_intro)

lemma update_payload_keeps [keeps_intro]: "keeps table (update_payload S input h t)"
  unfolding update_payload_def by (auto split: option.split intro!: keeps_intro service_keeps)

lemma snapshot_reads_keep [keeps_intro]:
  "keeps table (controlSnapshotFromHead S cfg h)" "keeps table (getControlSnapshot S cfg e i)"
  "keeps table (getControlRevision S cfg e i)" "keeps table (getControlSnapshotBySecretUid S cfg u)"
  unfolding controlSnapshotFromHead_def getControlSnapshot_def getControlRevision_def
    getControlSnapshotBySecretUid_def
  by (intro keeps_intro)+

end

section \<open>The steps of a persisted mutation\<close>

definition payload_put ::
  "'w services \<Rightarrow> AppConfig \<Rightarrow> PreparedMutation \<Rightarrow> ('w, ObjectReference option) app" where
  "payload_put S cfg m = (case pm_payload m of
     None \<Rightarrow> ret None
   | Some p \<Rightarrow> bindM (putImmutable S (cf_revisionBucketName cfg) (pp_key p) (pp_bytes p))
       (\<lambda>ob. ret (Some ob)))"

lemma persistMutation_ok:
  assumes "persistMutation S cfg control payload actor key expected prior access arch w = (Inr (), w')"
  obtains w1 u op w2 now w3 w4 cob w5 pob w6 w7 m where
    "getIdempotency S actor key w = (Inr None, w1)" "c_secretUid control = Some u"
    "sv_newId S w1 = (Inr op, w2)" "sv_now S w2 = (Inr now, w3)"
    "m = prepared_mutation S control payload actor key expected arch u op (now + 10 * 60 * 1000)"
    "prepareMutation S m w3 = (Inr (), w4)"
    "putImmutable S (cf_revisionBucketName cfg) (pm_controlKey m) (ControlDoc control) w4 = (Inr cob, w5)"
    "payload_put S cfg m w5 = (Inr pob, w6)" "extendPriorRetention S cfg prior w6 = (Inr (), w7)"
    "completeMutation S \<lparr>cm_prepared = m, cm_controlObject = cob, cm_payloadObject = pob,
       cm_priorHead = prior, cm_priorAccess = access\<rparr> w7 = (Inr (), w')"
proof -
  obtain i w1 where i: "getIdempotency S actor key w = (Inr i, w1)" and rest: "i = None"
    "bindM (orRaise (c_secretUid control)
       (serviceUnavailable ''The secret mutation does not have an internal ID.'')) (\<lambda>secretUid.
      bindM (sv_newId S) (\<lambda>operationId.
      bindM (sv_now S) (\<lambda>now.
      let prepared = prepared_mutation S control payload actor key expected arch
            secretUid operationId (now + 10 * 60 * 1000)
      in thenM (prepareMutation S prepared)
        (bindM (putImmutable S (cf_revisionBucketName cfg) (pm_controlKey prepared)
           (pm_controlBytes prepared)) (\<lambda>controlObject.
         bindM (payload_put S cfg prepared) (\<lambda>payloadObject.
         thenM (extendPriorRetention S cfg prior)
           (completeMutation S \<lparr>cm_prepared = prepared, cm_controlObject = controlObject,
              cm_payloadObject = payloadObject, cm_priorHead = prior,
              cm_priorAccess = access\<rparr>))))))) w1 = (Inr (), w')"
    using assms unfolding persistMutation_def payload_put_def bindM_ok thenM_ok throwIf_ok by blast
  then obtain u op w2 now w3 where u: "c_secretUid control = Some u" "sv_newId S w1 = (Inr op, w2)"
    "sv_now S w2 = (Inr now, w3)" and run:
    "(let prepared = prepared_mutation S control payload actor key expected arch u op (now + 10 * 60 * 1000)
      in thenM (prepareMutation S prepared)
        (bindM (putImmutable S (cf_revisionBucketName cfg) (pm_controlKey prepared)
           (pm_controlBytes prepared)) (\<lambda>controlObject.
         bindM (payload_put S cfg prepared) (\<lambda>payloadObject.
         thenM (extendPriorRetention S cfg prior)
           (completeMutation S \<lparr>cm_prepared = prepared, cm_controlObject = controlObject,
              cm_payloadObject = payloadObject, cm_priorHead = prior,
              cm_priorAccess = access\<rparr>))))) w3 = (Inr (), w')"
    unfolding bindM_ok orRaise_ok by blast
  define m where "m = prepared_mutation S control payload actor key expected arch u op (now + 10 * 60 * 1000)"
  have "pm_controlBytes m = ControlDoc control" by (simp add: m_def prepared_mutation_def)
  with run obtain w4 cob w5 pob w6 w7 where
    "prepareMutation S m w3 = (Inr (), w4)"
    "putImmutable S (cf_revisionBucketName cfg) (pm_controlKey m) (ControlDoc control) w4 = (Inr cob, w5)"
    "payload_put S cfg m w5 = (Inr pob, w6)" "extendPriorRetention S cfg prior w6 = (Inr (), w7)"
    "completeMutation S \<lparr>cm_prepared = m, cm_controlObject = cob, cm_payloadObject = pob,
       cm_priorHead = prior, cm_priorAccess = access\<rparr> w7 = (Inr (), w')"
    unfolding Let_def m_def [symmetric] bindM_ok thenM_ok by auto
  with i rest(1) u m_def that show ?thesis by blast
qed

text \<open>The same steps, with the tables before and after the two transactions.\<close>

lemma persist_steps:
  assumes D: "dynamo S table"
    and run: "persistMutation S cfg control payload actor key expected prior access arch w = (Inr (), w')"
  obtains w1 u op w2 now w3 w4 cob w5 pob w6 w7 m t where
    "getIdempotency S actor key w = (Inr None, w1)" "c_secretUid control = Some u"
    "sv_newId S w1 = (Inr op, w2)" "sv_now S w2 = (Inr now, w3)"
    "m = prepared_mutation S control payload actor key expected arch u op (now + 10 * 60 * 1000)"
    "prepareMutation S m w3 = (Inr (), w4)" "committed (prepare_actions m t) (table w) (table w4)"
    "putImmutable S (cf_revisionBucketName cfg) (pm_controlKey m) (ControlDoc control) w4 = (Inr cob, w5)"
    "payload_put S cfg m w5 = (Inr pob, w6)" "extendPriorRetention S cfg prior w6 = (Inr (), w7)"
    "table w7 = table w4"
    "completeMutation S \<lparr>cm_prepared = m, cm_controlObject = cob, cm_payloadObject = pob,
       cm_priorHead = prior, cm_priorAccess = access\<rparr> w7 = (Inr (), w')"
proof -
  obtain w1 u op w2 now w3 w4 cob w5 pob w6 w7 m where
    i: "getIdempotency S actor key w = (Inr None, w1)" and u: "c_secretUid control = Some u" and
    id: "sv_newId S w1 = (Inr op, w2)" and now: "sv_now S w2 = (Inr now, w3)" and
    m: "m = prepared_mutation S control payload actor key expected arch u op (now + 10 * 60 * 1000)" and
    prep: "prepareMutation S m w3 = (Inr (), w4)" and
    put: "putImmutable S (cf_revisionBucketName cfg) (pm_controlKey m) (ControlDoc control) w4 = (Inr cob, w5)" and
    pay: "payload_put S cfg m w5 = (Inr pob, w6)" and
    ret: "extendPriorRetention S cfg prior w6 = (Inr (), w7)" and
    comp: "completeMutation S \<lparr>cm_prepared = m, cm_controlObject = cob, cm_payloadObject = pob,
       cm_priorHead = prior, cm_priorAccess = access\<rparr> w7 = (Inr (), w')"
    by (rule persistMutation_ok [OF run])
  have t3: "table w3 = table w"
    using keepsD [OF dynamo.reads_keep_table(14) [OF D] i] dynamo.newId_run [OF D id] dynamo.now_run [OF D now]
    by simp
  have "keeps table (payload_put S cfg m)"
    unfolding payload_put_def by (auto split: option.split intro!: keeps_intro dynamo.putImmutable_keeps [OF D])
  then have t7: "table w7 = table w4"
    using keepsD [OF dynamo.putImmutable_keeps [OF D] put] pay
      keepsD [OF dynamo.service_reads_keep(4) [OF D] ret] by (metis keepsD)
  obtain t where "committed (prepare_actions m t) (table w) (table w4)"
    using dynamo.prepareMutation_commits [OF D prep] t3 by auto
  with i u id now m prep put pay ret t7 comp that show ?thesis by blast
qed

text \<open>
  What a returned persistMutation left behind: the request under an unused key, the head moved from the
  expected version (or created), and the object versions it names.
\<close>

definition head_before :: "table \<Rightarrow> PreparedMutation \<Rightarrow> HeadRecord \<Rightarrow> bool" where
  "head_before t m h \<longleftrightarrow> (case pm_expectedControlVersionId m of
     None \<Rightarrow> head_of t (pm_secretUid m) = None \<and> h = new_head m
       \<and> t (secretNamePk (pm_environment m) (pm_secretId m), ''LOOKUP'') = None
   | Some v \<Rightarrow> (\<exists>h0. head_of t (pm_secretUid m) = Some h0 \<and> h_controlVersionId h0 = v
       \<and> h = h0\<lparr>h_leaseOwner := Some (pm_operationId m), h_leaseExpiresAt := Some (pm_expiresAt m)\<rparr>))"

lemma persisted:
  assumes D: "dynamo S table" and O: "object_service S objects"
    and run: "persistMutation S cfg control payload actor key expected prior access arch w = (Inr (), w')"
  obtains u m cob pob h n where
    "c_secretUid control = Some u" "pm_secretUid m = u" "pm_control m = control" "pm_archive m = arch"
    "pm_secretId m = c_secretId control" "pm_environment m = c_environment control"
    "pm_expectedControlVersionId m = expected"
    "map_option pp_revision (pm_payload m) = payload"
    "head_before (table w) m h"
    "head_of (table w') u = Some (complete_head \<lparr>cm_prepared = m, cm_controlObject = cob,
       cm_payloadObject = pob, cm_priorHead = prior, cm_priorAccess = access\<rparr> n h)"
    "objects w' (cf_revisionBucketName cfg, o_key cob, o_versionId cob) = Some (ControlDoc control)"
    "\<forall>k d. objects w k = Some d \<longrightarrow> objects w' k = Some d"
    "payload = None \<longrightarrow> pob = None"
    "\<forall>p. payload = Some p \<longrightarrow> (\<exists>ob. pob = Some ob
       \<and> objects w' (cf_revisionBucketName cfg, o_key ob, o_versionId ob) = Some (PayloadDoc p))"
proof -
  obtain w1 u op w2 now w3 w4 cob w5 pob w6 w7 m t where
    i: "getIdempotency S actor key w = (Inr None, w1)" and u: "c_secretUid control = Some u" and
    id: "sv_newId S w1 = (Inr op, w2)" and now: "sv_now S w2 = (Inr now, w3)" and
    m: "m = prepared_mutation S control payload actor key expected arch u op (now + 10 * 60 * 1000)" and
    prep: "prepareMutation S m w3 = (Inr (), w4)" and c: "committed (prepare_actions m t) (table w) (table w4)" and
    put: "putImmutable S (cf_revisionBucketName cfg) (pm_controlKey m) (ControlDoc control) w4 = (Inr cob, w5)" and
    pay: "payload_put S cfg m w5 = (Inr pob, w6)" and
    ret: "extendPriorRetention S cfg prior w6 = (Inr (), w7)" and t7: "table w7 = table w4" and
    comp: "completeMutation S \<lparr>cm_prepared = m, cm_controlObject = cob, cm_payloadObject = pob,
       cm_priorHead = prior, cm_priorAccess = access\<rparr> w7 = (Inr (), w')"
    by (rule persist_steps [OF D run])
  let ?c = "\<lparr>cm_prepared = m, cm_controlObject = cob, cm_payloadObject = pob,
       cm_priorHead = prior, cm_priorAccess = access\<rparr>"
  note sel = m [unfolded prepared_mutation_def]
  define h where "h = (case pm_expectedControlVersionId m of None \<Rightarrow> new_head m
    | Some v \<Rightarrow> (the (head_of (table w) u))\<lparr>h_leaseOwner := Some (pm_operationId m),
        h_leaseExpiresAt := Some (pm_expiresAt m)\<rparr>)"
  have hb: "head_before (table w) m h" "head_of (table w4) u = Some h"
  proof -
    have lk: "table w (secretNamePk (pm_environment m) (pm_secretId m), ''LOOKUP'') = None"
      if "pm_expectedControlVersionId m = None"
    proof -
      have "Put (secretNamePk (pm_environment m) (pm_secretId m), ''LOOKUP'')
        (LookupIt \<lparr>l_secretUid = pm_secretUid m, l_secretId = pm_secretId m, l_environment = pm_environment m\<rparr>)
        attribute_not_exists_pk \<in> set (prepare_actions m t)"
        using that by (simp add: prepare_actions_def prepare_head_actions_def)
      from committed_Put [OF c this] show ?thesis by simp
    qed
    have "pm_secretUid m = u" by (simp add: sel)
    with prepare_head [OF c] lk show "head_before (table w) m h" "head_of (table w4) u = Some h"
      by (auto simp: head_before_def h_def split: option.splits)
  qed
  have "\<exists>n h1. head_of (table w7) u = Some h1 \<and> head_of (table w') u = Some (complete_head ?c n h1)"
  proof (rule dynamo.completion_committed [OF D comp], goal_cases)
    case (1 epoch ttl due ns x y)
    from completion_views(1) [OF 1(1)] show ?case by (auto simp: sel)
  qed
  then obtain n where n: "head_of (table w') u = Some (complete_head ?c n h)" using t7 hb(2) by auto
  note keepo = object_service.table_reads_keep_objects(11) [OF O, THEN keepsD, OF i]
    object_service.newId_keeps_objects [OF O, THEN keepsD, OF id]
    object_service.now_keeps_objects [OF O, THEN keepsD, OF now]
    object_service.prepareMutation_keeps_objects [OF O, THEN keepsD, OF prep]
    object_service.extendPriorRetention_keeps_objects [OF O, THEN keepsD, OF ret]
    object_service.completeMutation_keeps_objects [OF O, THEN keepsD, OF comp]
  note stored = object_service.putImmutable_stores [OF O put]
  have step: "objects w6 k = Some d" if "objects w5 k = Some d" for k d
    using pay that object_service.putImmutable_stores [OF O]
    by (auto simp: payload_put_def em_ok em_case)
  have "objects w' (cf_revisionBucketName cfg, o_key cob, o_versionId cob) = Some (ControlDoc control)"
    using stored keepo step by simp
  moreover have "objects w' k = Some d" if "objects w k = Some d" for k d
    using that stored keepo step by (metis fun_upd_apply option.distinct(1))
  moreover have "pob = None" if "payload = None"
    using pay that by (simp add: payload_put_def sel)
  moreover have "\<exists>ob. pob = Some ob
       \<and> objects w' (cf_revisionBucketName cfg, o_key ob, o_versionId ob) = Some (PayloadDoc p)"
    if "payload = Some p" for p
    using pay that object_service.putImmutable_stores [OF O] keepo
    by (fastforce simp: payload_put_def sel em_ok)
  moreover have "map_option pp_revision (pm_payload m) = payload"
    by (cases payload) (simp_all add: sel)
  ultimately show ?thesis
    using that [of u m h cob pob n] u hb(1) n by (simp add: sel)
qed

text \<open>What a persisted mutation does to the names.\<close>

lemma prepare_names:
  assumes "committed (prepare_actions m now) t t'"
  shows "uid_of t' e i = (if pm_expectedControlVersionId m = None
      \<and> secretNamePk e i = secretNamePk (pm_environment m) (pm_secretId m)
    then Some (pm_secretUid m) else uid_of t e i)"
proof (cases "pm_expectedControlVersionId m = None
    \<and> secretNamePk e i = secretNamePk (pm_environment m) (pm_secretId m)")
  case True
  then have "Put (secretNamePk e i, ''LOOKUP'') (LookupIt \<lparr>l_secretUid = pm_secretUid m,
      l_secretId = pm_secretId m, l_environment = pm_environment m\<rparr>) attribute_not_exists_pk
      \<in> set (prepare_actions m now)" by (simp add: prepare_actions_def prepare_head_actions_def)
  from committed_Put(2) [OF assms this] True show ?thesis by (simp add: uid_of_def)
next
  case False
  then have "(secretNamePk e i, ''LOOKUP'') \<notin> action_key ` set (prepare_actions m now)"
    by (auto simp: prepare_actions_def prepare_head_actions_def split: option.splits)
  from committed_other [OF assms this] False show ?thesis by (auto simp: uid_of_def)
qed

lemma persisted_names:
  assumes D: "dynamo S table"
    and run: "persistMutation S cfg control payload actor key expected prior access arch w = (Inr (), w')"
  shows "uid_of (table w') e i =
    (if secretNamePk e i = secretNamePk (c_environment control) (c_secretId control) \<and> (arch \<or> expected = None)
     then if arch then None else c_secretUid control else uid_of (table w) e i)"
proof -
  obtain w4 u op now w7 cob pob m t where u: "c_secretUid control = Some u" and
    m: "m = prepared_mutation S control payload actor key expected arch u op (now + 10 * 60 * 1000)" and
    c: "committed (prepare_actions m t) (table w) (table w4)" and t7: "table w7 = table w4" and
    comp: "completeMutation S \<lparr>cm_prepared = m, cm_controlObject = cob, cm_payloadObject = pob,
       cm_priorHead = prior, cm_priorAccess = access\<rparr> w7 = (Inr (), w')"
    by (rule persist_steps [OF D run])
  have sel: "pm_environment m = c_environment control" "pm_secretId m = c_secretId control"
    "pm_secretUid m = u" "pm_expectedControlVersionId m = expected" "pm_archive m = arch"
    unfolding m prepared_mutation_def by simp_all
  have "uid_of (table w') e i = (if arch
      \<and> secretNamePk e i = secretNamePk (c_environment control) (c_secretId control) then None
     else uid_of (table w7) e i)"
  proof (rule dynamo.completion_committed [OF D comp], goal_cases)
    case (1 epoch ttl due ns x y)
    note com = 1(1)
    show ?case
    proof (cases "arch \<and> secretNamePk e i = secretNamePk (c_environment control) (c_secretId control)")
      case True
      then have "Delete (secretNamePk e i, ''LOOKUP'') (\<lambda>i. as_lookup i = Some u)
          \<in> set (sync_items (pm_environment m) (counter_of (table w7) (pm_environment m)) epoch
       (head_sequence (table w7 (secretPk (pm_secretUid m), ''HEAD'')))
       (syncRecord (pm_secretUid m) (pm_control m)) ttl
       (\<lambda>sequence. complete_head_action \<lparr>cm_prepared = m, cm_controlObject = cob, cm_payloadObject = pob,
       cm_priorHead = prior, cm_priorAccess = access\<rparr> sequence # complete_rest \<lparr>cm_prepared = m, cm_controlObject = cob, cm_payloadObject = pob,
       cm_priorHead = prior, cm_priorAccess = access\<rparr> due ns))"
        by (simp add: sync_items_def Let_def complete_rest_def archive_actions_def sel)
      from committed_Delete(2) [OF com [simplified] this] True show ?thesis by (simp add: uid_of_def)
    next
      case False
      with completion_other_name [OF com, of e i] sel show ?thesis by auto
    qed
  qed
  with t7 prepare_names [OF c, of e i] sel u show ?thesis by auto
qed

lemma persisted_other_heads:
  assumes D: "dynamo S table"
    and run: "persistMutation S cfg control payload actor key expected prior access arch w = (Inr (), w')"
    and other: "c_secretUid control \<noteq> Some v"
  shows "head_of (table w') v = head_of (table w) v"
proof -
  obtain w4 u op now w7 cob pob m t where u: "c_secretUid control = Some u" and
    m: "m = prepared_mutation S control payload actor key expected arch u op (now + 10 * 60 * 1000)" and
    c: "committed (prepare_actions m t) (table w) (table w4)" and t7: "table w7 = table w4" and
    comp: "completeMutation S \<lparr>cm_prepared = m, cm_controlObject = cob, cm_payloadObject = pob,
       cm_priorHead = prior, cm_priorAccess = access\<rparr> w7 = (Inr (), w')"
    by (rule persist_steps [OF D run])
  have v: "v \<noteq> pm_secretUid m" using other u by (simp add: m prepared_mutation_def)
  have "head_of (table w') v = head_of (table w7) v"
  proof (rule dynamo.completion_committed [OF D comp], goal_cases)
    case (1 epoch ttl due ns x y)
    from completion_views(2) [OF 1(1)] v show ?case by simp
  qed
  with prepare_other(2) [OF c v] t7 show ?thesis by simp
qed

end
