(* ===== verification/Secret_Examples.thy ===== *)
theory Secret_Examples
  imports Secrets Examples
begin

text \<open>
  A run of the secret service on the in-memory services: the secret of theory Examples, created and
  stored, gets its first payload by an update, is read, and is archived.
\<close>

section \<open>The world before\<close>

definition sx_config :: AppConfig where
  "sx_config = \<lparr>cf_region = ''eu'', cf_environmentName = ''test'', cf_controlTableName = ''control'',
     cf_workflowDueIndex = ''w'', cf_retentionDueIndex = ''r'', cf_catalogPathIndex = ''p'',
     cf_consumerDirectoryIndex = ''d'', cf_consumerIdentityIndex = ''i'', cf_secretRevisionIndex = ''s'',
     cf_revisionBucketName = ''rev'', cf_truststoreBucketName = ''trust'', cf_truststoreKeyPrefix = ''t'',
     cf_payloadKmsKeyArn = ''arn'', cf_auditBucketName = ''aud'', cf_auditPrefix = ''audit'',
     cf_deliveryApiCustomDomainName = ''dom'', cf_deliveryApiHostname = ''host'', cf_iotEndpoint = ''iot'',
     cf_iotNotificationPolicyName = ''pol'', cf_iotNotificationTopicPrefix = ''hemlig'',
     cf_adminJwtIssuer = ''iss'', cf_adminJwtAudience = ''aud'', cf_adminActorSubjectClaim = ''sub'',
     cf_adminJwtScope = None, cf_adminJwtRole = None, cf_adminActorTenantClaim = None,
     cf_adminExpectedTenantId = None, cf_maxPayloadBytes = 768000, cf_awsEndpointUrl = None\<rparr>"

definition sx_current :: ControlRevision where
  "sx_current = pm_control ex_create"

definition sx_consumer :: "string \<Rightarrow> dkey \<times> item" where
  "sx_consumer i = ((consumerPk i, ''PROFILE''), ConsumerIt \<lparr>cn_consumerId = i, cn_environment = ''prod'',
     cn_subjectUri = ''uri'', cn_status = C_ACTIVE, cn_createdAt = 1, cn_createdBy = ex_actor,
     cn_pendingEnrollmentOperationId = None, cn_consumerDirectoryPk = None, cn_consumerDirectorySk = None\<rparr>)"

text \<open>The consumer is an agent, whose grant lets it read and write the secret.\<close>

definition sx_grant :: AgentGrantRecord where
  "sx_grant = \<lparr>ag_grantId = ''g1'', ag_consumerId = ''c1'', ag_environment = ''prod'',
     ag_capabilities = [CRead, CWrite],
     ag_secretGrants = Some [\<lparr>sg_secretId = ''db/pw'', sg_secretUid = ''s1'', sg_permissions = [CRead, CWrite]\<rparr>],
     ag_displayName = None, ag_status = G_ACTIVE, ag_createdAt = 1, ag_createdBy = ex_actor,
     ag_activatedAt = Some 1, ag_activatedFingerprint = Some ''f''\<rparr>"

definition sx_mapping :: "dkey \<times> item" where
  "sx_mapping = ((consumerPk ''c1'', ''AGENT_GRANT''), GrantMappingIt (Some ''g1''))"

definition sx_grant_item :: "dkey \<times> item" where
  "sx_grant_item = ((agentGrantPk ''g1'', ''PROFILE''), AgentGrantIt sx_grant)"

definition sx_items :: "(dkey \<times> item) list" where
  "sx_items = [sx_consumer ''c1'', sx_mapping, sx_grant_item, ex_lookup, (ex_head_key, HeadItem ex_head1),
     ((syncPk ''prod'', ''STATE''), ex_state 1), (ex_control_key ''v1'', WorkflowIt (ex_ready ex_create)),
     ex_access ex_create ''c1'', ex_row ex_create 1]"

definition sx_object :: "(string \<times> string \<times> string) \<times> document" where
  "sx_object = ((''rev'', ''k-v1'', ''ov''), ControlDoc sx_current)"

definition sx_world :: ref_world where
  "sx_world = \<lparr>rw_items = sx_items, rw_objects = [sx_object], rw_clock = 1000, rw_counter = 0\<rparr>"

definition sx_secret :: SecretPayload where
  "sx_secret = [(''key'', \<lparr>se_encoding = Utf8, se_value = ''v''\<rparr>)]"

definition sx_update :: UpdateSecretInput where
  "sx_update = \<lparr>us_secretId = ''db/pw'', us_environment = ''prod'', us_expectedControlVersionId = ''v1'',
     us_metadata = None, us_acl = None, us_payload = Some sx_secret, us_actor = ex_actor,
     us_idempotencyKey = ''k9'', us_allowAgentAcl = False\<rparr>"

lemmas sx_keys = ex_keys accessSk_def accessSkPrefix_def identityPk_def

lemma sx_at [simp]:
  "ref_table sx_world (secretNamePk ''prod'' ''db/pw'', ''LOOKUP'') = Some (snd ex_lookup)"
  "ref_table sx_world (secretPk ''s1'', ''HEAD'') = Some (HeadItem ex_head1)"
  "ref_table sx_world (consumerPk ''c1'', ''PROFILE'') = Some (snd (sx_consumer ''c1''))"
  "ref_table sx_world (consumerPk ''c1'', ''AGENT_GRANT'') = Some (snd sx_mapping)"
  "ref_table sx_world (agentGrantPk ''g1'', ''PROFILE'') = Some (AgentGrantIt sx_grant)"
  "ref_table sx_world (consumerPk ''c1'', accessSk ''prod'' ''s1'') = Some (snd (ex_access ex_create ''c1''))"
  by (simp_all add: ref_table_def sx_world_def sx_items_def sx_keys sx_consumer_def ex_access_def ex_row_def
      sx_mapping_def sx_grant_item_def)

lemma sx_head_fields [simp]:
  "h_secretUid ex_head1 = ''s1''" "h_secretId ex_head1 = ''db/pw''" "h_environment ex_head1 = ''prod''"
  "h_controlVersionId ex_head1 = ''v1''" "h_controlObjectVersionId ex_head1 = Some ''ov''"
  "h_controlObjectKey ex_head1 = Some ''k-v1''" "h_payloadVersionId ex_head1 = None"
  "h_leaseOwner ex_head1 = None" "h_leaseExpiresAt ex_head1 = None" "h_state ex_head1 = S_PENDING_VALUE"
  "h_syncSequence ex_head1 = Some 1" "h_payloadObjectVersionId ex_head1 = None" "h_payloadObjectKey ex_head1 = None"
  by (simp_all add: ex_head1_def complete_head_def new_head_def ex_data Let_def next_payload_triple_def)

lemma sx_current_fields [simp]:
  "c_acl sx_current = [\<lparr>g_consumerId = ''c1'', g_permissions = [PRead]\<rparr>]" "c_secretUid sx_current = Some ''s1''"
  "c_secretId sx_current = ''db/pw''" "c_environment sx_current = ''prod''" "c_payloadVersionId sx_current = None"
  "c_controlVersionId sx_current = ''v1''" "c_state sx_current = S_PENDING_VALUE" "c_schemaVersion sx_current = 1"
  "c_metadata sx_current = \<lparr>md_description = None, md_tags = None\<rparr>" "c_createdAt sx_current = 1000"
  by (simp_all add: sx_current_def ex_data)

lemma sx_config_bucket [simp]: "cf_revisionBucketName sx_config = ''rev''"
  by (simp add: sx_config_def)

lemma sx_world_fields [simp]: "rw_clock sx_world = 1000" "rw_counter sx_world = 0" "rw_items sx_world = sx_items"
  "rw_objects sx_world = [sx_object]"
  by (simp_all add: sx_world_def)

lemma sx_show [simp]: "show_nat 5 = ''5''" "show_nat 6 = ''6''" "show_nat 7 = ''7''" "show_nat 8 = ''8''"
  "show_nat (Suc (Suc 0)) = ''2''"
  by code_simp+

lemma sx_requireHead: "requireHead ref_services ''prod'' ''db/pw'' sx_world = (Inr ex_head1, sx_world)"
  by (simp add: requireHead_def getHead_def getSecretUid_def getHeadBySecretUid_def bindM_def ref_get_def
      orRaise_def ex_lookup_def)

lemma sx_getControl: "getControl ref_services sx_config ex_head1 sx_world = (Inr sx_current, sx_world)"
proof -
  have "ref_objects sx_world (''rev'', ''k-v1'', ''ov'') = Some (ControlDoc sx_current)"
    by (simp add: ref_objects_def sx_object_def)
  then show ?thesis
    by (simp add: getControl_def getJson_def bindM_def ref_getObject_def Let_def as_control_def)
qed

lemma sx_snapshot: "getControlSnapshot ref_services sx_config ''prod'' ''db/pw'' sx_world
    = (Inr \<lparr>ssn_head = ex_head1, ssn_control = sx_current\<rparr>, sx_world)"
  by (simp add: getControlSnapshot_def controlSnapshotFromHead_def bindM_def sx_requireHead sx_getControl)

lemma sx_acl: "assertAclEnvironment ref_services [\<lparr>g_consumerId = ''c1'', g_permissions = [PRead]\<rparr>] ''prod'' False
    [\<lparr>g_consumerId = ''c1'', g_permissions = [PRead]\<rparr>] sx_world = (Inr (), sx_world)"
  by (simp add: assertAclEnvironment_def bindM_def thenM_def throwIf_def getConsumer_def ref_get_def
      getAgentGrantForConsumer_def getAgentGrant_def sx_mapping_def sx_consumer_def consumer_in_def agent_acl_kept_def
      sameGrant_def)

definition sx_binding :: PayloadBinding where
  "sx_binding = \<lparr>pb_environment = ''prod'', pb_secretUid = Some ''s1'', pb_secretId = ''db/pw'',
     pb_payloadVersionId = ''pay-id0''\<rparr>"

definition sx_revision :: PayloadRevision where
  "sx_revision = \<lparr>p_schemaVersion = 1, p_secretUid = Some ''s1'', p_secretId = ''db/pw'',
     p_payloadVersionId = ''pay-id0'', p_environment = ''prod'', p_createdAt = 1000, p_createdBy = ex_actor,
     p_payload = \<lparr>ep_encryptedDataKey = enc_strs (''key1'' # flat_context (envelope_context sx_binding)),
       ep_iv = ''iv2'', ep_tag = enc_strs (''key1'' # ''iv2'' # flat_context (envelope_context sx_binding)),
       ep_ciphertext = enc_strs (flat_payload sx_secret)\<rparr>\<rparr>"

lemma sx_payload: "update_payload ref_services sx_update ex_head1 1000 sx_world
    = (Inr (Some sx_revision), sx_world\<lparr>rw_counter := 3\<rparr>)"
  by (simp add: update_payload_def sx_update_def bindM_def ref_fresh_def ref_tick_def encrypt_def
      ref_generateDataKey_def Let_def ref_gcmSeal_def envelope_aad_def sx_revision_def sx_binding_def
      envelope_context_def)

definition sx_control :: ControlRevision where
  "sx_control = update_control sx_update \<lparr>ssn_head = ex_head1, ssn_control = sx_current\<rparr> 1000
     (Some sx_revision) ''id3''"

lemma sx_control_fields [simp]:
  "c_secretUid sx_control = Some ''s1''" "c_secretId sx_control = ''db/pw''" "c_environment sx_control = ''prod''"
  "c_controlVersionId sx_control = ''ctl-id3''" "c_payloadVersionId sx_control = Some ''pay-id0''"
  "c_state sx_control = S_ACTIVE" "c_acl sx_control = [\<lparr>g_consumerId = ''c1'', g_permissions = [PRead]\<rparr>]"
  "c_createdAt sx_control = 1000" "c_schemaVersion sx_control = 1"
  "c_metadata sx_control = \<lparr>md_description = None, md_tags = None\<rparr>" "c_payloadKeyCount sx_control = Some 1"
  by (simp_all add: sx_control_def update_control_def Let_def sx_update_def sx_revision_def sx_secret_def)

definition sx_access :: AccessRecord where
  "sx_access = accessItem ''s1'' (pm_control ex_create) ''c1''"

lemma sx_priorAccess: "priorAccess ref_services [\<lparr>g_consumerId = ''c1'', g_permissions = [PRead]\<rparr>] ''prod'' ''db/pw''
    (sx_world\<lparr>rw_counter := n\<rparr>) = (Inr [sx_access], sx_world\<lparr>rw_counter := n\<rparr>)"
proof -
  have t: "ref_table (sx_world\<lparr>rw_counter := n\<rparr>) = ref_table sx_world" by (simp add: ref_table_def fun_eq_iff)
  show ?thesis
    by (simp add: priorAccess_def bindM_def getAccess_def getSecretUid_def getAccessBySecretUid_def ref_get_def t
        ex_lookup_def ex_access_def sx_access_def List.map_filter_def)
qed

section \<open>The update\<close>

definition sx_mutation :: PreparedMutation where
  "sx_mutation = prepared_mutation ref_services sx_control (Some sx_revision) ex_actor ''k9'' (Some ''v1'')
     False ''s1'' ''id4'' 601000"

definition sx_prepared_payload :: PreparedPayload where
  "sx_prepared_payload = \<lparr>pp_revision = sx_revision, pp_key = payloadKey ''s1'' ''pay-id0'',
     pp_checksumSha256 = ''sum'', pp_bytes = PayloadDoc sx_revision\<rparr>"

lemma sx_mutation_fields [simp]:
  "pm_operationId sx_mutation = ''id4''" "pm_idempotencyKey sx_mutation = ''k9''" "pm_actor sx_mutation = ex_actor"
  "pm_secretId sx_mutation = ''db/pw''" "pm_secretUid sx_mutation = ''s1''" "pm_environment sx_mutation = ''prod''"
  "pm_expectedControlVersionId sx_mutation = Some ''v1''" "pm_archive sx_mutation = False"
  "pm_control sx_mutation = sx_control" "pm_controlKey sx_mutation = controlKey ''s1'' ''ctl-id3''"
  "pm_payload sx_mutation = Some sx_prepared_payload" "pm_expiresAt sx_mutation = 601000"
  "pm_controlBytes sx_mutation = ControlDoc sx_control"
  by (simp_all add: sx_mutation_def prepared_mutation_def sx_prepared_payload_def sx_revision_def)

lemma sx_revision_version [simp]: "p_payloadVersionId sx_revision = ''pay-id0''"
  by (simp add: sx_revision_def)

lemma sx_prepared_fields [simp]: "pp_revision sx_prepared_payload = sx_revision"
  "pp_key sx_prepared_payload = payloadKey ''s1'' ''pay-id0''" "pp_bytes sx_prepared_payload = PayloadDoc sx_revision"
  by (simp_all add: sx_prepared_payload_def)

definition sx_leased :: HeadRecord where
  "sx_leased = ex_head1\<lparr>h_leaseOwner := Some ''id4'', h_leaseExpiresAt := Some 601000\<rparr>"

definition sx_request :: "dkey \<times> item" where
  "sx_request = ((idempotencyPk ex_actor, requestSk ''k9''), IdempotencyIt (prepared_request sx_mutation))"

definition sx_payload_key :: dkey where
  "sx_payload_key = (secretPk ''s1'', payloadSk ''pay-id0'')"

definition sx_items1 :: "(dkey \<times> item) list" where
  "sx_items1 = [sx_request, (ex_control_key ''ctl-id3'', WorkflowIt (prepared_control sx_mutation)),
     (sx_payload_key, WorkflowIt (prepared_payload sx_mutation sx_prepared_payload)),
     (ex_head_key, HeadItem sx_leased), sx_consumer ''c1'', sx_mapping, sx_grant_item, ex_lookup,
     ((syncPk ''prod'', ''STATE''), ex_state 1), (ex_control_key ''v1'', WorkflowIt (ex_ready ex_create)),
     ex_access ex_create ''c1'', ex_row ex_create 1]"

lemmas sx_item_defs = sx_items_def sx_items1_def sx_request_def sx_payload_key_def sx_consumer_def ex_access_def
  sx_mapping_def sx_grant_item_def ex_row_def sx_keys ex_actor_def

lemma sx_prepared: "prepareMutation ref_services sx_mutation (sx_world\<lparr>rw_counter := 5\<rparr>)
    = (Inr (), sx_world\<lparr>rw_counter := 5, rw_items := sx_items1\<rparr>)"
  by (simp add: prepareMutation_def prepare_actions_def prepare_head_actions_def bindM_def catchM_def
      ref_transactWrite_def ref_conds_def ref_apply_def List.map_filter_def sx_item_defs sx_leased_def lease_free_def)

lemma sx_idempotency: "getIdempotency ref_services ex_actor ''k9'' (sx_world\<lparr>rw_counter := n\<rparr>)
    = (Inr None, sx_world\<lparr>rw_counter := n\<rparr>)"
  by (simp add: getIdempotency_def bindM_def ref_get_def ref_table_def sx_item_defs)

definition sx_ref :: "string \<Rightarrow> string \<Rightarrow> ObjectReference" where
  "sx_ref key v = \<lparr>o_bucket = ''rev'', o_key = key, o_versionId = v, o_checksumSha256 = ''sum''\<rparr>"

definition sx_objects :: "((string \<times> string \<times> string) \<times> document) list" where
  "sx_objects = [((''rev'', payloadKey ''s1'' ''pay-id0'', ''v6''), PayloadDoc sx_revision),
     ((''rev'', controlKey ''s1'' ''ctl-id3'', ''v5''), ControlDoc sx_control), sx_object]"

definition sx_stored :: ref_world where
  "sx_stored = sx_world\<lparr>rw_counter := 7, rw_items := sx_items1, rw_objects := sx_objects\<rparr>"

lemma sx_stored_fields [simp]: "rw_clock sx_stored = 1000" "rw_counter sx_stored = 7" "rw_items sx_stored = sx_items1"
  by (simp_all add: sx_stored_def)

lemma sx_put_control: "putImmutable ref_services ''rev'' (controlKey ''s1'' ''ctl-id3'') (ControlDoc sx_control)
      (sx_world\<lparr>rw_counter := 5, rw_items := sx_items1\<rparr>)
    = (Inr (sx_ref (controlKey ''s1'' ''ctl-id3'') ''v5''), sx_world\<lparr>rw_counter := 6, rw_items := sx_items1,
         rw_objects := tl sx_objects\<rparr>)"
  by (simp add: putImmutable_def bindM_def ref_putObject_def sx_object_def controlKey_def Let_def ref_tick_def
      sx_ref_def sx_objects_def)

lemma sx_put_payload: "putImmutable ref_services ''rev'' (payloadKey ''s1'' ''pay-id0'') (PayloadDoc sx_revision)
      (sx_world\<lparr>rw_counter := 6, rw_items := sx_items1, rw_objects := tl sx_objects\<rparr>)
    = (Inr (sx_ref (payloadKey ''s1'' ''pay-id0'') ''v6''), sx_stored)"
  by (simp add: putImmutable_def bindM_def ref_putObject_def sx_object_def controlKey_def payloadKey_def Let_def
      ref_tick_def sx_ref_def sx_objects_def sx_stored_def)

lemma sx_retention: "extendPriorRetention ref_services sx_config (Some ex_head1) sx_stored = (Inr (), sx_stored)"
  by (simp add: extendPriorRetention_def bindM_def thenM_def Let_def extendComplianceRetention_def)

definition sx_done :: CompletedMutation where
  "sx_done = \<lparr>cm_prepared = sx_mutation, cm_controlObject = sx_ref (controlKey ''s1'' ''ctl-id3'') ''v5'',
     cm_payloadObject = Some (sx_ref (payloadKey ''s1'' ''pay-id0'') ''v6''), cm_priorHead = Some ex_head1,
     cm_priorAccess = [sx_access]\<rparr>"

lemma sx_done_fields [simp]:
  "cm_prepared sx_done = sx_mutation" "cm_controlObject sx_done = sx_ref (controlKey ''s1'' ''ctl-id3'') ''v5''"
  "cm_payloadObject sx_done = Some (sx_ref (payloadKey ''s1'' ''pay-id0'') ''v6'')"
  "cm_priorHead sx_done = Some ex_head1" "cm_priorAccess sx_done = [sx_access]"
  by (simp_all add: sx_done_def)

lemma sx_access_unchanged [simp]: "accessProjectionChanged sx_control [sx_access] = False"
  by (simp add: accessProjectionChanged_def hasRead_def activeRead_def sx_access_def accessItem_def acl_map_def
      js_map_def ex_data Let_def)

definition sx_note :: NotificationOutboxRecord where
  "sx_note = \<lparr>n_eventId = ''id7'', n_consumerIds = Some [''c1''], n_consumerId = None, n_secretId = ''db/pw'',
     n_environment = ''prod'', n_controlVersionId = ''ctl-id3'', n_payloadVersionId = Some ''pay-id0'',
     n_kind = SecretChanged, n_createdAt = 1000, n_status = N_PENDING, n_deliveredAt = None, n_ttl = None\<rparr>"

lemma sx_notifications: "notificationItemsFor ref_services sx_control (accessItemsFor ''s1'' sx_control [sx_access])
     False sx_stored = (Inr [sx_note], sx_stored\<lparr>rw_counter := 8\<rparr>)"
  by (simp add: notificationItemsFor_def notificationOutboxRecord_def currentRecipients_def revokedRecipients_def
      hasRead_def bindM_def ref_fresh_def ref_tick_def List.map_filter_def sx_note_def)

lemma sx_rest: "complete_rest sx_done due [sx_note] =
  [workflowReadyUpdate ''s1'' (controlSk ''ctl-id3'') (sx_ref (controlKey ''s1'' ''ctl-id3'') ''v5''),
   workflowReadyUpdate ''s1'' (payloadSk ''pay-id0'') (sx_ref (payloadKey ''s1'' ''pay-id0'') ''v6''),
   retentionCandidateUpdate ''s1'' (controlSk ''v1'') due,
   Put (fst (ex_notification sx_note)) (snd (ex_notification sx_note)) attribute_not_exists_pk]"
  by (simp add: complete_rest_def Let_def ready_actions_def retention_actions_def archive_actions_def
      notification_actions_def ex_notification_def)

definition sx_row :: "dkey \<times> item" where
  "sx_row = ((syncPk ''prod'', syncSk 2 ''s1''), SyncChangeIt (syncRecord ''s1'' sx_control) None)"

definition sx_acts :: "action list" where
  "sx_acts = [sync_counter ''prod'' (Some \<lparr>ss_epoch = ''id1'', ss_sequence = 1, ss_ready = False\<rparr>) ''id1'' 2,
   complete_head_action sx_done 2,
   workflowReadyUpdate ''s1'' (controlSk ''ctl-id3'') (sx_ref (controlKey ''s1'' ''ctl-id3'') ''v5''),
   workflowReadyUpdate ''s1'' (payloadSk ''pay-id0'') (sx_ref (payloadKey ''s1'' ''pay-id0'') ''v6''),
   retentionCandidateUpdate ''s1'' (controlSk ''v1'') ex_due,
   Put (fst (ex_notification sx_note)) (snd (ex_notification sx_note)) attribute_not_exists_pk,
   Put (fst sx_row) (snd sx_row) attribute_not_exists_pk, Delete (fst (ex_row ex_create 1)) no_condition]"

definition sx_head :: HeadRecord where
  "sx_head = complete_head sx_done 2 sx_leased"

definition sx_final :: ref_world where
  "sx_final = sx_stored\<lparr>rw_counter := 8, rw_items := ref_apply sx_acts sx_items1\<rparr>"

lemma sx_act_keys [simp]:
  "action_key (sync_counter e (Some st) ep n) = (syncPk e, ''STATE'')"
  "action_key (complete_head_action sx_done n) = (secretPk ''s1'', ''HEAD'')"
  "action_key (workflowReadyUpdate u sk ob) = (secretPk u, sk)"
  "action_key (retentionCandidateUpdate u sk due) = (secretPk u, sk)"
  by (simp_all add: sync_counter_def complete_head_action_def workflowReadyUpdate_def retentionCandidateUpdate_def)

lemma sx_publish: "publish ref_services ''prod'' (syncRecord ''s1'' sx_control)
     (\<lambda>sequence. complete_head_action sx_done sequence # complete_rest sx_done ex_due [sx_note])
     (sx_stored\<lparr>rw_counter := 8\<rparr>) = (Inr (), sx_final)"
proof (rule trans [OF ref_publish])
  let ?st = "\<lparr>ss_epoch = ''id1'', ss_sequence = 1, ss_ready = False\<rparr>"
  show "as_sync_state (ref_table (sx_stored\<lparr>rw_counter := 8\<rparr>) (syncPk ''prod'', ''STATE'')) = Some ?st"
    by (simp add: ref_table_def sx_item_defs as_sync_state_def ex_state_def)
  show "next_sequence (Some ?st) \<le> maxSafeInteger" by (simp add: next_sequence_def maxSafeInteger_def)
  show "sync_epoch ref_services (Some ?st) (sx_stored\<lparr>rw_counter := 8\<rparr>) = (Inr ''id1'', sx_stored\<lparr>rw_counter := 8\<rparr>)"
    by (simp add: sync_epoch_def)
  show "sync_ttl ref_services (syncRecord ''s1'' sx_control) (sx_stored\<lparr>rw_counter := 8\<rparr>)
      = (Inr None, sx_stored\<lparr>rw_counter := 8\<rparr>)"
    by (simp add: sync_ttl_def syncRecord_def)
  show "sync_items ''prod'' (Some ?st) ''id1'' (head_sequence (ref_table (sx_stored\<lparr>rw_counter := 8\<rparr>)
      (secretPk (sr_secretUid (syncRecord ''s1'' sx_control)), ''HEAD''))) (syncRecord ''s1'' sx_control) None
      (\<lambda>sequence. complete_head_action sx_done sequence # complete_rest sx_done ex_due [sx_note]) = sx_acts"
    unfolding sx_rest
    by (simp add: sync_items_def next_sequence_def sx_acts_def sx_row_def ex_row_def head_sequence_def
        ref_table_def sx_item_defs syncRecord_def sx_leased_def Let_def numeral_2_eq_2)
  show "distinct (map action_key sx_acts)"
    by (simp add: sx_acts_def ex_notification_def sx_row_def ex_row_def sx_keys sx_note_def pad_start_def)
  show "length sx_acts \<le> 100" by (simp add: sx_acts_def)
  show "ref_conds sx_acts (rw_items (sx_stored\<lparr>rw_counter := 8\<rparr>))"
    by (simp add: ref_conds_def sx_acts_def sync_counter_def complete_head_action_def workflowReadyUpdate_def
        retentionCandidateUpdate_def ex_notification_def sx_row_def sx_item_defs sx_note_def prepared_control_def
        prepared_payload_def workflowItem_def sx_leased_def ex_state_def ex_ready_def pad_start_def)
  show "(Inr (), (sx_stored\<lparr>rw_counter := 8\<rparr>)\<lparr>rw_items := ref_apply sx_acts
      (rw_items (sx_stored\<lparr>rw_counter := 8\<rparr>))\<rparr>) = (Inr (), sx_final)"
    by (simp add: sx_final_def)
qed

lemma sx_completed: "completeMutation ref_services sx_done sx_stored = (Inr (), sx_final)"
proof -
  have "length (complete_rest sx_done due [sx_note]) = 4" for due by (simp add: sx_rest)
  then show ?thesis
    by (simp add: completeMutation_def Let_def bindM_def sx_notifications thenM_def throwIf_def
        ex_due_def [symmetric] sx_publish)
qed

lemma sx_run: "secrets_update ref_services sx_config sx_update sx_world = (Inr sx_control, sx_final)"
proof -
  have i: "us_environment sx_update = ''prod''" "us_secretId sx_update = ''db/pw''" "us_acl sx_update = None"
    "us_expectedControlVersionId sx_update = ''v1''" "us_allowAgentAcl sx_update = False"
    "us_actor sx_update = ex_actor" "us_idempotencyKey sx_update = ''k9''"
    by (simp_all add: sx_update_def)
  have p: "persistMutation ref_services sx_config sx_control (Some sx_revision) ex_actor ''k9'' (Some ''v1'')
      (Some ex_head1) [sx_access] False (sx_world\<lparr>rw_counter := 4\<rparr>) = (Inr (), sx_final)"
    by (simp add: persistMutation_def bindM_def thenM_def throwIf_def orRaise_def sx_idempotency ref_fresh_def
        ref_tick_def Let_def sx_mutation_def [symmetric] sx_prepared sx_put_control sx_put_payload sx_retention
        sx_done_def [symmetric] sx_completed)
  show ?thesis
    by (simp add: secrets_update_def bindM_def i sx_snapshot updateFromSnapshot_def thenM_def
        assertExpectedVersion_def throwIf_def sx_acl Let_def sx_payload ref_fresh_def ref_tick_def
        sx_control_def [symmetric] sx_priorAccess p)
qed

section \<open>The world after, and reading it\<close>

lemma sx_final_table: "ref_table sx_final = apply_actions sx_acts (map_of sx_items1)"
proof -
  have "distinct (map action_key sx_acts)"
    by (simp add: sx_acts_def ex_notification_def sx_row_def ex_row_def sx_keys sx_note_def pad_start_def)
  then show ?thesis by (simp add: ref_table_def sx_final_def ref_apply_table)
qed

lemma sx_final_at [simp]:
  "ref_table sx_final (secretNamePk ''prod'' ''db/pw'', ''LOOKUP'') = Some (snd ex_lookup)"
  "ref_table sx_final (secretPk ''s1'', ''HEAD'') = Some (HeadItem sx_head)"
  "ref_table sx_final (consumerPk ''c1'', accessSk ''prod'' ''s1'') = Some (snd (ex_access ex_create ''c1''))"
  unfolding sx_final_table
  by (simp_all add: apply_actions_def sx_acts_def sx_item_defs ex_notification_def sx_row_def sx_note_def
      complete_head_action_def sx_head_def pad_start_def)

lemma sx_head_after [simp]:
  "h_secretUid sx_head = ''s1''" "h_secretId sx_head = ''db/pw''" "h_environment sx_head = ''prod''"
  "h_controlVersionId sx_head = ''ctl-id3''" "h_controlObjectVersionId sx_head = Some ''v5''"
  "h_controlObjectKey sx_head = Some (controlKey ''s1'' ''ctl-id3'')" "h_payloadVersionId sx_head = Some ''pay-id0''"
  "h_state sx_head = S_ACTIVE" "h_payloadObjectVersionId sx_head = Some ''v6''"
  "h_payloadObjectKey sx_head = Some (payloadKey ''s1'' ''pay-id0'')"
  by (simp_all add: sx_head_def complete_head_def Let_def next_payload_triple_def sx_leased_def sx_ref_def)

lemma sx_final_objects: "rw_objects sx_final = sx_objects"
  by (simp add: sx_final_def sx_stored_def)

lemma sx_final_versions [simp]:
  "ref_objects sx_final (''rev'', controlKey ''s1'' ''ctl-id3'', ''v5'') = Some (ControlDoc sx_control)"
  "ref_objects sx_final (''rev'', payloadKey ''s1'' ''pay-id0'', ''v6'') = Some (PayloadDoc sx_revision)"
  by (simp_all add: ref_objects_def sx_final_objects sx_objects_def)

lemma sx_getControl_final: "getControl ref_services sx_config sx_head sx_final = (Inr sx_control, sx_final)"
  by (simp add: getControl_def getJson_def bindM_def ref_getObject_def Let_def as_control_def)

lemma sx_decrypt: "decrypt ref_services sx_revision w = (Inr sx_secret, w)"
proof -
  have b: "revision_binding sx_revision = sx_binding"
    by (simp add: revision_binding_def sx_revision_def sx_binding_def)
  show ?thesis
    unfolding decrypt_def Let_def b
    by (simp add: bindM_def ref_kmsDecrypt_def sx_revision_def orRaise_def ref_gcmOpen_def envelope_aad_def)
qed

lemma sx_read: "secrets_read ref_services sx_config ''c1'' ''prod'' ''db/pw'' None None sx_final
    = (Inr \<lparr>rr_notModified = False, rr_controlVersionId = ''ctl-id3'', rr_payloadVersionId = Some ''pay-id0'',
         rr_payload = Some sx_secret\<rparr>, sx_final)"
proof -
  have a: "getAccessAndHead ref_services ''c1'' ''prod'' ''db/pw'' sx_final
      = (Inr \<lparr>ah_access = Some sx_access, ah_head = Some sx_head\<rparr>, sx_final)"
    by (simp add: getAccessAndHead_def getSecretUid_def bindM_def ref_get_def ref_transactGet_def ex_lookup_def
        ex_access_def sx_access_def)
  have auth: "access_authorizes ''prod'' ''db/pw'' sx_access" "head_authorizes ''db/pw'' sx_access sx_head"
    by (simp_all add: access_authorizes_def head_authorizes_def sx_access_def accessItem_def acl_map_def js_map_def
        ex_data hasRead_def Let_def)
  have "readActivePayload ref_services sx_config ''prod'' ''db/pw'' sx_head sx_final
      = (Inr \<lparr>ap_controlVersionId = ''ctl-id3'', ap_payloadVersionId = ''pay-id0'', ap_payload = sx_secret\<rparr>, sx_final)"
    by (simp add: readActivePayload_def bindM_def thenM_def orRaise_def throwIf_def sx_getControl_final control_agrees_def
        getJson_def ref_getObject_def Let_def as_payload_def payload_agrees_def sx_decrypt)
      (simp add: sx_revision_def)
  then show ?thesis
    by (simp add: secrets_read_def bindM_def thenM_def a auth)
qed

section \<open>The archival\<close>

definition ax_archive :: ArchiveSecretInput where
  "ax_archive = \<lparr>ar_secretId = ''db/pw'', ar_environment = ''prod'', ar_expectedControlVersionId = ''v1'',
     ar_actor = ex_actor, ar_idempotencyKey = ''k8''\<rparr>"

definition ax_control :: ControlRevision where
  "ax_control = sx_current\<lparr>c_secretUid := Some ''s1'', c_controlVersionId := ''ctl-id0'', c_state := S_ARCHIVED,
     c_createdAt := 1000, c_createdBy := ex_actor, c_acl := []\<rparr>"

lemma ax_control_fields [simp]:
  "c_secretUid ax_control = Some ''s1''" "c_secretId ax_control = ''db/pw''" "c_environment ax_control = ''prod''"
  "c_controlVersionId ax_control = ''ctl-id0''" "c_payloadVersionId ax_control = None"
  "c_state ax_control = S_ARCHIVED" "c_acl ax_control = []" "c_createdAt ax_control = 1000"
  by (simp_all add: ax_control_def)

definition ax_mutation :: PreparedMutation where
  "ax_mutation = prepared_mutation ref_services ax_control None ex_actor ''k8'' (Some ''v1'') True ''s1'' ''id1'' 601000"

lemma ax_mutation_fields [simp]:
  "pm_operationId ax_mutation = ''id1''" "pm_idempotencyKey ax_mutation = ''k8''" "pm_actor ax_mutation = ex_actor"
  "pm_secretId ax_mutation = ''db/pw''" "pm_secretUid ax_mutation = ''s1''" "pm_environment ax_mutation = ''prod''"
  "pm_expectedControlVersionId ax_mutation = Some ''v1''" "pm_archive ax_mutation = True"
  "pm_control ax_mutation = ax_control" "pm_controlKey ax_mutation = controlKey ''s1'' ''ctl-id0''"
  "pm_payload ax_mutation = None" "pm_expiresAt ax_mutation = 601000" "pm_controlBytes ax_mutation = ControlDoc ax_control"
  by (simp_all add: ax_mutation_def prepared_mutation_def)

definition ax_leased :: HeadRecord where
  "ax_leased = ex_head1\<lparr>h_leaseOwner := Some ''id1'', h_leaseExpiresAt := Some 601000\<rparr>"

definition ax_items1 :: "(dkey \<times> item) list" where
  "ax_items1 = [((idempotencyPk ex_actor, requestSk ''k8''), IdempotencyIt (prepared_request ax_mutation)),
     (ex_control_key ''ctl-id0'', WorkflowIt (prepared_control ax_mutation)),
     (ex_head_key, HeadItem ax_leased), sx_consumer ''c1'', sx_mapping, sx_grant_item, ex_lookup,
     ((syncPk ''prod'', ''STATE''), ex_state 1), (ex_control_key ''v1'', WorkflowIt (ex_ready ex_create)),
     ex_access ex_create ''c1'', ex_row ex_create 1]"

lemma ax_prepared: "prepareMutation ref_services ax_mutation (sx_world\<lparr>rw_counter := 2\<rparr>)
    = (Inr (), sx_world\<lparr>rw_counter := 2, rw_items := ax_items1\<rparr>)"
  by (simp add: prepareMutation_def prepare_actions_def prepare_head_actions_def bindM_def catchM_def
      ref_transactWrite_def ref_conds_def ref_apply_def List.map_filter_def sx_item_defs ax_items1_def
      ax_leased_def lease_free_def)

lemma ax_idempotency: "getIdempotency ref_services ex_actor ''k8'' (sx_world\<lparr>rw_counter := n\<rparr>)
    = (Inr None, sx_world\<lparr>rw_counter := n\<rparr>)"
  by (simp add: getIdempotency_def bindM_def ref_get_def ref_table_def sx_item_defs)

definition ax_stored :: ref_world where
  "ax_stored = sx_world\<lparr>rw_counter := 3, rw_items := ax_items1,
     rw_objects := [((''rev'', controlKey ''s1'' ''ctl-id0'', ''v2''), ControlDoc ax_control), sx_object]\<rparr>"

lemma ax_stored_fields [simp]: "rw_clock ax_stored = 1000" "rw_counter ax_stored = 3" "rw_items ax_stored = ax_items1"
  by (simp_all add: ax_stored_def)

lemma ax_put: "putImmutable ref_services ''rev'' (controlKey ''s1'' ''ctl-id0'') (ControlDoc ax_control)
      (sx_world\<lparr>rw_counter := 2, rw_items := ax_items1\<rparr>)
    = (Inr (sx_ref (controlKey ''s1'' ''ctl-id0'') ''v2''), ax_stored)"
  by (simp add: putImmutable_def bindM_def ref_putObject_def sx_object_def controlKey_def Let_def ref_tick_def
      sx_ref_def ax_stored_def)

lemma ax_retention: "extendPriorRetention ref_services sx_config (Some ex_head1) ax_stored = (Inr (), ax_stored)"
  by (simp add: extendPriorRetention_def bindM_def thenM_def Let_def extendComplianceRetention_def)

definition ax_done :: CompletedMutation where
  "ax_done = \<lparr>cm_prepared = ax_mutation, cm_controlObject = sx_ref (controlKey ''s1'' ''ctl-id0'') ''v2'',
     cm_payloadObject = None, cm_priorHead = Some ex_head1, cm_priorAccess = [sx_access]\<rparr>"

lemma ax_done_fields [simp]:
  "cm_prepared ax_done = ax_mutation" "cm_controlObject ax_done = sx_ref (controlKey ''s1'' ''ctl-id0'') ''v2''"
  "cm_payloadObject ax_done = None" "cm_priorHead ax_done = Some ex_head1" "cm_priorAccess ax_done = [sx_access]"
  by (simp_all add: ax_done_def)

lemma sx_access_fields [simp]: "a_consumerId sx_access = ''c1''" "activeRead sx_access"
  by (simp_all add: sx_access_def accessItem_def acl_map_def js_map_def ex_data Let_def activeRead_def hasRead_def)

lemma ax_access_changed [simp]: "accessProjectionChanged ax_control [sx_access] = True"
  by (simp add: accessProjectionChanged_def hasRead_def)

definition ax_note :: NotificationOutboxRecord where
  "ax_note = \<lparr>n_eventId = ''id3'', n_consumerIds = Some [''c1''], n_consumerId = None, n_secretId = ''db/pw'',
     n_environment = ''prod'', n_controlVersionId = ''ctl-id0'', n_payloadVersionId = None,
     n_kind = SecretRevoked, n_createdAt = 1000, n_status = N_PENDING, n_deliveredAt = None, n_ttl = None\<rparr>"

definition ax_access :: "dkey \<times> item" where
  "ax_access = ((consumerPk ''c1'', accessSk ''prod'' ''s1''), AccessIt (accessItem ''s1'' ax_control ''c1''))"

lemma ax_items_for: "accessItemsFor ''s1'' ax_control [sx_access] = [accessItem ''s1'' ax_control ''c1'']"
  by (simp add: accessItemsFor_def)

lemma ax_item_fields [simp]: "a_consumerId (accessItem ''s1'' ax_control ''c1'') = ''c1''"
  "a_environment (accessItem ''s1'' ax_control ''c1'') = ''prod''" "a_secretUid (accessItem ''s1'' ax_control ''c1'') = ''s1''"
  "\<not> activeRead (accessItem ''s1'' ax_control ''c1'')"
  by (simp_all add: accessItem_def acl_map_def js_map_def Let_def activeRead_def)

lemma ax_notifications: "notificationItemsFor ref_services ax_control (accessItemsFor ''s1'' ax_control [sx_access])
     True ax_stored = (Inr [ax_note], ax_stored\<lparr>rw_counter := 4\<rparr>)"
  by (simp add: notificationItemsFor_def notificationOutboxRecord_def currentRecipients_def revokedRecipients_def
      bindM_def ref_fresh_def ref_tick_def List.map_filter_def ax_note_def ax_items_for)

lemma ax_rest: "complete_rest ax_done due [ax_note] =
  [workflowReadyUpdate ''s1'' (controlSk ''ctl-id0'') (sx_ref (controlKey ''s1'' ''ctl-id0'') ''v2''),
   retentionCandidateUpdate ''s1'' (controlSk ''v1'') due,
   Delete (secretNamePk ''prod'' ''db/pw'', ''LOOKUP'') (\<lambda>i. as_lookup i = Some ''s1''),
   Put (fst ax_access) (snd ax_access) no_condition,
   Put (fst (ex_notification ax_note)) (snd (ex_notification ax_note)) attribute_not_exists_pk]"
  by (simp add: complete_rest_def Let_def ready_actions_def retention_actions_def archive_actions_def
      notification_actions_def ex_notification_def ax_items_for access_actions_def ax_access_def)

definition ax_ttl :: "int option" where
  "ax_ttl = (case fst (sync_ttl ref_services (syncRecord ''s1'' ax_control) ax_stored) of Inr t \<Rightarrow> t | Inl e \<Rightarrow> None)"

definition ax_acts :: "action list" where
  "ax_acts = [sync_counter ''prod'' (Some \<lparr>ss_epoch = ''id1'', ss_sequence = 1, ss_ready = False\<rparr>) ''id1'' 2,
   complete_head_action ax_done 2,
   workflowReadyUpdate ''s1'' (controlSk ''ctl-id0'') (sx_ref (controlKey ''s1'' ''ctl-id0'') ''v2''),
   retentionCandidateUpdate ''s1'' (controlSk ''v1'') ex_due,
   Delete (secretNamePk ''prod'' ''db/pw'', ''LOOKUP'') (\<lambda>i. as_lookup i = Some ''s1''),
   Put (fst ax_access) (snd ax_access) no_condition,
   Put (fst (ex_notification ax_note)) (snd (ex_notification ax_note)) attribute_not_exists_pk,
   Put (syncPk ''prod'', syncSk 2 ''s1'') (SyncChangeIt (syncRecord ''s1'' ax_control) ax_ttl) attribute_not_exists_pk,
   Delete (fst (ex_row ex_create 1)) no_condition]"

definition ax_final :: ref_world where
  "ax_final = ax_stored\<lparr>rw_counter := 4, rw_items := ref_apply ax_acts ax_items1\<rparr>"

lemma ax_act_keys [simp]: "action_key (complete_head_action ax_done n) = (secretPk ''s1'', ''HEAD'')"
  by (simp add: complete_head_action_def)

lemma ax_publish: "publish ref_services ''prod'' (syncRecord ''s1'' ax_control)
     (\<lambda>sequence. complete_head_action ax_done sequence # complete_rest ax_done ex_due [ax_note])
     (ax_stored\<lparr>rw_counter := 4\<rparr>) = (Inr (), ax_final)"
proof (rule trans [OF ref_publish])
  let ?st = "\<lparr>ss_epoch = ''id1'', ss_sequence = 1, ss_ready = False\<rparr>"
  show "as_sync_state (ref_table (ax_stored\<lparr>rw_counter := 4\<rparr>) (syncPk ''prod'', ''STATE'')) = Some ?st"
    by (simp add: ref_table_def sx_item_defs ax_items1_def as_sync_state_def ex_state_def)
  show "next_sequence (Some ?st) \<le> maxSafeInteger" by (simp add: next_sequence_def maxSafeInteger_def)
  show "sync_epoch ref_services (Some ?st) (ax_stored\<lparr>rw_counter := 4\<rparr>) = (Inr ''id1'', ax_stored\<lparr>rw_counter := 4\<rparr>)"
    by (simp add: sync_epoch_def)
  show "sync_ttl ref_services (syncRecord ''s1'' ax_control) (ax_stored\<lparr>rw_counter := 4\<rparr>)
      = (Inr ax_ttl, ax_stored\<lparr>rw_counter := 4\<rparr>)"
    by (simp add: sync_ttl_def syncRecord_def bindM_def ax_ttl_def)
  show "sync_items ''prod'' (Some ?st) ''id1'' (head_sequence (ref_table (ax_stored\<lparr>rw_counter := 4\<rparr>)
      (secretPk (sr_secretUid (syncRecord ''s1'' ax_control)), ''HEAD''))) (syncRecord ''s1'' ax_control) ax_ttl
      (\<lambda>sequence. complete_head_action ax_done sequence # complete_rest ax_done ex_due [ax_note]) = ax_acts"
    unfolding ax_rest
    by (simp add: sync_items_def next_sequence_def ax_acts_def ex_row_def head_sequence_def
        ref_table_def sx_item_defs ax_items1_def syncRecord_def ax_leased_def Let_def numeral_2_eq_2)
  show "distinct (map action_key ax_acts)"
    by (simp add: ax_acts_def ax_access_def ex_notification_def ex_row_def sx_keys ax_note_def pad_start_def)
  show "length ax_acts \<le> 100" by (simp add: ax_acts_def)
  show "ref_conds ax_acts (rw_items (ax_stored\<lparr>rw_counter := 4\<rparr>))"
    by (simp add: ref_conds_def ax_acts_def sync_counter_def complete_head_action_def workflowReadyUpdate_def
        retentionCandidateUpdate_def ex_notification_def sx_item_defs ax_items1_def ax_note_def ax_access_def
        prepared_control_def workflowItem_def ax_leased_def ex_state_def ex_ready_def pad_start_def)
  show "(Inr (), (ax_stored\<lparr>rw_counter := 4\<rparr>)\<lparr>rw_items := ref_apply ax_acts
      (rw_items (ax_stored\<lparr>rw_counter := 4\<rparr>))\<rparr>) = (Inr (), ax_final)"
    by (simp add: ax_final_def)
qed

lemma ax_completed: "completeMutation ref_services ax_done ax_stored = (Inr (), ax_final)"
proof -
  have "length (complete_rest ax_done due [ax_note]) = 5" for due by (simp add: ax_rest)
  then show ?thesis
    by (simp add: completeMutation_def Let_def bindM_def ax_notifications thenM_def throwIf_def
        ex_due_def [symmetric] ax_publish)
qed

lemma ax_run: "secrets_archive ref_services sx_config ax_archive sx_world = (Inr ax_control, ax_final)"
proof -
  have i: "ar_environment ax_archive = ''prod''" "ar_secretId ax_archive = ''db/pw''"
    "ar_expectedControlVersionId ax_archive = ''v1''" "ar_actor ax_archive = ex_actor"
    "ar_idempotencyKey ax_archive = ''k8''" by (simp_all add: ax_archive_def)
  have p: "persistMutation ref_services sx_config ax_control None ex_actor ''k8'' (Some ''v1'')
      (Some ex_head1) [sx_access] True (sx_world\<lparr>rw_counter := Suc 0\<rparr>) = (Inr (), ax_final)"
    by (simp add: persistMutation_def bindM_def thenM_def throwIf_def orRaise_def ax_idempotency ref_fresh_def
        ref_tick_def Let_def ax_mutation_def [symmetric] ax_prepared [unfolded numeral_2_eq_2]
        ax_put [unfolded numeral_2_eq_2] ax_retention ax_done_def [symmetric] ax_completed)
  show ?thesis
    by (simp add: secrets_archive_def bindM_def i sx_requireHead sx_getControl thenM_def
        assertExpectedVersion_def throwIf_def Let_def ref_fresh_def ref_tick_def
        ax_control_def [symmetric] sx_priorAccess p)
qed

lemma sx_grant_after:
  "ref_table sx_final (consumerPk ''c1'', ''AGENT_GRANT'') = Some (snd sx_mapping)"
  "ref_table sx_final (agentGrantPk ''g1'', ''PROFILE'') = Some (AgentGrantIt sx_grant)"
  unfolding sx_final_table
  by (simp_all add: apply_actions_def sx_acts_def sx_item_defs ex_notification_def sx_row_def sx_note_def pad_start_def)

end
