(* ===== verification/Secrets_Properties.thy ===== *)
theory Secrets_Properties
  imports Secrets_Laws Secret_Examples
begin

text \<open>
  What SecretService promises: every mutation leaves the head, its control revision and its payload
  revision in agreement, an update keeps the identity of the secret and of its agents' access, an
  archival takes everything away, and reading delivers only what the caller may read.
\<close>

section \<open>Agreement of head, control and payload\<close>

definition payload_backed :: "AppConfig \<Rightarrow> ((string \<times> string \<times> string) \<rightharpoonup> document) \<Rightarrow> HeadRecord \<Rightarrow> bool" where
  "payload_backed cfg obs h \<longleftrightarrow> (h_payloadVersionId h \<noteq> None \<longrightarrow>
     (\<exists>v k rev. h_payloadObjectVersionId h = Some v \<and> h_payloadObjectKey h = Some k
        \<and> obs (cf_revisionBucketName cfg, k, v) = Some (PayloadDoc rev) \<and> payload_agrees rev (h_secretId h) h))"

definition control_backed ::
  "AppConfig \<Rightarrow> ((string \<times> string \<times> string) \<rightharpoonup> document) \<Rightarrow> HeadRecord \<Rightarrow> ControlRevision \<Rightarrow> bool" where
  "control_backed cfg obs h control \<longleftrightarrow> (\<exists>v k. h_controlObjectVersionId h = Some v \<and> h_controlObjectKey h = Some k
     \<and> obs (cf_revisionBucketName cfg, k, v) = Some (ControlDoc control) \<and> control_agrees control (h_secretId h) h)"

text \<open>
  The identity u is stored under its head h, whose control revision is control; head, control revision
  and payload revision agree.
\<close>

definition stored_secret ::
  "AppConfig \<Rightarrow> table \<Rightarrow> ((string \<times> string \<times> string) \<rightharpoonup> document) \<Rightarrow> string \<Rightarrow> HeadRecord
     \<Rightarrow> ControlRevision \<Rightarrow> bool" where
  "stored_secret cfg t obs u h control \<longleftrightarrow> head_of t u = Some h \<and> h_secretUid h = u
     \<and> control_backed cfg obs h control \<and> payload_backed cfg obs h"

lemma backed_mono:
  assumes "\<And>k d. obs k = Some d \<Longrightarrow> obs' k = Some d"
  shows "payload_backed cfg obs h \<Longrightarrow> payload_backed cfg obs' h"
    and "control_backed cfg obs h control \<Longrightarrow> control_backed cfg obs' h control"
  using assms by (fastforce simp: payload_backed_def control_backed_def)+

lemma complete_head_fields [simp]:
  "h_secretUid (complete_head c n h) = h_secretUid h" "h_secretId (complete_head c n h) = h_secretId h"
  "h_environment (complete_head c n h) = h_environment h"
  "h_controlVersionId (complete_head c n h) = c_controlVersionId (pm_control (cm_prepared c))"
  "h_controlObjectVersionId (complete_head c n h) = Some (o_versionId (cm_controlObject c))"
  "h_controlObjectKey (complete_head c n h) = Some (o_key (cm_controlObject c))"
  "h_state (complete_head c n h) = c_state (pm_control (cm_prepared c))"
  "h_payloadVersionId (complete_head c n h) = map_option fst (next_payload_triple c)"
  "h_payloadObjectVersionId (complete_head c n h) = map_option (fst \<circ> snd) (next_payload_triple c)"
  "h_payloadObjectKey (complete_head c n h) = map_option (snd \<circ> snd) (next_payload_triple c)"
  "h_leaseOwner (complete_head c n h) = None" "h_workflowState (complete_head c n h) = Some W_READY"
  by (simp_all add: complete_head_def Let_def)

text \<open>A payload of this mutation, or else the prior head's.\<close>

definition payload_fits :: "ControlRevision \<Rightarrow> PayloadRevision option \<Rightarrow> HeadRecord option \<Rightarrow> bool" where
  "payload_fits control payload prior \<longleftrightarrow> (case payload of
     None \<Rightarrow> c_payloadVersionId control = Option.bind prior h_payloadVersionId
   | Some p \<Rightarrow> c_payloadVersionId control = Some (p_payloadVersionId p) \<and> p_schemaVersion p = 1
       \<and> p_secretUid p = c_secretUid control \<and> p_secretId p = c_secretId control
       \<and> p_environment p = c_environment control)"

lemma persisted_consistent:
  assumes D: "dynamo S table" and O: "object_service S objects"
    and run: "persistMutation S cfg control payload actor key expected prior access arch w = (Inr (), w')"
    and control: "c_schemaVersion control = 1" "c_secretUid control = Some u" "payload_fits control payload prior"
    and prior: "\<And>h. prior = Some h \<Longrightarrow> head_of (table w) u = Some h \<and> h_secretUid h = u
      \<and> h_secretId h = c_secretId control \<and> h_environment h = c_environment control
      \<and> payload_backed cfg (objects w) h"
    and kind: "prior = None \<longleftrightarrow> expected = None"
  shows "\<exists>h. stored_secret cfg (table w') (objects w') u h control \<and> h_secretId h = c_secretId control
    \<and> h_environment h = c_environment control \<and> h_leaseOwner h = None
    \<and> (\<forall>p. payload = Some p \<longrightarrow> (\<exists>v k. h_payloadObjectVersionId h = Some v \<and> h_payloadObjectKey h = Some k
         \<and> objects w' (cf_revisionBucketName cfg, k, v) = Some (PayloadDoc p)))"
proof -
  obtain u' m cob pob h n where u': "c_secretUid control = Some u'" and
    m: "pm_secretUid m = u'" "pm_control m = control" "pm_archive m = arch"
    "pm_secretId m = c_secretId control" "pm_environment m = c_environment control"
    "pm_expectedControlVersionId m = expected" "map_option pp_revision (pm_payload m) = payload" and
    hb: "head_before (table w) m h" and
    h': "head_of (table w') u' = Some (complete_head \<lparr>cm_prepared = m, cm_controlObject = cob,
       cm_payloadObject = pob, cm_priorHead = prior, cm_priorAccess = access\<rparr> n h)" and
    cob: "objects w' (cf_revisionBucketName cfg, o_key cob, o_versionId cob) = Some (ControlDoc control)" and
    mono: "\<forall>k d. objects w k = Some d \<longrightarrow> objects w' k = Some d" and
    pob: "payload = None \<longrightarrow> pob = None" "\<forall>p. payload = Some p \<longrightarrow> (\<exists>ob. pob = Some ob
       \<and> objects w' (cf_revisionBucketName cfg, o_key ob, o_versionId ob) = Some (PayloadDoc p))"
    by (rule persisted [OF D O run])
  let ?c = "\<lparr>cm_prepared = m, cm_controlObject = cob,
       cm_payloadObject = pob, cm_priorHead = prior, cm_priorAccess = access\<rparr>"
  let ?h = "complete_head ?c n h"
  have u: "u' = u" using u' control(2) by simp
  have h: "h_secretUid h = u \<and> h_secretId h = c_secretId control \<and> h_environment h = c_environment control"
  proof (cases expected)
    case None
    then show ?thesis using hb m u by (simp add: head_before_def new_head_def)
  next
    case (Some v)
    with kind obtain h0 where "prior = Some h0" by auto
    with Some prior hb m u show ?thesis by (auto simp: head_before_def)
  qed
  have triple: "map_option fst (next_payload_triple ?c) = c_payloadVersionId control
      \<and> payload_backed cfg (objects w') ?h
      \<and> (\<forall>p. payload = Some p \<longrightarrow> (\<exists>v k. h_payloadObjectVersionId ?h = Some v \<and> h_payloadObjectKey ?h = Some k
         \<and> objects w' (cf_revisionBucketName cfg, k, v) = Some (PayloadDoc p)))"
  proof (cases payload)
    case (Some p)
    then obtain ob where ob: "pob = Some ob"
      "objects w' (cf_revisionBucketName cfg, o_key ob, o_versionId ob) = Some (PayloadDoc p)"
      using pob(2) by blast
    obtain pp where pp: "pm_payload m = Some pp" "pp_revision pp = p" using m(7) Some by auto
    have "next_payload_triple ?c = Some (p_payloadVersionId p, o_versionId ob, o_key ob)"
      by (simp add: next_payload_triple_def pp ob)
    with ob control h Some show ?thesis
      by (simp add: payload_backed_def payload_agrees_def payload_fits_def)
  next
    case None
    then have np: "pob = None" "pm_payload m = None" using pob(1) m(7) by simp_all
    show ?thesis
    proof (cases "Option.bind prior h_payloadVersionId")
      case None
      then have "next_payload_triple ?c = None" by (auto simp: next_payload_triple_def np split: option.split)
      with None \<open>payload = None\<close> control(3) show ?thesis by (simp add: payload_backed_def payload_fits_def)
    next
      case (Some pv)
      then obtain h0 where h0: "prior = Some h0" "h_payloadVersionId h0 = Some pv" by (cases prior) auto
      have "payload_backed cfg (objects w) h0" using prior [OF h0(1)] by simp
      with h0(2) obtain v k rev where b: "h_payloadObjectVersionId h0 = Some v" "h_payloadObjectKey h0 = Some k"
        "objects w (cf_revisionBucketName cfg, k, v) = Some (PayloadDoc rev)"
        "payload_agrees rev (h_secretId h0) h0" unfolding payload_backed_def by auto
      have "next_payload_triple ?c = Some (pv, v, k)"
        using h0 b by (simp add: next_payload_triple_def np)
      moreover have "objects w' (cf_revisionBucketName cfg, k, v) = Some (PayloadDoc rev)"
        using mono b(3) by blast
      moreover have "payload_agrees rev (h_secretId ?h) ?h"
        using calculation(1) b(4) h0(2) prior [OF h0(1)] h by (simp add: payload_agrees_def)
      moreover have "c_payloadVersionId control = Some pv"
        using control(3) Some \<open>payload = None\<close> by (simp add: payload_fits_def)
      ultimately show ?thesis using \<open>payload = None\<close> by (simp add: payload_backed_def)
    qed
  qed
  have "control_backed cfg (objects w') ?h control"
    using cob triple control h m(2) by (simp add: control_backed_def control_agrees_def)
  with h' u h triple show ?thesis by (auto simp: stored_secret_def)
qed

section \<open>The runs of update, create and archive\<close>

lemma assertExpectedVersion_ok [em_ok]:
  "assertExpectedVersion head v w = (Inr u, w') \<longleftrightarrow> h_controlVersionId head = v \<and> w' = w"
  by (auto simp: assertExpectedVersion_def em_ok)

lemma updateFromSnapshot_ok:
  assumes "updateFromSnapshot S cfg input snapshot w = (Inr control, w')"
  obtains w1 createdAt w2 payload w3 version w4 prior w5 where
    "h_controlVersionId (ssn_head snapshot) = us_expectedControlVersionId input"
    "assertAclEnvironment S (case us_acl input of None \<Rightarrow> c_acl (ssn_control snapshot) | Some acl \<Rightarrow> acl)
       (h_environment (ssn_head snapshot)) (us_allowAgentAcl input) (c_acl (ssn_control snapshot)) w
       = (Inr (), w1)"
    "sv_now S w1 = (Inr createdAt, w2)"
    "update_payload S input (ssn_head snapshot) createdAt w2 = (Inr payload, w3)"
    "sv_newId S w3 = (Inr version, w4)"
    "control = update_control input snapshot createdAt payload version"
    "priorAccess S (c_acl (ssn_control snapshot)) (h_environment (ssn_head snapshot)) (us_secretId input) w4
       = (Inr prior, w5)"
    "persistMutation S cfg control payload (us_actor input) (us_idempotencyKey input)
       (Some (us_expectedControlVersionId input)) (Some (ssn_head snapshot)) prior False w5 = (Inr (), w')"
  using assms unfolding updateFromSnapshot_def Let_def bindM_ok thenM_ok assertExpectedVersion_ok ret_run
  by auto

lemma getControlSnapshot_ok:
  assumes D: "dynamo S table" and run: "getControlSnapshot S cfg e i w = (Inr snapshot, w')"
  obtains u w1 where "uid_of (table w) e i = Some u" "head_of (table w) u = Some (ssn_head snapshot)"
    "getControl S cfg (ssn_head snapshot) w1 = (Inr (ssn_control snapshot), w')"
    "requireHead S e i w = (Inr (ssn_head snapshot), w1)"
proof -
  obtain head w1 control where h: "requireHead S e i w = (Inr head, w1)"
    and c: "getControl S cfg head w1 = (Inr control, w')" and s: "snapshot = \<lparr>ssn_head = head, ssn_control = control\<rparr>"
    using run unfolding getControlSnapshot_def controlSnapshotFromHead_def bindM_ok ret_run by auto
  from dynamo.requireHead_value [OF D h] obtain u where
    "uid_of (table w) e i = Some u" "head_of (table w) u = Some head"
    by (cases "uid_of (table w) e i") auto
  with h c s that show ?thesis by simp
qed

text \<open>The object a reference names, as getControl reads it.\<close>

lemma getJson_value:
  assumes O: "object_service S objects" and run: "getJson S b k (Some v) w = (Inr d, w')"
  shows "objects w (b, k, v) = Some d"
  using run unfolding getJson_def
  by (auto simp: em_ok em_case dest: object_service.get_body [OF O])

lemma getControl_value:
  assumes O: "object_service S objects" and run: "getControl S cfg h w = (Inr control, w')"
  obtains v k stored where "h_controlObjectVersionId h = Some v" "h_controlObjectKey h = Some k"
    "objects w (cf_revisionBucketName cfg, k, v) = Some (ControlDoc stored)"
    "control = stored\<lparr>c_secretUid := Some (h_secretUid h)\<rparr>"
proof -
  obtain v k d w1 stored where v: "h_controlObjectVersionId h = Some v" "h_controlObjectKey h = Some k"
    and d: "getJson S (cf_revisionBucketName cfg) k (Some v) w = (Inr d, w1)"
    and s: "as_control d w1 = (Inr stored, w')" and c: "control = stored\<lparr>c_secretUid := Some (h_secretUid h)\<rparr>"
    using run by (auto simp: getControl_def em_ok em_case split: option.splits)
  have "d = ControlDoc stored" using s by (cases d) (auto simp: as_control_def)
  with getJson_value [OF O d] v c that show ?thesis by simp
qed

lemma update_control_fields [simp]:
  "c_schemaVersion (update_control input snapshot t payload v) = 1"
  "c_secretUid (update_control input snapshot t payload v) = Some (h_secretUid (ssn_head snapshot))"
  "c_secretId (update_control input snapshot t payload v) = us_secretId input"
  "c_environment (update_control input snapshot t payload v) = h_environment (ssn_head snapshot)"
  "c_metadata (update_control input snapshot t payload v) =
     (case us_metadata input of None \<Rightarrow> c_metadata (ssn_control snapshot) | Some m \<Rightarrow> m)"
  "c_acl (update_control input snapshot t payload v) =
     (case us_acl input of None \<Rightarrow> c_acl (ssn_control snapshot) | Some acl \<Rightarrow> acl)"
  "c_state (update_control input snapshot t payload v) =
     (if us_payload input = None then c_state (ssn_control snapshot) else S_ACTIVE)"
  "c_payloadVersionId (update_control input snapshot t payload v) = (case payload of
     None \<Rightarrow> c_payloadVersionId (ssn_control snapshot) | Some p \<Rightarrow> Some (p_payloadVersionId p))"
  "c_payloadKeyCount (update_control input snapshot t payload v) = (case us_payload input of
     None \<Rightarrow> c_payloadKeyCount (ssn_control snapshot) | Some entries \<Rightarrow> Some (length entries))"
  by (simp_all add: update_control_def Let_def)

lemma update_payload_ok:
  assumes "update_payload S input head createdAt w = (Inr payload, w')"
  shows "us_payload input = None \<and> payload = None \<and> w' = w
    \<or> (\<exists>entries version revision w1. us_payload input = Some entries \<and> payload = Some revision
        \<and> sv_newId S w = (Inr version, w1)
        \<and> encrypt S entries \<lparr>pb_environment = h_environment head, pb_secretUid = Some (h_secretUid head),
            pb_secretId = us_secretId input, pb_payloadVersionId = ''pay-'' @ version\<rparr>
            (us_actor input) createdAt w1 = (Inr revision, w'))"
  using assms by (auto simp: update_payload_def em_ok em_case)

text \<open>What an update read before it wrote, and the table it wrote to.\<close>

context object_service
begin

lemma service_reads_keep_objects [keeps_intro]:
  "keeps objects (assertAclEnvironment S acl e b p)" "keeps objects (update_payload S input h t)"
  "keeps objects (priorAccess S acl e i)" "keeps objects (getControlSnapshot S cfg e i)"
  "keeps objects (getControlSnapshotBySecretUid S cfg u)"
  unfolding assertAclEnvironment_def update_payload_def priorAccess_def getControlSnapshot_def
    getControlSnapshotBySecretUid_def controlSnapshotFromHead_def
  by (intro keeps_intro newId_keeps_objects encrypt_keeps_objects)+

end

lemma snapshot_update_ok:
  assumes D: "dynamo S table" and O: "object_service S objects"
    and run: "updateFromSnapshot S cfg input \<lparr>ssn_head = h, ssn_control = current\<lparr>c_secretUid := Some u\<rparr>\<rparr> w
      = (Inr control, w')"
  obtains createdAt payload version prior w5 w1 w2 w3 acl where
    "us_expectedControlVersionId input = h_controlVersionId h"
    "acl = (case us_acl input of None \<Rightarrow> c_acl current | Some acl \<Rightarrow> acl)"
    "assertAclEnvironment S acl (h_environment h) (us_allowAgentAcl input) (c_acl current) w = (Inr (), w1)"
    "update_payload S input h createdAt w2 = (Inr payload, w3)"
    "control = update_control input \<lparr>ssn_head = h, ssn_control = current\<lparr>c_secretUid := Some u\<rparr>\<rparr>
       createdAt payload version"
    "persistMutation S cfg control payload (us_actor input) (us_idempotencyKey input)
       (Some (us_expectedControlVersionId input)) (Some h) prior False w5 = (Inr (), w')"
    "table w5 = table w" "objects w5 = objects w"
proof -
  let ?s = "\<lparr>ssn_head = h, ssn_control = current\<lparr>c_secretUid := Some u\<rparr>\<rparr>"
  obtain w1 createdAt w2 payload w3 version w4 prior w5 where
    e: "h_controlVersionId (ssn_head ?s) = us_expectedControlVersionId input" and
    acl: "assertAclEnvironment S (case us_acl input of None \<Rightarrow> c_acl (ssn_control ?s) | Some acl \<Rightarrow> acl)
       (h_environment (ssn_head ?s)) (us_allowAgentAcl input) (c_acl (ssn_control ?s)) w = (Inr (), w1)" and
    now: "sv_now S w1 = (Inr createdAt, w2)" and
    pay: "update_payload S input (ssn_head ?s) createdAt w2 = (Inr payload, w3)" and
    id: "sv_newId S w3 = (Inr version, w4)" and
    control: "control = update_control input ?s createdAt payload version" and
    prior: "priorAccess S (c_acl (ssn_control ?s)) (h_environment (ssn_head ?s)) (us_secretId input) w4
       = (Inr prior, w5)" and
    per: "persistMutation S cfg control payload (us_actor input) (us_idempotencyKey input)
       (Some (us_expectedControlVersionId input)) (Some (ssn_head ?s)) prior False w5 = (Inr (), w')"
    by (rule updateFromSnapshot_ok [OF run])
  have t5: "table w5 = table w"
    using keepsD [OF dynamo.assertAclEnvironment_keeps [OF D] acl] dynamo.now_run [OF D now]
      keepsD [OF dynamo.update_payload_keeps [OF D] pay] dynamo.newId_run [OF D id]
      keepsD [OF dynamo.service_reads_keep(3) [OF D] prior] by simp
  note ok = object_service.service_reads_keep_objects [OF O, THEN keepsD]
  have o5: "objects w5 = objects w"
    using ok(1) [OF acl] object_service.now_keeps_objects [OF O, THEN keepsD, OF now] ok(2) [OF pay]
      object_service.newId_keeps_objects [OF O, THEN keepsD, OF id] ok(3) [OF prior] by simp
  have s: "ssn_head ?s = h" "c_acl (ssn_control ?s) = c_acl current" by simp_all
  show ?thesis
    by (rule that [OF e [unfolded s(1), symmetric] refl acl [unfolded s] pay [unfolded s(1)] control
          per [unfolded s(1)] t5 o5])
qed

lemma snapshot_read:
  assumes O: "object_service S objects" and head: "head_of (table w) u = Some h"
    and control: "getControl S cfg h w1 = (Inr control, w2)" and same: "objects w1 = objects w"
    and stored: "stored_secret cfg (table w) (objects w) u h current"
  shows "control = current\<lparr>c_secretUid := Some u\<rparr>"
proof (rule getControl_value [OF O control], goal_cases)
  case (1 v k d)
  with stored same show ?case by (auto simp: stored_secret_def control_backed_def)
qed

lemma secrets_update_snapshot:
  assumes D: "dynamo S table" and O: "object_service S objects"
    and run: "secrets_update S cfg input w = (Inr control, w')"
    and uid: "uid_of (table w) (us_environment input) (us_secretId input) = Some u"
    and stored: "stored_secret cfg (table w) (objects w) u h current"
  obtains w0 where "updateFromSnapshot S cfg input
      \<lparr>ssn_head = h, ssn_control = current\<lparr>c_secretUid := Some u\<rparr>\<rparr> w0 = (Inr control, w')"
    "table w0 = table w" "objects w0 = objects w"
proof -
  obtain snapshot w0 where snap: "getControlSnapshot S cfg (us_environment input) (us_secretId input) w
      = (Inr snapshot, w0)" and upd: "updateFromSnapshot S cfg input snapshot w0 = (Inr control, w')"
    using run unfolding secrets_update_def bindM_ok by blast
  obtain u' x where u': "uid_of (table w) (us_environment input) (us_secretId input) = Some u'"
    "head_of (table w) u' = Some (ssn_head snapshot)"
    and c: "getControl S cfg (ssn_head snapshot) x = (Inr (ssn_control snapshot), w0)"
    and rh: "requireHead S (us_environment input) (us_secretId input) w = (Inr (ssn_head snapshot), x)"
    by (rule getControlSnapshot_ok [OF D snap])
  have sh: "ssn_head snapshot = h" "head_of (table w) u = Some h"
    using u' uid stored by (simp_all add: stored_secret_def)
  have "objects x = objects w" by (rule object_service.table_reads_keep_objects(4) [OF O, THEN keepsD, OF rh])
  from snapshot_read [where table = table, OF O sh(2) c [unfolded sh(1)] this stored]
  have "snapshot = \<lparr>ssn_head = h, ssn_control = current\<lparr>c_secretUid := Some u\<rparr>\<rparr>"
    using sh by (cases snapshot) simp
  with upd have "updateFromSnapshot S cfg input
      \<lparr>ssn_head = h, ssn_control = current\<lparr>c_secretUid := Some u\<rparr>\<rparr> w0 = (Inr control, w')" by simp
  then show ?thesis
    by (rule that) (rule keepsD [OF dynamo.snapshot_reads_keep(2) [OF D] snap],
        rule object_service.service_reads_keep_objects(4) [OF O, THEN keepsD, OF snap])
qed

lemma secrets_update_ok:
  assumes D: "dynamo S table" and O: "object_service S objects"
    and run: "secrets_update S cfg input w = (Inr control, w')"
    and uid: "uid_of (table w) (us_environment input) (us_secretId input) = Some u"
    and stored: "stored_secret cfg (table w) (objects w) u h current"
  obtains w0 createdAt payload version prior w5 w1 w2 w3 acl where
    "us_expectedControlVersionId input = h_controlVersionId h"
    "acl = (case us_acl input of None \<Rightarrow> c_acl current | Some acl \<Rightarrow> acl)"
    "assertAclEnvironment S acl (h_environment h) (us_allowAgentAcl input) (c_acl current) w0 = (Inr (), w1)"
    "update_payload S input h createdAt w2 = (Inr payload, w3)"
    "control = update_control input \<lparr>ssn_head = h, ssn_control = current\<lparr>c_secretUid := Some u\<rparr>\<rparr>
       createdAt payload version"
    "persistMutation S cfg control payload (us_actor input) (us_idempotencyKey input)
       (Some (us_expectedControlVersionId input)) (Some h) prior False w5 = (Inr (), w')"
    "table w0 = table w" "table w5 = table w" "objects w5 = objects w"
proof -
  obtain w0 where upd: "updateFromSnapshot S cfg input
      \<lparr>ssn_head = h, ssn_control = current\<lparr>c_secretUid := Some u\<rparr>\<rparr> w0 = (Inr control, w')"
    and same: "table w0 = table w" "objects w0 = objects w"
    by (rule secrets_update_snapshot [OF assms])
  show ?thesis
    by (rule snapshot_update_ok [OF D O upd]) (rule that, (assumption | simp add: same)+)
qed

section \<open>Agreement is kept\<close>

lemma snapshot_update_agreement:
  assumes D: "dynamo S table" and O: "object_service S objects"
    and run: "updateFromSnapshot S cfg input \<lparr>ssn_head = h, ssn_control = current\<lparr>c_secretUid := Some u\<rparr>\<rparr> w
      = (Inr control, w')"
    and stored: "stored_secret cfg (table w) (objects w) u h current" and id: "h_secretId h = us_secretId input"
  shows "us_expectedControlVersionId input = h_controlVersionId h"
    and "c_metadata control = (case us_metadata input of None \<Rightarrow> c_metadata current | Some m \<Rightarrow> m)"
    and "c_acl control = (case us_acl input of None \<Rightarrow> c_acl current | Some acl \<Rightarrow> acl)"
    and "uid_of (table w') e i = uid_of (table w) e i"
    and "v \<noteq> u \<Longrightarrow> head_of (table w') v = head_of (table w) v"
    and "\<exists>h'. stored_secret cfg (table w') (objects w') u h' control
        \<and> h_secretId h' = us_secretId input \<and> h_environment h' = h_environment h \<and> h_leaseOwner h' = None
        \<and> (case us_payload input of
             None \<Rightarrow> h_payloadVersionId h' = h_payloadVersionId h \<and> h_state h' = h_state h
           | Some entries \<Rightarrow> h_payloadVersionId h' \<noteq> None \<and> h_state h' = S_ACTIVE
               \<and> c_payloadKeyCount control = Some (length entries))"
proof -
  obtain createdAt payload version prior w5 w1 w2 w3 acl where
    e: "us_expectedControlVersionId input = h_controlVersionId h" and
    pay: "update_payload S input h createdAt w2 = (Inr payload, w3)" and
    control: "control = update_control input \<lparr>ssn_head = h, ssn_control = current\<lparr>c_secretUid := Some u\<rparr>\<rparr>
       createdAt payload version" and
    per: "persistMutation S cfg control payload (us_actor input) (us_idempotencyKey input)
       (Some (us_expectedControlVersionId input)) (Some h) prior False w5 = (Inr (), w')" and
    t5: "table w5 = table w" and o5: "objects w5 = objects w"
    by (rule snapshot_update_ok [OF D O run])
  have h: "head_of (table w) u = Some h" "h_secretUid h = u" "payload_backed cfg (objects w) h"
    and agree: "control_agrees current (h_secretId h) h"
    using stored by (auto simp: stored_secret_def control_backed_def)
  have fits: "payload_fits control payload (Some h)"
    using update_payload_ok [OF pay]
  proof (elim disjE exE conjE)
    assume "payload = None"
    with agree show ?thesis by (simp add: payload_fits_def control control_agrees_def)
  next
    fix entries v revision x
    assume p: "payload = Some revision" and run: "encrypt S entries \<lparr>pb_environment = h_environment h,
      pb_secretUid = Some (h_secretUid h), pb_secretId = us_secretId input, pb_payloadVersionId = ''pay-'' @ v\<rparr>
      (us_actor input) createdAt x = (Inr revision, w3)"
    show ?thesis
      by (rule encrypt_ok [OF run]) (simp add: payload_fits_def control p revision_binding_def)
  qed
  have kind: "Some h = None \<longleftrightarrow> Some (us_expectedControlVersionId input) = None" by simp
  obtain h' where h': "stored_secret cfg (table w') (objects w') u h' control"
    "h_secretId h' = c_secretId control" "h_environment h' = c_environment control" "h_leaseOwner h' = None"
    using persisted_consistent [OF D O per _ _ fits _ kind, of u] h id
    by (auto simp: control t5 o5)
  have hs: "h_state h' = c_state control" "h_payloadVersionId h' = c_payloadVersionId control"
    using h'(1) by (auto simp: stored_secret_def control_backed_def control_agrees_def)
  have pv: "us_payload input = None \<longleftrightarrow> payload = None" using update_payload_ok [OF pay] by auto
  have "case us_payload input of
             None \<Rightarrow> h_payloadVersionId h' = h_payloadVersionId h \<and> h_state h' = h_state h
           | Some entries \<Rightarrow> h_payloadVersionId h' \<noteq> None \<and> h_state h' = S_ACTIVE
               \<and> c_payloadKeyCount control = Some (length entries)"
  proof (cases "us_payload input")
    case None
    with pv agree show ?thesis by (simp add: hs control control_agrees_def)
  next
    case (Some entries)
    with pv show ?thesis by (auto simp: hs control)
  qed
  moreover have c: "c_metadata control = (case us_metadata input of None \<Rightarrow> c_metadata current | Some m \<Rightarrow> m)"
    "c_acl control = (case us_acl input of None \<Rightarrow> c_acl current | Some acl \<Rightarrow> acl)"
    "c_secretId control = us_secretId input" "c_environment control = h_environment h"
    by (simp_all add: control split: option.split)
  ultimately show "\<exists>h'. stored_secret cfg (table w') (objects w') u h' control
        \<and> h_secretId h' = us_secretId input \<and> h_environment h' = h_environment h \<and> h_leaseOwner h' = None
        \<and> (case us_payload input of
             None \<Rightarrow> h_payloadVersionId h' = h_payloadVersionId h \<and> h_state h' = h_state h
           | Some entries \<Rightarrow> h_payloadVersionId h' \<noteq> None \<and> h_state h' = S_ACTIVE
               \<and> c_payloadKeyCount control = Some (length entries))"
    using h' by metis
  show "us_expectedControlVersionId input = h_controlVersionId h"
    "c_metadata control = (case us_metadata input of None \<Rightarrow> c_metadata current | Some m \<Rightarrow> m)"
    "c_acl control = (case us_acl input of None \<Rightarrow> c_acl current | Some acl \<Rightarrow> acl)"
    by (fact e c)+
  show "uid_of (table w') e i = uid_of (table w) e i"
    using persisted_names [OF D per, of e i] t5 by simp
  show "v \<noteq> u \<Longrightarrow> head_of (table w') v = head_of (table w) v"
    using persisted_other_heads [OF D per, of v] h(2) t5 by (simp add: control)
qed

text \<open>C23: an update that returns was made against the current version of the secret the name leads to, and
  leaves it stored with head, control revision and payload revision in agreement again: the head names
  the returned revision, which has the requested metadata and ACL and the old ones where none were given;
  without a payload, payload and state stay, with one the secret becomes active under a new payload
  version. The name keeps leading to the same identity.\<close>

theorem update_keeps_agreement:
  assumes "dynamo S table" "object_service S objects"
    and "secrets_update S cfg input w = (Inr control, w')"
    and "uid_of (table w) (us_environment input) (us_secretId input) = Some u"
    and "stored_secret cfg (table w) (objects w) u h current"
    and "h_secretId h = us_secretId input" "h_environment h = us_environment input"
  shows "us_expectedControlVersionId input = h_controlVersionId h
    \<and> c_metadata control = (case us_metadata input of None \<Rightarrow> c_metadata current | Some m \<Rightarrow> m)
    \<and> c_acl control = (case us_acl input of None \<Rightarrow> c_acl current | Some acl \<Rightarrow> acl)
    \<and> uid_of (table w') (us_environment input) (us_secretId input) = Some u
    \<and> (\<exists>h'. stored_secret cfg (table w') (objects w') u h' control
        \<and> h_secretId h' = us_secretId input \<and> h_environment h' = us_environment input \<and> h_leaseOwner h' = None
        \<and> (case us_payload input of
             None \<Rightarrow> h_payloadVersionId h' = h_payloadVersionId h \<and> h_state h' = h_state h
           | Some entries \<Rightarrow> h_payloadVersionId h' \<noteq> None \<and> h_state h' = S_ACTIVE
               \<and> c_payloadKeyCount control = Some (length entries)))"
proof -
  obtain w0 where upd: "updateFromSnapshot S cfg input
      \<lparr>ssn_head = h, ssn_control = current\<lparr>c_secretUid := Some u\<rparr>\<rparr> w0 = (Inr control, w')"
    and same: "table w0 = table w" "objects w0 = objects w"
    by (rule secrets_update_snapshot [OF assms(1-5)])
  note agree = snapshot_update_agreement [OF assms(1,2) upd assms(5) [folded same] assms(6)]
  show ?thesis
    using agree(1-3) agree(4) [of "us_environment input" "us_secretId input"] agree(6) assms(4,7) same by simp
qed

text \<open>The secret of the examples, stored before its update.\<close>

lemma sx_uid: "uid_of (ref_table sx_world) ''prod'' ''db/pw'' = Some ''s1''"
  by (simp add: uid_of_def ex_lookup_def)

lemma sx_stored_secret: "stored_secret sx_config (ref_table sx_world) (ref_objects sx_world) ''s1'' ex_head1 sx_current"
  by (simp add: stored_secret_def control_backed_def payload_backed_def head_of_def control_agrees_def
      ref_objects_def sx_object_def)

lemma sx_update_fields [simp]:
  "us_secretId sx_update = ''db/pw''" "us_environment sx_update = ''prod''" "us_acl sx_update = None"
  "us_payload sx_update = Some sx_secret" "us_allowAgentAcl sx_update = False" "us_metadata sx_update = None"
  by (simp_all add: sx_update_def)

theorem update_keeps_agreement_witness:
  "\<exists>h'. stored_secret sx_config (ref_table sx_final) (ref_objects sx_final) ''s1'' h' sx_control \<and> h_state h' = S_ACTIVE"
  using update_keeps_agreement [OF ref_dynamo.dynamo_axioms ref_objects.object_service_axioms sx_run, of "''s1''"
      ex_head1 sx_current] sx_uid sx_stored_secret by auto

section \<open>Reading\<close>

lemma readActivePayload_ok:
  assumes O: "object_service S objects"
    and run: "readActivePayload S cfg e i head w = (Inr active, w')"
  obtains v k rev version w1 where
    "h_payloadVersionId head = Some version" "ap_payloadVersionId active = version"
    "ap_controlVersionId active = h_controlVersionId head"
    "h_payloadObjectVersionId head = Some v" "h_payloadObjectKey head = Some k"
    "objects w (cf_revisionBucketName cfg, k, v) = Some (PayloadDoc rev)" "payload_agrees rev i head"
    "decrypt S rev w1 = (Inr (ap_payload active), w')"
proof -
  obtain version control w1 where ver: "h_payloadVersionId head = Some version"
    and c: "getControl S cfg head w = (Inr control, w1)"
    and rest: "(case (h_payloadObjectVersionId head, h_payloadObjectKey head) of
        (Some objectVersion, Some key) \<Rightarrow>
          bindM (bindM (getJson S (cf_revisionBucketName cfg) key (Some objectVersion)) as_payload) (\<lambda>payload.
          thenM (throwIf (\<not> payload_agrees payload i head)
            (serviceUnavailable ''The secret payload revision does not match the authorized head.''))
          (bindM (decrypt S payload) (\<lambda>plaintext.
            ret \<lparr>ap_controlVersionId = h_controlVersionId head, ap_payloadVersionId = version,
                 ap_payload = plaintext\<rparr>)))
      | _ \<Rightarrow> raise (serviceUnavailable
          ''The secret payload does not have an immutable object version.'')) w1 = (Inr active, w')"
    using run unfolding readActivePayload_def bindM_ok thenM_ok throwIf_ok orRaise_ok by blast
  obtain v k where v: "h_payloadObjectVersionId head = Some v" "h_payloadObjectKey head = Some k"
    using rest by (auto split: option.splits)
  obtain d w2 rev w3 plaintext where
    d: "getJson S (cf_revisionBucketName cfg) k (Some v) w1 = (Inr d, w2)"
    and rev: "as_payload d w2 = (Inr rev, w3)" and agree: "payload_agrees rev i head"
    and dec: "decrypt S rev w3 = (Inr plaintext, w')" and active: "active = \<lparr>ap_controlVersionId =
      h_controlVersionId head, ap_payloadVersionId = version, ap_payload = plaintext\<rparr>"
    using rest by (auto simp: v em_ok)
  have "d = PayloadDoc rev" using rev by (cases d) (auto simp: as_payload_def)
  moreover have "objects w1 = objects w"
    by (rule object_service.getControl_keeps_objects [OF O, THEN keepsD, OF c])
  ultimately have "objects w (cf_revisionBucketName cfg, k, v) = Some (PayloadDoc rev)"
    using getJson_value [OF O d] by simp
  with ver v agree dec active show ?thesis by (intro that [of version v k rev w3]) simp_all
qed

lemma accessAndHead_read:
  assumes D: "dynamo S table" and run: "getAccessAndHead S c e i w = (Inr r, w')"
  shows "ah_access r = Option.bind (uid_of (table w) e i) (access_of (table w) c e)"
    and "ah_head r = Option.bind (uid_of (table w) e i) (head_of (table w))"
proof -
  obtain uid w1 where u: "getSecretUid S e i w = (Inr uid, w1)" and rest:
    "(case uid of None \<Rightarrow> ret \<lparr>ah_access = None, ah_head = None\<rparr>
       | Some u \<Rightarrow>
           bindM (sv_transactGet S [(consumerPk c, accessSk e u), (secretPk u, ''HEAD'')]) (\<lambda>responses.
             case responses of
               i # j # _ \<Rightarrow> ret \<lparr>ah_access = as_access i, ah_head = as_head j\<rparr>
             | [i] \<Rightarrow> ret \<lparr>ah_access = as_access i, ah_head = None\<rparr>
             | [] \<Rightarrow> ret \<lparr>ah_access = None, ah_head = None\<rparr>)) w1 = (Inr r, w')"
    using run unfolding getAccessAndHead_def bindM_ok by blast
  have uv: "uid_of (table w) e i = uid" "table w1 = table w"
    using dynamo.getSecretUid_value [OF D u] keepsD [OF dynamo.reads_keep_table(1) [OF D] u] by simp_all
  have "ah_access r = Option.bind uid (access_of (table w) c e) \<and> ah_head r = Option.bind uid (head_of (table w))"
  proof (cases uid)
    case (Some x)
    then obtain found w2 where "sv_transactGet S [(consumerPk c, accessSk e x), (secretPk x, ''HEAD'')] w1 = (Inr found, w2)"
      and r: "(case found of
               i # j # _ \<Rightarrow> ret \<lparr>ah_access = as_access i, ah_head = as_head j\<rparr>
             | [i] \<Rightarrow> ret \<lparr>ah_access = as_access i, ah_head = None\<rparr>
             | [] \<Rightarrow> ret \<lparr>ah_access = None, ah_head = None\<rparr>) w2 = (Inr r :: exn + AccessAndHead, w')"
      using rest unfolding Some option.case bindM_ok by blast
    from dynamo.transactGet_items [OF D this(1)] r uv show ?thesis
      by (auto simp: Some access_of_def head_of_def)
  qed (use rest in auto)
  then show "ah_access r = Option.bind (uid_of (table w) e i) (access_of (table w) c e)"
    "ah_head r = Option.bind (uid_of (table w) e i) (head_of (table w))" by (simp_all add: uv)
qed

text \<open>A read that returns was authorised, and ran the callback before it read the payload.\<close>

lemma secrets_read_ok:
  assumes D: "dynamo S table" and O: "object_service S objects"
    and run: "secrets_read S cfg consumer e i inm callback w = (Inr r, w')"
  obtains u access head w1 w2 where
    "uid_of (table w) e i = Some u" "access_of (table w) consumer e u = Some access"
    "access_authorizes e i access" "head_of (table w) u = Some head" "head_authorizes i access head"
    "table w1 = table w" "objects w1 = objects w"
    "(case callback of None \<Rightarrow> ret () | Some notify \<Rightarrow> notify) w1 = (Inr (), w2)"
    "rr_controlVersionId r = h_controlVersionId head" "rr_payloadVersionId r = h_payloadVersionId head"
    "if inm = Some (h_controlVersionId head) then rr_notModified r \<and> rr_payload r = None \<and> w' = w2
     else \<not> rr_notModified r \<and> (\<exists>active. readActivePayload S cfg e i head w2 = (Inr active, w')
       \<and> rr_payload r = Some (ap_payload active))"
proof -
  obtain ah w1 where ah: "getAccessAndHead S consumer e i w = (Inr ah, w1)" and rest: "(case ah_access ah of
          None \<Rightarrow> raise forbidden
        | Some access \<Rightarrow>
            if \<not> access_authorizes e i access then raise forbidden
            else (case ah_head ah of
              None \<Rightarrow> raise forbidden
            | Some head \<Rightarrow>
                if \<not> head_authorizes i access head then raise forbidden
                else thenM (case callback of None \<Rightarrow> ret () | Some notify \<Rightarrow> notify)
                  (if inm = Some (h_controlVersionId head)
                   then ret \<lparr>rr_notModified = True, rr_controlVersionId = h_controlVersionId head,
                             rr_payloadVersionId = h_payloadVersionId head, rr_payload = None\<rparr>
                   else bindM (readActivePayload S cfg e i head) (\<lambda>active.
                     ret \<lparr>rr_notModified = False, rr_controlVersionId = ap_controlVersionId active,
                          rr_payloadVersionId = Some (ap_payloadVersionId active),
                          rr_payload = Some (ap_payload active)\<rparr>)))) w1 = (Inr r, w')"
    using run unfolding secrets_read_def bindM_ok by blast
  obtain access where a: "ah_access ah = Some access" "access_authorizes e i access"
    using rest by (cases "ah_access ah") (auto split: if_splits)
  obtain head where h: "ah_head ah = Some head" "head_authorizes i access head"
    using rest a by (cases "ah_head ah") (auto split: if_splits)
  note v = accessAndHead_read [OF D ah]
  obtain u where u: "uid_of (table w) e i = Some u" using v(1) a(1) by (cases "uid_of (table w) e i") auto
  obtain w2 where cb: "(case callback of None \<Rightarrow> ret () | Some notify \<Rightarrow> notify) w1 = (Inr (), w2)"
    and last: "(if inm = Some (h_controlVersionId head)
                   then ret \<lparr>rr_notModified = True, rr_controlVersionId = h_controlVersionId head,
                             rr_payloadVersionId = h_payloadVersionId head, rr_payload = None\<rparr>
                   else bindM (readActivePayload S cfg e i head) (\<lambda>active.
                     ret \<lparr>rr_notModified = False, rr_controlVersionId = ap_controlVersionId active,
                          rr_payloadVersionId = Some (ap_payloadVersionId active),
                          rr_payload = Some (ap_payload active)\<rparr>)) w2 = (Inr r, w')"
    using rest a h by (auto simp: thenM_ok)
  have r: "rr_controlVersionId r = h_controlVersionId head \<and> rr_payloadVersionId r = h_payloadVersionId head
    \<and> (if inm = Some (h_controlVersionId head) then rr_notModified r \<and> rr_payload r = None \<and> w' = w2
     else \<not> rr_notModified r \<and> (\<exists>active. readActivePayload S cfg e i head w2 = (Inr active, w')
       \<and> rr_payload r = Some (ap_payload active)))"
  proof (cases "inm = Some (h_controlVersionId head)")
    case True
    with last show ?thesis by auto
  next
    case False
    with last obtain active where act: "readActivePayload S cfg e i head w2 = (Inr active, w')"
      and "r = \<lparr>rr_notModified = False, rr_controlVersionId = ap_controlVersionId active,
                rr_payloadVersionId = Some (ap_payloadVersionId active),
                rr_payload = Some (ap_payload active)\<rparr>" by (auto simp: em_ok)
    moreover have "ap_controlVersionId active = h_controlVersionId head
        \<and> Some (ap_payloadVersionId active) = h_payloadVersionId head"
      by (rule readActivePayload_ok [OF O act]) simp
    ultimately show ?thesis using False by auto
  qed
  have "keeps objects (getAccessAndHead S consumer e i)"
    unfolding getAccessAndHead_def
    by (auto split: option.split list.split
        intro!: keeps_intro object_service.transactGet_keeps_objects [OF O] object_service.table_reads_keep_objects [OF O])
  with ah have "objects w1 = objects w" by (blast dest: keepsD)
  moreover have "table w1 = table w" by (rule keepsD [OF dynamo.getAccessAndHead_keeps [OF D] ah])
  ultimately show ?thesis
    using that [of u access head w1 w2] u a h v cb r by simp
qed

text \<open>C25: a read that returns was authorised by the access row of the secret the name leads to now: the row
  grants read, is not revoked and names the same identity as the head, which is active. The callback
  returned before anything was delivered; the payload is left out exactly when the caller already has
  the current control version, and otherwise it is what the payload object of the head decrypts to,
  whose environment, public ID and version are those of the head.\<close>

theorem read_authorised:
  assumes "dynamo S table" "object_service S objects"
    and "secrets_read S cfg consumer e i inm callback w = (Inr r, w')"
  shows "\<exists>u access head w1 w2. uid_of (table w) e i = Some u \<and> access_of (table w) consumer e u = Some access
    \<and> PRead \<in> set (a_permissions access) \<and> a_state access \<noteq> S_REVOKED \<and> a_environment access = e
    \<and> head_of (table w) u = Some head \<and> h_state head = S_ACTIVE \<and> h_secretUid head = a_secretUid access
    \<and> h_secretId head = i \<and> h_environment head = e
    \<and> (case callback of None \<Rightarrow> w2 = w1 | Some notify \<Rightarrow> notify w1 = (Inr (), w2))
    \<and> rr_controlVersionId r = h_controlVersionId head \<and> rr_payloadVersionId r = h_payloadVersionId head
    \<and> rr_notModified r = (inm = Some (h_controlVersionId head))
    \<and> (if rr_notModified r then rr_payload r = None else
        \<exists>rev k v w3 payload. rr_payload r = Some payload \<and> h_payloadObjectKey head = Some k
          \<and> h_payloadObjectVersionId head = Some v
          \<and> objects w2 (cf_revisionBucketName cfg, k, v) = Some (PayloadDoc rev)
          \<and> p_environment rev = e \<and> p_secretId rev = i \<and> Some (p_payloadVersionId rev) = h_payloadVersionId head
          \<and> decrypt S rev w3 = (Inr payload, w'))"
proof (rule secrets_read_ok [OF assms], goal_cases)
  case (1 u access head w1 w2)
  have "if rr_notModified r then rr_payload r = None else
        \<exists>rev k v w3 payload. rr_payload r = Some payload \<and> h_payloadObjectKey head = Some k
          \<and> h_payloadObjectVersionId head = Some v
          \<and> objects w2 (cf_revisionBucketName cfg, k, v) = Some (PayloadDoc rev)
          \<and> p_environment rev = e \<and> p_secretId rev = i \<and> Some (p_payloadVersionId rev) = h_payloadVersionId head
          \<and> decrypt S rev w3 = (Inr payload, w')"
  proof (cases "inm = Some (h_controlVersionId head)")
    case False
    with 1(11) obtain active where act: "readActivePayload S cfg e i head w2 = (Inr active, w')"
      and p: "rr_payload r = Some (ap_payload active)" "\<not> rr_notModified r" by auto
    have env: "h_environment head = e" using 1(3,5) by (simp add: access_authorizes_def head_authorizes_def)
    show ?thesis
      by (rule readActivePayload_ok [OF assms(2) act]) (use p env in \<open>auto simp: payload_agrees_def\<close>)
  qed (use 1(11) in simp)
  moreover have "case callback of None \<Rightarrow> w2 = w1 | Some notify \<Rightarrow> notify w1 = (Inr (), w2)"
    using 1(8) by (auto split: option.splits)
  moreover have "rr_notModified r = (inm = Some (h_controlVersionId head))" using 1(11) by (auto split: if_splits)
  ultimately show ?case
    using 1(1-5,9,10) unfolding access_authorizes_def head_authorizes_def by metis
qed

theorem read_authorised_witness:
  "\<exists>access. access_of (ref_table sx_final) ''c1'' ''prod'' ''s1'' = Some access \<and> PRead \<in> set (a_permissions access)"
  using read_authorised [OF ref_dynamo.dynamo_axioms ref_objects.object_service_axioms sx_read]
  by (auto simp: uid_of_def ex_lookup_def)

text \<open>An update with a payload stores the sealed entries where the new head points.\<close>

lemma update_stores_payload:
  assumes "dynamo S table" "object_service S objects"
    and "secrets_update S cfg input w = (Inr control, w1)" "us_payload input = Some entries"
    and "uid_of (table w) (us_environment input) (us_secretId input) = Some u"
    and "stored_secret cfg (table w) (objects w) u h current" "h_secretId h = us_secretId input"
  obtains h' rev v k ver createdAt y z where
    "stored_secret cfg (table w1) (objects w1) u h' control"
    "h_payloadObjectVersionId h' = Some v" "h_payloadObjectKey h' = Some k"
    "objects w1 (cf_revisionBucketName cfg, k, v) = Some (PayloadDoc rev)"
    "encrypt S entries \<lparr>pb_environment = h_environment h, pb_secretUid = Some (h_secretUid h),
      pb_secretId = us_secretId input, pb_payloadVersionId = ''pay-'' @ ver\<rparr> (us_actor input) createdAt y = (Inr rev, z)"
proof -
  obtain v0 createdAt payload version prior w5 v1 v2 v3 acl where
    pay: "update_payload S input h createdAt v2 = (Inr payload, v3)" and
    control: "control = update_control input \<lparr>ssn_head = h, ssn_control = current\<lparr>c_secretUid := Some u\<rparr>\<rparr>
       createdAt payload version" and
    per: "persistMutation S cfg control payload (us_actor input) (us_idempotencyKey input)
       (Some (us_expectedControlVersionId input)) (Some h) prior False w5 = (Inr (), w1)" and
    t5: "table w5 = table w" and o5: "objects w5 = objects w"
    by (rule secrets_update_ok [OF assms(1-3,5,6)])
  have h: "head_of (table w) u = Some h" "h_secretUid h = u" "payload_backed cfg (objects w) h"
    using assms(6) by (auto simp: stored_secret_def)
  obtain ver rev y where rev: "payload = Some rev"
    and enc: "encrypt S entries \<lparr>pb_environment = h_environment h, pb_secretUid = Some (h_secretUid h),
      pb_secretId = us_secretId input, pb_payloadVersionId = ''pay-'' @ ver\<rparr> (us_actor input) createdAt y
      = (Inr rev, v3)"
    using update_payload_ok [OF pay] assms(4) by auto
  have "payload_fits control payload (Some h)"
    by (rule encrypt_ok [OF enc]) (simp add: payload_fits_def control rev revision_binding_def)
  then obtain h' where h': "stored_secret cfg (table w1) (objects w1) u h' control"
    and obj: "\<forall>p. payload = Some p \<longrightarrow> (\<exists>v k. h_payloadObjectVersionId h' = Some v
      \<and> h_payloadObjectKey h' = Some k \<and> objects w1 (cf_revisionBucketName cfg, k, v) = Some (PayloadDoc p))"
    using persisted_consistent [OF assms(1,2) per, of u] h assms(7) by (auto simp: control t5 o5)
  from obj rev obtain v k where "h_payloadObjectVersionId h' = Some v" "h_payloadObjectKey h' = Some k"
    "objects w1 (cf_revisionBucketName cfg, k, v) = Some (PayloadDoc rev)" by blast
  with h' enc that show thesis by blast
qed

text \<open>C24: what an update writes is what a reader gets: after an update with a payload returned, as long as
  the head is the one it left and no object version of it is gone, every read under that name that
  returns gives exactly that payload under the returned control version, or nothing when the caller
  said it has that version.\<close>

theorem read_after_write:
  assumes "dynamo S table" "object_service S objects" "envelope_service S wraps"
    and "\<And>x y blob ctx key. wraps x blob ctx key \<Longrightarrow> wraps y blob ctx key"
    and "secrets_update S cfg input w = (Inr control, w1)" "us_payload input = Some entries"
    and "uid_of (table w) (us_environment input) (us_secretId input) = Some u"
    and "stored_secret cfg (table w) (objects w) u h current"
    and "h_secretId h = us_secretId input" "h_environment h = us_environment input"
    and "head_of (table w2) u = head_of (table w1) u"
    and "uid_of (table w2) (us_environment input) (us_secretId input) = Some u"
    and "\<And>k d. objects w1 k = Some d \<Longrightarrow> objects w2 k = Some d"
    and "secrets_read S cfg consumer (us_environment input) (us_secretId input) inm None w2 = (Inr r, w3)"
  shows "rr_controlVersionId r = c_controlVersionId control
    \<and> rr_payload r = (if inm = Some (c_controlVersionId control) then None else Some entries)"
proof -
  obtain h' rev v k ver createdAt y z where h': "stored_secret cfg (table w1) (objects w1) u h' control"
    and at: "h_payloadObjectVersionId h' = Some v" "h_payloadObjectKey h' = Some k"
      "objects w1 (cf_revisionBucketName cfg, k, v) = Some (PayloadDoc rev)"
    and enc: "encrypt S entries \<lparr>pb_environment = h_environment h, pb_secretUid = Some (h_secretUid h),
      pb_secretId = us_secretId input, pb_payloadVersionId = ''pay-'' @ ver\<rparr> (us_actor input) createdAt y = (Inr rev, z)"
    by (rule update_stores_payload [OF assms(1,2,5-9)])
  note vk = at(1,2) assms(13) [OF at(3)]
  have hv: "h_controlVersionId h' = c_controlVersionId control" "head_of (table w2) u = Some h'"
    using h' assms(11) by (auto simp: stored_secret_def control_backed_def control_agrees_def)
  show ?thesis
  proof (rule secrets_read_ok [OF assms(1,2,14)], goal_cases)
    case (1 u' access head x1 x2)
    have head: "head = h'" using 1(1,4) assms(12) hv(2) by simp
    have ox: "objects x2 = objects w2" using 1(7,8) by simp
    show ?case
    proof (cases "inm = Some (h_controlVersionId h')")
      case True
      with 1 head hv show ?thesis by simp
    next
      case False
      with 1(11) head obtain active where act: "readActivePayload S cfg (us_environment input) (us_secretId input) h' x2
          = (Inr active, w3)" and p: "rr_payload r = Some (ap_payload active)" by auto
      have "ap_payload active = entries"
      proof (rule readActivePayload_ok [OF assms(2) act], goal_cases)
        case (1 v' k' rev' version' z)
        with vk ox have "rev' = rev" by simp
        with opened_is_sealed [OF assms(3) enc assms(4) _ 1(8)] show ?case by simp
      qed
      with p 1(9) head hv False show ?thesis by simp
    qed
  qed
qed

theorem read_after_write_witness:
  "\<exists>r. fst (secrets_read ref_services sx_config ''c1'' ''prod'' ''db/pw'' None None sx_final) = Inr r
     \<and> rr_payload r = Some sx_secret"
  using read_after_write [OF ref_dynamo.dynamo_axioms ref_objects.object_service_axioms
      ref_envelope.envelope_service_axioms _ sx_run, of sx_secret "''s1''" ex_head1 sx_current sx_final "''c1''" None]
    sx_uid sx_stored_secret sx_read
  by (auto simp: ref_wraps_def uid_of_def ex_lookup_def)

section \<open>Access control of updates\<close>

lemma mapM_Inr_all:
  assumes "mapM f xs w = (Inr ys, w')" "\<And>x. keeps v (f x)"
    and "\<And>x y x1 x2. f x x1 = (Inr y, x2) \<Longrightarrow> v x1 = v w \<Longrightarrow> y = g x"
  shows "ys = map g xs"
  using mapM_all2 [OF assms(1,2)] by (induction rule: list_all2_induct) (auto dest: assms(3))

lemma assertAclEnvironment_ok:
  assumes D: "dynamo S table" and run: "assertAclEnvironment S acl e allow prior w = (Inr (), w')"
  shows "g \<in> set acl \<Longrightarrow> consumer_in e (consumer_of (table w) (g_consumerId g))"
    and "\<not> allow \<Longrightarrow> i \<in> g_consumerId ` (set acl \<union> set prior) \<Longrightarrow>
      agent_acl_kept acl prior (i, agent_grant_of (table w) i)"
proof -
  obtain records w1 where r: "mapM (\<lambda>grant. getConsumer S (g_consumerId grant)) acl w = (Inr records, w1)"
    and ok: "list_all (consumer_in e) records" and rest: "(if allow then ret ()
      else bindM (mapM (\<lambda>consumerId. bindM (getAgentGrantForConsumer S consumerId)
               (\<lambda>grant. ret (consumerId, grant)))
             (uniq (map g_consumerId acl @ map g_consumerId prior))) (\<lambda>agentGrants.
           throwIf (\<not> list_all (agent_acl_kept acl prior) agentGrants)
             (conflict ''Agent consumer access is managed by its AgentGrant, not the secret ACL.''))) w1
      = (Inr (), w')"
    using run unfolding assertAclEnvironment_def bindM_ok thenM_ok throwIf_ok by blast
  have "records = map (\<lambda>grant. consumer_of (table w) (g_consumerId grant)) acl"
    by (rule mapM_Inr_all [OF r]) (auto intro: dynamo.reads_keep_table [OF D] dest: dynamo.getConsumer_value [OF D])
  with ok show "g \<in> set acl \<Longrightarrow> consumer_in e (consumer_of (table w) (g_consumerId g))"
    by (simp add: list_all_iff)
  have k1: "keeps table (mapM (\<lambda>grant. getConsumer S (g_consumerId grant)) acl)"
    by (intro keeps_intro dynamo.reads_keep_table [OF D])
  have t1: "table w1 = table w" by (rule keepsD [OF k1 r])
  show "agent_acl_kept acl prior (i, agent_grant_of (table w) i)"
    if a: "\<not> allow" and i: "i \<in> g_consumerId ` (set acl \<union> set prior)"
  proof -
    obtain ags w2 where ags: "mapM (\<lambda>consumerId. bindM (getAgentGrantForConsumer S consumerId)
               (\<lambda>grant. ret (consumerId, grant)))
             (uniq (map g_consumerId acl @ map g_consumerId prior)) w1 = (Inr ags, w2)"
      and all: "list_all (agent_acl_kept acl prior) ags"
      using rest a by (auto simp: em_ok)
    have "ags = map (\<lambda>j. (j, agent_grant_of (table w1) j)) (uniq (map g_consumerId acl @ map g_consumerId prior))"
      by (rule mapM_Inr_all [OF ags])
        (auto simp: em_ok intro!: keeps_intro dynamo.reads_keep_table [OF D]
          dest: dynamo.getAgentGrantForConsumer_value [OF D])
    with all i t1 show ?thesis by (auto simp: list_all_iff)
  qed
qed

lemma sameGrant_eq: "sameGrant g g' \<longleftrightarrow> g = g'"
  by (cases g; cases g') (simp add: sameGrant_def)

text \<open>C26: an update can only grant access to registered active consumers of the secret's own environment,
  and unless it maintains an agent grant itself it leaves the ACL entry of every agent consumer as it
  was: none is added, removed or changed.\<close>

theorem update_acl_guarded:
  assumes "dynamo S table" "object_service S objects"
    and "secrets_update S cfg input w = (Inr control, w')"
    and "uid_of (table w) (us_environment input) (us_secretId input) = Some u"
    and "stored_secret cfg (table w) (objects w) u h current"
  shows "(\<forall>g \<in> set (c_acl control). \<exists>c. consumer_of (table w) (g_consumerId g) = Some c
      \<and> cn_status c = C_ACTIVE \<and> cn_environment c = h_environment h)
    \<and> (\<not> us_allowAgentAcl input \<longrightarrow> agent_grant_of (table w) i \<noteq> None \<longrightarrow>
        List.find (\<lambda>g. g_consumerId g = i) (c_acl control) = List.find (\<lambda>g. g_consumerId g = i) (c_acl current))"
proof (rule secrets_update_ok [OF assms], goal_cases)
  case (1 w0 createdAt payload version prior w5 w1 w2 w3 acl)
  have acl: "c_acl control = acl" by (simp add: 1(2,5) split: option.split)
  note ok = assertAclEnvironment_ok [OF assms(1) 1(3), unfolded 1(7)]
  have "List.find (\<lambda>g. g_consumerId g = i) acl = List.find (\<lambda>g. g_consumerId g = i) (c_acl current)"
    if "\<not> us_allowAgentAcl input" and "agent_grant_of (table w) i \<noteq> None"
  proof (cases "i \<in> g_consumerId ` (set acl \<union> set (c_acl current))")
    case True
    with ok(2) that have "agent_acl_kept acl (c_acl current) (i, agent_grant_of (table w) i)" by simp
    with that(2) show ?thesis by (auto simp: agent_acl_kept_def sameGrant_eq split: option.splits)
  next
    case False
    then have "List.find (\<lambda>g. g_consumerId g = i) acl = None"
      "List.find (\<lambda>g. g_consumerId g = i) (c_acl current) = None" by (auto simp: find_None_iff)
    then show ?thesis by simp
  qed
  moreover have "\<exists>c. consumer_of (table w) (g_consumerId g) = Some c \<and> cn_status c = C_ACTIVE
      \<and> cn_environment c = h_environment h" if "g \<in> set acl" for g
    using ok(1) [OF that] by (auto simp: consumer_in_def split: option.splits)
  ultimately show ?case by (simp add: acl)
qed

theorem update_acl_guarded_witness:
  "\<exists>c. consumer_of (ref_table sx_world) ''c1'' = Some c \<and> cn_status c = C_ACTIVE \<and> cn_environment c = ''prod''"
  using update_acl_guarded [OF ref_dynamo.dynamo_axioms ref_objects.object_service_axioms sx_run, of "''s1''"
      ex_head1 sx_current] sx_uid sx_stored_secret by simp

text \<open>C28: an update that names any other version than the current one is refused and changes nothing: the
  caller gets the failed precondition, unless reading the current revision already failed.\<close>

theorem stale_update_refused:
  assumes "dynamo S table" "object_service S objects"
    and "secrets_update S cfg input w = (r, w')"
    and "uid_of (table w) (us_environment input) (us_secretId input) = Some u"
    and "head_of (table w) u = Some h" "us_expectedControlVersionId input \<noteq> h_controlVersionId h"
  shows "\<exists>e. r = Inl e \<and> table w' = table w \<and> objects w' = objects w
    \<and> (e = preconditionFailed ''If-Match does not name the current control revision.''
       \<or> fst (getControlSnapshot S cfg (us_environment input) (us_secretId input) w) = Inl e)"
proof -
  let ?read = "getControlSnapshot S cfg (us_environment input) (us_secretId input)"
  have k: "keeps table ?read" "keeps objects ?read"
    unfolding getControlSnapshot_def controlSnapshotFromHead_def
    by (intro keeps_intro dynamo.reads_keep_table [OF assms(1)] dynamo.service_reads_keep [OF assms(1)]
        object_service.table_reads_keep_objects [OF assms(2)] object_service.getControl_keeps_objects [OF assms(2)])+
  obtain x w1 where x: "?read w = (x, w1)" by fastforce
  have w1: "table w1 = table w" "objects w1 = objects w" using k [THEN keepsD, OF x] by simp_all
  show ?thesis
  proof (cases x)
    case (Inl e)
    with x assms(3) w1 show ?thesis by (auto simp: secrets_update_def bindM_def)
  next
    case (Inr snapshot)
    with x have s: "?read w = (Inr snapshot, w1)" by simp
    have "ssn_head snapshot = h"
      by (rule getControlSnapshot_ok [OF assms(1) s]) (use assms(4,5) in simp)
    with s assms(3,6) w1 show ?thesis
      by (auto simp: secrets_update_def bindM_def updateFromSnapshot_def Let_def thenM_def
          assertExpectedVersion_def throwIf_def)
  qed
qed

theorem stale_update_refused_witness:
  "fst (secrets_update ref_services sx_config sx_update sx_final)
     = Inl (preconditionFailed ''If-Match does not name the current control revision.'')"
proof -
  obtain r w' where run: "secrets_update ref_services sx_config sx_update sx_final = (r, w')" by fastforce
  have "uid_of (ref_table sx_final) ''prod'' ''db/pw'' = Some ''s1''" "head_of (ref_table sx_final) ''s1'' = Some sx_head"
    by (simp_all add: uid_of_def head_of_def ex_lookup_def)
  moreover have "us_expectedControlVersionId sx_update \<noteq> ''ctl-id3''" by (simp add: sx_update_def)
  moreover have "fst (getControlSnapshot ref_services sx_config ''prod'' ''db/pw'' sx_final)
      = Inr \<lparr>ssn_head = sx_head, ssn_control = sx_control\<rparr>"
  proof -
    have "requireHead ref_services ''prod'' ''db/pw'' sx_final = (Inr sx_head, sx_final)"
      by (simp add: requireHead_def getHead_def getSecretUid_def getHeadBySecretUid_def bindM_def ref_get_def
          orRaise_def ex_lookup_def)
    then show ?thesis
      by (simp add: getControlSnapshot_def controlSnapshotFromHead_def bindM_def sx_getControl_final)
  qed
  ultimately show ?thesis
    using stale_update_refused [OF ref_dynamo.dynamo_axioms ref_objects.object_service_axioms run, of "''s1''" sx_head]
      run by auto
qed

text \<open>The projection of an agent grant never follows a reused name: when the name the grant remembers
  leads to another identity by now, granting read access changes nothing.\<close>

theorem agent_grant_never_follows_name:
  assumes "dynamo S table" "object_service S objects"
    and "grantAgentConsumerReadAccess S cfg consumer e i secretUid actor w = (r, w')"
    and "uid_of (table w) e i = Some u" "head_of (table w) u = Some h" "h_secretUid h = u" "u \<noteq> secretUid"
  shows "table w' = table w \<and> objects w' = objects w"
proof -
  obtain x w1 where x: "requireHead S e i w = (x, w1)" by fastforce
  have w1: "table w1 = table w" "objects w1 = objects w"
    using dynamo.reads_keep_table(4) [OF assms(1), THEN keepsD, OF x]
      object_service.table_reads_keep_objects(4) [OF assms(2), THEN keepsD, OF x] by simp_all
  show ?thesis
  proof (cases x)
    case (Inl err)
    with x assms(3) w1 show ?thesis by (simp add: grantAgentConsumerReadAccess_def bindM_def)
  next
    case (Inr hd)
    with x have run: "requireHead S e i w = (Inr hd, w1)" by simp
    with dynamo.requireHead_value [OF assms(1) run] assms(4-7) have "h_secretUid hd \<noteq> secretUid" by simp
    with run assms(3) w1 show ?thesis by (simp add: grantAgentConsumerReadAccess_def bindM_def)
  qed
qed

theorem agent_grant_never_follows_name_witness:
  "ref_table (snd (grantAgentConsumerReadAccess ref_services sx_config ''c1'' ''prod'' ''db/pw'' ''s0'' ex_actor sx_world))
     = ref_table sx_world"
proof -
  obtain r w' where run: "grantAgentConsumerReadAccess ref_services sx_config ''c1'' ''prod'' ''db/pw'' ''s0'' ex_actor
      sx_world = (r, w')" by fastforce
  from agent_grant_never_follows_name [OF ref_dynamo.dynamo_axioms ref_objects.object_service_axioms run, of "''s1''"
      ex_head1] show ?thesis by (simp add: run sx_uid head_of_def)
qed

section \<open>Archival\<close>

lemma secrets_archive_ok:
  assumes D: "dynamo S table" and O: "object_service S objects"
    and run: "secrets_archive S cfg input w = (Inr control, w')"
    and uid: "uid_of (table w) (ar_environment input) (ar_secretId input) = Some u"
    and stored: "stored_secret cfg (table w) (objects w) u h current"
  obtains version now prior w5 where
    "ar_expectedControlVersionId input = h_controlVersionId h"
    "control = current\<lparr>c_secretUid := Some u, c_controlVersionId := ''ctl-'' @ version,
       c_state := S_ARCHIVED, c_createdAt := now, c_createdBy := ar_actor input, c_acl := []\<rparr>"
    "persistMutation S cfg control None (ar_actor input) (ar_idempotencyKey input)
       (Some (ar_expectedControlVersionId input)) (Some h) prior True w5 = (Inr (), w')"
    "table w5 = table w" "objects w5 = objects w"
proof -
  obtain head w1 current' w2 version w3 now w4 prior w5 where
    hd: "requireHead S (ar_environment input) (ar_secretId input) w = (Inr head, w1)" and
    e: "h_controlVersionId head = ar_expectedControlVersionId input" and
    c: "getControl S cfg head w1 = (Inr current', w2)" and
    id: "sv_newId S w2 = (Inr version, w3)" and now: "sv_now S w3 = (Inr now, w4)" and
    prior: "priorAccess S (c_acl current') (h_environment head) (ar_secretId input) w4 = (Inr prior, w5)" and
    per: "persistMutation S cfg (current'\<lparr>c_secretUid := Some (h_secretUid head),
            c_controlVersionId := ''ctl-'' @ version, c_state := S_ARCHIVED, c_createdAt := now,
            c_createdBy := ar_actor input, c_acl := []\<rparr>) None (ar_actor input) (ar_idempotencyKey input)
       (Some (ar_expectedControlVersionId input)) (Some head) prior True w5 = (Inr (), w')" and
    control: "control = current'\<lparr>c_secretUid := Some (h_secretUid head),
            c_controlVersionId := ''ctl-'' @ version, c_state := S_ARCHIVED, c_createdAt := now,
            c_createdBy := ar_actor input, c_acl := []\<rparr>"
    using run unfolding secrets_archive_def Let_def bindM_ok thenM_ok assertExpectedVersion_ok ret_run by auto
  have hh: "head = h" using dynamo.requireHead_value [OF D hd] uid stored by (simp add: stored_secret_def)
  have u: "h_secretUid h = u" using stored by (simp add: stored_secret_def)
  have o1: "objects w1 = objects w" by (rule object_service.table_reads_keep_objects(4) [OF O, THEN keepsD, OF hd])
  have c': "current' = current\<lparr>c_secretUid := Some u\<rparr>"
  proof (rule getControl_value [OF O c], goal_cases)
    case (1 v k d)
    with stored o1 hh u show ?case by (auto simp: stored_secret_def control_backed_def)
  qed
  have o_prior: "keeps objects (priorAccess S a e i)" for a e i
    unfolding priorAccess_def by (intro keeps_intro object_service.table_reads_keep_objects [OF O])
  have t5: "table w5 = table w"
    using keepsD [OF dynamo.reads_keep_table(4) [OF D] hd] keepsD [OF dynamo.service_reads_keep(1) [OF D] c]
      dynamo.newId_run [OF D id] dynamo.now_run [OF D now] keepsD [OF dynamo.service_reads_keep(3) [OF D] prior]
    by simp
  have o5: "objects w5 = objects w"
    using o1 object_service.getControl_keeps_objects [OF O, THEN keepsD, OF c]
      object_service.newId_keeps_objects [OF O, THEN keepsD, OF id]
      object_service.now_keeps_objects [OF O, THEN keepsD, OF now] keepsD [OF o_prior prior] by simp
  show ?thesis
    by (rule that [OF _ _ per [folded control, unfolded hh] t5 o5]) (use e in \<open>simp_all add: control hh c' u\<close>)
qed

text \<open>C27: an archival that returns was made against the current version, empties the ACL, leaves head and
  control revision archived and in agreement, with the payload version they had, and releases the name:
  from then on no read under that name returns, whatever the access rows say, until the name is taken
  again.\<close>

theorem archive_takes_away:
  assumes "dynamo S table" "object_service S objects"
    and "secrets_archive S cfg input w = (Inr control, w')"
    and "uid_of (table w) (ar_environment input) (ar_secretId input) = Some u"
    and "stored_secret cfg (table w) (objects w) u h current"
    and "h_secretId h = ar_secretId input" "h_environment h = ar_environment input"
  shows "ar_expectedControlVersionId input = h_controlVersionId h \<and> c_acl control = []
    \<and> uid_of (table w') (ar_environment input) (ar_secretId input) = None
    \<and> (\<exists>h'. stored_secret cfg (table w') (objects w') u h' control \<and> h_state h' = S_ARCHIVED
        \<and> h_secretId h' = ar_secretId input \<and> h_payloadVersionId h' = h_payloadVersionId h)
    \<and> \<not> (\<exists>w1 r w2. table w1 = table w'
        \<and> secrets_read S cfg consumer (ar_environment input) (ar_secretId input) inm callback w1 = (Inr r, w2))"
proof (rule secrets_archive_ok [OF assms(1-5)], goal_cases)
  case (1 version now prior w5)
  have h: "head_of (table w) u = Some h" "h_secretUid h = u" "payload_backed cfg (objects w) h"
    and agree: "control_agrees current (h_secretId h) h"
    using assms(5) by (auto simp: stored_secret_def control_backed_def)
  have c: "c_schemaVersion control = 1" "c_secretUid control = Some u" "c_secretId control = h_secretId h"
    "c_environment control = h_environment h" "c_acl control = []" "c_state control = S_ARCHIVED"
    "c_payloadVersionId control = h_payloadVersionId h"
    using agree by (simp_all add: 1(2) control_agrees_def)
  then have "payload_fits control None (Some h)" by (simp add: payload_fits_def)
  then obtain h' where h': "stored_secret cfg (table w') (objects w') u h' control"
    "h_secretId h' = c_secretId control"
    using persisted_consistent [OF assms(1,2) 1(3) c(1,2)] h c 1(4,5) by auto
  have hs: "h_state h' = S_ARCHIVED" "h_payloadVersionId h' = h_payloadVersionId h"
    using h' c by (auto simp: stored_secret_def control_backed_def control_agrees_def)
  have free: "uid_of (table w') (ar_environment input) (ar_secretId input) = None"
    using persisted_names [OF assms(1) 1(3), of "ar_environment input" "ar_secretId input"] c assms(6,7) by simp
  have "\<not> (\<exists>w1 r w2. table w1 = table w'
        \<and> secrets_read S cfg consumer (ar_environment input) (ar_secretId input) inm callback w1 = (Inr r, w2))"
  proof clarify
    fix w1 r w2 assume "table w1 = table w'"
      "secrets_read S cfg consumer (ar_environment input) (ar_secretId input) inm callback w1 = (Inr r, w2)"
    with free show False by (auto elim!: secrets_read_ok [OF assms(1,2)])
  qed
  with 1(1) c(3,5) h' hs free assms(6) show ?case by auto
qed

theorem archive_takes_away_witness:
  "uid_of (ref_table ax_final) ''prod'' ''db/pw'' = None"
  using archive_takes_away [OF ref_dynamo.dynamo_axioms ref_objects.object_service_axioms ax_run, of "''s1''"
      ex_head1 sx_current] sx_uid sx_stored_secret by (simp add: ax_archive_def)

end
