(* ===== verification/Agents.thy ===== *)
theory Agents
  imports Secrets
begin

text \<open>
  Class AgentService, src/src/services/agents.ts: what an agent may do under its AgentGrant, in
  addition to the ACL of the secret. Permissions of a grant name immutable secret identities; a grant
  without secretGrants (a record before the migration) grants nothing.
\<close>

section \<open>Grants\<close>

record AgentSecretWriteInput =
  aw_consumerId :: string
  aw_environment :: string
  aw_secretId :: string
  aw_expectedControlVersionId :: "string option"
  aw_metadata :: "SecretMetadata option"
  aw_payload :: "SecretPayload option"
  aw_actor :: Actor
  aw_idempotencyKey :: string

definition hasSecretPermission :: "AgentGrantRecord \<Rightarrow> string \<Rightarrow> capability \<Rightarrow> bool" where
  "hasSecretPermission grant secretUid permission = (case ag_secretGrants grant of
     None \<Rightarrow> False
   | Some scopes \<Rightarrow> some_in (\<lambda>scope. sg_secretUid scope = secretUid \<and> permission \<in> set (sg_permissions scope)) scopes)"

definition requireGrant :: "'w services \<Rightarrow> string \<Rightarrow> string \<Rightarrow> ('w, AgentGrantRecord) app" where
  "requireGrant S consumerId environment =
     bindM (getAgentGrantForConsumer S consumerId) (\<lambda>found. (case found of
        None \<Rightarrow> raise (forbiddenMsg ''The client identity does not have an active agent grant.'')
      | Some grant \<Rightarrow>
          if ag_status grant \<noteq> G_ACTIVE \<or> ag_environment grant \<noteq> environment
          then raise (forbiddenMsg ''The client identity does not have an active agent grant.'')
          else ret grant))"

definition requireCapability ::
  "'w services \<Rightarrow> string \<Rightarrow> string \<Rightarrow> capability \<Rightarrow> ('w, AgentGrantRecord) app" where
  "requireCapability S consumerId environment capability =
     bindM (requireGrant S consumerId environment) (\<lambda>grant.
     thenM (throwIf (capability \<notin> set (ag_capabilities grant))
       (forbiddenMsg ''The agent grant does not allow this operation.''))
     (ret grant))"

definition requireSecretPermission ::
  "string option \<Rightarrow> AgentGrantRecord \<Rightarrow> capability \<Rightarrow> ('w, unit) app" where
  "requireSecretPermission secretUid grant permission =
     throwIf (case secretUid of None \<Rightarrow> True | Some u \<Rightarrow> \<not> hasSecretPermission grant u permission)
       (forbiddenMsg ''The agent grant does not allow this secret.'')"

definition requireReadScope :: "string option \<Rightarrow> AgentGrantRecord \<Rightarrow> ('w, unit) app" where
  "requireReadScope secretUid grant = requireSecretPermission secretUid grant CRead"

definition requireWriteScope :: "string option \<Rightarrow> AgentGrantRecord \<Rightarrow> ('w, unit) app" where
  "requireWriteScope secretUid grant = requireSecretPermission secretUid grant CWrite"

definition isWithinReadScope :: "string option \<Rightarrow> AgentGrantRecord \<Rightarrow> bool" where
  "isWithinReadScope secretUid grant = (case secretUid of None \<Rightarrow> False
     | Some u \<Rightarrow> hasSecretPermission grant u CRead)"

definition requireSecretUidForPermission ::
  "string \<Rightarrow> AgentGrantRecord \<Rightarrow> capability \<Rightarrow> ('w, string) app" where
  "requireSecretUidForPermission secretId grant permission =
     orRaise (Option.bind (ag_secretGrants grant) (\<lambda>scopes. map_option sg_secretUid
         (List.find (\<lambda>scope. sg_secretId scope = secretId \<and> permission \<in> set (sg_permissions scope)) scopes)))
       (forbiddenMsg ''The agent grant does not allow this secret.'')"

section \<open>Operations\<close>

definition agents_config :: "'w services \<Rightarrow> string \<Rightarrow> string \<Rightarrow> ('w, AgentGrantRecord) app" where
  "agents_config S consumerId environment = requireGrant S consumerId environment"

definition agents_read ::
  "'w services \<Rightarrow> AppConfig \<Rightarrow> string \<Rightarrow> string \<Rightarrow> string \<Rightarrow> string option \<Rightarrow> ('w, unit) app option
     \<Rightarrow> ('w, SecretReadResult) app" where
  "agents_read S cfg consumerId environment secretId ifNoneMatch onAuthorized =
     bindM (requireCapability S consumerId environment CRead) (\<lambda>grant.
     bindM (getControlRevision S cfg environment secretId) (\<lambda>control.
     thenM (requireReadScope (c_secretUid control) grant)
     (secrets_read S cfg consumerId environment secretId ifNoneMatch onAuthorized)))"

definition agents_control ::
  "'w services \<Rightarrow> AppConfig \<Rightarrow> string \<Rightarrow> string \<Rightarrow> string \<Rightarrow> ('w, ControlRevision) app" where
  "agents_control S cfg consumerId environment secretId =
     bindM (requireGrant S consumerId environment) (\<lambda>grant.
     thenM (throwIf (CRead \<notin> set (ag_capabilities grant) \<and> CWrite \<notin> set (ag_capabilities grant))
       (forbiddenMsg ''The agent grant does not allow this operation.''))
     (bindM (getControlRevision S cfg environment secretId) (\<lambda>control.
      thenM (if CWrite \<in> set (ag_capabilities grant)
               \<and> (case c_secretUid control of None \<Rightarrow> False | Some u \<Rightarrow> hasSecretPermission grant u CWrite)
             then requireWriteScope (c_secretUid control) grant
             else requireReadScope (c_secretUid control) grant)
        (ret control))))"

text \<open>A row outside the scope of the grant is delivered as a revocation without payload.\<close>

definition scoped_change ::
  "'w services \<Rightarrow> AgentGrantRecord \<Rightarrow> string \<Rightarrow> AccessRecord \<Rightarrow> ('w, AccessRecord option) app" where
  "scoped_change S grant environment change =
     bindM (getHeadBySecretUid S (a_secretUid change)) (\<lambda>head. ret (case head of
        None \<Rightarrow> None
      | Some h \<Rightarrow>
          if h_environment h \<noteq> environment then None
          else if isWithinReadScope (Some (h_secretUid h)) grant then Some change
          else Some (change\<lparr>a_permissions := [], a_payloadVersionId := None, a_state := S_REVOKED,
                            a_changeKind := SecretRevoked\<rparr>)))"

definition agents_listChanges ::
  "'w services \<Rightarrow> string \<Rightarrow> string \<Rightarrow> startKey option \<Rightarrow> ('w, ChangePage) app" where
  "agents_listChanges S consumerId environment start =
     bindM (requireCapability S consumerId environment CRead) (\<lambda>grant.
     bindM (listAccess S consumerId environment start) (\<lambda>page.
     bindM (mapM (scoped_change S grant environment) (chg_changes page)) (\<lambda>candidates.
       ret \<lparr>chg_changes = List.map_filter id candidates, chg_nextCursor = chg_nextCursor page\<rparr>)))"

definition agents_update ::
  "'w services \<Rightarrow> AppConfig \<Rightarrow> AgentSecretWriteInput \<Rightarrow> ('w, ControlRevision) app" where
  "agents_update S cfg input =
     bindM (orRaise (aw_expectedControlVersionId input)
       (forbiddenMsg ''An agent update requires the current control revision.'')) (\<lambda>expected.
     bindM (requireCapability S (aw_consumerId input) (aw_environment input) CWrite) (\<lambda>grant.
     bindM (requireSecretUidForPermission (aw_secretId input) grant CWrite) (\<lambda>secretUid.
     bindM (getControlSnapshotBySecretUid S cfg secretUid) (\<lambda>snapshot.
     let current = ssn_control snapshot
     in thenM (throwIf (c_environment current \<noteq> aw_environment input \<or> c_secretId current \<noteq> aw_secretId input)
          forbidden)
       (thenM (throwIf (aw_metadata input = None \<and> aw_payload input = None)
          (forbiddenMsg ''An agent update must change metadata and/or payload.''))
       (thenM (requireWriteScope (c_secretUid current) grant)
       (updateFromSnapshot S cfg \<lparr>us_secretId = aw_secretId input, us_environment = aw_environment input,
          us_expectedControlVersionId = expected, us_metadata = aw_metadata input, us_acl = None,
          us_payload = aw_payload input, us_actor = aw_actor input,
          us_idempotencyKey = aw_idempotencyKey input, us_allowAgentAcl = False\<rparr> snapshot)))))))"

end
