(* ===== verification/Agent_Examples.thy ===== *)
theory Agent_Examples
  imports Agents Secret_Examples
begin

text \<open>
  Runs of the agent service on the in-memory services: the agent of theory Secret_Examples reads and
  updates its secret, and updates an identity whose name has been released by an archival.
\<close>

section \<open>The live secret\<close>

definition aw_update :: AgentSecretWriteInput where
  "aw_update = \<lparr>aw_consumerId = ''c1'', aw_environment = ''prod'', aw_secretId = ''db/pw'',
     aw_expectedControlVersionId = Some ''v1'', aw_metadata = None, aw_payload = Some sx_secret,
     aw_actor = ex_actor, aw_idempotencyKey = ''k9''\<rparr>"

lemma aw_update_fields [simp]:
  "aw_consumerId aw_update = ''c1''" "aw_environment aw_update = ''prod''" "aw_secretId aw_update = ''db/pw''"
  "aw_expectedControlVersionId aw_update = Some ''v1''" "aw_payload aw_update = Some sx_secret"
  "aw_metadata aw_update = None" "aw_actor aw_update = ex_actor" "aw_idempotencyKey aw_update = ''k9''"
  by (simp_all add: aw_update_def)

lemma sx_grant_fields [simp]:
  "ag_status sx_grant = G_ACTIVE" "ag_environment sx_grant = ''prod''" "ag_capabilities sx_grant = [CRead, CWrite]"
  "ag_secretGrants sx_grant = Some [\<lparr>sg_secretId = ''db/pw'', sg_secretUid = ''s1'', sg_permissions = [CRead, CWrite]\<rparr>]"
  by (simp_all add: sx_grant_def)

lemma granted:
  assumes "ref_table w (consumerPk ''c1'', ''AGENT_GRANT'') = Some (snd sx_mapping)"
    and "ref_table w (agentGrantPk ''g1'', ''PROFILE'') = Some (AgentGrantIt sx_grant)"
  shows "requireCapability ref_services ''c1'' ''prod'' c w =
    (if c \<in> {CRead, CWrite} then (Inr sx_grant, w)
     else (Inl (forbiddenMsg ''The agent grant does not allow this operation.''), w))"
  using assms
  by (auto simp: requireCapability_def requireGrant_def bindM_def thenM_def throwIf_def getAgentGrantForConsumer_def
      getAgentGrant_def ref_get_def sx_mapping_def)

lemma sx_permission: "hasSecretPermission sx_grant ''s1'' CRead" "hasSecretPermission sx_grant ''s1'' CWrite"
  by (simp_all add: hasSecretPermission_def)

lemma sx_agent_read: "agents_read ref_services sx_config ''c1'' ''prod'' ''db/pw'' None None sx_final
    = (Inr \<lparr>rr_notModified = False, rr_controlVersionId = ''ctl-id3'', rr_payloadVersionId = Some ''pay-id0'',
         rr_payload = Some sx_secret\<rparr>, sx_final)"
proof -
  have "requireHead ref_services ''prod'' ''db/pw'' sx_final = (Inr sx_head, sx_final)"
    by (simp add: requireHead_def getHead_def getSecretUid_def getHeadBySecretUid_def bindM_def ref_get_def
        orRaise_def ex_lookup_def)
  then have "getControlRevision ref_services sx_config ''prod'' ''db/pw'' sx_final = (Inr sx_control, sx_final)"
    by (simp add: getControlRevision_def getControlSnapshot_def controlSnapshotFromHead_def bindM_def sx_getControl_final)
  then show ?thesis
    by (simp add: agents_read_def bindM_def granted sx_grant_after thenM_def requireReadScope_def
        requireSecretPermission_def throwIf_def sx_permission sx_read)
qed

lemma sx_requireUid: "requireHeadBySecretUid ref_services ''s1'' sx_world = (Inr ex_head1, sx_world)"
  by (simp add: requireHeadBySecretUid_def getHeadBySecretUid_def bindM_def ref_get_def orRaise_def)

lemma sx_agent_update: "agents_update ref_services sx_config aw_update sx_world = (Inr sx_control, sx_final)"
proof -
  have "updateFromSnapshot ref_services sx_config sx_update \<lparr>ssn_head = ex_head1, ssn_control = sx_current\<rparr> sx_world
      = (Inr sx_control, sx_final)"
    using sx_run by (simp add: secrets_update_def bindM_def sx_update_def sx_snapshot)
  then show ?thesis
    by (simp add: agents_update_def orRaise_def bindM_def granted requireSecretUidForPermission_def
        getControlSnapshotBySecretUid_def controlSnapshotFromHead_def sx_requireUid sx_getControl Let_def thenM_def
        throwIf_def requireWriteScope_def requireSecretPermission_def sx_permission sx_update_def)
qed

section \<open>An archived secret\<close>

definition dx_current :: ControlRevision where
  "dx_current = sx_current\<lparr>c_state := S_ARCHIVED, c_acl := []\<rparr>"

definition dx_head :: HeadRecord where
  "dx_head = ex_head1\<lparr>h_state := S_ARCHIVED, h_catalogPk := Some (archivedCatalogPk ''prod'')\<rparr>"

lemma dx_head_fields [simp]:
  "h_secretUid dx_head = ''s1''" "h_secretId dx_head = ''db/pw''" "h_environment dx_head = ''prod''"
  "h_controlVersionId dx_head = ''v1''" "h_controlObjectVersionId dx_head = Some ''ov''"
  "h_controlObjectKey dx_head = Some ''k-v1''" "h_payloadVersionId dx_head = None"
  "h_leaseOwner dx_head = None" "h_leaseExpiresAt dx_head = None" "h_state dx_head = S_ARCHIVED"
  "h_syncSequence dx_head = Some 1" "h_payloadObjectVersionId dx_head = None" "h_payloadObjectKey dx_head = None"
  by (simp_all add: dx_head_def)

lemma dx_current_fields [simp]:
  "c_acl dx_current = []" "c_secretUid dx_current = Some ''s1''" "c_secretId dx_current = ''db/pw''"
  "c_environment dx_current = ''prod''" "c_payloadVersionId dx_current = None" "c_controlVersionId dx_current = ''v1''"
  "c_state dx_current = S_ARCHIVED" "c_schemaVersion dx_current = 1"
  "c_metadata dx_current = \<lparr>md_description = None, md_tags = None\<rparr>"
  by (simp_all add: dx_current_def)

definition dx_object :: "(string \<times> string \<times> string) \<times> document" where
  "dx_object = ((''rev'', ''k-v1'', ''ov''), ControlDoc dx_current)"

definition dx_items :: "(dkey \<times> item) list" where
  "dx_items = [sx_mapping, sx_grant_item, (ex_head_key, HeadItem dx_head),
     ((syncPk ''prod'', ''STATE''), ex_state 1), (ex_control_key ''v1'', WorkflowIt (ex_ready ex_create)),
     ex_row ex_create 1]"

definition dx_world :: ref_world where
  "dx_world = \<lparr>rw_items = dx_items, rw_objects = [dx_object], rw_clock = 1000, rw_counter = 0\<rparr>"

lemma dx_world_fields [simp]: "rw_clock dx_world = 1000" "rw_counter dx_world = 0" "rw_items dx_world = dx_items"
  "rw_objects dx_world = [dx_object]"
  by (simp_all add: dx_world_def)

lemmas dx_item_defs = dx_items_def sx_mapping_def sx_grant_item_def ex_row_def sx_keys ex_actor_def sx_request_def
  sx_payload_key_def

lemma dx_at [simp]:
  "ref_table dx_world (secretPk ''s1'', ''HEAD'') = Some (HeadItem dx_head)"
  "ref_table dx_world (consumerPk ''c1'', ''AGENT_GRANT'') = Some (snd sx_mapping)"
  "ref_table dx_world (agentGrantPk ''g1'', ''PROFILE'') = Some (AgentGrantIt sx_grant)"
  by (simp_all add: ref_table_def dx_item_defs)

lemma dx_getControl: "getControl ref_services sx_config dx_head dx_world = (Inr dx_current, dx_world)"
proof -
  have "ref_objects dx_world (''rev'', ''k-v1'', ''ov'') = Some (ControlDoc dx_current)"
    by (simp add: ref_objects_def dx_object_def)
  then show ?thesis
    by (simp add: getControl_def getJson_def bindM_def ref_getObject_def Let_def as_control_def)
qed

lemma dx_payload: "update_payload ref_services sx_update dx_head 1000 dx_world
    = (Inr (Some sx_revision), dx_world\<lparr>rw_counter := 3\<rparr>)"
  by (simp add: update_payload_def sx_update_def bindM_def ref_fresh_def ref_tick_def encrypt_def
      ref_generateDataKey_def Let_def ref_gcmSeal_def envelope_aad_def sx_revision_def sx_binding_def
      envelope_context_def)

definition dx_control :: ControlRevision where
  "dx_control = update_control sx_update \<lparr>ssn_head = dx_head, ssn_control = dx_current\<rparr> 1000
     (Some sx_revision) ''id3''"

lemma dx_control_fields [simp]:
  "c_secretUid dx_control = Some ''s1''" "c_secretId dx_control = ''db/pw''" "c_environment dx_control = ''prod''"
  "c_controlVersionId dx_control = ''ctl-id3''" "c_state dx_control = S_ACTIVE" "c_acl dx_control = []"
  by (simp_all add: dx_control_def update_control_def Let_def sx_update_def)

definition dx_mutation :: PreparedMutation where
  "dx_mutation = prepared_mutation ref_services dx_control (Some sx_revision) ex_actor ''k9'' (Some ''v1'')
     False ''s1'' ''id4'' 601000"

lemma dx_mutation_fields [simp]:
  "pm_operationId dx_mutation = ''id4''" "pm_idempotencyKey dx_mutation = ''k9''" "pm_actor dx_mutation = ex_actor"
  "pm_secretId dx_mutation = ''db/pw''" "pm_secretUid dx_mutation = ''s1''" "pm_environment dx_mutation = ''prod''"
  "pm_expectedControlVersionId dx_mutation = Some ''v1''" "pm_archive dx_mutation = False"
  "pm_control dx_mutation = dx_control" "pm_controlKey dx_mutation = controlKey ''s1'' ''ctl-id3''"
  "pm_payload dx_mutation = Some sx_prepared_payload" "pm_expiresAt dx_mutation = 601000"
  "pm_controlBytes dx_mutation = ControlDoc dx_control"
  by (simp_all add: dx_mutation_def prepared_mutation_def sx_prepared_payload_def sx_revision_def)

definition dx_leased :: HeadRecord where
  "dx_leased = dx_head\<lparr>h_leaseOwner := Some ''id4'', h_leaseExpiresAt := Some 601000\<rparr>"

definition dx_items1 :: "(dkey \<times> item) list" where
  "dx_items1 = [((idempotencyPk ex_actor, requestSk ''k9''), IdempotencyIt (prepared_request dx_mutation)),
     (ex_control_key ''ctl-id3'', WorkflowIt (prepared_control dx_mutation)),
     (sx_payload_key, WorkflowIt (prepared_payload dx_mutation sx_prepared_payload)),
     (ex_head_key, HeadItem dx_leased), sx_mapping, sx_grant_item,
     ((syncPk ''prod'', ''STATE''), ex_state 1), (ex_control_key ''v1'', WorkflowIt (ex_ready ex_create)),
     ex_row ex_create 1]"

lemma dx_prepared: "prepareMutation ref_services dx_mutation (dx_world\<lparr>rw_counter := 5\<rparr>)
    = (Inr (), dx_world\<lparr>rw_counter := 5, rw_items := dx_items1\<rparr>)"
  by (simp add: prepareMutation_def prepare_actions_def prepare_head_actions_def bindM_def catchM_def
      ref_transactWrite_def ref_conds_def ref_apply_def List.map_filter_def dx_item_defs dx_items1_def
      dx_leased_def lease_free_def)

lemma dx_idempotency: "getIdempotency ref_services ex_actor ''k9'' (dx_world\<lparr>rw_counter := n\<rparr>)
    = (Inr None, dx_world\<lparr>rw_counter := n\<rparr>)"
  by (simp add: getIdempotency_def bindM_def ref_get_def ref_table_def dx_item_defs)

definition dx_objects :: "((string \<times> string \<times> string) \<times> document) list" where
  "dx_objects = [((''rev'', payloadKey ''s1'' ''pay-id0'', ''v6''), PayloadDoc sx_revision),
     ((''rev'', controlKey ''s1'' ''ctl-id3'', ''v5''), ControlDoc dx_control), dx_object]"

definition dx_stored :: ref_world where
  "dx_stored = dx_world\<lparr>rw_counter := 7, rw_items := dx_items1, rw_objects := dx_objects\<rparr>"

lemma dx_stored_fields [simp]: "rw_clock dx_stored = 1000" "rw_counter dx_stored = 7" "rw_items dx_stored = dx_items1"
  by (simp_all add: dx_stored_def)

lemma dx_puts: "putImmutable ref_services ''rev'' (controlKey ''s1'' ''ctl-id3'') (ControlDoc dx_control)
      (dx_world\<lparr>rw_counter := 5, rw_items := dx_items1\<rparr>)
    = (Inr (sx_ref (controlKey ''s1'' ''ctl-id3'') ''v5''), dx_world\<lparr>rw_counter := 6, rw_items := dx_items1,
         rw_objects := tl dx_objects\<rparr>)"
  "putImmutable ref_services ''rev'' (payloadKey ''s1'' ''pay-id0'') (PayloadDoc sx_revision)
      (dx_world\<lparr>rw_counter := 6, rw_items := dx_items1, rw_objects := tl dx_objects\<rparr>)
    = (Inr (sx_ref (payloadKey ''s1'' ''pay-id0'') ''v6''), dx_stored)"
  by (simp_all add: putImmutable_def bindM_def ref_putObject_def dx_object_def controlKey_def payloadKey_def Let_def
      ref_tick_def sx_ref_def dx_objects_def dx_stored_def)

lemma dx_retention: "extendPriorRetention ref_services sx_config (Some dx_head) dx_stored = (Inr (), dx_stored)"
  by (simp add: extendPriorRetention_def bindM_def thenM_def Let_def extendComplianceRetention_def)

definition dx_done :: CompletedMutation where
  "dx_done = \<lparr>cm_prepared = dx_mutation, cm_controlObject = sx_ref (controlKey ''s1'' ''ctl-id3'') ''v5'',
     cm_payloadObject = Some (sx_ref (payloadKey ''s1'' ''pay-id0'') ''v6''), cm_priorHead = Some dx_head,
     cm_priorAccess = []\<rparr>"

lemma dx_done_fields [simp]:
  "cm_prepared dx_done = dx_mutation" "cm_controlObject dx_done = sx_ref (controlKey ''s1'' ''ctl-id3'') ''v5''"
  "cm_payloadObject dx_done = Some (sx_ref (payloadKey ''s1'' ''pay-id0'') ''v6'')"
  "cm_priorHead dx_done = Some dx_head" "cm_priorAccess dx_done = []"
  by (simp_all add: dx_done_def)

lemma dx_access_unchanged [simp]: "accessProjectionChanged dx_control [] = False"
  by (simp add: accessProjectionChanged_def)

lemma dx_notifications: "notificationItemsFor ref_services dx_control items False w = (Inr [], w)"
  by (simp add: notificationItemsFor_def notificationOutboxRecord_def currentRecipients_def revokedRecipients_def
      bindM_def List.map_filter_def)

lemma dx_rest: "complete_rest dx_done due [] =
  [workflowReadyUpdate ''s1'' (controlSk ''ctl-id3'') (sx_ref (controlKey ''s1'' ''ctl-id3'') ''v5''),
   workflowReadyUpdate ''s1'' (payloadSk ''pay-id0'') (sx_ref (payloadKey ''s1'' ''pay-id0'') ''v6''),
   retentionCandidateUpdate ''s1'' (controlSk ''v1'') due]"
  by (simp add: complete_rest_def Let_def ready_actions_def retention_actions_def archive_actions_def
      notification_actions_def)

definition dx_acts :: "action list" where
  "dx_acts = [sync_counter ''prod'' (Some \<lparr>ss_epoch = ''id1'', ss_sequence = 1, ss_ready = False\<rparr>) ''id1'' 2,
   complete_head_action dx_done 2,
   workflowReadyUpdate ''s1'' (controlSk ''ctl-id3'') (sx_ref (controlKey ''s1'' ''ctl-id3'') ''v5''),
   workflowReadyUpdate ''s1'' (payloadSk ''pay-id0'') (sx_ref (payloadKey ''s1'' ''pay-id0'') ''v6''),
   retentionCandidateUpdate ''s1'' (controlSk ''v1'') ex_due,
   Put (syncPk ''prod'', syncSk 2 ''s1'') (SyncChangeIt (syncRecord ''s1'' dx_control) None) attribute_not_exists_pk,
   Delete (fst (ex_row ex_create 1)) no_condition]"

definition dx_final :: ref_world where
  "dx_final = dx_stored\<lparr>rw_items := ref_apply dx_acts dx_items1\<rparr>"

lemma dx_act_keys [simp]: "action_key (complete_head_action dx_done n) = (secretPk ''s1'', ''HEAD'')"
  by (simp add: complete_head_action_def)

lemma dx_publish: "publish ref_services ''prod'' (syncRecord ''s1'' dx_control)
     (\<lambda>sequence. complete_head_action dx_done sequence # complete_rest dx_done ex_due []) dx_stored
     = (Inr (), dx_final)"
proof (rule trans [OF ref_publish])
  let ?st = "\<lparr>ss_epoch = ''id1'', ss_sequence = 1, ss_ready = False\<rparr>"
  show "as_sync_state (ref_table dx_stored (syncPk ''prod'', ''STATE'')) = Some ?st"
    by (simp add: ref_table_def dx_item_defs dx_items1_def as_sync_state_def ex_state_def)
  show "next_sequence (Some ?st) \<le> maxSafeInteger" by (simp add: next_sequence_def maxSafeInteger_def)
  show "sync_epoch ref_services (Some ?st) dx_stored = (Inr ''id1'', dx_stored)" by (simp add: sync_epoch_def)
  show "sync_ttl ref_services (syncRecord ''s1'' dx_control) dx_stored = (Inr None, dx_stored)"
    by (simp add: sync_ttl_def syncRecord_def)
  show "sync_items ''prod'' (Some ?st) ''id1'' (head_sequence (ref_table dx_stored
      (secretPk (sr_secretUid (syncRecord ''s1'' dx_control)), ''HEAD''))) (syncRecord ''s1'' dx_control) None
      (\<lambda>sequence. complete_head_action dx_done sequence # complete_rest dx_done ex_due []) = dx_acts"
    unfolding dx_rest
    by (simp add: sync_items_def next_sequence_def dx_acts_def ex_row_def head_sequence_def
        ref_table_def dx_item_defs dx_items1_def syncRecord_def dx_leased_def Let_def numeral_2_eq_2)
  show "distinct (map action_key dx_acts)"
    by (simp add: dx_acts_def ex_row_def sx_keys pad_start_def)
  show "length dx_acts \<le> 100" by (simp add: dx_acts_def)
  show "ref_conds dx_acts (rw_items dx_stored)"
    by (simp add: ref_conds_def dx_acts_def sync_counter_def complete_head_action_def workflowReadyUpdate_def
        retentionCandidateUpdate_def dx_item_defs dx_items1_def prepared_control_def prepared_payload_def
        workflowItem_def dx_leased_def ex_state_def ex_ready_def pad_start_def)
  show "(Inr (), dx_stored\<lparr>rw_items := ref_apply dx_acts (rw_items dx_stored)\<rparr>) = (Inr (), dx_final)"
    by (simp add: dx_final_def)
qed

lemma dx_completed: "completeMutation ref_services dx_done dx_stored = (Inr (), dx_final)"
proof -
  have "length (complete_rest dx_done due []) = 3" for due by (simp add: dx_rest)
  then show ?thesis
    by (simp add: completeMutation_def Let_def bindM_def dx_notifications thenM_def throwIf_def
        ex_due_def [symmetric] dx_publish)
qed

lemma dx_run: "agents_update ref_services sx_config aw_update dx_world = (Inr dx_control, dx_final)"
proof -
  have p: "persistMutation ref_services sx_config dx_control (Some sx_revision) ex_actor ''k9'' (Some ''v1'')
      (Some dx_head) [] False (dx_world\<lparr>rw_counter := 4\<rparr>) = (Inr (), dx_final)"
    by (simp add: persistMutation_def bindM_def thenM_def throwIf_def orRaise_def dx_idempotency ref_fresh_def
        ref_tick_def Let_def dx_mutation_def [symmetric] dx_prepared dx_puts dx_retention
        dx_done_def [symmetric] dx_completed)
  have i: "us_environment sx_update = ''prod''" "us_secretId sx_update = ''db/pw''" "us_acl sx_update = None"
    "us_expectedControlVersionId sx_update = ''v1''" "us_allowAgentAcl sx_update = False"
    "us_actor sx_update = ex_actor" "us_idempotencyKey sx_update = ''k9''"
    by (simp_all add: sx_update_def)
  have "updateFromSnapshot ref_services sx_config sx_update \<lparr>ssn_head = dx_head, ssn_control = dx_current\<rparr> dx_world
      = (Inr dx_control, dx_final)"
    by (simp add: bindM_def i updateFromSnapshot_def thenM_def assertExpectedVersion_def throwIf_def
        assertAclEnvironment_def Let_def dx_payload ref_fresh_def ref_tick_def dx_control_def [symmetric]
        priorAccess_def List.map_filter_def p)
  moreover have "requireHeadBySecretUid ref_services ''s1'' dx_world = (Inr dx_head, dx_world)"
    by (simp add: requireHeadBySecretUid_def getHeadBySecretUid_def bindM_def ref_get_def orRaise_def)
  ultimately show ?thesis
    by (simp add: agents_update_def orRaise_def bindM_def granted requireSecretUidForPermission_def
        getControlSnapshotBySecretUid_def controlSnapshotFromHead_def dx_getControl Let_def thenM_def
        throwIf_def requireWriteScope_def requireSecretPermission_def sx_permission sx_update_def)
qed

end
