(* ===== verification/Agent_Properties.thy ===== *)
theory Agent_Properties
  imports Agents Secrets_Properties Agent_Examples
begin

text \<open>
  What an agent can reach: reading needs the grant and the ACL of the same identity, writing changes
  exactly the identity the grant names and never its ACL.
\<close>

section \<open>What a grant allows\<close>

definition allows :: "table \<Rightarrow> string \<Rightarrow> string \<Rightarrow> string \<Rightarrow> capability \<Rightarrow> bool" where
  "allows t consumer environment u capability \<longleftrightarrow> (\<exists>grant. agent_grant_of t consumer = Some grant
     \<and> ag_status grant = G_ACTIVE \<and> ag_environment grant = environment
     \<and> capability \<in> set (ag_capabilities grant)
     \<and> (\<exists>scopes scope. ag_secretGrants grant = Some scopes \<and> scope \<in> set scopes
          \<and> sg_secretUid scope = u \<and> capability \<in> set (sg_permissions scope)))"

lemma hasSecretPermission_iff:
  "hasSecretPermission grant u p \<longleftrightarrow> (\<exists>scopes scope. ag_secretGrants grant = Some scopes
     \<and> scope \<in> set scopes \<and> sg_secretUid scope = u \<and> p \<in> set (sg_permissions scope))"
  by (auto simp: hasSecretPermission_def list_ex_iff split: option.split)

lemma requireSecretPermission_ok [em_ok]:
  "requireSecretPermission u grant p w = (Inr x, w') \<longleftrightarrow>
     w' = w \<and> (\<exists>v. u = Some v \<and> hasSecretPermission grant v p)"
  by (cases u) (auto simp: requireSecretPermission_def em_ok)

lemma requireCapability_ok:
  assumes D: "dynamo S table" and run: "requireCapability S consumer e cap w = (Inr grant, w')"
  shows "agent_grant_of (table w) consumer = Some grant \<and> ag_status grant = G_ACTIVE
    \<and> ag_environment grant = e \<and> cap \<in> set (ag_capabilities grant) \<and> table w' = table w"
proof -
  obtain found w1 where g: "getAgentGrantForConsumer S consumer w = (Inr found, w1)" and rest: "(case found of
        None \<Rightarrow> raise (forbiddenMsg ''The client identity does not have an active agent grant.'')
      | Some grant \<Rightarrow>
          if ag_status grant \<noteq> G_ACTIVE \<or> ag_environment grant \<noteq> e
          then raise (forbiddenMsg ''The client identity does not have an active agent grant.'')
          else ret grant) w1 = (Inr grant, w')" and cap: "cap \<in> set (ag_capabilities grant)"
    using run by (auto simp: requireCapability_def requireGrant_def em_ok)
  have "found = Some grant \<and> ag_status grant = G_ACTIVE \<and> ag_environment grant = e \<and> w1 = w'"
    using rest by (cases found) (auto split: if_splits)
  with dynamo.getAgentGrantForConsumer_value [OF D g] keepsD [OF dynamo.reads_keep_table(10) [OF D] g] cap
  show ?thesis by auto
qed

lemma allowsI:
  assumes "agent_grant_of t consumer = Some grant \<and> ag_status grant = G_ACTIVE \<and> ag_environment grant = e
      \<and> cap \<in> set (ag_capabilities grant) \<and> x" "hasSecretPermission grant u cap"
  shows "allows t consumer e u cap"
  using assms by (auto simp: allows_def hasSecretPermission_iff)

section \<open>Reading\<close>

text \<open>C29: an agent reads a payload only where both its grant and the ACL let it: the grant is active, in the
  environment of the request, has the read capability and names the identity the name leads to, and the
  access row of the same identity grants read. A name that leads to another identity than the granted
  one is refused before anything is decrypted.\<close>

theorem agent_read_needs_both:
  assumes "dynamo S table" "object_service S objects"
    and "agents_read S cfg consumer e i inm callback w = (Inr r, w')"
  shows "\<exists>u head access. uid_of (table w) e i = Some u \<and> head_of (table w) u = Some head
    \<and> h_state head = S_ACTIVE \<and> allows (table w) consumer e (h_secretUid head) CRead
    \<and> access_of (table w) consumer e u = Some access \<and> PRead \<in> set (a_permissions access)
    \<and> a_state access \<noteq> S_REVOKED \<and> a_secretUid access = h_secretUid head
    \<and> rr_controlVersionId r = h_controlVersionId head"
proof -
  obtain grant w1 control w2 where g: "requireCapability S consumer e CRead w = (Inr grant, w1)"
    and c: "getControlRevision S cfg e i w1 = (Inr control, w2)"
    and scope: "\<exists>v. c_secretUid control = Some v \<and> hasSecretPermission grant v CRead"
    and read: "secrets_read S cfg consumer e i inm callback w2 = (Inr r, w')"
    using assms(3) unfolding agents_read_def bindM_ok thenM_ok requireReadScope_def requireSecretPermission_ok
    by blast
  note grant = requireCapability_ok [OF assms(1) g]
  obtain snapshot where s: "getControlSnapshot S cfg e i w1 = (Inr snapshot, w2)"
    and control: "control = ssn_control snapshot" using c by (auto simp: getControlRevision_def em_ok)
  obtain u x where u: "uid_of (table w1) e i = Some u" "head_of (table w1) u = Some (ssn_head snapshot)"
    and gc: "getControl S cfg (ssn_head snapshot) x = (Inr (ssn_control snapshot), w2)"
    by (rule getControlSnapshot_ok [OF assms(1) s])
  have "c_secretUid control = Some (h_secretUid (ssn_head snapshot))"
    by (rule getControl_value [OF assms(2) gc]) (simp add: control)
  with scope grant allowsI have allowed: "allows (table w) consumer e (h_secretUid (ssn_head snapshot)) CRead"
    by auto
  have t2: "table w2 = table w"
    using grant keepsD [OF dynamo.snapshot_reads_keep(2) [OF assms(1)] s] by simp
  show ?thesis
  proof (rule secrets_read_ok [OF assms(1,2) read], goal_cases)
    case (1 v access head x1 x2)
    have "v = u" "head = ssn_head snapshot" using 1(1,4) u grant t2 by auto
    with 1 allowed t2 show ?case unfolding access_authorizes_def head_authorizes_def by metis
  qed
qed

theorem agent_read_needs_both_witness:
  "\<exists>u head access. uid_of (ref_table sx_final) ''prod'' ''db/pw'' = Some u \<and> head_of (ref_table sx_final) u = Some head
    \<and> h_state head = S_ACTIVE \<and> allows (ref_table sx_final) ''c1'' ''prod'' (h_secretUid head) CRead
    \<and> access_of (ref_table sx_final) ''c1'' ''prod'' u = Some access \<and> a_state access \<noteq> S_REVOKED"
  using agent_read_needs_both [OF ref_dynamo.dynamo_axioms ref_objects.object_service_axioms sx_agent_read] by blast

section \<open>Writing\<close>

lemma agents_update_ok:
  assumes D: "dynamo S table" and O: "object_service S objects"
    and run: "agents_update S cfg input w = (Inr control, w')"
    and heads: "\<And>u h. head_of (table w) u = Some h \<Longrightarrow> \<exists>c. stored_secret cfg (table w) (objects w) u h c"
  obtains u h current w0 where
    "allows (table w) (aw_consumerId input) (aw_environment input) u CWrite"
    "aw_expectedControlVersionId input = Some (h_controlVersionId h)"
    "stored_secret cfg (table w) (objects w) u h current"
    "h_secretId h = aw_secretId input" "h_environment h = aw_environment input"
    "aw_metadata input \<noteq> None \<or> aw_payload input \<noteq> None"
    "updateFromSnapshot S cfg \<lparr>us_secretId = aw_secretId input, us_environment = aw_environment input,
          us_expectedControlVersionId = h_controlVersionId h, us_metadata = aw_metadata input, us_acl = None,
          us_payload = aw_payload input, us_actor = aw_actor input,
          us_idempotencyKey = aw_idempotencyKey input, us_allowAgentAcl = False\<rparr>
        \<lparr>ssn_head = h, ssn_control = current\<lparr>c_secretUid := Some u\<rparr>\<rparr> w0 = (Inr control, w')"
    "table w0 = table w" "objects w0 = objects w"
proof -
  obtain expected grant w1 u w2 snapshot w3 where
    e: "aw_expectedControlVersionId input = Some expected" and
    g: "requireCapability S (aw_consumerId input) (aw_environment input) CWrite w = (Inr grant, w1)" and
    u: "requireSecretUidForPermission (aw_secretId input) grant CWrite w1 = (Inr u, w2)" and
    s: "getControlSnapshotBySecretUid S cfg u w2 = (Inr snapshot, w3)" and
    same: "\<not> (c_environment (ssn_control snapshot) \<noteq> aw_environment input
       \<or> c_secretId (ssn_control snapshot) \<noteq> aw_secretId input)" and
    some: "\<not> (aw_metadata input = None \<and> aw_payload input = None)" and
    scope: "\<exists>v. c_secretUid (ssn_control snapshot) = Some v \<and> hasSecretPermission grant v CWrite" and
    upd: "updateFromSnapshot S cfg \<lparr>us_secretId = aw_secretId input, us_environment = aw_environment input,
          us_expectedControlVersionId = expected, us_metadata = aw_metadata input, us_acl = None,
          us_payload = aw_payload input, us_actor = aw_actor input,
          us_idempotencyKey = aw_idempotencyKey input, us_allowAgentAcl = False\<rparr> snapshot w3 = (Inr control, w')"
    using run unfolding agents_update_def Let_def bindM_ok thenM_ok throwIf_ok orRaise_ok requireWriteScope_def
      requireSecretPermission_ok by blast
  note grant = requireCapability_ok [OF D g]
  have w2: "w2 = w1" using u by (simp add: requireSecretUidForPermission_def em_ok)
  have o1: "objects w1 = objects w"
  proof -
    have "keeps objects (requireCapability S c e cap)" for c e cap
      unfolding requireCapability_def requireGrant_def
      by (intro keeps_intro object_service.table_reads_keep_objects [OF O])
    from keepsD [OF this g] show ?thesis .
  qed
  obtain hd w4 where hd: "requireHeadBySecretUid S u w1 = (Inr hd, w4)"
    and gc: "getControl S cfg hd w4 = (Inr (ssn_control snapshot), w3)" and sh: "ssn_head snapshot = hd"
    using s w2 by (auto simp: getControlSnapshotBySecretUid_def controlSnapshotFromHead_def em_ok)
  have h: "head_of (table w) u = Some hd" using dynamo.requireHeadBySecretUid_value [OF D hd] grant by simp
  obtain current where st: "stored_secret cfg (table w) (objects w) u hd current" using heads [OF h] by blast
  have o4: "objects w4 = objects w"
    using object_service.table_reads_keep_objects(5) [OF O, THEN keepsD, OF hd] o1 by simp
  have c: "ssn_control snapshot = current\<lparr>c_secretUid := Some u\<rparr>"
    by (rule snapshot_read [where table = table, OF O h gc o4 st])
  have agree: "control_agrees current (h_secretId hd) hd" using st by (auto simp: stored_secret_def control_backed_def)
  have snap: "snapshot = \<lparr>ssn_head = hd, ssn_control = current\<lparr>c_secretUid := Some u\<rparr>\<rparr>"
    using c sh by (cases snapshot) simp
  have "expected = h_controlVersionId hd"
    by (rule updateFromSnapshot_ok [OF upd]) (simp add: sh)
  moreover have "table w3 = table w" "objects w3 = objects w"
    using keepsD [OF dynamo.snapshot_reads_keep(4) [OF D] s] w2 grant o1
      object_service.service_reads_keep_objects(5) [OF O, THEN keepsD, OF s] by simp_all
  moreover have "allows (table w) (aw_consumerId input) (aw_environment input) u CWrite"
    using allowsI [OF grant] scope c by auto
  ultimately show ?thesis
    using that [of u hd current w3] e st same some upd snap c agree by (auto simp: control_agrees_def)
qed

text \<open>C30: an agent update changes only the identity its active grant names with the write permission, under
  the public name and environment of the request and against its current version. It never changes an
  ACL, no other head moves, no name changes, and the secret is left stored in agreement.\<close>

theorem agent_update_scoped:
  assumes "dynamo S table" "object_service S objects"
    and "agents_update S cfg input w = (Inr control, w')"
    and "\<And>u h. head_of (table w) u = Some h \<Longrightarrow> \<exists>c. stored_secret cfg (table w) (objects w) u h c"
  shows "\<exists>u h current h'. allows (table w) (aw_consumerId input) (aw_environment input) u CWrite
    \<and> stored_secret cfg (table w) (objects w) u h current \<and> stored_secret cfg (table w') (objects w') u h' control
    \<and> h_secretId h = aw_secretId input \<and> h_environment h = aw_environment input
    \<and> aw_expectedControlVersionId input = Some (h_controlVersionId h) \<and> c_acl control = c_acl current
    \<and> (\<forall>v. v \<noteq> u \<longrightarrow> head_of (table w') v = head_of (table w) v)
    \<and> (\<forall>e i. uid_of (table w') e i = uid_of (table w) e i)"
proof (rule agents_update_ok [OF assms(1-3)], goal_cases)
  case (1 u h)
  then show ?case by (rule assms(4))
next
  case (2 u h current w0)
  note agree = snapshot_update_agreement [OF assms(1,2) 2(7) 2(3) [folded 2(8,9)]]
  have "c_acl control = c_acl current" using agree(3) 2(4) by simp
  moreover obtain h' where "stored_secret cfg (table w') (objects w') u h' control" using agree(6) 2(4) by auto
  moreover have "\<forall>v. v \<noteq> u \<longrightarrow> head_of (table w') v = head_of (table w) v" using agree(5) 2(4,8) by simp
  moreover have "\<forall>e i. uid_of (table w') e i = uid_of (table w) e i" using agree(4) 2(4,8) by simp
  ultimately show ?case using 2(1-5) by blast
qed

lemma sx_heads:
  assumes "head_of (ref_table sx_world) u = Some h"
  shows "stored_secret sx_config (ref_table sx_world) (ref_objects sx_world) u h sx_current"
proof -
  have "u = ''s1'' \<and> h = ex_head1"
    using assms by (simp add: head_of_def ref_table_def sx_item_defs ex_lookup_def split: if_splits)
  with sx_stored_secret show ?thesis by simp
qed

theorem agent_update_scoped_witness:
  "\<exists>u h'. allows (ref_table sx_world) ''c1'' ''prod'' u CWrite
    \<and> stored_secret sx_config (ref_table sx_final) (ref_objects sx_final) u h' sx_control
    \<and> (\<forall>e i. uid_of (ref_table sx_final) e i = uid_of (ref_table sx_world) e i)"
  using agent_update_scoped [OF ref_dynamo.dynamo_axioms ref_objects.object_service_axioms sx_agent_update]
    sx_heads unfolding aw_update_fields by blast

text \<open>C31: the update of an agent does not look at the state of the secret: an archived identity that the grant
  still names is written like any other, and with a payload its head becomes active again, although its
  name has been released and stays so.\<close>

theorem agent_update_revives_archived:
  assumes "dynamo S table" "object_service S objects"
    and "agents_update S cfg input w = (Inr control, w')"
    and "\<And>u h. head_of (table w) u = Some h \<Longrightarrow> \<exists>c. stored_secret cfg (table w) (objects w) u h c"
    and "\<And>u h. head_of (table w) u = Some h \<Longrightarrow> h_secretId h = aw_secretId input
      \<Longrightarrow> h_environment h = aw_environment input \<Longrightarrow> h_state h = S_ARCHIVED"
    and "uid_of (table w) (aw_environment input) (aw_secretId input) = None" "aw_payload input \<noteq> None"
  shows "\<exists>u h h'. head_of (table w) u = Some h \<and> h_state h = S_ARCHIVED
    \<and> head_of (table w') u = Some h' \<and> h_state h' = S_ACTIVE
    \<and> uid_of (table w') (aw_environment input) (aw_secretId input) = None"
proof (rule agents_update_ok [OF assms(1-3)], goal_cases)
  case (1 u h)
  then show ?case by (rule assms(4))
next
  case (2 u h current w0)
  note agree = snapshot_update_agreement [OF assms(1,2) 2(7) 2(3) [folded 2(8,9)]]
  have "head_of (table w) u = Some h" using 2(3) by (simp add: stored_secret_def)
  moreover from assms(5) [OF this 2(4,5)] have "h_state h = S_ARCHIVED" .
  moreover obtain h' where "stored_secret cfg (table w') (objects w') u h' control" "h_state h' = S_ACTIVE"
    using agree(6) 2(4) assms(7) by auto
  moreover have "uid_of (table w') (aw_environment input) (aw_secretId input) = None"
    using agree(4) 2(4,8) assms(6) by simp
  ultimately show ?case by (auto simp: stored_secret_def)
qed

lemma dx_head_only:
  assumes "head_of (ref_table dx_world) u = Some h"
  shows "u = ''s1'' \<and> h = dx_head"
  using assms by (simp add: head_of_def ref_table_def dx_item_defs split: if_splits)

lemma dx_stored_secret: "stored_secret sx_config (ref_table dx_world) (ref_objects dx_world) ''s1'' dx_head dx_current"
  by (simp add: stored_secret_def control_backed_def payload_backed_def head_of_def control_agrees_def
      ref_objects_def dx_object_def)

theorem agent_update_revives_archived_witness:
  "\<exists>u h h'. head_of (ref_table dx_world) u = Some h \<and> h_state h = S_ARCHIVED
    \<and> head_of (ref_table dx_final) u = Some h' \<and> h_state h' = S_ACTIVE
    \<and> uid_of (ref_table dx_final) ''prod'' ''db/pw'' = None"
proof -
  have "uid_of (ref_table dx_world) ''prod'' ''db/pw'' = None"
    by (simp add: uid_of_def ref_table_def dx_item_defs)
  moreover have "h_state h = S_ARCHIVED" if "head_of (ref_table dx_world) u = Some h" for u h
    using dx_head_only [OF that] by simp
  moreover have "\<exists>c. stored_secret sx_config (ref_table dx_world) (ref_objects dx_world) u h c"
    if "head_of (ref_table dx_world) u = Some h" for u h
    using dx_head_only [OF that] dx_stored_secret by blast
  ultimately show ?thesis
    using agent_update_revives_archived [OF ref_dynamo.dynamo_axioms ref_objects.object_service_axioms dx_run]
    by simp
qed

end
