(* ===== verification/Agent_Sync.thy ===== *)
theory Agent_Sync
  imports Agents Cursors
begin

text \<open>
  Class AgentSyncService, src/src/services/agent-sync.ts: the changes an agent has not seen, read from
  the synchronisation index page by page. A position in the index is kept behind an opaque cursor: a
  page continuation, or a checkpoint from which the next synchronisation starts. A position is stored
  as text, where a number is its decimal text and an instant the decimal text of its milliseconds.
\<close>

section \<open>Positions\<close>

datatype position_kind = Checkpoint | PageContinuation

record Position =
  po_kind :: position_kind
  po_epoch :: string
  po_digest :: string
  po_after :: nat
  po_through :: nat
  po_snapshot :: bool
  po_checkpointExpiresAt :: timestamp
  po_pageExpiresAt :: timestamp
  po_lastSk :: "string option"

definition syncCheckpointLifetime :: int where
  "syncCheckpointLifetime = 7 * 24 * 60 * 60 * 1000"

definition pageLifetime :: int where
  "pageLifetime = 15 * 60 * 1000"

text \<open>
  Number of a text that String wrote: an optional minus sign and decimal digits, within the safe
  integers. Every other text counts as not a number.
\<close>

definition show_int :: "int \<Rightarrow> string" where
  "show_int i = (if i < 0 then CHR ''-'' # show_nat (nat (- i)) else show_nat (nat i))"

definition read_int :: "string \<Rightarrow> int option" where
  "read_int s = (case s of
     c # r \<Rightarrow> if c = CHR ''-'' then map_option (\<lambda>n. - int n) (read_nat r) else map_option int (read_nat s)
   | [] \<Rightarrow> None)"

definition safe_integer :: "string \<Rightarrow> int option" where
  "safe_integer s = (case read_int s of None \<Rightarrow> None
     | Some i \<Rightarrow> if \<bar>i\<bar> \<le> int maxSafeInteger then Some i else None)"

definition kindText :: "position_kind \<Rightarrow> string" where
  "kindText k = (case k of Checkpoint \<Rightarrow> ''checkpoint'' | PageContinuation \<Rightarrow> ''page'')"

definition kind_of :: "string \<Rightarrow> position_kind option" where
  "kind_of s = (if s = ''checkpoint'' then Some Checkpoint else if s = ''page'' then Some PageContinuation else None)"

definition boolText :: "bool \<Rightarrow> string" where
  "boolText b = (if b then ''true'' else ''false'')"

definition position_key :: "Position \<Rightarrow> startKey" where
  "position_key p = [(''kind'', kindText (po_kind p)), (''epoch'', po_epoch p), (''digest'', po_digest p),
     (''after'', show_nat (po_after p)), (''through'', show_nat (po_through p)),
     (''snapshot'', boolText (po_snapshot p)),
     (''checkpointExpiresAt'', show_int (po_checkpointExpiresAt p)),
     (''pageExpiresAt'', show_int (po_pageExpiresAt p))]
     @ (case po_lastSk p of None \<Rightarrow> [] | Some sk \<Rightarrow> [(''lastSk'', sk)])"

definition resetRequired :: exn where
  "resetRequired = ApiError 410 ''sync_reset_required'' ''Start a fresh agent sync snapshot.''"

definition position_of :: "startKey option \<Rightarrow> exn + Position" where
  "position_of key = (case Option.bind key (\<lambda>value. map_of value ''kind'') of
     None \<Rightarrow> Inl (badRequest ''The sync cursor is not a synchronization position.'')
   | Some k \<Rightarrow>
     (case (kind_of k, map_of (the key) ''epoch'', map_of (the key) ''digest'') of
       (Some kind, Some epoch, Some digest) \<Rightarrow>
        (case (Option.bind (map_of (the key) ''after'') safe_integer,
               Option.bind (map_of (the key) ''through'') safe_integer) of
          (Some after, Some through) \<Rightarrow>
            if after < 0 \<or> after > through
               \<or> (map_of (the key) ''snapshot'' \<noteq> Some ''true'' \<and> map_of (the key) ''snapshot'' \<noteq> Some ''false'')
            then Inl (badRequest ''The sync cursor position is invalid.'')
            else (case (Option.bind (map_of (the key) ''checkpointExpiresAt'') read_int,
                        Option.bind (map_of (the key) ''pageExpiresAt'') read_int) of
               (Some checkpointExpiresAt, Some pageExpiresAt) \<Rightarrow>
                 Inr \<lparr>po_kind = kind, po_epoch = epoch, po_digest = digest, po_after = nat after,
                      po_through = nat through,
                      po_snapshot = (map_of (the key) ''snapshot'' = Some ''true''),
                      po_checkpointExpiresAt = checkpointExpiresAt, po_pageExpiresAt = pageExpiresAt,
                      po_lastSk = map_of (the key) ''lastSk''\<rparr>
             | _ \<Rightarrow> Inl (badRequest ''The sync cursor deadline is invalid.''))
        | _ \<Rightarrow> Inl (badRequest ''The sync cursor position is invalid.''))
     | _ \<Rightarrow> Inl (badRequest ''The sync cursor is not a synchronization position.'')))"

definition sync_decode :: "'w services \<Rightarrow> string \<Rightarrow> string \<Rightarrow> ('w, Position) app" where
  "sync_decode S token scope =
     thenM (throwIf (\<not> tokenPattern token) (badRequest ''The sync cursor is malformed.''))
     (bindM (bindM (getCursor S token) (\<lambda>found. orRaise found resetRequired)) (\<lambda>stored.
      thenM (throwIf (cp_scope stored \<noteq> scope) (badRequest ''The sync cursor belongs to another scope.''))
      (bindM (sv_now S) (\<lambda>now.
       thenM (throwIf (cp_expiresAt stored \<le> now) resetRequired)
       (liftE (position_of (cp_lastEvaluatedKey stored)))))))"

definition position_payload :: "string \<Rightarrow> Position \<Rightarrow> CursorPayload" where
  "position_payload scope p = \<lparr>cp_scope = scope, cp_lastEvaluatedKey = Some (position_key p),
     cp_expiresAt = (case po_kind p of PageContinuation \<Rightarrow> po_pageExpiresAt p
                     | Checkpoint \<Rightarrow> po_checkpointExpiresAt p)\<rparr>"

definition sync_encode :: "'w services \<Rightarrow> string \<Rightarrow> Position \<Rightarrow> ('w, string) app" where
  "sync_encode S scope p = cursor_encode (sv_randomToken S) (createCursor S) (position_payload scope p)"

section \<open>What an agent sees of a row\<close>

record AgentSyncEntry =
  en_secretUid :: string
  en_secretId :: string
  en_controlVersionId :: string
  en_payloadVersionId :: "string option"
  en_state :: secret_state
  en_permissions :: "capability list"
  en_metadata :: "SecretMetadata option"

definition visibleEntry :: "AgentSyncRecord \<Rightarrow> AgentGrantRecord \<Rightarrow> capability list \<Rightarrow> AgentSyncEntry" where
  "visibleEntry r grant selected =
     (let live = (sr_state r = S_ACTIVE \<or> sr_state r = S_PENDING_VALUE);
          write = (live \<and> CWrite \<in> set (ag_capabilities grant) \<and> CWrite \<in> set selected);
          read = (live \<and> CRead \<in> set (ag_capabilities grant) \<and> CRead \<in> set selected
                  \<and> ag_consumerId grant \<in> set (sr_readConsumerIds r))
      in \<lparr>en_secretUid = sr_secretUid r,
          en_secretId = sr_secretId r,
          en_controlVersionId = sr_controlVersionId r,
          en_payloadVersionId = (if read \<or> write then sr_payloadVersionId r else None),
          en_state = (if read \<or> write then sr_state r else S_REVOKED),
          en_permissions = (if read then [CRead] else []) @ (if write then [CWrite] else []),
          en_metadata = (if write then Some (sr_metadata r) else None)\<rparr>)"

definition grantDigest :: "'w services \<Rightarrow> AgentGrantRecord \<Rightarrow> AgentSecretGrant list \<Rightarrow> string" where
  "grantDigest S grant scopes = sv_sha256HexDoc S (GrantDoc (ag_grantId grant) (sort (ag_capabilities grant))
     (sort_key fst (map (\<lambda>entry. (sg_secretUid entry, sg_secretId entry, sort (sg_permissions entry))) scopes)))"

text \<open>The map from identities to grants: the last grant of an identity counts.\<close>

definition granted_scope :: "AgentSecretGrant list \<Rightarrow> AgentSyncRecord \<Rightarrow> AgentSecretGrant option" where
  "granted_scope scopes r = (case js_map (map (\<lambda>entry. (sg_secretUid entry, entry)) scopes) (sr_secretUid r) of
     None \<Rightarrow> None
   | Some selected \<Rightarrow> if sg_secretId selected \<noteq> sr_secretId r then None else Some selected)"

definition sync_changes ::
  "AgentGrantRecord \<Rightarrow> AgentSecretGrant list \<Rightarrow> AgentSyncRecord list \<Rightarrow> AgentSyncEntry list" where
  "sync_changes grant scopes records = List.map_filter (\<lambda>r. map_option
     (\<lambda>selected. visibleEntry r grant (sg_permissions selected)) (granted_scope scopes r)) records"

section \<open>Synchronisation\<close>

record AgentSyncConfig =
  sc_consumerId :: string
  sc_environment :: string
  sc_grantId :: string
  sc_capabilities :: "capability list"
  sc_secretGrants :: "AgentSecretGrant list"
  sc_endpoint :: string
  sc_clientId :: string
  sc_topic :: string

record AgentSyncPage =
  sy_config :: AgentSyncConfig
  sy_snapshot :: bool
  sy_changes :: "AgentSyncEntry list"
  sy_nextCursor :: "string option"
  sy_syncCursor :: "string option"

definition sync_config :: "AppConfig \<Rightarrow> string \<Rightarrow> string \<Rightarrow> AgentGrantRecord \<Rightarrow> AgentSecretGrant list \<Rightarrow> AgentSyncConfig" where
  "sync_config cfg consumerId environment grant scopes = \<lparr>
     sc_consumerId = consumerId, sc_environment = environment, sc_grantId = ag_grantId grant,
     sc_capabilities = ag_capabilities grant, sc_secretGrants = scopes, sc_endpoint = cf_iotEndpoint cfg,
     sc_clientId = consumerId, sc_topic = cf_iotNotificationTopicPrefix cfg @ ''/'' @ consumerId\<rparr>"

definition sync_scope :: "string \<Rightarrow> string \<Rightarrow> string" where
  "sync_scope environment consumerId = ''agent-sync:'' @ environment @ '':'' @ consumerId"

text \<open>
  The position a request starts from: the whole index without a cursor, the stored position of a page
  continuation, or everything after a checkpoint.
\<close>

definition sync_position ::
  "'w services \<Rightarrow> string \<Rightarrow> string \<Rightarrow> AgentSyncState \<Rightarrow> string option \<Rightarrow> string option \<Rightarrow> timestamp \<Rightarrow> timestamp
     \<Rightarrow> ('w, Position) app" where
  "sync_position S scope digest state syncCursor cursor checkpointExpiresAt pageExpiresAt =
     (case (case cursor of Some c \<Rightarrow> Some c | None \<Rightarrow> syncCursor) of
        None \<Rightarrow> ret \<lparr>po_kind = PageContinuation, po_epoch = ss_epoch state, po_digest = digest, po_after = 0,
          po_through = ss_sequence state, po_snapshot = True, po_checkpointExpiresAt = checkpointExpiresAt,
          po_pageExpiresAt = pageExpiresAt, po_lastSk = None\<rparr>
      | Some token \<Rightarrow>
          bindM (sync_decode S token scope) (\<lambda>position.
          thenM (throwIf (po_epoch position \<noteq> ss_epoch state \<or> po_digest position \<noteq> digest
                          \<or> po_through position > ss_sequence state) resetRequired)
          (if cursor \<noteq> None
           then thenM (throwIf (po_kind position \<noteq> PageContinuation)
                  (badRequest ''cursor must be a page continuation.'')) (ret position)
           else thenM (throwIf (po_kind position \<noteq> Checkpoint)
                  (badRequest ''syncCursor must be a completed checkpoint.''))
                (ret (position\<lparr>po_checkpointExpiresAt := checkpointExpiresAt, po_pageExpiresAt := pageExpiresAt,
                   po_after := po_through position, po_through := ss_sequence state, po_snapshot := False,
                   po_lastSk := None\<rparr>)))))"

definition sync_next_cursor :: "'w services \<Rightarrow> string \<Rightarrow> Position \<Rightarrow> string option \<Rightarrow> ('w, string option) app" where
  "sync_next_cursor S scope position lastSk = (case lastSk of None \<Rightarrow> ret None
     | Some sk \<Rightarrow> bindM (sync_encode S scope (position\<lparr>po_kind := PageContinuation, po_lastSk := Some sk\<rparr>))
         (\<lambda>token. ret (Some token)))"

definition sync_final_cursor ::
  "'w services \<Rightarrow> string \<Rightarrow> Position \<Rightarrow> string option \<Rightarrow> string option \<Rightarrow> ('w, string option) app" where
  "sync_final_cursor S scope position syncCursor nextCursor =
     (if nextCursor \<noteq> None then ret None
      else if syncCursor \<noteq> None \<and> po_after position = po_through position then ret syncCursor
      else bindM (sync_encode S scope (position\<lparr>po_kind := Checkpoint, po_after := po_through position,
             po_lastSk := None\<rparr>)) (\<lambda>token. ret (Some token)))"

definition agent_sync ::
  "'w services \<Rightarrow> AppConfig \<Rightarrow> string \<Rightarrow> string \<Rightarrow> string option \<Rightarrow> string option \<Rightarrow> AgentGrantRecord option
     \<Rightarrow> ('w, AgentSyncPage) app" where
  "agent_sync S cfg consumerId environment syncCursor cursor found =
     bindM (orRaise (case found of None \<Rightarrow> None
         | Some grant \<Rightarrow> if ag_status grant \<noteq> G_ACTIVE \<or> ag_consumerId grant \<noteq> consumerId
             \<or> ag_environment grant \<noteq> environment then None
           else map_option (Pair grant) (ag_secretGrants grant))
       (forbiddenMsg ''An active UID-scoped agent grant is required for synchronization.'')) (\<lambda>(grant, scopes).
     thenM (throwIf (syncCursor \<noteq> None \<and> cursor \<noteq> None) (badRequest ''Pass either syncCursor or cursor.''))
     (let scope = sync_scope environment consumerId; digest = grantDigest S grant scopes
      in bindM (bindM (sync_state S environment) (\<lambda>found. orRaise
            (case found of None \<Rightarrow> None | Some state \<Rightarrow> if ss_ready state then Some state else None)
            (ApiError 503 ''sync_index_not_ready'' ''The agent sync index needs a completed backfill.''))) (\<lambda>state.
         bindM (sv_now S) (\<lambda>now. bindM (sv_now S) (\<lambda>now'.
         bindM (sync_position S scope digest state syncCursor cursor
            (now + syncCheckpointLifetime) (now' + pageLifetime)) (\<lambda>position.
         bindM (sync_page S environment (po_after position) (po_through position) (po_lastSk position)) (\<lambda>page.
         let changes = sync_changes grant scopes (fst page)
         in bindM (sync_next_cursor S scope position (snd page)) (\<lambda>nextCursor.
            bindM (sync_final_cursor S scope position syncCursor nextCursor) (\<lambda>finalCursor.
              ret \<lparr>sy_config = sync_config cfg consumerId environment grant scopes,
                   sy_snapshot = po_snapshot position, sy_changes = changes,
                   sy_nextCursor = nextCursor, sy_syncCursor = finalCursor\<rparr>)))))))))"

end
