(* ===== verification/Agent_Sync_Properties.thy ===== *)
theory Agent_Sync_Properties
  imports Agent_Sync Protocol_Runs Secret_Examples
begin

text \<open>
  What a synchronising agent gets. Over a table the mutation protocol has written, a page reports
  exactly the granted rows of its part of the window, each at the current version of its secret, and
  its cursor continues where the page ends; an entry shows nothing the grant does not allow.
\<close>

section \<open>Positions as text\<close>

lemma digit_value_minus: "digit_value CHR ''-'' = None"
  by (simp add: digit_value_def char_class_defs less_eq_char_def)

lemma read_show_int [simp]: "read_int (show_int i) = Some i"
proof (cases "i < 0")
  case False
  obtain c r where s: "show_nat (nat i) = c # r" by (cases "show_nat (nat i)") auto
  moreover have "c \<noteq> CHR ''-''"
    using read_show_nat [of "nat i"] s by (auto simp: read_nat_def digit_value_minus)
  ultimately show ?thesis using False read_show_nat [of "nat i"] by (simp add: read_int_def show_int_def)
qed (simp add: read_int_def show_int_def)

lemma safe_show_nat: "n \<le> maxSafeInteger \<Longrightarrow> safe_integer (show_nat n) = Some (int n)"
  using read_show_int [of "int n"] by (simp add: safe_integer_def show_int_def)

lemma safe_integer_bound: "safe_integer s = Some i \<Longrightarrow> i \<le> int maxSafeInteger"
  by (auto simp: safe_integer_def split: option.splits if_splits)

lemma kind_of_text [simp]: "kind_of (kindText k) = Some k"
  by (cases k) (simp_all add: kind_of_def kindText_def)

lemma position_roundtrip:
  assumes "po_after p \<le> po_through p" "po_through p \<le> maxSafeInteger"
  shows "position_of (Some (position_key p)) = Inr p"
proof -
  have "po_after p \<le> maxSafeInteger" using assms by linarith
  note numbers = safe_show_nat [OF this] safe_show_nat [OF assms(2)]
  show ?thesis
    using assms by (cases "po_lastSk p")
      (simp_all add: position_of_def position_key_def numbers boolText_def)
qed

lemma position_of_bounds:
  assumes "position_of key = Inr p"
  shows "po_after p \<le> po_through p \<and> po_through p \<le> maxSafeInteger"
  using assms safe_integer_bound
  by (fastforce simp: position_of_def bind_eq_Some_conv split: option.splits prod.splits if_splits)

section \<open>The window of a page\<close>

definition index_top :: string where
  "index_top = [CHR 0xEF, CHR 0xBF, CHR 0xBF]"

lemma ident_below_top: "list_all is_ident_char u \<Longrightarrow> \<not> index_top < u"
  by (cases u) (auto simp: index_top_def char_class_defs less_eq_char_def less_char_def)

lemma window_keys:
  assumes "n < 10 ^ 16" "after < through" "through < 10 ^ 16" "list_all is_ident_char u"
  shows "syncSk (after + 1) '''' \<le> syncSk n u \<and> syncSk n u \<le> syncUpperSk through
    \<longleftrightarrow> after < n \<and> n \<le> through"
proof -
  have up: "syncUpperSk through = syncSk through index_top"
    by (simp add: syncUpperSk_def syncSk_def index_top_def)
  have "after + 1 < 10 ^ 16" using assms by linarith
  from syncSk_less [OF assms(1) this, of u "''''"] syncSk_less [OF assms(3,1), of index_top u]
    ident_below_top [OF assms(4)] show ?thesis
    unfolding up not_less [symmetric] by auto
qed

definition within :: "string option \<Rightarrow> string option \<Rightarrow> string \<Rightarrow> bool" where
  "within start stop sk \<longleftrightarrow> (\<forall>l. start = Some l \<longrightarrow> l < sk) \<and> (\<forall>u. stop = Some u \<longrightarrow> sk \<le> u)"

text \<open>A row of the index that shows a secret at its current version, under its sequence number.\<close>

definition current_row :: "table \<Rightarrow> string \<Rightarrow> nat \<Rightarrow> AgentSyncRecord \<Rightarrow> bool" where
  "current_row t e n r \<longleftrightarrow>
     (\<exists>ttl. t (syncPk e, syncSk n (sr_secretUid r)) = Some (SyncChangeIt r ttl))
     \<and> (\<exists>h. head_of t (sr_secretUid r) = Some h \<and> h_environment h = e \<and> h_syncSequence h = Some n
          \<and> sr_controlVersionId r = h_controlVersionId h \<and> sr_state r = h_state h)"

lemma row_is_current:
  assumes "reachable s" "cl_table s = t" "t (syncPk e, sk) = Some (SyncChangeIt r ttl)" "sk \<noteq> ''STATE''"
  shows "\<exists>n. sk = syncSk n (sr_secretUid r) \<and> current_row t e n r"
proof -
  have "row_ok s e sk (SyncChangeIt r ttl)"
    using reachable_inv [OF assms(1)] assms(2-4) by (auto simp: cluster_inv_def inv_rows_def)
  then show ?thesis using assms(2,3) unfolding row_ok_def current_row_def by auto
qed

lemma current_row_bound:
  assumes "reachable s" "cl_table s = t" "current_row t e n r"
  shows "n < 10 ^ 16"
  using sequence_bound [of s] reachable_inv [OF assms(1)] assms(2,3)
  by (auto simp: cluster_inv_def current_row_def)

lemma as_sync_record_Some: "as_sync_record p = Some r \<longleftrightarrow> (\<exists>k ttl. p = (k, SyncChangeIt r ttl))"
  by (cases p) (auto simp: as_sync_record_def split: item.splits)

context dynamo
begin

lemma sync_page_rows:
  assumes run: "sync_page S e after through start w = (Inr (records, stop), w')" and window: "after \<noteq> through"
  shows "r \<in> set records \<longleftrightarrow> (\<exists>sk ttl. table w (syncPk e, sk) = Some (SyncChangeIt r ttl)
    \<and> syncSk (after + 1) '''' \<le> sk \<and> sk \<le> syncUpperSk through \<and> within start stop sk)"
proof -
  let ?q = "page_query e after through start"
  obtain p where q: "sv_query S ?q w = (Inr p, w')"
    and rec: "records = List.map_filter as_sync_record (qp_items p)"
    and stop: "stop = Option.bind (qp_lastEvaluatedKey p) (\<lambda>key. map_of key ''sk'')"
    using run window by (auto simp: sync_page_def em_ok)
  have sel: "q_index ?q = MainTable" "q_forward ?q" "q_limit ?q \<noteq> Some 0"
    "q_exclusiveStartKey ?q = map_option (\<lambda>sk. [(''pk'', syncPk e), (''sk'', sk)]) start"
    and cond: "q_keyCondition ?q k it \<longleftrightarrow> fst k = syncPk e \<and> syncSk (after + 1) '''' \<le> snd k
       \<and> snd k \<le> syncUpperSk through" "q_filter ?q k it" for k it
    by (simp_all add: page_query_def)
  have pk: "fst k = syncPk e" if "q_keyCondition ?q k it" for k it using that cond by simp
  have last: "\<exists>sk. map_of key ''sk'' = Some sk" if "qp_lastEvaluatedKey p = Some key" for key
    using query_last_key [OF q sel(1,3) that] by auto
  have mem: "r \<in> set records \<longleftrightarrow> (\<exists>k ttl. (k, SyncChangeIt r ttl) \<in> set (qp_items p))"
    unfolding rec mem_map_filter by (auto simp: as_sync_record_Some)
  show ?thesis
  proof
    assume "r \<in> set records"
    then obtain k ttl where i: "(k, SyncChangeIt r ttl) \<in> set (qp_items p)" using mem by blast
    have "within start stop (snd k)"
      using query_page_bounds [OF q sel(1,2) pk i] unfolding within_def sel(4) stop
      by (cases start; cases "qp_lastEvaluatedKey p") simp_all
    with query_selects [OF q i] query_consistent [OF q sel(1) i] cond show "\<exists>sk ttl. table w (syncPk e, sk) = Some (SyncChangeIt r ttl)
      \<and> syncSk (after + 1) '''' \<le> sk \<and> sk \<le> syncUpperSk through \<and> within start stop sk"
      by (cases k) auto
  next
    assume "\<exists>sk ttl. table w (syncPk e, sk) = Some (SyncChangeIt r ttl)
      \<and> syncSk (after + 1) '''' \<le> sk \<and> sk \<le> syncUpperSk through \<and> within start stop sk"
    then obtain sk ttl where sk: "table w (syncPk e, sk) = Some (SyncChangeIt r ttl)"
      "syncSk (after + 1) '''' \<le> sk" "sk \<le> syncUpperSk through" "within start stop sk" by blast
    have lower: "case q_exclusiveStartKey ?q of None \<Rightarrow> True | Some key \<Rightarrow>
        (\<exists>l. map_of key ''sk'' = Some l \<and> l < snd (syncPk e, sk))"
      using sk(4) unfolding sel(4) by (cases start) (auto simp: within_def)
    have upper: "case qp_lastEvaluatedKey p of None \<Rightarrow> True | Some key \<Rightarrow>
        (\<exists>u. map_of key ''sk'' = Some u \<and> snd (syncPk e, sk) \<le> u)"
      using sk(4) last unfolding stop by (auto simp: within_def split: option.split)
    have "((syncPk e, sk), SyncChangeIt r ttl) \<in> set (qp_items p)"
      by (rule query_page_complete [OF q sel(1,2) pk sk(1) _ cond(2) lower upper]) (use sk cond in auto)
    with mem show "r \<in> set records" by blast
  qed
qed

lemma sync_page_keeps: "keeps table (sync_page S e after through start)"
  unfolding sync_page_def by (intro keeps_intro query_keeps)

lemma sync_page_empty: "sync_page S e n n start w = (Inr ([], None), w)"
  by (simp add: sync_page_def)

text \<open>Over a reachable table the rows of a page are the current rows of its part of the window.\<close>

lemma sync_page_current:
  assumes run: "sync_page S e after through start w = (Inr (records, stop), w')"
    and reach: "reachable s" "cl_table s = table w" and "after \<le> through" "through \<le> maxSafeInteger"
    and ident: "\<And>u h. head_of (table w) u = Some h \<Longrightarrow> list_all is_ident_char u"
  shows "set records = {r. \<exists>n. current_row (table w) e n r \<and> after < n \<and> n \<le> through
    \<and> within start stop (syncSk n (sr_secretUid r))}"
proof (cases "after = through")
  case True
  then show ?thesis using run by (auto simp: sync_page_empty)
next
  case False
  then have le: "after < through" "through < 10 ^ 16" using assms(4,5) maxSafe_digits by auto
  have window: "syncSk (after + 1) '''' \<le> syncSk n (sr_secretUid r) \<and> syncSk n (sr_secretUid r) \<le> syncUpperSk through
      \<longleftrightarrow> after < n \<and> n \<le> through" if "current_row (table w) e n r" for n r
    using window_keys [OF current_row_bound [OF reach that] le] that ident by (auto simp: current_row_def)
  have state: "\<not> (''STATE'' :: string) \<le> syncUpperSk through"
    by (simp add: syncUpperSk_def less_char_def)
  have "r \<in> set records \<longleftrightarrow> (\<exists>n. current_row (table w) e n r \<and> after < n \<and> n \<le> through
    \<and> within start stop (syncSk n (sr_secretUid r)))" (is "_ \<longleftrightarrow> ?R") for r
  proof
    assume "r \<in> set records"
    then obtain sk ttl where sk: "table w (syncPk e, sk) = Some (SyncChangeIt r ttl)"
      "syncSk (after + 1) '''' \<le> sk" "sk \<le> syncUpperSk through" "within start stop sk"
      using sync_page_rows [OF run False] by blast
    then have "sk \<noteq> ''STATE''" using state by auto
    from row_is_current [OF reach sk(1) this] window sk(2-4) show ?R by blast
  next
    assume ?R
    then show "r \<in> set records" using window sync_page_rows [OF run False] unfolding current_row_def by blast
  qed
  then show ?thesis by blast
qed

end

section \<open>Where a request starts and where its cursor continues\<close>

definition position_at :: "table \<Rightarrow> string \<Rightarrow> string \<Rightarrow> Position \<Rightarrow> bool" where
  "position_at t scope token p \<longleftrightarrow> (\<exists>s. stored_cursor token (t (cursorPk token, ''STATE'')) = Some s
     \<and> cp_scope s = scope \<and> position_of (cp_lastEvaluatedKey s) = Inr p)"

definition starts_at ::
  "table \<Rightarrow> string \<Rightarrow> string option \<Rightarrow> string option \<Rightarrow> nat \<Rightarrow> nat \<Rightarrow> nat \<Rightarrow> string option \<Rightarrow> bool" where
  "starts_at t scope syncCursor cursor sequence after through start \<longleftrightarrow> (case (syncCursor, cursor) of
     (None, None) \<Rightarrow> after = 0 \<and> through = sequence \<and> start = None
   | (Some token, None) \<Rightarrow> (\<exists>p. position_at t scope token p \<and> po_kind p = Checkpoint
        \<and> after = po_through p \<and> through = sequence \<and> start = None)
   | (None, Some token) \<Rightarrow> (\<exists>p. position_at t scope token p \<and> po_kind p = PageContinuation
        \<and> after = po_after p \<and> through = po_through p \<and> start = po_lastSk p)
   | _ \<Rightarrow> False)"

definition continues_at :: "table \<Rightarrow> string \<Rightarrow> AgentSyncPage \<Rightarrow> nat \<Rightarrow> nat \<Rightarrow> string option \<Rightarrow> bool" where
  "continues_at t scope page after through stop \<longleftrightarrow> (case sy_nextCursor page of
     Some token \<Rightarrow> stop \<noteq> None \<and> sy_syncCursor page = None \<and> (\<exists>p. position_at t scope token p
        \<and> po_kind p = PageContinuation \<and> po_after p = after \<and> po_through p = through \<and> po_lastSk p = stop)
   | None \<Rightarrow> stop = None \<and> (\<exists>token p. sy_syncCursor page = Some token \<and> position_at t scope token p
        \<and> po_kind p = Checkpoint \<and> po_through p = through))"

context dynamo
begin

lemma getCursor_keeps: "keeps table (getCursor S token)"
  unfolding getCursor_def by (intro keeps_intro get_keeps)

lemma sync_decode_ok:
  assumes "sync_decode S token scope w = (Inr p, w')"
  shows "position_at (table w) scope token p \<and> table w' = table w"
proof -
  obtain found w1 s w2 where g: "getCursor S token w = (Inr found, w1)" and s: "found = Some s"
    "cp_scope s = scope" and now: "\<exists>n. sv_now S w1 = (Inr n, w2)" and p: "liftE (position_of (cp_lastEvaluatedKey s)) w2 = (Inr p, w')"
    using assms unfolding sync_decode_def thenM_ok bindM_ok throwIf_ok orRaise_ok by blast
  have "found = stored_cursor token (table w (cursorPk token, ''STATE''))"
    using g by (auto simp: getCursor_def em_ok dest: get_item)
  moreover have "table w2 = table w" using now now_run keepsD [OF getCursor_keeps g] by auto
  ultimately show ?thesis using s p by (auto simp: position_at_def intro!: exI [of _ s])
qed

lemma sync_position_ok:
  assumes "sync_position S scope digest state syncCursor cursor d1 d2 w = (Inr p, w')"
    and "syncCursor = None \<or> cursor = None"
  shows "starts_at (table w) scope syncCursor cursor (ss_sequence state) (po_after p) (po_through p) (po_lastSk p)"
    and "po_after p \<le> po_through p" "po_through p \<le> ss_sequence state" "po_epoch p = ss_epoch state"
    and "po_digest p = digest" "table w' = table w"
    and "syncCursor \<noteq> None \<Longrightarrow> po_after p = po_through p \<Longrightarrow> ss_sequence state = po_through p"
proof -
  let ?goal = "starts_at (table w) scope syncCursor cursor (ss_sequence state) (po_after p) (po_through p) (po_lastSk p)
    \<and> po_after p \<le> po_through p \<and> po_through p \<le> ss_sequence state \<and> po_epoch p = ss_epoch state
    \<and> po_digest p = digest \<and> table w' = table w
    \<and> (syncCursor \<noteq> None \<longrightarrow> po_after p = po_through p \<longrightarrow> ss_sequence state = po_through p)"
  have ?goal
  proof (cases "case cursor of Some c \<Rightarrow> Some c | None \<Rightarrow> syncCursor")
    case None
    then have "cursor = None" "syncCursor = None" by (auto split: option.splits)
    with assms(1) show ?thesis by (auto simp: sync_position_def starts_at_def)
  next
    case (Some token)
    obtain q w1 where d: "sync_decode S token scope w = (Inr q, w1)"
      and ok: "po_epoch q = ss_epoch state" "po_digest q = digest" "po_through q \<le> ss_sequence state"
      and rest: "(if cursor \<noteq> None
           then thenM (throwIf (po_kind q \<noteq> PageContinuation)
                  (badRequest ''cursor must be a page continuation.'')) (ret q)
           else thenM (throwIf (po_kind q \<noteq> Checkpoint)
                  (badRequest ''syncCursor must be a completed checkpoint.''))
                (ret (q\<lparr>po_checkpointExpiresAt := d1, po_pageExpiresAt := d2,
                   po_after := po_through q, po_through := ss_sequence state, po_snapshot := False,
                   po_lastSk := None\<rparr>))) w1 = (Inr p, w')"
      using assms(1) Some by (auto simp: sync_position_def em_ok not_less)
    have q: "position_at (table w) scope token q" "table w1 = table w" using sync_decode_ok [OF d] by simp_all
    then have "po_after q \<le> po_through q" using position_of_bounds by (auto simp: position_at_def)
    with q ok rest Some assms(2) show ?thesis
      by (cases cursor; cases syncCursor) (auto simp: em_ok starts_at_def)
  qed
  then show "starts_at (table w) scope syncCursor cursor (ss_sequence state) (po_after p) (po_through p) (po_lastSk p)"
    "po_after p \<le> po_through p" "po_through p \<le> ss_sequence state" "po_epoch p = ss_epoch state"
    "po_digest p = digest" "table w' = table w"
    "syncCursor \<noteq> None \<Longrightarrow> po_after p = po_through p \<Longrightarrow> ss_sequence state = po_through p" by simp_all
qed

text \<open>A cursor made for a position leads back to it, and no other cursor is disturbed.\<close>

lemma sync_encode_stores:
  assumes "sync_encode S scope p w = (Inr token, w')"
  shows "po_after p \<le> po_through p \<Longrightarrow> po_through p \<le> maxSafeInteger \<Longrightarrow> position_at (table w') scope token p"
    and "position_at (table w) scope' token' q \<Longrightarrow> position_at (table w') scope' token' q"
proof -
  let ?stored = "\<lambda>w token. stored_cursor token (table w (cursorPk token, ''STATE''))"
  have "keeps ?stored (sv_randomToken S)"
    by (rule keepsI) (simp add: keepsD [OF randomToken_keeps])
  from cursor_store.attempts_stores [OF repository_cursor_store assms [unfolded sync_encode_def cursor_encode_def] this]
  have st: "?stored w token = None" "?stored w' = (?stored w)(token := Some (CursorPayload.extend
      (position_payload scope p) (StoredCursor.fields token (ceil_seconds (cp_expiresAt (position_payload scope p))))))"
    by simp_all
  have "?stored w' token = Some (CursorPayload.extend (position_payload scope p)
      (StoredCursor.fields token (ceil_seconds (cp_expiresAt (position_payload scope p)))))"
    using fun_cong [OF st(2), of token] by simp
  then show "position_at (table w') scope token p" if "po_after p \<le> po_through p" "po_through p \<le> maxSafeInteger"
    using position_roundtrip [OF that] by (simp add: position_at_def position_payload_def CursorPayload.defs)
  show "position_at (table w') scope' token' q" if "position_at (table w) scope' token' q"
    using that fun_cong [OF st(2), of token'] st(1) by (auto simp: position_at_def)
qed

end

section \<open>What a page reports\<close>

lemma sync_changes_set:
  "set (sync_changes grant scopes records) =
     {visibleEntry r grant (sg_permissions selected) | r selected. r \<in> set records \<and> granted_scope scopes r = Some selected}"
  unfolding sync_changes_def set_eq_iff mem_map_filter map_option_eq_Some mem_Collect_eq by metis

lemma agent_sync_ok:
  assumes D: "dynamo S table"
    and run: "agent_sync S cfg consumer e syncCursor cursor found w = (Inr page, w')"
  obtains grant scopes state p records stop w1 w2 w3 where
    "found = Some grant" "ag_status grant = G_ACTIVE" "ag_consumerId grant = consumer" "ag_environment grant = e"
    "ag_secretGrants grant = Some scopes" "syncCursor = None \<or> cursor = None"
    "as_sync_state (table w (syncPk e, ''STATE'')) = Some state"
    "starts_at (table w) (sync_scope e consumer) syncCursor cursor (ss_sequence state) (po_after p) (po_through p) (po_lastSk p)"
    "po_after p \<le> po_through p" "po_through p \<le> ss_sequence state"
    "syncCursor \<noteq> None \<Longrightarrow> po_after p = po_through p \<Longrightarrow> ss_sequence state = po_through p"
    "sync_page S e (po_after p) (po_through p) (po_lastSk p) w1 = (Inr (records, stop), w2)"
    "table w1 = table w" "table w2 = table w" "sy_changes page = sync_changes grant scopes records"
    "sync_next_cursor S (sync_scope e consumer) p stop w2 = (Inr (sy_nextCursor page), w3)"
    "sync_final_cursor S (sync_scope e consumer) p syncCursor (sy_nextCursor page) w3 = (Inr (sy_syncCursor page), w')"
proof -
  let ?scope = "sync_scope e consumer"
  obtain grant scopes st0 w0 state n w5 n' w6 p w1 pg w2 nxt w3 final where
    g: "(case found of None \<Rightarrow> None
         | Some grant \<Rightarrow> if ag_status grant \<noteq> G_ACTIVE \<or> ag_consumerId grant \<noteq> consumer
             \<or> ag_environment grant \<noteq> e then None
           else map_option (Pair grant) (ag_secretGrants grant)) = Some (grant, scopes)" and
    c: "syncCursor = None \<or> cursor = None" and
    st: "sync_state S e w = (Inr st0, w0)" and
    st0: "(case st0 of None \<Rightarrow> None | Some state \<Rightarrow> if ss_ready state then Some state else None) = Some state" and
    n: "sv_now S w0 = (Inr n, w5)" "sv_now S w5 = (Inr n', w6)" and
    p: "sync_position S ?scope (grantDigest S grant scopes) state syncCursor cursor
       (n + syncCheckpointLifetime) (n' + pageLifetime) w6 = (Inr p, w1)" and
    pg: "sync_page S e (po_after p) (po_through p) (po_lastSk p) w1 = (Inr pg, w2)" and
    nx: "sync_next_cursor S ?scope p (snd pg) w2 = (Inr nxt, w3)" and
    fin: "sync_final_cursor S ?scope p syncCursor nxt w3 = (Inr final, w')" and
    pageEq: "page = \<lparr>sy_config = sync_config cfg consumer e grant scopes, sy_snapshot = po_snapshot p,
       sy_changes = sync_changes grant scopes (fst pg), sy_nextCursor = nxt, sy_syncCursor = final\<rparr>"
    using run unfolding agent_sync_def Let_def bindM_ok thenM_ok throwIf_ok orRaise_ok
    by (auto simp: bindM_ok thenM_ok throwIf_ok orRaise_ok)
  have g': "found = Some grant \<and> ag_status grant = G_ACTIVE \<and> ag_consumerId grant = consumer
     \<and> ag_environment grant = e \<and> ag_secretGrants grant = Some scopes"
    using g by (auto split: option.splits if_splits)
  have st0': "st0 = Some state" using st0 by (auto split: option.splits if_splits)
  have t: "table w6 = table w"
    using dynamo.sync_state_run [OF D st] dynamo.now_run [OF D n(1)] dynamo.now_run [OF D n(2)] by simp
  note pos = dynamo.sync_position_ok [OF D p c]
  have t2: "table w2 = table w" using keepsD [OF dynamo.sync_page_keeps [OF D] pg] pos(6) t by simp
  obtain records stop where pr: "pg = (records, stop)" by (cases pg)
  show ?thesis
    using that [of grant scopes state p w1 records stop w2 w3] g' c dynamo.sync_state_value [OF D st [unfolded st0'], symmetric]
      pos t t2 pg nx fin pageEq pr by simp
qed

lemma next_cursor_stores:
  assumes "dynamo S table" "sync_next_cursor S scope p stop w = (Inr found, w')"
    and "po_after p \<le> po_through p" "po_through p \<le> maxSafeInteger"
  shows "case found of None \<Rightarrow> stop = None \<and> w' = w
     | Some token \<Rightarrow> stop \<noteq> None \<and> position_at (table w') scope token (p\<lparr>po_kind := PageContinuation, po_lastSk := stop\<rparr>)"
proof (cases stop)
  case (Some sk)
  then obtain token where e: "sync_encode S scope (p\<lparr>po_kind := PageContinuation, po_lastSk := Some sk\<rparr>) w = (Inr token, w')"
    and f: "found = Some token" using assms(2) by (auto simp: sync_next_cursor_def em_ok)
  from dynamo.sync_encode_stores(1) [OF assms(1) e] assms(3,4) Some f show ?thesis by simp
qed (use assms(2) in \<open>simp add: sync_next_cursor_def\<close>)

lemma final_cursor_stores:
  assumes "dynamo S table" "sync_final_cursor S scope p syncCursor found w = (Inr final, w')"
    and "po_through p \<le> maxSafeInteger"
  shows "found \<noteq> None \<Longrightarrow> final = None \<and> w' = w"
    and "found = None \<Longrightarrow> syncCursor \<noteq> None \<Longrightarrow> po_after p = po_through p \<Longrightarrow> final = syncCursor \<and> w' = w"
    and "found = None \<Longrightarrow> syncCursor = None \<or> po_after p \<noteq> po_through p \<Longrightarrow> \<exists>token q. final = Some token
      \<and> position_at (table w') scope token q \<and> po_kind q = Checkpoint \<and> po_through q = po_through p"
proof -
  show "final = None \<and> w' = w" if "found \<noteq> None" using assms(2) that by (auto simp: sync_final_cursor_def)
  show "final = syncCursor \<and> w' = w" if "found = None" "syncCursor \<noteq> None" "po_after p = po_through p"
    using assms(2) that by (auto simp: sync_final_cursor_def)
  show "\<exists>token q. final = Some token \<and> position_at (table w') scope token q \<and> po_kind q = Checkpoint
      \<and> po_through q = po_through p" if none: "found = None" and c: "syncCursor = None \<or> po_after p \<noteq> po_through p"
  proof -
    let ?q = "p\<lparr>po_kind := Checkpoint, po_after := po_through p, po_lastSk := None\<rparr>"
    obtain token where e: "sync_encode S scope ?q w = (Inr token, w')" and f: "final = Some token"
      using assms(2) none c
      by (cases "syncCursor \<noteq> None \<and> po_after p = po_through p") (auto simp: sync_final_cursor_def bindM_ok)
    from dynamo.sync_encode_stores(1) [OF assms(1) e] assms(3) f show ?thesis by (intro exI [of _ token] exI [of _ ?q]) simp
  qed
qed

text \<open>A head that is not archived has its row, numbered no higher than the counter.\<close>

lemma head_row_current:
  assumes "reachable s" "counter_of (cl_table s) e = Some state"
    and "head_of (cl_table s) u = Some h" "h_environment h = e" "h_syncSequence h = Some n" "h_state h \<noteq> S_ARCHIVED"
  shows "n \<le> ss_sequence state \<and> (\<exists>r. sr_secretUid r = u \<and> current_row (cl_table s) e n r)"
proof -
  have inv: "inv_counter s" "inv_rows s" using reachable_inv [OF assms(1)] by (simp_all add: cluster_inv_def)
  from inv(2) assms(3-6) obtain it where it: "cl_table s (syncPk (h_environment h), syncSk n u) = Some it"
    unfolding inv_rows_def by blast
  obtain r ttl where "it = SyncChangeIt r ttl" "sr_secretUid r = u" "sr_controlVersionId r = h_controlVersionId h"
    "sr_state r = h_state h" by (rule row_of_head [OF inv assms(3,5) it])
  then have "sr_secretUid r = u \<and> current_row (cl_table s) e n r"
    using it assms(3-6) by (auto simp: current_row_def)
  moreover have "n \<le> ss_sequence state" using inv(1) assms(2-5) unfolding inv_counter_def by fastforce
  ultimately show ?thesis by blast
qed

text \<open>The cursors of a page continue where it ends.\<close>

lemma page_continues:
  assumes "dynamo S table" "po_after p \<le> po_through p" "po_through p \<le> maxSafeInteger"
    and "syncCursor = None \<or> cursor = None"
    and "starts_at (table w2) scope syncCursor cursor current (po_after p) (po_through p) (po_lastSk p)"
    and "sync_next_cursor S scope p stop w2 = (Inr (sy_nextCursor page), w3)"
    and "sync_final_cursor S scope p syncCursor (sy_nextCursor page) w3 = (Inr (sy_syncCursor page), w')"
  shows "continues_at (table w') scope page (po_after p) (po_through p) stop"
proof -
  have next_stored: "case sy_nextCursor page of None \<Rightarrow> stop = None \<and> w3 = w2
     | Some token \<Rightarrow> stop \<noteq> None
        \<and> position_at (table w3) scope token (p\<lparr>po_kind := PageContinuation, po_lastSk := stop\<rparr>)"
    by (rule next_cursor_stores [OF assms(1,6,2,3)])
  note final = final_cursor_stores [OF assms(1,7,3)]
  show ?thesis
  proof (cases "sy_nextCursor page")
    case (Some token)
    with next_stored final(1) show ?thesis unfolding continues_at_def by auto
  next
    case None
    with next_stored have stop: "stop = None" "w3 = w2" by simp_all
    have "\<exists>token q. sy_syncCursor page = Some token \<and> position_at (table w') scope token q
        \<and> po_kind q = Checkpoint \<and> po_through q = po_through p"
    proof (cases "syncCursor \<noteq> None \<and> po_after p = po_through p")
      case True
      then obtain token where token: "syncCursor = Some token" by blast
      with assms(4,5) obtain q where "position_at (table w2) scope token q" "po_kind q = Checkpoint"
        "po_after p = po_through q" by (auto simp: starts_at_def)
      with final(2) [OF None] True token stop show ?thesis by auto
    next
      case False
      then have "syncCursor = None \<or> po_after p \<noteq> po_through p" by simp
      from final(3) [OF None this] show ?thesis .
    qed
    with stop None show ?thesis by (simp add: continues_at_def)
  qed
qed

text \<open>C39: a page of a synchronisation reports exactly the granted secrets of its environment whose index row
  lies in the part of the window the page covers, each at the current version of its secret. The window
  opens where the cursor of the request says (at the start of the index, after a checkpoint, or where a
  page ended), and the cursor of the answer continues exactly where this page ends: a page continuation
  from its last row, or a checkpoint of the whole window. A live secret always has its row, so no change
  is lost between two synchronisations.\<close>

theorem sync_reports_window:
  assumes "dynamo S table" "reachable s" "cl_table s = table w"
    and "\<And>u h. head_of (table w) u = Some h \<Longrightarrow> list_all is_ident_char u"
    and "agent_sync S cfg consumer e syncCursor cursor found w = (Inr page, w')"
  shows "\<exists>grant scopes state after through start stop. found = Some grant \<and> ag_secretGrants grant = Some scopes
    \<and> counter_of (table w) e = Some state
    \<and> starts_at (table w) (sync_scope e consumer) syncCursor cursor (ss_sequence state) after through start
    \<and> continues_at (table w') (sync_scope e consumer) page after through stop
    \<and> set (sy_changes page) = {visibleEntry r grant (sg_permissions selected) | r selected n.
         current_row (table w) e n r \<and> after < n \<and> n \<le> through \<and> within start stop (syncSk n (sr_secretUid r))
         \<and> granted_scope scopes r = Some selected}
    \<and> (\<forall>u h n. head_of (table w) u = Some h \<and> h_environment h = e \<and> h_syncSequence h = Some n
         \<and> h_state h \<noteq> S_ARCHIVED \<longrightarrow> n \<le> ss_sequence state \<and> (\<exists>r. sr_secretUid r = u \<and> current_row (table w) e n r))"
proof -
  obtain grant scopes state p records stop w1 w2 w3 where run:
    "found = Some grant" "ag_status grant = G_ACTIVE" "ag_consumerId grant = consumer" "ag_environment grant = e"
    "ag_secretGrants grant = Some scopes" "syncCursor = None \<or> cursor = None"
    "as_sync_state (table w (syncPk e, ''STATE'')) = Some state"
    "starts_at (table w) (sync_scope e consumer) syncCursor cursor (ss_sequence state) (po_after p) (po_through p) (po_lastSk p)"
    "po_after p \<le> po_through p" "po_through p \<le> ss_sequence state"
    "syncCursor \<noteq> None \<Longrightarrow> po_after p = po_through p \<Longrightarrow> ss_sequence state = po_through p"
    "sync_page S e (po_after p) (po_through p) (po_lastSk p) w1 = (Inr (records, stop), w2)"
    "table w1 = table w" "table w2 = table w" "sy_changes page = sync_changes grant scopes records"
    "sync_next_cursor S (sync_scope e consumer) p stop w2 = (Inr (sy_nextCursor page), w3)"
    "sync_final_cursor S (sync_scope e consumer) p syncCursor (sy_nextCursor page) w3 = (Inr (sy_syncCursor page), w')"
    by (rule agent_sync_ok [OF assms(1,5)]) blast
  have inv: "inv_counter s" "inv_rows s" using reachable_inv [OF assms(2)] by (simp_all add: cluster_inv_def)
  have st: "counter_of (cl_table s) e = Some state" using run(7) assms(3) by (simp add: counter_of_def)
  then have "ss_sequence state \<le> maxSafeInteger" using inv(1) unfolding inv_counter_def by blast
  with run(10) have lim: "po_through p \<le> maxSafeInteger" by simp
  have records: "set records = {r. \<exists>n. current_row (table w) e n r \<and> po_after p < n \<and> n \<le> po_through p
      \<and> within (po_lastSk p) stop (syncSk n (sr_secretUid r))}"
    using dynamo.sync_page_current [OF assms(1) run(12) assms(2) _ run(9) lim] assms(3,4) run(13) by simp
  have cont: "continues_at (table w') (sync_scope e consumer) page (po_after p) (po_through p) stop"
    using page_continues [OF assms(1) run(9) lim run(6) _ run(16,17)] run(8,14) by simp
  have all: "\<forall>u h n. head_of (table w) u = Some h \<and> h_environment h = e \<and> h_syncSequence h = Some n
      \<and> h_state h \<noteq> S_ARCHIVED \<longrightarrow> n \<le> ss_sequence state \<and> (\<exists>r. sr_secretUid r = u \<and> current_row (table w) e n r)"
    using head_row_current [OF assms(2) st] unfolding assms(3) by blast
  have changes: "set (sy_changes page) = {visibleEntry r grant (sg_permissions selected) | r selected n.
         current_row (table w) e n r \<and> po_after p < n \<and> n \<le> po_through p
         \<and> within (po_lastSk p) stop (syncSk n (sr_secretUid r)) \<and> granted_scope scopes r = Some selected}"
    unfolding run(15) sync_changes_set records by blast
  show ?thesis
    using run(1,5) st [unfolded assms(3)] run(8) cont changes all by blast
qed

text \<open>The index of the example, marked ready after the backfill.\<close>

definition yx_items :: "(dkey \<times> item) list" where
  "yx_items = ref_apply [mark_ready_update ''prod''] ex_items4"

definition yx_world :: ref_world where
  "yx_world = ex_world\<lparr>rw_items := yx_items\<rparr>"

definition yx_grant :: AgentGrantRecord where
  "yx_grant = sx_grant\<lparr>ag_consumerId := ''c2'', ag_capabilities := [CRead],
     ag_secretGrants := Some [\<lparr>sg_secretId = ''db/pw'', sg_secretUid = ''s1'', sg_permissions = [CRead]\<rparr>]\<rparr>"

lemma yx_grant_fields [simp]: "ag_status yx_grant = G_ACTIVE" "ag_consumerId yx_grant = ''c2''"
  "ag_environment yx_grant = ''prod''" "ag_secretGrants yx_grant
     = Some [\<lparr>sg_secretId = ''db/pw'', sg_secretUid = ''s1'', sg_permissions = [CRead]\<rparr>]"
  by (simp_all add: yx_grant_def sx_grant_def)

lemma yx_reachable: "\<exists>s. reachable s \<and> cl_table s = ref_table yx_world"
proof -
  obtain s where s: "reachable s" "cl_table s = ref_table ex_world4" using ex_history by blast
  have "committed [mark_ready_update ''prod''] (cl_table s) (ref_table yx_world)"
    unfolding s(2) committed_single
    by (simp add: ref_table_def yx_world_def yx_items_def ref_apply_table ex_world4_def)
      (simp add: mark_ready_update_def ex_items4_def ex_keys ex_state_def)
  then have "server_step s (s\<lparr>cl_table := ref_table yx_world\<rparr>)"
    by (intro step_sync_state [of "mark_ready_update ''prod''" "''prod''" epoch "[]" "[]"]) simp_all
  with s(1) have "reachable (s\<lparr>cl_table := ref_table yx_world\<rparr>)" by (rule reachable_step)
  then show ?thesis by (intro exI [of _ "s\<lparr>cl_table := ref_table yx_world\<rparr>"]) simp
qed

lemma yx_page: "sync_page ref_services ''prod'' 0 2 None yx_world
    = (Inr ([syncRecord ''s1'' (pm_control ex_update)], None), yx_world)"
  by code_simp

definition yx_entry :: AgentSyncEntry where
  "yx_entry = visibleEntry (syncRecord ''s1'' (pm_control ex_update)) yx_grant [CRead]"

lemma yx_no_cursor: "map_of yx_items (cursorPk t, sk) = None"
  by (simp add: yx_items_def ref_apply_def mark_ready_update_def ex_items4_def ex_keys ex_access_def ex_row_def
      ex_notification_def List.map_filter_def ex_state_def)

lemma yx_run:
  obtains page w' where "agent_sync ref_services sx_config ''c2'' ''prod'' None None (Some yx_grant) yx_world = (Inr page, w')"
    "sy_changes page = [yx_entry]" "sy_nextCursor page = None"
proof -
  let ?p = "\<lparr>po_kind = PageContinuation, po_epoch = ''id1'', po_digest = ''digest'', po_after = 0, po_through = 2,
     po_snapshot = True, po_checkpointExpiresAt = 1000 + syncCheckpointLifetime,
     po_pageExpiresAt = 1000 + pageLifetime, po_lastSk = None\<rparr>"
  have state: "sync_state ref_services ''prod'' yx_world
      = (Inr (Some \<lparr>ss_epoch = ''id1'', ss_sequence = 2, ss_ready = True\<rparr>), yx_world)"
    by code_simp
  have enc: "\<exists>token w1. sync_encode ref_services scope q yx_world = (Inr token, w1)" for scope q
    by (simp add: sync_encode_def cursor_encode_def numeral_3_eq_3 createCursor_def unless_refused_def ref_run
        ref_write_def yx_world_def yx_no_cursor)
  have clock: "rw_clock yx_world = 1000" by (simp add: yx_world_def ex_world_def)
  have changes: "sync_changes yx_grant [\<lparr>sg_secretId = ''db/pw'', sg_secretUid = ''s1'', sg_permissions = [CRead]\<rparr>]
      [syncRecord ''s1'' (pm_control ex_update)] = [yx_entry]"
    by (simp add: sync_changes_def granted_scope_def js_map_def syncRecord_def ex_data yx_entry_def List.map_filter_def)
  obtain token w1 where t: "sync_encode ref_services (sync_scope ''prod'' ''c2'')
      (?p\<lparr>po_kind := Checkpoint, po_after := 2, po_lastSk := None\<rparr>) yx_world = (Inr token, w1)" using enc by blast
  have "agent_sync ref_services sx_config ''c2'' ''prod'' None None (Some yx_grant) yx_world
    = (Inr \<lparr>sy_config = sync_config sx_config ''c2'' ''prod'' yx_grant
            [\<lparr>sg_secretId = ''db/pw'', sg_secretUid = ''s1'', sg_permissions = [CRead]\<rparr>],
        sy_snapshot = True, sy_changes = [yx_entry], sy_nextCursor = None, sy_syncCursor = Some token\<rparr>, w1)"
    using t by (simp add: agent_sync_def orRaise_def bindM_def thenM_def throwIf_def state
        Let_def clock sync_position_def grantDigest_def yx_page sync_next_cursor_def sync_final_cursor_def changes)
  then show ?thesis by (rule that) simp_all
qed

theorem sync_reports_window_witness:
  "\<exists>page w'. agent_sync ref_services sx_config ''c2'' ''prod'' None None (Some yx_grant) yx_world = (Inr page, w')
     \<and> sy_changes page = [yx_entry] \<and> continues_at (ref_table w') (sync_scope ''prod'' ''c2'') page 0 2 None"
proof -
  obtain page w' where run: "agent_sync ref_services sx_config ''c2'' ''prod'' None None (Some yx_grant) yx_world = (Inr page, w')"
    and page: "sy_changes page = [yx_entry]" "sy_nextCursor page = None" by (rule yx_run)
  obtain s where s: "reachable s" "cl_table s = ref_table yx_world" using yx_reachable by blast
  have ident: "list_all is_ident_char u" if "head_of (ref_table yx_world) u = Some h" for u h
  proof -
    have "u = ''s1''"
      using that by (simp add: head_of_def ref_table_def yx_world_def yx_items_def ref_apply_def mark_ready_update_def
          ex_items4_def ex_keys ex_access_def ex_row_def ex_notification_def List.map_filter_def ex_state_def
          split: if_splits)
    then show ?thesis by (simp add: char_class_defs less_eq_char_def)
  qed
  have counter: "counter_of (ref_table yx_world) ''prod'' = Some \<lparr>ss_epoch = ''id1'', ss_sequence = 2, ss_ready = True\<rparr>"
    by code_simp
  from sync_reports_window [OF ref_dynamo.dynamo_axioms s ident run] counter page(2)
  have "continues_at (ref_table w') (sync_scope ''prod'' ''c2'') page 0 2 None"
    by (auto simp: starts_at_def continues_at_def)
  with run page(1) show ?thesis by blast
qed

text \<open>C40: an entry of a synchronisation shows an agent only what its active grant for the consumer and the
  environment allows: it names a stored row of a granted identity under its granted name; a permission
  needs the capability, the grant of the identity, a live secret and, for reading, the consumer in the ACL;
  the payload version is shown only with a permission, the metadata only with the write permission, and
  without a permission the entry is a revocation.\<close>

theorem sync_discloses_only_granted:
  assumes "dynamo S table" "agent_sync S cfg consumer e syncCursor cursor found w = (Inr page, w')"
    and "en \<in> set (sy_changes page)"
  shows "\<exists>grant scopes selected r sk ttl. found = Some grant \<and> ag_status grant = G_ACTIVE \<and> ag_consumerId grant = consumer
    \<and> ag_environment grant = e \<and> ag_secretGrants grant = Some scopes \<and> selected \<in> set scopes
    \<and> table w (syncPk e, sk) = Some (SyncChangeIt r ttl)
    \<and> en_secretUid en = sg_secretUid selected \<and> en_secretId en = sg_secretId selected
    \<and> en_secretUid en = sr_secretUid r \<and> en_controlVersionId en = sr_controlVersionId r
    \<and> set (en_permissions en) \<subseteq> set (ag_capabilities grant) \<inter> set (sg_permissions selected)
    \<and> (en_permissions en \<noteq> [] \<longrightarrow> en_state en = sr_state r \<and> sr_state r \<in> {S_ACTIVE, S_PENDING_VALUE})
    \<and> (CRead \<in> set (en_permissions en) \<longrightarrow> consumer \<in> set (sr_readConsumerIds r))
    \<and> (en_payloadVersionId en \<noteq> None \<longrightarrow> en_permissions en \<noteq> [])
    \<and> (en_metadata en \<noteq> None \<longrightarrow> CWrite \<in> set (en_permissions en))
    \<and> (en_permissions en = [] \<longrightarrow> en_state en = S_REVOKED)"
proof -
  obtain grant scopes records stop w1 w2 and p :: Position where run:
    "found = Some grant" "ag_status grant = G_ACTIVE" "ag_consumerId grant = consumer" "ag_environment grant = e"
    "ag_secretGrants grant = Some scopes"
    "sync_page S e (po_after p) (po_through p) (po_lastSk p) w1 = (Inr (records, stop), w2)"
    "table w1 = table w" "sy_changes page = sync_changes grant scopes records"
    by (rule agent_sync_ok [OF assms(1,2)]) (rule that, assumption+)
  obtain r selected where r: "r \<in> set records" "granted_scope scopes r = Some selected"
    "en = visibleEntry r grant (sg_permissions selected)"
    using assms(3) unfolding run(8) sync_changes_set by blast
  have sel: "selected \<in> set scopes" "sg_secretUid selected = sr_secretUid r" "sg_secretId selected = sr_secretId r"
    using r(2) by (auto simp: granted_scope_def split: option.splits if_splits dest!: js_map_SomeD)
  have "po_after p \<noteq> po_through p"
    using run(6) r(1) dynamo.sync_page_empty [OF assms(1)] by (metis empty_iff empty_set prod.inject sum.inject(2))
  then obtain sk ttl where row: "table w (syncPk e, sk) = Some (SyncChangeIt r ttl)"
    using dynamo.sync_page_rows [OF assms(1) run(6)] r(1) run(7) by auto
  show ?thesis
    using run(1-5) sel row r(3)
    by (intro exI [of _ grant] exI [of _ scopes] exI [of _ selected] exI [of _ r] exI [of _ sk] exI [of _ ttl])
      (auto simp: visibleEntry_def Let_def split: if_splits)
qed

theorem sync_discloses_only_granted_witness:
  "\<exists>page w' r sk ttl. agent_sync ref_services sx_config ''c2'' ''prod'' None None (Some yx_grant) yx_world = (Inr page, w')
     \<and> ref_table yx_world (syncPk ''prod'', sk) = Some (SyncChangeIt r ttl) \<and> en_secretUid yx_entry = sr_secretUid r
     \<and> set (en_permissions yx_entry) \<subseteq> {CRead}"
proof -
  obtain page w' where run: "agent_sync ref_services sx_config ''c2'' ''prod'' None None (Some yx_grant) yx_world = (Inr page, w')"
    and page: "sy_changes page = [yx_entry]" by (rule yx_run)
  have m: "yx_entry \<in> set (sy_changes page)" using page by simp
  obtain grant r sk ttl and selected :: AgentSecretGrant where f: "Some yx_grant = Some grant"
    "ref_table yx_world (syncPk ''prod'', sk) = Some (SyncChangeIt r ttl)" "en_secretUid yx_entry = sr_secretUid r"
    "set (en_permissions yx_entry) \<subseteq> set (ag_capabilities grant) \<inter> set (sg_permissions selected)"
    using sync_discloses_only_granted [OF ref_dynamo.dynamo_axioms run m] by blast
  moreover have "set (en_permissions yx_entry) \<subseteq> {CRead}" using f(1,4) by (auto simp: yx_grant_def)
  ultimately show ?thesis using run by blast
qed

end
