(* ===== verification/Enrollment.thy ===== *)
theory Enrollment
  imports Mutation
begin

text \<open>
  The part of class DynamoRepository (src/src/repositories/dynamo.ts) that keeps consumers, their
  certificates and the API truststore: the issuing root and its truststore record, the enrollment of
  a consumer as one operation that is prepared and then completed or failed, the lease on the
  truststore, and the issue and revocation of further API identities.
\<close>

section \<open>Items and their updates\<close>

definition as_enrollment :: "item option \<Rightarrow> EnrollmentItem option" where
  "as_enrollment i = (case i of Some (EnrollmentIt e) \<Rightarrow> Some e | _ \<Rightarrow> None)"

definition as_truststore_root :: "item option \<Rightarrow> TruststoreRootRecord option" where
  "as_truststore_root i = (case i of Some (TruststoreRootIt r) \<Rightarrow> Some r | _ \<Rightarrow> None)"

definition as_truststore_state :: "item option \<Rightarrow> TruststoreStateRecord option" where
  "as_truststore_state i = (case i of Some (TruststoreStateIt s) \<Rightarrow> Some s | _ \<Rightarrow> None)"

definition as_issuer :: "item option \<Rightarrow> IssuerRecord option" where
  "as_issuer i = (case i of Some (IssuerIt x) \<Rightarrow> Some x | _ \<Rightarrow> None)"

definition on_identity :: "(IdentityRecord \<Rightarrow> IdentityRecord) \<Rightarrow> item \<Rightarrow> item" where
  "on_identity f i = (case i of IdentityIt x \<Rightarrow> IdentityIt (f x) | _ \<Rightarrow> i)"

definition identity_sat :: "(IdentityRecord \<Rightarrow> bool) \<Rightarrow> item \<Rightarrow> bool" where
  "identity_sat P i = (case i of IdentityIt x \<Rightarrow> P x | _ \<Rightarrow> False)"

definition on_enrollment :: "(EnrollmentItem \<Rightarrow> EnrollmentItem) \<Rightarrow> item \<Rightarrow> item" where
  "on_enrollment f i = (case i of EnrollmentIt x \<Rightarrow> EnrollmentIt (f x) | _ \<Rightarrow> i)"

definition enrollment_sat :: "(EnrollmentItem \<Rightarrow> bool) \<Rightarrow> item \<Rightarrow> bool" where
  "enrollment_sat P i = (case i of EnrollmentIt x \<Rightarrow> P x | _ \<Rightarrow> False)"

definition on_consumer :: "(ConsumerRecord \<Rightarrow> ConsumerRecord) \<Rightarrow> item \<Rightarrow> item" where
  "on_consumer f i = (case i of ConsumerIt x \<Rightarrow> ConsumerIt (f x) | _ \<Rightarrow> i)"

definition consumer_sat :: "(ConsumerRecord \<Rightarrow> bool) \<Rightarrow> item \<Rightarrow> bool" where
  "consumer_sat P i = (case i of ConsumerIt x \<Rightarrow> P x | _ \<Rightarrow> False)"

definition on_truststore :: "(TruststoreStateRecord \<Rightarrow> TruststoreStateRecord) \<Rightarrow> item \<Rightarrow> item" where
  "on_truststore f i = (case i of TruststoreStateIt x \<Rightarrow> TruststoreStateIt (f x) | _ \<Rightarrow> i)"

definition truststore_sat :: "(TruststoreStateRecord \<Rightarrow> bool) \<Rightarrow> item \<Rightarrow> bool" where
  "truststore_sat P i = (case i of TruststoreStateIt x \<Rightarrow> P x | _ \<Rightarrow> False)"

lemmas on_entity_defs = on_identity_def identity_sat_def on_enrollment_def enrollment_sat_def
  on_consumer_def consumer_sat_def on_truststore_def truststore_sat_def

lemma on_entity_simps [simp]:
  "on_identity f (IdentityIt x) = IdentityIt (f x)" "identity_sat P (IdentityIt x) \<longleftrightarrow> P x"
  "on_enrollment g (EnrollmentIt y) = EnrollmentIt (g y)" "enrollment_sat Q (EnrollmentIt y) \<longleftrightarrow> Q y"
  "on_consumer h (ConsumerIt c) = ConsumerIt (h c)" "consumer_sat R (ConsumerIt c) \<longleftrightarrow> R c"
  "on_truststore j (TruststoreStateIt s) = TruststoreStateIt (j s)"
  "truststore_sat T (TruststoreStateIt s) \<longleftrightarrow> T s"
  by (simp_all add: on_entity_defs)

lemma entity_satD:
  "identity_sat P i \<Longrightarrow> \<exists>x. i = IdentityIt x \<and> P x"
  "enrollment_sat Q i \<Longrightarrow> \<exists>x. i = EnrollmentIt x \<and> Q x"
  "consumer_sat R i \<Longrightarrow> \<exists>x. i = ConsumerIt x \<and> R x"
  "truststore_sat T i \<Longrightarrow> \<exists>x. i = TruststoreStateIt x \<and> T x"
  by (cases i; simp add: on_entity_defs)+

lemma as_entity_Some [simp]:
  "as_enrollment i = Some e \<longleftrightarrow> i = Some (EnrollmentIt e)"
  "as_truststore_root i = Some r \<longleftrightarrow> i = Some (TruststoreRootIt r)"
  "as_truststore_state i = Some s \<longleftrightarrow> i = Some (TruststoreStateIt s)"
  "as_issuer i = Some x \<longleftrightarrow> i = Some (IssuerIt x)"
  by (auto simp: as_enrollment_def as_truststore_root_def as_truststore_state_def as_issuer_def
      split: option.splits item.splits)

lemma as_entity_eval [simp]:
  "as_enrollment (Some (EnrollmentIt e)) = Some e" "as_enrollment None = None"
  "as_truststore_root (Some (TruststoreRootIt r)) = Some r" "as_truststore_root None = None"
  "as_truststore_state (Some (TruststoreStateIt s)) = Some s" "as_truststore_state None = None"
  "as_issuer (Some (IssuerIt x)) = Some x" "as_issuer None = None"
  by (simp_all add: as_enrollment_def as_truststore_root_def as_truststore_state_def as_issuer_def)

section \<open>The issuing root\<close>

definition truststoreRootsPk :: string where
  "truststoreRootsPk = ''TRUSTSTORE#ROOTS''"

definition rootSk :: "string \<Rightarrow> string" where
  "rootSk fingerprint = ''ROOT#'' @ fingerprint"

definition issuerKey :: dkey where
  "issuerKey = (''SYSTEM#ISSUER'', ''PROFILE'')"

definition truststoreStateKey :: dkey where
  "truststoreStateKey = (''SYSTEM#TRUSTSTORE'', ''STATE'')"

definition getTruststoreRoot :: "'w services \<Rightarrow> string \<Rightarrow> ('w, TruststoreRootRecord option) app" where
  "getTruststoreRoot S fingerprint =
     bindM (sv_get S (truststoreRootsPk, rootSk fingerprint)) (\<lambda>i. ret (as_truststore_root i))"

definition getIssuer :: "'w services \<Rightarrow> ('w, IssuerRecord option) app" where
  "getIssuer S = bindM (sv_get S issuerKey) (\<lambda>i. ret (as_issuer i))"

definition issuer_root :: "IssuerRecord \<Rightarrow> string \<Rightarrow> TruststoreRootRecord" where
  "issuer_root issuer environment = \<lparr>
     tr_fingerprint = is_fingerprint issuer,
     tr_consumerId = ''hemlig'',
     tr_environment = environment,
     tr_certificatePem = is_rootCertificatePem issuer,
     tr_notBefore = is_notBefore issuer,
     tr_notAfter = is_notAfter issuer,
     tr_status = I_ACTIVE,
     tr_operationId = ''issuer'',
     tr_createdAt = is_createdAt issuer \<rparr>"

definition root_action :: "IssuerRecord \<Rightarrow> string \<Rightarrow> action" where
  "root_action issuer environment = Put (truststoreRootsPk, rootSk (is_fingerprint issuer))
     (TruststoreRootIt (issuer_root issuer environment)) attribute_not_exists_pk"

definition ensureIssuerTruststoreRoot ::
  "'w services \<Rightarrow> IssuerRecord \<Rightarrow> string \<Rightarrow> ('w, unit) app" where
  "ensureIssuerTruststoreRoot S issuer environment =
     catchM (sv_write S (root_action issuer environment))
       (\<lambda>error. bindM (getTruststoreRoot S (is_fingerprint issuer)) (\<lambda>existing.
          throwIf (case existing of None \<Rightarrow> True
              | Some r \<Rightarrow> tr_certificatePem r \<noteq> is_rootCertificatePem issuer \<or> tr_status r \<noteq> I_ACTIVE)
            (conflict ''The Hemlig issuing-root truststore record is invalid.'')))"

definition issuer_actions :: "IssuerRecord \<Rightarrow> string \<Rightarrow> action list" where
  "issuer_actions issuer environment =
     [Put issuerKey (IssuerIt issuer) attribute_not_exists_pk, root_action issuer environment]"

definition createIssuer :: "'w services \<Rightarrow> IssuerRecord \<Rightarrow> string \<Rightarrow> ('w, IssuerRecord) app" where
  "createIssuer S issuer environment =
     catchM (thenM (sv_transactWrite S (issuer_actions issuer environment)) (ret issuer))
       (\<lambda>error. bindM (getIssuer S) (\<lambda>existing. case existing of
            None \<Rightarrow> raise (conflict ''Could not create the Hemlig issuing root.'')
          | Some x \<Rightarrow> thenM (ensureIssuerTruststoreRoot S x environment) (ret x)))"

section \<open>Truststore roots\<close>

definition roots_query :: "string \<Rightarrow> startKey option \<Rightarrow> query" where
  "roots_query operationId start = \<lparr>
     q_index = MainTable,
     q_keyCondition = (\<lambda>k it. fst k = truststoreRootsPk \<and> prefix ''ROOT#'' (snd k)),
     q_filter = (\<lambda>k it. case it of TruststoreRootIt r \<Rightarrow> tr_status r = I_ACTIVE \<or> tr_operationId r = operationId
        | _ \<Rightarrow> False),
     q_forward = True, q_limit = None, q_exclusiveStartKey = start \<rparr>"

definition page_roots :: "queryPage \<Rightarrow> TruststoreRootRecord list" where
  "page_roots response = List.map_filter (\<lambda>(k, it). as_truststore_root (Some it)) (qp_items response)"

text \<open>
  The do-while loop over the pages, with a bound on their number (None when it is reached first). The
  roots are the entries of a Map keyed by fingerprint, in the order in which they were first set.
\<close>

fun truststore_pages ::
  "nat \<Rightarrow> 'w services \<Rightarrow> string \<Rightarrow> startKey option \<Rightarrow> ('w, TruststoreRootRecord list option) app" where
  "truststore_pages 0 S operationId start = ret None"
| "truststore_pages (Suc n) S operationId start =
     bindM (sv_query S (roots_query operationId start)) (\<lambda>response.
       case qp_lastEvaluatedKey response of
         None \<Rightarrow> ret (Some (page_roots response))
       | Some key \<Rightarrow> bindM (truststore_pages n S operationId (Some key)) (\<lambda>more.
           ret (map_option (\<lambda>rs. page_roots response @ rs) more)))"

definition root_values :: "TruststoreRootRecord list \<Rightarrow> TruststoreRootRecord list" where
  "root_values roots = List.map_filter (js_map (map (\<lambda>r. (tr_fingerprint r, r)) roots))
     (uniq (map tr_fingerprint roots))"

definition listTruststoreRoots ::
  "nat \<Rightarrow> 'w services \<Rightarrow> string \<Rightarrow> ('w, TruststoreRootRecord list option) app" where
  "listTruststoreRoots n S operationId =
     bindM (truststore_pages n S operationId None) (\<lambda>roots.
       ret (map_option (\<lambda>rs. sort_key tr_fingerprint (root_values rs)) roots))"

definition getEnrollment :: "'w services \<Rightarrow> string \<Rightarrow> ('w, EnrollmentItem option) app" where
  "getEnrollment S operationId =
     bindM (sv_get S (enrollmentPk operationId, ''STATE'')) (\<lambda>i. ret (as_enrollment i))"

definition getTruststoreState :: "'w services \<Rightarrow> ('w, TruststoreStateRecord option) app" where
  "getTruststoreState S = bindM (sv_get S truststoreStateKey) (\<lambda>i. ret (as_truststore_state i))"

section \<open>Enrollment\<close>

text \<open>The certificate an issuer hands out: an identity without its keys and its status.\<close>

record ApiIdentity =
  ai_fingerprint :: string
  ai_consumerId :: string
  ai_environment :: string
  ai_kind :: identity_kind
  ai_notBefore :: timestamp
  ai_notAfter :: timestamp
  ai_certificatePem :: string

record PreparedEnrollment =
  pe_operationId :: string
  pe_operationType :: operation_type
  pe_idempotencyKey :: string
  pe_actor :: Actor
  pe_requestDigest :: string
  pe_consumerId :: string
  pe_environment :: string
  pe_subjectUri :: string
  pe_rootFingerprint :: string
  pe_apiIdentity :: ApiIdentity
  pe_createdAt :: timestamp
  pe_expiresAt :: timestamp

definition identityConsumerSk :: "timestamp \<Rightarrow> string \<Rightarrow> timestamp \<times> string" where
  "identityConsumerSk notAfter fingerprint = (notAfter, fingerprint)"

definition identity_record :: "ApiIdentity \<Rightarrow> string \<Rightarrow> identity_status \<Rightarrow> IdentityRecord" where
  "identity_record x consumerId status = \<lparr>
     i_fingerprint = ai_fingerprint x,
     i_consumerId = ai_consumerId x,
     i_environment = ai_environment x,
     i_kind = ai_kind x,
     i_status = status,
     i_notBefore = ai_notBefore x,
     i_notAfter = ai_notAfter x,
     i_certificatePem = Some (ai_certificatePem x),
     i_identityConsumerPk = Some (identityConsumerPk consumerId),
     i_identityConsumerSk = Some (identityConsumerSk (ai_notAfter x) (ai_fingerprint x)) \<rparr>"

definition start_request :: "PreparedEnrollment \<Rightarrow> IdempotencyItem" where
  "start_request enrollment = \<lparr>
     id_requestDigest = Some (pe_requestDigest enrollment),
     id_operationId = Some (pe_operationId enrollment),
     id_operationType = Some (pe_operationType enrollment),
     id_consumerId = Some (pe_consumerId enrollment),
     id_environment = Some (pe_environment enrollment),
     id_rootFingerprint = Some (pe_rootFingerprint enrollment),
     id_apiFingerprint = Some (ai_fingerprint (pe_apiIdentity enrollment)),
     id_status = Some ID_PREPARED, id_expiresAt = None, id_terminalAuditEventId = None \<rparr>"

definition start_operation :: "PreparedEnrollment \<Rightarrow> EnrollmentItem" where
  "start_operation enrollment = \<lparr>
     e_operationId = pe_operationId enrollment,
     e_operationType = pe_operationType enrollment,
     e_consumerId = pe_consumerId enrollment,
     e_environment = pe_environment enrollment,
     e_rootFingerprint = pe_rootFingerprint enrollment,
     e_apiFingerprint = ai_fingerprint (pe_apiIdentity enrollment),
     e_apiCertificatePem = ai_certificatePem (pe_apiIdentity enrollment),
     e_createdAt = pe_createdAt enrollment,
     e_workflowState = W_PREPARED,
     e_requestDigest = pe_requestDigest enrollment,
     e_actor = pe_actor enrollment,
     e_idempotencyKey = pe_idempotencyKey enrollment,
     e_workflowDue = Some (''WORKFLOW#DUE'', pe_expiresAt enrollment) \<rparr>"

definition start_consumer :: "PreparedEnrollment \<Rightarrow> ConsumerRecord" where
  "start_consumer enrollment = \<lparr>
     cn_consumerId = pe_consumerId enrollment,
     cn_environment = pe_environment enrollment,
     cn_subjectUri = pe_subjectUri enrollment,
     cn_status = C_PENDING,
     cn_createdAt = pe_createdAt enrollment,
     cn_createdBy = pe_actor enrollment,
     cn_pendingEnrollmentOperationId = Some (pe_operationId enrollment),
     cn_consumerDirectoryPk = Some (consumerDirectoryPk (pe_environment enrollment)),
     cn_consumerDirectorySk = Some (pe_consumerId enrollment) \<rparr>"

definition start_actions :: "PreparedEnrollment \<Rightarrow> action list" where
  "start_actions enrollment =
     [Put (idempotencyPk (pe_actor enrollment), requestSk (pe_idempotencyKey enrollment))
        (IdempotencyIt (start_request enrollment)) attribute_not_exists_pk,
      Put (identityPk (ai_fingerprint (pe_apiIdentity enrollment)), ''PROFILE'')
        (IdentityIt (identity_record (pe_apiIdentity enrollment) (pe_consumerId enrollment) I_PENDING))
        attribute_not_exists_pk,
      Put (enrollmentPk (pe_operationId enrollment), ''STATE'')
        (EnrollmentIt (start_operation enrollment)) attribute_not_exists_pk,
      Put (consumerPk (pe_consumerId enrollment), ''PROFILE'')
        (ConsumerIt (start_consumer enrollment)) attribute_not_exists_pk]"

definition startEnrollment :: "'w services \<Rightarrow> PreparedEnrollment \<Rightarrow> ('w, unit) app" where
  "startEnrollment S enrollment =
     catchM (sv_transactWrite S (start_actions enrollment))
       (\<lambda>error. raise (conflict (''Could not prepare consumer enrollment: '' @ errorMessage error)))"

definition getPendingEnrollmentForConsumer ::
  "'w services \<Rightarrow> string \<Rightarrow> ('w, EnrollmentItem option) app" where
  "getPendingEnrollmentForConsumer S consumerId =
     bindM (getConsumer S consumerId) (\<lambda>consumer. case consumer of
         None \<Rightarrow> ret None
       | Some c \<Rightarrow>
           (if cn_status c \<noteq> C_PENDING then ret None
            else case cn_pendingEnrollmentOperationId c of
                None \<Rightarrow> ret None
              | Some operationId \<Rightarrow> getEnrollment S operationId))"

definition associated_request :: "EnrollmentItem \<Rightarrow> IdempotencyItem" where
  "associated_request operation = \<lparr>
     id_requestDigest = Some (e_requestDigest operation),
     id_operationId = Some (e_operationId operation),
     id_operationType = Some (e_operationType operation),
     id_consumerId = Some (e_consumerId operation),
     id_environment = Some (e_environment operation),
     id_rootFingerprint = Some (e_rootFingerprint operation),
     id_apiFingerprint = Some (e_apiFingerprint operation),
     id_status = Some ID_PREPARED, id_expiresAt = None, id_terminalAuditEventId = None \<rparr>"

definition associateEnrollmentIdempotency ::
  "'w services \<Rightarrow> EnrollmentItem \<Rightarrow> Actor \<Rightarrow> string \<Rightarrow> ('w, unit) app" where
  "associateEnrollmentIdempotency S operation actor idempotencyKey =
     catchM (sv_write S (Put (idempotencyPk actor, requestSk idempotencyKey)
         (IdempotencyIt (associated_request operation)) attribute_not_exists_pk))
       (\<lambda>error. raise (conflict (''Could not associate enrollment idempotency: '' @ errorMessage error)))"

section \<open>The lease on the truststore\<close>

definition no_truststore :: TruststoreStateRecord where
  "no_truststore = \<lparr>
     ts_currentTruststoreKey = None, ts_currentTruststoreVersionId = None,
     ts_currentTruststoreChecksumSha256 = None, ts_currentRootFingerprints = None,
     ts_leaseOwner = None, ts_leaseExpiresAt = None,
     ts_pendingOperationId = None, ts_pendingTruststoreKey = None,
     ts_pendingTruststoreVersionId = None, ts_pendingTruststoreChecksumSha256 = None,
     ts_pendingRootFingerprints = None \<rparr>"

definition truststore_lease_free :: "string \<Rightarrow> timestamp \<Rightarrow> item option \<Rightarrow> bool" where
  "truststore_lease_free operationId now i = (case as_truststore_state i of None \<Rightarrow> True
     | Some s \<Rightarrow> (case ts_leaseExpiresAt s of None \<Rightarrow> True | Some e \<Rightarrow> e < now)
         \<or> ts_leaseOwner s = Some operationId)"

definition lease_action :: "string \<Rightarrow> timestamp \<Rightarrow> timestamp \<Rightarrow> action" where
  "lease_action operationId expiresAt now = Upsert truststoreStateKey
     (\<lambda>i. on_truststore (\<lambda>s. s\<lparr>ts_leaseOwner := Some operationId, ts_leaseExpiresAt := Some expiresAt\<rparr>)
        (case i of None \<Rightarrow> TruststoreStateIt no_truststore | Some x \<Rightarrow> x))
     (truststore_lease_free operationId now)"

definition acquireTruststoreLease :: "'w services \<Rightarrow> string \<Rightarrow> timestamp \<Rightarrow> ('w, unit) app" where
  "acquireTruststoreLease S operationId expiresAt =
     catchM (bindM (sv_now S) (\<lambda>now. sv_write S (lease_action operationId expiresAt now)))
       (\<lambda>error. raise (serviceUnavailable
          (''Another truststore publication is in progress: '' @ errorMessage error)))"

definition bundle_action :: "string \<Rightarrow> ObjectReference \<Rightarrow> string list \<Rightarrow> action" where
  "bundle_action operationId ob rootFingerprints = Update truststoreStateKey
     (on_truststore (\<lambda>s. s\<lparr>ts_pendingOperationId := Some operationId,
        ts_pendingTruststoreKey := Some (o_key ob),
        ts_pendingTruststoreVersionId := Some (o_versionId ob),
        ts_pendingTruststoreChecksumSha256 := Some (o_checksumSha256 ob),
        ts_pendingRootFingerprints := Some rootFingerprints\<rparr>))
     (truststore_sat (\<lambda>s. ts_leaseOwner s = Some operationId))"

definition recordTruststoreBundle ::
  "'w services \<Rightarrow> string \<Rightarrow> ObjectReference \<Rightarrow> string list \<Rightarrow> ('w, unit) app" where
  "recordTruststoreBundle S operationId ob rootFingerprints =
     sv_write S (bundle_action operationId ob rootFingerprints)"

text \<open>The attributes REMOVE names when an enrollment ends.\<close>

definition release_truststore :: "TruststoreStateRecord \<Rightarrow> TruststoreStateRecord" where
  "release_truststore s = s\<lparr>ts_leaseOwner := None, ts_leaseExpiresAt := None,
     ts_pendingOperationId := None, ts_pendingTruststoreKey := None,
     ts_pendingTruststoreVersionId := None, ts_pendingTruststoreChecksumSha256 := None,
     ts_pendingRootFingerprints := None\<rparr>"

section \<open>The end of an enrollment\<close>

definition identity_end :: "EnrollmentItem \<Rightarrow> identity_status \<Rightarrow> action" where
  "identity_end operation status = Update (identityPk (e_apiFingerprint operation), ''PROFILE'')
     (on_identity (\<lambda>x. x\<lparr>i_status := status\<rparr>))
     (identity_sat (\<lambda>x. i_status x = I_PENDING \<and> i_consumerId x = e_consumerId operation))"

definition operation_end :: "EnrollmentItem \<Rightarrow> workflow_state \<Rightarrow> action" where
  "operation_end operation state = Update (enrollmentPk (e_operationId operation), ''STATE'')
     (on_enrollment (\<lambda>x. x\<lparr>e_workflowState := state, e_workflowDue := None\<rparr>))
     (enrollment_sat (\<lambda>x. e_workflowState x = W_PREPARED))"

definition truststore_end ::
  "EnrollmentItem \<Rightarrow> (TruststoreStateRecord \<Rightarrow> TruststoreStateRecord) \<Rightarrow> action" where
  "truststore_end operation change = Update truststoreStateKey
     (on_truststore (\<lambda>s. release_truststore (change s)))
     (truststore_sat (\<lambda>s. ts_leaseOwner s = Some (e_operationId operation)))"

definition publish_state ::
  "ObjectReference \<Rightarrow> string list \<Rightarrow> TruststoreStateRecord \<Rightarrow> TruststoreStateRecord" where
  "publish_state truststore rootFingerprints s = s\<lparr>
     ts_currentTruststoreKey := Some (o_key truststore),
     ts_currentTruststoreVersionId := Some (o_versionId truststore),
     ts_currentTruststoreChecksumSha256 := Some (o_checksumSha256 truststore),
     ts_currentRootFingerprints := Some rootFingerprints\<rparr>"

definition complete_enrollment_actions ::
  "EnrollmentItem \<Rightarrow> ObjectReference \<Rightarrow> string list \<Rightarrow> action list" where
  "complete_enrollment_actions operation truststore rootFingerprints =
     [identity_end operation I_ACTIVE,
      operation_end operation W_READY,
      truststore_end operation (publish_state truststore rootFingerprints)]
     @ (if e_operationType operation = ConsumerEnroll
        then [Update (consumerPk (e_consumerId operation), ''PROFILE'')
                (on_consumer (\<lambda>c. c\<lparr>cn_status := C_ACTIVE, cn_pendingEnrollmentOperationId := None\<rparr>))
                (consumer_sat (\<lambda>c. cn_status c = C_PENDING \<and> cn_environment c = e_environment operation))]
        else [])"

definition activeResult :: "EnrollmentItem \<Rightarrow> ConsumerProvisioningResult" where
  "activeResult operation = \<lparr>
     cr_consumerId = e_consumerId operation,
     cr_environment = e_environment operation,
     cr_rootFingerprint = e_rootFingerprint operation,
     cr_apiFingerprint = e_apiFingerprint operation,
     cr_apiCertificatePem = e_apiCertificatePem operation \<rparr>"

definition completeEnrollment ::
  "'w services \<Rightarrow> EnrollmentItem \<Rightarrow> ObjectReference \<Rightarrow> string list
     \<Rightarrow> ('w, ConsumerProvisioningResult) app" where
  "completeEnrollment S operation truststore rootFingerprints =
     thenM (sv_transactWrite S (complete_enrollment_actions operation truststore rootFingerprints))
       (ret (activeResult operation))"

definition fail_enrollment_actions :: "EnrollmentItem \<Rightarrow> action list" where
  "fail_enrollment_actions operation =
     [identity_end operation I_FAILED,
      operation_end operation W_FAILED,
      truststore_end operation id]
     @ (if e_operationType operation = ConsumerEnroll
        then [Delete (consumerPk (e_consumerId operation), ''PROFILE'')
                (\<lambda>i. case i of None \<Rightarrow> False | Some x \<Rightarrow> consumer_sat (\<lambda>c. cn_status c = C_PENDING) x)]
        else [])"

definition failEnrollment :: "'w services \<Rightarrow> EnrollmentItem \<Rightarrow> ('w, unit) app" where
  "failEnrollment S operation = sv_transactWrite S (fail_enrollment_actions operation)"

section \<open>Further API identities\<close>

definition rotate_request :: "string \<Rightarrow> ApiIdentity \<Rightarrow> string \<Rightarrow> IdempotencyItem" where
  "rotate_request requestDigest identity rootFingerprint = \<lparr>
     id_requestDigest = Some requestDigest, id_operationId = None,
     id_operationType = Some ApiRotate,
     id_consumerId = Some (ai_consumerId identity),
     id_environment = Some (ai_environment identity),
     id_rootFingerprint = Some rootFingerprint,
     id_apiFingerprint = Some (ai_fingerprint identity),
     id_status = Some ID_READY, id_expiresAt = None, id_terminalAuditEventId = None \<rparr>"

definition create_identity_actions ::
  "Actor \<Rightarrow> string \<Rightarrow> string \<Rightarrow> ApiIdentity \<Rightarrow> string \<Rightarrow> action list" where
  "create_identity_actions actor idempotencyKey requestDigest identity rootFingerprint =
     [Put (idempotencyPk actor, requestSk idempotencyKey)
        (IdempotencyIt (rotate_request requestDigest identity rootFingerprint)) attribute_not_exists_pk,
      Put (identityPk (ai_fingerprint identity), ''PROFILE'')
        (IdentityIt (identity_record identity (ai_consumerId identity) I_ACTIVE)) attribute_not_exists_pk]"

definition createApiIdentity ::
  "'w services \<Rightarrow> Actor \<Rightarrow> string \<Rightarrow> string \<Rightarrow> ApiIdentity \<Rightarrow> string \<Rightarrow> ('w, unit) app" where
  "createApiIdentity S actor idempotencyKey requestDigest identity rootFingerprint =
     catchM (sv_transactWrite S
         (create_identity_actions actor idempotencyKey requestDigest identity rootFingerprint))
       (\<lambda>error. raise (conflict (''Could not create consumer API identity: '' @ errorMessage error)))"

definition revoke_request :: "string \<Rightarrow> string \<Rightarrow> string \<Rightarrow> IdempotencyItem" where
  "revoke_request requestDigest consumerId fingerprint = \<lparr>
     id_requestDigest = Some requestDigest, id_operationId = None,
     id_operationType = Some ApiRevoke, id_consumerId = Some consumerId,
     id_environment = None, id_rootFingerprint = None,
     id_apiFingerprint = Some fingerprint,
     id_status = Some ID_READY, id_expiresAt = None, id_terminalAuditEventId = None \<rparr>"

definition revoke_identity_actions ::
  "Actor \<Rightarrow> string \<Rightarrow> string \<Rightarrow> string \<Rightarrow> string \<Rightarrow> action list" where
  "revoke_identity_actions actor idempotencyKey requestDigest consumerId fingerprint =
     [Put (idempotencyPk actor, requestSk idempotencyKey)
        (IdempotencyIt (revoke_request requestDigest consumerId fingerprint)) attribute_not_exists_pk,
      Update (identityPk fingerprint, ''PROFILE'')
        (on_identity (\<lambda>x. x\<lparr>i_status := I_REVOKED\<rparr>))
        (identity_sat (\<lambda>x. i_consumerId x = consumerId \<and> i_kind x = K_api \<and> i_status x = I_ACTIVE))]"

definition revokeApiIdentity ::
  "'w services \<Rightarrow> Actor \<Rightarrow> string \<Rightarrow> string \<Rightarrow> string \<Rightarrow> string \<Rightarrow> ('w, unit) app" where
  "revokeApiIdentity S actor idempotencyKey requestDigest consumerId fingerprint =
     catchM (sv_transactWrite S
         (revoke_identity_actions actor idempotencyKey requestDigest consumerId fingerprint))
       (\<lambda>error. raise (conflict (''Could not revoke consumer API identity: '' @ errorMessage error)))"

end
