(* ===== verification/Enrollment_Protocol.thy ===== *)
theory Enrollment_Protocol
  imports Enrollment
begin

text \<open>
  The life of consumers and identities: the transactions of theory Enrollment in any order and from
  any number of processes, which work on enrollment records they may have read long before. The
  table is viewed as three maps, of operations, identities and consumers; each transaction is an
  update of these maps, and the invariant speaks of the maps alone.
\<close>

section \<open>Views of the table\<close>

definition enrollment_of :: "table \<Rightarrow> string \<Rightarrow> EnrollmentItem option" where
  "enrollment_of t operationId = as_enrollment (t (enrollmentPk operationId, ''STATE''))"

definition identity_of :: "table \<Rightarrow> string \<Rightarrow> IdentityRecord option" where
  "identity_of t fingerprint = as_identity (t (identityPk fingerprint, ''PROFILE''))"

definition truststore_of :: "table \<Rightarrow> TruststoreStateRecord option" where
  "truststore_of t = as_truststore_state (t truststoreStateKey)"

lemma view_defs:
  "enrollment_of t = (\<lambda>x. as_enrollment (t (enrollmentPk x, ''STATE'')))"
  "identity_of t = (\<lambda>x. as_identity (t (identityPk x, ''PROFILE'')))"
  "consumer_of t = (\<lambda>x. as_consumer (t (consumerPk x, ''PROFILE'')))"
  by (auto simp: enrollment_of_def identity_of_def consumer_of_def)

lemma entity_pk_inject [simp]:
  "enrollmentPk a = enrollmentPk b \<longleftrightarrow> a = b" "identityPk a = identityPk b \<longleftrightarrow> a = b"
  by (simp_all add: key_defs)

lemma entity_pk_disjoint [simp]:
  "enrollmentPk a \<noteq> identityPk b" "identityPk b \<noteq> enrollmentPk a"
  "enrollmentPk a \<noteq> consumerPk b" "consumerPk b \<noteq> enrollmentPk a"
  "identityPk a \<noteq> consumerPk b" "consumerPk b \<noteq> identityPk a"
  "enrollmentPk a \<noteq> idempotencyPk c" "idempotencyPk c \<noteq> enrollmentPk a"
  "identityPk a \<noteq> idempotencyPk c" "idempotencyPk c \<noteq> identityPk a"
  "(enrollmentPk a, s) \<noteq> truststoreStateKey" "(identityPk a, s) \<noteq> truststoreStateKey"
  "(consumerPk a, s) \<noteq> truststoreStateKey" "(idempotencyPk c, s) \<noteq> truststoreStateKey"
  "truststoreStateKey \<noteq> (enrollmentPk a, s)" "truststoreStateKey \<noteq> (identityPk a, s)"
  "truststoreStateKey \<noteq> (consumerPk a, s)" "truststoreStateKey \<noteq> (idempotencyPk c, s)"
  by (simp_all add: key_defs truststoreStateKey_def)

text \<open>
  One view at a time: what a committed transaction does to the item of a key it names, and that it
  leaves the others.
\<close>

lemma view_other:
  assumes "committed acts t t'" "\<And>x. (pk x, sk) \<notin> action_key ` set acts"
  shows "(\<lambda>x. as (t' (pk x, sk))) = (\<lambda>x. as (t (pk x, sk)))"
  using committed_other [OF assms(1) assms(2)] by simp

lemma view_change:
  assumes "committed acts t t'" "a \<in> set acts" "action_key a = (pk x, sk)"
    and "\<And>y. (pk y, sk) \<in> action_key ` set acts \<Longrightarrow> y = x"
  shows "(\<lambda>y. as (t' (pk y, sk))) = (\<lambda>y. as (t (pk y, sk)))(x := as (action_result a (t (pk x, sk))))"
proof
  fix y
  show "as (t' (pk y, sk)) = ((\<lambda>y. as (t (pk y, sk)))(x := as (action_result a (t (pk x, sk))))) y"
  proof (cases "y = x")
    case True
    with committed_at(2) [OF assms(1,2)] assms(3) show ?thesis by simp
  next
    case False
    with assms(4) have "(pk y, sk) \<notin> action_key ` set acts" by blast
    from committed_other [OF assms(1) this] False show ?thesis by simp
  qed
qed

lemma put_view:
  assumes "committed acts t t'" "Put (pk x, sk) i attribute_not_exists_pk \<in> set acts"
    and "\<And>y. (pk y, sk) \<in> action_key ` set acts \<Longrightarrow> y = x"
  shows "t (pk x, sk) = None" "(\<lambda>y. as (t' (pk y, sk))) = (\<lambda>y. as (t (pk y, sk)))(x := as (Some i))"
  using committed_Put(1) [OF assms(1,2)] view_change [OF assms(1,2) _ assms(3), where as = as]
  by simp_all

lemma update_view:
  assumes "committed acts t t'" "Update (pk x, sk) u c \<in> set acts"
    and "\<And>y. (pk y, sk) \<in> action_key ` set acts \<Longrightarrow> y = x"
  shows "\<exists>i. t (pk x, sk) = Some i \<and> c i
    \<and> (\<lambda>y. as (t' (pk y, sk))) = (\<lambda>y. as (t (pk y, sk)))(x := as (Some (u i)))"
proof -
  obtain i where "t (pk x, sk) = Some i" "c i" by (rule committed_Update [OF assms(1,2)])
  then show ?thesis using view_change [OF assms(1,2) _ assms(3), where as = as] by simp
qed

lemma start_views:
  assumes "committed (start_actions e) t t'"
  defines "f \<equiv> ai_fingerprint (pe_apiIdentity e)"
  shows "enrollment_of t (pe_operationId e) = None" "identity_of t f = None"
    "consumer_of t (pe_consumerId e) = None"
    "enrollment_of t' = (enrollment_of t)(pe_operationId e \<mapsto> start_operation e)"
    "identity_of t' = (identity_of t)(f \<mapsto> identity_record (pe_apiIdentity e) (pe_consumerId e) I_PENDING)"
    "consumer_of t' = (consumer_of t)(pe_consumerId e \<mapsto> start_consumer e)"
proof -
  note v = put_view [OF assms(1)]
  have "t (enrollmentPk (pe_operationId e), ''STATE'') = None"
    and E: "(\<lambda>y. as_enrollment (t' (enrollmentPk y, ''STATE'')))
      = (\<lambda>y. as_enrollment (t (enrollmentPk y, ''STATE'')))(pe_operationId e \<mapsto> start_operation e)"
    by (rule v(1) [where i = "EnrollmentIt (start_operation e)"]; force simp: start_actions_def)
      (rule v(2) [where as = as_enrollment, where i = "EnrollmentIt (start_operation e)", simplified];
        force simp: start_actions_def)
  then show "enrollment_of t (pe_operationId e) = None"
    "enrollment_of t' = (enrollment_of t)(pe_operationId e \<mapsto> start_operation e)"
    by (simp_all add: view_defs)
  let ?i = "identity_record (pe_apiIdentity e) (pe_consumerId e) I_PENDING"
  have "t (identityPk f, ''PROFILE'') = None"
    and "(\<lambda>y. as_identity (t' (identityPk y, ''PROFILE'')))
      = (\<lambda>y. as_identity (t (identityPk y, ''PROFILE'')))(f \<mapsto> ?i)"
    by (rule v(1) [where i = "IdentityIt ?i"]; force simp: start_actions_def f_def)
      (rule v(2) [where as = as_identity, where i = "IdentityIt ?i", simplified];
        force simp: start_actions_def f_def)
  then show "identity_of t f = None" "identity_of t' = (identity_of t)(f \<mapsto> ?i)"
    by (simp_all add: view_defs)
  have "t (consumerPk (pe_consumerId e), ''PROFILE'') = None"
    and "(\<lambda>y. as_consumer (t' (consumerPk y, ''PROFILE'')))
      = (\<lambda>y. as_consumer (t (consumerPk y, ''PROFILE'')))(pe_consumerId e \<mapsto> start_consumer e)"
    by (rule v(1) [where i = "ConsumerIt (start_consumer e)"]; force simp: start_actions_def)
      (rule v(2) [where as = as_consumer, where i = "ConsumerIt (start_consumer e)", simplified];
        force simp: start_actions_def)
  then show "consumer_of t (pe_consumerId e) = None"
    "consumer_of t' = (consumer_of t)(pe_consumerId e \<mapsto> start_consumer e)"
    by (simp_all add: view_defs)
qed

text \<open>The three updates that end an enrollment, before what they do to the consumer.\<close>

lemma end_views:
  assumes com: "committed ([identity_end e st, operation_end e ws, truststore_end e ch] @ rest) t t'"
    and rest: "\<And>a. a \<in> set rest \<Longrightarrow> \<exists>c. action_key a = (consumerPk c, ''PROFILE'')"
  shows "\<exists>x. identity_of t (e_apiFingerprint e) = Some x \<and> i_status x = I_PENDING
      \<and> i_consumerId x = e_consumerId e
      \<and> identity_of t' = (identity_of t)(e_apiFingerprint e \<mapsto> x\<lparr>i_status := st\<rparr>)"
    and "\<exists>y. enrollment_of t (e_operationId e) = Some y \<and> e_workflowState y = W_PREPARED
      \<and> enrollment_of t' = (enrollment_of t)(e_operationId e
          \<mapsto> y\<lparr>e_workflowState := ws, e_workflowDue := None\<rparr>)"
    and "\<exists>z. truststore_of t = Some z \<and> ts_leaseOwner z = Some (e_operationId e)
      \<and> truststore_of t' = Some (release_truststore (ch z))"
proof -
  let ?acts = "[identity_end e st, operation_end e ws, truststore_end e ch] @ rest"
  have no: "(identityPk y, s) \<notin> action_key ` set rest" "(enrollmentPk y, s) \<notin> action_key ` set rest" for y s
    using rest by (fastforce simp: image_iff)+
  have "\<exists>i. t (identityPk (e_apiFingerprint e), ''PROFILE'') = Some i
      \<and> identity_sat (\<lambda>x. i_status x = I_PENDING \<and> i_consumerId x = e_consumerId e) i
      \<and> (\<lambda>y. as_identity (t' (identityPk y, ''PROFILE''))) = (\<lambda>y. as_identity (t (identityPk y, ''PROFILE'')))
        (e_apiFingerprint e := as_identity (Some (on_identity (\<lambda>x. x\<lparr>i_status := st\<rparr>) i)))"
    by (rule update_view [OF com, where as = as_identity])
      (use no in \<open>auto simp: identity_end_def operation_end_def truststore_end_def\<close>)
  then show "\<exists>x. identity_of t (e_apiFingerprint e) = Some x \<and> i_status x = I_PENDING
      \<and> i_consumerId x = e_consumerId e
      \<and> identity_of t' = (identity_of t)(e_apiFingerprint e \<mapsto> x\<lparr>i_status := st\<rparr>)"
    unfolding view_defs by (auto dest!: entity_satD)
  have "\<exists>i. t (enrollmentPk (e_operationId e), ''STATE'') = Some i
      \<and> enrollment_sat (\<lambda>x. e_workflowState x = W_PREPARED) i
      \<and> (\<lambda>y. as_enrollment (t' (enrollmentPk y, ''STATE''))) = (\<lambda>y. as_enrollment (t (enrollmentPk y, ''STATE'')))
        (e_operationId e := as_enrollment (Some (on_enrollment
           (\<lambda>x. x\<lparr>e_workflowState := ws, e_workflowDue := None\<rparr>) i)))"
    by (rule update_view [OF com, where as = as_enrollment])
      (use no in \<open>auto simp: identity_end_def operation_end_def truststore_end_def\<close>)
  then show "\<exists>y. enrollment_of t (e_operationId e) = Some y \<and> e_workflowState y = W_PREPARED
      \<and> enrollment_of t' = (enrollment_of t)(e_operationId e
          \<mapsto> y\<lparr>e_workflowState := ws, e_workflowDue := None\<rparr>)"
    unfolding view_defs by (auto dest!: entity_satD)
  have "Update truststoreStateKey (on_truststore (\<lambda>s. release_truststore (ch s)))
      (truststore_sat (\<lambda>s. ts_leaseOwner s = Some (e_operationId e))) \<in> set ?acts"
    by (simp add: truststore_end_def)
  from committed_Update [OF com this] obtain i where
    "t truststoreStateKey = Some i" "truststore_sat (\<lambda>s. ts_leaseOwner s = Some (e_operationId e)) i"
    "t' truststoreStateKey = Some (on_truststore (\<lambda>s. release_truststore (ch s)) i)" by metis
  then show "\<exists>z. truststore_of t = Some z \<and> ts_leaseOwner z = Some (e_operationId e)
      \<and> truststore_of t' = Some (release_truststore (ch z))"
    unfolding truststore_of_def by (auto dest!: entity_satD)
qed

lemmas action_list_defs = start_actions_def complete_enrollment_actions_def fail_enrollment_actions_def
  identity_end_def operation_end_def truststore_end_def create_identity_actions_def
  revoke_identity_actions_def lease_action_def bundle_action_def

lemma complete_views:
  assumes com: "committed (complete_enrollment_actions e ob roots) t t'"
    and type: "e_operationType e = ConsumerEnroll"
  shows "\<exists>c. consumer_of t (e_consumerId e) = Some c \<and> cn_status c = C_PENDING
      \<and> cn_environment c = e_environment e
      \<and> consumer_of t' = (consumer_of t)(e_consumerId e
          \<mapsto> c\<lparr>cn_status := C_ACTIVE, cn_pendingEnrollmentOperationId := None\<rparr>)"
proof -
  have "\<exists>i. t (consumerPk (e_consumerId e), ''PROFILE'') = Some i
      \<and> consumer_sat (\<lambda>c. cn_status c = C_PENDING \<and> cn_environment c = e_environment e) i
      \<and> (\<lambda>y. as_consumer (t' (consumerPk y, ''PROFILE''))) = (\<lambda>y. as_consumer (t (consumerPk y, ''PROFILE'')))
        (e_consumerId e := as_consumer (Some (on_consumer
           (\<lambda>c. c\<lparr>cn_status := C_ACTIVE, cn_pendingEnrollmentOperationId := None\<rparr>) i)))"
    by (rule update_view [OF com, where as = as_consumer])
      (use type in \<open>auto simp: action_list_defs\<close>)
  then show ?thesis unfolding view_defs by (auto dest!: entity_satD)
qed

lemma fail_views:
  assumes com: "committed (fail_enrollment_actions e) t t'"
    and type: "e_operationType e = ConsumerEnroll"
  shows "\<exists>c. consumer_of t (e_consumerId e) = Some c \<and> cn_status c = C_PENDING
      \<and> consumer_of t' = (consumer_of t)(e_consumerId e := None)"
proof -
  let ?c = "\<lambda>i. case i of None \<Rightarrow> False | Some x \<Rightarrow> consumer_sat (\<lambda>c. cn_status c = C_PENDING) x"
  let ?a = "Delete (consumerPk (e_consumerId e), ''PROFILE'') ?c"
  have a: "?a \<in> set (fail_enrollment_actions e)" using type by (simp add: fail_enrollment_actions_def)
  have "?c (t (consumerPk (e_consumerId e), ''PROFILE''))" by (rule committed_Delete(1) [OF com a])
  moreover have "(\<lambda>y. as_consumer (t' (consumerPk y, ''PROFILE''))) = (\<lambda>y. as_consumer (t (consumerPk y, ''PROFILE'')))
        (e_consumerId e := as_consumer (action_result ?a (t (consumerPk (e_consumerId e), ''PROFILE''))))"
    by (rule view_change [OF com a]) (use type in \<open>auto simp: action_list_defs\<close>)
  ultimately show ?thesis unfolding view_defs by (auto dest!: entity_satD split: option.splits)
qed

lemma keep_views:
  assumes "committed acts t t'"
  shows "(\<And>y. (enrollmentPk y, ''STATE'') \<notin> action_key ` set acts) \<Longrightarrow> enrollment_of t' = enrollment_of t"
    and "(\<And>y. (identityPk y, ''PROFILE'') \<notin> action_key ` set acts) \<Longrightarrow> identity_of t' = identity_of t"
    and "(\<And>y. (consumerPk y, ''PROFILE'') \<notin> action_key ` set acts) \<Longrightarrow> consumer_of t' = consumer_of t"
    and "truststoreStateKey \<notin> action_key ` set acts \<Longrightarrow> truststore_of t' = truststore_of t"
  using committed_other [OF assms] by (simp_all add: view_defs truststore_of_def)

lemma create_identity_views:
  assumes com: "committed (create_identity_actions actor key digest x root) t t'"
  shows "identity_of t (ai_fingerprint x) = None"
    and "identity_of t' = (identity_of t)(ai_fingerprint x \<mapsto> identity_record x (ai_consumerId x) I_ACTIVE)"
    and "enrollment_of t' = enrollment_of t" "consumer_of t' = consumer_of t"
    "truststore_of t' = truststore_of t"
proof -
  let ?i = "identity_record x (ai_consumerId x) I_ACTIVE"
  have "t (identityPk (ai_fingerprint x), ''PROFILE'') = None"
    and "(\<lambda>y. as_identity (t' (identityPk y, ''PROFILE'')))
      = (\<lambda>y. as_identity (t (identityPk y, ''PROFILE'')))(ai_fingerprint x \<mapsto> ?i)"
    by (rule put_view(1) [OF com, where i = "IdentityIt ?i"]; force simp: action_list_defs)
      (rule put_view(2) [OF com, where as = as_identity, where i = "IdentityIt ?i", simplified];
        force simp: action_list_defs)
  then show "identity_of t (ai_fingerprint x) = None"
    "identity_of t' = (identity_of t)(ai_fingerprint x \<mapsto> ?i)"
    by (simp_all add: view_defs)
qed (rule keep_views [OF com]; auto simp: action_list_defs)+

lemma revoke_identity_views:
  assumes com: "committed (revoke_identity_actions actor key digest c f) t t'"
  shows "\<exists>x. identity_of t f = Some x \<and> i_status x = I_ACTIVE \<and> i_consumerId x = c
      \<and> identity_of t' = (identity_of t)(f \<mapsto> x\<lparr>i_status := I_REVOKED\<rparr>)"
    and "enrollment_of t' = enrollment_of t" "consumer_of t' = consumer_of t"
    "truststore_of t' = truststore_of t"
proof -
  have "\<exists>i. t (identityPk f, ''PROFILE'') = Some i
      \<and> identity_sat (\<lambda>x. i_consumerId x = c \<and> i_kind x = K_api \<and> i_status x = I_ACTIVE) i
      \<and> (\<lambda>y. as_identity (t' (identityPk y, ''PROFILE''))) = (\<lambda>y. as_identity (t (identityPk y, ''PROFILE'')))
        (f := as_identity (Some (on_identity (\<lambda>x. x\<lparr>i_status := I_REVOKED\<rparr>) i)))"
    by (rule update_view [OF com, where as = as_identity]) (auto simp: action_list_defs)
  then show "\<exists>x. identity_of t f = Some x \<and> i_status x = I_ACTIVE \<and> i_consumerId x = c
      \<and> identity_of t' = (identity_of t)(f \<mapsto> x\<lparr>i_status := I_REVOKED\<rparr>)"
    unfolding view_defs by (auto dest!: entity_satD)
qed (rule keep_views [OF com]; auto simp: action_list_defs)+

lemma truststore_step_views:
  assumes "committed [a] t t'" "action_key a = truststoreStateKey"
  shows "enrollment_of t' = enrollment_of t" "identity_of t' = identity_of t"
    "consumer_of t' = consumer_of t"
  by (rule keep_views [OF assms(1)]; use assms(2) in simp)+

section \<open>The step relation\<close>

text \<open>
  The records of the enrollments a process has read are kept with the table: completeEnrollment and
  failEnrollment work on such a record. Rotation and revocation need none. Every other request of the
  server writes no enrollment, no identity, no consumer profile and not the truststore state.
\<close>

record enrollment_world =
  ew_table :: table
  ew_read :: "EnrollmentItem list"

definition enrollment_foreign :: "action \<Rightarrow> bool" where
  "enrollment_foreign a \<longleftrightarrow> (\<forall>x. fst (action_key a) \<noteq> enrollmentPk x) \<and> (\<forall>x. fst (action_key a) \<noteq> identityPk x)
     \<and> (\<forall>x. action_key a \<noteq> (consumerPk x, ''PROFILE'')) \<and> action_key a \<noteq> truststoreStateKey"

definition issued_for :: "PreparedEnrollment \<Rightarrow> bool" where
  "issued_for p \<longleftrightarrow> pe_operationType p = ConsumerEnroll
     \<and> ai_consumerId (pe_apiIdentity p) = pe_consumerId p"

inductive enrollment_step :: "enrollment_world \<Rightarrow> enrollment_world \<Rightarrow> bool" where
  es_start: "issued_for p \<Longrightarrow> committed (start_actions p) (ew_table s) t' \<Longrightarrow>
    enrollment_step s (s\<lparr>ew_table := t'\<rparr>)"
| es_read: "enrollment_of (ew_table s) operationId = Some e \<Longrightarrow>
    enrollment_step s (s\<lparr>ew_read := e # ew_read s\<rparr>)"
| es_lease: "committed [lease_action operationId expiresAt now] (ew_table s) t' \<Longrightarrow>
    enrollment_step s (s\<lparr>ew_table := t'\<rparr>)"
| es_bundle: "committed [bundle_action operationId ob roots] (ew_table s) t' \<Longrightarrow>
    enrollment_step s (s\<lparr>ew_table := t'\<rparr>)"
| es_complete: "e \<in> set (ew_read s) \<Longrightarrow>
    committed (complete_enrollment_actions e ob roots) (ew_table s) t' \<Longrightarrow>
    enrollment_step s (s\<lparr>ew_table := t'\<rparr>)"
| es_fail: "e \<in> set (ew_read s) \<Longrightarrow> committed (fail_enrollment_actions e) (ew_table s) t' \<Longrightarrow>
    enrollment_step s (s\<lparr>ew_table := t'\<rparr>)"
| es_rotate: "committed (create_identity_actions actor key digest x root) (ew_table s) t' \<Longrightarrow>
    enrollment_step s (s\<lparr>ew_table := t'\<rparr>)"
| es_revoke: "committed (revoke_identity_actions actor key digest c f) (ew_table s) t' \<Longrightarrow>
    enrollment_step s (s\<lparr>ew_table := t'\<rparr>)"
| es_other: "(\<forall>a \<in> set acts. enrollment_foreign a) \<Longrightarrow> committed acts (ew_table s) t' \<Longrightarrow>
    enrollment_step s (s\<lparr>ew_table := t'\<rparr>)"

inductive enrollment_reachable :: "enrollment_world \<Rightarrow> bool" where
  er_initial: "\<forall>x. enrollment_of (ew_table s) x = None \<Longrightarrow> \<forall>x. identity_of (ew_table s) x = None \<Longrightarrow>
    \<forall>x. consumer_of (ew_table s) x = None \<Longrightarrow> ew_read s = [] \<Longrightarrow> enrollment_reachable s"
| er_step: "enrollment_reachable s \<Longrightarrow> enrollment_step s s' \<Longrightarrow> enrollment_reachable s'"

lemma other_views:
  assumes "\<forall>a \<in> set acts. enrollment_foreign a" "committed acts t t'"
  shows "enrollment_of t' = enrollment_of t" "identity_of t' = identity_of t"
    "consumer_of t' = consumer_of t"
proof -
  have no: "k \<notin> action_key ` set acts" if "\<And>a. enrollment_foreign a \<Longrightarrow> action_key a \<noteq> k" for k
    using assms(1) that by auto
  have "(enrollmentPk y, ''STATE'') \<notin> action_key ` set acts" "(identityPk y, ''PROFILE'') \<notin> action_key ` set acts"
    "(consumerPk y, ''PROFILE'') \<notin> action_key ` set acts" for y
    by (rule no; auto simp: enrollment_foreign_def)+
  then show "enrollment_of t' = enrollment_of t" "identity_of t' = identity_of t"
    "consumer_of t' = consumer_of t"
    by (simp_all add: keep_views [OF assms(2)])
qed

section \<open>Agreement of operations, identities and consumers\<close>

text \<open>What an enrollment record says forever, and the state it is in.\<close>

definition operation_core :: "EnrollmentItem \<Rightarrow> EnrollmentItem" where
  "operation_core e = e\<lparr>e_workflowState := W_PREPARED, e_workflowDue := None\<rparr>"

definition identity_is :: "(string \<Rightarrow> IdentityRecord option) \<Rightarrow> EnrollmentItem \<Rightarrow> identity_status set \<Rightarrow> bool" where
  "identity_is I e st \<longleftrightarrow> (\<exists>x. I (e_apiFingerprint e) = Some x \<and> i_status x \<in> st
     \<and> i_consumerId x = e_consumerId e)"

definition consumer_is ::
  "(string \<Rightarrow> ConsumerRecord option) \<Rightarrow> EnrollmentItem \<Rightarrow> consumer_status \<Rightarrow> string option \<Rightarrow> bool" where
  "consumer_is C e st pending \<longleftrightarrow> (\<exists>c. C (e_consumerId e) = Some c \<and> cn_status c = st
     \<and> cn_environment c = e_environment e \<and> cn_pendingEnrollmentOperationId c = pending)"

definition state_agrees ::
  "(string \<Rightarrow> IdentityRecord option) \<Rightarrow> (string \<Rightarrow> ConsumerRecord option) \<Rightarrow> EnrollmentItem \<Rightarrow> bool" where
  "state_agrees I C e \<longleftrightarrow> (case e_workflowState e of
       W_PREPARED \<Rightarrow> identity_is I e {I_PENDING} \<and> consumer_is C e C_PENDING (Some (e_operationId e))
     | W_READY \<Rightarrow> identity_is I e {I_ACTIVE, I_REVOKED} \<and> consumer_is C e C_ACTIVE None
     | W_FAILED \<Rightarrow> identity_is I e {I_FAILED}
     | _ \<Rightarrow> False)"

definition maps_agree ::
  "(string \<Rightarrow> EnrollmentItem option) \<Rightarrow> (string \<Rightarrow> IdentityRecord option)
     \<Rightarrow> (string \<Rightarrow> ConsumerRecord option) \<Rightarrow> bool" where
  "maps_agree E I C \<longleftrightarrow>
     (\<forall>p e. E p = Some e \<longrightarrow> e_operationId e = p \<and> e_operationType e = ConsumerEnroll \<and> state_agrees I C e)
     \<and> (\<forall>p q e f. E p = Some e \<longrightarrow> E q = Some f \<longrightarrow> p \<noteq> q \<longrightarrow> e_apiFingerprint e \<noteq> e_apiFingerprint f
          \<and> (e_consumerId e = e_consumerId f \<longrightarrow> e_workflowState e = W_FAILED \<or> e_workflowState f = W_FAILED))
     \<and> (\<forall>c r. C c = Some r \<longrightarrow> (\<exists>p e. E p = Some e \<and> e_consumerId e = c
          \<and> (cn_status r = C_ACTIVE \<and> e_workflowState e = W_READY
               \<or> cn_status r = C_PENDING \<and> e_workflowState e = W_PREPARED)))"

definition reads_agree :: "(string \<Rightarrow> EnrollmentItem option) \<Rightarrow> EnrollmentItem list \<Rightarrow> bool" where
  "reads_agree E rs \<longleftrightarrow> (\<forall>e \<in> set rs. \<exists>e'. E (e_operationId e) = Some e' \<and> operation_core e = operation_core e')"

lemmas agree_defs = state_agrees_def identity_is_def consumer_is_def

lemma maps_agreeD:
  assumes "maps_agree E I C"
  shows "E p = Some e \<Longrightarrow> e_operationId e = p \<and> e_operationType e = ConsumerEnroll \<and> state_agrees I C e"
    and "E p = Some e \<Longrightarrow> E q = Some f \<Longrightarrow> p \<noteq> q \<Longrightarrow> e_apiFingerprint e \<noteq> e_apiFingerprint f
      \<and> (e_consumerId e = e_consumerId f \<longrightarrow> e_workflowState e = W_FAILED \<or> e_workflowState f = W_FAILED)"
    and "C c = Some r \<Longrightarrow> \<exists>p e. E p = Some e \<and> e_consumerId e = c
      \<and> (cn_status r = C_ACTIVE \<and> e_workflowState e = W_READY
         \<or> cn_status r = C_PENDING \<and> e_workflowState e = W_PREPARED)"
  using assms unfolding maps_agree_def by blast+

text \<open>Every operation has an identity; an operation that has not failed has a consumer.\<close>

lemma state_agrees_identity: "state_agrees I C e \<Longrightarrow> I (e_apiFingerprint e) \<noteq> None"
  by (auto simp: agree_defs split: workflow_state.splits)

lemma state_agrees_consumer:
  "state_agrees I C e \<Longrightarrow> e_workflowState e \<noteq> W_FAILED \<Longrightarrow> C (e_consumerId e) \<noteq> None"
  by (auto simp: agree_defs split: workflow_state.splits)

text \<open>An update elsewhere does not matter to an operation.\<close>

lemma state_agrees_cong:
  "I' (e_apiFingerprint e) = I (e_apiFingerprint e) \<Longrightarrow>
   (e_workflowState e \<noteq> W_FAILED \<Longrightarrow> C' (e_consumerId e) = C (e_consumerId e)) \<Longrightarrow>
   state_agrees I' C' e \<longleftrightarrow> state_agrees I C e"
  by (auto simp: agree_defs split: workflow_state.splits)

lemma start_fields [simp]:
  "e_operationId (start_operation p) = pe_operationId p"
  "e_operationType (start_operation p) = pe_operationType p"
  "e_consumerId (start_operation p) = pe_consumerId p"
  "e_environment (start_operation p) = pe_environment p"
  "e_apiFingerprint (start_operation p) = ai_fingerprint (pe_apiIdentity p)"
  "e_workflowState (start_operation p) = W_PREPARED"
  "cn_status (start_consumer p) = C_PENDING" "cn_environment (start_consumer p) = pe_environment p"
  "cn_pendingEnrollmentOperationId (start_consumer p) = Some (pe_operationId p)"
  "i_status (identity_record x c st) = st" "i_consumerId (identity_record x c st) = ai_consumerId x"
  by (simp_all add: start_operation_def start_consumer_def identity_record_def)

lemma agree_start:
  assumes inv: "maps_agree E I C" and p: "issued_for p"
    and new: "E (pe_operationId p) = None" "I (ai_fingerprint (pe_apiIdentity p)) = None"
      "C (pe_consumerId p) = None"
  shows "maps_agree (E(pe_operationId p \<mapsto> start_operation p))
    (I(ai_fingerprint (pe_apiIdentity p) \<mapsto> identity_record (pe_apiIdentity p) (pe_consumerId p) I_PENDING))
    (C(pe_consumerId p \<mapsto> start_consumer p))" (is "maps_agree ?E ?I ?C")
proof -
  have old: "e_apiFingerprint e \<noteq> ai_fingerprint (pe_apiIdentity p)"
    "e_workflowState e \<noteq> W_FAILED \<Longrightarrow> e_consumerId e \<noteq> pe_consumerId p" if "E q = Some e" for q e
    using maps_agreeD(1) [OF inv that] state_agrees_identity state_agrees_consumer new by metis+
  have cong: "state_agrees ?I ?C e \<longleftrightarrow> state_agrees I C e" if "E q = Some e" for q e
    by (rule state_agrees_cong) (use old [OF that] in simp_all)
  have here: "state_agrees ?I ?C (start_operation p)"
    using p by (simp add: agree_defs issued_for_def)
  show ?thesis
    unfolding maps_agree_def
  proof (intro conjI allI impI, goal_cases)
    case (1 q e)
    then show ?case using maps_agreeD(1) [OF inv] by (auto split: if_splits)
  next
    case (2 q e)
    then show ?case using maps_agreeD(1) [OF inv] p by (auto simp: issued_for_def split: if_splits)
  next
    case (3 q e)
    then show ?case using maps_agreeD(1) [OF inv] here cong by (auto split: if_splits)
  next
    case (4 q r e f)
    then show ?case using maps_agreeD(2) [OF inv, of q e r f]
      by (auto split: if_splits dest: old(1) old(1) [symmetric])
  next
    case (5 q r e f)
    then show ?case using maps_agreeD(2) [OF inv, of q e r f]
      by (auto split: if_splits dest: old(2) old(2) [symmetric])
  next
    case (6 c r)
    show ?case
    proof (cases "c = pe_consumerId p")
      case True
      with 6 show ?thesis by (intro exI [of _ "pe_operationId p"] exI [of _ "start_operation p"]) auto
    next
      case False
      with 6 maps_agreeD(3) [OF inv, of c r] obtain q e where "E q = Some e" "e_consumerId e = c"
        "cn_status r = C_ACTIVE \<and> e_workflowState e = W_READY
         \<or> cn_status r = C_PENDING \<and> e_workflowState e = W_PREPARED" by auto
      with new(1) show ?thesis by (intro exI [of _ q] exI [of _ e]) auto
    qed
  qed
qed

text \<open>An operation moved to its end, with its identity and its consumer.\<close>

lemma agree_end:
  assumes inv: "maps_agree E I C" and e: "E p = Some e" "e_workflowState e = W_PREPARED"
    and x: "I (e_apiFingerprint e) = Some x"
    and C': "\<And>c. c \<noteq> e_consumerId e \<Longrightarrow> C' c = C c"
    and here: "state_agrees (I(e_apiFingerprint e \<mapsto> x')) C' e'"
    and core: "operation_core e' = operation_core e" and ended: "e_workflowState e' \<noteq> W_PREPARED"
    and backed: "\<And>r. C' (e_consumerId e) = Some r \<Longrightarrow> cn_status r = C_ACTIVE \<and> e_workflowState e' = W_READY"
  shows "maps_agree (E(p \<mapsto> e')) (I(e_apiFingerprint e \<mapsto> x')) C'" (is "maps_agree _ ?I _")
proof -
  have same: "e_operationId e' = e_operationId e" "e_operationType e' = e_operationType e"
    "e_apiFingerprint e' = e_apiFingerprint e" "e_consumerId e' = e_consumerId e"
    using core by (cases e; cases e'; simp add: operation_core_def)+
  note other = maps_agreeD(2) [OF inv]
  have alone: "e_apiFingerprint g \<noteq> e_apiFingerprint e"
    "e_consumerId g = e_consumerId e \<Longrightarrow> e_workflowState g = W_FAILED" if "E r = Some g" "r \<noteq> p" for r g
    using other [OF that(1) e(1) that(2)] e(2) by auto
  have cong: "state_agrees ?I C' f \<longleftrightarrow> state_agrees I C f" if "E q = Some f" "q \<noteq> p" for q f
  proof (rule state_agrees_cong)
    show "?I (e_apiFingerprint f) = I (e_apiFingerprint f)" using other [OF that(1) e(1) that(2)] by simp
    show "C' (e_consumerId f) = C (e_consumerId f)" if "e_workflowState f \<noteq> W_FAILED"
      using other [OF \<open>E q = Some f\<close> e(1) \<open>q \<noteq> p\<close>] that e(2) by (intro C') auto
  qed
  show ?thesis
    unfolding maps_agree_def
  proof (intro conjI allI impI, goal_cases)
    case (1 q f)
    then show ?case using maps_agreeD(1) [OF inv] e same by (auto split: if_splits)
  next
    case (2 q f)
    then show ?case using maps_agreeD(1) [OF inv] e same by (auto split: if_splits)
  next
    case (3 q f)
    then show ?case using maps_agreeD(1) [OF inv] here cong by (auto split: if_splits)
  next
    case (4 q r f g)
    then show ?case using other [of q f r g] same
      by (auto split: if_splits dest: alone alone(1) [symmetric] alone(2) [OF _ _ sym])
  next
    case (5 q r f g)
    then show ?case using other [of q f r g] same
      by (auto split: if_splits dest: alone alone(1) [symmetric] alone(2) [OF _ _ sym])
  next
    case (6 c r)
    show ?case
    proof (cases "c = e_consumerId e")
      case True
      with 6 backed same show ?thesis by (intro exI [of _ p] exI [of _ e']) auto
    next
      case False
      with 6 C' maps_agreeD(3) [OF inv, of c r] obtain q f where f: "E q = Some f" "e_consumerId f = c"
        "cn_status r = C_ACTIVE \<and> e_workflowState f = W_READY
         \<or> cn_status r = C_PENDING \<and> e_workflowState f = W_PREPARED" by auto
      with False e(1) have "q \<noteq> p" by auto
      with f show ?thesis by (intro exI [of _ q] exI [of _ f]) auto
    qed
  qed
qed

lemma agree_identity:
  assumes inv: "maps_agree E I C"
    and "\<And>e. e_apiFingerprint e = f \<Longrightarrow> state_agrees I C e \<Longrightarrow> state_agrees (I(f \<mapsto> x)) C e"
  shows "maps_agree E (I(f \<mapsto> x)) C"
proof -
  have "state_agrees (I(f \<mapsto> x)) C e" if "state_agrees I C e" for e
  proof (cases "e_apiFingerprint e = f")
    case False
    then have "state_agrees (I(f \<mapsto> x)) C e \<longleftrightarrow> state_agrees I C e" by (intro state_agrees_cong) auto
    with that show ?thesis by simp
  qed (use that assms(2) in blast)
  with inv show ?thesis unfolding maps_agree_def by blast
qed

section \<open>The invariant\<close>

definition enrollment_inv :: "enrollment_world \<Rightarrow> bool" where
  "enrollment_inv s \<longleftrightarrow>
     maps_agree (enrollment_of (ew_table s)) (identity_of (ew_table s)) (consumer_of (ew_table s))
     \<and> reads_agree (enrollment_of (ew_table s)) (ew_read s)"

lemma reads_agreeD:
  assumes "reads_agree E rs" "e \<in> set rs" "E (e_operationId e) = Some y"
  shows "operation_core e = operation_core y"
  using assms by (auto simp: reads_agree_def)

lemma core_fields:
  assumes "operation_core e = operation_core y"
  shows "e_operationId y = e_operationId e" "e_operationType y = e_operationType e"
    "e_apiFingerprint y = e_apiFingerprint e" "e_consumerId y = e_consumerId e"
    "e_environment y = e_environment e"
  using assms by (cases e; cases y; simp add: operation_core_def)+

lemma reads_agree_upd:
  assumes "reads_agree E rs" "\<And>y. E p = Some y \<Longrightarrow> operation_core e' = operation_core y"
  shows "reads_agree (E(p \<mapsto> e')) rs"
  unfolding reads_agree_def
proof
  fix e assume "e \<in> set rs"
  with assms(1) obtain e1 where "E (e_operationId e) = Some e1" "operation_core e = operation_core e1"
    unfolding reads_agree_def by blast
  then show "\<exists>e1. (E(p \<mapsto> e')) (e_operationId e) = Some e1 \<and> operation_core e = operation_core e1"
    using assms(2) by auto
qed

lemma inv_start:
  assumes "enrollment_inv s" "issued_for p" "committed (start_actions p) (ew_table s) t'"
  shows "enrollment_inv (s\<lparr>ew_table := t'\<rparr>)"
proof -
  note v = start_views [OF assms(3)]
  have "maps_agree (enrollment_of t') (identity_of t') (consumer_of t')"
    unfolding v(4,5,6) by (rule agree_start) (use assms(1,2) v(1,2,3) in \<open>auto simp: enrollment_inv_def\<close>)
  moreover have "reads_agree (enrollment_of t') (ew_read s)"
    unfolding v(4) by (rule reads_agree_upd) (use assms(1) v(1) in \<open>auto simp: enrollment_inv_def\<close>)
  ultimately show ?thesis by (simp add: enrollment_inv_def)
qed

text \<open>What the record of a process and the stored operation have in common when an enrollment ends.\<close>

lemma inv_ended:
  assumes inv: "enrollment_inv s" and e: "e \<in> set (ew_read s)"
    and y: "enrollment_of (ew_table s) (e_operationId e) = Some y" "e_workflowState y = W_PREPARED"
    and x: "identity_of (ew_table s) (e_apiFingerprint e) = Some x" "i_consumerId x = e_consumerId e"
    and E': "enrollment_of t' = (enrollment_of (ew_table s))(e_operationId e
        \<mapsto> y\<lparr>e_workflowState := ws, e_workflowDue := None\<rparr>)"
    and I': "identity_of t' = (identity_of (ew_table s))(e_apiFingerprint e \<mapsto> x\<lparr>i_status := st\<rparr>)"
    and C': "\<And>c. c \<noteq> e_consumerId e \<Longrightarrow> consumer_of t' c = consumer_of (ew_table s) c"
    and ws: "ws = W_READY \<and> st = I_ACTIVE \<and> (\<exists>r. consumer_of t' (e_consumerId e) = Some r \<and> cn_status r = C_ACTIVE
        \<and> cn_environment r = e_environment e \<and> cn_pendingEnrollmentOperationId r = None)
      \<or> ws = W_FAILED \<and> st = I_FAILED \<and> consumer_of t' (e_consumerId e) = None"
  shows "enrollment_inv (s\<lparr>ew_table := t'\<rparr>)"
proof -
  let ?E = "enrollment_of (ew_table s)" and ?e = "y\<lparr>e_workflowState := ws, e_workflowDue := None\<rparr>"
  have maps: "maps_agree ?E (identity_of (ew_table s)) (consumer_of (ew_table s))"
    and reads: "reads_agree ?E (ew_read s)" using inv by (simp_all add: enrollment_inv_def)
  note f = core_fields [OF reads_agreeD [OF reads e y(1)]]
  have core: "operation_core ?e = operation_core y" by (simp add: operation_core_def)
  have "maps_agree (?E(e_operationId e \<mapsto> ?e)) ((identity_of (ew_table s))(e_apiFingerprint y \<mapsto> x\<lparr>i_status := st\<rparr>))
    (consumer_of t')"
    by (rule agree_end [OF maps y]) (use x C' ws core f in \<open>auto simp: agree_defs\<close>)
  moreover have "reads_agree (?E(e_operationId e \<mapsto> ?e)) (ew_read s)"
    by (rule reads_agree_upd [OF reads]) (use y core in auto)
  ultimately show ?thesis unfolding enrollment_inv_def by (simp add: E' I' f)
qed

lemma inv_complete:
  assumes inv: "enrollment_inv s" and e: "e \<in> set (ew_read s)"
    and com: "committed (complete_enrollment_actions e ob roots) (ew_table s) t'"
  shows "enrollment_inv (s\<lparr>ew_table := t'\<rparr>)"
proof -
  have com': "committed ([identity_end e I_ACTIVE, operation_end e W_READY, truststore_end e (publish_state ob roots)]
      @ drop 3 (complete_enrollment_actions e ob roots)) (ew_table s) t'"
    using com by (simp add: complete_enrollment_actions_def)
  have rest: "\<exists>c. action_key a = (consumerPk c, ''PROFILE'')"
    if "a \<in> set (drop 3 (complete_enrollment_actions e ob roots))" for a
    using that by (auto simp: complete_enrollment_actions_def split: if_splits)
  obtain x where x: "identity_of (ew_table s) (e_apiFingerprint e) = Some x" "i_consumerId x = e_consumerId e"
    "identity_of t' = (identity_of (ew_table s))(e_apiFingerprint e \<mapsto> x\<lparr>i_status := I_ACTIVE\<rparr>)"
    using end_views(1) [OF com' rest] by blast
  obtain y where y: "enrollment_of (ew_table s) (e_operationId e) = Some y" "e_workflowState y = W_PREPARED"
    "enrollment_of t' = (enrollment_of (ew_table s))(e_operationId e
        \<mapsto> y\<lparr>e_workflowState := W_READY, e_workflowDue := None\<rparr>)"
    using end_views(2) [OF com' rest] by blast
  have core: "operation_core e = operation_core y"
    using inv e y(1) reads_agreeD unfolding enrollment_inv_def by blast
  have "e_operationType e = ConsumerEnroll"
    using inv y(1) maps_agreeD(1) core_fields [OF core] unfolding enrollment_inv_def by metis
  from complete_views [OF com this] obtain c where c: "cn_environment c = e_environment e"
    "consumer_of t' = (consumer_of (ew_table s))(e_consumerId e
          \<mapsto> c\<lparr>cn_status := C_ACTIVE, cn_pendingEnrollmentOperationId := None\<rparr>)" by blast
  show ?thesis
    by (rule inv_ended [OF inv e y(1,2) x(1,2) y(3) x(3)]) (use c in auto)
qed

lemma inv_fail:
  assumes inv: "enrollment_inv s" and e: "e \<in> set (ew_read s)"
    and com: "committed (fail_enrollment_actions e) (ew_table s) t'"
  shows "enrollment_inv (s\<lparr>ew_table := t'\<rparr>)"
proof -
  have com': "committed ([identity_end e I_FAILED, operation_end e W_FAILED, truststore_end e id]
      @ drop 3 (fail_enrollment_actions e)) (ew_table s) t'"
    using com by (simp add: fail_enrollment_actions_def)
  have rest: "\<exists>c. action_key a = (consumerPk c, ''PROFILE'')"
    if "a \<in> set (drop 3 (fail_enrollment_actions e))" for a
    using that by (auto simp: fail_enrollment_actions_def split: if_splits)
  obtain x where x: "identity_of (ew_table s) (e_apiFingerprint e) = Some x" "i_consumerId x = e_consumerId e"
    "identity_of t' = (identity_of (ew_table s))(e_apiFingerprint e \<mapsto> x\<lparr>i_status := I_FAILED\<rparr>)"
    using end_views(1) [OF com' rest] by blast
  obtain y where y: "enrollment_of (ew_table s) (e_operationId e) = Some y" "e_workflowState y = W_PREPARED"
    "enrollment_of t' = (enrollment_of (ew_table s))(e_operationId e
        \<mapsto> y\<lparr>e_workflowState := W_FAILED, e_workflowDue := None\<rparr>)"
    using end_views(2) [OF com' rest] by blast
  have core: "operation_core e = operation_core y"
    using inv e y(1) reads_agreeD unfolding enrollment_inv_def by blast
  have "e_operationType e = ConsumerEnroll"
    using inv y(1) maps_agreeD(1) core_fields [OF core] unfolding enrollment_inv_def by metis
  from fail_views [OF com this] have c: "consumer_of t' = (consumer_of (ew_table s))(e_consumerId e := None)"
    by blast
  show ?thesis
    by (rule inv_ended [OF inv e y(1,2) x(1,2) y(3) x(3)]) (use c in auto)
qed

lemma inv_rotate:
  assumes "enrollment_inv s" "committed (create_identity_actions actor key digest x root) (ew_table s) t'"
  shows "enrollment_inv (s\<lparr>ew_table := t'\<rparr>)"
proof -
  note v = create_identity_views [OF assms(2)]
  have "maps_agree (enrollment_of t') (identity_of t') (consumer_of t')"
    unfolding v(2,3,4)
    by (rule agree_identity) (use assms(1) v(1) in \<open>auto simp: enrollment_inv_def dest: state_agrees_identity\<close>)
  with assms(1) v(3) show ?thesis by (simp add: enrollment_inv_def)
qed

lemma inv_revoke:
  assumes "enrollment_inv s" "committed (revoke_identity_actions actor key digest c f) (ew_table s) t'"
  shows "enrollment_inv (s\<lparr>ew_table := t'\<rparr>)"
proof -
  note v = revoke_identity_views [OF assms(2)]
  obtain x where x: "identity_of (ew_table s) f = Some x" "i_status x = I_ACTIVE"
    "identity_of t' = (identity_of (ew_table s))(f \<mapsto> x\<lparr>i_status := I_REVOKED\<rparr>)"
    using v(1) by blast
  have "maps_agree (enrollment_of t') (identity_of t') (consumer_of t')"
    unfolding v(2,3) x(3)
    by (rule agree_identity)
      (use assms(1) x in \<open>auto simp: enrollment_inv_def agree_defs split: workflow_state.splits\<close>)
  with assms(1) v(2) show ?thesis by (simp add: enrollment_inv_def)
qed

lemma inv_same_views:
  assumes "enrollment_inv s" "enrollment_of t' = enrollment_of (ew_table s)"
    "identity_of t' = identity_of (ew_table s)" "consumer_of t' = consumer_of (ew_table s)"
  shows "enrollment_inv (s\<lparr>ew_table := t'\<rparr>)"
  using assms by (simp add: enrollment_inv_def)

lemma enrollment_step_inv:
  assumes "enrollment_step s s'" "enrollment_inv s"
  shows "enrollment_inv s'"
  using assms
proof (induction rule: enrollment_step.induct)
  case (es_start p s t')
  then show ?case by (blast intro: inv_start)
next
  case (es_read s operationId e)
  then have "e_operationId e = operationId" using maps_agreeD(1) unfolding enrollment_inv_def by blast
  with es_read show ?case by (auto simp: enrollment_inv_def reads_agree_def)
next
  case (es_lease operationId expiresAt now s t')
  then show ?case by (intro inv_same_views truststore_step_views [OF es_lease(1)]) (simp_all add: lease_action_def)
next
  case (es_bundle operationId ob roots s t')
  then show ?case by (intro inv_same_views truststore_step_views [OF es_bundle(1)]) (simp_all add: bundle_action_def)
next
  case (es_complete e s ob roots t')
  then show ?case by (blast intro: inv_complete)
next
  case (es_fail e s t')
  then show ?case by (blast intro: inv_fail)
next
  case (es_rotate actor key digest x root s t')
  then show ?case by (blast intro: inv_rotate)
next
  case (es_revoke actor key digest c f s t')
  then show ?case by (blast intro: inv_revoke)
next
  case (es_other acts s t')
  then show ?case by (intro inv_same_views other_views [OF es_other(1,2)])
qed

lemma enrollment_reachable_inv: "enrollment_reachable s \<Longrightarrow> enrollment_inv s"
proof (induction rule: enrollment_reachable.induct)
  case (er_initial s)
  then show ?case by (simp add: enrollment_inv_def maps_agree_def reads_agree_def)
next
  case (er_step s s')
  then show ?case by (blast intro: enrollment_step_inv)
qed

lemma enrollment_steps_reachable:
  assumes "enrollment_step\<^sup>*\<^sup>* s s'" "enrollment_reachable s"
  shows "enrollment_reachable s'"
  using assms by (induction rule: rtranclp_induct) (auto intro: er_step)

section \<open>The status of an identity only moves forward\<close>

definition status_forward :: "identity_status \<Rightarrow> identity_status \<Rightarrow> bool" where
  "status_forward a b \<longleftrightarrow> b = a \<or> a = I_PENDING \<or> a = I_ACTIVE \<and> b = I_REVOKED"

definition identities_forward :: "table \<Rightarrow> table \<Rightarrow> bool" where
  "identities_forward t t' \<longleftrightarrow> (\<forall>f x. identity_of t f = Some x \<longrightarrow>
     (\<exists>x'. identity_of t' f = Some x' \<and> x' = x\<lparr>i_status := i_status x'\<rparr>
        \<and> status_forward (i_status x) (i_status x')))"

lemma identities_forward_refl: "identities_forward t t"
  by (simp add: identities_forward_def status_forward_def)

lemma identities_forward_same: "identity_of t' = identity_of t \<Longrightarrow> identities_forward t t'"
  by (simp add: identities_forward_def status_forward_def)

lemma identities_forward_trans:
  assumes "identities_forward t t'" "identities_forward t' t''"
  shows "identities_forward t t''"
  unfolding identities_forward_def
proof (intro allI impI)
  fix f x assume "identity_of t f = Some x"
  with assms(1) obtain x' where x': "identity_of t' f = Some x'" "x' = x\<lparr>i_status := i_status x'\<rparr>"
    "status_forward (i_status x) (i_status x')" unfolding identities_forward_def by blast
  with assms(2) obtain x'' where x'': "identity_of t'' f = Some x''" "x'' = x'\<lparr>i_status := i_status x''\<rparr>"
    "status_forward (i_status x') (i_status x'')" unfolding identities_forward_def by blast
  have "x'' = x\<lparr>i_status := i_status x''\<rparr>" by (subst x''(2), subst x'(2)) simp
  moreover have "status_forward (i_status x) (i_status x'')"
    using x'(3) x''(3) by (auto simp: status_forward_def)
  ultimately show "\<exists>x'. identity_of t'' f = Some x' \<and> x' = x\<lparr>i_status := i_status x'\<rparr>
      \<and> status_forward (i_status x) (i_status x')" using x''(1) by blast
qed

lemma identities_forward_upd:
  assumes "identity_of t' = (identity_of t)(f \<mapsto> y)"
    and "\<And>x. identity_of t f = Some x \<Longrightarrow> y = x\<lparr>i_status := i_status y\<rparr> \<and> status_forward (i_status x) (i_status y)"
  shows "identities_forward t t'"
  using assms by (auto simp: identities_forward_def status_forward_def)

lemma enrollment_step_forward:
  assumes "enrollment_step s s'"
  shows "identities_forward (ew_table s) (ew_table s')"
  using assms
proof (induction rule: enrollment_step.induct)
  case (es_start p s t')
  note v = start_views [OF es_start(2)]
  show ?case by simp (rule identities_forward_upd [OF v(5)], use v(2) in simp)
next
  case (es_read s operationId e)
  then show ?case by (simp add: identities_forward_refl)
next
  case (es_lease operationId expiresAt now s t')
  then show ?case by (simp add: identities_forward_same truststore_step_views lease_action_def)
next
  case (es_bundle operationId ob roots s t')
  then show ?case by (simp add: identities_forward_same truststore_step_views bundle_action_def)
next
  case (es_complete e s ob roots t')
  have "committed ([identity_end e I_ACTIVE, operation_end e W_READY, truststore_end e (publish_state ob roots)]
      @ drop 3 (complete_enrollment_actions e ob roots)) (ew_table s) t'"
    using es_complete(2) by (simp add: complete_enrollment_actions_def)
  from end_views(1) [OF this] obtain x where "identity_of (ew_table s) (e_apiFingerprint e) = Some x"
    "i_status x = I_PENDING"
    "identity_of t' = (identity_of (ew_table s))(e_apiFingerprint e \<mapsto> x\<lparr>i_status := I_ACTIVE\<rparr>)"
    by (auto simp: complete_enrollment_actions_def split: if_splits)
  then show ?case by (auto intro!: identities_forward_upd simp: status_forward_def)
next
  case (es_fail e s t')
  have "committed ([identity_end e I_FAILED, operation_end e W_FAILED, truststore_end e id]
      @ drop 3 (fail_enrollment_actions e)) (ew_table s) t'"
    using es_fail(2) by (simp add: fail_enrollment_actions_def)
  from end_views(1) [OF this] obtain x where "identity_of (ew_table s) (e_apiFingerprint e) = Some x"
    "i_status x = I_PENDING"
    "identity_of t' = (identity_of (ew_table s))(e_apiFingerprint e \<mapsto> x\<lparr>i_status := I_FAILED\<rparr>)"
    by (auto simp: fail_enrollment_actions_def split: if_splits)
  then show ?case by (auto intro!: identities_forward_upd simp: status_forward_def)
next
  case (es_rotate actor key digest x root s t')
  note v = create_identity_views [OF es_rotate]
  show ?case by simp (rule identities_forward_upd [OF v(2)], use v(1) in simp)
next
  case (es_revoke actor key digest c f s t')
  from revoke_identity_views(1) [OF es_revoke] show ?case
    by (auto intro!: identities_forward_upd simp: status_forward_def)
next
  case (es_other acts s t')
  then show ?case by (simp add: identities_forward_same other_views)
qed

lemma enrollment_steps_forward:
  "enrollment_step\<^sup>*\<^sup>* s s' \<Longrightarrow> identities_forward (ew_table s) (ew_table s')"
  by (induction rule: rtranclp_induct)
    (blast intro: identities_forward_refl identities_forward_trans enrollment_step_forward)+

end
