(* ===== verification/Issuer.thy ===== *)
theory Issuer
  imports Enrollment Config
begin

text \<open>
  Class IssuerService, src/src/services/issuer.ts: the one issuing root of a deployment, whose private
  key is stored sealed under a KMS data key, and the leaf certificates it issues. What node-forge and
  the runtime do (parsing and signing X.509, generating a key pair, AES-GCM over a text) is a record of
  operations; what the code puts into a certificate before it is signed is the record
  CertificateTemplate. A PEM text whose bytes are encrypted is represented by itself.
\<close>

section \<open>The cryptographic library\<close>

text \<open>
  What the code reads of a parsed request: whether its signature verifies, the length of its RSA
  modulus (None for another or no key), its public key and its DER text.
\<close>

record ParsedCsr =
  csr_verifies :: bool
  csr_rsaBits :: "nat option"
  csr_publicKey :: string
  csr_der :: string

record X509 =
  x_raw :: string
  x_validFrom :: timestamp
  x_validTo :: timestamp
  x_publicKey :: string

record RootCertificate =
  rc_notAfter :: timestamp
  rc_subject :: string
  rc_subjectKeyIdentifier :: string

record CertificateTemplate =
  ct_publicKey :: string
  ct_serialNumber :: string
  ct_notBefore :: timestamp
  ct_notAfter :: timestamp
  ct_subject :: string
  ct_issuer :: string
  ct_cA :: bool
  ct_keyUsage :: "string list"
  ct_clientAuth :: bool
  ct_subjectUri :: "string option"
  ct_authorityKeyIdentifier :: "string option"

record 'w pki =
  pki_parseCsr :: "string \<Rightarrow> ParsedCsr option"
  pki_parseX509 :: "string \<Rightarrow> X509 option"
  pki_rootFromPem :: "string \<Rightarrow> RootCertificate option"
  pki_privateKeyFromPem :: "string \<Rightarrow> string option"
  pki_generateKeyPair :: "('w, string \<times> string) app"
  pki_sign :: "CertificateTemplate \<Rightarrow> string \<Rightarrow> string"
  pki_randomBytes :: "nat \<Rightarrow> ('w, nat list) app"
  pki_seal :: "string \<Rightarrow> string \<Rightarrow> kmsContext \<Rightarrow> string \<Rightarrow> string \<times> string"
  pki_open :: "string \<Rightarrow> string \<Rightarrow> kmsContext \<Rightarrow> string \<times> string \<Rightarrow> string option"

section \<open>Certificate requests\<close>

definition issuerEncryptionContext :: kmsContext where
  "issuerEncryptionContext = [(''service'', ''hemlig''), (''purpose'', ''issuer-ca'')]"

definition maximumCsrBytes :: nat where
  "maximumCsrBytes = 32768"

definition rootValidityDays :: int where
  "rootValidityDays = 3650"

definition leafValidityDays :: int where
  "leafValidityDays = 365"

definition utf8_bytes :: "string \<Rightarrow> nat" where
  "utf8_bytes s = sum_list (map (\<lambda>c. if (of_char c :: nat) < 128 then 1 else 2) s)"

text \<open>The number of matches of a literal text in \<open>s.match(/text/g)\<close>, which do not overlap.\<close>

function occurrences :: "string \<Rightarrow> string \<Rightarrow> nat" where
  "occurrences pat s =
     (if pat = [] \<or> s = [] then 0
      else if prefix pat s then 1 + occurrences pat (drop (length pat) s)
      else occurrences pat (tl s))"
  by auto

termination
proof (relation "measure (length \<circ> snd)", goal_cases)
  case (2 pat s)
  then show ?case by (cases pat; cases s) auto
next
  case (3 pat s)
  then show ?case by (cases s) auto
qed simp

declare occurrences.simps [simp del]

definition csrHeader :: string where
  "csrHeader = ''-----BEGIN CERTIFICATE REQUEST-----''"

definition parseAndVerifyCsr :: "'w pki \<Rightarrow> string \<Rightarrow> exn + ParsedCsr" where
  "parseAndVerifyCsr X csrPem =
     (if length csrPem = 0 \<or> utf8_bytes csrPem > maximumCsrBytes \<or> occurrences csrHeader csrPem \<noteq> 1
      then Inl (badRequest ''apiCertificateSigningRequestPem must be one CSR of at most 32 KiB.'')
      else (case pki_parseCsr X csrPem of
          None \<Rightarrow> Inl (badRequest
            ''apiCertificateSigningRequestPem must be a valid signed RSA CSR with a 2048-bit-or-larger key.'')
        | Some csr \<Rightarrow>
            if csr_verifies csr \<and> (case csr_rsaBits csr of None \<Rightarrow> False | Some n \<Rightarrow> 2048 \<le> n) then Inr csr
            else Inl (badRequest
              ''apiCertificateSigningRequestPem must be a valid signed RSA CSR with a 2048-bit-or-larger key.'')))"

definition certificateRequestFingerprint :: "'w services \<Rightarrow> 'w pki \<Rightarrow> string \<Rightarrow> exn + string" where
  "certificateRequestFingerprint S X csrPem =
     (case parseAndVerifyCsr X csrPem of Inl e \<Rightarrow> Inl e | Inr csr \<Rightarrow> Inr (sv_sha256Hex S (csr_der csr)))"

definition certificateRequestMatchesCertificate :: "'w pki \<Rightarrow> string \<Rightarrow> string \<Rightarrow> exn + bool" where
  "certificateRequestMatchesCertificate X csrPem certificatePem =
     (case parseAndVerifyCsr X csrPem of Inl e \<Rightarrow> Inl e
      | Inr csr \<Rightarrow> Inr (case pki_parseX509 X certificatePem of None \<Rightarrow> False
          | Some certificate \<Rightarrow> csr_publicKey csr = x_publicKey certificate))"

section \<open>Serial numbers\<close>

definition hex_digit :: "nat \<Rightarrow> char" where
  "hex_digit n = (if n < 10 then char_of (n + 48) else char_of (n + 87))"

definition hex_byte :: "nat \<Rightarrow> string" where
  "hex_byte b = [hex_digit (b div 16), hex_digit (b mod 16)]"

definition serial_bytes :: "nat list \<Rightarrow> nat list" where
  "serial_bytes bytes =
     (let masked = bytes[0 := (case bytes of [] \<Rightarrow> 0 | first # _ \<Rightarrow> first) mod 128]
      in if list_all (\<lambda>b. b = 0) masked then masked[length masked - 1 := 1] else masked)"

definition randomSerialNumber :: "'w pki \<Rightarrow> ('w, string) app" where
  "randomSerialNumber X =
     bindM (pki_randomBytes X 16) (\<lambda>bytes. ret (concat (map hex_byte (serial_bytes bytes))))"

text \<open>The integer the bytes denote, first byte first, is positive and its sign bit is clear.\<close>

definition bytes_value :: "nat list \<Rightarrow> nat" where
  "bytes_value bytes = foldl (\<lambda>n b. 256 * n + b) 0 bytes"

lemma bytes_value_append: "bytes_value (xs @ [b]) = 256 * bytes_value xs + b"
  by (simp add: bytes_value_def)

lemma bytes_value_pos: "b \<in> set xs \<Longrightarrow> b \<noteq> 0 \<Longrightarrow> 0 < bytes_value xs"
  by (induction xs rule: rev_induct) (auto simp: bytes_value_append)

lemma bytes_value_bound: "(\<And>b. b \<in> set xs \<Longrightarrow> b < 256) \<Longrightarrow> bytes_value xs < 256 ^ length xs"
proof (induction xs rule: rev_induct)
  case (snoc b xs)
  then have "bytes_value xs < 256 ^ length xs" "b < 256" by auto
  then have "256 * bytes_value xs + b < 256 * 256 ^ length xs" by linarith
  then show ?case by (simp add: bytes_value_append)
qed (simp add: bytes_value_def)

lemma bytes_value_Cons: "bytes_value (b # xs) = b * 256 ^ length xs + bytes_value xs"
proof (induction xs rule: rev_induct)
  case (snoc c xs)
  have "bytes_value ((b # xs) @ [c]) = 256 * bytes_value (b # xs) + c" by (rule bytes_value_append)
  with snoc show ?case by (simp add: bytes_value_append algebra_simps)
qed (simp add: bytes_value_def)

lemma serial_positive:
  assumes "length bytes = 16" "\<And>b. b \<in> set bytes \<Longrightarrow> b < 256"
  shows "0 < bytes_value (serial_bytes bytes)" "bytes_value (serial_bytes bytes) < 2 ^ 127"
proof -
  obtain first rest where bytes: "bytes = first # rest" and l: "length rest = 15"
    using assms(1) by (cases bytes) auto
  define masked where "masked = first mod 128 # rest"
  have r: "bytes_value rest < 256 ^ 15" using bytes_value_bound [of rest] assms(2) bytes l by auto
  show "0 < bytes_value (serial_bytes bytes)"
  proof (cases "list_all (\<lambda>b. b = 0) masked")
    case True
    have "1 \<in> set (masked[length masked - 1 := 1])"
      by (rule set_update_memI) (simp add: masked_def)
    with True show ?thesis
      by (auto simp: serial_bytes_def bytes masked_def Let_def intro: bytes_value_pos)
  next
    case False
    then obtain b where "b \<in> set masked" "b \<noteq> 0" by (auto simp: list_all_iff)
    then show ?thesis using False
      by (auto simp: serial_bytes_def bytes masked_def Let_def intro: bytes_value_pos)
  qed
  have top: "b * 256 ^ 15 + n < 2 ^ 127" if "b < 128" "n < 256 ^ 15" for b n :: nat
  proof -
    have "b * 256 ^ 15 + n < (b + 1) * 256 ^ 15" using that(2) by simp
    also have "\<dots> \<le> 128 * 256 ^ 15" using that(1) by (intro mult_right_mono) auto
    finally show ?thesis by simp
  qed
  show "bytes_value (serial_bytes bytes) < 2 ^ 127"
  proof (cases "list_all (\<lambda>b. b = 0) masked")
    case True
    then have "serial_bytes bytes = 0 # rest[14 := 1]" and "rest[14 := 1] \<noteq> []"
      using l by (auto simp: serial_bytes_def bytes masked_def Let_def nth_Cons' list_update_append)
    moreover have "bytes_value (rest[14 := 1]) < 256 ^ length (rest[14 := 1])"
      using True set_update_subset_insert [of rest 14 1]
      by (intro bytes_value_bound) (fastforce simp: masked_def list_all_iff)
    ultimately show ?thesis using l by (simp add: bytes_value_Cons top [of 0, simplified])
  next
    case False
    then have "serial_bytes bytes = masked" by (auto simp: serial_bytes_def bytes masked_def Let_def)
    then show ?thesis using r l top [of "first mod 128"] by (simp add: masked_def bytes_value_Cons)
  qed
qed

section \<open>The sealed private key\<close>

definition encryptPrivateKey :: "'w services \<Rightarrow> 'w pki \<Rightarrow> string \<Rightarrow> ('w, IssuerKeyEnvelope) app" where
  "encryptPrivateKey S X privateKeyPem =
     bindM (sv_generateDataKey S issuerEncryptionContext) (\<lambda>keyResult. (case keyResult of
        (Some key, Some encryptedDataKey) \<Rightarrow>
          bindM (sv_randomIv S) (\<lambda>iv.
            (let sealed = pki_seal X key iv issuerEncryptionContext privateKeyPem
             in ret \<lparr>ik_algorithm = ''AES-256-GCM'', ik_encryptedDataKey = encryptedDataKey,
                     ik_iv = iv, ik_tag = snd sealed, ik_ciphertext = fst sealed\<rparr>))
      | _ \<Rightarrow> raise (serviceUnavailable ''KMS did not return an issuer data key.'')))"

definition decryptPrivateKey :: "'w services \<Rightarrow> 'w pki \<Rightarrow> IssuerKeyEnvelope \<Rightarrow> ('w, string) app" where
  "decryptPrivateKey S X envelope =
     thenM (throwIf (ik_algorithm envelope \<noteq> ''AES-256-GCM'')
       (serviceUnavailable ''The issuer key envelope is not supported.''))
     (bindM (sv_kmsDecrypt S (ik_encryptedDataKey envelope) issuerEncryptionContext) (\<lambda>result.
       (case result of
          None \<Rightarrow> raise (serviceUnavailable ''KMS did not decrypt the issuer data key.'')
        | Some key \<Rightarrow>
            orRaise (pki_open X key (ik_iv envelope) issuerEncryptionContext
                (ik_ciphertext envelope, ik_tag envelope))
              (serviceUnavailable ''The encrypted Hemlig issuing key is invalid.''))))"

section \<open>The issuing root\<close>

definition root_template ::
  "string \<Rightarrow> string \<Rightarrow> string \<Rightarrow> timestamp \<Rightarrow> timestamp \<Rightarrow> CertificateTemplate" where
  "root_template environment publicKey serialNumber notBefore notAfter =
     (let subject = ''Hemlig '' @ environment @ '' Issuing Root''
      in \<lparr>ct_publicKey = publicKey, ct_serialNumber = serialNumber,
          ct_notBefore = notBefore, ct_notAfter = notAfter,
          ct_subject = subject, ct_issuer = subject, ct_cA = True,
          ct_keyUsage = [''digitalSignature'', ''keyCertSign'', ''cRLSign''],
          ct_clientAuth = False, ct_subjectUri = None, ct_authorityKeyIdentifier = None\<rparr>)"

definition invalidCertificate :: exn where
  "invalidCertificate = OtherError ''Error'' ''invalid certificate''"

definition getOrCreateIssuer :: "'w services \<Rightarrow> AppConfig \<Rightarrow> 'w pki \<Rightarrow> ('w, IssuerRecord \<times> bool) app" where
  "getOrCreateIssuer S cfg X =
     bindM (getIssuer S) (\<lambda>existing. (case existing of
        Some issuer \<Rightarrow>
          thenM (ensureIssuerTruststoreRoot S issuer (cf_environmentName cfg)) (ret (issuer, False))
      | None \<Rightarrow>
          bindM (sv_now S) (\<lambda>now.
          bindM (pki_generateKeyPair X) (\<lambda>keys.
          bindM (randomSerialNumber X) (\<lambda>serialNumber.
          bindM (sv_now S) (\<lambda>t1.
          bindM (sv_now S) (\<lambda>t2.
          (let rootCertificatePem = pki_sign X (root_template (cf_environmentName cfg) (fst keys) serialNumber
                 (t1 - 60000) (t2 + rootValidityDays * 24 * 60 * 60 * 1000)) (snd keys)
           in bindM (encryptPrivateKey S X (snd keys)) (\<lambda>encryptedPrivateKey.
              bindM (orRaise (pki_parseX509 X rootCertificatePem) invalidCertificate) (\<lambda>certificate.
              (let issuer = \<lparr>is_rootCertificatePem = rootCertificatePem,
                     is_encryptedPrivateKey = encryptedPrivateKey,
                     is_fingerprint = sv_sha256Hex S (x_raw certificate),
                     is_notBefore = x_validFrom certificate,
                     is_notAfter = x_validTo certificate,
                     is_createdAt = now\<rparr>
               in bindM (createIssuer S issuer (cf_environmentName cfg)) (\<lambda>created.
                  ret (created, is_fingerprint created = is_fingerprint issuer)))))))))))))"

definition issuerFingerprint :: "'w services \<Rightarrow> AppConfig \<Rightarrow> 'w pki \<Rightarrow> ('w, string) app" where
  "issuerFingerprint S cfg X = bindM (getOrCreateIssuer S cfg X) (\<lambda>r. ret (is_fingerprint (fst r)))"

definition ensureIssuer :: "'w services \<Rightarrow> AppConfig \<Rightarrow> 'w pki \<Rightarrow> ('w, IssuerRecord \<times> bool) app" where
  "ensureIssuer S cfg X = getOrCreateIssuer S cfg X"

section \<open>Leaf certificates\<close>

definition leaf_template ::
  "RootCertificate \<Rightarrow> ParsedCsr \<Rightarrow> string \<Rightarrow> string \<Rightarrow> string \<Rightarrow> timestamp \<Rightarrow> timestamp \<Rightarrow> CertificateTemplate" where
  "leaf_template root csr consumerId subjectUri serialNumber notBefore desiredExpiry = \<lparr>
     ct_publicKey = csr_publicKey csr,
     ct_serialNumber = serialNumber,
     ct_notBefore = notBefore,
     ct_notAfter = (if rc_notAfter root < desiredExpiry then rc_notAfter root else desiredExpiry),
     ct_subject = ''hemlig-'' @ consumerId,
     ct_issuer = rc_subject root,
     ct_cA = False,
     ct_keyUsage = [''digitalSignature'', ''keyEncipherment''],
     ct_clientAuth = True,
     ct_subjectUri = Some subjectUri,
     ct_authorityKeyIdentifier = Some (rc_subjectKeyIdentifier root) \<rparr>"

definition issueLeaf ::
  "'w services \<Rightarrow> 'w pki \<Rightarrow> RootCertificate \<Rightarrow> string \<Rightarrow> ParsedCsr \<Rightarrow> string \<Rightarrow> string \<Rightarrow> ('w, string) app" where
  "issueLeaf S X root privateKey csr consumerId subjectUri =
     bindM (randomSerialNumber X) (\<lambda>serialNumber.
     bindM (sv_now S) (\<lambda>t1.
     bindM (sv_now S) (\<lambda>t2.
       ret (pki_sign X (leaf_template root csr consumerId subjectUri serialNumber (t1 - 60000)
              (t2 + leafValidityDays * 24 * 60 * 60 * 1000)) privateKey))))"

record IssuedApiIdentity =
  ia_rootFingerprint :: string
  ia_subjectUri :: string
  ia_apiIdentity :: ApiIdentity

definition issueApiIdentity ::
  "'w services \<Rightarrow> AppConfig \<Rightarrow> 'w pki \<Rightarrow> string \<Rightarrow> string \<Rightarrow> string \<Rightarrow> ('w, IssuedApiIdentity) app" where
  "issueApiIdentity S cfg X consumerId environment csrPem =
     bindM (liftE (parseAndVerifyCsr X csrPem)) (\<lambda>csr.
     bindM (getOrCreateIssuer S cfg X) (\<lambda>r.
     (let issuer = fst r
      in bindM (decryptPrivateKey S X (is_encryptedPrivateKey issuer)) (\<lambda>privateKeyPem.
         catchM
           (bindM (orRaise (pki_rootFromPem X (is_rootCertificatePem issuer)) invalidCertificate) (\<lambda>root.
            bindM (orRaise (pki_privateKeyFromPem X privateKeyPem) invalidCertificate) (\<lambda>privateKey.
            (let subjectUri = ''spiffe://hemlig/consumer/'' @ consumerId
             in bindM (issueLeaf S X root privateKey csr consumerId subjectUri) (\<lambda>certificatePem.
                bindM (orRaise (pki_parseX509 X certificatePem) invalidCertificate) (\<lambda>certificate.
                ret \<lparr>ia_rootFingerprint = is_fingerprint issuer,
                     ia_subjectUri = subjectUri,
                     ia_apiIdentity = \<lparr>ai_fingerprint = sv_sha256Hex S (x_raw certificate),
                       ai_consumerId = consumerId,
                       ai_environment = environment,
                       ai_kind = K_api,
                       ai_notBefore = x_validFrom certificate,
                       ai_notAfter = x_validTo certificate,
                       ai_certificatePem = certificatePem\<rparr>\<rparr>))))))
           (\<lambda>error. raise (serviceUnavailable ''Could not issue the consumer API certificate.''))))))"

section \<open>What is issued\<close>

text \<open>
  The library: a sealed text opens to itself, signing and parsing agree on the fields of a
  certificate, and no operation touches the control table.
\<close>

locale certificate_library =
  fixes X :: "'w pki" and table :: "'w \<Rightarrow> table"
  assumes generateKeyPair_keeps: "keeps table (pki_generateKeyPair X)"
    and randomBytes_keeps: "keeps table (pki_randomBytes X n)"
    and open_sealed: "pki_open X key iv aad (pki_seal X key iv aad text) = Some text"
    and parse_signed: "pki_parseX509 X (pki_sign X template k) = Some certificate \<Longrightarrow>
      x_publicKey certificate = ct_publicKey template \<and> x_validTo certificate = ct_notAfter template"

locale issuer_services = dynamo S table + certificate_library X table
  for S :: "'w services" and X :: "'w pki" and table :: "'w \<Rightarrow> table"
begin

lemma issueLeaf_template:
  assumes "issueLeaf S X root k csr consumerId subjectUri w = (Inr pem, w')"
  shows "\<exists>serialNumber t1 t2. pem = pki_sign X (leaf_template root csr consumerId subjectUri serialNumber t1 t2) k"
  using assms unfolding issueLeaf_def bindM_ok by auto

text \<open>
  A leaf is issued for the key of a verified request, to the consumer asked for, and does not
  outlive the root.
\<close>

lemma issueApiIdentity_ok:
  assumes "issueApiIdentity S cfg X consumerId environment csrPem w = (Inr issued, w')"
  shows "ai_consumerId (ia_apiIdentity issued) = consumerId"
    and "ai_environment (ia_apiIdentity issued) = environment"
    and "\<exists>csr issuer b w1 root certificate. parseAndVerifyCsr X csrPem = Inr csr
      \<and> getOrCreateIssuer S cfg X w = (Inr (issuer, b), w1) \<and> ia_rootFingerprint issued = is_fingerprint issuer
      \<and> pki_rootFromPem X (is_rootCertificatePem issuer) = Some root
      \<and> pki_parseX509 X (ai_certificatePem (ia_apiIdentity issued)) = Some certificate
      \<and> x_publicKey certificate = csr_publicKey csr \<and> ai_notAfter (ia_apiIdentity issued) = x_validTo certificate
      \<and> x_validTo certificate \<le> rc_notAfter root"
proof -
  obtain csr r w0 k w1 w2 where csr: "parseAndVerifyCsr X csrPem = Inr csr"
    and got: "getOrCreateIssuer S cfg X w = (Inr r, w0)"
    and run: "(catchM
           (bindM (orRaise (pki_rootFromPem X (is_rootCertificatePem (fst r))) invalidCertificate) (\<lambda>root.
            bindM (orRaise (pki_privateKeyFromPem X k) invalidCertificate) (\<lambda>privateKey.
            (let subjectUri = ''spiffe://hemlig/consumer/'' @ consumerId
             in bindM (issueLeaf S X root privateKey csr consumerId subjectUri) (\<lambda>certificatePem.
                bindM (orRaise (pki_parseX509 X certificatePem) invalidCertificate) (\<lambda>certificate.
                ret \<lparr>ia_rootFingerprint = is_fingerprint (fst r),
                     ia_subjectUri = subjectUri,
                     ia_apiIdentity = \<lparr>ai_fingerprint = sv_sha256Hex S (x_raw certificate),
                       ai_consumerId = consumerId,
                       ai_environment = environment,
                       ai_kind = K_api,
                       ai_notBefore = x_validFrom certificate,
                       ai_notAfter = x_validTo certificate,
                       ai_certificatePem = certificatePem\<rparr>\<rparr>))))))
           (\<lambda>error. raise (serviceUnavailable ''Could not issue the consumer API certificate.''))) w1 = (Inr issued, w2)"
    using assms unfolding issueApiIdentity_def bindM_ok Let_def by auto
  then obtain root privateKey pem certificate w3 w4 where
    leaf: "issueLeaf S X root privateKey csr consumerId (''spiffe://hemlig/consumer/'' @ consumerId) w3 = (Inr pem, w4)"
    and cert: "pki_parseX509 X pem = Some certificate"
    and root: "pki_rootFromPem X (is_rootCertificatePem (fst r)) = Some root"
    and issued: "issued = \<lparr>ia_rootFingerprint = is_fingerprint (fst r),
                     ia_subjectUri = ''spiffe://hemlig/consumer/'' @ consumerId,
                     ia_apiIdentity = \<lparr>ai_fingerprint = sv_sha256Hex S (x_raw certificate),
                       ai_consumerId = consumerId,
                       ai_environment = environment,
                       ai_kind = K_api,
                       ai_notBefore = x_validFrom certificate,
                       ai_notAfter = x_validTo certificate,
                       ai_certificatePem = pem\<rparr>\<rparr>"
    unfolding catchM_ok bindM_ok Let_def orRaise_ok by auto
  from issueLeaf_template [OF leaf] obtain serialNumber t1 t2 where
    "pem = pki_sign X (leaf_template root csr consumerId (''spiffe://hemlig/consumer/'' @ consumerId)
       serialNumber t1 t2) privateKey" by blast
  from parse_signed [OF cert [unfolded this]] have "x_publicKey certificate = csr_publicKey csr"
    "x_validTo certificate \<le> rc_notAfter root" by (auto simp: leaf_template_def)
  with csr cert got root show "\<exists>csr issuer b w1 root certificate. parseAndVerifyCsr X csrPem = Inr csr
      \<and> getOrCreateIssuer S cfg X w = (Inr (issuer, b), w1) \<and> ia_rootFingerprint issued = is_fingerprint issuer
      \<and> pki_rootFromPem X (is_rootCertificatePem issuer) = Some root
      \<and> pki_parseX509 X (ai_certificatePem (ia_apiIdentity issued)) = Some certificate
      \<and> x_publicKey certificate = csr_publicKey csr \<and> ai_notAfter (ia_apiIdentity issued) = x_validTo certificate
      \<and> x_validTo certificate \<le> rc_notAfter root"
    unfolding issued by (cases r) auto
  show "ai_consumerId (ia_apiIdentity issued) = consumerId" "ai_environment (ia_apiIdentity issued) = environment"
    unfolding issued by simp_all
qed

end

text \<open>The private key survives sealing: what decryptPrivateKey gives back is the key encryptPrivateKey sealed.\<close>

locale issuer_keys = issuer_services S X table + envelope_service S wraps
  for S :: "'w services" and X :: "'w pki" and table :: "'w \<Rightarrow> table"
    and wraps :: "'w \<Rightarrow> string \<Rightarrow> kmsContext \<Rightarrow> string \<Rightarrow> bool"
begin

lemma private_key_roundtrip:
  assumes "encryptPrivateKey S X key w = (Inr envelope, w1)" "wraps w2 = wraps w1"
    and "decryptPrivateKey S X envelope w2 = (r, w3)" "r = Inr key'"
  shows "key' = key"
proof -
  obtain pk blob iv w0 where gen: "sv_generateDataKey S issuerEncryptionContext w = (Inr (Some pk, Some blob), w0)"
    and iv: "sv_randomIv S w0 = (Inr iv, w1)"
    and e: "envelope = (let sealed = pki_seal X pk iv issuerEncryptionContext key
             in \<lparr>ik_algorithm = ''AES-256-GCM'', ik_encryptedDataKey = blob,
                     ik_iv = iv, ik_tag = snd sealed, ik_ciphertext = fst sealed\<rparr>)"
  proof -
    obtain a b w0 where g: "sv_generateDataKey S issuerEncryptionContext w = (Inr (a, b), w0)"
      and r: "(case (a, b) of (Some key', Some encryptedDataKey) \<Rightarrow>
          bindM (sv_randomIv S) (\<lambda>iv.
            (let sealed = pki_seal X key' iv issuerEncryptionContext key
             in ret \<lparr>ik_algorithm = ''AES-256-GCM'', ik_encryptedDataKey = encryptedDataKey,
                     ik_iv = iv, ik_tag = snd sealed, ik_ciphertext = fst sealed\<rparr>))
        | _ \<Rightarrow> raise (serviceUnavailable ''KMS did not return an issuer data key.'')) w0 = (Inr envelope, w1)"
      using assms(1) unfolding encryptPrivateKey_def bindM_ok by auto
    from r obtain pk blob where ab: "a = Some pk" "b = Some blob" by (cases a; cases b) auto
    from r [unfolded ab] obtain iv where "sv_randomIv S w0 = (Inr iv, w1)"
      "envelope = (let sealed = pki_seal X pk iv issuerEncryptionContext key
             in \<lparr>ik_algorithm = ''AES-256-GCM'', ik_encryptedDataKey = blob,
                     ik_iv = iv, ik_tag = snd sealed, ik_ciphertext = fst sealed\<rparr>)"
      by (auto simp: bindM_ok Let_def)
    with g ab show thesis by (intro that) simp_all
  qed
  have w1: "wraps w1 blob issuerEncryptionContext pk"
    using generated [OF gen] iv_keeps_wraps [OF iv] by simp
  obtain k w4 where d: "sv_kmsDecrypt S blob issuerEncryptionContext w2 = (Inr (Some k), w4)"
    and o: "pki_open X k iv issuerEncryptionContext (pki_seal X pk iv issuerEncryptionContext key) = Some key'"
    using assms(3,4) unfolding e decryptPrivateKey_def
    by (auto simp: em_ok Let_def split: option.splits)
  from unwrapped [OF d] assms(2) w1 wraps_unique have "k = pk" by metis
  with o open_sealed show ?thesis by simp
qed

end

section \<open>A reference library\<close>

text \<open>A certificate is the text of its fields, a request the header followed by its public key.\<close>

definition show_time :: "timestamp \<Rightarrow> string" where
  "show_time t = (if t < 0 then CHR ''-'' # show_nat (nat (- t)) else CHR ''+'' # show_nat (nat t))"

definition read_time :: "string \<Rightarrow> timestamp option" where
  "read_time s = (case s of [] \<Rightarrow> None
     | c # r \<Rightarrow> map_option (\<lambda>n. if c = CHR ''-'' then - int n else int n) (read_nat r))"

lemma read_show_time [simp]: "read_time (show_time t) = Some t"
  by (simp add: read_time_def show_time_def)

definition ref_certificate :: "CertificateTemplate \<Rightarrow> string \<Rightarrow> string" where
  "ref_certificate template k = enc_strs [ct_publicKey template, show_time (ct_notBefore template),
     show_time (ct_notAfter template), ct_subject template, ct_serialNumber template]"

definition ref_parseX509 :: "string \<Rightarrow> X509 option" where
  "ref_parseX509 pem = (case dec_strs pem of
       Some [k, nb, na, subject, serial] \<Rightarrow>
         (case (read_time nb, read_time na) of
            (Some b, Some a) \<Rightarrow> Some \<lparr>x_raw = pem, x_validFrom = b, x_validTo = a, x_publicKey = k\<rparr>
          | _ \<Rightarrow> None)
     | _ \<Rightarrow> None)"

definition ref_rootFromPem :: "string \<Rightarrow> RootCertificate option" where
  "ref_rootFromPem pem = (case dec_strs pem of
       Some [k, nb, na, subject, serial] \<Rightarrow> map_option (\<lambda>a. \<lparr>rc_notAfter = a, rc_subject = subject,
           rc_subjectKeyIdentifier = k\<rparr>) (read_time na)
     | _ \<Rightarrow> None)"

definition ref_parseCsr :: "string \<Rightarrow> ParsedCsr option" where
  "ref_parseCsr pem = (if prefix csrHeader pem
     then Some \<lparr>csr_verifies = True, csr_rsaBits = Some 2048, csr_publicKey = drop (length csrHeader) pem,
                csr_der = pem\<rparr>
     else None)"

definition ref_pki :: "ref_world pki" where
  "ref_pki = \<lparr>
     pki_parseCsr = ref_parseCsr, pki_parseX509 = ref_parseX509, pki_rootFromPem = ref_rootFromPem,
     pki_privateKeyFromPem = Some,
     pki_generateKeyPair = bindM (ref_fresh ''pair'') (\<lambda>k. ret (k @ ''.pub'', k)),
     pki_sign = ref_certificate, pki_randomBytes = (\<lambda>n. ret (replicate n 7)),
     pki_seal = (\<lambda>key iv aad text. (text, enc_strs (key # iv # flat_context aad))),
     pki_open = (\<lambda>key iv aad ct. if snd ct = enc_strs (key # iv # flat_context aad) then Some (fst ct) else None) \<rparr>"

interpretation ref_issuer: issuer_keys ref_services ref_pki ref_table ref_wraps
proof (unfold_locales, goal_cases)
  case 1
  show ?case by (auto simp: ref_pki_def keeps_def bindM_def ref_fresh_def ref_tick_def ref_table_def)
next
  case (2 n)
  show ?case by (simp add: ref_pki_def keeps_ret)
next
  case (3 key iv aad plain)
  show ?case by (simp add: ref_pki_def)
next
  case (4 template k certificate)
  then show ?case by (auto simp: ref_pki_def ref_certificate_def ref_parseX509_def)
qed

end
