(* ===== verification/Consumers.thy ===== *)
theory Consumers
  imports Issuer Catalog Cursors Envelope
begin

text \<open>
  Class ConsumerService, src/src/services/consumers.ts: the enrollment of a consumer from the request
  to the published truststore and the active identity, its resumption and failure, the recovery,
  rotation and revocation of API identities. The API Gateway and the timer are the record gateway.
\<close>

section \<open>API Gateway\<close>

record MutualTls =
  mt_truststoreUri :: "string option"
  mt_truststoreVersion :: "string option"
  mt_truststoreWarnings :: "string list option"

record DomainName =
  dn_mutualTlsAuthentication :: "MutualTls option"
  dn_configurations :: "string option list option"

record 'w gateway =
  gw_getDomainName :: "string \<Rightarrow> ('w, DomainName) app"
  gw_updateDomainName :: "string \<Rightarrow> string \<Rightarrow> string \<Rightarrow> ('w, unit) app"
  gw_delay :: "nat \<Rightarrow> ('w, unit) app"

definition truststoreMatches :: "DomainName \<Rightarrow> string \<Rightarrow> string \<Rightarrow> bool" where
  "truststoreMatches domain uri versionId = (case dn_mutualTlsAuthentication domain of
       None \<Rightarrow> False
     | Some authentication \<Rightarrow> mt_truststoreUri authentication = Some uri
         \<and> mt_truststoreVersion authentication = Some versionId)"

definition truststore_warnings :: "DomainName \<Rightarrow> nat" where
  "truststore_warnings domain = (case Option.bind (dn_mutualTlsAuthentication domain) mt_truststoreWarnings of
       None \<Rightarrow> 0 | Some ws \<Rightarrow> length ws)"

definition domain_configurations :: "DomainName \<Rightarrow> string option list" where
  "domain_configurations domain = (case dn_configurations domain of None \<Rightarrow> [] | Some cs \<Rightarrow> cs)"

definition truststoreIsAvailable :: "DomainName \<Rightarrow> string \<Rightarrow> string \<Rightarrow> bool" where
  "truststoreIsAvailable domain uri versionId \<longleftrightarrow> truststoreMatches domain uri versionId
     \<and> truststore_warnings domain = 0 \<and> length (domain_configurations domain) > 0
     \<and> list_all (\<lambda>c. c = Some ''AVAILABLE'') (domain_configurations domain)"

definition truststoreUpdateInProgress :: "DomainName \<Rightarrow> bool" where
  "truststoreUpdateInProgress domain \<longleftrightarrow> some_in (\<lambda>c. c = Some ''UPDATING'') (domain_configurations domain)"

definition retryableTruststoreUpdateError :: "exn \<Rightarrow> bool" where
  "retryableTruststoreUpdateError error = (case error of
       OtherError name m \<Rightarrow> name \<in> {''BadRequestException'', ''ConflictException'', ''TooManyRequestsException''}
     | _ \<Rightarrow> False)"

text \<open>The polls that remain: attempt counts up to four, with growing pauses between the polls.\<close>

fun truststore_polls ::
  "nat \<Rightarrow> 'w gateway \<Rightarrow> string \<Rightarrow> string \<Rightarrow> string \<Rightarrow> ('w, unit) app" where
  "truststore_polls 0 G domainName uri versionId =
     raise (serviceUnavailable ''API Gateway has not confirmed an available truststore version.'')"
| "truststore_polls (Suc n) G domainName uri versionId =
     (let attempt = 4 - Suc n
      in bindM (gw_getDomainName G domainName) (\<lambda>observed.
           if truststoreMatches observed uri versionId \<and> truststore_warnings observed > 0
           then raise TruststoreRejected
           else if truststoreIsAvailable observed uri versionId then ret ()
           else thenM (whenM (attempt < 3) (gw_delay G (500 * 2 ^ attempt)))
             (truststore_polls n G domainName uri versionId)))"

definition truststore_uri :: "AppConfig \<Rightarrow> string \<Rightarrow> string" where
  "truststore_uri cfg key = ''s3://'' @ cf_truststoreBucketName cfg @ ''/'' @ key"

definition publishTruststore :: "AppConfig \<Rightarrow> 'w gateway \<Rightarrow> string \<Rightarrow> string \<Rightarrow> ('w, unit) app" where
  "publishTruststore cfg G key versionId =
     (let uri = truststore_uri cfg key; domainName = cf_deliveryApiCustomDomainName cfg
      in bindM (gw_getDomainName G domainName) (\<lambda>current.
         thenM (whenM (\<not> truststoreMatches current uri versionId \<and> \<not> truststoreUpdateInProgress current)
             (catchM (gw_updateDomainName G domainName uri versionId) (\<lambda>error.
                if retryableTruststoreUpdateError error
                then raise (serviceUnavailable ''API Gateway has not accepted the new truststore version yet.'')
                else raise error)))
           (truststore_polls 4 G domainName uri versionId)))"

definition reconcileTruststore :: "'w services \<Rightarrow> AppConfig \<Rightarrow> 'w gateway \<Rightarrow> ('w, unit) app" where
  "reconcileTruststore S cfg G =
     bindM (getTruststoreState S) (\<lambda>state. (case state of
        None \<Rightarrow> ret ()
      | Some s \<Rightarrow> (case (ts_currentTruststoreKey s, ts_currentTruststoreVersionId s) of
            (Some key, Some versionId) \<Rightarrow> publishTruststore cfg G key versionId
          | _ \<Rightarrow> ret ())))"

definition rollbackRejectedTruststore ::
  "'w services \<Rightarrow> AppConfig \<Rightarrow> 'w gateway \<Rightarrow> EnrollmentItem \<Rightarrow> ('w, unit) app" where
  "rollbackRejectedTruststore S cfg G operation =
     bindM (getTruststoreState S) (\<lambda>state.
       thenM (case state of
           None \<Rightarrow> ret ()
         | Some s \<Rightarrow> (case (ts_currentTruststoreKey s, ts_currentTruststoreVersionId s) of
               (Some key, Some versionId) \<Rightarrow> publishTruststore cfg G key versionId
             | _ \<Rightarrow> ret ()))
         (failEnrollment S operation))"

section \<open>The bundle\<close>

definition maximumTruststoreCertificates :: nat where
  "maximumTruststoreCertificates = 1000"

definition maximumTruststoreBytes :: nat where
  "maximumTruststoreBytes = 1048576"

text \<open>\<open>s.trim()\<close> and \<open>prefix.replace(/\/$/, "")\<close>.\<close>

definition trim :: "string \<Rightarrow> string" where
  "trim s = rev (dropWhile is_space (rev (dropWhile is_space s)))"

definition without_final_slash :: "string \<Rightarrow> string" where
  "without_final_slash s = (if s \<noteq> [] \<and> last s = CHR ''/'' then butlast s else s)"

definition truststoreKey :: "string \<Rightarrow> string \<Rightarrow> string" where
  "truststoreKey keyPrefix operationId =
     without_final_slash keyPrefix @ ''/bundles/'' @ operationId @ ''.pem''"

definition newline :: char where
  "newline = char_of (10 :: nat)"

definition truststore_pem :: "TruststoreRootRecord list \<Rightarrow> string" where
  "truststore_pem roots = join_with newline
     (map (\<lambda>root. trim (tr_certificatePem root)) (sort_key tr_fingerprint roots)) @ [newline]"

definition sameRootFingerprints :: "string list \<Rightarrow> string list \<Rightarrow> bool" where
  "sameRootFingerprints left right \<longleftrightarrow> length left = length right \<and> sort left = sort right"

definition currentTruststoreForRoots ::
  "TruststoreStateRecord option \<Rightarrow> string list \<Rightarrow> string \<Rightarrow> ObjectReference option" where
  "currentTruststoreForRoots state rootFingerprints bucket = (case state of
       None \<Rightarrow> None
     | Some s \<Rightarrow> (case (ts_currentTruststoreKey s, ts_currentTruststoreVersionId s,
                       ts_currentTruststoreChecksumSha256 s, ts_currentRootFingerprints s) of
           (Some key, Some versionId, Some checksum, Some current) \<Rightarrow>
             if sameRootFingerprints current rootFingerprints
             then Some \<lparr>o_bucket = bucket, o_key = key, o_versionId = versionId, o_checksumSha256 = checksum\<rparr>
             else None
         | _ \<Rightarrow> None))"

definition createTruststoreBundle ::
  "'w services \<Rightarrow> AppConfig \<Rightarrow> EnrollmentItem \<Rightarrow> TruststoreRootRecord list \<Rightarrow> string list
     \<Rightarrow> ('w, ObjectReference) app" where
  "createTruststoreBundle S cfg operation roots rootFingerprints =
     (let truststorePem = truststore_pem roots
      in thenM (throwIf (utf8_bytes truststorePem > maximumTruststoreBytes)
           (badRequest ''The truststore PEM bundle exceeds API Gateway's 1 MiB limit.''))
         (bindM (putImmutableOrGet S (cf_truststoreBucketName cfg)
             (truststoreKey (cf_truststoreKeyPrefix cfg) (e_operationId operation)) (PemDoc truststorePem)) (\<lambda>truststore.
          thenM (recordTruststoreBundle S (e_operationId operation) truststore rootFingerprints)
            (ret truststore))))"

section \<open>Resuming an enrollment\<close>

text \<open>The number of pages of truststore roots that are read; theory Truststore_Properties shows it to be no restriction.\<close>

definition enrollment_lease :: int where
  "enrollment_lease = 10 * 60 * 1000"

text \<open>From the lease to the published truststore.\<close>

definition resume_truststore ::
  "nat \<Rightarrow> 'w services \<Rightarrow> AppConfig \<Rightarrow> EnrollmentItem \<Rightarrow> ('w, ObjectReference \<times> string list) app" where
  "resume_truststore pages S cfg operation =
     bindM (listTruststoreRoots pages S (e_operationId operation)) (\<lambda>found.
     bindM (orRaise found (OtherError ''Error'' ''out of pages'')) (\<lambda>roots.
     bindM (getTruststoreState S) (\<lambda>truststoreState.
     thenM (throwIf (\<not> some_in (\<lambda>root. tr_fingerprint root = e_rootFingerprint operation
           \<and> tr_status root = I_ACTIVE) roots)
         (conflict ''The Hemlig issuing root is not available in the truststore.''))
     (let rootFingerprints = sort (map tr_fingerprint roots)
      in thenM (throwIf (length roots > maximumTruststoreCertificates)
           (badRequest (''The truststore cannot contain more than '' @ show_nat maximumTruststoreCertificates
              @ '' certificates.'')))
         (bindM (case currentTruststoreForRoots truststoreState rootFingerprints (cf_truststoreBucketName cfg) of
             Some current \<Rightarrow> ret current
           | None \<Rightarrow> createTruststoreBundle S cfg operation roots rootFingerprints) (\<lambda>truststore.
          ret (truststore, rootFingerprints)))))))"

text \<open>The operation that lost the race to complete an enrollment looks at what the other one left.\<close>

definition completed_by_other ::
  "'w services \<Rightarrow> EnrollmentItem \<Rightarrow> exn \<Rightarrow> ('w, ConsumerProvisioningResult) app" where
  "completed_by_other S operation error =
     bindM (getEnrollment S (e_operationId operation)) (\<lambda>latest. (case latest of
        Some l \<Rightarrow> if e_workflowState l = W_READY then ret (activeResult l) else raise error
      | None \<Rightarrow> raise error))"

definition resume_pending ::
  "nat \<Rightarrow> 'w services \<Rightarrow> AppConfig \<Rightarrow> 'w gateway \<Rightarrow> EnrollmentItem \<Rightarrow> ('w, ConsumerProvisioningResult) app" where
  "resume_pending pages S cfg G operation =
     bindM (sv_now S) (\<lambda>now.
     thenM (acquireTruststoreLease S (e_operationId operation) (now + enrollment_lease))
     (bindM (resume_truststore pages S cfg operation) (\<lambda>(truststore, rootFingerprints).
      thenM (catchM (publishTruststore cfg G (o_key truststore) (o_versionId truststore)) (\<lambda>error.
         thenM (whenM (error = TruststoreRejected) (rollbackRejectedTruststore S cfg G operation))
           (raise error)))
      (catchM (completeEnrollment S operation truststore rootFingerprints) (completed_by_other S operation)))))"

definition resume ::
  "nat \<Rightarrow> 'w services \<Rightarrow> AppConfig \<Rightarrow> 'w gateway \<Rightarrow> string \<Rightarrow> ('w, ConsumerProvisioningResult) app" where
  "resume pages S cfg G operationId =
     bindM (getEnrollment S operationId) (\<lambda>found. (case found of
        None \<Rightarrow> raise (notFound ''The requested enrollment operation was not found.'')
      | Some operation \<Rightarrow>
          if e_workflowState operation = W_READY then ret (activeResult operation)
          else if e_workflowState operation = W_FAILED
          then raise (enrollmentFailed ''The enrollment truststore publication was rejected. Repair the issuer or truststore configuration before submitting a new enrollment.'')
          else resume_pending pages S cfg G operation))"

section \<open>Starting an enrollment\<close>

record EnrollmentInput =
  ei_consumerId :: string
  ei_environment :: string
  ei_csrPem :: string
  ei_actor :: Actor
  ei_idempotencyKey :: string

record ConsumerOperationResult =
  co_result :: ConsumerProvisioningResult
  co_shouldWriteTerminalAudit :: bool

definition assertIdempotency :: "IdempotencyItem \<Rightarrow> string \<Rightarrow> operation_type \<Rightarrow> ('w, unit) app" where
  "assertIdempotency item requestDigest operationType =
     throwIf (id_requestDigest item \<noteq> Some requestDigest \<or> id_operationType item \<noteq> Some operationType)
       (conflict ''This idempotency key has already been used for a different operation.'')"

definition stringField :: "string option \<Rightarrow> ('w, string) app" where
  "stringField value = (case value of
       None \<Rightarrow> raise (conflict ''The idempotency record is incomplete.'')
     | Some s \<Rightarrow> if length s = 0 then raise (conflict ''The idempotency record is incomplete.'') else ret s)"

text \<open>What is done with the idempotency record another request has written.\<close>

definition resume_recorded ::
  "nat \<Rightarrow> 'w services \<Rightarrow> AppConfig \<Rightarrow> 'w gateway \<Rightarrow> string \<Rightarrow> IdempotencyItem \<Rightarrow> ('w, ConsumerOperationResult) app" where
  "resume_recorded pages S cfg G requestDigest winner =
     thenM (assertIdempotency winner requestDigest ConsumerEnroll)
     (bindM (stringField (id_operationId winner)) (\<lambda>operationId.
      bindM (resume pages S cfg G operationId) (\<lambda>result.
        ret \<lparr>co_result = result, co_shouldWriteTerminalAudit = id_status winner \<noteq> Some ID_SUCCEEDED\<rparr>)))"

text \<open>A write that lost against another request with the same key continues that request's operation.\<close>

definition or_resume_winner ::
  "nat \<Rightarrow> 'w services \<Rightarrow> AppConfig \<Rightarrow> 'w gateway \<Rightarrow> EnrollmentInput \<Rightarrow> string \<Rightarrow> string
     \<Rightarrow> ('w, unit) app \<Rightarrow> ('w, ConsumerOperationResult) app" where
  "or_resume_winner pages S cfg G input requestDigest operationId write =
     bindM (catchM (thenM write (ret None)) (\<lambda>error.
         bindM (getIdempotency S (ei_actor input) (ei_idempotencyKey input)) (\<lambda>winner. (case winner of
            None \<Rightarrow> raise error
          | Some r \<Rightarrow> bindM (resume_recorded pages S cfg G requestDigest r) (\<lambda>result. ret (Some result))))))
       (\<lambda>outcome. (case outcome of
            Some result \<Rightarrow> ret result
          | None \<Rightarrow> bindM (resume pages S cfg G operationId) (\<lambda>result.
              ret \<lparr>co_result = result, co_shouldWriteTerminalAudit = True\<rparr>)))"

definition prepared_enrollment ::
  "EnrollmentInput \<Rightarrow> string \<Rightarrow> IssuedApiIdentity \<Rightarrow> string \<Rightarrow> timestamp \<Rightarrow> timestamp \<Rightarrow> PreparedEnrollment" where
  "prepared_enrollment input requestDigest issued operationId now t = \<lparr>
     pe_operationId = operationId,
     pe_operationType = ConsumerEnroll,
     pe_idempotencyKey = ei_idempotencyKey input,
     pe_actor = ei_actor input,
     pe_requestDigest = requestDigest,
     pe_consumerId = ei_consumerId input,
     pe_environment = ei_environment input,
     pe_subjectUri = ia_subjectUri issued,
     pe_rootFingerprint = ia_rootFingerprint issued,
     pe_apiIdentity = ia_apiIdentity issued,
     pe_createdAt = now,
     pe_expiresAt = t + enrollment_lease \<rparr>"

definition startOrResume ::
  "nat \<Rightarrow> 'w services \<Rightarrow> AppConfig \<Rightarrow> 'w pki \<Rightarrow> 'w gateway \<Rightarrow> EnrollmentInput \<Rightarrow> ('w, ConsumerOperationResult) app" where
  "startOrResume pages S cfg X G input =
     bindM (liftE (certificateRequestFingerprint S X (ei_csrPem input))) (\<lambda>csrFingerprint.
     bindM (issuerFingerprint S cfg X) (\<lambda>rootFingerprint.
     (let requestDigest = sv_sha256HexDoc S (EnrollmentDoc ConsumerEnroll (ei_consumerId input)
            (Some (ei_environment input)) rootFingerprint csrFingerprint)
      in bindM (getIdempotency S (ei_actor input) (ei_idempotencyKey input)) (\<lambda>prior. (case prior of
           Some r \<Rightarrow> resume_recorded pages S cfg G requestDigest r
         | None \<Rightarrow>
             bindM (getPendingEnrollmentForConsumer S (ei_consumerId input)) (\<lambda>found. (case found of
                Some pending \<Rightarrow>
                  thenM (throwIf (e_operationType pending \<noteq> ConsumerEnroll
                        \<or> e_consumerId pending \<noteq> ei_consumerId input
                        \<or> e_environment pending \<noteq> ei_environment input
                        \<or> e_requestDigest pending \<noteq> requestDigest
                        \<or> e_workflowState pending \<noteq> W_PREPARED)
                      (conflict ''The existing pending consumer enrollment does not match this certificate request.''))
                    (or_resume_winner pages S cfg G input requestDigest (e_operationId pending)
                      (associateEnrollmentIdempotency S pending (ei_actor input) (ei_idempotencyKey input)))
              | None \<Rightarrow>
                  bindM (issueApiIdentity S cfg X (ei_consumerId input) (ei_environment input) (ei_csrPem input)) (\<lambda>issued.
                  bindM (sv_now S) (\<lambda>now.
                  bindM (sv_newId S) (\<lambda>operationId.
                  bindM (sv_now S) (\<lambda>t.
                    or_resume_winner pages S cfg G input requestDigest operationId
                      (startEnrollment S (prepared_enrollment input requestDigest issued operationId now t)))))))))))))"

definition enroll ::
  "nat \<Rightarrow> 'w services \<Rightarrow> AppConfig \<Rightarrow> 'w pki \<Rightarrow> 'w gateway \<Rightarrow> EnrollmentInput \<Rightarrow> ('w, ConsumerOperationResult) app" where
  "enroll pages S cfg X G input =
     thenM (liftE (assertIdentifier (ei_consumerId input) ''consumerId''))
     (thenM (environments_require S (ei_environment input))
       (startOrResume pages S cfg X G input))"

section \<open>API identities\<close>

record ApiIdentityInput =
  ri_consumerId :: string
  ri_csrPem :: string
  ri_actor :: Actor
  ri_idempotencyKey :: string

record RevocationInput =
  rv_consumerId :: string
  rv_apiFingerprint :: string
  rv_actor :: Actor
  rv_idempotencyKey :: string

datatype api_identity_status = AI_ACTIVE | AI_REVOKED

record ApiIdentityResult =
  ar_consumerId :: string
  ar_environment :: string
  ar_rootFingerprint :: string
  ar_apiFingerprint :: string
  ar_apiCertificatePem :: "string option"
  ar_status :: api_identity_status
  ar_shouldWriteTerminalAudit :: bool

definition idempotentApiIdentityResult ::
  "'w services \<Rightarrow> IdempotencyItem \<Rightarrow> string \<Rightarrow> string \<Rightarrow> string \<Rightarrow> ('w, ApiIdentityResult) app" where
  "idempotentApiIdentityResult S item requestDigest consumerId environment =
     thenM (assertIdempotency item requestDigest ApiRotate)
     (bindM (stringField (id_apiFingerprint item)) (\<lambda>apiFingerprint.
      bindM (stringField (id_rootFingerprint item)) (\<lambda>rootFingerprint.
      bindM (getIdentity S apiFingerprint) (\<lambda>identity.
      bindM (orRaise (Option.bind identity i_certificatePem)
          (conflict ''The idempotent API identity record is incomplete.'')) (\<lambda>certificatePem.
        ret \<lparr>ar_consumerId = consumerId,
             ar_environment = environment,
             ar_rootFingerprint = rootFingerprint,
             ar_apiFingerprint = apiFingerprint,
             ar_apiCertificatePem = Some certificatePem,
             ar_status = AI_ACTIVE,
             ar_shouldWriteTerminalAudit = id_status item \<noteq> Some ID_SUCCEEDED\<rparr>)))))"

definition active_consumer :: "ConsumerRecord option \<Rightarrow> ConsumerRecord option" where
  "active_consumer consumer = (case consumer of None \<Rightarrow> None
     | Some c \<Rightarrow> if cn_status c \<noteq> C_ACTIVE then None else Some c)"

definition rotateApiIdentity ::
  "'w services \<Rightarrow> AppConfig \<Rightarrow> 'w pki \<Rightarrow> ApiIdentityInput \<Rightarrow> ('w, ApiIdentityResult) app" where
  "rotateApiIdentity S cfg X input =
     thenM (liftE (assertIdentifier (ri_consumerId input) ''consumerId''))
     (bindM (getConsumer S (ri_consumerId input)) (\<lambda>found.
      bindM (orRaise (active_consumer found) (notFound ''The requested active consumer was not found.'')) (\<lambda>consumer.
      bindM (liftE (certificateRequestFingerprint S X (ri_csrPem input))) (\<lambda>csrFingerprint.
      bindM (issuerFingerprint S cfg X) (\<lambda>rootFingerprint.
      (let requestDigest = sv_sha256HexDoc S (EnrollmentDoc ApiRotate (ri_consumerId input) None
             rootFingerprint csrFingerprint)
       in bindM (getIdempotency S (ri_actor input) (ri_idempotencyKey input)) (\<lambda>prior. (case prior of
            Some r \<Rightarrow> idempotentApiIdentityResult S r requestDigest (ri_consumerId input) (cn_environment consumer)
          | None \<Rightarrow>
              bindM (issueApiIdentity S cfg X (ri_consumerId input) (cn_environment consumer) (ri_csrPem input)) (\<lambda>issued.
                catchM
                  (thenM (createApiIdentity S (ri_actor input) (ri_idempotencyKey input) requestDigest
                      (ia_apiIdentity issued) (ia_rootFingerprint issued))
                   (ret \<lparr>ar_consumerId = ri_consumerId input,
                         ar_environment = cn_environment consumer,
                         ar_rootFingerprint = ia_rootFingerprint issued,
                         ar_apiFingerprint = ai_fingerprint (ia_apiIdentity issued),
                         ar_apiCertificatePem = Some (ai_certificatePem (ia_apiIdentity issued)),
                         ar_status = AI_ACTIVE,
                         ar_shouldWriteTerminalAudit = True\<rparr>))
                  (\<lambda>error. bindM (getIdempotency S (ri_actor input) (ri_idempotencyKey input)) (\<lambda>winner. (case winner of
                      None \<Rightarrow> raise error
                    | Some r \<Rightarrow> idempotentApiIdentityResult S r requestDigest (ri_consumerId input)
                        (cn_environment consumer)))))))))))))"

text \<open>The predicate of \<open>find\<close> parses the request, which may throw, once a candidate reaches it.\<close>

fun find_identity :: "'w pki \<Rightarrow> string \<Rightarrow> string \<Rightarrow> IdentityRecord list \<Rightarrow> exn + (IdentityRecord \<times> string) option" where
  "find_identity X environment csrPem [] = Inr None"
| "find_identity X environment csrPem (candidate # rest) =
     (case i_certificatePem candidate of
        None \<Rightarrow> find_identity X environment csrPem rest
      | Some certificatePem \<Rightarrow>
          if i_status candidate = I_ACTIVE \<and> i_environment candidate = environment
          then (case certificateRequestMatchesCertificate X csrPem certificatePem of
                  Inl e \<Rightarrow> Inl e
                | Inr m \<Rightarrow> if m then Inr (Some (candidate, certificatePem))
                           else find_identity X environment csrPem rest)
          else find_identity X environment csrPem rest)"

definition recoverActiveIdentity ::
  "'w services \<Rightarrow> AppConfig \<Rightarrow> 'w pki \<Rightarrow> string \<Rightarrow> string \<Rightarrow> string \<Rightarrow> ('w, ConsumerProvisioningResult option) app" where
  "recoverActiveIdentity S cfg X consumerId environment csrPem =
     thenM (liftE (assertIdentifier consumerId ''consumerId''))
     (bindM (getConsumer S consumerId) (\<lambda>found. (case active_consumer found of
        None \<Rightarrow> ret None
      | Some consumer \<Rightarrow>
          thenM (throwIf (cn_environment consumer \<noteq> environment)
            (conflict ''The active consumer belongs to a different environment.''))
          (bindM (listConsumerApiIdentities S consumerId None) (\<lambda>page.
           bindM (liftE (find_identity X environment csrPem (fst page))) (\<lambda>match.
           bindM (orRaise match
             (conflict ''The active consumer does not have an identity for this certificate request.'')) (\<lambda>identity.
           bindM (issuerFingerprint S cfg X) (\<lambda>rootFingerprint.
             ret (Some \<lparr>cr_consumerId = cn_consumerId consumer,
                        cr_environment = cn_environment consumer,
                        cr_rootFingerprint = rootFingerprint,
                        cr_apiFingerprint = i_fingerprint (fst identity),
                        cr_apiCertificatePem = snd identity\<rparr>)))))))))"

text \<open>\<open>/^[a-f0-9]{64}$/\<close>.\<close>

definition isFingerprint :: "string \<Rightarrow> bool" where
  "isFingerprint value \<longleftrightarrow> length value = 64
     \<and> list_all (\<lambda>c. CHR ''a'' \<le> c \<and> c \<le> CHR ''f'' \<or> is_digit c) value"

definition assertFingerprint :: "string \<Rightarrow> string \<Rightarrow> unit parsed" where
  "assertFingerprint value field = throwE (\<not> isFingerprint value)
     (badRequest (field @ '' must be a lowercase SHA-256 certificate fingerprint.''))"

definition revocation_result :: "RevocationInput \<Rightarrow> string \<Rightarrow> bool \<Rightarrow> ApiIdentityResult" where
  "revocation_result input environment audit = \<lparr>
     ar_consumerId = rv_consumerId input,
     ar_environment = environment,
     ar_rootFingerprint = [],
     ar_apiFingerprint = rv_apiFingerprint input,
     ar_apiCertificatePem = None,
     ar_status = AI_REVOKED,
     ar_shouldWriteTerminalAudit = audit \<rparr>"

definition consumers_revokeApiIdentity ::
  "'w services \<Rightarrow> RevocationInput \<Rightarrow> ('w, ApiIdentityResult) app" where
  "consumers_revokeApiIdentity S input =
     thenM (liftE (assertIdentifier (rv_consumerId input) ''consumerId''))
     (thenM (liftE (assertFingerprint (rv_apiFingerprint input) ''apiFingerprint''))
     (bindM (getIdentity S (rv_apiFingerprint input)) (\<lambda>found.
      bindM (orRaise (case found of None \<Rightarrow> None
          | Some x \<Rightarrow> if i_consumerId x \<noteq> rv_consumerId input \<or> i_kind x \<noteq> K_api then None else Some x)
          (notFound ''The requested consumer API identity was not found.'')) (\<lambda>identity.
      (let requestDigest = sv_sha256HexDoc S (RevocationDoc (rv_consumerId input) (rv_apiFingerprint input))
       in bindM (getIdempotency S (rv_actor input) (rv_idempotencyKey input)) (\<lambda>prior. (case prior of
            Some r \<Rightarrow>
              thenM (assertIdempotency r requestDigest ApiRevoke)
                (ret (revocation_result input (i_environment identity) (id_status r \<noteq> Some ID_SUCCEEDED)))
          | None \<Rightarrow>
              thenM (revokeApiIdentity S (rv_actor input) (rv_idempotencyKey input) requestDigest
                  (rv_consumerId input) (rv_apiFingerprint input))
                (ret (revocation_result input (i_environment identity) True)))))))))"

end
