(* ===== verification/Truststore_Properties.thy ===== *)
theory Truststore_Properties
  imports Consumers Secret_Examples
begin

text \<open>
  The truststore: the loop over the pages of issuing roots ends and finds every root, and the
  publication of a bundle at the API Gateway ends within four polls, which is enough for a gateway
  that needs no longer than the pauses between them.
\<close>

section \<open>Listing the roots\<close>

definition after_start :: "startKey option \<Rightarrow> string \<Rightarrow> bool" where
  "after_start start sk \<longleftrightarrow> (case start of None \<Rightarrow> True
     | Some s \<Rightarrow> (\<exists>s0. map_of s ''sk'' = Some s0 \<and> s0 < sk))"

definition eligible_root :: "table \<Rightarrow> string \<Rightarrow> string \<Rightarrow> TruststoreRootRecord \<Rightarrow> bool" where
  "eligible_root t operationId sk r \<longleftrightarrow> t (truststoreRootsPk, sk) = Some (TruststoreRootIt r)
     \<and> prefix ''ROOT#'' sk \<and> (tr_status r = I_ACTIVE \<or> tr_operationId r = operationId)"

lemma page_roots_mem: "r \<in> set (page_roots p) \<longleftrightarrow> (\<exists>k. (k, TruststoreRootIt r) \<in> set (qp_items p))"
  by (force simp: page_roots_def mem_map_filter Bex_def split_paired_Ex)

lemma root_prefix: "prefix ''ROOT#'' (rootSk f)"
  by (simp add: rootSk_def)

lemma roots_query_fields [simp]:
  "q_index (roots_query operationId start) = MainTable" "q_forward (roots_query operationId start)"
  "q_limit (roots_query operationId start) = None"
  "q_exclusiveStartKey (roots_query operationId start) = start"
  by (simp_all add: roots_query_def)

lemma roots_query_partition: "q_keyCondition (roots_query operationId start) k it \<Longrightarrow> fst k = truststoreRootsPk"
  by (simp add: roots_query_def)

context dynamo
begin

text \<open>One page: exactly the eligible roots after its start and up to its last evaluated key.\<close>

lemma roots_page:
  assumes q: "sv_query S (roots_query operationId start) w = (Inr p, w')"
    and start: "\<And>s. start = Some s \<Longrightarrow> map_of s ''sk'' \<noteq> None"
  shows "r \<in> set (page_roots p) \<longleftrightarrow> (\<exists>sk. eligible_root (table w) operationId sk r \<and> after_start start sk
      \<and> (case qp_lastEvaluatedKey p of None \<Rightarrow> True | Some stop \<Rightarrow> \<not> after_start (Some stop) sk))"
    (is "_ \<longleftrightarrow> (\<exists>sk. ?P sk)")
proof
  assume "r \<in> set (page_roots p)"
  then obtain k where k: "(k, TruststoreRootIt r) \<in> set (qp_items p)" by (auto simp: page_roots_mem)
  note sel = query_selects [OF q k] and con = query_consistent [OF q _ k]
    and bounds = query_page_bounds [OF q _ _ roots_query_partition k]
  have "k = (truststoreRootsPk, snd k)" using sel by (cases k) (simp add: roots_query_def)
  then have "eligible_root (table w) operationId (snd k) r"
    using sel con by (auto simp: eligible_root_def roots_query_def)
  moreover have "after_start start (snd k)"
    using bounds start by (auto simp: after_start_def split: option.splits)
  moreover have "case qp_lastEvaluatedKey p of None \<Rightarrow> True | Some stop \<Rightarrow> \<not> after_start (Some stop) (snd k)"
    using bounds by (fastforce simp: after_start_def split: option.splits)
  ultimately show "\<exists>sk. ?P sk" by blast
next
  assume "\<exists>sk. ?P sk"
  then obtain sk where sk: "eligible_root (table w) operationId sk r" "after_start start sk"
    "case qp_lastEvaluatedKey p of None \<Rightarrow> True | Some stop \<Rightarrow> \<not> after_start (Some stop) sk" by blast
  have "((truststoreRootsPk, sk), TruststoreRootIt r) \<in> set (qp_items p)"
  proof (rule query_page_complete [OF q])
    show "case qp_lastEvaluatedKey p of None \<Rightarrow> True
      | Some stop \<Rightarrow> (\<exists>s. map_of stop ''sk'' = Some s \<and> snd (truststoreRootsPk, sk) \<le> s)"
    proof (cases "qp_lastEvaluatedKey p")
      case (Some stop)
      from query_last_key [OF q _ _ Some] obtain s where "map_of stop ''sk'' = Some s" by auto
      with sk(3) Some show ?thesis by (auto simp: after_start_def not_less)
    qed simp
  qed (use sk in \<open>auto simp: eligible_root_def after_start_def roots_query_def split: option.splits\<close>)
  then show "r \<in> set (page_roots p)" by (auto simp: page_roots_mem)
qed

text \<open>
  The loop ends: each further page starts at a stored key beyond the last one, so the stored keys
  left to read get fewer.
\<close>

lemma truststore_pages_end:
  assumes answers: "\<And>start w. \<exists>p w'. sv_query S (roots_query operationId start) w = (Inr p, w')"
    and "finite {sk. table w (truststoreRootsPk, sk) \<noteq> None \<and> after_start start sk}"
      "card {sk. table w (truststoreRootsPk, sk) \<noteq> None \<and> after_start start sk} < n"
    and "\<And>s. start = Some s \<Longrightarrow> map_of s ''sk'' \<noteq> None"
  shows "\<exists>rs w'. truststore_pages n S operationId start w = (Inr (Some rs), w') \<and> table w' = table w
    \<and> (\<forall>r. r \<in> set rs \<longleftrightarrow> (\<exists>sk. eligible_root (table w) operationId sk r \<and> after_start start sk))"
  using assms(2-)
proof (induction n arbitrary: start w)
  case (Suc n)
  let ?K = "\<lambda>start. {sk. table w (truststoreRootsPk, sk) \<noteq> None \<and> after_start start sk}"
  obtain p w1 where q: "sv_query S (roots_query operationId start) w = (Inr p, w1)" using answers by blast
  have t1: "table w1 = table w" using keepsD [OF query_keeps q] .
  note page = roots_page [OF q Suc.prems(3)]
  show ?case
  proof (cases "qp_lastEvaluatedKey p")
    case None
    with page show ?thesis by (simp add: bindM_def q t1)
  next
    case (Some stop)
    have "\<exists>sk. map_of stop ''sk'' = Some sk \<and> table w (truststoreRootsPk, sk) \<noteq> None
      \<and> (\<forall>s s0. start = Some s \<longrightarrow> map_of s ''sk'' = Some s0 \<longrightarrow> s0 < sk)"
      using query_last_stored [OF q _ _ _ _ Some, of truststoreRootsPk] roots_query_partition by simp
    then obtain sk where
      sk: "map_of stop ''sk'' = Some sk" "table w (truststoreRootsPk, sk) \<noteq> None"
      and beyond: "\<And>s s0. start = Some s \<Longrightarrow> map_of s ''sk'' = Some s0 \<Longrightarrow> s0 < sk" by auto
    have less: "after_start start sk'" if "after_start (Some stop) sk'" for sk'
      using that beyond Suc.prems(3) sk(1) by (fastforce simp: after_start_def split: option.splits)
    have "sk \<in> ?K start"
      using sk(2) beyond Suc.prems(3) by (auto simp: after_start_def split: option.splits)
    moreover have "sk \<notin> ?K (Some stop)" using sk(1) by (simp add: after_start_def)
    moreover have "?K (Some stop) \<subseteq> ?K start" using less by blast
    ultimately have "?K (Some stop) \<subset> ?K start" by blast
    then have "card (?K (Some stop)) < card (?K start)" "finite (?K (Some stop))"
      using psubset_card_mono [OF Suc.prems(1)] finite_subset [OF _ Suc.prems(1)] by blast+
    then have "card (?K (Some stop)) < n" "finite (?K (Some stop))" using Suc.prems(2) by linarith+
    with Suc.IH [of w1 "Some stop"] t1 sk(1) obtain rs w2 where
      r: "truststore_pages n S operationId (Some stop) w1 = (Inr (Some rs), w2)" "table w2 = table w"
        "\<And>r. r \<in> set rs \<longleftrightarrow> (\<exists>sk. eligible_root (table w) operationId sk r \<and> after_start (Some stop) sk)"
      by auto
    have "truststore_pages (Suc n) S operationId start w = (Inr (Some (page_roots p @ rs)), w2)"
      by (simp add: bindM_def q r(1) Some)
    moreover have "r \<in> set (page_roots p @ rs) \<longleftrightarrow> (\<exists>sk. eligible_root (table w) operationId sk r \<and> after_start start sk)" for r
      using page r(3) less by (simp add: Some) blast
    ultimately show ?thesis using r(2) by blast
  qed
qed simp

end

lemma root_values_props:
  assumes "\<And>r r'. r \<in> set rs \<Longrightarrow> r' \<in> set rs \<Longrightarrow> tr_fingerprint r = tr_fingerprint r' \<Longrightarrow> r = r'"
  shows "set (root_values rs) = set rs" "distinct (map tr_fingerprint (root_values rs))"
proof -
  let ?m = "js_map (map (\<lambda>r. (tr_fingerprint r, r)) rs)"
  have m: "?m (tr_fingerprint r) = Some r" if r: "r \<in> set rs" for r
  proof -
    have "?m (tr_fingerprint r) \<noteq> None" using r by (auto simp: image_iff)
    then obtain r' where r': "?m (tr_fingerprint r) = Some r'" by blast
    from js_map_SomeD [OF this] have "r' \<in> set rs" "tr_fingerprint r' = tr_fingerprint r" by auto
    then have "r' = r" by (rule assms [OF _ r])
    with r' show ?thesis by simp
  qed
  have members: "set (root_values rs) = {r. \<exists>f \<in> tr_fingerprint ` set rs. ?m f = Some r}"
    by (auto simp: root_values_def mem_map_filter)
  show "set (root_values rs) = set rs"
    unfolding members using m by auto
  have "map tr_fingerprint (List.map_filter ?m fs) = fs" if "set fs \<subseteq> tr_fingerprint ` set rs" for fs
    using that
  proof (induction fs)
    case (Cons f fs)
    then obtain r where "r \<in> set rs" "f = tr_fingerprint r" by auto
    with m [OF this(1)] Cons show ?case by (simp add: List.map_filter_simps)
  qed (simp add: List.map_filter_simps)
  from this [of "uniq (map tr_fingerprint rs)"] show "distinct (map tr_fingerprint (root_values rs))"
    by (simp add: root_values_def)
qed

text \<open>C13: listing the truststore roots ends: with a bound on the pages above the number of stored
  roots, the loop reads to the last page, whatever the size of the pages, and gives every active root
  and every root of the operation exactly once, in the order of the fingerprints.\<close>

theorem truststore_roots_listed:
  assumes "dynamo S table"
    and "\<And>start w. \<exists>p w'. sv_query S (roots_query operationId start) w = (Inr p, w')"
    and "finite {sk. table w (truststoreRootsPk, sk) \<noteq> None}"
      "card {sk. table w (truststoreRootsPk, sk) \<noteq> None} < n"
    and "\<And>sk r. table w (truststoreRootsPk, sk) = Some (TruststoreRootIt r) \<Longrightarrow> sk = rootSk (tr_fingerprint r)"
  shows "\<exists>roots w'. listTruststoreRoots n S operationId w = (Inr (Some roots), w') \<and> table w' = table w
    \<and> sorted (map tr_fingerprint roots) \<and> distinct (map tr_fingerprint roots)
    \<and> set roots = {r. table w (truststoreRootsPk, rootSk (tr_fingerprint r)) = Some (TruststoreRootIt r)
        \<and> (tr_status r = I_ACTIVE \<or> tr_operationId r = operationId)}"
proof -
  have all: "after_start None = (\<lambda>sk. True)" by (simp add: after_start_def fun_eq_iff)
  have "\<exists>rs w'. truststore_pages n S operationId None w = (Inr (Some rs), w') \<and> table w' = table w
      \<and> (\<forall>r. r \<in> set rs \<longleftrightarrow> (\<exists>sk. eligible_root (table w) operationId sk r \<and> after_start None sk))"
    by (rule dynamo.truststore_pages_end [OF assms(1,2)]) (use assms(3,4) in \<open>simp_all add: all\<close>)
  then obtain rs w' where r: "truststore_pages n S operationId None w = (Inr (Some rs), w')" "table w' = table w"
    "\<forall>r. r \<in> set rs \<longleftrightarrow> (\<exists>sk. eligible_root (table w) operationId sk r \<and> after_start None sk)"
    by (elim exE conjE) (rule that, assumption+)
  have elig: "eligible_root (table w) operationId sk r \<longleftrightarrow> sk = rootSk (tr_fingerprint r)
      \<and> table w (truststoreRootsPk, sk) = Some (TruststoreRootIt r)
      \<and> (tr_status r = I_ACTIVE \<or> tr_operationId r = operationId)" for sk r
    using assms(5) [of sk r] by (auto simp: eligible_root_def root_prefix)
  have mem: "r \<in> set rs \<longleftrightarrow> table w (truststoreRootsPk, rootSk (tr_fingerprint r)) = Some (TruststoreRootIt r)
      \<and> (tr_status r = I_ACTIVE \<or> tr_operationId r = operationId)" for r
    using r(3) by (simp add: all elig)
  have props: "set (root_values rs) = set rs" "distinct (map tr_fingerprint (root_values rs))"
    by (rule root_values_props; simp add: mem)+
  let ?roots = "sort_key tr_fingerprint (root_values rs)"
  have "listTruststoreRoots n S operationId w = (Inr (Some ?roots), w')"
    by (simp add: listTruststoreRoots_def bindM_def r(1))
  moreover have "distinct (map tr_fingerprint ?roots)"
    using props(2) by (simp only: distinct_map set_sort distinct_sort)
  moreover have "set ?roots = {r. table w (truststoreRootsPk, rootSk (tr_fingerprint r)) = Some (TruststoreRootIt r)
        \<and> (tr_status r = I_ACTIVE \<or> tr_operationId r = operationId)}"
    unfolding set_sort props(1) by (intro set_eqI) (simp only: mem mem_Collect_eq)
  moreover have "sorted (map tr_fingerprint ?roots)" by simp
  ultimately show ?thesis using r(2) by (intro exI conjI)
qed

definition tx_root :: "string \<Rightarrow> identity_status \<Rightarrow> TruststoreRootRecord" where
  "tx_root f st = \<lparr>tr_fingerprint = f, tr_consumerId = ''hemlig'', tr_environment = ''prod'',
     tr_certificatePem = ''pem-'' @ f, tr_notBefore = 0, tr_notAfter = 9, tr_status = st,
     tr_operationId = ''issuer'', tr_createdAt = 0\<rparr>"

definition tx_world :: ref_world where
  "tx_world = \<lparr>rw_items = [((truststoreRootsPk, rootSk ''b''), TruststoreRootIt (tx_root ''b'' I_ACTIVE)),
      ((truststoreRootsPk, rootSk ''a''), TruststoreRootIt (tx_root ''a'' I_ACTIVE)),
      ((truststoreRootsPk, rootSk ''c''), TruststoreRootIt (tx_root ''c'' I_REVOKED))],
     rw_objects = [], rw_clock = 1000, rw_counter = 0\<rparr>"

lemma tx_keys: "{sk. ref_table tx_world (truststoreRootsPk, sk) \<noteq> None} = {rootSk ''a'', rootSk ''b'', rootSk ''c''}"
  by (auto simp: ref_table_def tx_world_def rootSk_def split: if_splits)

text \<open>Two active roots and a revoked one: the active ones are listed.\<close>

lemma truststore_roots_listed_witness:
  "\<exists>roots w'. listTruststoreRoots 4 ref_services ''op'' tx_world = (Inr (Some roots), w')
    \<and> sorted (map tr_fingerprint roots) \<and> set roots = {tx_root ''a'' I_ACTIVE, tx_root ''b'' I_ACTIVE}"
proof -
  have "\<exists>p w'. sv_query ref_services q w = (Inr p, w')" for q w
    by (simp add: ref_query_def Let_def)
  note run = truststore_roots_listed [where n = 4 and w = tx_world and operationId = "''op''", OF ref_dynamo.dynamo_axioms this]
  have keys: "sk = rootSk (tr_fingerprint r)"
    if "ref_table tx_world (truststoreRootsPk, sk) = Some (TruststoreRootIt r)" for sk r
    using that by (auto simp: ref_table_def tx_world_def tx_root_def split: if_splits)
  have "{r. ref_table tx_world (truststoreRootsPk, rootSk (tr_fingerprint r)) = Some (TruststoreRootIt r)
      \<and> (tr_status r = I_ACTIVE \<or> tr_operationId r = ''op'')} = {tx_root ''a'' I_ACTIVE, tx_root ''b'' I_ACTIVE}"
    by (auto simp: ref_table_def tx_world_def tx_root_def rootSk_def split: if_splits)
  with run keys show ?thesis unfolding tx_keys by (auto simp: rootSk_def)
qed

section \<open>Publishing a bundle\<close>

text \<open>
  An API Gateway that accepts an update, after which the domain names the new truststore and becomes
  available within lag milliseconds; valid are the bundles it has no warnings about. Timers do not fire
  early, and time does not run backwards.
\<close>

locale truststore_gateway =
  fixes G :: "'w gateway" and domain :: string and target :: "'w \<Rightarrow> (string \<times> string) option"
    and since clock :: "'w \<Rightarrow> int" and lag :: int and valid :: "string \<Rightarrow> string \<Rightarrow> bool"
    and busy :: "'w \<Rightarrow> bool"
  assumes get_answers: "\<exists>dn w'. gw_getDomainName G domain w = (Inr dn, w') \<and> target w' = target w
      \<and> since w' = since w \<and> clock w \<le> clock w' \<and> (busy w' \<longrightarrow> busy w)"
    and get_shows: "gw_getDomainName G domain w = (Inr dn, w') \<Longrightarrow>
      (truststoreMatches dn uri v \<longleftrightarrow> target w = Some (uri, v))
      \<and> (target w = Some (uri, v) \<longrightarrow> valid uri v \<longrightarrow> truststore_warnings dn = 0)
      \<and> (target w = Some (uri, v) \<longrightarrow> valid uri v \<longrightarrow> since w + lag \<le> clock w \<longrightarrow> truststoreIsAvailable dn uri v)
      \<and> (truststoreUpdateInProgress dn \<longrightarrow> busy w)"
    and update_accepted: "\<not> busy w \<Longrightarrow> \<exists>w'. gw_updateDomainName G domain uri v w = (Inr (), w')
      \<and> target w' = Some (uri, v) \<and> since w' \<le> clock w'"
    and delay_waits: "\<exists>w'. gw_delay G ms w = (Inr (), w') \<and> target w' = target w \<and> since w' = since w
      \<and> clock w + int ms \<le> clock w'"
begin

fun pauses :: "nat \<Rightarrow> nat" where
  "pauses 0 = 0"
| "pauses (Suc n) = (if n = 0 then 0 else 500 * 2 ^ (3 - n) + pauses n)"

lemma polls_confirm:
  assumes "target w = Some (uri, v)" "valid uri v" "0 < n" "n \<le> 4" "since w + lag \<le> clock w + int (pauses n)"
  shows "\<exists>w' w1 dn. truststore_polls n G domain uri v w = (Inr (), w') \<and> target w' = Some (uri, v)
    \<and> gw_getDomainName G domain w1 = (Inr dn, w') \<and> truststoreIsAvailable dn uri v"
  using assms
proof (induction n arbitrary: w)
  case (Suc n)
  obtain dn w1 where g: "gw_getDomainName G domain w = (Inr dn, w1)" "target w1 = target w" "since w1 = since w"
    "clock w \<le> clock w1" using get_answers by blast
  note sh = get_shows [OF g(1), of uri v]
  show ?case
  proof (cases "truststoreIsAvailable dn uri v")
    case True
    then have "truststore_polls (Suc n) G domain uri v w = (Inr (), w1)"
      using sh Suc.prems(1,2) g(1) by (simp add: bindM_def Let_def)
    with True g Suc.prems(1) show ?thesis by auto
  next
    case False
    with sh Suc.prems have n: "n \<noteq> 0" by (cases n) auto
    obtain w2 where d: "gw_delay G (500 * 2 ^ (3 - n)) w1 = (Inr (), w2)" "target w2 = target w1"
      "since w2 = since w1" "clock w1 + int (500 * 2 ^ (3 - n)) \<le> clock w2" using delay_waits by blast
    have "since w2 + lag \<le> clock w2 + int (pauses n)"
      using d(3,4) g(3,4) Suc.prems(5) n by (simp split: if_splits)
    with Suc.IH [of w2] obtain w' w3 dn' where r: "truststore_polls n G domain uri v w2 = (Inr (), w')"
      "target w' = Some (uri, v)" "gw_getDomainName G domain w3 = (Inr dn', w')" "truststoreIsAvailable dn' uri v"
      using d(2) g(2) Suc.prems(1,2,4) n by auto
    have "truststore_polls (Suc n) G domain uri v w = truststore_polls n G domain uri v w2"
      using sh Suc.prems(1,2,4) g(1) d(1) False n by (simp add: bindM_def thenM_def whenM_def Let_def)
    with r show ?thesis by auto
  qed
qed simp

lemma publish_confirmed:
  assumes "domain = cf_deliveryApiCustomDomainName cfg" "valid (truststore_uri cfg key) v"
    and "lag \<le> 3500" "since w \<le> clock w" "busy w \<longrightarrow> target w = Some (truststore_uri cfg key, v)"
  shows "\<exists>w' w1 dn. publishTruststore cfg G key v w = (Inr (), w') \<and> target w' = Some (truststore_uri cfg key, v)
    \<and> gw_getDomainName G domain w1 = (Inr dn, w') \<and> truststoreIsAvailable dn (truststore_uri cfg key) v"
proof -
  let ?uri = "truststore_uri cfg key"
  have p: "pauses 4 = 3500" by (simp add: numeral_eq_Suc)
  obtain dn w1 where g: "gw_getDomainName G domain w = (Inr dn, w1)" "target w1 = target w" "since w1 = since w"
    "clock w \<le> clock w1" "busy w1 \<longrightarrow> busy w" using get_answers by blast
  note sh = get_shows [OF g(1), of ?uri v]
  show ?thesis
  proof (cases "target w = Some (?uri, v)")
    case True
    then have "publishTruststore cfg G key v w = truststore_polls 4 G domain ?uri v w1"
      using sh g(1) assms(1) by (simp add: publishTruststore_def bindM_def thenM_def whenM_def Let_def)
    with polls_confirm [of w1 ?uri v 4] True g assms(2,3,4) p show ?thesis by auto
  next
    case False
    with assms(5) g(5) have "\<not> busy w1" "\<not> busy w" by auto
    then obtain w2 where u: "gw_updateDomainName G domain ?uri v w1 = (Inr (), w2)" "target w2 = Some (?uri, v)"
      "since w2 \<le> clock w2" using update_accepted by blast
    have "publishTruststore cfg G key v w = truststore_polls 4 G domain ?uri v w2"
      using sh False \<open>\<not> busy w\<close> g(1) u(1) assms(1)
      by (simp add: publishTruststore_def bindM_def thenM_def whenM_def Let_def catchM_def)
    with polls_confirm [of w2 ?uri v 4] u assms(2,3) p show ?thesis by auto
  qed
qed

end

section \<open>A reference gateway\<close>

text \<open>
  It keeps the truststore of a domain, with the time of its update, among the objects of the world, and
  needs a second to make it available.
\<close>

definition gate_key :: "string \<Rightarrow> string \<times> string \<times> string" where
  "gate_key domain = (''apigateway'', domain, [])"

definition gate_of :: "string \<Rightarrow> ref_world \<Rightarrow> (string \<times> string \<times> int) option" where
  "gate_of domain w = (case ref_objects w (gate_key domain) of
       Some (PemDoc s) \<Rightarrow> (case dec_strs s of
           Some [uri, v, t] \<Rightarrow> map_option (\<lambda>t. (uri, v, t)) (read_time t) | _ \<Rightarrow> None)
     | _ \<Rightarrow> None)"

definition gate_domain :: "string \<Rightarrow> ref_world \<Rightarrow> DomainName" where
  "gate_domain domain w = (case gate_of domain w of
       None \<Rightarrow> \<lparr>dn_mutualTlsAuthentication = None, dn_configurations = Some [Some ''AVAILABLE'']\<rparr>
     | Some (uri, v, t) \<Rightarrow> \<lparr>dn_mutualTlsAuthentication = Some \<lparr>mt_truststoreUri = Some uri,
           mt_truststoreVersion = Some v, mt_truststoreWarnings = None\<rparr>,
         dn_configurations = Some [Some (if t + 1000 \<le> rw_clock w then ''AVAILABLE'' else ''UPDATING'')]\<rparr>)"

definition ref_gateway :: "ref_world gateway" where
  "ref_gateway = \<lparr>
     gw_getDomainName = (\<lambda>domain w. (Inr (gate_domain domain w), w)),
     gw_updateDomainName = (\<lambda>domain uri v w. (Inr (), w\<lparr>rw_objects :=
        (gate_key domain, PemDoc (enc_strs [uri, v, show_time (rw_clock w)])) # rw_objects w\<rparr>)),
     gw_delay = (\<lambda>ms w. (Inr (), w\<lparr>rw_clock := rw_clock w + int ms\<rparr>)) \<rparr>"

definition gate_target :: "string \<Rightarrow> ref_world \<Rightarrow> (string \<times> string) option" where
  "gate_target domain w = map_option (\<lambda>(uri, v, t). (uri, v)) (gate_of domain w)"

definition gate_since :: "string \<Rightarrow> ref_world \<Rightarrow> int" where
  "gate_since domain w = (case gate_of domain w of None \<Rightarrow> 0 | Some (uri, v, t) \<Rightarrow> t)"

definition gate_busy :: "string \<Rightarrow> ref_world \<Rightarrow> bool" where
  "gate_busy domain w \<longleftrightarrow> gate_of domain w \<noteq> None \<and> rw_clock w < gate_since domain w + 1000"

lemma gate_of_upd [simp]:
  "gate_of domain (w\<lparr>rw_clock := n\<rparr>) = gate_of domain w"
  "gate_of domain (w\<lparr>rw_objects := (gate_key domain, PemDoc (enc_strs [uri, v, show_time t])) # obs\<rparr>)
     = Some (uri, v, t)"
  by (simp_all add: gate_of_def ref_objects_def)

lemmas gate_defs = ref_gateway_def gate_domain_def gate_target_def gate_since_def gate_busy_def
  truststoreMatches_def truststore_warnings_def truststoreIsAvailable_def truststoreUpdateInProgress_def
  domain_configurations_def

interpretation ref_gateway: truststore_gateway ref_gateway domain "gate_target domain" "gate_since domain"
  rw_clock 1000 "\<lambda>uri v. True" "gate_busy domain"
  for domain
proof (unfold_locales, goal_cases)
  case (1 w)
  then show ?case by (simp add: ref_gateway_def)
next
  case (2 w dn w' uri v)
  then show ?case by (auto simp: gate_defs split: option.splits prod.splits if_splits)
next
  case (3 w uri v)
  then show ?case by (auto simp: gate_defs)
next
  case (4 ms w)
  then show ?case by (simp add: gate_defs)
qed

text \<open>C14: publishing a bundle ends with its confirmation. If the API Gateway accepts updates, brings a
  valid bundle into use within 3.5 seconds of the update, and is not busy with another one, then
  publishTruststore returns, within its four polls, and the last thing it saw is the domain available
  with exactly this bundle and version.\<close>

theorem publishTruststore_confirms:
  assumes "truststore_gateway G (cf_deliveryApiCustomDomainName cfg) target since clock lag valid busy"
    and "valid (truststore_uri cfg key) v" "lag \<le> 3500" "since w \<le> clock w"
    and "busy w \<longrightarrow> target w = Some (truststore_uri cfg key, v)"
  shows "\<exists>w' w1 dn. publishTruststore cfg G key v w = (Inr (), w') \<and> target w' = Some (truststore_uri cfg key, v)
    \<and> gw_getDomainName G (cf_deliveryApiCustomDomainName cfg) w1 = (Inr dn, w')
    \<and> truststoreIsAvailable dn (truststore_uri cfg key) v"
  by (rule truststore_gateway.publish_confirmed [OF assms(1) refl assms(2-5)])

definition gx_world :: ref_world where
  "gx_world = \<lparr>rw_items = [], rw_objects = [(gate_key ''dom'', PemDoc (enc_strs [''s3://trust/old'', ''1'', show_time 0]))],
     rw_clock = 5000, rw_counter = 0\<rparr>"

text \<open>A new bundle replaces an older one.\<close>

lemma publishTruststore_confirms_witness:
  "\<exists>w'. publishTruststore sx_config ref_gateway ''new'' ''2'' gx_world = (Inr (), w')
    \<and> gate_target ''dom'' gx_world = Some (''s3://trust/old'', ''1'')
    \<and> gate_target ''dom'' w' = Some (''s3://trust/new'', ''2'')"
proof -
  have dom: "cf_deliveryApiCustomDomainName sx_config = ''dom''" by (simp add: sx_config_def)
  have uri: "truststore_uri sx_config ''new'' = ''s3://trust/new''" by (simp add: truststore_uri_def sx_config_def)
  have g: "gate_of ''dom'' gx_world = Some (''s3://trust/old'', ''1'', 0)"
    by (simp add: gate_of_def gx_world_def ref_objects_def)
  have clk: "rw_clock gx_world = 5000" by (simp add: gx_world_def)
  have "\<exists>w' w1 dn. publishTruststore sx_config ref_gateway ''new'' ''2'' gx_world = (Inr (), w')
    \<and> gate_target ''dom'' w' = Some (''s3://trust/new'', ''2'')
    \<and> gw_getDomainName ref_gateway ''dom'' w1 = (Inr dn, w')
    \<and> truststoreIsAvailable dn ''s3://trust/new'' ''2''"
    using publishTruststore_confirms [where key = "''new''" and v = "''2''" and w = gx_world,
        OF ref_gateway.truststore_gateway_axioms, of sx_config]
    by (simp add: dom uri gate_since_def gate_busy_def g clk)
  then show ?thesis using g by (auto simp: gate_target_def)
qed

end
