(* ===== verification/Consumer_Properties.thy ===== *)
theory Consumer_Properties
  imports Enrollment_Protocol Truststore_Properties
begin

text \<open>
  The runs of the consumer service are paths of the enrollment protocol, and what its invariant says of
  the operations, identities and consumers of every table the service can produce.
\<close>

named_theorems runs_intro "computations whose runs are paths of the enrollment protocol"
named_theorems ensures_intro "what a run that returns has reached"

section \<open>Runs are paths\<close>

text \<open>
  \<open>runs table K m\<close>: whatever m returns or throws, started in a world whose table is that of a protocol
  state that has read the records K, it ends in one whose table a path of the protocol leads to.
\<close>

definition runs :: "('w \<Rightarrow> table) \<Rightarrow> EnrollmentItem set \<Rightarrow> ('w, 'a) app \<Rightarrow> bool" where
  "runs table K m \<longleftrightarrow> (\<forall>s w r w'. ew_table s = table w \<longrightarrow> K \<subseteq> set (ew_read s) \<longrightarrow> m w = (r, w') \<longrightarrow>
     (\<exists>s'. enrollment_step\<^sup>*\<^sup>* s s' \<and> ew_table s' = table w' \<and> set (ew_read s) \<subseteq> set (ew_read s')))"

lemma runsI:
  assumes "\<And>s w r w'. ew_table s = table w \<Longrightarrow> K \<subseteq> set (ew_read s) \<Longrightarrow> m w = (r, w') \<Longrightarrow>
    \<exists>s'. enrollment_step\<^sup>*\<^sup>* s s' \<and> ew_table s' = table w' \<and> set (ew_read s) \<subseteq> set (ew_read s')"
  shows "runs table K m"
  using assms by (simp add: runs_def)

lemma runsD:
  assumes "runs table K m" "ew_table s = table w" "K \<subseteq> set (ew_read s)" "m w = (r, w')"
  obtains s' where "enrollment_step\<^sup>*\<^sup>* s s'" "ew_table s' = table w'" "set (ew_read s) \<subseteq> set (ew_read s')"
  using assms unfolding runs_def by blast

lemma runs_keeps: "keeps table m \<Longrightarrow> runs table K m"
  by (rule runsI) (metis keepsD rtranclp.rtrancl_refl subset_refl)

lemma runs_bindM_value:
  assumes "runs table K m" "\<And>w x w'. m w = (Inr x, w') \<Longrightarrow> runs table K (f x)"
  shows "runs table K (bindM m f)"
proof (rule runsI)
  fix s :: enrollment_world and w r w' assume s: "ew_table s = table w" "K \<subseteq> set (ew_read s)" and run: "bindM m f w = (r, w')"
  obtain r1 w1 where m: "m w = (r1, w1)" by fastforce
  obtain s1 where s1: "enrollment_step\<^sup>*\<^sup>* s s1" "ew_table s1 = table w1" "set (ew_read s) \<subseteq> set (ew_read s1)"
    by (rule runsD [OF assms(1) s m])
  show "\<exists>s'. enrollment_step\<^sup>*\<^sup>* s s' \<and> ew_table s' = table w' \<and> set (ew_read s) \<subseteq> set (ew_read s')"
  proof (cases r1)
    case (Inl e)
    with m run have "w' = w1" by (simp add: bindM_def)
    with s1 show ?thesis by blast
  next
    case (Inr x)
    with m run have f: "f x w1 = (r, w')" by (simp add: bindM_def)
    have "K \<subseteq> set (ew_read s1)" using s(2) s1(3) by blast
    from runsD [OF assms(2) [OF m [unfolded Inr]] s1(2) this f] obtain s2 where
      "enrollment_step\<^sup>*\<^sup>* s1 s2" "ew_table s2 = table w'" "set (ew_read s1) \<subseteq> set (ew_read s2)" .
    with s1 show ?thesis by (meson rtranclp_trans subset_trans)
  qed
qed

lemma runs_bindM [runs_intro]: "runs table K m \<Longrightarrow> (\<And>x. runs table K (f x)) \<Longrightarrow> runs table K (bindM m f)"
  by (rule runs_bindM_value)

lemma runs_thenM [runs_intro]: "runs table K m \<Longrightarrow> runs table K k \<Longrightarrow> runs table K (thenM m k)"
  unfolding thenM_def by (rule runs_bindM)

lemma runs_catchM [runs_intro]:
  assumes "runs table K m" "\<And>e. runs table K (h e)"
  shows "runs table K (catchM m h)"
proof (rule runsI)
  fix s :: enrollment_world and w r w' assume s: "ew_table s = table w" "K \<subseteq> set (ew_read s)" and run: "catchM m h w = (r, w')"
  obtain r1 w1 where m: "m w = (r1, w1)" by fastforce
  obtain s1 where s1: "enrollment_step\<^sup>*\<^sup>* s s1" "ew_table s1 = table w1" "set (ew_read s) \<subseteq> set (ew_read s1)"
    by (rule runsD [OF assms(1) s m])
  show "\<exists>s'. enrollment_step\<^sup>*\<^sup>* s s' \<and> ew_table s' = table w' \<and> set (ew_read s) \<subseteq> set (ew_read s')"
  proof (cases r1)
    case (Inr x)
    with m run have "w' = w1" by (simp add: catchM_def)
    with s1 show ?thesis by blast
  next
    case (Inl e)
    with m run have h: "h e w1 = (r, w')" by (simp add: catchM_def)
    have "K \<subseteq> set (ew_read s1)" using s(2) s1(3) by blast
    from runsD [OF assms(2) s1(2) this h] obtain s2 where
      "enrollment_step\<^sup>*\<^sup>* s1 s2" "ew_table s2 = table w'" "set (ew_read s1) \<subseteq> set (ew_read s2)" .
    with s1 show ?thesis by (meson rtranclp_trans subset_trans)
  qed
qed

lemma runs_pure [runs_intro]:
  "runs table K (ret x)" "runs table K (raise e)" "runs table K (liftE v)" "runs table K (throwIf b e)"
  "runs table K (orRaise u e)"
  by (intro runs_keeps keeps_intro)+

lemma runs_whenM [runs_intro]: "(b \<Longrightarrow> runs table K m) \<Longrightarrow> runs table K (whenM b m)"
  by (simp add: whenM_def runs_pure)

lemma runs_If [runs_intro]:
  "(b \<Longrightarrow> runs table K m) \<Longrightarrow> (\<not> b \<Longrightarrow> runs table K k) \<Longrightarrow> runs table K (if b then m else k)"
  by simp

lemma runs_case_option [runs_intro]:
  "(x = None \<Longrightarrow> runs table K m) \<Longrightarrow> (\<And>y. x = Some y \<Longrightarrow> runs table K (f y)) \<Longrightarrow>
   runs table K (case x of None \<Rightarrow> m | Some y \<Rightarrow> f y)"
  by (cases x) auto

lemma runs_case_prod [runs_intro]:
  "(\<And>a b. p = (a, b) \<Longrightarrow> runs table K (f a b)) \<Longrightarrow> runs table K (case p of (a, b) \<Rightarrow> f a b)"
  by (cases p) auto

lemma runs_mono: "runs table K m \<Longrightarrow> K \<subseteq> L \<Longrightarrow> runs table L m"
  unfolding runs_def by (meson subset_trans)

context dynamo
begin

text \<open>A transaction that is a step of the protocol, whatever the answer to it.\<close>

lemma runs_transact:
  assumes "\<And>s t'. K \<subseteq> set (ew_read s) \<Longrightarrow> committed acts (ew_table s) t' \<Longrightarrow>
    enrollment_step s (s\<lparr>ew_table := t'\<rparr>)"
  shows "runs table K (sv_transactWrite S acts)"
proof (rule runsI)
  fix s :: enrollment_world and w r w' assume s: "ew_table s = table w" "K \<subseteq> set (ew_read s)" and run: "sv_transactWrite S acts w = (r, w')"
  show "\<exists>s'. enrollment_step\<^sup>*\<^sup>* s s' \<and> ew_table s' = table w' \<and> set (ew_read s) \<subseteq> set (ew_read s')"
  proof (rule transact_cases [OF run])
    assume "table w' = table w"
    with s show ?thesis by (intro exI [of _ s]) simp
  next
    assume "committed acts (table w) (table w')"
    with assms s have "enrollment_step s (s\<lparr>ew_table := table w'\<rparr>)" by simp
    then show ?thesis by (intro exI [of _ "s\<lparr>ew_table := table w'\<rparr>"]) simp
  qed
qed

lemma runs_write:
  assumes "\<And>s t'. K \<subseteq> set (ew_read s) \<Longrightarrow> committed [a] (ew_table s) t' \<Longrightarrow>
    enrollment_step s (s\<lparr>ew_table := t'\<rparr>)"
  shows "runs table K (sv_write S a)"
proof (rule runsI)
  fix s :: enrollment_world and w r w' assume s: "ew_table s = table w" "K \<subseteq> set (ew_read s)" and run: "sv_write S a w = (r, w')"
  show "\<exists>s'. enrollment_step\<^sup>*\<^sup>* s s' \<and> ew_table s' = table w' \<and> set (ew_read s) \<subseteq> set (ew_read s')"
  proof (rule write_cases [OF run])
    assume "table w' = table w"
    with s show ?thesis by (intro exI [of _ s]) simp
  next
    assume "committed [a] (table w) (table w')"
    with assms s have "enrollment_step s (s\<lparr>ew_table := table w'\<rparr>)" by simp
    then show ?thesis by (intro exI [of _ "s\<lparr>ew_table := table w'\<rparr>"]) simp
  qed
qed

lemma runs_foreign:
  "(\<And>a. a \<in> set acts \<Longrightarrow> enrollment_foreign a) \<Longrightarrow> runs table K (sv_transactWrite S acts)"
  "enrollment_foreign a \<Longrightarrow> runs table K (sv_write S a)"
  by (rule runs_transact, rule es_other; simp) (rule runs_write, rule es_other [where acts = "[a]"]; simp)

lemma enrollment_reads_keep [keeps_intro]:
  "keeps table (getTruststoreRoot S f)" "keeps table (getIssuer S)" "keeps table (getEnrollment S op)"
  "keeps table (getTruststoreState S)" "keeps table (getPendingEnrollmentForConsumer S c)"
  unfolding getTruststoreRoot_def getIssuer_def getEnrollment_def getTruststoreState_def
    getPendingEnrollmentForConsumer_def
  by (intro keeps_intro service_keeps reads_keep_table)+

lemma truststore_pages_keep [keeps_intro]: "keeps table (truststore_pages n S op start)"
proof (induction n arbitrary: start)
  case (Suc n)
  show ?case by simp (intro keeps_intro service_keeps Suc)
qed (simp add: keeps_ret)

lemma listTruststoreRoots_keeps [keeps_intro]: "keeps table (listTruststoreRoots n S op)"
  unfolding listTruststoreRoots_def by (intro keeps_intro)

text \<open>Reading an enrollment record is a step.\<close>

lemma runs_getEnrollment:
  assumes "\<And>e. runs table (insert e K) (f (Some e))" "runs table K (f None)"
  shows "runs table K (bindM (getEnrollment S op) f)"
proof (rule runsI)
  fix s :: enrollment_world and w r w' assume s: "ew_table s = table w" "K \<subseteq> set (ew_read s)" and run: "bindM (getEnrollment S op) f w = (r, w')"
  obtain r1 w1 where g: "getEnrollment S op w = (r1, w1)" by fastforce
  have t1: "table w1 = table w" using keepsD [OF enrollment_reads_keep(3) g] .
  show "\<exists>s'. enrollment_step\<^sup>*\<^sup>* s s' \<and> ew_table s' = table w' \<and> set (ew_read s) \<subseteq> set (ew_read s')"
  proof (cases r1)
    case (Inl e)
    with g run s t1 show ?thesis by (intro exI [of _ s]) (simp add: bindM_def)
  next
    case (Inr x)
    with g run have f: "f x w1 = (r, w')" by (simp add: bindM_def)
    have x: "x = enrollment_of (table w) op"
      using g unfolding Inr getEnrollment_def enrollment_of_def by (auto simp: em_ok dest: get_item)
    show ?thesis
    proof (cases x)
      case None
      have "ew_table s = table w1" using s t1 by simp
      from runsD [OF assms(2) this s(2) f [unfolded None]] show ?thesis by blast
    next
      case (Some e)
      let ?s = "s\<lparr>ew_read := e # ew_read s\<rparr>"
      have st: "enrollment_step s ?s" using x Some s by (intro es_read [of _ op]) simp
      have "ew_table ?s = table w1" "insert e K \<subseteq> set (ew_read ?s)" using s t1 by auto
      from runsD [OF assms(1) this f [unfolded Some]] obtain s2 where
        "enrollment_step\<^sup>*\<^sup>* ?s s2" "ew_table s2 = table w'" "set (ew_read ?s) \<subseteq> set (ew_read s2)" .
      with st show ?thesis by (auto intro: converse_rtranclp_into_rtranclp)
    qed
  qed
qed

lemma runs_startEnrollment [runs_intro]: "issued_for p \<Longrightarrow> runs table K (startEnrollment S p)"
  unfolding startEnrollment_def by (intro runs_intro runs_transact es_start)

lemma runs_truststore_lease [runs_intro]:
  "runs table K (acquireTruststoreLease S op expiresAt)" "runs table K (recordTruststoreBundle S op ob roots)"
proof -
  show "runs table K (acquireTruststoreLease S op expiresAt)"
    unfolding acquireTruststoreLease_def
    by (intro runs_intro runs_keeps [OF now_keeps]) (rule runs_write, erule es_lease)
  show "runs table K (recordTruststoreBundle S op ob roots)"
    unfolding recordTruststoreBundle_def by (rule runs_write) (erule es_bundle)
qed

lemma runs_completeEnrollment:
  "e \<in> K \<Longrightarrow> runs table K (completeEnrollment S e ob roots)"
  unfolding completeEnrollment_def by (intro runs_intro runs_transact es_complete) auto

lemma runs_failEnrollment: "e \<in> K \<Longrightarrow> runs table K (failEnrollment S e)"
  unfolding failEnrollment_def by (intro runs_transact es_fail) auto

lemma runs_createApiIdentity [runs_intro]: "runs table K (createApiIdentity S a k d x root)"
  unfolding createApiIdentity_def by (intro runs_intro runs_transact es_rotate)

lemma runs_revokeApiIdentity [runs_intro]: "runs table K (revokeApiIdentity S a k d c f)"
  unfolding revokeApiIdentity_def by (intro runs_intro runs_transact es_revoke)

end

section \<open>The service\<close>

text \<open>The API Gateway does not touch the control table.\<close>

locale enrollment_services = issuer_services S X table
  for S :: "'w services" and X :: "'w pki" and table :: "'w \<Rightarrow> table" +
  fixes G :: "'w gateway"
  assumes getDomainName_keeps: "keeps table (gw_getDomainName G d)"
    and updateDomainName_keeps: "keeps table (gw_updateDomainName G d uri v)"
    and delay_keeps: "keeps table (gw_delay G ms)"

lemma foreign_keys_of_issuer:
  "enrollment_foreign (root_action issuer env)" "a \<in> set (issuer_actions issuer env) \<Longrightarrow> enrollment_foreign a"
  by (auto simp: enrollment_foreign_def issuer_actions_def root_action_def issuerKey_def truststoreRootsPk_def
      truststoreStateKey_def key_defs)

lemma foreign_request: "enrollment_foreign (Put (idempotencyPk a, requestSk k) i c)"
  by (simp add: enrollment_foreign_def)

context enrollment_services
begin

lemma putImmutableOrGet_keeps [keeps_intro]: "keeps table (putImmutableOrGet S b k d)"
proof -
  have "keeps table (case (so_versionId existing, so_body existing) of
              (Some v, Some contents) \<Rightarrow>
                if sv_sha256Doc S contents \<noteq> sv_sha256Doc S d then raise error
                else ret \<lparr>o_bucket = b, o_key = k, o_versionId = v, o_checksumSha256 = sv_sha256Doc S d\<rparr>
            | _ \<Rightarrow> raise error)" for existing error
    by (auto split: option.split intro!: keeps_intro)
  then show ?thesis unfolding putImmutableOrGet_def by (intro keeps_intro service_keeps)
qed

lemma issuer_keys_keep [keeps_intro]:
  "keeps table (encryptPrivateKey S X k)" "keeps table (decryptPrivateKey S X envelope)"
  "keeps table (randomSerialNumber X)" "keeps table (issueLeaf S X root pk csr c u)"
proof -
  have "keeps table (case r of (Some key, Some blob) \<Rightarrow> bindM (sv_randomIv S) (\<lambda>iv.
            (let sealed = pki_seal X key iv issuerEncryptionContext k
             in ret \<lparr>ik_algorithm = ''AES-256-GCM'', ik_encryptedDataKey = blob,
                     ik_iv = iv, ik_tag = snd sealed, ik_ciphertext = fst sealed\<rparr>))
      | _ \<Rightarrow> raise e)" for r e
    by (auto simp: Let_def split: prod.split option.split intro!: keeps_intro service_keeps)
  then show "keeps table (encryptPrivateKey S X k)"
    unfolding encryptPrivateKey_def by (intro keeps_intro service_keeps)
  show "keeps table (decryptPrivateKey S X envelope)"
    unfolding decryptPrivateKey_def by (intro keeps_intro service_keeps)
  show serial: "keeps table (randomSerialNumber X)"
    unfolding randomSerialNumber_def by (intro keeps_intro randomBytes_keeps)
  show "keeps table (issueLeaf S X root pk csr c u)"
    unfolding issueLeaf_def by (intro keeps_intro service_keeps serial)
qed

lemma polls_keep: "keeps table (truststore_polls n G d uri v)"
proof (induction n)
  case (Suc n)
  show ?case by (simp add: Let_def) (intro keeps_intro getDomainName_keeps delay_keeps Suc)
qed (simp only: truststore_polls.simps keeps_raise)

lemma publish_keeps [keeps_intro]: "keeps table (publishTruststore cfg G key v)"
  unfolding publishTruststore_def Let_def
  by (intro keeps_intro getDomainName_keeps updateDomainName_keeps polls_keep)

lemma runs_issuer [runs_intro]:
  "runs table K (ensureIssuerTruststoreRoot S issuer env)" "runs table K (createIssuer S issuer env)"
proof -
  show root: "runs table K (ensureIssuerTruststoreRoot S i env)" for i
    unfolding ensureIssuerTruststoreRoot_def
    by (intro runs_intro runs_foreign foreign_keys_of_issuer runs_keeps enrollment_reads_keep)
  show "runs table K (createIssuer S issuer env)"
    unfolding createIssuer_def
    by (intro runs_intro runs_foreign foreign_keys_of_issuer runs_keeps [OF enrollment_reads_keep(2)] root)
qed

lemma runs_getOrCreateIssuer [runs_intro]: "runs table K (getOrCreateIssuer S cfg X)"
  unfolding getOrCreateIssuer_def Let_def
  by (intro runs_intro runs_keeps [OF enrollment_reads_keep(2)] runs_keeps [OF now_keeps]
      runs_keeps [OF generateKeyPair_keeps] runs_keeps [OF issuer_keys_keep(3)] runs_keeps [OF issuer_keys_keep(1)])

lemma runs_issuerFingerprint [runs_intro]: "runs table K (issuerFingerprint S cfg X)"
  unfolding issuerFingerprint_def by (intro runs_intro)

lemma runs_issueApiIdentity [runs_intro]: "runs table K (issueApiIdentity S cfg X c env csr)"
  unfolding issueApiIdentity_def Let_def
  by (intro runs_intro runs_keeps [OF issuer_keys_keep(2)] runs_keeps [OF issuer_keys_keep(4)])

lemma runs_resume_truststore [runs_intro]: "runs table K (resume_truststore pages S cfg e)"
  unfolding resume_truststore_def createTruststoreBundle_def Let_def
  by (intro runs_intro runs_keeps [OF listTruststoreRoots_keeps] runs_keeps [OF enrollment_reads_keep(4)]
      runs_keeps [OF putImmutableOrGet_keeps])

lemma runs_rollback: "e \<in> K \<Longrightarrow> runs table K (rollbackRejectedTruststore S cfg G e)"
  unfolding rollbackRejectedTruststore_def
  by (intro runs_intro runs_keeps [OF enrollment_reads_keep(4)] runs_failEnrollment)
    (auto split: option.split intro!: runs_intro runs_keeps publish_keeps)

lemma runs_completed_by_other [runs_intro]: "runs table K (completed_by_other S e error)"
  unfolding completed_by_other_def by (intro runs_intro runs_keeps [OF enrollment_reads_keep(3)])

lemma runs_published:
  "e \<in> K \<Longrightarrow> runs table K (catchM (publishTruststore cfg G key v) (\<lambda>error.
     thenM (whenM (error = TruststoreRejected) (rollbackRejectedTruststore S cfg G e)) (raise error)))"
  by (intro runs_intro runs_keeps [OF publish_keeps] runs_rollback)

lemma runs_resume_pending: "e \<in> K \<Longrightarrow> runs table K (resume_pending pages S cfg G e)"
  unfolding resume_pending_def
  by (intro runs_bindM runs_thenM runs_case_prod runs_keeps [OF now_keeps] runs_truststore_lease
      runs_resume_truststore runs_published runs_catchM runs_completeEnrollment runs_completed_by_other)

lemma runs_resume [runs_intro]: "runs table K (resume pages S cfg G op)"
  unfolding resume_def by (rule runs_getEnrollment; simp add: runs_pure runs_resume_pending)

lemma runs_recorded [runs_intro]: "runs table K (resume_recorded pages S cfg G d r)"
proof -
  have "runs table K (stringField v)" for v
    unfolding stringField_def by (intro runs_intro)
  then show ?thesis unfolding resume_recorded_def assertIdempotency_def by (intro runs_intro)
qed

lemma runs_or_resume_winner:
  "runs table K write \<Longrightarrow> runs table K (or_resume_winner pages S cfg G input d op write)"
  unfolding or_resume_winner_def by (intro runs_intro runs_keeps [OF reads_keep_table(14)])

lemma runs_associate [runs_intro]: "runs table K (associateEnrollmentIdempotency S e a k)"
  unfolding associateEnrollmentIdempotency_def by (intro runs_intro runs_foreign foreign_request)

lemma runs_enroll: "runs table K (enroll pages S cfg X G input)"
proof -
  have issued: "issued_for (prepared_enrollment input d i op now t)"
    if "issueApiIdentity S cfg X (ei_consumerId input) (ei_environment input) (ei_csrPem input) w = (Inr i, w')"
    for d i op now t w w'
    using issueApiIdentity_ok(1) [OF that] by (simp add: issued_for_def prepared_enrollment_def)
  have new: "runs table K (bindM (issueApiIdentity S cfg X (ei_consumerId input) (ei_environment input) (ei_csrPem input)) (\<lambda>issued.
                  bindM (sv_now S) (\<lambda>now.
                  bindM (sv_newId S) (\<lambda>operationId.
                  bindM (sv_now S) (\<lambda>t.
                    or_resume_winner pages S cfg G input d operationId
                      (startEnrollment S (prepared_enrollment input d issued operationId now t)))))))" for d
    by (rule runs_bindM_value [OF runs_issueApiIdentity])
      (intro runs_bindM runs_keeps [OF now_keeps] runs_keeps [OF newId_keeps] runs_or_resume_winner
        runs_startEnrollment issued)
  show ?thesis
    unfolding enroll_def startOrResume_def Let_def environments_require_def requireEnvironment_def
    by (intro new runs_intro runs_keeps [OF get_keeps] runs_keeps [OF reads_keep_table(14)]
        runs_keeps [OF enrollment_reads_keep(5)] runs_or_resume_winner)
qed

lemma runs_rotate: "runs table K (rotateApiIdentity S cfg X input)"
proof -
  have sf: "runs table K (stringField v)" for v
    unfolding stringField_def by (intro runs_intro)
  have again: "runs table K (idempotentApiIdentityResult S r d c e)" for r d c e
    unfolding idempotentApiIdentityResult_def assertIdempotency_def
    by (intro runs_intro sf runs_keeps [OF reads_keep_table(7)])
  show ?thesis
    unfolding rotateApiIdentity_def Let_def
    by (intro runs_intro again runs_keeps [OF reads_keep_table(8)] runs_keeps [OF reads_keep_table(14)])
qed

lemma runs_revoke: "runs table K (consumers_revokeApiIdentity S input)"
  unfolding consumers_revokeApiIdentity_def Let_def assertIdempotency_def
  by (intro runs_intro runs_keeps [OF reads_keep_table(7)] runs_keeps [OF reads_keep_table(14)])

end

section \<open>What a returned enrollment has reached\<close>

text \<open>\<open>ensures table K Q m\<close>: a run of m from a reachable state that returns x leaves a table with Q.\<close>

definition ensures ::
  "('w \<Rightarrow> table) \<Rightarrow> EnrollmentItem set \<Rightarrow> ('a \<Rightarrow> table \<Rightarrow> bool) \<Rightarrow> ('w, 'a) app \<Rightarrow> bool" where
  "ensures table K Q m \<longleftrightarrow> (\<forall>s w x w'. enrollment_reachable s \<longrightarrow> ew_table s = table w \<longrightarrow> K \<subseteq> set (ew_read s)
     \<longrightarrow> m w = (Inr x, w') \<longrightarrow> Q x (table w'))"

lemma ensuresI:
  assumes "\<And>s w x w'. enrollment_reachable s \<Longrightarrow> ew_table s = table w \<Longrightarrow> K \<subseteq> set (ew_read s) \<Longrightarrow>
    m w = (Inr x, w') \<Longrightarrow> Q x (table w')"
  shows "ensures table K Q m"
  using assms by (simp add: ensures_def)

lemma ensuresD:
  "ensures table K Q m \<Longrightarrow> enrollment_reachable s \<Longrightarrow> ew_table s = table w \<Longrightarrow> K \<subseteq> set (ew_read s) \<Longrightarrow>
   m w = (Inr x, w') \<Longrightarrow> Q x (table w')"
  unfolding ensures_def by blast

lemma ensures_after_value:
  assumes "runs table K m" "\<And>w x w'. m w = (Inr x, w') \<Longrightarrow> ensures table K Q (f x)"
  shows "ensures table K Q (bindM m f)"
proof (rule ensuresI)
  fix s :: enrollment_world and w x w'
  assume s: "enrollment_reachable s" "ew_table s = table w" "K \<subseteq> set (ew_read s)" and "bindM m f w = (Inr x, w')"
  then obtain y w1 where m: "m w = (Inr y, w1)" and f: "f y w1 = (Inr x, w')" unfolding bindM_ok by blast
  obtain s1 where s1: "enrollment_step\<^sup>*\<^sup>* s s1" "ew_table s1 = table w1" "set (ew_read s) \<subseteq> set (ew_read s1)"
    by (rule runsD [OF assms(1) s(2,3) m])
  have "enrollment_reachable s1" by (rule enrollment_steps_reachable [OF s1(1) s(1)])
  from ensuresD [OF assms(2) [OF m] this s1(2) _ f] s(3) s1(3) show "Q x (table w')" by blast
qed

lemma ensures_after:
  "runs table K m \<Longrightarrow> (\<And>x. ensures table K Q (f x)) \<Longrightarrow> ensures table K Q (bindM m f)"
  by (rule ensures_after_value)

lemma ensures_catchM:
  assumes "runs table K m" "ensures table K Q m" "\<And>e. ensures table K Q (h e)"
  shows "ensures table K Q (catchM m h)"
proof (rule ensuresI)
  fix s :: enrollment_world and w x w'
  assume s: "enrollment_reachable s" "ew_table s = table w" "K \<subseteq> set (ew_read s)" and run: "catchM m h w = (Inr x, w')"
  from run [unfolded catchM_ok] consider "m w = (Inr x, w')" | e w1 where "m w = (Inl e, w1)" "h e w1 = (Inr x, w')"
    by blast
  then show "Q x (table w')"
  proof cases
    case 1
    show ?thesis by (rule ensuresD [OF assms(2) s 1])
  next
    case 2
    obtain s1 where s1: "enrollment_step\<^sup>*\<^sup>* s s1" "ew_table s1 = table w1" "set (ew_read s) \<subseteq> set (ew_read s1)"
      by (rule runsD [OF assms(1) s(2,3) 2(1)])
    have "enrollment_reachable s1" by (rule enrollment_steps_reachable [OF s1(1) s(1)])
    from ensuresD [OF assms(3) this s1(2) _ 2(2)] s(3) s1(3) show ?thesis by blast
  qed
qed

text \<open>What the second part leaves, or hands on from the first.\<close>

lemma ensures_bindM:
  assumes "runs table K m" "ensures table K P m"
    and "\<And>x. ensures table K Q (f x) \<or> (\<exists>y. f x = ret y \<and> (\<forall>t. P x t \<longrightarrow> Q y t))"
  shows "ensures table K Q (bindM m f)"
proof (rule ensuresI)
  fix s :: enrollment_world and w x w'
  assume s: "enrollment_reachable s" "ew_table s = table w" "K \<subseteq> set (ew_read s)" and run: "bindM m f w = (Inr x, w')"
  from run obtain y w1 where m: "m w = (Inr y, w1)" and f: "f y w1 = (Inr x, w')" unfolding bindM_ok by blast
  from assms(3) [of y] show "Q x (table w')"
  proof
    assume Q: "ensures table K Q (f y)"
    obtain s1 where s1: "enrollment_step\<^sup>*\<^sup>* s s1" "ew_table s1 = table w1" "set (ew_read s) \<subseteq> set (ew_read s1)"
      by (rule runsD [OF assms(1) s(2,3) m])
    have "enrollment_reachable s1" by (rule enrollment_steps_reachable [OF s1(1) s(1)])
    from ensuresD [OF Q this s1(2) _ f] s(3) s1(3) show ?thesis by blast
  next
    assume "\<exists>z. f y = ret z \<and> (\<forall>t. P y t \<longrightarrow> Q z t)"
    with f have "w' = w1" "\<And>t. P y t \<Longrightarrow> Q x t" by auto
    with ensuresD [OF assms(2) s m] show ?thesis by simp
  qed
qed

lemma ensures_thenM: "runs table K m \<Longrightarrow> ensures table K Q k \<Longrightarrow> ensures table K Q (thenM m k)"
  unfolding thenM_def by (rule ensures_after)

lemma ensures_result:
  assumes "ensures table K P m" "\<And>x t. P x t \<Longrightarrow> Q (g x) t"
  shows "ensures table K Q (bindM m (\<lambda>x. ret (g x)))"
  by (rule ensuresI) (auto simp: bindM_ok intro: assms(2) ensuresD [OF assms(1)])

lemma ensures_raise: "ensures table K Q (raise e)"
  by (simp add: ensures_def)

lemma ensures_case_option:
  "(x = None \<Longrightarrow> ensures table K Q m) \<Longrightarrow> (\<And>y. x = Some y \<Longrightarrow> ensures table K Q (f y)) \<Longrightarrow>
   ensures table K Q (case x of None \<Rightarrow> m | Some y \<Rightarrow> f y)"
  by (cases x) auto

lemma ensures_case_prod:
  "(\<And>a b. p = (a, b) \<Longrightarrow> ensures table K Q (f a b)) \<Longrightarrow> ensures table K Q (case p of (a, b) \<Rightarrow> f a b)"
  by (cases p) auto

definition completed_as :: "ConsumerProvisioningResult \<Rightarrow> table \<Rightarrow> bool" where
  "completed_as result t \<longleftrightarrow> (\<exists>p e. enrollment_of t p = Some e \<and> e_workflowState e = W_READY
     \<and> result = activeResult e)"

lemma activeResult_core: "operation_core e = operation_core y \<Longrightarrow> activeResult e = activeResult y"
  by (cases e; cases y) (simp add: operation_core_def activeResult_def)

lemma complete_completed:
  assumes s: "enrollment_reachable s" "e \<in> set (ew_read s)"
    and com: "committed (complete_enrollment_actions e ob roots) (ew_table s) t'"
  shows "completed_as (activeResult e) t'"
proof -
  have com': "committed ([identity_end e I_ACTIVE, operation_end e W_READY, truststore_end e (publish_state ob roots)]
      @ drop 3 (complete_enrollment_actions e ob roots)) (ew_table s) t'"
    using com by (simp add: complete_enrollment_actions_def)
  have rest: "\<exists>c. action_key a = (consumerPk c, ''PROFILE'')"
    if "a \<in> set (drop 3 (complete_enrollment_actions e ob roots))" for a
    using that by (auto simp: complete_enrollment_actions_def split: if_splits)
  obtain y where y: "enrollment_of (ew_table s) (e_operationId e) = Some y"
    "enrollment_of t' = (enrollment_of (ew_table s))(e_operationId e
        \<mapsto> y\<lparr>e_workflowState := W_READY, e_workflowDue := None\<rparr>)"
    using end_views(2) [OF com' rest] by blast
  have "operation_core e = operation_core y"
    using enrollment_reachable_inv [OF s(1)] s(2) y(1) reads_agreeD unfolding enrollment_inv_def by blast
  then have "activeResult e = activeResult (y\<lparr>e_workflowState := W_READY, e_workflowDue := None\<rparr>)"
    by (intro activeResult_core) (simp add: operation_core_def)
  then show ?thesis
    unfolding completed_as_def
    by (intro exI [of _ "e_operationId e"] exI [of _ "y\<lparr>e_workflowState := W_READY, e_workflowDue := None\<rparr>"])
      (simp add: y(2))
qed

context enrollment_services
begin

lemma getEnrollment_value: "getEnrollment S op w = (Inr x, w') \<Longrightarrow> x = enrollment_of (table w) op \<and> table w' = table w"
  by (auto simp: getEnrollment_def enrollment_of_def em_ok dest: get_item get_run)

lemma ensures_completed_by_other: "ensures table K completed_as (completed_by_other S e error)"
proof (rule ensuresI)
  fix w x w'
  assume "completed_by_other S e error w = (Inr x, w')"
  then obtain v where v: "getEnrollment S (e_operationId e) w = (Inr v, w')"
    and r: "\<exists>l. v = Some l \<and> e_workflowState l = W_READY \<and> x = activeResult l"
    by (auto simp: completed_by_other_def bindM_ok split: option.splits if_splits)
  from getEnrollment_value [OF v] r show "completed_as x (table w')" unfolding completed_as_def by metis
qed

lemma ensures_complete:
  assumes "e \<in> K"
  shows "ensures table K completed_as
    (catchM (completeEnrollment S e truststore fps) (completed_by_other S e))" (is "ensures table K _ (catchM ?m ?h)")
proof (rule ensuresI)
  fix s :: enrollment_world and w x w'
  assume s: "enrollment_reachable s" "ew_table s = table w" "K \<subseteq> set (ew_read s)"
    and run: "catchM ?m ?h w = (Inr x, w')"
  from run [unfolded catchM_ok] consider "?m w = (Inr x, w')"
    | e' w1 where "?m w = (Inl e', w1)" "?h e' w1 = (Inr x, w')" by blast
  then show "completed_as x (table w')"
  proof cases
    case 1
    then obtain u where "sv_transactWrite S (complete_enrollment_actions e truststore fps) w = (Inr u, w')"
      "x = activeResult e" unfolding completeEnrollment_def thenM_ok by auto
    with complete_completed [OF s(1)] s(2,3) assms transact_done show ?thesis by (metis subsetD)
  next
    case 2
    obtain s1 where s1: "enrollment_step\<^sup>*\<^sup>* s s1" "ew_table s1 = table w1"
      by (rule runsD [OF runs_completeEnrollment [OF assms] s(2,3) 2(1)])
    have "enrollment_reachable s1" by (rule enrollment_steps_reachable [OF s1(1) s(1)])
    from ensuresD [OF ensures_completed_by_other this s1(2) _ 2(2), of "{}"] show ?thesis by simp
  qed
qed

lemma ensures_resume_pending: "e \<in> K \<Longrightarrow> ensures table K completed_as (resume_pending pages S cfg G e)"
  unfolding resume_pending_def
  by (intro ensures_after ensures_thenM ensures_case_prod runs_keeps [OF now_keeps] runs_truststore_lease
      runs_resume_truststore runs_published ensures_complete)

lemma ensures_resume [ensures_intro]: "ensures table K completed_as (resume pages S cfg G op)"
proof (rule ensuresI)
  fix s :: enrollment_world and w x w'
  assume s: "enrollment_reachable s" "ew_table s = table w" and run: "resume pages S cfg G op w = (Inr x, w')"
  obtain v w1 where g: "getEnrollment S op w = (Inr v, w1)" using run unfolding resume_def bindM_ok by blast
  note v = getEnrollment_value [OF g]
  from run g obtain e where e: "v = Some e" unfolding resume_def by (cases v) (auto simp: bindM_def)
  from run g e consider "e_workflowState e = W_READY" "x = activeResult e" "w' = w1"
    | "resume_pending pages S cfg G e w1 = (Inr x, w')"
    unfolding resume_def by (auto simp: bindM_def split: if_splits)
  then show "completed_as x (table w')"
  proof cases
    case 1
    with v e show ?thesis unfolding completed_as_def by metis
  next
    case 2
    let ?s = "s\<lparr>ew_read := e # ew_read s\<rparr>"
    have "enrollment_step s ?s" using v e s(2) by (intro es_read [of _ op]) simp
    then have "enrollment_reachable ?s" by (rule er_step [OF s(1)])
    moreover have "ew_table ?s = table w1" "{e} \<subseteq> set (ew_read ?s)" using v s(2) by simp_all
    ultimately show ?thesis by (rule ensuresD [OF ensures_resume_pending [OF singletonI] _ _ _ 2])
  qed
qed

lemma ensures_then_result:
  "ensures table K completed_as m \<Longrightarrow>
   ensures table K (\<lambda>res. completed_as (co_result res))
     (bindM m (\<lambda>result. ret \<lparr>co_result = result, co_shouldWriteTerminalAudit = b\<rparr>))"
  by (erule ensures_result) simp

lemma ensures_recorded [ensures_intro]:
  "ensures table K (\<lambda>res. completed_as (co_result res)) (resume_recorded pages S cfg G d r)"
proof -
  have "runs table K (stringField v)" for v
    unfolding stringField_def by (intro runs_intro)
  moreover have "runs table K (assertIdempotency r d t)" for t
    unfolding assertIdempotency_def by (intro runs_intro)
  ultimately show ?thesis
    unfolding resume_recorded_def by (intro ensures_thenM ensures_after ensures_then_result ensures_resume)
qed

lemma ensures_or_resume_winner:
  assumes w: "runs table K write"
  shows "ensures table K (\<lambda>res. completed_as (co_result res)) (or_resume_winner pages S cfg G input d op write)"
proof -
  let ?Q = "\<lambda>res. completed_as (co_result res)"
  have recorded: "ensures table K (case_option (\<lambda>t. True) ?Q)
      (bindM (resume_recorded pages S cfg G d r) (\<lambda>result. ret (Some result)))" for r
    by (rule ensures_result [OF ensures_recorded]) simp
  have lost: "ensures table K (case_option (\<lambda>t. True) ?Q)
      (bindM (getIdempotency S (ei_actor input) (ei_idempotencyKey input)) (\<lambda>winner. (case winner of
            None \<Rightarrow> raise error
          | Some r \<Rightarrow> bindM (resume_recorded pages S cfg G d r) (\<lambda>result. ret (Some result)))))" for error
    by (intro ensures_after ensures_case_option ensures_raise recorded runs_keeps [OF reads_keep_table(14)])
  have won: "ensures table K (case_option (\<lambda>t. True) ?Q) (thenM write (ret None))"
    by (rule ensures_thenM [OF w]) (simp add: ensures_def)
  show ?thesis
    unfolding or_resume_winner_def
  proof (rule ensures_bindM [OF _ ensures_catchM [OF _ won lost]])
    show "runs table K (thenM write (ret None))" by (intro runs_intro w)
    show "runs table K (catchM (thenM write (ret None)) (\<lambda>error.
         bindM (getIdempotency S (ei_actor input) (ei_idempotencyKey input)) (\<lambda>winner. (case winner of
            None \<Rightarrow> raise error
          | Some r \<Rightarrow> bindM (resume_recorded pages S cfg G d r) (\<lambda>result. ret (Some result))))))"
      by (intro w runs_intro runs_keeps [OF reads_keep_table(14)])
  qed (auto split: option.split intro!: ensures_then_result ensures_resume)
qed

lemma ensures_enroll:
  "ensures table K (\<lambda>res. completed_as (co_result res)) (enroll pages S cfg X G input)"
proof -
  let ?Q = "\<lambda>res. completed_as (co_result res)"
  have issued: "issued_for (prepared_enrollment input d i op now t)"
    if "issueApiIdentity S cfg X (ei_consumerId input) (ei_environment input) (ei_csrPem input) w = (Inr i, w')"
    for d i op now t w w'
    using issueApiIdentity_ok(1) [OF that] by (simp add: issued_for_def prepared_enrollment_def)
  have new: "ensures table K ?Q (bindM (issueApiIdentity S cfg X (ei_consumerId input) (ei_environment input) (ei_csrPem input)) (\<lambda>issued.
                  bindM (sv_now S) (\<lambda>now.
                  bindM (sv_newId S) (\<lambda>operationId.
                  bindM (sv_now S) (\<lambda>t.
                    or_resume_winner pages S cfg G input d operationId
                      (startEnrollment S (prepared_enrollment input d issued operationId now t)))))))" for d
    by (rule ensures_after_value [OF runs_issueApiIdentity])
      (intro ensures_after runs_keeps [OF now_keeps] runs_keeps [OF newId_keeps] ensures_or_resume_winner
        runs_startEnrollment issued)
  show ?thesis
    unfolding enroll_def startOrResume_def Let_def environments_require_def requireEnvironment_def
    by (intro ensures_thenM ensures_after ensures_case_option ensures_recorded new ensures_or_resume_winner
        runs_intro runs_keeps [OF get_keeps] runs_keeps [OF reads_keep_table(14)]
        runs_keeps [OF enrollment_reads_keep(5)])
qed

end

end
