(* ===== verification/Enrollment_Examples.thy ===== *)
theory Enrollment_Examples
  imports Consumer_Properties
begin

text \<open>
  An enrollment on the in-memory services: the issuer, its root and a published truststore exist, an
  operation has been prepared by a process that stopped there, and the same request takes it up again,
  up to the active consumer.
\<close>

interpretation ref_enrollment: enrollment_services ref_services ref_pki ref_table ref_gateway
  by unfold_locales (auto simp: ref_gateway_def keeps_def ref_table_def)

section \<open>The world before\<close>

definition nx_issuer :: IssuerRecord where
  "nx_issuer = \<lparr>is_rootCertificatePem = ''root-pem'', is_encryptedPrivateKey = \<lparr>ik_algorithm = ''AES-256-GCM'',
       ik_encryptedDataKey = ''blob'', ik_iv = ''iv'', ik_tag = ''tag'', ik_ciphertext = ''text''\<rparr>,
     is_fingerprint = ''root'', is_notBefore = 0, is_notAfter = 100000, is_createdAt = 0\<rparr>"

definition nx_truststore :: TruststoreStateRecord where
  "nx_truststore = no_truststore\<lparr>ts_currentTruststoreKey := Some ''key'', ts_currentTruststoreVersionId := Some ''1'',
     ts_currentTruststoreChecksumSha256 := Some ''sum'', ts_currentRootFingerprints := Some [''root'']\<rparr>"

definition nx_items :: "(dkey \<times> item) list" where
  "nx_items = [((environmentsPk, environmentSk ''prod''),
       EnvironmentIt \<lparr>env_name = ''prod'', env_createdAt = 1, env_createdBy = ex_actor\<rparr>),
     (issuerKey, IssuerIt nx_issuer),
     ((truststoreRootsPk, rootSk ''root''), TruststoreRootIt (issuer_root nx_issuer ''test'')),
     (truststoreStateKey, TruststoreStateIt nx_truststore)]"

definition nx_domain :: "(string \<times> string \<times> string) \<times> document" where
  "nx_domain = (gate_key ''dom'', PemDoc (enc_strs [''s3://trust/key'', ''1'', show_time 0]))"

definition nx_world :: "(dkey \<times> item) list \<Rightarrow> ref_world" where
  "nx_world items = \<lparr>rw_items = items, rw_objects = [nx_domain], rw_clock = 5000, rw_counter = 0\<rparr>"

definition nx_prepared :: PreparedEnrollment where
  "nx_prepared = \<lparr>pe_operationId = ''op1'', pe_operationType = ConsumerEnroll, pe_idempotencyKey = ''k1'',
     pe_actor = ex_actor, pe_requestDigest = ''digest'', pe_consumerId = ''con1'', pe_environment = ''prod'',
     pe_subjectUri = ''spiffe://hemlig/consumer/con1'', pe_rootFingerprint = ''root'',
     pe_apiIdentity = \<lparr>ai_fingerprint = ''f1'', ai_consumerId = ''con1'', ai_environment = ''prod'', ai_kind = K_api,
       ai_notBefore = 0, ai_notAfter = 90000, ai_certificatePem = ''cert1''\<rparr>,
     pe_createdAt = 1000, pe_expiresAt = 2000\<rparr>"

definition nx_input :: EnrollmentInput where
  "nx_input = \<lparr>ei_consumerId = ''con1'', ei_environment = ''prod'', ei_csrPem = csrHeader @ ''k1'',
     ei_actor = ex_actor, ei_idempotencyKey = ''k1''\<rparr>"

definition nx_started :: "(dkey \<times> item) list" where
  "nx_started = [((idempotencyPk ex_actor, requestSk ''k1''), IdempotencyIt (start_request nx_prepared)),
     ((identityPk ''f1'', ''PROFILE''), IdentityIt (identity_record (pe_apiIdentity nx_prepared) ''con1'' I_PENDING)),
     ((enrollmentPk ''op1'', ''STATE''), EnrollmentIt (start_operation nx_prepared)),
     ((consumerPk ''con1'', ''PROFILE''), ConsumerIt (start_consumer nx_prepared))] @ nx_items"

lemmas nx_keys = key_defs actorTypeText_def ex_actor_def issuerKey_def truststoreRootsPk_def rootSk_def
  truststoreStateKey_def nx_issuer_def

lemma nx_prepared_fields [simp]:
  "pe_operationId nx_prepared = ''op1''" "pe_operationType nx_prepared = ConsumerEnroll"
  "pe_idempotencyKey nx_prepared = ''k1''" "pe_actor nx_prepared = ex_actor"
  "pe_requestDigest nx_prepared = ''digest''" "pe_consumerId nx_prepared = ''con1''"
  "pe_environment nx_prepared = ''prod''" "pe_rootFingerprint nx_prepared = ''root''"
  "ai_fingerprint (pe_apiIdentity nx_prepared) = ''f1''"
  "ai_certificatePem (pe_apiIdentity nx_prepared) = ''cert1''"
  "ai_consumerId (pe_apiIdentity nx_prepared) = ''con1''"
  by (simp_all add: nx_prepared_def)

lemma nx_start: "ref_transactWrite (start_actions nx_prepared) (nx_world nx_items) = (Inr (), nx_world nx_started)"
  by (simp add: ref_transactWrite_def ref_conds_def ref_apply_def start_actions_def nx_world_def nx_items_def
      nx_started_def nx_keys List.map_filter_def)

definition nx_state :: "(dkey \<times> item) list \<Rightarrow> enrollment_world" where
  "nx_state items = \<lparr>ew_table = map_of items, ew_read = []\<rparr>"

lemma nx_table [simp]: "ref_table (nx_world items) = map_of items" "ew_table (nx_state items) = map_of items"
  by (simp_all add: ref_table_def nx_world_def nx_state_def)

lemma nx_reachable: "enrollment_reachable (nx_state nx_started)"
proof -
  have "enrollment_reachable (nx_state nx_items)"
    by (rule er_initial)
      (simp_all add: nx_state_def nx_items_def nx_keys enrollment_of_def identity_of_def consumer_of_def)
  moreover have "committed (start_actions nx_prepared) (map_of nx_items) (map_of nx_started)"
    using ref_dynamo.transact_done [of "start_actions nx_prepared" "nx_world nx_items" "()" "nx_world nx_started"]
      nx_start by (simp add: ref_services_def)
  moreover have "issued_for nx_prepared" by (simp add: issued_for_def)
  ultimately have "enrollment_step (nx_state nx_items) (nx_state nx_items\<lparr>ew_table := map_of nx_started\<rparr>)"
    by (intro es_start) simp_all
  then have "enrollment_step (nx_state nx_items) (nx_state nx_started)" by (simp add: nx_state_def)
  with \<open>enrollment_reachable (nx_state nx_items)\<close> show ?thesis by (rule er_step)
qed

section \<open>Taking the enrollment up again\<close>

definition nx_operation :: EnrollmentItem where
  "nx_operation = start_operation nx_prepared"

definition nx_rest :: "(dkey \<times> item) list" where
  "nx_rest = [((idempotencyPk ex_actor, requestSk ''k1''), IdempotencyIt (start_request nx_prepared))]"

definition nx_base :: "(dkey \<times> item) list" where
  "nx_base = [((environmentsPk, environmentSk ''prod''),
       EnvironmentIt \<lparr>env_name = ''prod'', env_createdAt = 1, env_createdBy = ex_actor\<rparr>),
     (issuerKey, IssuerIt nx_issuer),
     ((truststoreRootsPk, rootSk ''root''), TruststoreRootIt (issuer_root nx_issuer ''test''))]"

definition nx_leased :: "(dkey \<times> item) list" where
  "nx_leased = [(truststoreStateKey, TruststoreStateIt (nx_truststore\<lparr>ts_leaseOwner := Some ''op1'',
        ts_leaseExpiresAt := Some (5000 + enrollment_lease)\<rparr>))] @ nx_rest @
     [((identityPk ''f1'', ''PROFILE''), IdentityIt (identity_record (pe_apiIdentity nx_prepared) ''con1'' I_PENDING)),
      ((enrollmentPk ''op1'', ''STATE''), EnrollmentIt nx_operation),
      ((consumerPk ''con1'', ''PROFILE''), ConsumerIt (start_consumer nx_prepared))] @ nx_base"

definition nx_current :: ObjectReference where
  "nx_current = \<lparr>o_bucket = ''trust'', o_key = ''key'', o_versionId = ''1'', o_checksumSha256 = ''sum''\<rparr>"

definition nx_done :: "(dkey \<times> item) list" where
  "nx_done = [((identityPk ''f1'', ''PROFILE''), IdentityIt ((identity_record (pe_apiIdentity nx_prepared) ''con1'' I_PENDING)\<lparr>i_status := I_ACTIVE\<rparr>)),
     ((enrollmentPk ''op1'', ''STATE''), EnrollmentIt (nx_operation\<lparr>e_workflowState := W_READY, e_workflowDue := None\<rparr>)),
     (truststoreStateKey, TruststoreStateIt (release_truststore (publish_state nx_current [''root'']
        (nx_truststore\<lparr>ts_leaseOwner := Some ''op1'', ts_leaseExpiresAt := Some (5000 + enrollment_lease)\<rparr>)))),
     ((consumerPk ''con1'', ''PROFILE''), ConsumerIt ((start_consumer nx_prepared)\<lparr>cn_status := C_ACTIVE, cn_pendingEnrollmentOperationId := None\<rparr>))]
     @ nx_rest @ nx_base"

lemmas nx_lists = nx_started_def nx_items_def nx_leased_def nx_rest_def nx_base_def

lemma nx_get [simp]: "ref_get k (nx_world items) = (Inr (map_of items k), nx_world items)"
  by (simp add: ref_get_def)

lemma nx_at:
  "map_of nx_started (environmentsPk, environmentSk ''prod'')
     = Some (EnvironmentIt \<lparr>env_name = ''prod'', env_createdAt = 1, env_createdBy = ex_actor\<rparr>)"
  "map_of nx_started issuerKey = Some (IssuerIt nx_issuer)"
  "map_of nx_started (truststoreRootsPk, rootSk ''root'') = Some (TruststoreRootIt (issuer_root nx_issuer ''test''))"
  "map_of nx_started (idempotencyPk ex_actor, requestSk ''k1'') = Some (IdempotencyIt (start_request nx_prepared))"
  "map_of nx_started (enrollmentPk ''op1'', ''STATE'') = Some (EnrollmentIt nx_operation)"
  by (simp_all add: nx_lists nx_keys nx_operation_def)

lemma nx_leased_truststore: "map_of nx_leased truststoreStateKey = Some (TruststoreStateIt (nx_truststore\<lparr>ts_leaseOwner := Some ''op1'',
        ts_leaseExpiresAt := Some (5000 + enrollment_lease)\<rparr>))"
  by (simp add: nx_leased_def)

lemma nx_csr: "certificateRequestFingerprint ref_services ref_pki (csrHeader @ ''k1'') = Inr (''sha-'' @ csrHeader @ ''k1'')"
proof -
  have "length (csrHeader @ ''k1'') \<noteq> 0" "\<not> utf8_bytes (csrHeader @ ''k1'') > maximumCsrBytes"
    by (simp_all add: csrHeader_def utf8_bytes_def maximumCsrBytes_def)
  moreover have "occurrences csrHeader (csrHeader @ ''k1'') = 1" by code_simp
  moreover have "ref_parseCsr (csrHeader @ ''k1'')
     = Some \<lparr>csr_verifies = True, csr_rsaBits = Some 2048, csr_publicKey = ''k1'', csr_der = csrHeader @ ''k1''\<rparr>"
    by (simp add: ref_parseCsr_def)
  ultimately show ?thesis
    by (simp add: certificateRequestFingerprint_def parseAndVerifyCsr_def ref_pki_def ref_services_def)
qed

lemma nx_issuer_run: "issuerFingerprint ref_services sx_config ref_pki (nx_world nx_started) = (Inr ''root'', nx_world nx_started)"
proof -
  have "ref_conds [root_action nx_issuer e] (rw_items (nx_world nx_started)) = False" for e
    using nx_at(3) by (simp add: ref_conds_def root_action_def nx_world_def attribute_not_exists_pk_def nx_issuer_def)
  then have "ref_write (root_action nx_issuer e) (nx_world nx_started)
     = (Inl (ConditionalCheckFailed ''The conditional request failed''), nx_world nx_started)" for e
    by (simp add: ref_write_def)
  moreover have "is_fingerprint nx_issuer = ''root''" "is_rootCertificatePem nx_issuer = ''root-pem''" by (simp_all add: nx_issuer_def)
  ultimately show ?thesis
    by (simp add: issuerFingerprint_def getOrCreateIssuer_def getIssuer_def ensureIssuerTruststoreRoot_def
        getTruststoreRoot_def bindM_def thenM_def catchM_def throwIf_def ref_services_def nx_at issuer_root_def)
qed

lemma nx_roots: "fst (ref_query (roots_query ''op1'' None) (nx_world nx_leased))
   = Inr \<lparr>qp_items = [((truststoreRootsPk, rootSk ''root''), TruststoreRootIt (issuer_root nx_issuer ''test''))],
          qp_lastEvaluatedKey = None\<rparr>"
  by code_simp

lemma nx_listed: "listTruststoreRoots 5 ref_services ''op1'' (nx_world nx_leased)
   = (Inr (Some [issuer_root nx_issuer ''test'']), nx_world nx_leased)"
proof -
  have "ref_query (roots_query ''op1'' None) (nx_world nx_leased)
    = (Inr \<lparr>qp_items = [((truststoreRootsPk, rootSk ''root''), TruststoreRootIt (issuer_root nx_issuer ''test''))],
          qp_lastEvaluatedKey = None\<rparr>, nx_world nx_leased)"
    using nx_roots ref_query_same by (metis prod.collapse)
  moreover have "sv_query ref_services = ref_query" by (simp add: ref_services_def)
  ultimately have "truststore_pages 5 ref_services ''op1'' None (nx_world nx_leased)
    = (Inr (Some [issuer_root nx_issuer ''test'']), nx_world nx_leased)"
    by (simp add: eval_nat_numeral bindM_def page_roots_def List.map_filter_def)
  then show ?thesis
    by (simp add: listTruststoreRoots_def bindM_def root_values_def js_map_def List.map_filter_def issuer_root_def)
qed

lemma nx_lease: "acquireTruststoreLease ref_services ''op1'' (5000 + enrollment_lease) (nx_world nx_started)
   = (Inr (), nx_world nx_leased)"
  by (simp add: acquireTruststoreLease_def bindM_def catchM_def ref_services_def ref_write_def ref_conds_def ref_apply_def
      lease_action_def nx_world_def nx_lists nx_keys List.map_filter_def truststore_lease_free_def nx_truststore_def
      no_truststore_def nx_operation_def)

lemma nx_resume_truststore: "resume_truststore 5 ref_services sx_config nx_operation (nx_world nx_leased)
   = (Inr (nx_current, [''root'']), nx_world nx_leased)"
proof -
  have f: "tr_fingerprint (issuer_root nx_issuer ''test'') = ''root''" "tr_status (issuer_root nx_issuer ''test'') = I_ACTIVE"
    "e_rootFingerprint nx_operation = ''root''" "e_operationId nx_operation = ''op1''"
    by (simp_all add: issuer_root_def nx_issuer_def nx_operation_def start_operation_def)
  have g: "sv_get ref_services = ref_get" by (simp add: ref_services_def)
  have b: "cf_truststoreBucketName sx_config = ''trust''" by (simp add: sx_config_def)
  show ?thesis
    by (simp add: resume_truststore_def bindM_def thenM_def throwIf_def orRaise_def f b nx_listed getTruststoreState_def
        g nx_leased_truststore maximumTruststoreCertificates_def Let_def
        currentTruststoreForRoots_def nx_truststore_def no_truststore_def sameRootFingerprints_def nx_current_def)
qed

lemma nx_published: "publishTruststore sx_config ref_gateway ''key'' ''1'' (nx_world items) = (Inr (), nx_world items)"
proof -
  have "gate_of ''dom'' (nx_world items) = Some (''s3://trust/key'', ''1'', 0)"
    by (simp add: gate_of_def nx_world_def ref_objects_def nx_domain_def)
  moreover have "truststore_uri sx_config ''key'' = ''s3://trust/key''" "cf_deliveryApiCustomDomainName sx_config = ''dom''"
    by (simp_all add: truststore_uri_def sx_config_def)
  moreover have "rw_clock (nx_world items) = 5000" by (simp add: nx_world_def)
  ultimately show ?thesis
    by (simp add: eval_nat_numeral publishTruststore_def Let_def bindM_def thenM_def whenM_def gate_defs)
qed

lemma nx_complete: "completeEnrollment ref_services nx_operation nx_current [''root''] (nx_world nx_leased)
   = (Inr (activeResult nx_operation), nx_world nx_done)"
proof -
  have f: "e_operationId nx_operation = ''op1''" "e_operationType nx_operation = ConsumerEnroll"
    "e_consumerId nx_operation = ''con1''" "e_environment nx_operation = ''prod''" "e_apiFingerprint nx_operation = ''f1''"
    "e_workflowState nx_operation = W_PREPARED"
    by (simp_all add: nx_operation_def)
  show ?thesis
    by (simp add: completeEnrollment_def thenM_def bindM_def ref_services_def ref_transactWrite_def ref_conds_def ref_apply_def
        complete_enrollment_actions_def identity_end_def operation_end_def truststore_end_def f nx_world_def
        nx_leased_def nx_rest_def nx_base_def nx_done_def nx_keys List.map_filter_def)
qed

lemma nx_resume: "resume 5 ref_services sx_config ref_gateway ''op1'' (nx_world nx_started)
   = (Inr (activeResult nx_operation), nx_world nx_done)"
proof -
  have g: "sv_get ref_services = ref_get" "sv_now ref_services = (\<lambda>w. (Inr (rw_clock w), w))" "rw_clock (nx_world i) = 5000" for i
    by (simp_all add: ref_services_def nx_world_def)
  have f: "e_workflowState nx_operation = W_PREPARED" "e_operationId nx_operation = ''op1''"
    by (simp_all add: nx_operation_def)
  have c: "o_key nx_current = ''key''" "o_versionId nx_current = ''1''" by (simp_all add: nx_current_def)
  show ?thesis
    by (simp add: resume_def getEnrollment_def resume_pending_def bindM_def thenM_def catchM_def g f c nx_at nx_lease
        nx_resume_truststore nx_published nx_complete)
qed

lemma nx_enroll: "enroll 5 ref_services sx_config ref_pki ref_gateway nx_input (nx_world nx_started)
   = (Inr \<lparr>co_result = activeResult nx_operation, co_shouldWriteTerminalAudit = True\<rparr>, nx_world nx_done)"
proof -
  have g: "sv_get ref_services = ref_get" "sv_sha256HexDoc ref_services = (\<lambda>d. ''digest'')"
    by (simp_all add: ref_services_def)
  have i: "assertIdentifier ''con1'' ''consumerId'' = Inr ()" "assertEnvironmentName ''prod'' = Inr ()" by code_simp+
  have n: "ei_consumerId nx_input = ''con1''" "ei_environment nx_input = ''prod''" "ei_csrPem nx_input = csrHeader @ ''k1''"
    "ei_actor nx_input = ex_actor" "ei_idempotencyKey nx_input = ''k1''" by (simp_all add: nx_input_def)
  show ?thesis
    by (simp add: enroll_def startOrResume_def environments_require_def requireEnvironment_def resume_recorded_def
        assertIdempotency_def stringField_def getIdempotency_def start_request_def bindM_def thenM_def liftE_def
        orRaise_def throwIf_def Let_def g i n nx_csr nx_issuer_run nx_at nx_resume)
qed

end
