(* ===== verification/Enrollment_Properties.thy ===== *)
theory Enrollment_Properties
  imports Enrollment_Examples
begin

text \<open>
  What holds of the enrollments: the service refines the protocol, what it returns is a consumer that
  is active with the certificate returned, and the life of operations, identities and consumers over
  every sequence of transactions. An enrollment that was prepared and is taken up again on the
  in-memory services is the witness.
\<close>

section \<open>Operations only move forward\<close>

text \<open>A prepared operation becomes ready or failed, once; nothing else of it ever changes.\<close>

definition operations_forward :: "table \<Rightarrow> table \<Rightarrow> bool" where
  "operations_forward t t' \<longleftrightarrow> (\<forall>p e. enrollment_of t p = Some e \<longrightarrow>
     (\<exists>e'. enrollment_of t' p = Some e' \<and> operation_core e' = operation_core e
        \<and> (e_workflowState e' = e_workflowState e \<or> e_workflowState e = W_PREPARED)))"

lemma operations_forward_same: "enrollment_of t' = enrollment_of t \<Longrightarrow> operations_forward t t'"
  by (simp add: operations_forward_def)

lemma operations_forward_trans:
  assumes "operations_forward t t'" "operations_forward t' t''"
  shows "operations_forward t t''"
  unfolding operations_forward_def
proof (intro allI impI)
  fix p e assume "enrollment_of t p = Some e"
  with assms(1) obtain e' where e': "enrollment_of t' p = Some e'" "operation_core e' = operation_core e"
    "e_workflowState e' = e_workflowState e \<or> e_workflowState e = W_PREPARED"
    unfolding operations_forward_def by blast
  with assms(2) obtain e'' where "enrollment_of t'' p = Some e''" "operation_core e'' = operation_core e'"
    "e_workflowState e'' = e_workflowState e' \<or> e_workflowState e' = W_PREPARED"
    unfolding operations_forward_def by blast
  with e' show "\<exists>e'. enrollment_of t'' p = Some e' \<and> operation_core e' = operation_core e
      \<and> (e_workflowState e' = e_workflowState e \<or> e_workflowState e = W_PREPARED)"
    by (intro exI [of _ e'']) auto
qed

lemma operations_forward_end:
  assumes "enrollment_of t p = Some y" "e_workflowState y = W_PREPARED"
    and "enrollment_of t' = (enrollment_of t)(p \<mapsto> y\<lparr>e_workflowState := ws, e_workflowDue := None\<rparr>)"
  shows "operations_forward t t'"
  using assms by (auto simp: operations_forward_def operation_core_def)

lemma enrollment_step_operations:
  assumes "enrollment_step s s'"
  shows "operations_forward (ew_table s) (ew_table s')"
  using assms
proof (induction rule: enrollment_step.induct)
  case (es_start p s t')
  note v = start_views [OF es_start(2)]
  show ?case using v(1,4) by (auto simp: operations_forward_def)
next
  case (es_read s operationId e)
  then show ?case by (simp add: operations_forward_same)
next
  case (es_lease operationId expiresAt now s t')
  then show ?case by (simp add: operations_forward_same truststore_step_views lease_action_def)
next
  case (es_bundle operationId ob roots s t')
  then show ?case by (simp add: operations_forward_same truststore_step_views bundle_action_def)
next
  case (es_complete e s ob roots t')
  have "committed ([identity_end e I_ACTIVE, operation_end e W_READY, truststore_end e (publish_state ob roots)]
      @ drop 3 (complete_enrollment_actions e ob roots)) (ew_table s) t'"
    using es_complete(2) by (simp add: complete_enrollment_actions_def)
  from end_views(2) [OF this] show ?case
    by (auto simp: complete_enrollment_actions_def intro: operations_forward_end split: if_splits)
next
  case (es_fail e s t')
  have "committed ([identity_end e I_FAILED, operation_end e W_FAILED, truststore_end e id]
      @ drop 3 (fail_enrollment_actions e)) (ew_table s) t'"
    using es_fail(2) by (simp add: fail_enrollment_actions_def)
  from end_views(2) [OF this] show ?case
    by (auto simp: fail_enrollment_actions_def intro: operations_forward_end split: if_splits)
next
  case (es_rotate actor key digest x root s t')
  then show ?case by (simp add: operations_forward_same create_identity_views)
next
  case (es_revoke actor key digest c f s t')
  then show ?case by (simp add: operations_forward_same revoke_identity_views)
next
  case (es_other acts s t')
  then show ?case by (simp add: operations_forward_same other_views)
qed

lemma enrollment_steps_operations:
  "enrollment_step\<^sup>*\<^sup>* s s' \<Longrightarrow> operations_forward (ew_table s) (ew_table s')"
  by (induction rule: rtranclp_induct)
    (simp add: operations_forward_same, blast intro: operations_forward_trans enrollment_step_operations)

section \<open>The life of an enrollment\<close>

text \<open>C11: the life of an enrollment. After any sequence of transactions of any number of processes, which
  may work on enrollment records they read long ago, an operation that was stored is still stored with
  everything it said, has left the state PREPARED at most once, and agrees with what it enrolled: while
  it is PREPARED its identity is PENDING and its consumer PENDING with this very operation; once READY the
  identity is ACTIVE or REVOKED and the consumer ACTIVE; once FAILED the identity is FAILED. No other
  operation of the same consumer has not failed, no other operation has the same certificate, and the
  status of every identity has only moved forward, so that a revoked or failed one is never active
  again.\<close>

theorem enrollment_lifecycle:
  assumes "enrollment_reachable s" "enrollment_step\<^sup>*\<^sup>* s s'" "enrollment_of (ew_table s) p = Some e"
  shows "(\<exists>e'. enrollment_of (ew_table s') p = Some e' \<and> operation_core e' = operation_core e
      \<and> (e_workflowState e' = e_workflowState e \<or> e_workflowState e = W_PREPARED)
      \<and> state_agrees (identity_of (ew_table s')) (consumer_of (ew_table s')) e'
      \<and> (\<forall>q f. enrollment_of (ew_table s') q = Some f \<longrightarrow> q \<noteq> p \<longrightarrow> e_apiFingerprint f \<noteq> e_apiFingerprint e'
          \<and> (e_consumerId f = e_consumerId e' \<longrightarrow> e_workflowState f = W_FAILED \<or> e_workflowState e' = W_FAILED)))
    \<and> identities_forward (ew_table s) (ew_table s')"
proof -
  obtain e' where e': "enrollment_of (ew_table s') p = Some e'" "operation_core e' = operation_core e"
    "e_workflowState e' = e_workflowState e \<or> e_workflowState e = W_PREPARED"
    using enrollment_steps_operations [OF assms(2)] assms(3) unfolding operations_forward_def by blast
  have m: "maps_agree (enrollment_of (ew_table s')) (identity_of (ew_table s')) (consumer_of (ew_table s'))"
    using enrollment_reachable_inv [OF enrollment_steps_reachable [OF assms(2,1)]]
    unfolding enrollment_inv_def by blast
  show ?thesis
    using e' maps_agreeD(1) [OF m e'(1)] maps_agreeD(2) [OF m _ e'(1)] enrollment_steps_forward [OF assms(2)]
    by blast
qed

text \<open>The path of the resumed enrollment: the operation was PREPARED and ends READY.\<close>

lemma enrollment_lifecycle_witness:
  "\<exists>s s' e'. enrollment_reachable s \<and> enrollment_step\<^sup>*\<^sup>* s s'
    \<and> enrollment_of (ew_table s) ''op1'' = Some nx_operation \<and> e_workflowState nx_operation = W_PREPARED
    \<and> enrollment_of (ew_table s') ''op1'' = Some e' \<and> e_workflowState e' = W_READY
    \<and> state_agrees (identity_of (ew_table s')) (consumer_of (ew_table s')) e'
    \<and> identities_forward (ew_table s) (ew_table s')"
proof -
  have e: "enrollment_of (ew_table (nx_state nx_started)) ''op1'' = Some nx_operation"
    "enrollment_of (map_of nx_done) ''op1'' = Some (nx_operation\<lparr>e_workflowState := W_READY, e_workflowDue := None\<rparr>)"
    by (simp_all add: enrollment_of_def nx_at) (simp add: nx_done_def nx_keys)
  obtain s' where s': "enrollment_step\<^sup>*\<^sup>* (nx_state nx_started) s'" "ew_table s' = map_of nx_done"
    using runsD [OF ref_enrollment.runs_enroll _ _ nx_enroll, of "nx_state nx_started" "{}"] by auto
  from enrollment_lifecycle [OF nx_reachable s'(1) e(1)]
  have l: "state_agrees (identity_of (ew_table s')) (consumer_of (ew_table s'))
      (nx_operation\<lparr>e_workflowState := W_READY, e_workflowDue := None\<rparr>)"
    "identities_forward (ew_table (nx_state nx_started)) (ew_table s')"
    using s'(2) e(2) by auto
  have "e_workflowState nx_operation = W_PREPARED" by (simp add: nx_operation_def)
  moreover have "enrollment_of (ew_table s') ''op1''
      = Some (nx_operation\<lparr>e_workflowState := W_READY, e_workflowDue := None\<rparr>)" using s'(2) e(2) by simp
  ultimately show ?thesis using nx_reachable s'(1) e(1) l
    by (intro exI [of _ "nx_state nx_started"] exI [of _ s']
        exI [of _ "nx_operation\<lparr>e_workflowState := W_READY, e_workflowDue := None\<rparr>"]) simp
qed

section \<open>The service refines the protocol\<close>

text \<open>What a result says is the case in the table.\<close>

definition provisioned :: "ConsumerProvisioningResult \<Rightarrow> table \<Rightarrow> bool" where
  "provisioned result t \<longleftrightarrow> completed_as result t
     \<and> (\<exists>c. consumer_of t (cr_consumerId result) = Some c \<and> cn_status c = C_ACTIVE
          \<and> cn_environment c = cr_environment result)
     \<and> (\<exists>x. identity_of t (cr_apiFingerprint result) = Some x \<and> i_status x \<in> {I_ACTIVE, I_REVOKED}
          \<and> i_consumerId x = cr_consumerId result)"

lemma completed_provisioned:
  assumes "enrollment_reachable s" "completed_as result (ew_table s)"
  shows "provisioned result (ew_table s)"
proof -
  obtain p e where e: "enrollment_of (ew_table s) p = Some e" "e_workflowState e = W_READY" "result = activeResult e"
    using assms(2) unfolding completed_as_def by blast
  have "maps_agree (enrollment_of (ew_table s)) (identity_of (ew_table s)) (consumer_of (ew_table s))"
    using enrollment_reachable_inv [OF assms(1)] unfolding enrollment_inv_def by blast
  from maps_agreeD(1) [OF this e(1)] e(2)
  have "identity_is (identity_of (ew_table s)) e {I_ACTIVE, I_REVOKED}"
    "consumer_is (consumer_of (ew_table s)) e C_ACTIVE None" by (simp_all add: state_agrees_def)
  then show ?thesis
    using assms(2) e(3) by (auto simp: provisioned_def identity_is_def consumer_is_def activeResult_def)
qed

text \<open>C12: the enrollment service implements the enrollment protocol. Whatever a call of enroll returns or
  throws, wherever a request to the table, the object store, KMS or the API Gateway fails, the table it
  leaves is one the transactions of the protocol lead to; and a result it returns, be it of a new
  enrollment, of one it took up again or of one another process has completed meanwhile, is the record of
  an operation that is READY in that table, of a consumer that is ACTIVE in the returned environment, and
  of an identity of this consumer that has been activated.\<close>

theorem enroll_follows_protocol:
  assumes "enrollment_services S X table G" "enrollment_reachable s" "ew_table s = table w"
    and "enroll pages S cfg X G input w = (r, w')"
  shows "\<exists>s'. enrollment_step\<^sup>*\<^sup>* s s' \<and> ew_table s' = table w'
    \<and> (\<forall>res. r = Inr res \<longrightarrow> provisioned (co_result res) (table w'))"
proof -
  obtain s' where s': "enrollment_step\<^sup>*\<^sup>* s s'" "ew_table s' = table w'"
    by (rule runsD [OF enrollment_services.runs_enroll [OF assms(1)] assms(3) _ assms(4), of "{}"]) simp
  have "provisioned (co_result res) (table w')" if "r = Inr res" for res
  proof -
    have "completed_as (co_result res) (table w')"
      by (rule ensuresD [OF enrollment_services.ensures_enroll [OF assms(1)] assms(2,3) _ assms(4) [unfolded that],
            of "{}"]) simp
    with completed_provisioned [OF enrollment_steps_reachable [OF s'(1) assms(2)]] s'(2) show ?thesis by simp
  qed
  with s' show ?thesis by blast
qed

lemma enroll_follows_protocol_witness:
  "\<exists>s s' res w'. enrollment_reachable s \<and> ew_table s = ref_table (nx_world nx_started)
    \<and> enroll 5 ref_services sx_config ref_pki ref_gateway nx_input (nx_world nx_started) = (Inr res, w')
    \<and> enrollment_step\<^sup>*\<^sup>* s s' \<and> ew_table s' = ref_table w'
    \<and> cr_consumerId (co_result res) = ''con1'' \<and> provisioned (co_result res) (ref_table w')"
proof -
  have "ew_table (nx_state nx_started) = ref_table (nx_world nx_started)" by simp
  from enroll_follows_protocol [OF ref_enrollment.enrollment_services_axioms nx_reachable this nx_enroll]
  obtain s' where "enrollment_step\<^sup>*\<^sup>* (nx_state nx_started) s'" "ew_table s' = ref_table (nx_world nx_done)"
    "provisioned (activeResult nx_operation) (ref_table (nx_world nx_done))" by auto
  moreover have "cr_consumerId (activeResult nx_operation) = ''con1''"
    by (simp add: activeResult_def nx_operation_def)
  ultimately show ?thesis using nx_reachable nx_enroll
    by (intro exI [of _ "nx_state nx_started"] exI [of _ s']
        exI [of _ "\<lparr>co_result = activeResult nx_operation, co_shouldWriteTerminalAudit = True\<rparr>"]
        exI [of _ "nx_world nx_done"]) simp
qed

end
