(* ===== verification/Agent_Grants.thy ===== *)
theory Agent_Grants
  imports Secrets Consumers
begin

text \<open>
  Agent grants and the capabilities that enroll an agent: the transactions of
  src/src/repositories/dynamo.ts on them, class AgentGrantService of src/src/services/agent-grants.ts,
  and class AgentNotificationService of src/src/services/agent-notifications.ts, which registers the
  certificate of an agent with AWS IoT. The requests to AWS IoT are the record iot.
\<close>

section \<open>Items\<close>

definition on_grant :: "(AgentGrantRecord \<Rightarrow> AgentGrantRecord) \<Rightarrow> item \<Rightarrow> item" where
  "on_grant f i = (case i of AgentGrantIt g \<Rightarrow> AgentGrantIt (f g) | _ \<Rightarrow> i)"

definition grant_sat :: "(AgentGrantRecord \<Rightarrow> bool) \<Rightarrow> item \<Rightarrow> bool" where
  "grant_sat P i = (case i of AgentGrantIt g \<Rightarrow> P g | _ \<Rightarrow> False)"

definition on_bootstrap :: "(BootstrapCapabilityRecord \<Rightarrow> BootstrapCapabilityRecord) \<Rightarrow> item \<Rightarrow> item" where
  "on_bootstrap f i = (case i of BootstrapIt b \<Rightarrow> BootstrapIt (f b) | _ \<Rightarrow> i)"

definition bootstrap_sat :: "(BootstrapCapabilityRecord \<Rightarrow> bool) \<Rightarrow> item \<Rightarrow> bool" where
  "bootstrap_sat P i = (case i of BootstrapIt b \<Rightarrow> P b | _ \<Rightarrow> False)"

definition on_notification :: "(NotificationOutboxRecord \<Rightarrow> NotificationOutboxRecord) \<Rightarrow> item \<Rightarrow> item" where
  "on_notification f i = (case i of NotificationIt n \<Rightarrow> NotificationIt (f n) | _ \<Rightarrow> i)"

definition notification_sat :: "(NotificationOutboxRecord \<Rightarrow> bool) \<Rightarrow> item \<Rightarrow> bool" where
  "notification_sat P i = (case i of NotificationIt n \<Rightarrow> P n | _ \<Rightarrow> False)"

lemma on_agent_simps [simp]:
  "on_grant f (AgentGrantIt g) = AgentGrantIt (f g)" "grant_sat P (AgentGrantIt g) \<longleftrightarrow> P g"
  "on_bootstrap h (BootstrapIt b) = BootstrapIt (h b)" "bootstrap_sat Q (BootstrapIt b) \<longleftrightarrow> Q b"
  "on_notification j (NotificationIt n) = NotificationIt (j n)" "notification_sat R (NotificationIt n) \<longleftrightarrow> R n"
  by (simp_all add: on_grant_def grant_sat_def on_bootstrap_def bootstrap_sat_def on_notification_def
      notification_sat_def)

lemma agent_satD:
  "grant_sat P i \<Longrightarrow> \<exists>g. i = AgentGrantIt g \<and> P g"
  "bootstrap_sat Q i \<Longrightarrow> \<exists>b. i = BootstrapIt b \<and> Q b"
  "notification_sat R i \<Longrightarrow> \<exists>n. i = NotificationIt n \<and> R n"
  by (cases i; simp add: grant_sat_def bootstrap_sat_def notification_sat_def)+

section \<open>The transactions\<close>

definition create_grant_actions :: "AgentGrantRecord \<Rightarrow> action list" where
  "create_grant_actions grant =
     [Put (agentGrantPk (ag_grantId grant), ''PROFILE'') (AgentGrantIt grant) attribute_not_exists_pk,
      Put (consumerPk (ag_consumerId grant), ''AGENT_GRANT'') (GrantMappingIt (Some (ag_grantId grant)))
        attribute_not_exists_pk]"

definition createAgentGrant :: "'w services \<Rightarrow> AgentGrantRecord \<Rightarrow> ('w, unit) app" where
  "createAgentGrant S grant =
     catchM (sv_transactWrite S (create_grant_actions grant))
       (\<lambda>error. raise (conflict (''Could not create agent grant: '' @ errorMessage error)))"

text \<open>The attributes of older versions of the policy that REMOVE names are not part of the record.\<close>

definition update_grant_action :: "AgentGrantRecord \<Rightarrow> bool \<Rightarrow> action" where
  "update_grant_action grant removeDisplayName = Update (agentGrantPk (ag_grantId grant), ''PROFILE'')
     (on_grant (\<lambda>g. g\<lparr>ag_capabilities := ag_capabilities grant, ag_secretGrants := ag_secretGrants grant,
        ag_displayName := (if removeDisplayName then None else ag_displayName grant)\<rparr>))
     (\<lambda>i. True)"

definition updateAgentGrant :: "'w services \<Rightarrow> AgentGrantRecord \<Rightarrow> bool \<Rightarrow> ('w, unit) app" where
  "updateAgentGrant S grant removeDisplayName =
     catchM (sv_write S (update_grant_action grant removeDisplayName))
       (\<lambda>error. raise (conflict (''Could not update agent grant: '' @ errorMessage error)))"

definition create_bootstrap_action :: "BootstrapCapabilityRecord \<Rightarrow> action" where
  "create_bootstrap_action capability =
     Put (bootstrapPk (b_tokenHash capability), ''STATE'') (BootstrapIt capability) attribute_not_exists_pk"

definition createBootstrapCapability :: "'w services \<Rightarrow> BootstrapCapabilityRecord \<Rightarrow> ('w, unit) app" where
  "createBootstrapCapability S capability =
     catchM (sv_write S (create_bootstrap_action capability))
       (\<lambda>error. raise (conflict (''Could not create bootstrap capability: '' @ errorMessage error)))"

definition activate_action :: "string \<Rightarrow> string \<Rightarrow> timestamp \<Rightarrow> action" where
  "activate_action grantId fingerprint now = Update (agentGrantPk grantId, ''PROFILE'')
     (on_grant (\<lambda>g. g\<lparr>ag_status := G_ACTIVE, ag_activatedAt := Some now,
        ag_activatedFingerprint := Some fingerprint\<rparr>))
     (grant_sat (\<lambda>g. ag_status g = G_PENDING))"

definition activateAgentGrant :: "'w services \<Rightarrow> string \<Rightarrow> string \<Rightarrow> ('w, unit) app" where
  "activateAgentGrant S grantId fingerprint =
     bindM (getAgentGrant S grantId) (\<lambda>grant.
       if (case grant of None \<Rightarrow> False
           | Some g \<Rightarrow> ag_status g = G_ACTIVE \<and> ag_activatedFingerprint g = Some fingerprint)
       then ret ()
       else catchM (bindM (sv_now S) (\<lambda>now. sv_write S (activate_action grantId fingerprint now)))
         (\<lambda>error. raise (conflict (''Could not activate agent grant: '' @ errorMessage error))))"

definition consume_action :: "string \<Rightarrow> string \<Rightarrow> timestamp \<Rightarrow> action" where
  "consume_action tokenHash fingerprint now = Update (bootstrapPk tokenHash, ''STATE'')
     (on_bootstrap (\<lambda>b. b\<lparr>b_status := B_CONSUMED, b_consumedAt := Some now,
        b_consumedFingerprint := Some fingerprint\<rparr>))
     (bootstrap_sat (\<lambda>b. b_status b = B_PENDING))"

definition consumeBootstrapCapability :: "'w services \<Rightarrow> string \<Rightarrow> string \<Rightarrow> ('w, unit) app" where
  "consumeBootstrapCapability S tokenHash fingerprint =
     bindM (getBootstrapCapability S tokenHash) (\<lambda>found.
       if (case found of None \<Rightarrow> False
           | Some b \<Rightarrow> b_status b = B_CONSUMED \<and> b_consumedFingerprint b = Some fingerprint)
       then ret ()
       else catchM (bindM (sv_now S) (\<lambda>now. sv_write S (consume_action tokenHash fingerprint now)))
         (\<lambda>error. raise (conflict (''Could not consume bootstrap capability: '' @ errorMessage error))))"

definition delivered_lifetime :: int where
  "delivered_lifetime = 7 * 24 * 60 * 60"

definition markNotificationDelivered :: "'w services \<Rightarrow> string \<Rightarrow> ('w, bool) app" where
  "markNotificationDelivered S eventId =
     bindM (sv_now S) (\<lambda>now. bindM (sv_now S) (\<lambda>t.
       unless_refused (sv_write S (Update (notificationPk eventId, ''EVENT'')
         (on_notification (\<lambda>n. n\<lparr>n_status := N_DELIVERED, n_deliveredAt := Some now,
            n_ttl := Some (t div 1000 + delivered_lifetime)\<rparr>))
         (notification_sat (\<lambda>n. n_status n = N_PENDING))))))"

section \<open>The registration of an agent with AWS IoT\<close>

record CertificateDescription =
  cd_certificateArn :: "string option"
  cd_status :: "string option"

record 'w iot =
  io_describeCertificate :: "string \<Rightarrow> ('w, CertificateDescription option) app"
  io_updateCertificate :: "string \<Rightarrow> string \<Rightarrow> ('w, unit) app"
  io_registerCertificate :: "string \<Rightarrow> string \<Rightarrow> ('w, string option) app"
  io_createThing :: "string \<Rightarrow> ('w, unit) app"
  io_attachThingPrincipal :: "string \<Rightarrow> string \<Rightarrow> ('w, unit) app"
  io_attachPolicy :: "string \<Rightarrow> string \<Rightarrow> ('w, unit) app"

record AgentMqttIdentity =
  mq_consumerId :: string
  mq_certificateFingerprint :: string
  mq_certificatePem :: string

definition error_named :: "string \<Rightarrow> exn \<Rightarrow> bool" where
  "error_named expected error = (case error of OtherError name m \<Rightarrow> name = expected | _ \<Rightarrow> False)"

definition isNotFound :: "exn \<Rightarrow> bool" where
  "isNotFound error = error_named ''ResourceNotFoundException'' error"

definition isAlreadyExists :: "exn \<Rightarrow> bool" where
  "isAlreadyExists error = error_named ''ResourceAlreadyExistsException'' error"

definition unless_exists :: "('w, unit) app \<Rightarrow> ('w, unit) app" where
  "unless_exists request = catchM request (\<lambda>error. whenM (\<not> isAlreadyExists error) (raise error))"

definition described_arn :: "CertificateDescription option \<Rightarrow> string option" where
  "described_arn description = Option.bind description cd_certificateArn"

definition described_status :: "CertificateDescription option \<Rightarrow> string option" where
  "described_status description = Option.bind description cd_status"

definition current_certificate :: "'w iot \<Rightarrow> AgentMqttIdentity \<Rightarrow> ('w, string) app" where
  "current_certificate I identity =
     bindM (io_describeCertificate I (mq_certificateFingerprint identity)) (\<lambda>current.
     bindM (orRaise (described_arn current)
       (serviceUnavailable ''AWS IoT returned an incomplete certificate record.'')) (\<lambda>certificateArn.
     thenM (throwIf (described_status current = Some ''REVOKED'')
       (conflict ''The AWS IoT certificate for this agent identity is revoked.''))
     (thenM (whenM (described_status current \<noteq> Some ''ACTIVE'')
         (io_updateCertificate I (mq_certificateFingerprint identity) ''ACTIVE''))
       (ret certificateArn))))"

definition register_certificate :: "'w iot \<Rightarrow> AgentMqttIdentity \<Rightarrow> ('w, string) app" where
  "register_certificate I identity =
     catchM
       (bindM (io_registerCertificate I (mq_certificatePem identity) ''ACTIVE'') (\<lambda>registered.
          orRaise registered
            (serviceUnavailable ''AWS IoT did not return the registered certificate ARN.'')))
       (\<lambda>error. if \<not> isAlreadyExists error then raise error
          else bindM (io_describeCertificate I (mq_certificateFingerprint identity)) (\<lambda>current.
            orRaise (described_arn current)
              (serviceUnavailable ''AWS IoT could not recover the registered certificate.'')))"

definition ensureCertificate :: "'w iot \<Rightarrow> AgentMqttIdentity \<Rightarrow> ('w, string) app" where
  "ensureCertificate I identity =
     bindM (catchM (bindM (current_certificate I identity) (\<lambda>arn. ret (Some arn)))
         (\<lambda>error. if \<not> isNotFound error then raise error else ret None))
       (\<lambda>found. (case found of Some arn \<Rightarrow> ret arn | None \<Rightarrow> register_certificate I identity))"

definition provision :: "'w iot \<Rightarrow> string \<Rightarrow> AgentMqttIdentity \<Rightarrow> ('w, unit) app" where
  "provision I policyName identity =
     bindM (ensureCertificate I identity) (\<lambda>certificateArn.
     thenM (unless_exists (io_createThing I (mq_consumerId identity)))
     (thenM (unless_exists (io_attachThingPrincipal I (mq_consumerId identity) certificateArn))
       (unless_exists (io_attachPolicy I policyName certificateArn))))"

section \<open>Parsing a policy\<close>

record CreateAgentGrantInput =
  ca_consumerId :: string
  ca_environment :: string
  ca_capabilities :: jsval
  ca_secretGrants :: jsval
  ca_displayName :: jsval
  ca_actor :: Actor

record UpdateAgentGrantInput =
  ua_capabilities :: jsval
  ua_secretGrants :: jsval
  ua_displayName :: jsval
  ua_actor :: Actor

record ParsedSecretGrant =
  pg_secretId :: string
  pg_permissions :: "capability list"

definition maxAgentSecretGrants :: nat where
  "maxAgentSecretGrants = 1000"

definition parseSecretGrant :: "capability list \<Rightarrow> jsval \<Rightarrow> ParsedSecretGrant parsed" where
  "parseSecretGrant capabilities entry =
     (if \<not> isObject entry then Inl (badRequest ''Each secret grant must be an object.'')
      else case as_string (js_prop entry ''secretId'') of
        None \<Rightarrow> Inl (badRequest ''Each secret grant must name a secretId.'')
      | Some secretId \<Rightarrow>
          bindE (assertSecretIdentifier secretId ''secretGrants.secretId'') (\<lambda>_.
          bindE (parseAgentCapabilities (js_prop entry ''permissions'') False) (\<lambda>permissions.
          bindE (throwE (some_in (\<lambda>permission. permission \<notin> set capabilities) permissions)
            (badRequest ''Every secret grant permission must be an agent capability.'')) (\<lambda>_.
          Inr \<lparr>pg_secretId = secretId, pg_permissions = permissions\<rparr>))))"

definition capability_text :: "capability \<Rightarrow> string" where
  "capability_text c = (case c of CRead \<Rightarrow> ''read'' | CWrite \<Rightarrow> ''write'')"

fun require_each :: "capability list \<Rightarrow> ParsedSecretGrant list \<Rightarrow> unit parsed" where
  "require_each [] grants = Inr ()"
| "require_each (capability # rest) grants =
     bindE (throwE (\<not> some_in (\<lambda>grant. capability \<in> set (pg_permissions grant)) grants)
       (badRequest (''secretGrants must include at least one '' @ capability_text capability @ '' permission.'')))
     (\<lambda>_. require_each rest grants)"

definition parseSecretGrants :: "jsval \<Rightarrow> capability list \<Rightarrow> bool \<Rightarrow> ParsedSecretGrant list parsed" where
  "parseSecretGrants value capabilities allowEmpty = (case as_array value of
     None \<Rightarrow> Inl (badRequest (''secretGrants must contain between one and '' @ show_nat maxAgentSecretGrants @ '' grants.''))
   | Some entries \<Rightarrow>
       if (\<not> allowEmpty \<and> length entries = 0) \<or> length entries > maxAgentSecretGrants
       then Inl (badRequest (''secretGrants must contain between one and '' @ show_nat maxAgentSecretGrants @ '' grants.''))
       else bindE (mapE (parseSecretGrant capabilities) entries) (\<lambda>grants.
         bindE (throwE (length (uniq (map pg_secretId grants)) \<noteq> length grants)
           (badRequest ''secretGrants must not contain duplicate secret IDs.'')) (\<lambda>_.
         bindE (require_each capabilities grants) (\<lambda>_.
         Inr (sort_key pg_secretId grants)))))"

definition parseDisplayName :: "jsval \<Rightarrow> unit parsed" where
  "parseDisplayName value =
     throwE (value \<noteq> JUndefined \<and>
         (case as_string value of None \<Rightarrow> True | Some s \<Rightarrow> length s = 0 \<or> length s > 256))
       (badRequest ''displayName must be a non-empty string of at most 256 characters.'')"

section \<open>The service\<close>

definition resolveSecretGrants ::
  "'w services \<Rightarrow> string \<Rightarrow> ParsedSecretGrant list \<Rightarrow> ('w, AgentSecretGrant list) app" where
  "resolveSecretGrants S environment grants =
     bindM (mapM (\<lambda>grant. requireHead S environment (pg_secretId grant)) grants) (\<lambda>heads.
       ret (map (\<lambda>(grant, head). \<lparr>sg_secretId = pg_secretId grant, sg_secretUid = h_secretUid head,
         sg_permissions = pg_permissions grant\<rparr>) (zip grants heads)))"

text \<open>A grant without secretGrants, which only an older version of the server can have stored, is a TypeError.\<close>

definition reconcileReadAccess ::
  "nat \<Rightarrow> 'w services \<Rightarrow> AppConfig \<Rightarrow> AgentGrantRecord \<Rightarrow> Actor \<Rightarrow> ('w, unit) app" where
  "reconcileReadAccess pages S cfg grant actor =
     bindM (orRaise (ag_secretGrants grant) (OtherError ''TypeError'' ''secretGrants is undefined'')) (\<lambda>secretGrants.
     bindM (reconcileAgentReadAccess pages S cfg \<lparr>rc_consumerId = ag_consumerId grant,
         rc_environment = ag_environment grant, rc_secretGrants = secretGrants, rc_actor = actor\<rparr>) (\<lambda>done.
       orRaise done (OtherError ''Error'' ''out of pages'')))"

definition agent_grant_create :: "'w services \<Rightarrow> CreateAgentGrantInput \<Rightarrow> ('w, AgentGrantRecord) app" where
  "agent_grant_create S input =
     thenM (liftE (assertIdentifier (ca_consumerId input) ''consumerId''))
     (thenM (environments_require S (ca_environment input))
     (bindM (getConsumer S (ca_consumerId input)) (\<lambda>consumer.
      thenM (throwIf (consumer \<noteq> None)
        (conflict ''An agent grant requires a consumer ID that has not been enrolled.''))
      (bindM (liftE (parseAgentCapabilities (ca_capabilities input) False)) (\<lambda>capabilities.
       bindM (liftE (parseSecretGrants (ca_secretGrants input) capabilities False)) (\<lambda>parsed.
       bindM (resolveSecretGrants S (ca_environment input) parsed) (\<lambda>secretGrants.
       thenM (liftE (parseDisplayName (ca_displayName input)))
       (bindM (sv_newId S) (\<lambda>newId.
        bindM (sv_now S) (\<lambda>now.
        (let grant = \<lparr>ag_grantId = ''grant-'' @ newId, ag_consumerId = ca_consumerId input,
               ag_environment = ca_environment input, ag_capabilities = capabilities,
               ag_secretGrants = Some secretGrants, ag_displayName = as_string (ca_displayName input),
               ag_status = G_PENDING, ag_createdAt = now, ag_createdBy = ca_actor input,
               ag_activatedAt = None, ag_activatedFingerprint = None\<rparr>
         in thenM (createAgentGrant S grant) (ret grant))))))))))))"

definition agent_grant_update ::
  "nat \<Rightarrow> 'w services \<Rightarrow> AppConfig \<Rightarrow> string \<Rightarrow> UpdateAgentGrantInput \<Rightarrow> ('w, AgentGrantRecord) app" where
  "agent_grant_update pages S cfg grantId input =
     bindM (getAgentGrant S grantId) (\<lambda>found.
     bindM (orRaise found (notFound ''The requested agent grant was not found.'')) (\<lambda>existing.
     bindM (liftE (parseAgentCapabilities (ua_capabilities input) True)) (\<lambda>capabilities.
     bindM (liftE (parseSecretGrants (ua_secretGrants input) capabilities True)) (\<lambda>parsed.
     bindM (resolveSecretGrants S (ag_environment existing) parsed) (\<lambda>secretGrants.
     thenM (liftE (parseDisplayName (ua_displayName input)))
     (let updated = existing\<lparr>ag_capabilities := capabilities, ag_secretGrants := Some secretGrants,
            ag_displayName := (case as_string (ua_displayName input) of
               None \<Rightarrow> ag_displayName existing | Some name \<Rightarrow> Some name)\<rparr>
      in thenM (whenM (ag_status existing = G_ACTIVE) (reconcileReadAccess pages S cfg updated (ua_actor input)))
        (thenM (updateAgentGrant S updated (ua_displayName input = JUndefined))
          (ret updated))))))))"

record BootstrapCapabilityResult =
  bc_grantId :: string
  bc_token :: string
  bc_expiresAt :: timestamp

definition bootstrap_lifetime :: int where
  "bootstrap_lifetime = 30 * 60 * 1000"

definition issueBootstrapCapability ::
  "'w services \<Rightarrow> string \<Rightarrow> Actor \<Rightarrow> ('w, BootstrapCapabilityResult) app" where
  "issueBootstrapCapability S grantId actor =
     bindM (getAgentGrant S grantId) (\<lambda>found.
     bindM (orRaise found (notFound ''The requested agent grant was not found.'')) (\<lambda>grant.
     thenM (throwIf (ag_status grant \<noteq> G_PENDING)
       (conflict ''A bootstrap capability may only be issued for a pending grant.''))
     (bindM (sv_randomToken S) (\<lambda>random.
      bindM (sv_now S) (\<lambda>t.
      bindM (sv_now S) (\<lambda>now.
      (let token = ''hmlb_'' @ random; expiresAt = t + bootstrap_lifetime
       in thenM (createBootstrapCapability S \<lparr>b_tokenHash = sv_sha256Hex S token, b_grantId = grantId,
              b_expiresAt = expiresAt, b_ttl = expiresAt div 1000, b_status = B_PENDING,
              b_createdAt = now, b_createdBy = actor, b_consumedAt = None, b_consumedFingerprint = None\<rparr>)
          (ret \<lparr>bc_grantId = grantId, bc_token = token, bc_expiresAt = expiresAt\<rparr>))))))))"

record BootstrapRedemptionResult =
  br_result :: ConsumerProvisioningResult
  br_grantId :: string
  br_consumerId :: string
  br_environment :: string
  br_capabilities :: "capability list"
  br_secretGrants :: "AgentSecretGrant list option"

definition bootstrap_actor :: "AgentGrantRecord \<Rightarrow> Actor" where
  "bootstrap_actor grant = \<lparr>actorType = System, actorId = ''bootstrap:'' @ ag_grantId grant, actorEmail = None,
     actorTenantId = None, actorConsumerId = Some (ag_consumerId grant),
     actorEnvironment = Some (ag_environment grant)\<rparr>"

text \<open>What redeem tests before it looks at the certificate request.\<close>

definition redeemable ::
  "'w services \<Rightarrow> string \<Rightarrow> ('w, BootstrapCapabilityRecord \<times> AgentGrantRecord) app" where
  "redeemable S tokenHash =
     bindM (getBootstrapCapability S tokenHash) (\<lambda>found.
     bindM (orRaise found
       (forbiddenMsg ''The bootstrap capability is invalid, expired, or already consumed.'')) (\<lambda>capability.
     bindM (sv_now S) (\<lambda>now.
     thenM (throwIf (b_status capability = B_PENDING \<and> b_expiresAt capability \<le> now)
       (forbiddenMsg ''The bootstrap capability is invalid, expired, or already consumed.''))
     (bindM (getAgentGrant S (b_grantId capability)) (\<lambda>foundGrant.
      bindM (orRaise foundGrant
        (forbiddenMsg ''The bootstrap capability does not name an agent grant.'')) (\<lambda>grant.
      thenM (throwIf (b_status capability = B_CONSUMED \<and> ag_status grant \<noteq> G_ACTIVE)
        (forbiddenMsg ''The bootstrap capability does not name an active agent grant.''))
      (ret (capability, grant))))))))"

definition redeem_identity ::
  "nat \<Rightarrow> 'w services \<Rightarrow> AppConfig \<Rightarrow> 'w pki \<Rightarrow> 'w gateway \<Rightarrow> AgentGrantRecord \<Rightarrow> string \<Rightarrow> string
     \<Rightarrow> ('w, ConsumerProvisioningResult) app" where
  "redeem_identity pages S cfg X G grant tokenHash csrPem =
     bindM (recoverActiveIdentity S cfg X (ag_consumerId grant) (ag_environment grant) csrPem) (\<lambda>recovered.
       (case recovered of
          Some result \<Rightarrow> ret result
        | None \<Rightarrow> bindM (enroll pages S cfg X G \<lparr>ei_consumerId = ag_consumerId grant,
              ei_environment = ag_environment grant, ei_csrPem = csrPem,
              ei_actor = bootstrap_actor grant, ei_idempotencyKey = ''redeem-'' @ tokenHash\<rparr>)
            (\<lambda>enrollment. ret (co_result enrollment))))"

definition redeem ::
  "nat \<Rightarrow> 'w services \<Rightarrow> AppConfig \<Rightarrow> 'w pki \<Rightarrow> 'w gateway \<Rightarrow> 'w iot \<Rightarrow> string \<Rightarrow> string
     \<Rightarrow> ('w, BootstrapRedemptionResult) app" where
  "redeem pages S cfg X G I token csrPem =
     (let tokenHash = sv_sha256Hex S token
      in bindM (redeemable S tokenHash) (\<lambda>(capability, grant).
         bindM (redeem_identity pages S cfg X G grant tokenHash csrPem) (\<lambda>result.
         thenM (throwIf (b_status capability = B_CONSUMED
               \<and> b_consumedFingerprint capability \<noteq> Some (cr_apiFingerprint result))
             (forbiddenMsg ''The bootstrap capability does not match this certificate request.''))
         (thenM (provision I (cf_iotNotificationPolicyName cfg) \<lparr>mq_consumerId = ag_consumerId grant,
             mq_certificateFingerprint = cr_apiFingerprint result, mq_certificatePem = cr_apiCertificatePem result\<rparr>)
         (thenM (reconcileReadAccess pages S cfg grant (bootstrap_actor grant))
         (thenM (activateAgentGrant S (ag_grantId grant) (cr_apiFingerprint result))
         (thenM (whenM (b_status capability = B_PENDING)
             (consumeBootstrapCapability S tokenHash (cr_apiFingerprint result)))
           (ret \<lparr>br_result = result, br_grantId = ag_grantId grant, br_consumerId = ag_consumerId grant,
                 br_environment = ag_environment grant, br_capabilities = ag_capabilities grant,
                 br_secretGrants = ag_secretGrants grant\<rparr>))))))))"

definition reconcileActiveGrant :: "nat \<Rightarrow> 'w services \<Rightarrow> AppConfig \<Rightarrow> string \<Rightarrow> Actor \<Rightarrow> ('w, unit) app" where
  "reconcileActiveGrant pages S cfg grantId actor =
     bindM (getAgentGrant S grantId) (\<lambda>found.
     bindM (orRaise found (notFound ''The requested agent grant was not found.'')) (\<lambda>grant.
       if ag_status grant \<noteq> G_ACTIVE then ret () else reconcileReadAccess pages S cfg grant actor))"

end
