(* ===== verification/Agent_Grant_Examples.thy ===== *)
theory Agent_Grant_Examples
  imports Agent_Grants Enrollment_Examples
begin

text \<open>
  A capability redeemed twice on the in-memory services: the consumer of the grant is active already (an
  earlier redemption was interrupted after the enrollment), so the first redemption recovers its
  certificate and activates the grant, and the second returns the same certificate.
\<close>

definition ref_iot :: "ref_world iot" where
  "ref_iot = \<lparr>
     io_describeCertificate = (\<lambda>f. ret (Some \<lparr>cd_certificateArn = Some (''arn-'' @ f), cd_status = Some ''ACTIVE''\<rparr>)),
     io_updateCertificate = (\<lambda>f s. ret ()), io_registerCertificate = (\<lambda>pem s. ret (Some ''arn'')),
     io_createThing = (\<lambda>n. raise (OtherError ''ResourceAlreadyExistsException'' '''')),
     io_attachThingPrincipal = (\<lambda>n p. ret ()), io_attachPolicy = (\<lambda>p t. ret ()) \<rparr>"

definition ax_grant :: AgentGrantRecord where
  "ax_grant = \<lparr>ag_grantId = ''g1'', ag_consumerId = ''con1'', ag_environment = ''prod'', ag_capabilities = [CRead],
     ag_secretGrants = Some [], ag_displayName = None, ag_status = G_PENDING, ag_createdAt = 1,
     ag_createdBy = ex_actor, ag_activatedAt = None, ag_activatedFingerprint = None\<rparr>"

definition ax_active :: AgentGrantRecord where
  "ax_active = ax_grant\<lparr>ag_status := G_ACTIVE, ag_activatedAt := Some 5000, ag_activatedFingerprint := Some ''f1''\<rparr>"

definition ax_capability :: BootstrapCapabilityRecord where
  "ax_capability = \<lparr>b_tokenHash = ''sha-tok'', b_grantId = ''g1'', b_expiresAt = 6000, b_ttl = 6,
     b_status = B_PENDING, b_createdAt = 1, b_createdBy = ex_actor, b_consumedAt = None,
     b_consumedFingerprint = None\<rparr>"

definition ax_consumed :: BootstrapCapabilityRecord where
  "ax_consumed = ax_capability\<lparr>b_status := B_CONSUMED, b_consumedAt := Some 5000, b_consumedFingerprint := Some ''f1''\<rparr>"

definition ax_pem :: string where
  "ax_pem = enc_strs [''k1'', show_time 0, show_time 9, ''subject'', ''serial'']"

definition ax_rest :: "(dkey \<times> item) list" where
  "ax_rest = [((consumerPk ''con1'', ''PROFILE''), ConsumerIt \<lparr>cn_consumerId = ''con1'', cn_environment = ''prod'',
       cn_subjectUri = ''uri'', cn_status = C_ACTIVE, cn_createdAt = 1, cn_createdBy = ex_actor,
       cn_pendingEnrollmentOperationId = None, cn_consumerDirectoryPk = None, cn_consumerDirectorySk = None\<rparr>),
     ((identityPk ''f1'', ''PROFILE''), IdentityIt \<lparr>i_fingerprint = ''f1'', i_consumerId = ''con1'',
       i_environment = ''prod'', i_kind = K_api, i_status = I_ACTIVE, i_notBefore = 0, i_notAfter = 9,
       i_certificatePem = Some ax_pem, i_identityConsumerPk = Some (identityConsumerPk ''con1''),
       i_identityConsumerSk = Some (9, ''f1'')\<rparr>),
     (issuerKey, IssuerIt nx_issuer),
     ((truststoreRootsPk, rootSk ''root''), TruststoreRootIt (issuer_root nx_issuer ''test''))]"

definition ax_items :: "AgentGrantRecord \<Rightarrow> (dkey \<times> item) list" where
  "ax_items g = [((agentGrantPk ''g1'', ''PROFILE''), AgentGrantIt g),
     ((bootstrapPk ''sha-tok'', ''STATE''), BootstrapIt ax_capability)] @ ax_rest"

definition ax_done :: "(dkey \<times> item) list" where
  "ax_done = [((bootstrapPk ''sha-tok'', ''STATE''), BootstrapIt ax_consumed),
     ((agentGrantPk ''g1'', ''PROFILE''), AgentGrantIt ax_active)] @ ax_rest"

definition ax_csr :: string where
  "ax_csr = csrHeader @ ''k1''"

definition ax_result :: ConsumerProvisioningResult where
  "ax_result = \<lparr>cr_consumerId = ''con1'', cr_environment = ''prod'', cr_rootFingerprint = ''root'',
     cr_apiFingerprint = ''f1'', cr_apiCertificatePem = ax_pem\<rparr>"

definition ax_redeemed :: BootstrapRedemptionResult where
  "ax_redeemed = \<lparr>br_result = ax_result, br_grantId = ''g1'', br_consumerId = ''con1'', br_environment = ''prod'',
     br_capabilities = [CRead], br_secretGrants = Some []\<rparr>"

lemmas ax_keys = nx_keys agentGrantPk_def bootstrapPk_def

lemma ax_services [simp]:
  "sv_get ref_services = ref_get" "sv_query ref_services = ref_query" "sv_write ref_services = ref_write"
  "sv_now ref_services = (\<lambda>w. (Inr (rw_clock w), w))" "sv_sha256Hex ref_services s = ''sha-'' @ s"
  "rw_clock (nx_world i) = 5000"
  by (simp_all add: ref_services_def nx_world_def)

lemma ax_at:
  "map_of (ax_items g) (agentGrantPk ''g1'', ''PROFILE'') = Some (AgentGrantIt g)"
  "map_of (ax_items g) (bootstrapPk ''sha-tok'', ''STATE'') = Some (BootstrapIt ax_capability)"
  "map_of (ax_items g) (consumerPk ''con1'', ''PROFILE'') = map_of ax_rest (consumerPk ''con1'', ''PROFILE'')"
  "map_of (ax_items g) issuerKey = Some (IssuerIt nx_issuer)"
  "map_of (ax_items g) (truststoreRootsPk, rootSk ''root'') = Some (TruststoreRootIt (issuer_root nx_issuer ''test''))"
  by (simp_all add: ax_items_def ax_rest_def ax_keys)

lemma ax_done_at:
  "map_of ax_done (agentGrantPk ''g1'', ''PROFILE'') = Some (AgentGrantIt ax_active)"
  "map_of ax_done (bootstrapPk ''sha-tok'', ''STATE'') = Some (BootstrapIt ax_consumed)"
  "map_of ax_done (consumerPk ''con1'', ''PROFILE'') = map_of ax_rest (consumerPk ''con1'', ''PROFILE'')"
  "map_of ax_done issuerKey = Some (IssuerIt nx_issuer)"
  "map_of ax_done (truststoreRootsPk, rootSk ''root'') = Some (TruststoreRootIt (issuer_root nx_issuer ''test''))"
  by (simp_all add: ax_done_def ax_rest_def ax_keys)

lemma ax_grant_fields [simp]:
  "ag_grantId ax_grant = ''g1''" "ag_consumerId ax_grant = ''con1''" "ag_environment ax_grant = ''prod''"
  "ag_capabilities ax_grant = [CRead]" "ag_secretGrants ax_grant = Some []" "ag_status ax_grant = G_PENDING"
  "ag_grantId ax_active = ''g1''" "ag_consumerId ax_active = ''con1''" "ag_environment ax_active = ''prod''"
  "ag_capabilities ax_active = [CRead]" "ag_secretGrants ax_active = Some []" "ag_status ax_active = G_ACTIVE"
  "ag_activatedFingerprint ax_active = Some ''f1''"
  "b_grantId ax_capability = ''g1''" "b_status ax_capability = B_PENDING" "b_expiresAt ax_capability = 6000"
  "b_grantId ax_consumed = ''g1''" "b_status ax_consumed = B_CONSUMED"
  "b_consumedFingerprint ax_consumed = Some ''f1''"
  by (simp_all add: ax_grant_def ax_active_def ax_capability_def ax_consumed_def)

lemma ax_issuer_run:
  assumes "map_of items issuerKey = Some (IssuerIt nx_issuer)"
    "map_of items (truststoreRootsPk, rootSk ''root'') = Some (TruststoreRootIt (issuer_root nx_issuer ''test''))"
  shows "issuerFingerprint ref_services sx_config ref_pki (nx_world items) = (Inr ''root'', nx_world items)"
proof -
  have "ref_conds [root_action nx_issuer e] (rw_items (nx_world items)) = False" for e
    using assms(2) by (simp add: ref_conds_def root_action_def nx_world_def attribute_not_exists_pk_def nx_issuer_def)
  then have "ref_write (root_action nx_issuer e) (nx_world items)
     = (Inl (ConditionalCheckFailed ''The conditional request failed''), nx_world items)" for e
    by (simp add: ref_write_def)
  moreover have "is_fingerprint nx_issuer = ''root''" "is_rootCertificatePem nx_issuer = ''root-pem''"
    by (simp_all add: nx_issuer_def)
  ultimately show ?thesis
    by (simp add: issuerFingerprint_def getOrCreateIssuer_def getIssuer_def ensureIssuerTruststoreRoot_def
        getTruststoreRoot_def bindM_def thenM_def catchM_def throwIf_def assms issuer_root_def)
qed

lemma ax_matches: "certificateRequestMatchesCertificate ref_pki ax_csr ax_pem = Inr True"
proof -
  have "length (csrHeader @ ''k1'') \<noteq> 0" "\<not> utf8_bytes (csrHeader @ ''k1'') > maximumCsrBytes"
    by (simp_all add: csrHeader_def utf8_bytes_def maximumCsrBytes_def)
  moreover have "occurrences csrHeader (csrHeader @ ''k1'') = 1" by code_simp
  moreover have "ref_parseCsr (csrHeader @ ''k1'')
     = Some \<lparr>csr_verifies = True, csr_rsaBits = Some 2048, csr_publicKey = ''k1'', csr_der = csrHeader @ ''k1''\<rparr>"
    by (simp add: ref_parseCsr_def)
  ultimately have "parseAndVerifyCsr ref_pki ax_csr
     = Inr \<lparr>csr_verifies = True, csr_rsaBits = Some 2048, csr_publicKey = ''k1'', csr_der = csrHeader @ ''k1''\<rparr>"
    by (simp add: ax_csr_def parseAndVerifyCsr_def ref_pki_def)
  then show ?thesis
    by (simp add: certificateRequestMatchesCertificate_def ref_pki_def ref_parseX509_def ax_pem_def)
qed

lemma ax_identity_query:
  "fst (ref_query (identity_query ''con1'' (\<lambda>i. i_kind i = K_api) False (Some 100) None) (nx_world (ax_items ax_grant)))
     = Inr \<lparr>qp_items = [ax_rest ! 1], qp_lastEvaluatedKey = None\<rparr>"
  "fst (ref_query (identity_query ''con1'' (\<lambda>i. i_kind i = K_api) False (Some 100) None) (nx_world ax_done))
     = Inr \<lparr>qp_items = [ax_rest ! 1], qp_lastEvaluatedKey = None\<rparr>"
  "fst (ref_query (access_query ''con1'' ''prod'' None) (nx_world (ax_items ax_grant)))
     = Inr \<lparr>qp_items = [], qp_lastEvaluatedKey = None\<rparr>"
  "fst (ref_query (access_query ''con1'' ''prod'' None) (nx_world ax_done))
     = Inr \<lparr>qp_items = [], qp_lastEvaluatedKey = None\<rparr>"
  by code_simp+

lemma ax_recover:
  assumes "items = ax_items ax_grant \<or> items = ax_done"
  shows "recoverActiveIdentity ref_services sx_config ref_pki ''con1'' ''prod'' ax_csr (nx_world items)
    = (Inr (Some ax_result), nx_world items)"
proof -
  have q: "ref_query (identity_query ''con1'' (\<lambda>i. i_kind i = K_api) False (Some 100) None) (nx_world items)
      = (Inr \<lparr>qp_items = [ax_rest ! 1], qp_lastEvaluatedKey = None\<rparr>, nx_world items)"
    using assms ax_identity_query(1,2) ref_query_same by (metis prod.collapse)
  have c: "map_of items (consumerPk ''con1'', ''PROFILE'') = map_of ax_rest (consumerPk ''con1'', ''PROFILE'')"
    "map_of items issuerKey = Some (IssuerIt nx_issuer)"
    "map_of items (truststoreRootsPk, rootSk ''root'') = Some (TruststoreRootIt (issuer_root nx_issuer ''test''))"
    using assms ax_at ax_done_at by auto
  have p: "map_of ax_rest (consumerPk ''con1'', ''PROFILE'') = Some (snd (ax_rest ! 0))" by (simp add: ax_rest_def)
  have r: "ax_rest ! 0 = ((consumerPk ''con1'', ''PROFILE''), ConsumerIt \<lparr>cn_consumerId = ''con1'', cn_environment = ''prod'',
       cn_subjectUri = ''uri'', cn_status = C_ACTIVE, cn_createdAt = 1, cn_createdBy = ex_actor,
       cn_pendingEnrollmentOperationId = None, cn_consumerDirectoryPk = None, cn_consumerDirectorySk = None\<rparr>)"
    "ax_rest ! Suc 0 = ((identityPk ''f1'', ''PROFILE''), IdentityIt \<lparr>i_fingerprint = ''f1'', i_consumerId = ''con1'',
       i_environment = ''prod'', i_kind = K_api, i_status = I_ACTIVE, i_notBefore = 0, i_notAfter = 9,
       i_certificatePem = Some ax_pem, i_identityConsumerPk = Some (identityConsumerPk ''con1''),
       i_identityConsumerSk = Some (9, ''f1'')\<rparr>)"
    by (simp_all add: ax_rest_def)
  have "assertIdentifier ''con1'' ''consumerId'' = Inr ()" by code_simp
  then show ?thesis
    by (simp add: recoverActiveIdentity_def getConsumer_def listConsumerApiIdentities_def q c(1) p r bindM_def thenM_def
        liftE_def orRaise_def throwIf_def active_consumer_def identity_items_def List.map_filter_def
        ax_issuer_run [OF c(2,3)] ax_matches ax_result_def)
qed

lemma ax_reconcile:
  assumes "items = ax_items ax_grant \<or> items = ax_done" "ag_consumerId g = ''con1''" "ag_environment g = ''prod''"
    "ag_secretGrants g = Some []"
  shows "reconcileReadAccess (Suc n) ref_services sx_config g actor (nx_world items) = (Inr (), nx_world items)"
proof -
  have q: "ref_query (access_query ''con1'' ''prod'' None) (nx_world items)
      = (Inr \<lparr>qp_items = [], qp_lastEvaluatedKey = None\<rparr>, nx_world items)"
    using assms(1) ax_identity_query(3,4) ref_query_same by (metis prod.collapse)
  show ?thesis
    by (simp add: reconcileReadAccess_def reconcileAgentReadAccess_def listConsumerSecretGrants_def assms(2-4) q
        bindM_def thenM_def orRaise_def access_items_def by_uid_def List.map_filter_def Let_def)
qed

lemma ax_provision: "provision ref_iot p identity w = (Inr (), w)"
  by (simp add: provision_def ensureCertificate_def current_certificate_def unless_exists_def ref_iot_def bindM_def
      thenM_def catchM_def orRaise_def throwIf_def whenM_def described_arn_def described_status_def
      isAlreadyExists_def error_named_def)

lemma ax_activate:
  "activateAgentGrant ref_services ''g1'' ''f1'' (nx_world (ax_items ax_grant)) = (Inr (), nx_world (ax_items ax_active))"
  "activateAgentGrant ref_services ''g1'' ''f1'' (nx_world ax_done) = (Inr (), nx_world ax_done)"
proof -
  have g: "ax_grant\<lparr>ag_status := G_ACTIVE, ag_activatedAt := Some 5000, ag_activatedFingerprint := Some ''f1''\<rparr> = ax_active"
    by (simp add: ax_active_def)
  have "ref_write (activate_action ''g1'' ''f1'' 5000) (nx_world (ax_items ax_grant)) = (Inr (), nx_world (ax_items ax_active))"
    by (simp add: ref_write_def ref_conds_def ref_apply_def activate_action_def nx_world_def ax_items_def ax_rest_def
        ax_keys List.map_filter_def g)
  then show "activateAgentGrant ref_services ''g1'' ''f1'' (nx_world (ax_items ax_grant)) = (Inr (), nx_world (ax_items ax_active))"
    by (simp add: activateAgentGrant_def getAgentGrant_def bindM_def catchM_def ax_at)
  show "activateAgentGrant ref_services ''g1'' ''f1'' (nx_world ax_done) = (Inr (), nx_world ax_done)"
    by (simp add: activateAgentGrant_def getAgentGrant_def bindM_def ax_done_at)
qed

lemma ax_consume:
  "consumeBootstrapCapability ref_services ''sha-tok'' ''f1'' (nx_world (ax_items ax_active)) = (Inr (), nx_world ax_done)"
proof -
  have g: "ax_capability\<lparr>b_status := B_CONSUMED, b_consumedAt := Some 5000, b_consumedFingerprint := Some ''f1''\<rparr> = ax_consumed"
    by (simp add: ax_consumed_def)
  have "ref_write (consume_action ''sha-tok'' ''f1'' 5000) (nx_world (ax_items ax_active)) = (Inr (), nx_world ax_done)"
    by (simp add: ref_write_def ref_conds_def ref_apply_def consume_action_def nx_world_def ax_items_def ax_rest_def
        ax_done_def ax_keys List.map_filter_def g)
  then show ?thesis
    by (simp add: consumeBootstrapCapability_def getBootstrapCapability_def bindM_def catchM_def ax_at)
qed

lemmas ax_redeem_defs = redeem_def redeemable_def redeem_identity_def getBootstrapCapability_def getAgentGrant_def
  bindM_def thenM_def orRaise_def throwIf_def whenM_def Let_def ax_provision ax_redeemed_def

lemma ax_redeem:
  "redeem (Suc n) ref_services sx_config ref_pki ref_gateway ref_iot ''tok'' ax_csr (nx_world (ax_items ax_grant))
     = (Inr ax_redeemed, nx_world ax_done)"
  "redeem (Suc n) ref_services sx_config ref_pki ref_gateway ref_iot ''tok'' ax_csr (nx_world ax_done)
     = (Inr ax_redeemed, nx_world ax_done)"
proof -
  have f: "cr_apiFingerprint ax_result = ''f1''" by (simp add: ax_result_def)
  show "redeem (Suc n) ref_services sx_config ref_pki ref_gateway ref_iot ''tok'' ax_csr (nx_world (ax_items ax_grant))
     = (Inr ax_redeemed, nx_world ax_done)"
    by (simp add: ax_redeem_defs ax_at ax_recover ax_reconcile ax_activate ax_consume f)
  show "redeem (Suc n) ref_services sx_config ref_pki ref_gateway ref_iot ''tok'' ax_csr (nx_world ax_done)
     = (Inr ax_redeemed, nx_world ax_done)"
    by (simp add: ax_redeem_defs ax_done_at ax_recover ax_reconcile ax_activate f)
qed

end
