(* ===== verification/Agent_Grant_Properties.thy ===== *)
theory Agent_Grant_Properties
  imports Agent_Grant_Examples Enrollment_Properties Secrets_Laws
begin

text \<open>
  A grant is activated for one certificate. The grants and capabilities of the table are a view that no
  other component of the server touches (enrollment, secrets, AWS IoT), and the transactions on them
  bind a grant to the first certificate it was redeemed with; a second redemption, by any capability of
  the grant, returns that certificate or fails.
\<close>

section \<open>The view\<close>

definition grant_of :: "table \<Rightarrow> string \<Rightarrow> AgentGrantRecord option" where
  "grant_of t grantId = as_agent_grant (t (agentGrantPk grantId, ''PROFILE''))"

definition capability_of :: "table \<Rightarrow> string \<Rightarrow> BootstrapCapabilityRecord option" where
  "capability_of t tokenHash = as_bootstrap (t (bootstrapPk tokenHash, ''STATE''))"

definition agent_view ::
  "table \<Rightarrow> (string \<Rightarrow> AgentGrantRecord option) \<times> (string \<Rightarrow> BootstrapCapabilityRecord option)" where
  "agent_view t = (grant_of t, capability_of t)"

definition agent_foreign :: "action \<Rightarrow> bool" where
  "agent_foreign a \<longleftrightarrow> (\<forall>g. action_key a \<noteq> (agentGrantPk g, ''PROFILE''))
     \<and> (\<forall>h. action_key a \<noteq> (bootstrapPk h, ''STATE''))"

lemma agent_view_foreign:
  assumes "committed acts t t'" "\<And>a. a \<in> set acts \<Longrightarrow> agent_foreign a"
  shows "agent_view t' = agent_view t"
proof -
  have "(agentGrantPk g, ''PROFILE'') \<notin> action_key ` set acts" "(bootstrapPk h, ''STATE'') \<notin> action_key ` set acts" for g h
    using assms(2) by (auto simp: agent_foreign_def) metis+
  then show ?thesis
    using committed_other [OF assms(1)] by (simp add: agent_view_def fun_eq_iff grant_of_def capability_of_def)
qed

lemma agent_keys_inject [simp]:
  "agentGrantPk a = agentGrantPk b \<longleftrightarrow> a = b" "bootstrapPk a = bootstrapPk b \<longleftrightarrow> a = b"
  by (simp_all add: agentGrantPk_def bootstrapPk_def)

lemma agent_keys_disjoint [simp]:
  "agentGrantPk a \<noteq> bootstrapPk b" "bootstrapPk b \<noteq> agentGrantPk a"
  by (simp_all add: agentGrantPk_def bootstrapPk_def)

lemma secret_not_agent [simp]:
  "secretPk u \<noteq> agentGrantPk a" "secretPk u \<noteq> bootstrapPk a"
  "secretNamePk e i \<noteq> agentGrantPk a" "secretNamePk e i \<noteq> bootstrapPk a"
  by (simp_all add: secretPk_def secretNamePk_def agentGrantPk_def bootstrapPk_def)

lemma consumer_not_agent [simp]:
  "consumerPk c \<noteq> agentGrantPk a" "consumerPk c \<noteq> bootstrapPk a"
  "identityPk f \<noteq> agentGrantPk a" "identityPk f \<noteq> bootstrapPk a"
  "enrollmentPk p \<noteq> agentGrantPk a" "enrollmentPk p \<noteq> bootstrapPk a"
  by (simp_all add: consumerPk_def identityPk_def enrollmentPk_def agentGrantPk_def bootstrapPk_def)

lemma request_not_agent [simp]:
  "idempotencyPk x \<noteq> agentGrantPk a" "idempotencyPk x \<noteq> bootstrapPk a"
  "notificationPk n \<noteq> agentGrantPk a" "notificationPk n \<noteq> bootstrapPk a"
  "syncPk e \<noteq> agentGrantPk a" "syncPk e \<noteq> bootstrapPk a"
  by (simp_all add: idempotencyPk_def notificationPk_def syncPk_def agentGrantPk_def bootstrapPk_def)

lemma truststore_not_agent [simp]:
  "truststoreStateKey \<noteq> (agentGrantPk a, s)" "truststoreStateKey \<noteq> (bootstrapPk a, s)"
  "issuerKey \<noteq> (agentGrantPk a, s)" "issuerKey \<noteq> (bootstrapPk a, s)"
  "truststoreRootsPk \<noteq> agentGrantPk a" "truststoreRootsPk \<noteq> bootstrapPk a"
  by (simp_all add: truststoreStateKey_def issuerKey_def truststoreRootsPk_def agentGrantPk_def bootstrapPk_def)

section \<open>No other component touches the view\<close>

abbreviation (input) views :: "('w \<Rightarrow> table) \<Rightarrow> 'w \<Rightarrow>
    (string \<Rightarrow> AgentGrantRecord option) \<times> (string \<Rightarrow> BootstrapCapabilityRecord option)" where
  "views table \<equiv> \<lambda>w. agent_view (table w)"

named_theorems view_intro "computations that leave the view of grants and capabilities"

lemma keeps_view: "keeps table m \<Longrightarrow> keeps (views table) m"
  by (rule keepsI) (drule (1) keepsD, simp)

lemma moves_view:
  assumes "\<And>t. moves table t (T t) m" "\<And>t t'. t' \<in> T t \<Longrightarrow> agent_view t' = agent_view t"
  shows "keeps (views table) m"
proof (rule keepsI)
  fix w r w' assume "m w = (r, w')"
  from movesD [OF assms(1) this] show "agent_view (table w') = agent_view (table w)"
    using assms(2) by auto
qed

lemma foreign_mutation:
  "a \<in> set (prepare_actions m now) \<Longrightarrow> agent_foreign a"
  "a \<in> set (sync_items e st ep p r ttl (\<lambda>sequence. complete_head_action c sequence # complete_rest c due ns))
     \<Longrightarrow> agent_foreign a"
  by (auto simp: agent_foreign_def prepare_actions_def prepare_head_actions_def sync_items_def sync_counter_def
      complete_head_action_def complete_rest_def ready_actions_def retention_actions_def archive_actions_def
      access_actions_def notification_actions_def workflowReadyUpdate_def retentionCandidateUpdate_def Let_def
      split: option.splits if_splits)

context dynamo
begin

lemma transact_view [view_intro]:
  "(\<And>a. a \<in> set acts \<Longrightarrow> agent_foreign a) \<Longrightarrow> keeps (views table) (sv_transactWrite S acts)"
  by (rule keepsI) (erule transact_cases, simp, rule agent_view_foreign)

lemma write_view [view_intro]: "agent_foreign a \<Longrightarrow> keeps (views table) (sv_write S a)"
  by (rule keepsI) (erule write_cases, simp, rule agent_view_foreign [where acts = "[a]"], auto)

lemma mutation_view [view_intro]:
  "keeps (views table) (prepareMutation S m)" "keeps (views table) (completeMutation S c)"
proof -
  show "keeps (views table) (prepareMutation S m)"
    by (rule moves_view [OF prepareMutation_moves])
      (auto simp: prepared_at_def intro: agent_view_foreign foreign_mutation)
  show "keeps (views table) (completeMutation S c)"
    by (rule moves_view [OF completeMutation_moves])
      (auto simp: completion_def publication_def intro: agent_view_foreign foreign_mutation)
qed

lemmas view_reads = reads_keep_table [THEN keeps_view] service_keeps [THEN keeps_view]
  enrollment_reads_keep [THEN keeps_view]

lemma secrets_view [view_intro]:
  "keeps (views table) (persistMutation S cfg control payload actor key expected priorHead prior arch)"
  unfolding persistMutation_def Let_def
  by (intro keeps_intro mutation_view view_reads putImmutable_keeps [THEN keeps_view] service_reads_keep [THEN keeps_view])

lemma secrets_update_view [view_intro]: "keeps (views table) (secrets_update S cfg input)"
  unfolding secrets_update_def updateFromSnapshot_def Let_def
  by (intro keeps_intro secrets_view view_reads snapshot_reads_keep [THEN keeps_view]
      service_reads_keep [THEN keeps_view] assertAclEnvironment_keeps [THEN keeps_view]
      update_payload_keeps [THEN keeps_view])

lemma revoke_grant_view [view_intro]:
  "keeps (views table) (revokeConsumerSecretGrant S cfg input)"
  "keeps (views table) (grantAgentConsumerReadAccess S cfg c e i u a)"
  unfolding revokeConsumerSecretGrant_def grantAgentConsumerReadAccess_def Let_def
  by (intro keeps_intro secrets_update_view view_reads service_reads_keep [THEN keeps_view])+

lemma listAllConsumerSecretGrants_keeps [keeps_intro]: "keeps table (listAllConsumerSecretGrants n S c e start)"
proof (induction n arbitrary: start)
  case (Suc n)
  have "keeps table (grant_candidate S e r)" for r
    unfolding grant_candidate_def Let_def by (intro keeps_intro reads_keep_table)
  then have "keeps table (listConsumerSecretGrants S c e start)"
    unfolding listConsumerSecretGrants_def by (intro keeps_intro service_keeps)
  then show ?case by simp (intro keeps_intro Suc)
qed (simp add: keeps_ret)

lemma reconcile_view [view_intro]:
  "keeps (views table) (reconcileAgentReadAccess pages S cfg input)"
  "keeps (views table) (reconcileReadAccess pages S cfg grant actor)"
proof -
  show all: "keeps (views table) (reconcileAgentReadAccess pages S cfg input)" for input
    unfolding reconcileAgentReadAccess_def Let_def
    by (intro keeps_intro revoke_grant_view view_reads listAllConsumerSecretGrants_keeps [THEN keeps_view])
  show "keeps (views table) (reconcileReadAccess pages S cfg grant actor)"
    unfolding reconcileReadAccess_def by (intro keeps_intro all)
qed

lemma enrollment_transactions_view [view_intro]:
  "keeps (views table) (ensureIssuerTruststoreRoot S issuer env)" "keeps (views table) (createIssuer S issuer env)"
  "keeps (views table) (startEnrollment S p)" "keeps (views table) (associateEnrollmentIdempotency S e a k)"
  "keeps (views table) (acquireTruststoreLease S op ex)" "keeps (views table) (recordTruststoreBundle S op ob roots)"
  "keeps (views table) (completeEnrollment S e ob roots)" "keeps (views table) (failEnrollment S e)"
proof -
  have root: "agent_foreign (root_action i en)" for i en
    by (simp add: agent_foreign_def root_action_def)
  show ensure: "keeps (views table) (ensureIssuerTruststoreRoot S issuer env)" for issuer
    unfolding ensureIssuerTruststoreRoot_def by (intro keeps_intro write_view root view_reads)
  show "keeps (views table) (createIssuer S issuer env)"
    unfolding createIssuer_def
    by (intro keeps_intro transact_view ensure view_reads)
      (auto simp: issuer_actions_def root_action_def agent_foreign_def)
  show "keeps (views table) (startEnrollment S p)"
    unfolding startEnrollment_def
    by (intro keeps_intro transact_view) (auto simp: agent_foreign_def start_actions_def)
  show "keeps (views table) (associateEnrollmentIdempotency S e a k)"
    unfolding associateEnrollmentIdempotency_def
    by (intro keeps_intro write_view) (simp add: agent_foreign_def)
  show "keeps (views table) (acquireTruststoreLease S op ex)"
    unfolding acquireTruststoreLease_def
    by (intro keeps_intro write_view view_reads) (simp add: agent_foreign_def lease_action_def)
  show "keeps (views table) (recordTruststoreBundle S op ob roots)"
    unfolding recordTruststoreBundle_def
    by (intro write_view) (simp add: agent_foreign_def bundle_action_def)
  show "keeps (views table) (completeEnrollment S e ob roots)"
    unfolding completeEnrollment_def
    by (intro keeps_intro transact_view) (auto simp: agent_foreign_def action_list_defs split: if_splits)
  show "keeps (views table) (failEnrollment S e)"
    unfolding failEnrollment_def
    by (intro transact_view) (auto simp: agent_foreign_def action_list_defs split: if_splits)
qed

end

context enrollment_services
begin

lemmas enrollment_reads = getDomainName_keeps [THEN keeps_view] publish_keeps [THEN keeps_view]
  issuer_keys_keep [THEN keeps_view] generateKeyPair_keeps [THEN keeps_view]
  listTruststoreRoots_keeps [THEN keeps_view] putImmutableOrGet_keeps [THEN keeps_view]

lemma issuer_view [view_intro]:
  "keeps (views table) (getOrCreateIssuer S cfg X)" "keeps (views table) (issuerFingerprint S cfg X)"
  "keeps (views table) (issueApiIdentity S cfg X c env csr)"
proof -
  show get: "keeps (views table) (getOrCreateIssuer S cfg X)"
    unfolding getOrCreateIssuer_def Let_def
    by (intro keeps_intro enrollment_transactions_view enrollment_reads view_reads)
  show "keeps (views table) (issuerFingerprint S cfg X)"
    unfolding issuerFingerprint_def by (intro keeps_intro get)
  show "keeps (views table) (issueApiIdentity S cfg X c env csr)"
    unfolding issueApiIdentity_def Let_def
    by (intro keeps_intro get enrollment_reads view_reads)
qed

lemma keeps_case_prod: "(\<And>a b. p = (a, b) \<Longrightarrow> keeps v (f a b)) \<Longrightarrow> keeps v (case p of (a, b) \<Rightarrow> f a b)"
  by (cases p) auto

lemma resume_view [view_intro]: "keeps (views table) (resume pages S cfg G op)"
proof -
  have bundled: "keeps (views table) (resume_truststore pages S cfg e)" for e
    unfolding resume_truststore_def createTruststoreBundle_def Let_def
    by (intro keeps_intro enrollment_transactions_view enrollment_reads view_reads)
  have rollback: "keeps (views table) (rollbackRejectedTruststore S cfg G e)" for e
    unfolding rollbackRejectedTruststore_def
    by (intro keeps_intro keeps_case_prod enrollment_transactions_view enrollment_reads view_reads)
  have other: "keeps (views table) (completed_by_other S e error)" for e error
    unfolding completed_by_other_def by (intro keeps_intro view_reads)
  show ?thesis
    unfolding resume_def resume_pending_def
    by (intro keeps_intro keeps_case_prod bundled rollback other enrollment_transactions_view enrollment_reads view_reads)
qed

lemma recorded_view [view_intro]: "keeps (views table) (resume_recorded pages S cfg G d r)"
  unfolding resume_recorded_def assertIdempotency_def stringField_def by (intro keeps_intro resume_view)

lemma winner_view [view_intro]:
  "keeps (views table) write \<Longrightarrow> keeps (views table) (or_resume_winner pages S cfg G input d op write)"
  unfolding or_resume_winner_def by (intro keeps_intro recorded_view resume_view view_reads)

lemma enroll_view [view_intro]: "keeps (views table) (enroll pages S cfg X G input)"
  unfolding enroll_def startOrResume_def Let_def environments_require_def requireEnvironment_def
  by (intro keeps_intro issuer_view recorded_view winner_view enrollment_transactions_view view_reads)

lemma recover_view [view_intro]: "keeps (views table) (recoverActiveIdentity S cfg X c env csr)"
proof -
  have "keeps (views table) (listConsumerApiIdentities S c start)" for start
    unfolding listConsumerApiIdentities_def by (intro keeps_intro view_reads)
  then show ?thesis unfolding recoverActiveIdentity_def by (intro keeps_intro issuer_view view_reads)
qed

end

section \<open>The transactions on grants and capabilities\<close>

text \<open>
  Any transaction of the server, and the removal of a capability by the time to live of the table.
\<close>

inductive agent_step :: "table \<Rightarrow> table \<Rightarrow> bool" where
  as_create: "committed (create_grant_actions g) t t' \<Longrightarrow> agent_step t t'"
| as_update: "committed [update_grant_action g b] t t' \<Longrightarrow> agent_step t t'"
| as_issue: "committed [create_bootstrap_action c] t t' \<Longrightarrow> agent_step t t'"
| as_activate: "committed [activate_action grantId fingerprint now] t t' \<Longrightarrow> agent_step t t'"
| as_consume: "committed [consume_action tokenHash fingerprint now] t t' \<Longrightarrow> agent_step t t'"
| as_expire: "agent_step t (t((bootstrapPk tokenHash, ''STATE'') := None))"
| as_other: "committed acts t t' \<Longrightarrow> (\<And>a. a \<in> set acts \<Longrightarrow> agent_foreign a) \<Longrightarrow> agent_step t t'"

definition bound_grant :: "table \<Rightarrow> string \<Rightarrow> string \<Rightarrow> bool" where
  "bound_grant t grantId fingerprint \<longleftrightarrow> (\<exists>g. grant_of t grantId = Some g \<and> ag_status g = G_ACTIVE
     \<and> ag_activatedFingerprint g = Some fingerprint)"

definition consumed_by :: "table \<Rightarrow> string \<Rightarrow> string \<Rightarrow> bool" where
  "consumed_by t h f \<longleftrightarrow> (\<exists>b. capability_of t h = Some b \<and> b_status b = B_CONSUMED
     \<and> b_consumedFingerprint b = Some f)"

lemma bound_grant_view: "agent_view t' = agent_view t \<Longrightarrow> bound_grant t' g f = bound_grant t g f"
  by (simp add: agent_view_def bound_grant_def)

lemma bound_grant_other:
  "t' (agentGrantPk g, ''PROFILE'') = t (agentGrantPk g, ''PROFILE'') \<Longrightarrow> bound_grant t' g f = bound_grant t g f"
  by (simp add: bound_grant_def grant_of_def)

lemma committed_Update_single:
  "committed [Update k u c] t t' \<Longrightarrow> \<exists>i. t k = Some i \<and> c i \<and> t' k = Some (u i)"
  by (rule committed_Update [where k = k and u = u and c = c]) auto

lemma grant_update_bound:
  assumes com: "committed [Update (agentGrantPk g', ''PROFILE'') (on_grant u) c] t t'" and b: "bound_grant t g f"
    and u: "\<And>x. g' = g \<Longrightarrow> c (AgentGrantIt x) \<Longrightarrow> ag_status x = G_ACTIVE \<Longrightarrow>
      ag_status (u x) = G_ACTIVE \<and> ag_activatedFingerprint (u x) = ag_activatedFingerprint x"
  shows "bound_grant t' g f"
proof (cases "g' = g")
  case True
  obtain x where x: "t (agentGrantPk g, ''PROFILE'') = Some (AgentGrantIt x)" "ag_status x = G_ACTIVE"
    "ag_activatedFingerprint x = Some f"
    using b by (auto simp: bound_grant_def grant_of_def)
  obtain i where "t (agentGrantPk g', ''PROFILE'') = Some i" "c i"
    "t' (agentGrantPk g', ''PROFILE'') = Some (on_grant u i)"
    using committed_Update_single [OF com] by blast
  with x(1) True have i: "i = AgentGrantIt x" "c i" "t' (agentGrantPk g, ''PROFILE'') = Some (on_grant u i)" by simp_all
  then have "c (AgentGrantIt x)" "t' (agentGrantPk g, ''PROFILE'') = Some (AgentGrantIt (u x))" by simp_all
  with u [OF True this(1) x(2)] x(3) show ?thesis by (simp add: bound_grant_def grant_of_def)
next
  case False
  then have "t' (agentGrantPk g, ''PROFILE'') = t (agentGrantPk g, ''PROFILE'')"
    by (intro committed_other [OF com]) simp
  from bound_grant_other [of t' g t, OF this] b show ?thesis by simp
qed

lemma other_key_bound:
  assumes "committed acts t t'" "bound_grant t g f" "(agentGrantPk g, ''PROFILE'') \<notin> action_key ` set acts"
  shows "bound_grant t' g f"
  using bound_grant_other [of t' g t, OF committed_other [OF assms(1,3)]] assms(2) by simp

lemma agent_step_bound:
  assumes "agent_step t t'" "bound_grant t g f"
  shows "bound_grant t' g f"
  using assms
proof (induction rule: agent_step.induct)
  case (as_create g' t t')
  have "Put (agentGrantPk (ag_grantId g'), ''PROFILE'') (AgentGrantIt g') attribute_not_exists_pk
      \<in> set (create_grant_actions g')" by (simp add: create_grant_actions_def)
  from committed_Put(1) [OF as_create(1) this] have "ag_grantId g' \<noteq> g"
    using as_create(2) by (auto simp: bound_grant_def grant_of_def)
  then show ?case by (intro other_key_bound [OF as_create]) (simp add: create_grant_actions_def)
next
  case (as_update g' b t t')
  show ?case by (rule grant_update_bound [OF as_update(1) [unfolded update_grant_action_def] as_update(2)]) simp
next
  case (as_issue c t t')
  then show ?case by (rule other_key_bound) (simp add: create_bootstrap_action_def)
next
  case (as_activate g' f' now t t')
  show ?case by (rule grant_update_bound [OF as_activate(1) [unfolded activate_action_def] as_activate(2)]) simp
next
  case (as_consume h f' now t t')
  then show ?case by (rule other_key_bound) (simp add: consume_action_def)
next
  case (as_expire t h)
  then show ?case by (simp add: bound_grant_def grant_of_def)
next
  case (as_other acts t t')
  from bound_grant_view [OF agent_view_foreign [OF as_other(1,2)]] as_other(3) show ?case by simp
qed

lemma agent_steps_bound: "agent_step\<^sup>*\<^sup>* t t' \<Longrightarrow> bound_grant t g f \<Longrightarrow> bound_grant t' g f"
  by (induction rule: rtranclp_induct) (auto intro: agent_step_bound)

section \<open>Redeeming a capability\<close>

locale agent_services = enrollment_services S X table G
  for S :: "'w services" and X :: "'w pki" and table :: "'w \<Rightarrow> table" and G :: "'w gateway" +
  fixes I :: "'w iot"
  assumes describe_keeps: "keeps table (io_describeCertificate I f)"
    and update_keeps: "keeps table (io_updateCertificate I f s)"
    and register_keeps: "keeps table (io_registerCertificate I pem s)"
    and createThing_keeps: "keeps table (io_createThing I n)"
    and attachThing_keeps: "keeps table (io_attachThingPrincipal I n p)"
    and attachPolicy_keeps: "keeps table (io_attachPolicy I p t)"
begin

lemma provision_keeps: "keeps table (provision I policy identity)"
  unfolding provision_def ensureCertificate_def current_certificate_def register_certificate_def unless_exists_def
  by (intro keeps_intro describe_keeps update_keeps register_keeps createThing_keeps attachThing_keeps attachPolicy_keeps)

lemma getAgentGrant_value: "getAgentGrant S g w = (Inr x, w') \<Longrightarrow> x = grant_of (table w) g \<and> table w' = table w"
  by (auto simp: getAgentGrant_def grant_of_def em_ok dest: get_item get_run)

lemma getBootstrap_value:
  "getBootstrapCapability S h w = (Inr x, w') \<Longrightarrow> x = capability_of (table w) h \<and> table w' = table w"
  by (auto simp: getBootstrapCapability_def capability_of_def em_ok dest: get_item get_run)

lemma activate_binds:
  assumes "activateAgentGrant S g f w = (Inr u, w')"
  shows "bound_grant (table w') g f" "\<And>f'. bound_grant (table w) g f' \<Longrightarrow> f' = f"
    "capability_of (table w') = capability_of (table w)"
proof -
  from assms obtain x w1 where x: "getAgentGrant S g w = (Inr x, w1)"
    and rest: "(\<exists>r. x = Some r \<and> ag_status r = G_ACTIVE \<and> ag_activatedFingerprint r = Some f) \<and> w' = w1
      \<or> (\<exists>now w2. sv_now S w1 = (Inr now, w2) \<and> sv_write S (activate_action g f now) w2 = (Inr (), w'))"
    unfolding activateAgentGrant_def by (auto simp: em_ok em_case split: option.splits if_splits)
  note x = getAgentGrant_value [OF x]
  from rest have "bound_grant (table w') g f \<and> (\<forall>f'. bound_grant (table w) g f' \<longrightarrow> f' = f)
    \<and> capability_of (table w') = capability_of (table w)"
  proof
    assume "(\<exists>r. x = Some r \<and> ag_status r = G_ACTIVE \<and> ag_activatedFingerprint r = Some f) \<and> w' = w1"
    with x show ?thesis by (auto simp: bound_grant_def)
  next
    assume "\<exists>now w2. sv_now S w1 = (Inr now, w2) \<and> sv_write S (activate_action g f now) w2 = (Inr (), w')"
    then obtain now w2 where n: "sv_now S w1 = (Inr now, w2)"
      and com: "committed [activate_action g f now] (table w2) (table w')" by (blast dest: write_done)
    have t: "table w2 = table w" using now_run [OF n] x by simp
    obtain i where
      i: "table w (agentGrantPk g, ''PROFILE'') = Some i" "grant_sat (\<lambda>g. ag_status g = G_PENDING) i"
      "table w' (agentGrantPk g, ''PROFILE'') = Some (on_grant (\<lambda>g. g\<lparr>ag_status := G_ACTIVE,
         ag_activatedAt := Some now, ag_activatedFingerprint := Some f\<rparr>) i)"
      using committed_Update_single [OF com [unfolded t activate_action_def]] by blast
    have "table w' (bootstrapPk h, ''STATE'') = table w (bootstrapPk h, ''STATE'')" for h
      using committed_other [OF com, of "(bootstrapPk h, ''STATE'')"] t by (simp add: activate_action_def)
    with i show ?thesis
      by (auto simp: bound_grant_def grant_of_def capability_of_def dest!: agent_satD)
  qed
  then show "bound_grant (table w') g f" "\<And>f'. bound_grant (table w) g f' \<Longrightarrow> f' = f"
    "capability_of (table w') = capability_of (table w)" by blast+
qed

lemma consume_done:
  assumes "consumeBootstrapCapability S h f w = (Inr u, w')"
  shows "consumed_by (table w') h f" "grant_of (table w') = grant_of (table w)"
proof -
  from assms obtain x w1 where x: "getBootstrapCapability S h w = (Inr x, w1)"
    and rest: "(\<exists>r. x = Some r \<and> b_status r = B_CONSUMED \<and> b_consumedFingerprint r = Some f) \<and> w' = w1
      \<or> (\<exists>now w2. sv_now S w1 = (Inr now, w2) \<and> sv_write S (consume_action h f now) w2 = (Inr (), w'))"
    unfolding consumeBootstrapCapability_def by (auto simp: em_ok em_case split: option.splits if_splits)
  note x = getBootstrap_value [OF x]
  from rest have "consumed_by (table w') h f \<and> grant_of (table w') = grant_of (table w)"
  proof
    assume "(\<exists>r. x = Some r \<and> b_status r = B_CONSUMED \<and> b_consumedFingerprint r = Some f) \<and> w' = w1"
    with x show ?thesis by (auto simp: consumed_by_def)
  next
    assume "\<exists>now w2. sv_now S w1 = (Inr now, w2) \<and> sv_write S (consume_action h f now) w2 = (Inr (), w')"
    then obtain now w2 where n: "sv_now S w1 = (Inr now, w2)"
      and com: "committed [consume_action h f now] (table w2) (table w')" by (blast dest: write_done)
    have t: "table w2 = table w" using now_run [OF n] x by simp
    obtain i where
      i: "table w (bootstrapPk h, ''STATE'') = Some i" "bootstrap_sat (\<lambda>b. b_status b = B_PENDING) i"
      "table w' (bootstrapPk h, ''STATE'') = Some (on_bootstrap (\<lambda>b. b\<lparr>b_status := B_CONSUMED,
         b_consumedAt := Some now, b_consumedFingerprint := Some f\<rparr>) i)"
      using committed_Update_single [OF com [unfolded t consume_action_def]] by blast
    have "table w' (agentGrantPk g, ''PROFILE'') = table w (agentGrantPk g, ''PROFILE'')" for g
      using committed_other [OF com, of "(agentGrantPk g, ''PROFILE'')"] t by (simp add: consume_action_def)
    with i show ?thesis
      by (auto simp: consumed_by_def grant_of_def capability_of_def dest!: agent_satD)
  qed
  then show "consumed_by (table w') h f" "grant_of (table w') = grant_of (table w)" by blast+
qed

lemma redeemable_value:
  assumes "redeemable S h w = (Inr (b, g), w')"
  shows "table w' = table w" "capability_of (table w) h = Some b" "grant_of (table w) (b_grantId b) = Some g"
    "b_status b = B_CONSUMED \<Longrightarrow> ag_status g = G_ACTIVE"
  using assms unfolding redeemable_def
  by (auto simp: em_ok dest!: getBootstrap_value getAgentGrant_value now_run)

lemma redeem_identity_view: "keeps (views table) (redeem_identity pages S cfg X G grant h csr)"
  unfolding redeem_identity_def by (intro keeps_intro recover_view enroll_view)

lemma redeem_binds:
  assumes "redeem pages S cfg X G I token csr w = (Inr r, w')"
  defines "f \<equiv> cr_apiFingerprint (br_result r)"
  shows "bound_grant (table w') (br_grantId r) f" "consumed_by (table w') (sv_sha256Hex S token) f"
    "\<And>f'. bound_grant (table w) (br_grantId r) f' \<Longrightarrow> f' = f"
proof -
  let ?h = "sv_sha256Hex S token"
  obtain b g result w1 w2 w3 w4 w5 where
    1: "redeemable S ?h w = (Inr (b, g), w1)" and
    2: "redeem_identity pages S cfg X G g ?h csr w1 = (Inr result, w2)" and
    chk: "\<not> (b_status b = B_CONSUMED \<and> b_consumedFingerprint b \<noteq> Some (cr_apiFingerprint result))" and
    3: "provision I (cf_iotNotificationPolicyName cfg) \<lparr>mq_consumerId = ag_consumerId g,
             mq_certificateFingerprint = cr_apiFingerprint result,
             mq_certificatePem = cr_apiCertificatePem result\<rparr> w2 = (Inr (), w3)" and
    4: "reconcileReadAccess pages S cfg g (bootstrap_actor g) w3 = (Inr (), w4)" and
    5: "activateAgentGrant S (ag_grantId g) (cr_apiFingerprint result) w4 = (Inr (), w5)" and
    6: "whenM (b_status b = B_PENDING) (consumeBootstrapCapability S ?h (cr_apiFingerprint result)) w5 = (Inr (), w')" and
    r: "br_result r = result" "br_grantId r = ag_grantId g"
    using assms(1) unfolding redeem_def Let_def
    by (fastforce simp: bindM_ok thenM_ok throwIf_ok split: prod.splits)
  have f: "cr_apiFingerprint result = f" using r by (simp add: f_def)
  have v: "agent_view (table w4) = agent_view (table w)"
    using keepsD [OF reconcile_view(2) 4] keepsD [OF provision_keeps 3] keepsD [OF redeem_identity_view 2]
      redeemable_value(1) [OF 1] by simp
  then have cap: "capability_of (table w4) ?h = Some b"
    using redeemable_value(2) [OF 1] by (simp add: agent_view_def)
  note act = activate_binds [OF 5, unfolded f]
  show "f' = f" if "bound_grant (table w) (br_grantId r) f'" for f'
    using act(2) that r(2) bound_grant_view [OF v] by simp
  show "bound_grant (table w') (br_grantId r) f"
    using 6 act(1) consume_done(2) [of ?h f w5] r(2) f
    by (cases "b_status b") (auto simp: whenM_def bound_grant_def)
  show "consumed_by (table w') ?h f"
  proof (cases "b_status b")
    case B_PENDING
    with 6 f have "consumeBootstrapCapability S ?h f w5 = (Inr (), w')" by (simp add: whenM_def)
    then show ?thesis by (rule consume_done(1))
  next
    case B_CONSUMED
    with 6 have "w' = w5" by (simp add: whenM_def)
    with B_CONSUMED chk cap act(3) f show ?thesis by (auto simp: consumed_by_def)
  qed
qed

end

text \<open>C32: a grant is bound to one certificate. If redeeming a capability has returned, and any
  transactions of the server on grants, capabilities and everything else, of any processes, and the
  expiry of capabilities have followed, then redeeming the same or another capability of that grant
  either fails or returns the same certificate; the grant is then still active for it, and the capability
  that was redeemed is consumed by it. Enrollment, the certificate issuer, the secret service and AWS IoT,
  which redeem goes through, do not touch grants and capabilities.\<close>

theorem grant_bound_to_certificate:
  assumes "agent_services S X table G I"
    and "redeem pages S cfg X G I token csr w = (Inr r, w1)"
    and "agent_step\<^sup>*\<^sup>* (table w1) (table w2)"
    and "redeem pages' S cfg' X G I token' csr' w2 = (Inr r', w3)" "br_grantId r' = br_grantId r"
  shows "cr_apiFingerprint (br_result r') = cr_apiFingerprint (br_result r)
    \<and> bound_grant (table w3) (br_grantId r) (cr_apiFingerprint (br_result r))
    \<and> consumed_by (table w3) (sv_sha256Hex S token') (cr_apiFingerprint (br_result r))"
proof -
  note first = agent_services.redeem_binds [OF assms(1,2)]
  note second = agent_services.redeem_binds [OF assms(1,4)]
  have "bound_grant (table w2) (br_grantId r') (cr_apiFingerprint (br_result r))"
    using agent_steps_bound [OF assms(3) first(1)] assms(5) by simp
  from second(3) [OF this] second(1,2) assms(5) show ?thesis by simp
qed

interpretation ref_agents: agent_services ref_services ref_pki ref_table ref_gateway ref_iot
  by unfold_locales (auto simp: ref_iot_def intro!: keeps_intro)

text \<open>The second redemption of the same capability, after nothing or after its removal and another transaction.\<close>

lemma grant_bound_to_certificate_witness:
  "\<exists>r r' w1 w3. redeem 3 ref_services sx_config ref_pki ref_gateway ref_iot ''tok'' ax_csr (nx_world (ax_items ax_grant)) = (Inr r, w1)
    \<and> redeem 4 ref_services sx_config ref_pki ref_gateway ref_iot ''tok'' ax_csr w1 = (Inr r', w3)
    \<and> \<not> bound_grant (ref_table (nx_world (ax_items ax_grant))) ''g1'' ''f1''
    \<and> cr_apiFingerprint (br_result r') = cr_apiFingerprint (br_result r)
    \<and> bound_grant (ref_table w3) ''g1'' ''f1'' \<and> consumed_by (ref_table w3) ''sha-tok'' ''f1''"
proof -
  have n: "(3::nat) = Suc 2" "(4::nat) = Suc 3" by simp_all
  have f: "br_grantId ax_redeemed = ''g1''" "cr_apiFingerprint (br_result ax_redeemed) = ''f1''"
    by (simp_all add: ax_redeemed_def ax_result_def)
  have "\<not> bound_grant (ref_table (nx_world (ax_items ax_grant))) ''g1'' ''f1''"
    by (simp add: bound_grant_def grant_of_def ax_at)
  with grant_bound_to_certificate [OF ref_agents.agent_services_axioms ax_redeem(1) [of 2] rtranclp.rtrancl_refl
      ax_redeem(2) [of 3] refl]
  show ?thesis using ax_redeem(1) [of 2] ax_redeem(2) [of 3] f by (auto simp flip: n)
qed

end
