(* ===== verification/Actors.thy ===== *)
theory Actors
  imports Issuer
begin

text \<open>
  Who makes a request, src/src/auth/actors.ts: administrators by the claims of a JWT the API Gateway has
  verified, consumers by the certificate of their mTLS connection. The claims are an object of untyped
  values; \<open>new X509Certificate(pem)\<close> is the parser of the certificate library.
\<close>

section \<open>JSON arrays of strings\<close>

text \<open>
  \<open>JSON.parse\<close> of a text, when the value is an array of strings; None when the text is not JSON or has
  another value, which the code treats alike. A string is the list of its code units, as numbers, since
  an escape can denote any of them.
\<close>

definition code_units :: "string \<Rightarrow> nat list" where
  "code_units s = map of_char s"

definition quote_char :: char where
  "quote_char = CHR 0x22"

definition backslash :: char where
  "backslash = CHR 0x5C"

definition json_space :: "char \<Rightarrow> bool" where
  "json_space c \<longleftrightarrow> c \<in> {CHR '' '', CHR 0x09, CHR 0x0A, CHR 0x0D}"

definition hex_value :: "char \<Rightarrow> nat option" where
  "hex_value c =
     (if is_digit c then Some (of_char c - 48)
      else if CHR ''a'' \<le> c \<and> c \<le> CHR ''f'' then Some (of_char c - 87)
      else if CHR ''A'' \<le> c \<and> c \<le> CHR ''F'' then Some (of_char c - 55)
      else None)"

definition hex4_value :: "char \<Rightarrow> char \<Rightarrow> char \<Rightarrow> char \<Rightarrow> nat option" where
  "hex4_value a b c d = (case (hex_value a, hex_value b, hex_value c, hex_value d) of
     (Some p, Some q, Some r, Some s) \<Rightarrow> Some (p * 4096 + q * 256 + r * 16 + s) | _ \<Rightarrow> None)"

definition escape_value :: "char \<Rightarrow> nat option" where
  "escape_value c =
     (if c = quote_char then Some 34 else if c = backslash then Some 92 else if c = CHR ''/'' then Some 47
      else if c = CHR ''b'' then Some 8 else if c = CHR ''f'' then Some 12 else if c = CHR ''n'' then Some 10
      else if c = CHR ''r'' then Some 13 else if c = CHR ''t'' then Some 9 else None)"

definition prepend :: "'a option \<Rightarrow> ('a list \<times> 'b) option \<Rightarrow> ('a list \<times> 'b) option" where
  "prepend u r = (case (u, r) of (Some x, Some (xs, rest)) \<Rightarrow> Some (x # xs, rest) | _ \<Rightarrow> None)"

text \<open>The characters of a string after its opening quotation mark, and what follows the closing one.\<close>

fun json_chars :: "string \<Rightarrow> (nat list \<times> string) option" where
  "json_chars [] = None"
| "json_chars (c # cs) =
     (if c = quote_char then Some ([], cs)
      else if c = backslash then (case cs of
          [] \<Rightarrow> None
        | e # rest \<Rightarrow>
            if e = CHR ''u'' then (case rest of
                h1 # h2 # h3 # h4 # after \<Rightarrow> prepend (hex4_value h1 h2 h3 h4) (json_chars after)
              | _ \<Rightarrow> None)
            else prepend (escape_value e) (json_chars rest))
      else if (of_char c :: nat) < 32 then None
      else prepend (Some (of_char c)) (json_chars cs))"

lemma prepend_Some: "prepend u r = Some (ys, rest) \<longleftrightarrow> (\<exists>x xs. u = Some x \<and> r = Some (xs, rest) \<and> ys = x # xs)"
  by (auto simp: prepend_def split: option.splits)

lemma json_chars_shorter: "json_chars s = Some (x, rest) \<Longrightarrow> length rest < length s"
proof (induction s arbitrary: x rest rule: length_induct)
  case (1 s)
  then have IH: "json_chars t = Some (y, r) \<Longrightarrow> length t < length s \<Longrightarrow> length r < length t" for t y r by blast
  show ?case
  proof (cases s)
    case (Cons c cs)
    with 1(2) show ?thesis
      by (auto simp: prepend_Some split: if_splits list.splits dest!: IH)
  qed (use 1(2) in simp)
qed

lemma dropWhile_shorter: "dropWhile P s = c # rest \<Longrightarrow> length rest < length s"
  using length_dropWhile_le [of P s] by simp

text \<open>The strings after an opening bracket or a comma, up to the closing bracket and the end of the text.\<close>

function json_strings :: "string \<Rightarrow> nat list list option" where
  "json_strings s = (case dropWhile json_space s of
     [] \<Rightarrow> None
   | q # rest \<Rightarrow> if q \<noteq> quote_char then None
       else (case json_chars rest of
         None \<Rightarrow> None
       | Some (x, r) \<Rightarrow> (case dropWhile json_space r of
           [] \<Rightarrow> None
         | d # after \<Rightarrow>
             if d = CHR '','' then map_option ((#) x) (json_strings after)
             else if d = CHR '']'' \<and> list_all json_space after then Some [x] else None)))"
  by pat_completeness auto
termination
  by (relation "measure length")
    (auto dest!: json_chars_shorter dropWhile_shorter)

declare json_strings.simps [simp del]

definition json_string_array :: "string \<Rightarrow> nat list list option" where
  "json_string_array s = (case dropWhile json_space s of
     [] \<Rightarrow> None
   | b # rest \<Rightarrow> if b \<noteq> CHR ''['' then None
       else (case dropWhile json_space rest of
         [] \<Rightarrow> None
       | d # after \<Rightarrow> if d = CHR '']'' then (if list_all json_space after then Some [] else None)
                     else json_strings rest))"

section \<open>JSON.stringify of strings\<close>

definition hex_char :: "nat \<Rightarrow> char" where
  "hex_char n = char_of (if n < 10 then n + 48 else n + 87)"

text \<open>A character between quotation marks: the short escapes, \<open>\u00XX\<close> for other control characters.\<close>

definition json_escape :: "char \<Rightarrow> string" where
  "json_escape c =
     (let n = of_char c :: nat
      in if c = quote_char then [backslash, quote_char] else if c = backslash then [backslash, backslash]
         else if n = 8 then [backslash, CHR ''b''] else if n = 9 then [backslash, CHR ''t'']
         else if n = 10 then [backslash, CHR ''n''] else if n = 12 then [backslash, CHR ''f'']
         else if n = 13 then [backslash, CHR ''r'']
         else if n < 32 then [backslash, CHR ''u'', CHR ''0'', CHR ''0'', hex_char (n div 16), hex_char (n mod 16)]
         else [c])"

definition json_text :: "string \<Rightarrow> string" where
  "json_text s = quote_char # concat (map json_escape s) @ [quote_char]"

definition stringify :: "string list \<Rightarrow> string" where
  "stringify xs = CHR ''['' # join_with (CHR '','') (map json_text xs) @ '']''"

section \<open>Claims\<close>

text \<open>\<open>a ?? b\<close>.\<close>

definition or_nullish :: "jsval \<Rightarrow> jsval \<Rightarrow> jsval" where
  "or_nullish a b = (if a = JUndefined \<or> a = JNull then b else a)"

definition claim :: "jsval \<Rightarrow> string \<Rightarrow> string option" where
  "claim claims name = as_string (js_prop claims name)"

definition audienceMatches :: "string option \<Rightarrow> string \<Rightarrow> bool" where
  "audienceMatches audience expected = (case audience of None \<Rightarrow> False
     | Some a \<Rightarrow> expected \<in> set (split_on (CHR '' '') a))"

definition scope_values :: "jsval \<Rightarrow> jsval list" where
  "scope_values v = (case v of JArray vs \<Rightarrow> vs | JString s \<Rightarrow> map JString (split_on (CHR '' '') s) | _ \<Rightarrow> [])"

definition hasRequiredScope :: "jsval \<Rightarrow> string option \<Rightarrow> bool" where
  "hasRequiredScope claims requiredScope = (case requiredScope of None \<Rightarrow> True
     | Some r \<Rightarrow> JString r \<in> set (concat (map scope_values [js_prop claims ''scope'', js_prop claims ''scp''])))"

definition is_role_char :: "char \<Rightarrow> bool" where
  "is_role_char c \<longleftrightarrow> is_alnum c \<or> c \<in> set ''._:/-''"

text \<open>\<open>s.split(/[^A-Za-z0-9._:/-]+/).filter((entry) => entry.length > 0)\<close>: the longest runs of the class.\<close>

fun role_runs :: "string \<Rightarrow> string \<Rightarrow> string list" where
  "role_runs run [] = (if run = [] then [] else [run])"
| "role_runs run (c # cs) =
     (if is_role_char c then role_runs (run @ [c]) cs
      else (if run = [] then [] else [run]) @ role_runs [] cs)"

definition role_tokens :: "string \<Rightarrow> string list" where
  "role_tokens s = role_runs [] s"

definition claimValues :: "jsval \<Rightarrow> nat list list" where
  "claimValues v = (case v of
     JArray vs \<Rightarrow> List.map_filter (\<lambda>x. map_option code_units (as_string x)) vs
   | JString s \<Rightarrow> (case json_string_array s of Some xs \<Rightarrow> xs | None \<Rightarrow> map code_units (role_tokens s))
   | _ \<Rightarrow> [])"

definition hasRequiredRole :: "jsval \<Rightarrow> string option \<Rightarrow> bool" where
  "hasRequiredRole claims requiredRole = (case requiredRole of None \<Rightarrow> True
     | Some r \<Rightarrow> code_units r \<in> set (claimValues (or_nullish (js_prop claims ''roles'') (js_prop claims ''role''))))"

section \<open>The actors\<close>

text \<open>The warning that is logged for the operator is left out.\<close>

definition humanActorFromEvent :: "jsval option \<Rightarrow> AppConfig \<Rightarrow> Actor parsed" where
  "humanActorFromEvent found config = (case found of
     None \<Rightarrow> Inl (forbiddenMsg ''A validated administrator JWT is required.'')
   | Some claims \<Rightarrow>
       (let audience = (case claim claims ''aud'' of None \<Rightarrow> claim claims ''client_id'' | Some a \<Rightarrow> Some a)
        in case claim claims (cf_adminActorSubjectClaim config) of
          None \<Rightarrow> Inl (forbiddenMsg ''The administrator JWT does not satisfy this API configuration.'')
        | Some subject \<Rightarrow>
            if claim claims ''iss'' \<noteq> Some (cf_adminJwtIssuer config)
              \<or> \<not> audienceMatches audience (cf_adminJwtAudience config)
              \<or> \<not> hasRequiredScope claims (cf_adminJwtScope config)
              \<or> \<not> hasRequiredRole claims (cf_adminJwtRole config)
            then Inl (forbiddenMsg ''The administrator JWT does not satisfy this API configuration.'')
            else (let tenant = Option.bind (cf_adminActorTenantClaim config) (claim claims)
              in if cf_adminExpectedTenantId config \<noteq> None \<and> tenant \<noteq> cf_adminExpectedTenantId config
                 then Inl (forbiddenMsg ''The administrator JWT tenant is not permitted.'')
                 else Inr \<lparr>actorType = Human, actorId = subject, actorEmail = claim claims ''email'',
                        actorTenantId = tenant, actorConsumerId = None, actorEnvironment = None\<rparr>)))"

definition active_at :: "timestamp \<Rightarrow> IdentityRecord \<Rightarrow> bool" where
  "active_at now x \<longleftrightarrow> \<not> (i_kind x \<noteq> K_api \<or> i_status x \<noteq> I_ACTIVE \<or> i_notBefore x > now \<or> i_notAfter x \<le> now)"

definition consumerActorFromEvent ::
  "'w services \<Rightarrow> 'w pki \<Rightarrow> string option \<Rightarrow> timestamp \<Rightarrow> ('w, Actor) app" where
  "consumerActorFromEvent S X clientCertPem now =
     bindM (orRaise clientCertPem (forbiddenMsg ''A client certificate is required.'')) (\<lambda>pem.
     bindM (orRaise (pki_parseX509 X pem) (forbiddenMsg ''The client certificate is invalid.'')) (\<lambda>certificate.
     (let fingerprint = sv_sha256Hex S (x_raw certificate)
      in bindM (getIdentity S fingerprint) (\<lambda>found. (case found of
           None \<Rightarrow> raise (forbiddenMsg ''The client certificate is not an active consumer API identity.'')
         | Some identity \<Rightarrow>
             if \<not> active_at now identity
             then raise (forbiddenMsg ''The client certificate is not an active consumer API identity.'')
             else ret \<lparr>actorType = Consumer, actorId = fingerprint, actorEmail = None, actorTenantId = None,
                    actorConsumerId = Some (i_consumerId identity),
                    actorEnvironment = Some (i_environment identity)\<rparr>)))))"

end
