(* ===== verification/Actor_Properties.thy ===== *)
theory Actor_Properties
  imports Actors Agent_Grant_Properties
begin

text \<open>
  What authentication guarantees: the two ways a gateway serializes a role claim give the same decision,
  and an mTLS identity that has been revoked or has failed never authenticates again.
\<close>

section \<open>JSON texts\<close>

lemma hex_value_hex_char:
  assumes "n < 16"
  shows "hex_value (hex_char n) = Some n"
proof -
  from assms have "n \<in> {0,1,2,3,4,5,6,7,8,9,10,11,12,13,14,15}" by simp arith
  then show ?thesis
    by (elim insertE) (simp_all add: hex_value_def hex_char_def is_digit_def less_eq_char_def)
qed

lemma special_chars [simp]:
  "quote_char \<noteq> backslash" "backslash \<noteq> quote_char" "quote_char \<noteq> CHR ''u''" "backslash \<noteq> CHR ''u''"
  "\<not> json_space quote_char"
  by (simp_all add: quote_char_def backslash_def json_space_def)

lemma json_chars_plain:
  "c \<noteq> quote_char \<Longrightarrow> c \<noteq> backslash \<Longrightarrow> 32 \<le> (of_char c :: nat) \<Longrightarrow>
     json_chars (c # s) = prepend (Some (of_char c)) (json_chars s)"
  by simp

lemma json_chars_escape:
  "e \<noteq> CHR ''u'' \<Longrightarrow> json_chars (backslash # e # s) = prepend (escape_value e) (json_chars s)"
  by simp

lemma json_chars_hex: "json_chars (backslash # CHR ''u'' # a # b # c # d # s) = prepend (hex4_value a b c d) (json_chars s)"
  by simp

lemma json_chars_json_escape: "json_chars (json_escape c @ s) = prepend (Some (of_char c)) (json_chars s)"
proof -
  have e: "escape_value quote_char = Some 34" "escape_value backslash = Some 92"
    "escape_value (CHR ''b'') = Some 8" "escape_value (CHR ''t'') = Some 9" "escape_value (CHR ''n'') = Some 10"
    "escape_value (CHR ''f'') = Some 12" "escape_value (CHR ''r'') = Some 13"
    by (simp_all add: escape_value_def quote_char_def backslash_def)
  have o: "of_char quote_char = (34::nat)" "of_char backslash = (92::nat)"
    by (simp_all add: quote_char_def backslash_def)
  have h: "hex4_value (CHR ''0'') (CHR ''0'') (hex_char (n div 16)) (hex_char (n mod 16)) = Some n" if "n < 32" for n
  proof -
    have "hex_value (CHR ''0'') = Some 0" by (simp add: hex_value_def is_digit_def less_eq_char_def)
    moreover have "n div 16 < 16" "n mod 16 < 16" using that by auto
    ultimately show ?thesis by (simp add: hex4_value_def hex_value_hex_char)
  qed
  show ?thesis
    using h [of "of_char c"] json_chars_plain [of c s]
    by (simp add: json_escape_def Let_def e o json_chars_escape json_chars_hex del: json_chars.simps(2))
qed

lemma json_chars_text: "json_chars (concat (map json_escape s) @ quote_char # rest) = Some (code_units s, rest)"
  by (induction s) (simp_all add: code_units_def json_chars_json_escape prepend_def del: json_chars.simps(2)
      add: json_chars.simps(2) [of quote_char])

lemma json_text_Cons: "json_text s @ r = quote_char # concat (map json_escape s) @ quote_char # r"
  by (simp add: json_text_def)

lemma separators [simp]:
  "\<not> json_space (CHR '','')" "\<not> json_space (CHR '']'')" "\<not> json_space (CHR ''['')"
  "quote_char \<noteq> CHR '']''" "CHR '']'' \<noteq> quote_char"
  by (simp_all add: json_space_def quote_char_def)

lemma json_strings_texts:
  "xs \<noteq> [] \<Longrightarrow> json_strings (join_with (CHR '','') (map json_text xs) @ '']'') = Some (map code_units xs)"
proof (induction "CHR '',''" xs rule: join_with.induct)
  case (2 x)
  show ?case
    by (subst json_strings.simps) (simp add: json_text_Cons json_chars_text)
next
  case (3 x y r)
  then show ?case
    by (subst json_strings.simps)
      (simp add: json_text_Cons json_chars_text)
qed simp

lemma json_string_array_stringify: "json_string_array (stringify xs) = Some (map code_units xs)"
proof (cases "xs = []")
  case False
  then obtain x r where xs: "xs = x # r" by (cases xs) auto
  obtain r' where r': "join_with (CHR '','') (map json_text xs) @ '']'' = quote_char # r'"
    unfolding xs by (cases r) (simp_all add: json_text_def)
  show ?thesis
    using json_strings_texts [OF False]
    by (simp add: json_string_array_def stringify_def r')
qed (simp add: json_string_array_def stringify_def)

section \<open>Roles in brackets\<close>

lemma role_runs_token:
  assumes "list_all is_role_char s" "\<not> is_role_char c" "run @ s \<noteq> []"
  shows "role_runs run (s @ c # rest) = (run @ s) # role_runs [] rest"
  using assms by (induction s arbitrary: run) auto

lemma role_sep [simp]: "\<not> is_role_char (CHR '','')" "\<not> is_role_char (CHR '']'')" "\<not> is_role_char (CHR ''['')"
  by (simp_all add: is_role_char_def char_class_defs less_eq_char_def)

definition role_token :: "string \<Rightarrow> bool" where
  "role_token s \<longleftrightarrow> s \<noteq> [] \<and> list_all is_role_char s"

lemma role_runs_join:
  "list_all role_token xs \<Longrightarrow> role_runs [] (join_with (CHR '','') xs @ '']'') = xs"
proof (induction "CHR '',''" xs rule: join_with.induct)
  case (2 x)
  then show ?case by (simp add: role_token_def role_runs_token)
next
  case (3 x y r)
  then show ?case
    using role_runs_token [of x "CHR '',''" "[]"] by (simp add: role_token_def)
qed simp

lemma bracketed_not_json:
  assumes "list_all role_token xs" "xs \<noteq> []"
  shows "json_string_array (CHR ''['' # join_with (CHR '','') xs @ '']'') = None"
proof -
  obtain c s where s: "join_with (CHR '','') xs @ '']'' = c # s" "is_role_char c"
    using assms by (cases "(CHR '','', xs)" rule: join_with.cases) (auto simp: role_token_def neq_Nil_conv)
  then have c: "\<not> json_space c" "c \<noteq> quote_char" "c \<noteq> CHR '']''"
    by (auto simp: is_role_char_def json_space_def quote_char_def char_class_defs less_eq_char_def)
  then have "json_strings (c # s) = None" by (subst json_strings.simps) simp
  with s c show ?thesis by (simp add: json_string_array_def)
qed

lemma claimValues_bracketed:
  assumes "list_all role_token xs"
  shows "claimValues (JString (CHR ''['' # join_with (CHR '','') xs @ '']'')) = map code_units xs"
proof (cases "xs = []")
  case True
  then show ?thesis by (simp add: claimValues_def json_string_array_def)
next
  case False
  with assms show ?thesis
    by (simp add: claimValues_def bracketed_not_json role_tokens_def role_runs_join)
qed

text \<open>C34: the serialization of a role claim does not matter. An administrator whose token carries the roles
  as an array is accepted exactly when the same token is accepted with the array as its JSON text, whatever
  characters the roles have and however they are escaped; and, for roles of the alphabet of role names,
  with the names in brackets without quotation marks. The required role is always compared with whole
  roles.\<close>

theorem role_serialization_irrelevant:
  assumes "list_all role_token names"
  shows "(hasRequiredRole (JObj ((''roles'', JString (stringify xs)) # claims)) role
      \<longleftrightarrow> hasRequiredRole (JObj ((''roles'', JArray (map JString xs)) # claims)) role)
    \<and> (hasRequiredRole (JObj ((''roles'', JString (CHR ''['' # join_with (CHR '','') names @ '']'')) # claims)) (Some name)
      \<longleftrightarrow> name \<in> set names)"
proof -
  have inj: "code_units a = code_units b \<longleftrightarrow> a = b" for a b
    unfolding code_units_def by (rule inj_map_eq_map) (simp add: inj_def)
  have "List.map_filter (\<lambda>x. map_option code_units (as_string x)) (map JString xs) = map code_units xs"
    by (induction xs) (simp_all add: List.map_filter_def)
  then show ?thesis
    using claimValues_bracketed [OF assms]
    by (auto simp: hasRequiredRole_def or_nullish_def js_prop_def claimValues_def [of "JString (stringify xs)"]
        claimValues_def [of "JArray (map JString xs)"] json_string_array_stringify inj split: option.split)
qed

lemma role_serialization_irrelevant_witness:
  "hasRequiredRole (JObj [(''roles'', JString ''[Hemlig.Administrator,Reader]'')]) (Some ''Reader'')
   \<and> \<not> hasRequiredRole (JObj [(''roles'', JString ''[Hemlig.Administrator,Reader]'')]) (Some ''Read'')"
proof -
  have "list_all role_token [''Hemlig.Administrator'', ''Reader'']"
    by (simp add: role_token_def is_role_char_def char_class_defs less_eq_char_def)
  note r = role_serialization_irrelevant [OF this, of "[]" "[]" None]
  show ?thesis using r [of "''Reader''"] r [of "''Read''"] by simp
qed

section \<open>mTLS identities\<close>

context dynamo
begin

lemma getIdentity_value:
  "getIdentity S f w = (Inr x, w') \<Longrightarrow> table w' = table w \<and> x = identity_of (table w) f"
  by (auto simp: getIdentity_def identity_of_def em_ok dest: get_item get_run)

lemma consumerActor_value:
  assumes "consumerActorFromEvent S X pem now w = (Inr actor, w')"
  obtains x where "identity_of (table w) (actorId actor) = Some x" "active_at now x" "table w' = table w"
    "actorConsumerId actor = Some (i_consumerId x)" "actorEnvironment actor = Some (i_environment x)"
  using assms unfolding consumerActorFromEvent_def Let_def
  by (auto simp: em_ok em_case split: option.splits if_splits dest!: getIdentity_value)

end

text \<open>C33: a revoked identity never authenticates. A request that is authenticated by its client certificate
  acts for the consumer and in the environment of an API identity that is active and within its validity in
  the table the request reads; and however many transactions of the enrollment protocol, of whatever
  processes, lie between an earlier state and this one, the identity was not revoked and had not failed in
  the earlier state, and belonged to the same consumer there.\<close>

theorem revoked_never_authenticates:
  assumes "dynamo S table" "enrollment_step\<^sup>*\<^sup>* s s'" "ew_table s' = table w"
    and "consumerActorFromEvent S X pem now w = (Inr actor, w')"
  shows "\<exists>x. identity_of (table w) (actorId actor) = Some x \<and> i_kind x = K_api \<and> i_status x = I_ACTIVE
    \<and> i_notBefore x \<le> now \<and> now < i_notAfter x \<and> table w' = table w
    \<and> actorConsumerId actor = Some (i_consumerId x) \<and> actorEnvironment actor = Some (i_environment x)
    \<and> (\<forall>y. identity_of (ew_table s) (actorId actor) = Some y \<longrightarrow> i_status y \<noteq> I_REVOKED \<and> i_status y \<noteq> I_FAILED
         \<and> i_consumerId y = i_consumerId x \<and> i_environment y = i_environment x \<and> i_notAfter y = i_notAfter x)"
proof -
  obtain x where x: "identity_of (table w) (actorId actor) = Some x" "active_at now x" "table w' = table w"
    "actorConsumerId actor = Some (i_consumerId x)" "actorEnvironment actor = Some (i_environment x)"
    by (rule dynamo.consumerActor_value [OF assms(1,4)])
  have "i_status y \<noteq> I_REVOKED \<and> i_status y \<noteq> I_FAILED \<and> i_consumerId y = i_consumerId x
      \<and> i_environment y = i_environment x \<and> i_notAfter y = i_notAfter x"
    if y: "identity_of (ew_table s) (actorId actor) = Some y" for y
  proof -
    obtain x' where "identity_of (ew_table s') (actorId actor) = Some x'" "x' = y\<lparr>i_status := i_status x'\<rparr>"
      "status_forward (i_status y) (i_status x')"
      using enrollment_steps_forward [OF assms(2), unfolded identities_forward_def, rule_format, OF y] by metis
    with x(1) assms(3) have f: "x = y\<lparr>i_status := i_status x\<rparr>" "status_forward (i_status y) (i_status x)" by auto
    then have "i_consumerId x = i_consumerId y" "i_environment x = i_environment y" "i_notAfter x = i_notAfter y"
      by (metis IdentityRecord.select_convs IdentityRecord.surjective IdentityRecord.update_convs(5))+
    with f(2) x(2) show ?thesis by (auto simp: active_at_def status_forward_def)
  qed
  with x show ?thesis by (intro exI [of _ x]) (auto simp: active_at_def)
qed

text \<open>The certificate of an identity that has been active all along.\<close>

definition px_identity :: IdentityRecord where
  "px_identity = identity_record (pe_apiIdentity nx_prepared) ''con1'' I_ACTIVE"

definition px_items :: "(dkey \<times> item) list" where
  "px_items = [((identityPk ''sha-raw'', ''PROFILE''), IdentityIt px_identity)]"

definition px_pki :: "ref_world pki" where
  "px_pki = ref_pki\<lparr>pki_parseX509 := (\<lambda>pem. if pem = ''pem''
     then Some \<lparr>x_raw = ''raw'', x_validFrom = 0, x_validTo = 90000, x_publicKey = ''pub''\<rparr> else None)\<rparr>"

lemma revoked_never_authenticates_witness:
  "\<exists>actor w'. consumerActorFromEvent ref_services px_pki (Some ''pem'') 5000 (nx_world px_items) = (Inr actor, w')
    \<and> identity_of (ref_table (nx_world px_items)) (actorId actor) = Some px_identity \<and> i_status px_identity = I_ACTIVE
    \<and> actorConsumerId actor = Some ''con1''"
proof -
  have i: "px_identity = \<lparr>i_fingerprint = ''f1'', i_consumerId = ''con1'', i_environment = ''prod'', i_kind = K_api,
      i_status = I_ACTIVE, i_notBefore = 0, i_notAfter = 90000, i_certificatePem = i_certificatePem px_identity,
      i_identityConsumerPk = i_identityConsumerPk px_identity, i_identityConsumerSk = i_identityConsumerSk px_identity\<rparr>"
    by (simp add: px_identity_def identity_record_def nx_prepared_def)
  let ?a = "\<lparr>actorType = Consumer, actorId = ''sha-raw'', actorEmail = None, actorTenantId = None,
    actorConsumerId = Some ''con1'', actorEnvironment = Some ''prod''\<rparr>"
  have "active_at 5000 px_identity" "i_consumerId px_identity = ''con1''" "i_environment px_identity = ''prod''"
    by (subst i; simp add: active_at_def)+
  then have run: "consumerActorFromEvent ref_services px_pki (Some ''pem'') 5000 (nx_world px_items) = (Inr ?a, nx_world px_items)"
    by (simp add: consumerActorFromEvent_def px_pki_def getIdentity_def bindM_def orRaise_def ref_get_def px_items_def
        Let_def)
  have e: "identity_of (ref_table (nx_world px_items)) ''sha-raw'' = Some px_identity"
    by (simp add: identity_of_def px_items_def)
  have "ew_table (nx_state px_items) = ref_table (nx_world px_items)" by simp
  from revoked_never_authenticates [OF ref_dynamo.dynamo_axioms rtranclp.rtrancl_refl this run] e
  have "i_status px_identity = I_ACTIVE" by auto
  with run e show ?thesis by (intro exI [of _ ?a] exI [of _ "nx_world px_items"]) simp
qed

end
