(* ===== verification/Calendar.thy ===== *)
theory Calendar
  imports Domain Text_Ops
begin

text \<open>
  The UTC calendar of \<open>Date\<close>: the text \<open>toISOString().slice(0, 10)\<close> of an instant, in milliseconds since
  1970, and the instant of a date text. Days are counted from the first of January of the year 0; the
  instants are those of the years 0 to 9999, where the text has four digits for the year.
\<close>

definition leap :: "nat \<Rightarrow> bool" where
  "leap y \<longleftrightarrow> y mod 4 = 0 \<and> (y mod 100 \<noteq> 0 \<or> y mod 400 = 0)"

definition days_before_year :: "nat \<Rightarrow> nat" where
  "days_before_year y = 365 * y + (y + 3) div 4 + (y + 399) div 400 - (y + 99) div 100"

definition month_lengths :: "nat \<Rightarrow> nat list" where
  "month_lengths y = [31, if leap y then 29 else 28, 31, 30, 31, 30, 31, 31, 30, 31, 30, 31]"

lemma next_multiple:
  "(y + Suc k) div Suc k = (y + k) div Suc k + (if y mod Suc k = 0 then 1 else 0)" for y k :: nat
proof -
  have "Suc (y + k) mod Suc k = y mod Suc k" by (metis add_Suc_right mod_add_self2)
  then show ?thesis using div_Suc [of "y + k" "Suc k"] by simp
qed

lemma days_year_step: "days_before_year (Suc y) = days_before_year y + (if leap y then 366 else 365)"
proof -
  define a b c where "a = (y + 3) div 4" and "b = (y + 99) div 100" and "c = (y + 399) div 400"
  have b: "b < y + 1" unfolding b_def by (rule less_mult_imp_div_less) simp
  have n: "(Suc y + 3) div 4 = a + (if y mod 4 = 0 then 1 else 0)"
    "(Suc y + 99) div 100 = b + (if y mod 100 = 0 then 1 else 0)"
    "(Suc y + 399) div 400 = c + (if y mod 400 = 0 then 1 else 0)"
    using next_multiple [of y 3] next_multiple [of y 99] next_multiple [of y 399]
    by (simp_all add: a_def b_def c_def add.commute [of _ y] del: div_add_self2)
  have m: "y mod 400 = 0 \<Longrightarrow> y mod 100 = 0" "y mod 100 = 0 \<Longrightarrow> y mod 4 = 0"
    using dvd_trans [of 100 400 y] dvd_trans [of 4 100 y] by (simp_all add: mod_eq_0_iff_dvd)
  have y: "days_before_year y = 365 * y + a + c - b" by (simp add: days_before_year_def a_def b_def c_def)
  have "days_before_year (Suc y) = 365 * Suc y + (a + (if y mod 4 = 0 then 1 else 0))
      + (c + (if y mod 400 = 0 then 1 else 0)) - (b + (if y mod 100 = 0 then 1 else 0))"
    unfolding days_before_year_def n ..
  then show ?thesis
    unfolding y leap_def using b m by (cases "y mod 4 = 0"; cases "y mod 100 = 0"; cases "y mod 400 = 0") simp_all
qed

lemma days_year_mono: "y \<le> z \<Longrightarrow> days_before_year y \<le> days_before_year z"
  by (induction z) (auto simp: le_Suc_eq days_year_step)

lemma sum_month_lengths: "sum_list (month_lengths y) = (if leap y then 366 else 365)"
  by (simp add: month_lengths_def)

lemma days_year_bound: "days_before_year y \<le> 366 * y"
  by (induction y) (auto simp: days_year_step, simp add: days_before_year_def)

text \<open>The year of a day, searched upwards.\<close>

function year_from :: "nat \<Rightarrow> nat \<Rightarrow> nat" where
  "year_from n y = (if days_before_year (Suc y) \<le> n then year_from n (Suc y) else y)"
  by pat_completeness auto
termination
  by (relation "measure (\<lambda>(n, y). n - days_before_year y)") (auto simp: days_year_step split: if_splits)

declare year_from.simps [simp del]

fun month_day :: "nat \<Rightarrow> nat list \<Rightarrow> nat \<Rightarrow> nat \<times> nat" where
  "month_day m [] k = (m, k + 1)"
| "month_day m (l # ls) k = (if k < l then (m, k + 1) else month_day (Suc m) ls (k - l))"

definition date_text :: "nat \<Rightarrow> nat \<Rightarrow> nat \<Rightarrow> string" where
  "date_text y m d = fixed_dec 4 y @ ''-'' @ fixed_dec 2 m @ ''-'' @ fixed_dec 2 d"

definition day_of :: "timestamp \<Rightarrow> nat" where
  "day_of t = nat (t div 86400000 + 719528)"

definition iso_date :: "timestamp \<Rightarrow> string" where
  "iso_date t =
     (let n = day_of t; y = year_from n (n div 366); (m, d) = month_day 1 (month_lengths y) (n - days_before_year y)
      in date_text y m d)"

text \<open>\<open>new Date(`${date}T00:00:00.000Z`)\<close>: a day that the month does not have belongs to the next month.\<close>

definition day_start :: "nat \<Rightarrow> nat \<Rightarrow> nat \<Rightarrow> timestamp" where
  "day_start y m d = 86400000 *
     (int (days_before_year y + sum_list (take (m - 1) (month_lengths y)) + (d - 1)) - 719528)"

definition real_date :: "nat \<Rightarrow> nat \<Rightarrow> nat \<Rightarrow> bool" where
  "real_date y m d \<longleftrightarrow> 1 \<le> m \<and> m \<le> 12 \<and> 1 \<le> d \<and> d \<le> month_lengths y ! (m - 1)"

lemma year_from_at: "days_before_year z \<le> n \<Longrightarrow> n < days_before_year (Suc z) \<Longrightarrow> y \<le> z \<Longrightarrow> year_from n y = z"
proof (induction n y rule: year_from.induct)
  case (1 n y)
  show ?case
  proof (cases "y = z")
    case False
    with "1.prems"(3) have "Suc y \<le> z" by simp
    then have "days_before_year (Suc y) \<le> n" using days_year_mono [of "Suc y" z] "1.prems"(1) by simp
    with 1 \<open>Suc y \<le> z\<close> show ?thesis by (simp add: year_from.simps [of n y])
  qed (use "1.prems" in \<open>simp add: year_from.simps [of n z]\<close>)
qed

lemma year_from_start: "days_before_year z \<le> n \<Longrightarrow> n < days_before_year (Suc z) \<Longrightarrow> year_from n (n div 366) = z"
proof (rule year_from_at)
  assume "days_before_year z \<le> n" "n < days_before_year (Suc z)"
  with days_year_bound [of "Suc z"] have "n < 366 * Suc z" by simp
  then show "n div 366 \<le> z" by (simp add: less_mult_imp_div_less less_Suc_eq_le [symmetric] mult.commute)
qed

lemma year_exists: "\<exists>z. days_before_year z \<le> n \<and> n < days_before_year (Suc z)"
proof (induction n)
  case 0
  then show ?case by (intro exI [of _ 0]) (simp add: days_year_step days_before_year_def)
next
  case (Suc n)
  then obtain z where z: "days_before_year z \<le> n" "n < days_before_year (Suc z)" by blast
  show ?case
  proof (cases "Suc n < days_before_year (Suc z)")
    case False
    with z show ?thesis by (intro exI [of _ "Suc z"]) (auto simp: days_year_step [of "Suc z"])
  qed (use z in \<open>intro exI [of _ z], simp\<close>)
qed

lemma month_day_at:
  "i < length ls \<Longrightarrow> k < ls ! i \<Longrightarrow> month_day m ls (sum_list (take i ls) + k) = (m + i, k + 1)"
proof (induction ls arbitrary: i m)
  case (Cons l ls)
  then show ?case by (cases i) auto
qed simp

lemma month_exists:
  "k < sum_list ls \<Longrightarrow> \<exists>i j. i < length ls \<and> j < ls ! i \<and> k = sum_list (take i ls) + j" for ls :: "nat list"
proof (induction ls arbitrary: k)
  case (Cons l ls)
  show ?case
  proof (cases "k < l")
    case False
    with Cons.prems have "k - l < sum_list ls" by auto
    from Cons.IH [OF this] obtain i j where "i < length ls" "j < ls ! i" "k - l = sum_list (take i ls) + j" by blast
    with False show ?thesis by (intro exI [of _ "Suc i"] exI [of _ j]) auto
  qed (intro exI [of _ 0] exI [of _ k], simp)
qed simp

lemma months_before:
  "i < length ls \<Longrightarrow> j < ls ! i \<Longrightarrow> sum_list (take i ls) + j < sum_list ls" for ls :: "nat list"
proof (induction ls arbitrary: i)
  case (Cons l ls)
  then show ?case by (cases i) (auto simp: trans_less_add1)
qed simp

theorem iso_date_of_day:
  assumes "real_date y m d" "0 \<le> r" "r < 86400000"
  shows "iso_date (day_start y m d + r) = date_text y m d"
proof -
  let ?k = "sum_list (take (m - 1) (month_lengths y)) + (d - 1)"
  have l: "length (month_lengths y) = 12" by (simp add: month_lengths_def)
  have i: "m - 1 < length (month_lengths y)" "d - 1 < month_lengths y ! (m - 1)" "Suc (m - 1) = m" "Suc (d - 1) = d"
    using assms(1) l by (auto simp: real_date_def)
  have "(day_start y m d + r) div 86400000 = int (days_before_year y + ?k) - 719528"
    using assms(2,3) by (simp add: day_start_def)
  then have n: "day_of (day_start y m d + r) = days_before_year y + ?k" by (simp add: day_of_def)
  have "?k < sum_list (month_lengths y)" using months_before [OF i(1,2)] .
  then have "year_from (days_before_year y + ?k) ((days_before_year y + ?k) div 366) = y"
    by (intro year_from_start) (auto simp: days_year_step sum_month_lengths)
  then show ?thesis
    using month_day_at [OF i(1,2), of 1] i(3,4) by (simp add: iso_date_def n Let_def)
qed

theorem iso_date_real:
  obtains y m d r where "real_date y m d" "iso_date t = date_text y m d" "days_before_year y \<le> day_of t"
proof -
  let ?n = "day_of t"
  obtain y where y: "days_before_year y \<le> ?n" "?n < days_before_year (Suc y)" using year_exists by blast
  then have "?n - days_before_year y < sum_list (month_lengths y)"
    by (auto simp: days_year_step sum_month_lengths)
  from month_exists [OF this] obtain i j where ij: "i < length (month_lengths y)" "j < month_lengths y ! i"
    "?n - days_before_year y = sum_list (take i (month_lengths y)) + j" by blast
  have "real_date y (Suc i) (Suc j)" using ij(1,2) by (simp add: real_date_def month_lengths_def)
  moreover have "iso_date t = date_text y (Suc i) (Suc j)"
    using month_day_at [OF ij(1,2), of 1] year_from_start [OF y] ij(3) by (simp add: iso_date_def Let_def)
  ultimately show ?thesis using that y(1) by blast
qed

section \<open>Reading a date\<close>

text \<open>\<open>/^\d{4}-\d{2}-\d{2}$/\<close> with the numbers it matched.\<close>

definition date_parts :: "string \<Rightarrow> (nat \<times> nat \<times> nat) option" where
  "date_parts s =
     (if length s = 10 \<and> s ! 4 = CHR ''-'' \<and> s ! 7 = CHR ''-''
      then (case (read_nat (take 4 s), read_nat (take 2 (drop 5 s)), read_nat (drop 8 s)) of
              (Some y, Some m, Some d) \<Rightarrow> Some (y, m, d) | _ \<Rightarrow> None)
      else None)"

lemma read_fixed_dec: "n < 10 ^ w \<Longrightarrow> 0 < w \<Longrightarrow> read_nat (fixed_dec w n) = Some n"
proof -
  have "read_digits 0 (fixed_dec w n) = Some (n mod 10 ^ w)" for w n
  proof (induction w arbitrary: n)
    case (Suc w)
    then show ?case
      by (simp add: read_digits_append digit_value_digit_char mod_mult2_eq mult.commute)
  qed simp
  moreover assume "n < 10 ^ w" "0 < w"
  moreover from \<open>0 < w\<close> have "fixed_dec w n \<noteq> []" using length_fixed_dec [of w n] by fastforce
  ultimately show ?thesis by (simp add: read_nat_def)
qed

lemma length_date_text [simp]: "length (date_text y m d) = 10"
  by (simp add: date_text_def)

lemma month_length_31: "i < 12 \<Longrightarrow> month_lengths y ! i \<le> 31"
  by (auto simp: month_lengths_def nth_Cons split: nat.splits)

lemma real_date_bounds:
  assumes "real_date y m d"
  shows "m \<le> 12 \<and> d \<le> 31 \<and> 1 \<le> m \<and> 1 \<le> d"
proof -
  have "m - 1 < 12" using assms by (auto simp: real_date_def)
  from month_length_31 [OF this, of y] assms show ?thesis by (simp add: real_date_def)
qed

lemma date_parts_text:
  assumes "real_date y m d" "y < 10000"
  shows "date_parts (date_text y m d) = Some (y, m, d)"
proof -
  have b: "m < 100" "d < 100" using real_date_bounds [OF assms(1)] by auto
  have "read_nat (fixed_dec 4 y) = Some y" "read_nat (fixed_dec 2 m) = Some m" "read_nat (fixed_dec 2 d) = Some d"
    using assms(2) b by (simp_all add: read_fixed_dec)
  then show ?thesis
    by (simp add: date_parts_def date_text_def nth_append)
qed

end
