(* ===== verification/Audit_Archive.thy ===== *)
theory Audit_Archive
  imports Cursors Envelope Config Actors Calendar
begin

text \<open>
  The audit archive, src/src/services/audit.ts and src/src/handlers/audit-query.ts: where an event is
  stored, so that a listing of its day returns the newest first, and the query of a day, whose cursor
  wraps the continuation token of S3. ListObjectsV2 is a parameter, with the keys of a page and the
  continuation token it answers.
\<close>

section \<open>Keys\<close>

definition maximumAuditEpochMilliseconds :: int where
  "maximumAuditEpochMilliseconds = 9999999999999"

definition auditPageSize :: nat where
  "auditPageSize = 50"

text \<open>\<open>s.replace(/\/$/, "")\<close> and \<open>s.replaceAll("-", "/")\<close>.\<close>

definition strip_slash :: "string \<Rightarrow> string" where
  "strip_slash s = (if s \<noteq> [] \<and> last s = CHR ''/'' then butlast s else s)"

definition dashes_to_slashes :: "string \<Rightarrow> string" where
  "dashes_to_slashes s = map (\<lambda>c. if c = CHR ''-'' then CHR ''/'' else c) s"

text \<open>The instant of an event is a number, so it is never NaN.\<close>

definition auditObjectKey :: "string \<Rightarrow> AuditEvent \<Rightarrow> string parsed" where
  "auditObjectKey auditPrefix event =
     (if ev_at event > maximumAuditEpochMilliseconds
      then Inl (OtherError ''Error'' ''audit event timestamp is invalid.'')
      else (let date = dashes_to_slashes (iso_date (ev_at event));
                order = pad_start 13 CHR ''0'' (show_nat (nat (maximumAuditEpochMilliseconds - ev_at event)));
                prefix = strip_slash auditPrefix
            in Inr (prefix @ ''/'' @ date @ ''/'' @ order @ ''-'' @ ev_eventId event @ ''.json'')))"

definition auditPrefixForDate :: "string \<Rightarrow> string \<Rightarrow> string" where
  "auditPrefixForDate auditPrefix date = strip_slash auditPrefix @ ''/'' @ dashes_to_slashes date @ ''/''"

section \<open>Writing\<close>

text \<open>What the callers give: an event without its identifier, unless they chose one, and without its time.\<close>

definition audit_write ::
  "'w services \<Rightarrow> AppConfig \<Rightarrow> (string \<Rightarrow> timestamp \<Rightarrow> AuditEvent) \<Rightarrow> string option \<Rightarrow> ('w, AuditEvent) app" where
  "audit_write S cfg event eventId =
     bindM (case eventId of Some i \<Rightarrow> ret i | None \<Rightarrow> sv_newId S) (\<lambda>i.
     bindM (sv_now S) (\<lambda>at.
     (let completed = event i at
      in bindM (liftE (auditObjectKey (cf_auditPrefix cfg) completed)) (\<lambda>key.
         thenM (putImmutable S (cf_auditBucketName cfg) key (AuditDoc completed)) (ret completed)))))"

section \<open>Reading\<close>

type_synonym 'w lister = "string \<Rightarrow> string \<Rightarrow> string option \<Rightarrow> nat \<Rightarrow> ('w, string option list \<times> string option) app"

definition listKeys ::
  "'w lister \<Rightarrow> string \<Rightarrow> string \<Rightarrow> string option \<Rightarrow> nat \<Rightarrow> ('w, string list \<times> string option) app" where
  "listKeys L bucket keyPrefix continuationToken maxKeys =
     bindM (L bucket keyPrefix continuationToken maxKeys) (\<lambda>(contents, next).
       ret (List.map_filter id contents, next))"

record AuditPage =
  ap_date :: string
  ap_events :: "AuditEvent list"
  ap_nextContinuationToken :: "string option"

text \<open>The bucket of the archive holds audit events only; another document would be a TypeError later.\<close>

definition as_audit :: "document \<Rightarrow> ('w, AuditEvent) app" where
  "as_audit d = (case d of AuditDoc e \<Rightarrow> ret e
     | _ \<Rightarrow> raise (OtherError ''TypeError'' ''not an audit event''))"

definition target_matches :: "string \<Rightarrow> string option \<Rightarrow> AuditEvent \<Rightarrow> bool" where
  "target_matches name wanted event \<longleftrightarrow> (case wanted of None \<Rightarrow> True
     | Some v \<Rightarrow> Option.bind (ev_target event) (\<lambda>t. map_of t name) = Some v)"

definition audit_list ::
  "'w lister \<Rightarrow> 'w services \<Rightarrow> AppConfig \<Rightarrow> string \<Rightarrow> string option \<Rightarrow> string option \<Rightarrow> string option
     \<Rightarrow> ('w, AuditPage) app" where
  "audit_list L S cfg date continuationToken secretId environment =
     bindM (listKeys L (cf_auditBucketName cfg) (auditPrefixForDate (cf_auditPrefix cfg) date) continuationToken
         auditPageSize) (\<lambda>(keys, next).
     bindM (mapM (\<lambda>key. bindM (getJson S (cf_auditBucketName cfg) key None) as_audit) keys) (\<lambda>events.
       ret \<lparr>ap_date = date,
            ap_events = sort_key (\<lambda>e. - ev_at e) (filter (\<lambda>e. target_matches ''secretId'' secretId e
              \<and> target_matches ''environment'' environment e) events),
            ap_nextContinuationToken = next\<rparr>))"

definition parseAuditDate :: "string option \<Rightarrow> timestamp \<Rightarrow> string parsed" where
  "parseAuditDate value now =
     (let date = (case value of None \<Rightarrow> iso_date now | Some v \<Rightarrow> v)
      in case date_parts date of
        None \<Rightarrow> Inl (badRequest ''date must use YYYY-MM-DD.'')
      | Some (y, m, d) \<Rightarrow>
          if \<not> (1 \<le> m \<and> m \<le> 12 \<and> 1 \<le> d \<and> d \<le> 31) \<or> iso_date (day_start y m d) \<noteq> date
          then Inl (badRequest ''date must be a real UTC calendar date.'') else Inr date)"

definition parseAuditSecretId :: "string option \<Rightarrow> string option parsed" where
  "parseAuditSecretId value = (case value of None \<Rightarrow> Inr None
     | Some v \<Rightarrow> bindE (assertSecretIdentifier v ''secretId'') (\<lambda>_. Inr (Some v)))"

definition parseAuditEnvironment :: "string option \<Rightarrow> string option parsed" where
  "parseAuditEnvironment value = (case value of None \<Rightarrow> Inr None
     | Some v \<Rightarrow> bindE (assertEnvironmentName v) (\<lambda>_. Inr (Some v)))"

section \<open>The query of an administrator\<close>

text \<open>\<open>stableJson({ date, environment, secretId })\<close>: the properties in order, without undefined ones.\<close>

definition json_member :: "string \<times> string \<Rightarrow> string" where
  "json_member p = json_text (fst p) @ '':'' @ json_text (snd p)"

definition json_object :: "(string \<times> string) list \<Rightarrow> string" where
  "json_object ps = ''{'' @ join_with CHR '','' (map json_member ps) @ ''}''"

definition opt_member :: "string \<Rightarrow> string option \<Rightarrow> (string \<times> string) list" where
  "opt_member name v = (case v of None \<Rightarrow> [] | Some x \<Rightarrow> [(name, x)])"

definition audit_scope :: "'w services \<Rightarrow> Actor \<Rightarrow> string \<Rightarrow> string option \<Rightarrow> string option \<Rightarrow> string" where
  "audit_scope S actor date environment secretId =
     ''admin:audit:'' @ actorId actor @ '':'' @ sv_sha256Hex S (json_object
       ([(''date'', date)] @ opt_member ''environment'' environment @ opt_member ''secretId'' secretId))"

record AuditQuery =
  aq_claims :: "jsval option"
  aq_method :: string
  aq_path :: string
  aq_query :: "string \<rightharpoonup> string"

record AuditQueryResult =
  ar_date :: string
  ar_events :: "AuditEvent list"
  ar_nextCursor :: "string option"
  ar_generatedAt :: timestamp

definition cursor_lifetime :: int where
  "cursor_lifetime = 15 * 60 * 1000"

definition audit_query ::
  "'w lister \<Rightarrow> 'w services \<Rightarrow> AppConfig \<Rightarrow> AuditQuery \<Rightarrow> ('w, AuditQueryResult) app" where
  "audit_query L S cfg event =
     bindM (liftE (humanActorFromEvent (aq_claims event) cfg)) (\<lambda>actor.
     thenM (throwIf (aq_method event \<noteq> ''GET'' \<or> aq_path event \<noteq> ''/v1/admin/audit'')
       (badRequest ''The requested audit route is not supported.''))
     (bindM (sv_now S) (\<lambda>today.
      bindM (liftE (parseAuditDate (aq_query event ''date'') today)) (\<lambda>date.
      bindM (liftE (parseAuditSecretId (aq_query event ''secretId''))) (\<lambda>secretId.
      bindM (liftE (parseAuditEnvironment (aq_query event ''environment''))) (\<lambda>environment.
      (let scope = audit_scope S actor date environment secretId
       in bindM (case aq_query event ''cursor'' of None \<Rightarrow> ret None
            | Some cursor \<Rightarrow> bindM (sv_now S) (\<lambda>now.
                bindM (cursor_decode (getCursor S) cursor scope now) (\<lambda>c. ret (Some c)))) (\<lambda>decoded.
          bindM (audit_list L S cfg date
              (Option.bind decoded (\<lambda>c. Option.bind (cp_lastEvaluatedKey c) (\<lambda>k. map_of k ''continuationToken'')))
              secretId environment) (\<lambda>page.
          bindM (case ap_nextContinuationToken page of None \<Rightarrow> ret None
            | Some token \<Rightarrow> bindM (sv_now S) (\<lambda>t.
                bindM (cursor_encode (sv_randomToken S) (createCursor S)
                  \<lparr>cp_scope = scope, cp_lastEvaluatedKey = Some [(''continuationToken'', token)],
                   cp_expiresAt = t + cursor_lifetime\<rparr>) (\<lambda>c. ret (Some c)))) (\<lambda>nextCursor.
          bindM (sv_now S) (\<lambda>now.
            ret \<lparr>ar_date = ap_date page, ar_events = ap_events page, ar_nextCursor = nextCursor,
                 ar_generatedAt = now\<rparr>)))))))))))"

end
