(* ===== verification/Audit_Properties.thy ===== *)
theory Audit_Properties
  imports Audit_Archive Examples
begin

text \<open>
  The keys of the audit archive: the listing of a day holds the events of that day and no others, newest
  first, and no two events share an object.
\<close>

lemma digit_no_slash: "digit_char (n mod 10) \<noteq> CHR ''/''"
proof
  assume "digit_char (n mod 10) = CHR ''/''"
  then have "digit_value (digit_char (n mod 10)) = digit_value (CHR ''/'')" by simp
  then show False by (simp add: digit_value_digit_char) (simp add: digit_value_def is_digit_def less_eq_char_def)
qed

lemma fixed_dec_no_slash: "CHR ''/'' \<notin> set (fixed_dec w n)"
proof (induction w arbitrary: n)
  case (Suc w)
  then show ?case using digit_no_slash [of n] by auto
qed simp

lemma iso_date_no_slash: "CHR ''/'' \<notin> set (iso_date t)"
  by (rule iso_date_real [of t]) (use fixed_dec_no_slash in \<open>simp add: date_text_def\<close>)

lemma length_iso_date [simp]: "length (iso_date t) = 10"
  by (rule iso_date_real [of t]) simp

lemma length_dashes [simp]: "length (dashes_to_slashes s) = length s"
  by (simp add: dashes_to_slashes_def)

lemma dashes_inject:
  assumes "length s = length t" "CHR ''/'' \<notin> set s" "CHR ''/'' \<notin> set t"
  shows "dashes_to_slashes s = dashes_to_slashes t \<longleftrightarrow> s = t"
  using assms by (induction s t rule: list_induct2) (auto simp: dashes_to_slashes_def)

definition day_prefix :: "string \<Rightarrow> timestamp \<Rightarrow> string" where
  "day_prefix p t = strip_slash p @ ''/'' @ dashes_to_slashes (iso_date t) @ ''/''"

lemma day_prefix_inject: "day_prefix p t = day_prefix p u \<longleftrightarrow> iso_date t = iso_date u"
  using dashes_inject [of "iso_date t" "iso_date u"] iso_date_no_slash by (auto simp: day_prefix_def)

lemma length_day_prefix: "length (day_prefix p t) = length (day_prefix p u)"
  by (simp add: day_prefix_def)

lemma prefix_same_length: "length a = length b \<Longrightarrow> prefix a (b @ c) \<longleftrightarrow> a = b"
  by (auto simp: prefix_def)

lemma auditObjectKey_ok:
  assumes "auditObjectKey p e = Inr k" "0 \<le> ev_at e"
  obtains n where "k = day_prefix p (ev_at e) @ fixed_dec 13 n @ ''-'' @ ev_eventId e @ ''.json''"
    "n < 10 ^ 13" "int n = maximumAuditEpochMilliseconds - ev_at e"
proof
  let ?n = "nat (maximumAuditEpochMilliseconds - ev_at e)"
  have le: "ev_at e \<le> maximumAuditEpochMilliseconds" using assms(1) by (auto simp: auditObjectKey_def split: if_splits)
  show n: "?n < 10 ^ 13" using assms(2) by (simp add: maximumAuditEpochMilliseconds_def)
  show "int ?n = maximumAuditEpochMilliseconds - ev_at e" using le by simp
  have "pad_start 13 CHR ''0'' (show_nat ?n) = fixed_dec 13 ?n" using pad_start_show_nat [OF n] by simp
  then show "k = day_prefix p (ev_at e) @ fixed_dec 13 ?n @ ''-'' @ ev_eventId e @ ''.json''"
    using assms(1) le by (simp add: auditObjectKey_def day_prefix_def Let_def)
qed

lemma parse_iso_date:
  assumes "- 62167219200000 \<le> t" "t < 253402300800000"
  shows "parseAuditDate (Some (iso_date t)) now = Inr (iso_date t)"
proof -
  obtain y m d where r: "real_date y m d" "iso_date t = date_text y m d" "days_before_year y \<le> day_of t"
    by (rule iso_date_real)
  have "day_of t < days_before_year 10000"
    using assms by (simp add: day_of_def days_before_year_def)
  with r(3) have "y < 10000" using days_year_mono [of 10000 y] by (cases "y < 10000") auto
  with r(1,2) date_parts_text [OF r(1)] real_date_bounds [OF r(1)] iso_date_of_day [OF r(1), of 0]
  show ?thesis by (simp add: parseAuditDate_def)
qed

lemma parsed_is_iso:
  "parseAuditDate (Some date) now = Inr s \<Longrightarrow> s = date \<and> (\<exists>t. date = iso_date t)"
  by (auto simp: parseAuditDate_def split: option.splits if_splits)

text \<open>C38: the archive lists a day newest first. An event of any instant up to the latest the archive takes
  is found by the query of its day, which the API accepts as a date; the key of the event has the prefix
  an accepted date lists exactly when it is the day of the event; of two events of a day the later one
  has the smaller key, so S3 lists it first; and different events never share a key.\<close>

theorem audit_day_newest_first:
  assumes "auditObjectKey p e = Inr k" "auditObjectKey p f = Inr l" "0 \<le> ev_at e" "0 \<le> ev_at f"
  shows "parseAuditDate (Some (iso_date (ev_at e))) now = Inr (iso_date (ev_at e))
    \<and> (\<forall>date s. parseAuditDate (Some date) now = Inr s \<longrightarrow>
         (prefix (auditPrefixForDate p s) k \<longleftrightarrow> s = iso_date (ev_at e)))
    \<and> (iso_date (ev_at e) = iso_date (ev_at f) \<longrightarrow> ev_at e < ev_at f \<longrightarrow> l < k)
    \<and> (k = l \<longleftrightarrow> ev_at e = ev_at f \<and> ev_eventId e = ev_eventId f)"
proof -
  obtain n where k: "k = day_prefix p (ev_at e) @ fixed_dec 13 n @ ''-'' @ ev_eventId e @ ''.json''"
    "n < 10 ^ 13" "int n = maximumAuditEpochMilliseconds - ev_at e"
    by (rule auditObjectKey_ok [OF assms(1,3)])
  obtain j where l: "l = day_prefix p (ev_at f) @ fixed_dec 13 j @ ''-'' @ ev_eventId f @ ''.json''"
    "j < 10 ^ 13" "int j = maximumAuditEpochMilliseconds - ev_at f"
    by (rule auditObjectKey_ok [OF assms(2,4)])
  have "ev_at e \<le> maximumAuditEpochMilliseconds" using k(3) by linarith
  then have "parseAuditDate (Some (iso_date (ev_at e))) now = Inr (iso_date (ev_at e))"
    using assms(3) by (intro parse_iso_date) (simp_all add: maximumAuditEpochMilliseconds_def)
  moreover have "prefix (auditPrefixForDate p s) k \<longleftrightarrow> s = iso_date (ev_at e)"
    if parsed: "parseAuditDate (Some date) now = Inr s" for date s
  proof -
    obtain t where t: "s = iso_date t" using parsed_is_iso [OF parsed] by auto
    then have "auditPrefixForDate p s = day_prefix p t" by (simp add: auditPrefixForDate_def day_prefix_def)
    with t show ?thesis
      unfolding k(1) using day_prefix_inject [of p t "ev_at e"] length_day_prefix [of p t "ev_at e"]
      by (auto simp: prefix_same_length)
  qed
  moreover have "l < k" if "iso_date (ev_at e) = iso_date (ev_at f)" "ev_at e < ev_at f"
  proof -
    have "j < n" using that(2) k(3) l(3) by linarith
    then have "fixed_dec 13 j < fixed_dec 13 n" using fixed_dec_less [OF l(2) k(2)] by simp
    moreover have "day_prefix p (ev_at f) = day_prefix p (ev_at e)" using that(1) day_prefix_inject by metis
    ultimately show ?thesis unfolding k(1) l(1) by (simp add: lex_append_same_length)
  qed
  moreover have "k = l \<longleftrightarrow> ev_at e = ev_at f \<and> ev_eventId e = ev_eventId f"
  proof
    assume "k = l"
    then have "fixed_dec 13 n = fixed_dec 13 j" "ev_eventId e = ev_eventId f"
      using length_day_prefix [of p "ev_at e" "ev_at f"] unfolding k(1) l(1) by (simp_all add: append_eq_append_conv)
    then have "n = j" using fixed_dec_inject [OF k(2) l(2)] by simp
    with k(3) l(3) \<open>ev_eventId e = ev_eventId f\<close> show "ev_at e = ev_at f \<and> ev_eventId e = ev_eventId f" by simp
  next
    assume "ev_at e = ev_at f \<and> ev_eventId e = ev_eventId f"
    moreover from this k(3) l(3) have "n = j" by linarith
    ultimately show "k = l" unfolding k(1) l(1) by simp
  qed
  ultimately show ?thesis by blast
qed

text \<open>Two events of the first millisecond of 1970 and the next.\<close>

definition ex_event :: "timestamp \<Rightarrow> AuditEvent" where
  "ex_event t = \<lparr>ev_eventId = ''e1'', ev_at = t, ev_correlationId = ''c1'', ev_outcome = Attempted,
     ev_actor = ex_actor, ev_operation = ''op'', ev_target = None, ev_permission = None, ev_sourceIp = None,
     ev_reasonCode = None\<rparr>"

lemma audit_day_newest_first_witness:
  "\<exists>k l. auditObjectKey ''audit/'' (ex_event 0) = Inr k \<and> auditObjectKey ''audit/'' (ex_event 1) = Inr l
     \<and> l < k \<and> prefix (auditPrefixForDate ''audit/'' (iso_date 0)) k"
proof -
  have r: "real_date 1970 1 1" by (simp add: real_date_def month_lengths_def)
  have z: "day_start 1970 1 1 = 0" by (simp add: day_start_def days_before_year_def)
  have d: "iso_date 1 = iso_date 0"
    using iso_date_of_day [OF r, of 0] iso_date_of_day [OF r, of 1] z by simp
  have e: "ev_at (ex_event t) = t" for t by (simp add: ex_event_def)
  have "\<exists>k. auditObjectKey ''audit/'' (ex_event t) = Inr k" if "t \<in> {0, 1}" for t
    using that by (auto simp: auditObjectKey_def e maximumAuditEpochMilliseconds_def Let_def)
  then obtain k l where "auditObjectKey ''audit/'' (ex_event 0) = Inr k" "auditObjectKey ''audit/'' (ex_event 1) = Inr l"
    by blast
  with audit_day_newest_first [OF this, of 0] show ?thesis by (auto simp: e d)
qed

end
