(* ===== verification/Workflows.thy ===== *)
theory Workflows
  imports Audit_Archive Consumers Agent_Grants
begin

text \<open>
  The scheduled handlers: recovery of expired workflows (src/src/handlers/recovery.ts), removal of object
  versions after their retention (src/src/handlers/retention.ts) and delivery of notifications from the
  stream of the table (src/src/handlers/notifications.ts); and the end of an administrator's request
  (src/src/services/operations.ts). getApplication and the construction of clients are the arguments.
\<close>

definition audit_event ::
  "string \<Rightarrow> audit_outcome \<Rightarrow> Actor \<Rightarrow> string \<Rightarrow> (string \<times> string) list option \<Rightarrow> permission option
     \<Rightarrow> string option \<Rightarrow> string option \<Rightarrow> string \<Rightarrow> timestamp \<Rightarrow> AuditEvent" where
  "audit_event correlationId outcome actor operation target perm sourceIp reasonCode eventId at =
     \<lparr>ev_eventId = eventId, ev_at = at, ev_correlationId = correlationId, ev_outcome = outcome,
      ev_actor = actor, ev_operation = operation, ev_target = target, ev_permission = perm,
      ev_sourceIp = sourceIp, ev_reasonCode = reasonCode\<rparr>"

definition system_actor :: "string \<Rightarrow> Actor" where
  "system_actor i = \<lparr>actorType = System, actorId = i, actorEmail = None, actorTenantId = None,
     actorConsumerId = None, actorEnvironment = None\<rparr>"

section \<open>Recovery\<close>

definition operationTypeText :: "operation_type \<Rightarrow> string" where
  "operationTypeText t = (case t of ConsumerEnroll \<Rightarrow> ''consumer.enroll'' | ApiRotate \<Rightarrow> ''consumer.api.rotate''
     | ApiRevoke \<Rightarrow> ''consumer.api.revoke'')"

text \<open>A Map from operation to its workflows, in the order of the first of each.\<close>

definition byOperation :: "StoredWorkflow list \<Rightarrow> (string \<times> StoredWorkflow list) list" where
  "byOperation expired = map (\<lambda>operationId. (operationId, filter (\<lambda>w. w_operationId (snd w) = operationId) expired))
     (uniq (map (\<lambda>w. w_operationId (snd w)) expired))"

text \<open>The try block of an enrollment.\<close>

definition complete_recovery ::
  "nat \<Rightarrow> 'w services \<Rightarrow> AppConfig \<Rightarrow> 'w gateway \<Rightarrow> string \<Rightarrow> ('w, unit) app" where
  "complete_recovery pages S cfg G operationId =
     bindM (resume pages S cfg G operationId) (\<lambda>result.
     bindM (getEnrollment S operationId) (\<lambda>found. (case found of
        None \<Rightarrow> ret ()
      | Some enrollment \<Rightarrow>
          bindM (getIdempotency S (e_actor enrollment) (e_idempotencyKey enrollment)) (\<lambda>idempotency.
            whenM (Option.bind idempotency id_status \<noteq> Some ID_SUCCEEDED)
              (bindM (audit_write S cfg (audit_event operationId Succeeded (e_actor enrollment)
                   (operationTypeText (e_operationType enrollment))
                   (Some [(''consumerId'', cr_consumerId result), (''rootFingerprint'', cr_rootFingerprint result),
                      (''apiFingerprint'', cr_apiFingerprint result)]) None None None) None) (\<lambda>auditEvent.
               markAuditSucceeded S (e_actor enrollment) (e_idempotencyKey enrollment)
                 (ev_eventId auditEvent)))))))"

definition recover_enrollment ::
  "nat \<Rightarrow> 'w services \<Rightarrow> AppConfig \<Rightarrow> 'w gateway \<Rightarrow> string \<Rightarrow> ('w, unit) app" where
  "recover_enrollment pages S cfg G operationId =
     catchM (complete_recovery pages S cfg G operationId) (\<lambda>_.
       bindM (getEnrollment S operationId) (\<lambda>found.
       thenM (case found of None \<Rightarrow> ret ()
           | Some enrollment \<Rightarrow> whenM (e_workflowState enrollment = W_PREPARED)
               (catchM (failEnrollment S enrollment) (\<lambda>_. ret ())))
       (bindM (audit_write S cfg (audit_event operationId Failed (system_actor ''recovery'')
            ''consumer.enrollment.recovery'' (Some [(''operationId'', operationId)]) None None
            (Some ''enrollment_expired'')) None) (\<lambda>_. ret ()))))"

text \<open>The updates of Promise.all are made in order.\<close>

definition recover_mutation ::
  "'w services \<Rightarrow> AppConfig \<Rightarrow> string \<Rightarrow> StoredWorkflow list \<Rightarrow> StoredWorkflow \<Rightarrow> ('w, unit) app" where
  "recover_mutation S cfg operationId workflows workflow =
     bindM (mapM (\<lambda>item. markRetryable S (fst item)) workflows) (\<lambda>retryResults.
       if \<not> some_in id retryResults then ret ()
       else (case secretIdentityFromPk (fst (fst workflow)) of
          None \<Rightarrow> ret ()
        | Some secretUid \<Rightarrow>
            bindM (getHeadBySecretUid S secretUid) (\<lambda>found. (case found of
               None \<Rightarrow> ret ()
             | Some head \<Rightarrow>
                 bindM (abortPreparedCreate S (h_environment head) (h_secretId head) secretUid operationId)
                   (\<lambda>abortedCreate.
                 bindM (if abortedCreate then ret True else releaseLease S secretUid operationId) (\<lambda>released.
                   whenM released
                     (bindM (audit_write S cfg (audit_event operationId Failed (system_actor ''recovery'')
                        ''workflow.recovery'' (Some [(''environment'', h_environment head), (''secretId'', h_secretId head)])
                        None None (Some ''prepared_workflow_expired'')) None) (\<lambda>_. ret ()))))))))"

definition recover_operation ::
  "nat \<Rightarrow> 'w services \<Rightarrow> AppConfig \<Rightarrow> 'w gateway \<Rightarrow> string \<times> StoredWorkflow list \<Rightarrow> ('w, unit) app" where
  "recover_operation pages S cfg G g = (case g of (operationId, workflows) \<Rightarrow> (case workflows of
     [] \<Rightarrow> ret ()
   | workflow # _ \<Rightarrow>
       if w_workflowKind (snd workflow) = Some ConsumerEnrollment
       then recover_enrollment pages S cfg G operationId
       else recover_mutation S cfg operationId workflows workflow))"

definition recovery :: "nat \<Rightarrow> 'w services \<Rightarrow> AppConfig \<Rightarrow> 'w gateway \<Rightarrow> ('w, unit) app" where
  "recovery pages S cfg G =
     bindM (sv_now S) (\<lambda>now.
     bindM (listExpiredPrepared pages S now None) (\<lambda>listed.
     bindM (orRaise listed (OtherError ''Error'' ''out of pages'')) (\<lambda>expired.
     thenM (forM (recover_operation pages S cfg G) (byOperation expired))
       (reconcileTruststore S cfg G))))"

section \<open>Retention\<close>

definition isCurrent :: "string \<Rightarrow> HeadRecord option \<Rightarrow> bool" where
  "isCurrent sk head = (case head of None \<Rightarrow> False
     | Some h \<Rightarrow> sk = ''CONTROL#'' @ h_controlVersionId h
         \<or> (case h_payloadVersionId h of None \<Rightarrow> False | Some v \<Rightarrow> sk = ''PAYLOAD#'' @ v))"

definition serialized_names :: "serialized \<Rightarrow> string \<times> string" where
  "serialized_names s = (case s of SerControl c \<Rightarrow> (c_environment c, c_secretId c)
     | SerPayload p \<Rightarrow> (p_environment p, p_secretId p))"

text \<open>The names for the audit event, of the head or else of the revision itself.\<close>

definition retention_names :: "HeadRecord option \<Rightarrow> WorkflowItem \<Rightarrow> (string \<times> string) option" where
  "retention_names head workflow = (case head of
     Some h \<Rightarrow> Some (h_environment h, h_secretId h)
   | None \<Rightarrow> map_option serialized_names (w_serialized workflow))"

text \<open>The removal of one version: what follows once the revision is known not to be current.\<close>

definition remove_version ::
  "'w services \<Rightarrow> AppConfig \<Rightarrow> dkey \<Rightarrow> WorkflowItem \<Rightarrow> string \<Rightarrow> string \<Rightarrow> string \<Rightarrow> ('w, unit) app" where
  "remove_version S cfg key workflow versionId environment secretId =
     (let reference = \<lparr>o_bucket = cf_revisionBucketName cfg, o_key = w_objectKey workflow,
            o_versionId = versionId, o_checksumSha256 = w_checksumSha256 workflow\<rparr>
      in bindM (canDeleteVersion S reference) (\<lambda>canDelete.
         whenM canDelete
           (thenM (deleteVersion S reference)
           (thenM (markRetentionDeleted S key)
           (bindM (audit_write S cfg (audit_event (w_operationId workflow) Succeeded
                (system_actor ''retention'') ''revision.retention.delete''
                (Some [(''environment'', environment), (''secretId'', secretId), (''workflow'', snd key)])
                None None None) None) (\<lambda>_. ret ()))))))"

definition retire :: "'w services \<Rightarrow> AppConfig \<Rightarrow> StoredWorkflow \<Rightarrow> ('w, unit) app" where
  "retire S cfg stored = (case stored of ((pk, sk), workflow) \<Rightarrow>
     (case w_s3VersionId workflow of
        None \<Rightarrow> ret ()
      | Some versionId \<Rightarrow>
     (case secretIdentityFromPk pk of
        None \<Rightarrow> ret ()
      | Some secretUid \<Rightarrow>
          bindM (getHeadBySecretUid S secretUid) (\<lambda>head.
            (case retention_names head workflow of
               None \<Rightarrow> ret ()
             | Some (environment, secretId) \<Rightarrow>
                 if isCurrent sk head then ret ()
                 else remove_version S cfg (pk, sk) workflow versionId environment secretId)))))"

definition retention :: "'w services \<Rightarrow> AppConfig \<Rightarrow> ('w, unit) app" where
  "retention S cfg = bindM (listReadyWorkflows S) (\<lambda>workflows. forM (retire S cfg) workflows)"

section \<open>Notifications\<close>

text \<open>A record of the stream: the name of the event and the new image of the item, if it has one.\<close>

record StreamRecord =
  st_eventName :: string
  st_newImage :: "(dkey \<times> item) option"

record NotificationMessage =
  nm_schemaVersion :: nat
  nm_kind :: change_kind
  nm_secretId :: string
  nm_environment :: string
  nm_controlVersionId :: string
  nm_payloadVersionId :: "string option"

type_synonym 'w publisher = "string \<Rightarrow> NotificationMessage \<Rightarrow> ('w, unit) app"

definition pending_outbox :: "StreamRecord \<Rightarrow> NotificationOutboxRecord option" where
  "pending_outbox event =
     (if st_eventName event \<noteq> ''INSERT'' \<and> st_eventName event \<noteq> ''MODIFY'' then None
      else (case st_newImage event of
          Some ((pk, sk), NotificationIt n) \<Rightarrow>
            if n_status n = N_PENDING \<and> prefix ''NOTIFICATION#'' pk then Some n else None
        | _ \<Rightarrow> None))"

definition notified_consumers :: "NotificationOutboxRecord \<Rightarrow> string list" where
  "notified_consumers n = (case n_consumerIds n of
     Some consumerIds \<Rightarrow> consumerIds
   | None \<Rightarrow> (case n_consumerId n of None \<Rightarrow> [] | Some consumerId \<Rightarrow> [consumerId]))"

definition notification_message :: "NotificationOutboxRecord \<Rightarrow> NotificationMessage" where
  "notification_message n = \<lparr>nm_schemaVersion = 1, nm_kind = n_kind n, nm_secretId = n_secretId n,
     nm_environment = n_environment n, nm_controlVersionId = n_controlVersionId n,
     nm_payloadVersionId = n_payloadVersionId n\<rparr>"

definition notification_topic :: "AppConfig \<Rightarrow> string \<Rightarrow> string" where
  "notification_topic cfg consumerId = cf_iotNotificationTopicPrefix cfg @ ''/'' @ consumerId"

definition notify :: "'w publisher \<Rightarrow> 'w services \<Rightarrow> AppConfig \<Rightarrow> NotificationOutboxRecord \<Rightarrow> ('w, unit) app" where
  "notify P S cfg n =
     thenM (forM (\<lambda>consumerId. P (notification_topic cfg consumerId) (notification_message n)) (notified_consumers n))
       (bindM (markNotificationDelivered S (n_eventId n)) (\<lambda>_. ret ()))"

definition notifications :: "'w publisher \<Rightarrow> 'w services \<Rightarrow> AppConfig \<Rightarrow> StreamRecord list \<Rightarrow> ('w, unit) app" where
  "notifications P S cfg events = forM (notify P S cfg) (List.map_filter pending_outbox events)"

section \<open>The end of a request\<close>

definition humanOperation ::
  "'w services \<Rightarrow> AppConfig \<Rightarrow> Actor \<Rightarrow> string \<Rightarrow> string \<Rightarrow> string \<Rightarrow> string \<Rightarrow> (string \<times> string) list
     \<Rightarrow> 'r \<Rightarrow> ('w, 'r) app" where
  "humanOperation S cfg actor idempotencyKey correlationId operation sourceIp target response =
     bindM (sv_newId S) (\<lambda>eventId.
     bindM (audit_write S cfg (audit_event correlationId Succeeded actor operation (Some target) None
         (Some sourceIp) None) (Some eventId)) (\<lambda>auditEvent.
     thenM (markAuditSucceeded S actor idempotencyKey (ev_eventId auditEvent)) (ret response)))"

end
