(* ===== verification/Workflow_Properties.thy ===== *)
theory Workflow_Properties
  imports Workflows Mutation_Properties Secrets_Laws Secret_Examples Truststore_Properties
begin

text \<open>
  What the scheduled handlers guarantee: retention never deletes a current revision, a notification is
  marked delivered only after it was published to every recipient, and what the recovery does to an
  update whose lease has expired.
\<close>

section \<open>Computations that follow an order of worlds\<close>

text \<open>
  \<open>leads R m\<close>: whatever \<open>m\<close> returns or throws, it leads to a world in the relation R, which is reflexive
  and transitive.
\<close>

named_theorems leads_intro "computations that follow an order of worlds"

definition world_order :: "('w \<Rightarrow> 'w \<Rightarrow> bool) \<Rightarrow> bool" where
  "world_order R \<longleftrightarrow> reflp R \<and> transp R"

definition leads :: "('w \<Rightarrow> 'w \<Rightarrow> bool) \<Rightarrow> ('w, 'a) app \<Rightarrow> bool" where
  "leads R m \<longleftrightarrow> (\<forall>w r w'. m w = (r, w') \<longrightarrow> R w w')"

lemma leadsI: "(\<And>w r w'. m w = (r, w') \<Longrightarrow> R w w') \<Longrightarrow> leads R m"
  by (simp add: leads_def)

lemma leadsD: "leads R m \<Longrightarrow> m w = (r, w') \<Longrightarrow> R w w'"
  by (simp add: leads_def)

lemma world_orderD: "world_order R \<Longrightarrow> R w w" "world_order R \<Longrightarrow> R a b \<Longrightarrow> R b c \<Longrightarrow> R a c"
  by (auto simp: world_order_def dest: reflpD transpD)

lemma leads_pure [leads_intro]:
  "world_order R \<Longrightarrow> leads R (ret x)" "world_order R \<Longrightarrow> leads R (raise e)" "world_order R \<Longrightarrow> leads R (liftE v)"
  "world_order R \<Longrightarrow> leads R (orRaise y e)" "world_order R \<Longrightarrow> leads R (throwIf b e)"
  by (auto simp: leads_def em_run orRaise_run split: option.splits if_splits dest: world_orderD(1))

lemma leads_bindM [leads_intro]:
  assumes "world_order R" "leads R m" "\<And>x. leads R (f x)"
  shows "leads R (bindM m f)"
proof (rule leadsI)
  fix w r w' assume run: "bindM m f w = (r, w')"
  obtain r1 w1 where m: "m w = (r1, w1)" by fastforce
  have "R w w1" using leadsD [OF assms(2) m] .
  with m run show "R w w'"
    by (cases r1) (auto simp: bindM_def dest: leadsD [OF assms(3)] intro: world_orderD(2) [OF assms(1)])
qed

lemma leads_thenM [leads_intro]: "world_order R \<Longrightarrow> leads R m \<Longrightarrow> leads R k \<Longrightarrow> leads R (thenM m k)"
  unfolding thenM_def by (intro leads_intro)

lemma leads_catchM [leads_intro]:
  assumes "world_order R" "leads R m" "\<And>e. leads R (h e)"
  shows "leads R (catchM m h)"
proof (rule leadsI)
  fix w r w' assume run: "catchM m h w = (r, w')"
  obtain r1 w1 where m: "m w = (r1, w1)" by fastforce
  have "R w w1" using leadsD [OF assms(2) m] .
  with m run show "R w w'"
    by (cases r1) (auto simp: catchM_def dest: leadsD [OF assms(3)] intro: world_orderD(2) [OF assms(1)])
qed

lemma leads_whenM [leads_intro]: "world_order R \<Longrightarrow> (b \<Longrightarrow> leads R m) \<Longrightarrow> leads R (whenM b m)"
  by (auto simp: whenM_def intro: leads_intro)

lemma leads_If [leads_intro]: "(b \<Longrightarrow> leads R m) \<Longrightarrow> (\<not> b \<Longrightarrow> leads R k) \<Longrightarrow> leads R (if b then m else k)"
  by simp

lemma leads_case_option [leads_intro]:
  "(x = None \<Longrightarrow> leads R m) \<Longrightarrow> (\<And>y. x = Some y \<Longrightarrow> leads R (f y)) \<Longrightarrow>
     leads R (case x of None \<Rightarrow> m | Some y \<Rightarrow> f y)"
  by (cases x) auto

lemma leads_case_prod [leads_intro]: "(\<And>a b. p = (a, b) \<Longrightarrow> leads R (f a b)) \<Longrightarrow> leads R (case p of (a, b) \<Rightarrow> f a b)"
  by (cases p) auto

lemma leads_forM [leads_intro]: "world_order R \<Longrightarrow> (\<And>x. leads R (f x)) \<Longrightarrow> leads R (forM f xs)"
  by (induction xs) (auto intro!: leads_intro)

lemma leads_mapM [leads_intro]: "world_order R \<Longrightarrow> (\<And>x. leads R (f x)) \<Longrightarrow> leads R (mapM f xs)"
  by (induction xs) (auto intro!: leads_intro)

section \<open>Retention\<close>

text \<open>No head changes, and no stored object version but the one at q is lost.\<close>

definition only_deletes ::
  "('w \<Rightarrow> table) \<Rightarrow> ('w \<Rightarrow> (string \<times> string \<times> string) \<rightharpoonup> document) \<Rightarrow> string \<times> string \<times> string
     \<Rightarrow> 'w \<Rightarrow> 'w \<Rightarrow> bool" where
  "only_deletes table objects q w w' \<longleftrightarrow> head_of (table w') = head_of (table w)
     \<and> (\<forall>p d. p \<noteq> q \<longrightarrow> objects w p = Some d \<longrightarrow> objects w' p = Some d)"

lemma only_deletes_order: "world_order (only_deletes table objects q)"
  by (auto simp: world_order_def only_deletes_def reflp_def transp_def)

lemma workflow_update_heads:
  assumes "committed [Update k (on_workflow f) c] t t'"
  shows "head_of t' = head_of t"
proof
  fix u
  obtain x where "t k = Some x" "t' k = Some (on_workflow f x)"
    by (rule committed_Update [OF assms, of k "on_workflow f" c]) simp_all
  then have "as_head (t' k) = as_head (t k)" by (cases x) (simp_all add: on_workflow_def as_head_def)
  moreover have "t' j = t j" if "j \<noteq> k" for j using committed_other [OF assms] that by simp
  ultimately show "head_of t' u = head_of t u" by (cases "(secretPk u, ''HEAD'') = k") (auto simp: head_of_def)
qed

context dynamo
begin

lemma workflow_write_heads:
  assumes "sv_write S (Update k (on_workflow f) c) w = (r, w')"
  shows "head_of (table w') = head_of (table w)"
  by (rule write_cases [OF assms]) (auto dest: workflow_update_heads)

end

text \<open>The object version of a stored workflow whose revision the heads do not name as current.\<close>

definition superseded ::
  "AppConfig \<Rightarrow> (string \<Rightarrow> HeadRecord option) \<Rightarrow> StoredWorkflow \<Rightarrow> string \<times> string \<times> string \<Rightarrow> bool" where
  "superseded cfg heads stored q \<longleftrightarrow>
     (\<exists>u v. secretIdentityFromPk (fst (fst stored)) = Some u \<and> w_s3VersionId (snd stored) = Some v
        \<and> q = (cf_revisionBucketName cfg, w_objectKey (snd stored), v)
        \<and> \<not> isCurrent (snd (fst stored)) (heads u))"

text \<open>
  S3 and the index as the retention sees them: reading the retention of a version changes nothing, a
  deletion removes at most the version it names, a put removes none; and a query of the index answers rows
  that are known to have been stored, though they may have changed since.
\<close>

locale retention_services = dynamo S table + object_service S objects
  for S :: "'w services" and table :: "'w \<Rightarrow> table" and objects +
  fixes known :: "'w \<Rightarrow> dkey \<Rightarrow> item \<Rightarrow> bool"
  assumes delete_only: "sv_deleteObject S b key v w = (r, w') \<Longrightarrow>
      objects w' = objects w \<or> objects w' = (objects w)((b, key, v) := None)"
    and put_keeps_stored: "sv_putObject S b key d w = (answer, w') \<Longrightarrow> objects w q = Some x \<Longrightarrow> objects w' q = Some x"
    and getRetention_keeps_objects: "keeps objects (sv_getRetention S b key v)"
    and query_known: "sv_query S y w = (Inr p, w') \<Longrightarrow> (k, it) \<in> set (qp_items p) \<Longrightarrow> known w k it"
    and now_keeps_known: "keeps known (sv_now S)"
begin

lemma leads_keeps: "keeps table m \<Longrightarrow> keeps objects m \<Longrightarrow> leads (only_deletes table objects q) m"
  by (rule leadsI) (auto simp: only_deletes_def dest!: keepsD)

lemma leads_services [leads_intro]:
  "leads (only_deletes table objects q) (sv_now S)" "leads (only_deletes table objects q) (sv_newId S)"
  "leads (only_deletes table objects q) (sv_getRetention S b k v)"
  by (intro leads_keeps now_keeps now_keeps_objects newId_keeps newId_keeps_objects getRetention_keeps
      getRetention_keeps_objects)+

lemma leads_put [leads_intro]: "leads (only_deletes table objects q) (sv_putObject S b k d)"
  by (rule leadsI) (auto simp: only_deletes_def dest: keepsD [OF putObject_keeps] put_keeps_stored)

lemma leads_delete: "leads (only_deletes table objects (b, k, v)) (sv_deleteObject S b k v)"
proof (rule leadsI)
  fix w r w' assume run: "sv_deleteObject S b k v w = (r, w')"
  from delete_only [OF run] keepsD [OF deleteObject_keeps run] show "only_deletes table objects (b, k, v) w w'"
    by (auto simp: only_deletes_def)
qed

lemma leads_audit [leads_intro]: "leads (only_deletes table objects q) (audit_write S cfg e i)"
  unfolding audit_write_def putImmutable_def Let_def
  by (intro leads_intro only_deletes_order)

lemma leads_mark [leads_intro]: "leads (only_deletes table objects q) (markRetentionDeleted S k)"
  unfolding markRetentionDeleted_def
  by (rule leadsI) (auto simp: only_deletes_def dest: workflow_write_heads keepsD [OF write_keeps_objects])

lemma leads_remove:
  "leads (only_deletes table objects (cf_revisionBucketName cfg, w_objectKey x, v)) (remove_version S cfg k x v env i)"
  unfolding remove_version_def canDeleteVersion_def deleteVersion_def Let_def
  by (intro leads_intro only_deletes_order) (simp add: leads_delete)

lemma retire_run:
  assumes "retire S cfg stored w = (r, w')"
  shows "head_of (table w') = head_of (table w)
    \<and> (\<forall>q d. objects w q = Some d \<longrightarrow> objects w' q \<noteq> Some d \<longrightarrow>
         superseded cfg (head_of (table w)) stored q)"
proof (cases "w_s3VersionId (snd stored) = None \<or> secretIdentityFromPk (fst (fst stored)) = None")
  case True
  with assms show ?thesis by (auto simp: retire_def split: prod.splits option.splits)
next
  case False
  obtain pk sk x where k: "stored = ((pk, sk), x)" by (metis surj_pair)
  with False obtain v u where vu: "w_s3VersionId x = Some v" "secretIdentityFromPk pk = Some u" by auto
  obtain r1 w1 where h: "getHeadBySecretUid S u w = (r1, w1)" by fastforce
  have keep: "keeps table (getHeadBySecretUid S u)" "keeps objects (getHeadBySecretUid S u)"
    by (intro keeps_intro)+
  have same: "table w1 = table w" "objects w1 = objects w"
    using keepsD [OF keep(1) h] keepsD [OF keep(2) h] by auto
  show ?thesis
  proof (cases r1)
    case (Inl e)
    with assms h vu k have "w' = w1" by (simp add: retire_def bindM_def)
    with same show ?thesis by simp
  next
    case (Inr head)
    then have head: "head = head_of (table w) u" using getHeadBySecretUid_value h by blast
    from assms h vu k Inr have run: "(case retention_names head x of None \<Rightarrow> ret ()
        | Some (environment, secretId) \<Rightarrow> if isCurrent sk head then ret ()
            else remove_version S cfg (pk, sk) x v environment secretId) w1 = (r, w')"
      by (simp add: retire_def bindM_def)
    show ?thesis
    proof (cases "retention_names head x = None \<or> isCurrent sk head")
      case True
      with run have "w' = w1" by (auto split: option.splits)
      with same show ?thesis by simp
    next
      case False
      then obtain env i where "remove_version S cfg (pk, sk) x v env i w1 = (r, w')"
        using run by (auto split: option.splits)
      from leadsD [OF leads_remove this] False same vu head k show ?thesis
        by (auto simp: only_deletes_def superseded_def)
    qed
  qed
qed

lemma retire_all:
  assumes "forM (retire S cfg) ws w = (r, w')"
  shows "head_of (table w') = head_of (table w)
    \<and> (\<forall>q d. objects w q = Some d \<longrightarrow> objects w' q \<noteq> Some d \<longrightarrow>
         (\<exists>stored \<in> set ws. superseded cfg (head_of (table w)) stored q))"
  using assms
proof (induction ws arbitrary: w)
  case (Cons s ws)
  obtain r1 w1 where s: "retire S cfg s w = (r1, w1)" by fastforce
  note first = retire_run [OF s]
  show ?case
  proof (cases r1)
    case (Inl e)
    with s Cons.prems have "w' = w1" by (simp add: thenM_def bindM_def)
    with first show ?thesis by auto
  next
    case (Inr u)
    with s Cons.prems have "forM (retire S cfg) ws w1 = (r, w')" by (simp add: thenM_def bindM_def)
    note rest = Cons.IH [OF this]
    show ?thesis
    proof (intro conjI allI impI)
      show "head_of (table w') = head_of (table w)" using first rest by simp
      fix q d assume q: "objects w q = Some d" "objects w' q \<noteq> Some d"
      show "\<exists>stored \<in> set (s # ws). superseded cfg (head_of (table w)) stored q"
        using q first rest by (cases "objects w1 q = Some d") (auto simp del: split_paired_All)
    qed
  qed
qed simp

lemma as_workflow_listed:
  assumes "(k, y) \<in> set (List.map_filter as_workflow items)"
  obtains it where "(k, it) \<in> set items" "as_workflow (k, it) = Some (k, y)"
proof -
  from assms obtain p where p: "p \<in> set items" "as_workflow p = Some (k, y)"
    by (auto simp: List.map_filter_def split: option.splits)
  then have "fst p = k" by (cases "snd p") (simp_all add: as_workflow_def)
  then have "p = (k, snd p)" by (cases p) simp
  with p that [of "snd p"] show thesis by metis
qed

lemma retention_run:
  assumes "retention S cfg w = (r, w')"
  shows "head_of (table w') = head_of (table w)
    \<and> (\<forall>q d. objects w q = Some d \<longrightarrow> objects w' q \<noteq> Some d \<longrightarrow>
         (\<exists>k x. known w k (WorkflowIt x) \<and> superseded cfg (head_of (table w)) (k, x) q))"
proof -
  obtain r1 w1 where list: "listReadyWorkflows S w = (r1, w1)" by fastforce
  have keep: "keeps table (listReadyWorkflows S)" "keeps objects (listReadyWorkflows S)"
    unfolding listReadyWorkflows_def
    by (intro keeps_intro now_keeps query_keeps now_keeps_objects query_keeps_objects)+
  have same: "table w1 = table w" "objects w1 = objects w" using keepsD [OF keep(1) list] keepsD [OF keep(2) list] by auto
  show ?thesis
  proof (cases r1)
    case (Inl e)
    with assms list same show ?thesis by (simp add: retention_def bindM_def)
  next
    case (Inr ws)
    with assms list have run: "forM (retire S cfg) ws w1 = (r, w')" by (simp add: retention_def bindM_def)
    have listed: "known w k (WorkflowIt y)" if k: "(k, y) \<in> set ws" and v: "w_s3VersionId y \<noteq> None" for k y
    proof -
      obtain now w2 p w3 where q: "sv_now S w = (Inr now, w2)" "sv_query S (ready_query now) w2 = (Inr p, w3)"
        "ws = List.map_filter as_workflow (qp_items p)"
        using list Inr by (auto simp: listReadyWorkflows_def em_ok)
      from k [unfolded q(3)] obtain it where it: "(k, it) \<in> set (qp_items p)" "as_workflow (k, it) = Some (k, y)"
        by (rule as_workflow_listed)
      from it(2) v have "it = WorkflowIt y" by (auto simp: as_workflow_def enrollment_workflow_def split: item.splits)
      with query_known [OF q(2) it(1)] keepsD [OF now_keeps_known q(1)] show ?thesis by simp
    qed
    note all = retire_all [OF run, unfolded same]
    show ?thesis
    proof (intro conjI allI impI)
      fix q d assume "objects w q = Some d" "objects w' q \<noteq> Some d"
      with all obtain s where s: "s \<in> set ws" "superseded cfg (head_of (table w)) s q" by blast
      then have "w_s3VersionId (snd s) \<noteq> None" by (auto simp: superseded_def)
      with listed [of "fst s" "snd s"] s show "\<exists>k x. known w k (WorkflowIt x) \<and> superseded cfg (head_of (table w)) (k, x) q"
        by (intro exI [of _ "fst s"] exI [of _ "snd s"]) simp
    qed (use all in simp)
  qed
qed

end

text \<open>What makes the object versions of revisions distinct: a workflow row names its own.\<close>

definition revisions_apart :: "(dkey \<Rightarrow> item \<Rightarrow> bool) \<Rightarrow> bool" where
  "revisions_apart known \<longleftrightarrow> (\<forall>k x k' x'. known k (WorkflowIt x) \<longrightarrow> known k' (WorkflowIt x') \<longrightarrow>
     w_objectKey x = w_objectKey x' \<longrightarrow> w_s3VersionId x = w_s3VersionId x' \<longrightarrow> w_s3VersionId x \<noteq> None \<longrightarrow> k = k')"

text \<open>C35: retention never deletes what is current. However a run of the retention ends, and however stale
  the index is that lists the versions whose retention has passed, the object version of a control or
  payload revision that the head of its secret names is still stored afterwards, and no head has
  changed. The workflow rows of revisions name different object versions, and a query of the index only
  answers rows that have been stored.\<close>

theorem retention_spares_current:
  assumes "retention_services S table objects known" "revisions_apart (known w)"
    and "retention S cfg w = (r, w')"
    and "known w (secretPk u, sk) (WorkflowIt x)" "w_s3VersionId x = Some v" "isCurrent sk (head_of (table w) u)"
    and "objects w (cf_revisionBucketName cfg, w_objectKey x, v) = Some d" "u \<noteq> []"
  shows "objects w' (cf_revisionBucketName cfg, w_objectKey x, v) = Some d \<and> head_of (table w') = head_of (table w)"
proof -
  note run = retention_services.retention_run [OF assms(1,3)]
  have "objects w' (cf_revisionBucketName cfg, w_objectKey x, v) = Some d"
  proof (rule ccontr)
    assume "objects w' (cf_revisionBucketName cfg, w_objectKey x, v) \<noteq> Some d"
    with run assms(7) obtain k y where y: "known w k (WorkflowIt y)"
      "superseded cfg (head_of (table w)) (k, y) (cf_revisionBucketName cfg, w_objectKey x, v)" by blast
    then obtain u' where u': "secretIdentityFromPk (fst k) = Some u'" "w_s3VersionId y = Some v"
      "w_objectKey y = w_objectKey x" "\<not> isCurrent (snd k) (head_of (table w) u')" by (auto simp: superseded_def)
    have "k = (secretPk u, sk)"
      using assms(2) [unfolded revisions_apart_def, rule_format, OF y(1) assms(4)] u' assms(5) by simp
    moreover from this u'(1) have "u' = u" by (auto simp: secretIdentityFromPk_def secretPk_def Let_def split: if_splits)
    ultimately show False using u'(4) assms(6) by simp
  qed
  with run show ?thesis by blast
qed

lemma map_of_kept_keys: "map_of (filter (\<lambda>p. fst p \<noteq> k) ps) = (map_of ps)(k := None)"
  by (induction ps) auto

interpretation ref_retention:
  retention_services ref_services ref_table ref_objects "\<lambda>w k it. ref_table w k = Some it"
proof (unfold_locales, goal_cases)
  case (1 b key v w r w')
  then show ?case
    by (auto simp: ref_services_def ref_objects_def fun_eq_iff map_of_kept_keys)
next
  case (2 b key d w answer w' q x)
  then consider v where "answer = Inr (Some v)" | "rw_objects w' = rw_objects w"
    by (auto simp: ref_putObject_def Let_def split: if_splits)
  then show ?case
  proof cases
    case 1
    with 2 have "ref_objects w (b, key, v) = None \<and> ref_objects w' = (ref_objects w)((b, key, v) \<mapsto> d)"
      by (intro ref_objects.put_done) simp
    with 2(2) show ?thesis by auto
  qed (use 2(2) in \<open>simp add: ref_objects_def\<close>)
next
  case (4 y w p w' k it)
  then show ?case using ref_query_selects by simp
qed (simp_all add: keeps_def)

text \<open>One secret, whose control revision v0 has been replaced by v1: the object of v0 is removed.\<close>

definition rx_row :: "string \<Rightarrow> string \<Rightarrow> (string \<times> timestamp) option \<Rightarrow> item" where
  "rx_row key versionId due = WorkflowIt \<lparr>w_workflowState = W_READY, w_workflowKind = Some SecretMutation,
     w_operationId = ''op'', w_objectKey = key, w_checksumSha256 = ''sum'', w_expiresAt = 0, w_serialized = None,
     w_s3VersionId = Some versionId, w_workflowDue = None, w_retentionDue = due, w_revision = None\<rparr>"

definition rx_items :: "(dkey \<times> item) list" where
  "rx_items = [((secretPk ''s1'', controlSk ''v0''), rx_row ''k0'' ''o0'' (Some (''RETENTION#DUE'', 500))),
     ((secretPk ''s1'', controlSk ''v1''), rx_row ''k1'' ''o1'' None), (ex_head_key, HeadItem ex_head1)]"

definition rx_world :: ref_world where
  "rx_world = \<lparr>rw_items = rx_items,
     rw_objects = [((''rev'', ''k0'', ''o0''), PemDoc ''old''), ((''rev'', ''k1'', ''o1''), PemDoc ''new'')],
     rw_clock = 1000, rw_counter = 0\<rparr>"

lemma rx_table: "ref_table rx_world = map_of rx_items"
  by (simp add: rx_world_def ref_table_def)

lemma rx_query: "ref_query (ready_query 1000) rx_world = (Inr \<lparr>qp_items =
    [((secretPk ''s1'', controlSk ''v0''), rx_row ''k0'' ''o0'' (Some (''RETENTION#DUE'', 500)))],
    qp_lastEvaluatedKey = None\<rparr>, rx_world)"
  by (simp add: ref_query_def ready_query_def rx_world_def rx_items_def rx_row_def key_defs ex_head_key_def workflow_sat_def)

lemma sx_audit_bucket: "cf_auditBucketName sx_config = ''aud''"
  by (simp add: sx_config_def)

lemma rx_audit:
  assumes "rw_clock w = 1000" "\<forall>p \<in> set (rw_objects w). fst (fst p) = ''rev''"
    and "\<And>i t. ev_at (event i t) = t"
  shows "\<exists>e w'. audit_write ref_services sx_config event None w = (Inr e, w')
    \<and> (\<forall>k v. ref_objects w' (''rev'', k, v) = ref_objects w (''rev'', k, v))"
proof -
  obtain i where fresh: "ref_fresh ''id'' w = (Inr i, ref_tick w)" by (simp add: ref_fresh_def)
  let ?w1 = "ref_tick w"
  let ?e = "event i 1000"
  obtain key where key: "auditObjectKey (cf_auditPrefix sx_config) ?e = Inr key"
    using assms(3) by (simp add: auditObjectKey_def maximumAuditEpochMilliseconds_def Let_def)
  obtain v where v: "v = ''v'' @ show_nat (rw_counter ?w1)" by simp
  let ?w2 = "(ref_tick ?w1)\<lparr>rw_objects := ((''aud'', key, v), AuditDoc ?e) # rw_objects ?w1\<rparr>"
  have "\<not> list_ex (\<lambda>(b, k, v). b = ''aud'' \<and> k = key) (map fst (rw_objects ?w1))"
    using assms(2) by (auto simp: list_ex_iff ref_tick_def)
  then have put: "ref_putObject ''aud'' key (AuditDoc ?e) ?w1 = (Inr (Some v), ?w2)"
    by (simp add: ref_putObject_def Let_def v)
  have "rw_clock ?w1 = 1000" using assms(1) by (simp add: ref_tick_def)
  then have "audit_write ref_services sx_config event None w = (Inr ?e, ?w2)"
    unfolding audit_write_def Let_def
    by (simp add: bindM_def fresh key putImmutable_def thenM_def put sx_audit_bucket)
  moreover have "ref_objects ?w2 (''rev'', k, v) = ref_objects w (''rev'', k, v)" for k v
    by (simp add: ref_objects_def ref_tick_def)
  ultimately show ?thesis by blast
qed

lemma rx_run: "\<exists>w'. retention ref_services sx_config rx_world = (Inr (), w')
    \<and> ref_objects w' (''rev'', ''k0'', ''o0'') = None \<and> ref_objects w' (''rev'', ''k1'', ''o1'') = Some (PemDoc ''new'')"
proof -
  let ?x = "rx_row ''k0'' ''o0'' (Some (''RETENTION#DUE'', 500))"
  obtain x where x: "?x = WorkflowIt x" "w_s3VersionId x = Some ''o0''" "w_objectKey x = ''k0''" "w_workflowState x = W_READY"
    by (simp add: rx_row_def)
  have list: "listReadyWorkflows ref_services rx_world = (Inr [((secretPk ''s1'', controlSk ''v0''), x)], rx_world)"
    using rx_query x(1) by (simp add: listReadyWorkflows_def bindM_def List.map_filter_def as_workflow_def rx_world_def)
  have head: "getHeadBySecretUid ref_services ''s1'' rx_world = (Inr (Some ex_head1), rx_world)"
    by (simp add: getHeadBySecretUid_def bindM_def ref_get_def rx_table rx_items_def ex_head_key_def key_defs)
  let ?w1 = "rx_world\<lparr>rw_objects := [((''rev'', ''k1'', ''o1''), PemDoc ''new'')]\<rparr>"
  have del: "sv_deleteObject ref_services ''rev'' ''k0'' ''o0'' rx_world = (Inr (), ?w1)"
    by (simp add: ref_services_def rx_world_def)
  have "ref_table ?w1 (secretPk ''s1'', controlSk ''v0'') = Some (WorkflowIt x)"
    using x(1) by (simp add: ref_table_def rx_world_def rx_items_def)
  then have "ref_conds [Update (secretPk ''s1'', controlSk ''v0'') f (workflow_sat (\<lambda>x. w_workflowState x = W_READY))]
      (rw_items ?w1)" for f
    using x(4) by (simp add: ref_conds_def ref_table_def)
  then obtain w2 where mark: "markRetentionDeleted ref_services (secretPk ''s1'', controlSk ''v0'') ?w1 = (Inr (), w2)"
    "rw_objects w2 = rw_objects ?w1" "rw_clock w2 = 1000"
    by (simp add: markRetentionDeleted_def ref_write_def rx_world_def)
  obtain e w3 where audit: "audit_write ref_services sx_config (audit_event (w_operationId x) Succeeded (system_actor ''retention'')
      ''revision.retention.delete'' (Some [(''environment'', ''prod''), (''secretId'', ''db/pw''), (''workflow'', controlSk ''v0'')])
      None None None) None w2 = (Inr e, w3)"
    and keep: "\<forall>k v. ref_objects w3 (''rev'', k, v) = ref_objects w2 (''rev'', k, v)"
    using rx_audit [OF mark(3), of "audit_event (w_operationId x) Succeeded (system_actor ''retention'')
      ''revision.retention.delete'' (Some [(''environment'', ''prod''), (''secretId'', ''db/pw''), (''workflow'', controlSk ''v0'')])
      None None None"] mark(2) by (auto simp: audit_event_def)
  have names: "retention_names (Some ex_head1) x = Some (''prod'', ''db/pw'')" by (simp add: retention_names_def)
  have cur: "\<not> isCurrent (controlSk ''v0'') (Some ex_head1)" by (simp add: isCurrent_def controlSk_def)
  have uid: "secretIdentityFromPk (secretPk ''s1'') = Some ''s1''" by (simp add: secretIdentityFromPk_def secretPk_def)
  have "retention ref_services sx_config rx_world = (Inr (), w3)"
    by (simp add: retention_def bindM_def list retire_def x(2) uid head names cur remove_version_def Let_def
        canDeleteVersion_def whenM_def thenM_def deleteVersion_def x(3) del mark(1) audit)
  moreover have "ref_objects w3 (''rev'', ''k0'', ''o0'') = None" "ref_objects w3 (''rev'', ''k1'', ''o1'') = Some (PemDoc ''new'')"
    using keep mark(2) by (simp_all add: ref_objects_def)
  ultimately show ?thesis by blast
qed

lemma retention_spares_current_witness:
  "\<exists>w'. retention ref_services sx_config rx_world = (Inr (), w')
    \<and> ref_objects rx_world (''rev'', ''k0'', ''o0'') = Some (PemDoc ''old'') \<and> ref_objects w' (''rev'', ''k0'', ''o0'') = None
    \<and> ref_objects w' (''rev'', ''k1'', ''o1'') = Some (PemDoc ''new'')"
proof -
  obtain w' where run: "retention ref_services sx_config rx_world = (Inr (), w')"
    "ref_objects w' (''rev'', ''k0'', ''o0'') = None" using rx_run by blast
  let ?known = "\<lambda>k it. ref_table rx_world k = Some it"
  obtain x where x: "rx_row ''k1'' ''o1'' None = WorkflowIt x" "w_s3VersionId x = Some ''o1''" "w_objectKey x = ''k1''"
    by (simp add: rx_row_def)
  have apart: "revisions_apart ?known"
    by (auto simp: revisions_apart_def rx_table rx_items_def rx_row_def split: if_splits)
  have row: "?known (secretPk ''s1'', controlSk ''v1'') (WorkflowIt x)"
    using x(1) by (simp add: rx_table rx_items_def)
  have "head_of (ref_table rx_world) ''s1'' = Some ex_head1"
    by (simp add: head_of_def rx_table rx_items_def ex_head_key_def key_defs)
  then have cur: "isCurrent (controlSk ''v1'') (head_of (ref_table rx_world) ''s1'')"
    by (simp add: isCurrent_def controlSk_def)
  have objects: "ref_objects rx_world (''rev'', ''k0'', ''o0'') = Some (PemDoc ''old'')"
    "ref_objects rx_world (cf_revisionBucketName sx_config, w_objectKey x, ''o1'') = Some (PemDoc ''new'')"
    using x(3) by (simp_all add: ref_objects_def rx_world_def)
  have "ref_objects w' (cf_revisionBucketName sx_config, w_objectKey x, ''o1'') = Some (PemDoc ''new'')
      \<and> head_of (ref_table w') = head_of (ref_table rx_world)"
    using retention_spares_current [where known = "\<lambda>w k it. ref_table w k = Some it" and w = rx_world
        and u = "''s1''" and v = "''o1''" and x = x and S = ref_services and objects = ref_objects,
        OF ref_retention.retention_services_axioms apart run(1) row x(2) cur objects(2)] by simp
  then have "ref_objects w' (''rev'', ''k1'', ''o1'') = Some (PemDoc ''new'')" using x(3) by simp
  with run objects(1) show ?thesis by blast
qed

section \<open>Notifications\<close>

text \<open>Every recipient of a record has been sent its message.\<close>

definition published ::
  "('w \<Rightarrow> (string \<times> NotificationMessage) set) \<Rightarrow> AppConfig \<Rightarrow> 'w \<Rightarrow> NotificationOutboxRecord \<Rightarrow> bool" where
  "published sent cfg w n \<longleftrightarrow>
     (\<forall>c \<in> set (notified_consumers n). (notification_topic cfg c, notification_message n) \<in> sent w)"

text \<open>The messages the broker has accepted; publishing does not touch the table.\<close>

locale notification_services = dynamo S table
  for S :: "'w services" and table :: "'w \<Rightarrow> table" +
  fixes P :: "'w publisher" and sent :: "'w \<Rightarrow> (string \<times> NotificationMessage) set"
  assumes publish_done: "P topic m w = (Inr u, w') \<Longrightarrow> (topic, m) \<in> sent w'"
    and publish_sent: "P topic m w = (r, w') \<Longrightarrow> sent w \<subseteq> sent w'"
    and publish_keeps: "keeps table (P topic m)"
    and write_keeps_sent: "keeps sent (sv_write S a)"
    and now_keeps_sent: "keeps sent (sv_now S)"
begin

lemma publish_all:
  assumes "forM (\<lambda>c. P (f c) m) cs w = (r, w')"
  shows "table w' = table w \<and> sent w \<subseteq> sent w' \<and> (r = Inr () \<longrightarrow> (\<forall>c \<in> set cs. (f c, m) \<in> sent w'))"
  using assms
proof (induction cs arbitrary: w)
  case (Cons c cs)
  obtain r1 w1 where c: "P (f c) m w = (r1, w1)" by fastforce
  note one = publish_sent [OF c] keepsD [OF publish_keeps c]
  show ?case
  proof (cases r1)
    case (Inl e)
    with c Cons.prems have "r = Inl e" "w' = w1" by (auto simp: thenM_def bindM_def)
    with one show ?thesis by simp
  next
    case (Inr u)
    with c Cons.prems have "forM (\<lambda>c. P (f c) m) cs w1 = (r, w')" by (simp add: thenM_def bindM_def)
    from Cons.IH [OF this] one publish_done [OF c [unfolded Inr]] show ?thesis by auto
  qed
qed simp

end

text \<open>The outbox record of an event is no longer pending.\<close>

definition settled :: "table \<Rightarrow> string \<Rightarrow> bool" where
  "settled t e \<longleftrightarrow> (\<forall>n. t (notificationPk e, ''EVENT'') = Some (NotificationIt n) \<longrightarrow> n_status n \<noteq> N_PENDING)"

context notification_services
begin

lemma delivery_committed:
  assumes "committed [Update (notificationPk e, ''EVENT'') (on_notification f) c] t t'"
    and "\<And>n. n_status (f n) = N_DELIVERED"
  shows "settled t' e" "\<And>k. k \<noteq> (notificationPk e, ''EVENT'') \<Longrightarrow> t' k = t k"
proof -
  obtain i where "t' (notificationPk e, ''EVENT'') = Some (on_notification f i)"
    by (rule committed_Update [OF assms(1), of "(notificationPk e, ''EVENT'')" "on_notification f" c]) simp_all
  then show "settled t' e" using assms(2)
    by (cases i) (auto simp: settled_def on_notification_def)
  show "\<And>k. k \<noteq> (notificationPk e, ''EVENT'') \<Longrightarrow> t' k = t k"
    using committed_other [OF assms(1)] by simp
qed

lemma markDelivered_run:
  assumes "markNotificationDelivered S e w = (r, w')"
  shows "(\<forall>k. table w' k \<noteq> table w k \<longrightarrow> k = (notificationPk e, ''EVENT'') \<and> settled (table w') e)
    \<and> sent w' = sent w \<and> (r \<in> range Inr \<longrightarrow> settled (table w') e)"
proof -
  obtain r1 w1 where n1: "sv_now S w = (r1, w1)" by fastforce
  obtain r2 w2 where n2: "sv_now S w1 = (r2, w2)" by fastforce
  have same: "table w1 = table w" "table w2 = table w1" "sent w1 = sent w" "sent w2 = sent w1"
    using now_run [OF n1] now_run [OF n2] keepsD [OF now_keeps_sent n1] keepsD [OF now_keeps_sent n2] by simp_all
  consider "r1 \<in> range Inl" "w' = w1" "r \<in> range Inl" | "r2 \<in> range Inl" "w' = w2" "r \<in> range Inl"
    | now t where "r1 = Inr now" "r2 = Inr t"
    using assms n1 n2 by (cases r1; cases r2) (auto simp: markNotificationDelivered_def bindM_def)
  then show ?thesis
  proof cases
    case (3 now t)
    let ?f = "\<lambda>n. n\<lparr>n_status := N_DELIVERED, n_deliveredAt := Some now, n_ttl := Some (t div 1000 + delivered_lifetime)\<rparr>"
    let ?a = "Update (notificationPk e, ''EVENT'') (on_notification ?f) (notification_sat (\<lambda>n. n_status n = N_PENDING))"
    obtain r3 w3 where wr: "sv_write S ?a w2 = (r3, w3)" by fastforce
    have w': "w' = w3" and r: "r \<in> range Inr \<Longrightarrow> r3 = Inr () \<or> (\<exists>m. r3 = Inl (ConditionalCheckFailed m))"
      using assms n1 n2 3 wr
      by (auto simp: markNotificationDelivered_def bindM_def unless_refused_def catchM_def thenM_def
          isConditionalCheckFailure_def split: sum.splits exn.splits if_splits)
    have sent: "sent w3 = sent w2" using keepsD [OF write_keeps_sent wr] .
    have changed: "settled (table w3) e \<and> (\<forall>k. k \<noteq> (notificationPk e, ''EVENT'') \<longrightarrow> table w3 k = table w2 k)"
      if "committed [?a] (table w2) (table w3)"
      using delivery_committed [OF that] by simp
    have out: "table w3 = table w2 \<or> committed [?a] (table w2) (table w3)"
      by (rule write_cases [OF wr]) auto
    have finished: "settled (table w3) e" if ok: "r \<in> range Inr"
      using r [OF ok]
    proof
      assume "r3 = Inr ()"
      then show ?thesis using changed write_done wr by blast
    next
      assume "\<exists>m. r3 = Inl (ConditionalCheckFailed m)"
      then obtain m where "sv_write S ?a w2 = (Inl (ConditionalCheckFailed m), w3)" using wr by blast
      from write_rejected [OF this] show ?thesis by (auto simp: settled_def split: option.splits)
    qed
    show ?thesis using out changed finished same sent w' by auto
  qed (use same in auto)
qed

lemma notify_run:
  assumes "notify P S cfg n w = (r, w')"
  shows "sent w \<subseteq> sent w'
    \<and> (\<forall>k. table w' k \<noteq> table w k \<longrightarrow> k = (notificationPk (n_eventId n), ''EVENT'') \<and> settled (table w') (n_eventId n)
          \<and> published sent cfg w' n)
    \<and> (r = Inr () \<longrightarrow> published sent cfg w' n \<and> settled (table w') (n_eventId n))"
proof -
  let ?p = "forM (\<lambda>c. P (notification_topic cfg c) (notification_message n)) (notified_consumers n)"
  obtain r1 w1 where p: "?p w = (r1, w1)" by fastforce
  note pub = publish_all [OF p]
  show ?thesis
  proof (cases r1)
    case (Inl e)
    with assms p have "r = Inl e" "w' = w1" by (auto simp: notify_def thenM_def bindM_def)
    with pub show ?thesis by auto
  next
    case (Inr u)
    obtain r2 w2 where m: "markNotificationDelivered S (n_eventId n) w1 = (r2, w2)" by fastforce
    with assms p Inr have w': "w' = w2" "r = Inr () \<Longrightarrow> r2 \<in> range Inr"
      by (cases r2; auto simp: notify_def thenM_def bindM_def)+
    have "published sent cfg w2 n" using pub Inr markDelivered_run [OF m] by (auto simp: published_def)
    with pub markDelivered_run [OF m] w' show ?thesis by auto
  qed
qed

lemma published_mono: "published sent cfg w n \<Longrightarrow> sent w \<subseteq> sent w' \<Longrightarrow> published sent cfg w' n"
  by (auto simp: published_def)

lemma settled_mono:
  assumes "notify P S cfg n w = (r, w')" "settled (table w) e"
  shows "settled (table w') e"
proof (cases "table w' (notificationPk e, ''EVENT'') = table w (notificationPk e, ''EVENT'')")
  case True
  with assms(2) show ?thesis by (simp add: settled_def)
next
  case False
  with notify_run [OF assms(1)] have "notificationPk e = notificationPk (n_eventId n)" "settled (table w') (n_eventId n)"
    by blast+
  then show ?thesis by (simp add: settled_def)
qed

lemma notify_all:
  assumes "forM (notify P S cfg) ns w = (r, w')"
  shows "sent w \<subseteq> sent w'
    \<and> (\<forall>k. table w' k \<noteq> table w k \<longrightarrow> (\<exists>n \<in> set ns. k = (notificationPk (n_eventId n), ''EVENT'') \<and> published sent cfg w' n))
    \<and> (r = Inr () \<longrightarrow> (\<forall>n \<in> set ns. published sent cfg w' n \<and> settled (table w') (n_eventId n)))
    \<and> (\<forall>e. settled (table w) e \<longrightarrow> settled (table w') e)"
  using assms
proof (induction ns arbitrary: w)
  case (Cons n ns)
  obtain r1 w1 where n: "notify P S cfg n w = (r1, w1)" by fastforce
  note one = notify_run [OF n] settled_mono [OF n]
  show ?case
  proof (cases r1)
    case (Inl e)
    with n Cons.prems have "r = Inl e" "w' = w1" by (auto simp: thenM_def bindM_def)
    with one show ?thesis by auto
  next
    case (Inr u)
    with n Cons.prems have "forM (notify P S cfg) ns w1 = (r, w')" by (simp add: thenM_def bindM_def)
    note rest = Cons.IH [OF this]
    show ?thesis
    proof (intro conjI allI impI)
      show "sent w \<subseteq> sent w'" using one(1) rest by blast
      fix k assume k: "table w' k \<noteq> table w k"
      show "\<exists>m \<in> set (n # ns). k = (notificationPk (n_eventId m), ''EVENT'') \<and> published sent cfg w' m"
      proof (cases "table w1 k = table w k")
        case True
        with k rest show ?thesis by (metis list.set_intros(2))
      next
        case False
        with one(1) have "k = (notificationPk (n_eventId n), ''EVENT'')" "published sent cfg w1 n" by blast+
        with rest published_mono show ?thesis by (metis list.set_intros(1))
      qed
    next
      assume "r = Inr ()"
      with one(1) Inr rest published_mono show "\<forall>m \<in> set (n # ns). published sent cfg w' m \<and> settled (table w') (n_eventId m)"
        by auto
    next
      fix e assume "settled (table w) e"
      with one(2) rest show "settled (table w') e" by blast
    qed
  qed
qed simp

end

text \<open>C36: a notification is settled only after it was published. However a run over a batch of stream records
  ends, an outbox record it has changed was pending in the batch, and the broker has accepted the message of
  this record, which names the secret and its versions but holds no value, for every recipient; nothing
  else in the table has changed. A run that returns has published every pending record of the batch to
  all of its recipients, and none of them is pending any more.\<close>

theorem delivered_after_publish:
  assumes "notification_services S table P sent" "notifications P S cfg events w = (r, w')"
  shows "(\<forall>k. table w' k \<noteq> table w k \<longrightarrow> (\<exists>event n. event \<in> set events \<and> pending_outbox event = Some n
        \<and> k = (notificationPk (n_eventId n), ''EVENT'')
        \<and> (\<forall>c \<in> set (notified_consumers n). (notification_topic cfg c, notification_message n) \<in> sent w')))
    \<and> (r = Inr () \<longrightarrow> (\<forall>event n. event \<in> set events \<longrightarrow> pending_outbox event = Some n \<longrightarrow>
        (\<forall>c \<in> set (notified_consumers n). (notification_topic cfg c, notification_message n) \<in> sent w')
        \<and> settled (table w') (n_eventId n)))"
proof -
  have mem: "n \<in> set (List.map_filter pending_outbox events) \<longleftrightarrow> (\<exists>event \<in> set events. pending_outbox event = Some n)" for n
    by (force simp: List.map_filter_def)
  note all = notification_services.notify_all [OF assms(1) assms(2) [unfolded notifications_def]]
  show ?thesis
    using all unfolding published_def mem Bex_def Ball_def by blast
qed

text \<open>A broker on the in-memory services: what it accepted is kept with the objects, under the topic.\<close>

definition message_text :: "NotificationMessage \<Rightarrow> string" where
  "message_text m = enc_strs ([show_nat (nm_schemaVersion m),
     (case nm_kind m of SecretChanged \<Rightarrow> ''c'' | SecretRevoked \<Rightarrow> ''r''),
     nm_secretId m, nm_environment m, nm_controlVersionId m]
     @ (case nm_payloadVersionId m of None \<Rightarrow> [] | Some v \<Rightarrow> [v]))"

definition ref_publish :: "ref_world publisher" where
  "ref_publish topic m = (\<lambda>w. (Inr (),
     w\<lparr>rw_objects := ((''mqtt'', topic, message_text m), PemDoc topic) # rw_objects w\<rparr>))"

definition ref_sent :: "ref_world \<Rightarrow> (string \<times> NotificationMessage) set" where
  "ref_sent w = {(topic, m). (''mqtt'', topic, message_text m) \<in> fst ` set (rw_objects w)}"

interpretation ref_notifications: notification_services ref_services ref_table ref_publish ref_sent
  by unfold_locales (auto simp: ref_publish_def ref_sent_def keeps_def ref_table_def ref_write_def)

definition ox_record :: NotificationOutboxRecord where
  "ox_record = \<lparr>n_eventId = ''e1'', n_consumerIds = Some [''c1'', ''c2''], n_consumerId = None,
     n_secretId = ''db/pw'', n_environment = ''prod'', n_controlVersionId = ''v1'', n_payloadVersionId = None,
     n_kind = SecretChanged, n_createdAt = 900, n_status = N_PENDING, n_deliveredAt = None, n_ttl = None\<rparr>"

definition ox_key :: dkey where
  "ox_key = (notificationPk ''e1'', ''EVENT'')"

definition ox_event :: StreamRecord where
  "ox_event = \<lparr>st_eventName = ''INSERT'', st_newImage = Some (ox_key, NotificationIt ox_record)\<rparr>"

definition ox_world :: ref_world where
  "ox_world = \<lparr>rw_items = [(ox_key, NotificationIt ox_record)], rw_objects = [], rw_clock = 1000, rw_counter = 0\<rparr>"

lemma delivered_after_publish_witness:
  "\<exists>w'. notifications ref_publish ref_services sx_config [ox_event] ox_world = (Inr (), w')
    \<and> n_status ox_record = N_PENDING \<and> settled (ref_table w') ''e1''
    \<and> (''hemlig/c1'', notification_message ox_record) \<in> ref_sent w'
    \<and> (''hemlig/c2'', notification_message ox_record) \<in> ref_sent w'"
proof -
  have pending: "pending_outbox ox_event = Some ox_record"
    by (simp add: pending_outbox_def ox_event_def ox_record_def ox_key_def notificationPk_def)
  have "\<exists>w'. notifications ref_publish ref_services sx_config [ox_event] ox_world = (Inr (), w')"
    using pending
    by (simp add: notifications_def List.map_filter_def notify_def thenM_def bindM_def notified_consumers_def
        ox_record_def ref_publish_def markNotificationDelivered_def unless_refused_def catchM_def ref_write_def
        ref_conds_def ox_world_def ox_key_def)
  then obtain w' where run: "notifications ref_publish ref_services sx_config [ox_event] ox_world = (Inr (), w')" ..
  from delivered_after_publish [OF ref_notifications.notification_services_axioms run] pending
  have "\<forall>c \<in> set (notified_consumers ox_record). (notification_topic sx_config c, notification_message ox_record) \<in> ref_sent w'"
    "settled (ref_table w') (n_eventId ox_record)" by simp_all
  moreover have "n_status ox_record = N_PENDING" "n_eventId ox_record = ''e1''" "notified_consumers ox_record = [''c1'', ''c2'']"
    by (simp_all add: ox_record_def notified_consumers_def)
  ultimately show ?thesis using run by (simp add: notification_topic_def sx_config_def)
qed

section \<open>Recovery\<close>

text \<open>The workflow row under a key is still prepared.\<close>

definition still_prepared :: "table \<Rightarrow> dkey \<Rightarrow> bool" where
  "still_prepared t k \<longleftrightarrow> (\<exists>x. t k = Some (WorkflowIt x) \<and> w_workflowState x = W_PREPARED)"

context dynamo
begin

lemma markRetryable_run:
  assumes "markRetryable S k w = (r, w')"
  shows "head_of (table w') = head_of (table w)
    \<and> (r = Inr False \<longrightarrow> table w' = table w \<and> \<not> still_prepared (table w) k)"
proof -
  let ?a = "Update k (on_workflow (\<lambda>x. x\<lparr>w_workflowState := W_RETRYABLE, w_workflowDue := None\<rparr>))
     (workflow_sat (\<lambda>x. w_workflowState x = W_PREPARED))"
  obtain r1 w1 where wr: "sv_write S ?a w = (r1, w1)" by fastforce
  have w': "w' = w1" and no: "r = Inr False \<Longrightarrow> \<exists>m. r1 = Inl (ConditionalCheckFailed m)"
    using assms wr by (auto simp: markRetryable_def unless_refused_def bindM_def catchM_def thenM_def
        isConditionalCheckFailure_def split: sum.splits exn.splits if_splits)
  have "table w1 = table w \<and> \<not> still_prepared (table w) k" if bad: "r = Inr False"
  proof -
    obtain m where "sv_write S ?a w = (Inl (ConditionalCheckFailed m), w1)" using no [OF bad] wr by blast
    from write_rejected [OF this] show ?thesis by (auto simp: still_prepared_def)
  qed
  with workflow_write_heads [OF wr] w' show ?thesis by simp
qed

lemma mark_all:
  assumes "mapM (\<lambda>item. markRetryable S (fst item)) ws w = (r, w')"
  shows "head_of (table w') = head_of (table w)
    \<and> (\<forall>bs. r = Inr bs \<longrightarrow> \<not> some_in id bs \<longrightarrow>
         table w' = table w \<and> (\<forall>item \<in> set ws. \<not> still_prepared (table w) (fst item)))"
  using assms
proof (induction ws arbitrary: w r w')
  case (Cons item ws)
  obtain r1 w1 where m: "markRetryable S (fst item) w = (r1, w1)" by fastforce
  note one = markRetryable_run [OF m]
  show ?case
  proof (cases r1)
    case (Inl e)
    with m Cons.prems have "r = Inl e" "w' = w1" by (auto simp: bindM_def)
    with one show ?thesis by simp
  next
    case (Inr b)
    obtain r2 w2 where rest: "mapM (\<lambda>item. markRetryable S (fst item)) ws w1 = (r2, w2)" by fastforce
    with m Inr Cons.prems have "w' = w2" "r = (case r2 of Inl e \<Rightarrow> Inl e | Inr bs \<Rightarrow> Inr (b # bs))"
      by (cases r2; auto simp: bindM_def)+
    with Cons.IH [OF rest] one Inr show ?thesis by (cases r2; cases b) auto
  qed
qed simp

end

text \<open>The condition of abortPreparedCreate fails unless the head is that of a prepared create.\<close>

lemma abort_not_committed:
  assumes "head_of t u = Some h" "h_workflowState h \<noteq> Some W_PREPARED"
  shows "\<not> committed (abort_actions e i u operationId) t t'"
proof
  assume com: "committed (abort_actions e i u operationId) t t'"
  have "Delete (secretPk u, ''HEAD'') (\<lambda>i. case i of Some (HeadItem h) \<Rightarrow>
      h_leaseOwner h = Some operationId \<and> h_workflowState h = Some W_PREPARED | _ \<Rightarrow> False)
      \<in> set (abort_actions e i u operationId)" by (simp add: abort_actions_def)
  note d = committed_Delete(1) [OF com this]
  with assms show False by (auto simp: head_of_def as_head_def split: option.splits item.splits)
qed

lemma abort_update_throws:
  assumes "dynamo S table" "abortPreparedCreate S e i u operationId w = (r, w')"
    and "head_of (table w) u = Some h" "h_workflowState h \<noteq> Some W_PREPARED"
  shows "table w' = table w \<and> (\<exists>e. r = Inl e)"
proof -
  note not = abort_not_committed [OF assms(3,4)]
  have "table w' = table w"
    using movesD [OF dynamo.abortPreparedCreate_moves [OF assms(1)] assms(2)] not by auto
  moreover have "\<exists>e. r = Inl e"
    using dynamo.abortPreparedCreate_true [OF assms(1), of e i u operationId w _ w'] assms(2) not by (cases r) auto
  ultimately show ?thesis by blast
qed

text \<open>C37: the recovery stops at the first expired update. When a workflow of an update has expired, so that the
  head of its secret exists and is not that of a create, and one of its rows is still prepared, then the
  recovery of this operation throws, because abortPreparedCreate does, and leaves every head as it was, the
  lease of this one included; and the recovery of the operations after it does not begin.\<close>

theorem recovery_stops_at_update:
  assumes "dynamo S table"
    and "recover_operation pages S cfg G (operationId, workflow # rest) w = (r, w')"
    and "w_workflowKind (snd workflow) \<noteq> Some ConsumerEnrollment"
    and "secretIdentityFromPk (fst (fst workflow)) = Some u"
    and "head_of (table w) u = Some h" "h_workflowState h \<noteq> Some W_PREPARED"
    and "\<exists>item \<in> set (workflow # rest). still_prepared (table w) (fst item)"
  shows "\<exists>e. r = Inl e \<and> head_of (table w') = head_of (table w)
    \<and> forM (recover_operation pages S cfg G) ((operationId, workflow # rest) # later) w = (Inl e, w')"
proof -
  let ?ws = "workflow # rest"
  have run: "recover_mutation S cfg operationId ?ws workflow w = (r, w')"
    using assms(2,3) by (simp add: recover_operation_def)
  obtain r1 w1 where m: "mapM (\<lambda>item. markRetryable S (fst item)) ?ws w = (r1, w1)" by fastforce
  note marked = dynamo.mark_all [OF assms(1) m]
  have "\<exists>e. r = Inl e \<and> head_of (table w') = head_of (table w)"
  proof (cases r1)
    case (Inl e)
    with run m marked show ?thesis by (auto simp add: recover_mutation_def bindM_def simp del: mapM.simps)
  next
    case (Inr bs)
    with marked assms(7) have some: "some_in id bs" by blast
    obtain r2 w2 where g: "getHeadBySecretUid S u w1 = (r2, w2)" by fastforce
    have reads: "keeps table (getHeadBySecretUid S u)" by (rule dynamo.reads_keep_table(2) [OF assms(1)])
    have same: "table w2 = table w1" using keepsD [OF reads g] .
    show ?thesis
    proof (cases r2)
      case (Inl e)
      with run m \<open>r1 = Inr bs\<close> some g assms(4) same marked show ?thesis
        by (auto simp add: recover_mutation_def bindM_def simp del: mapM.simps)
    next
      case (Inr found)
      have "found = head_of (table w1) u" using dynamo.getHeadBySecretUid_value [OF assms(1)] g Inr by blast
      then have found: "found = Some h" using marked assms(5) by simp
      obtain r3 w3 where a: "abortPreparedCreate S (h_environment h) (h_secretId h) u operationId w2 = (r3, w3)" by fastforce
      have "head_of (table w2) u = Some h" using same marked assms(5) by simp
      from abort_update_throws [OF assms(1) a this assms(6)] obtain e where "table w3 = table w2" "r3 = Inl e" by blast
      then show ?thesis
        using run m \<open>r1 = Inr bs\<close> some g Inr found a assms(4) same marked
        by (auto simp add: recover_mutation_def bindM_def simp del: mapM.simps)
    qed
  qed
  with assms(2) show ?thesis by (auto simp: thenM_def bindM_def)
qed

text \<open>An operation op2 holds the lease of the secret s1 and left a prepared revision before it died.\<close>

definition ry_row :: WorkflowItem where
  "ry_row = \<lparr>w_workflowState = W_PREPARED, w_workflowKind = Some SecretMutation,
     w_operationId = ''op2'', w_objectKey = ''k2'', w_checksumSha256 = ''sum'', w_expiresAt = 0, w_serialized = None,
     w_s3VersionId = None, w_workflowDue = None, w_retentionDue = None, w_revision = None\<rparr>"

definition ry_head :: HeadRecord where
  "ry_head = ex_head1\<lparr>h_leaseOwner := Some ''op2''\<rparr>"

definition ry_world :: ref_world where
  "ry_world = \<lparr>rw_items = [((secretPk ''s1'', controlSk ''v2''), WorkflowIt ry_row), (ex_head_key, HeadItem ry_head)],
     rw_objects = [], rw_clock = 1000, rw_counter = 0\<rparr>"

lemma recovery_stops_at_update_witness:
  "\<exists>e w'. forM (recover_operation 1 ref_services sx_config ref_gateway)
        [(''op2'', [((secretPk ''s1'', controlSk ''v2''), ry_row)]), (''op3'', [])] ry_world = (Inl e, w')
      \<and> head_of (ref_table w') ''s1'' = Some ry_head \<and> h_leaseOwner ry_head = Some ''op2''"
proof -
  obtain r w' where run: "recover_operation 1 ref_services sx_config ref_gateway
      (''op2'', ((secretPk ''s1'', controlSk ''v2''), ry_row) # []) ry_world = (r, w')" by fastforce
  have uid: "secretIdentityFromPk (secretPk ''s1'') = Some ''s1''" by (simp add: secretIdentityFromPk_def secretPk_def)
  have head: "head_of (ref_table ry_world) ''s1'' = Some ry_head"
    by (simp add: head_of_def ref_table_def ry_world_def ex_head_key_def key_defs)
  have row: "still_prepared (ref_table ry_world) (secretPk ''s1'', controlSk ''v2'')"
    by (simp add: still_prepared_def ref_table_def ry_world_def ry_row_def)
  have ready: "h_workflowState ry_head \<noteq> Some W_PREPARED"
    by (simp add: ry_head_def ex_head1_def complete_head_def Let_def)
  have "\<exists>e. r = Inl e \<and> head_of (ref_table w') = head_of (ref_table ry_world)
      \<and> forM (recover_operation 1 ref_services sx_config ref_gateway)
        ((''op2'', ((secretPk ''s1'', controlSk ''v2''), ry_row) # []) # [(''op3'', [])]) ry_world = (Inl e, w')"
    by (rule recovery_stops_at_update [where u = "''s1''" and h = ry_head, OF ref_dynamo.dynamo_axioms run])
      (simp_all add: uid head row ready ry_row_def)
  with head show ?thesis by (auto simp: ry_head_def)
qed

end
