(* ===== verification/Spec2Isabelle.thy ===== *)
theory Spec2Isabelle
  imports Prelude Text_Ops Domain Services Contracts Keys Reference Sync_Index Repository Mutation
    Mutation_Laws Protocol Examples Protocol_Runs Mutation_Properties Validation Validation_Properties
    Cursors Cursor_Properties Envelope Catalog Catalog_Properties Config Secrets Secrets_Laws
    Secret_Examples Secrets_Properties Agents Agent_Examples Agent_Properties Agent_Sync Agent_Sync_Properties
    Enrollment Enrollment_Protocol Issuer Consumers Truststore_Properties Consumer_Properties
    Enrollment_Examples Enrollment_Properties Agent_Grants Agent_Grant_Examples Agent_Grant_Properties
    Actors Actor_Properties Calendar Audit_Archive Audit_Properties Workflows Workflow_Properties
begin

text \<open>Verification development of Hemlig.\<close>

end
